(* ===== verification/Prelude.thy ===== *)
theory Prelude
  imports Main "HOL-Library.Word"
begin

text \<open>
  Shared vocabulary of the development: the machine integers of the Rust code, the Cargo
  build profile that decides what an arithmetic overflow does, the outcome of a Rust call
  (a value, an error value, a panic or undefined behaviour), the checked \<open>usize\<close>
  operations, and the generic lemmas on lists and words that the component theories use.
\<close>

unbundle bit_operations_syntax

named_theorems outcome_simps \<open>evaluation rules for outcomes\<close>
named_theorems usize_simps \<open>checked usize arithmetic that cannot overflow\<close>

section \<open>Machine integers\<close>

type_synonym u8 = "8 word"
type_synonym u16 = "16 word"
type_synonym u32 = "32 word"
type_synonym u64 = "64 word"
type_synonym u128 = "128 word"

text \<open>
  A \<open>usize\<close> (64 bits: the engine is built for x86-64 Linux) is a \<^typ>\<open>nat\<close> below
  \<open>usize_limit\<close>; every operation that can leave the range goes through the checked
  operations below.
\<close>

type_synonym usize = nat

definition usize_limit :: nat where
  "usize_limit = 2 ^ 64"

text \<open>\<open>x as isize\<close> for a \<open>usize\<close> value: the two's complement reading.\<close>

definition as_isize :: "usize \<Rightarrow> int" where
  "as_isize n = (if n < 2 ^ 63 then int n else int n - 2 ^ 64)"

section \<open>Profiles and outcomes\<close>

text \<open>
  Cargo's \<open>dev\<close> profile compiles arithmetic with overflow checks (a panic), the
  \<open>release\<close> profile without (wrap-around). The workspace overrides neither.
\<close>

datatype profile = Dev | Release

datatype panic =
    ArithOverflow
  | AssertionFailed
  | IndexOutOfBounds
  | UnwrapFailed
  | NotImplemented

text \<open>
  What a Rust call does: return a value (\<open>Ok\<close>), return an error (\<open>Err\<close>), panic,
  or perform an operation whose behaviour is undefined (an access outside an allocation).
\<close>

datatype ('e, 'a) outcome = Ok 'a | Err 'e | Panic panic | UB

fun and_then :: "('e, 'a) outcome \<Rightarrow> ('a \<Rightarrow> ('e, 'b) outcome) \<Rightarrow> ('e, 'b) outcome" where
  "and_then (Ok x) f = f x"
| "and_then (Err e) f = Err e"
| "and_then (Panic k) f = Panic k"
| "and_then UB f = UB"

text \<open>The same with a state that is returned as it is when the call does not succeed.\<close>

fun with_ok ::
  "'s \<Rightarrow> ('e, 'a) outcome \<Rightarrow> ('a \<Rightarrow> 's \<times> ('e, 'b) outcome) \<Rightarrow> 's \<times> ('e, 'b) outcome" where
  "with_ok s (Ok x) f = f x"
| "with_ok s (Err e) f = (s, Err e)"
| "with_ok s (Panic k) f = (s, Panic k)"
| "with_ok s UB f = (s, UB)"

fun map_err :: "('e \<Rightarrow> 'f) \<Rightarrow> ('e, 'a) outcome \<Rightarrow> ('f, 'a) outcome" where
  "map_err g (Ok x) = Ok x"
| "map_err g (Err e) = Err (g e)"
| "map_err g (Panic k) = Panic k"
| "map_err g UB = UB"

fun is_ok :: "('e, 'a) outcome \<Rightarrow> bool" where
  "is_ok (Ok x) = True"
| "is_ok _ = False"

text \<open>
  \<open>ensure!(cond, e)\<close> returns early with the error unless the condition holds; \<open>ret\<close> is what
  \<open>return Err(e.into())\<close> makes of the call, \<open>rest\<close> the rest of the function.
\<close>

definition ensure :: "bool \<Rightarrow> 'r \<Rightarrow> 'r \<Rightarrow> 'r" where
  [simp]: "ensure cond ret rest = (if \<not> cond then ret else rest)"

text \<open>A call is \<open>graceful\<close> if it ends in a value or an error value.\<close>

fun graceful :: "('e, 'a) outcome \<Rightarrow> bool" where
  "graceful (Ok x) = True"
| "graceful (Err e) = True"
| "graceful (Panic k) = False"
| "graceful UB = False"

lemma is_ok_conv: "is_ok r \<longleftrightarrow> (\<exists>x. r = Ok x)"
  by (cases r) auto

lemma and_then_Ok_iff [outcome_simps]:
  "and_then r f = Ok y \<longleftrightarrow> (\<exists>x. r = Ok x \<and> f x = Ok y)"
  by (cases r) auto

lemma graceful_and_then [intro]:
  "graceful r \<Longrightarrow> (\<And>x. r = Ok x \<Longrightarrow> graceful (f x)) \<Longrightarrow> graceful (and_then r f)"
  by (cases r) auto

section \<open>Checked usize arithmetic\<close>

definition usize_add :: "profile \<Rightarrow> usize \<Rightarrow> usize \<Rightarrow> ('e, usize) outcome" where
  "usize_add p a b =
     (if a + b < usize_limit then Ok (a + b)
      else case p of Dev \<Rightarrow> Panic ArithOverflow | Release \<Rightarrow> Ok ((a + b) mod usize_limit))"

definition usize_sub :: "profile \<Rightarrow> usize \<Rightarrow> usize \<Rightarrow> ('e, usize) outcome" where
  "usize_sub p a b =
     (if b \<le> a then Ok (a - b)
      else case p of Dev \<Rightarrow> Panic ArithOverflow
                   | Release \<Rightarrow> Ok ((a + usize_limit - b) mod usize_limit))"

definition usize_mul :: "profile \<Rightarrow> usize \<Rightarrow> usize \<Rightarrow> ('e, usize) outcome" where
  "usize_mul p a b =
     (if a * b < usize_limit then Ok (a * b)
      else case p of Dev \<Rightarrow> Panic ArithOverflow | Release \<Rightarrow> Ok ((a * b) mod usize_limit))"

definition usize_pow :: "profile \<Rightarrow> usize \<Rightarrow> nat \<Rightarrow> ('e, usize) outcome" where
  "usize_pow p a n =
     (if a ^ n < usize_limit then Ok (a ^ n)
      else case p of Dev \<Rightarrow> Panic ArithOverflow | Release \<Rightarrow> Ok ((a ^ n) mod usize_limit))"

text \<open>The same for the fixed-width unsigned types, on words.\<close>

definition word_add :: "profile \<Rightarrow> 'w::len word \<Rightarrow> 'w word \<Rightarrow> ('e, 'w word) outcome" where
  "word_add p a b =
     (if unat a + unat b < 2 ^ LENGTH('w) then Ok (a + b)
      else case p of Dev \<Rightarrow> Panic ArithOverflow | Release \<Rightarrow> Ok (a + b))"

definition word_sub :: "profile \<Rightarrow> 'w::len word \<Rightarrow> 'w word \<Rightarrow> ('e, 'w word) outcome" where
  "word_sub p a b =
     (if b \<le> a then Ok (a - b)
      else case p of Dev \<Rightarrow> Panic ArithOverflow | Release \<Rightarrow> Ok (a - b))"

lemma usize_add_Ok [usize_simps]: "a + b < usize_limit \<Longrightarrow> usize_add p a b = Ok (a + b)"
  by (simp add: usize_add_def)

lemma usize_sub_Ok [usize_simps]: "b \<le> a \<Longrightarrow> usize_sub p a b = Ok (a - b)"
  by (simp add: usize_sub_def)

lemma usize_mul_Ok [usize_simps]: "a * b < usize_limit \<Longrightarrow> usize_mul p a b = Ok (a * b)"
  by (simp add: usize_mul_def)

lemma usize_pow_Ok [usize_simps]: "a ^ n < usize_limit \<Longrightarrow> usize_pow p a n = Ok (a ^ n)"
  by (simp add: usize_pow_def)

lemma word_add_Ok [usize_simps]:
  "unat a + unat b < 2 ^ LENGTH('w) \<Longrightarrow> word_add p (a :: 'w::len word) b = Ok (a + b)"
  by (simp add: word_add_def)

lemma word_sub_Ok [usize_simps]: "b \<le> a \<Longrightarrow> word_sub p a b = Ok (a - b)"
  by (simp add: word_sub_def)

lemma usize_add_no_err [simp]: "usize_add p a b \<noteq> Err e" "usize_add p a b \<noteq> UB"
  by (auto simp: usize_add_def split: profile.splits)

lemma usize_sub_no_err [simp]: "usize_sub p a b \<noteq> Err e" "usize_sub p a b \<noteq> UB"
  by (auto simp: usize_sub_def split: profile.splits)

lemma mod_diff_small:
  fixes k n m :: nat
  assumes "k \<le> n mod m"
  shows "(n - k) mod m = n mod m - k"
proof (cases "m = 0")
  case False
  have "n - k = (n mod m - k) + m * (n div m)"
    using assms mod_mult_div_eq [of n m] by linarith
  moreover have "n mod m - k < m" using False by (simp add: less_imp_diff_less)
  ultimately show ?thesis by (simp add: mod_less)
qed simp

lemma unat_u16_less: "unat (w :: u16) < 65536"
  using unsigned_less [of w, where 'a = nat] by simp

lemma unat_u16_limit [usize_simps]: "unat (w :: u16) < usize_limit"
  by (rule less_trans [OF unat_u16_less]) (simp add: usize_limit_def)

section \<open>Sorting and removing duplicates\<close>

text \<open>
  \<open>sort()\<close> followed by \<open>dedup()\<close> on a vector gives the elements in increasing order, each
  once.
\<close>

lemma sorted_dedup_strict: "sorted xs \<Longrightarrow> sorted_wrt (<) (remdups_adj xs)"
  for xs :: "'a::linorder list"
proof (induction xs rule: remdups_adj.induct)
  case (3 x y xs)
  show ?case
  proof (cases "x = y")
    case False
    with "3.prems" have "x < y" "\<forall>z \<in> set (y # xs). y \<le> z" by auto
    then have "\<forall>z \<in> set (y # xs). x < z" by fastforce
    with 3 False show ?thesis by simp
  qed (use 3 in simp)
qed simp_all

lemma sort_dedup_set: "remdups_adj (sort xs) = sorted_list_of_set (set xs)"
  for xs :: "'a::linorder list"
proof (rule sorted_distinct_set_unique)
  have "sorted_wrt (<) (remdups_adj (sort xs))" by (simp add: sorted_dedup_strict)
  then show "sorted (remdups_adj (sort xs))" "distinct (remdups_adj (sort xs))"
    by (simp_all add: strict_sorted_iff)
qed simp_all

section \<open>Lists as memory\<close>

text \<open>
  A buffer is a byte list. \<open>mem_read\<close> and \<open>mem_write\<close> access a range of it and
  \<open>mem_move\<close> is \<open>ptr::copy\<close> (overlapping ranges allowed): an access outside the
  buffer is \<open>None\<close>.
\<close>

definition mem_read :: "'a list \<Rightarrow> nat \<Rightarrow> nat \<Rightarrow> 'a list option" where
  "mem_read mem pos n = (if pos + n \<le> length mem then Some (take n (drop pos mem)) else None)"

definition mem_write :: "'a list \<Rightarrow> nat \<Rightarrow> 'a list \<Rightarrow> 'a list option" where
  "mem_write mem pos bs =
     (if pos + length bs \<le> length mem
      then Some (take pos mem @ bs @ drop (pos + length bs) mem) else None)"

definition mem_move :: "'a list \<Rightarrow> nat \<Rightarrow> nat \<Rightarrow> nat \<Rightarrow> 'a list option" where
  "mem_move mem src dst n =
     (case mem_read mem src n of None \<Rightarrow> None | Some bs \<Rightarrow> mem_write mem dst bs)"

lemma mem_write_length: "mem_write mem pos bs = Some mem' \<Longrightarrow> length mem' = length mem"
  by (auto simp: mem_write_def split: if_splits)

lemma mem_read_write: "mem_write mem pos bs = Some mem' \<Longrightarrow> mem_read mem' pos (length bs) = Some bs"
  by (auto simp: mem_write_def mem_read_def split: if_splits)

lemma mem_move_length: "mem_move mem src dst n = Some mem' \<Longrightarrow> length mem' = length mem"
  by (auto simp: mem_move_def mem_write_length split: option.splits)

lemma mem_move_Some:
  "src + n \<le> length mem \<Longrightarrow> dst + n \<le> length mem \<Longrightarrow>
   mem_move mem src dst n = Some (take dst mem @ take n (drop src mem) @ drop (dst + n) mem)"
  by (simp add: mem_move_def mem_read_def mem_write_def)

text \<open>
  Moving the tail of a window away from its middle opens a gap; moving it towards the
  middle closes one. The window starts at \<open>d\<close> and holds \<open>n\<close> elements.
\<close>

lemma take_exact: "length xs + length ys = n \<Longrightarrow> take n (xs @ ys @ zs) = xs @ ys"
  by auto

lemma drop_window: "d + k \<le> length mem \<Longrightarrow> drop d (take (d + k) mem @ ys) = take k (drop d mem) @ ys"
  by (simp add: drop_take)

lemma take_drop_window:
  "i + j = n \<Longrightarrow> take j (drop (d + i) mem) = drop i (take n (drop d mem))"
  by (auto simp: drop_take add.commute)

lemma window_open_gap:
  assumes "d + n + len \<le> length mem" "k \<le> n"
  shows "take (n + len) (drop d (take (d + (k + len)) mem @ take (n - k) (drop (d + k) mem) @ zs))
    = take k (take n (drop d mem)) @ take len (drop (d + k) mem) @ drop k (take n (drop d mem))"
proof -
  have a: "take (n - k) (drop (d + k) mem) = drop k (take n (drop d mem))"
    using assms(2) by (intro take_drop_window) simp
  have b: "take (k + len) (drop d mem) = take k (take n (drop d mem)) @ take len (drop (d + k) mem)"
    using assms(2) by (simp add: take_add add.commute min_absorb1)
  have "d + (k + len) \<le> length mem" using assms by simp
  then have "drop d (take (d + (k + len)) mem @ take (n - k) (drop (d + k) mem) @ zs)
      = take (k + len) (drop d mem) @ drop k (take n (drop d mem)) @ zs"
    by (simp only: drop_window a)
  moreover have "length (take (k + len) (drop d mem)) + length (drop k (take n (drop d mem))) = n + len"
    using assms by simp
  ultimately have "take (n + len) (drop d (take (d + (k + len)) mem @ take (n - k) (drop (d + k) mem) @ zs))
      = take (k + len) (drop d mem) @ drop k (take n (drop d mem))"
    by (simp only: take_exact)
  then show ?thesis by (simp only: b append_assoc)
qed

lemma window_close_gap:
  assumes "d + n \<le> length mem" "k + len \<le> n"
  shows "take (n - len) (drop d (take (d + k) mem @ take (n - k - len) (drop (d + (k + len)) mem) @ zs))
    = take k (take n (drop d mem)) @ drop (k + len) (take n (drop d mem))"
proof -
  have a: "take (n - k - len) (drop (d + (k + len)) mem) = drop (k + len) (take n (drop d mem))"
    using assms(2) by (intro take_drop_window) simp
  have b: "take k (drop d mem) = take k (take n (drop d mem))"
    using assms(2) by (simp add: min_absorb1)
  have "d + k \<le> length mem" using assms by simp
  then have "drop d (take (d + k) mem @ take (n - k - len) (drop (d + (k + len)) mem) @ zs)
      = take k (drop d mem) @ drop (k + len) (take n (drop d mem)) @ zs"
    by (simp only: drop_window a)
  moreover have "length (take k (drop d mem)) + length (drop (k + len) (take n (drop d mem))) = n - len"
    using assms by simp
  ultimately show ?thesis by (simp only: take_exact b)
qed

lemma window_write:
  assumes "d + n \<le> length mem" "k + length bs \<le> n"
  shows "take n (drop d (take (d + k) mem @ bs @ drop (d + k + length bs) mem))
    = take k (take n (drop d mem)) @ bs @ drop (k + length bs) (take n (drop d mem))"
proof -
  let ?j = "n - (k + length bs)"
  have a: "take ?j (drop (d + (k + length bs)) mem) = drop (k + length bs) (take n (drop d mem))"
    using assms(2) by (intro take_drop_window) simp
  have b: "take k (drop d mem) = take k (take n (drop d mem))"
    using assms(2) by (simp add: min_absorb1)
  have "d + k \<le> length mem" using assms by simp
  then have *: "drop d (take (d + k) mem @ bs @ drop (d + k + length bs) mem)
      = (take k (drop d mem) @ bs) @ drop (d + (k + length bs)) mem"
    by (simp only: drop_window append_assoc add.assoc)
  have "length (take k (drop d mem) @ bs) = k + length bs" using assms by simp
  then show ?thesis using assms(2) by (simp only: * take_append a b) simp
qed

end
