(* ===== verification/Ffi.thy ===== *)
theory Ffi
  imports Prelude
begin

text \<open>
  The conversions of \<open>engine/src/ffi.rs\<close> between DPDK's C conventions and Rust:
  NUL-terminated strings (\<open>AsStr\<close>, \<open>ToCString\<close>) and return codes or pointers
  (\<open>ToResult\<close>). A Rust \<open>String\<close> is its list of UTF-8 bytes, a raw pointer is a
  \<^typ>\<open>nat\<close> whose null is 0, and a C \<open>int\<close> is a 32-bit word read with
  \<^const>\<open>sint\<close>.
\<close>

type_synonym ptr = nat
type_synonym c_int = "32 word"

section \<open>Strings\<close>

text \<open>
  \<open>CStr::to_str\<close> accepts exactly the well-formed UTF-8 byte sequences
  (\<open>core::str\<close>); the table of byte ranges is the one of the Unicode standard.
\<close>

definition utf8_tail :: "nat \<Rightarrow> bool" where
  "utf8_tail b \<longleftrightarrow> 128 \<le> b \<and> b < 192"

fun utf8_valid :: "nat list \<Rightarrow> bool" where
  "utf8_valid [] = True"
| "utf8_valid (b # bs) =
     (if b < 128 then utf8_valid bs
      else if 194 \<le> b \<and> b < 224 then
        (case bs of c # cs \<Rightarrow> utf8_tail c \<and> utf8_valid cs | _ \<Rightarrow> False)
      else if 224 \<le> b \<and> b < 240 then
        (case bs of
           c # d # ds \<Rightarrow>
             utf8_tail c \<and> utf8_tail d \<and> (b = 224 \<longrightarrow> 160 \<le> c) \<and> (b = 237 \<longrightarrow> c < 160)
               \<and> utf8_valid ds
         | _ \<Rightarrow> False)
      else if 240 \<le> b \<and> b < 245 then
        (case bs of
           c # d # e # es \<Rightarrow>
             utf8_tail c \<and> utf8_tail d \<and> utf8_tail e \<and> (b = 240 \<longrightarrow> 144 \<le> c)
               \<and> (b = 244 \<longrightarrow> c < 144) \<and> utf8_valid es
         | _ \<Rightarrow> False)
      else False)"

definition is_utf8 :: "string \<Rightarrow> bool" where
  "is_utf8 s = utf8_valid (map of_char s)"

abbreviation NUL :: char where
  "NUL \<equiv> CHR 0x00"

text \<open>
  \<open>AsStr::as_str\<close>: the bytes in front of the first NUL of the memory behind the
  pointer, or the empty string (with a warning) if they are no UTF-8. Memory without a NUL
  is read past its end.
\<close>

definition as_str :: "string \<Rightarrow> ('e, string) outcome" where
  "as_str mem =
     (if NUL \<in> set mem
      then let s = takeWhile (\<lambda>c. c \<noteq> NUL) mem in Ok (if is_utf8 s then s else [])
      else UB)"

text \<open>\<open>ToCString::to_cstring\<close>: \<open>CString::new(self).unwrap()\<close> panics on an interior NUL.\<close>

definition to_cstring :: "string \<Rightarrow> ('e, string) outcome" where
  "to_cstring s = (if NUL \<in> set s then Panic UnwrapFailed else Ok (s @ [NUL]))"

section \<open>Return values\<close>

definition nonnull_new :: "ptr \<Rightarrow> ptr option" where
  "nonnull_new r = (if r = 0 then None else Some r)"

text \<open>\<open>ToResult\<close> for \<open>*mut T\<close>, \<open>*const T\<close> and \<open>c_int\<close>.\<close>

definition to_result_mut :: "ptr \<Rightarrow> (ptr \<Rightarrow> 'e) \<Rightarrow> ('e, ptr) outcome" where
  "to_result_mut r f = (case nonnull_new r of Some x \<Rightarrow> Ok x | None \<Rightarrow> Err (f r))"

definition to_result_const :: "ptr \<Rightarrow> (ptr \<Rightarrow> 'e) \<Rightarrow> ('e, ptr) outcome" where
  "to_result_const r f = (if r = 0 then Err (f r) else Ok r)"

definition to_result_int :: "c_int \<Rightarrow> (c_int \<Rightarrow> 'e) \<Rightarrow> ('e, u32) outcome" where
  "to_result_int r f = (if 0 \<le> sint r then Ok r else Err (f r))"

section \<open>Lemmas\<close>

lemma takeWhile_before_NUL: "NUL \<notin> set s \<Longrightarrow> takeWhile (\<lambda>c. c \<noteq> NUL) (s @ NUL # t) = s"
  by (induction s) auto

lemma to_result_int_Ok_iff [outcome_simps]:
  "to_result_int r f = Ok x \<longleftrightarrow> 0 \<le> sint r \<and> x = r"
  by (auto simp: to_result_int_def)

lemma to_result_mut_Ok_iff [outcome_simps]:
  "to_result_mut r f = Ok x \<longleftrightarrow> r \<noteq> 0 \<and> x = r"
  by (auto simp: to_result_mut_def nonnull_new_def)

lemma to_result_mut_eq: "to_result_mut r f = (if r = 0 then Err (f 0) else Ok r)"
  by (simp add: to_result_mut_def nonnull_new_def)

lemma to_result_graceful [simp]:
  "graceful (to_result_mut r f)" "graceful (to_result_const r f)" "graceful (to_result_int c g)"
  by (auto simp: to_result_mut_eq to_result_const_def to_result_int_def)

lemma as_str_cstring:
  assumes "NUL \<notin> set s"
  shows "as_str (s @ NUL # rest) = Ok (if is_utf8 s then s else [])"
  using takeWhile_before_NUL [OF assms] by (simp add: as_str_def Let_def)

lemma is_utf8_ascii: "list_all (\<lambda>c. (of_char c :: nat) < 128) s \<Longrightarrow> is_utf8 s"
  by (induction s) (simp_all add: is_utf8_def)

section \<open>Properties\<close>

text \<open>
  A Rust string survives the way to C and back: \<open>to_cstring\<close> panics exactly if the
  string contains a NUL, and otherwise \<open>as_str\<close> reads the same string back from the
  memory that starts with the produced C string, whatever follows it.
\<close>

lemma cstring_roundtrip:
  assumes "is_utf8 s"
  shows "if NUL \<in> set s then to_cstring s = (Panic UnwrapFailed :: ('e, string) outcome)
    else and_then (to_cstring s) (\<lambda>c. as_str (c @ rest)) = (Ok s :: ('e, string) outcome)"
  using assms by (simp add: to_cstring_def as_str_cstring)

end
