(* ===== verification/Rust_Text.thy ===== *)
theory Rust_Text
  imports Prelude "HOL-Library.Monad_Syntax"
begin

text \<open>
  The parts of Rust's standard library that the engine uses to read and print text:
  \<open>str::split\<close>, \<open>from_str_radix\<close>, \<open>to_string\<close> and the \<open>{:02x}\<close> format of
  unsigned numbers, and the dotted-decimal syntax of \<open>std::net::Ipv4Addr\<close>. The lemmas
  are the round trips the address theories rest on.
\<close>

section \<open>Splitting\<close>

text \<open>\<open>s.split(P)\<close>: the pieces between matching characters, always at least one.\<close>

fun split_on :: "(char \<Rightarrow> bool) \<Rightarrow> string \<Rightarrow> string list" where
  "split_on P [] = [[]]"
| "split_on P (c # cs) =
     (if P c then [] # split_on P cs
      else case split_on P cs of [] \<Rightarrow> [[c]] | x # xs \<Rightarrow> (c # x) # xs)"

lemma split_on_not_Nil [simp]: "split_on P s \<noteq> []"
  by (induction s) (auto split: list.splits)

lemma split_on_none: "list_all (\<lambda>c. \<not> P c) s \<Longrightarrow> split_on P s = [s]"
  by (induction s) auto

lemma split_on_append:
  "list_all (\<lambda>c. \<not> P c) s \<Longrightarrow> P c \<Longrightarrow> split_on P (s @ c # t) = s # split_on P t"
  by (induction s) auto

section \<open>Digits\<close>

definition digit_char :: "nat \<Rightarrow> char" where
  "digit_char d = (if d < 10 then char_of (48 + d) else char_of (87 + d))"

text \<open>\<open>char::to_digit\<close>: decimal digits and letters of either case.\<close>

definition to_digit :: "nat \<Rightarrow> char \<Rightarrow> nat option" where
  "to_digit radix c =
     (let n = of_char c :: nat;
          d = (if 48 \<le> n \<and> n \<le> 57 then n - 48
               else if 97 \<le> n \<and> n \<le> 122 then n - 87
               else if 65 \<le> n \<and> n \<le> 90 then n - 55 else 36)
      in if d < radix \<and> d < 36 then Some d else None)"

fun digits_of :: "nat \<Rightarrow> nat \<Rightarrow> nat list" where
  "digits_of radix n =
     (if radix < 2 \<or> n < radix then [n] else digits_of radix (n div radix) @ [n mod radix])"

declare digits_of.simps [simp del]

definition digits_val :: "nat \<Rightarrow> nat list \<Rightarrow> nat" where
  "digits_val radix ds = foldl (\<lambda>a d. a * radix + d) 0 ds"

lemma digits_val_snoc [simp]: "digits_val r (ds @ [d]) = digits_val r ds * r + d"
  by (simp add: digits_val_def)

lemma digits_val_digits_of: "2 \<le> r \<Longrightarrow> digits_val r (digits_of r n) = n"
proof (induction r n rule: digits_of.induct)
  case (1 r n)
  show ?case
  proof (cases "n < r")
    case True
    then show ?thesis by (subst digits_of.simps) (simp add: digits_val_def)
  next
    case False
    with 1 show ?thesis by (subst digits_of.simps) simp
  qed
qed

lemma digits_of_bound: "2 \<le> r \<Longrightarrow> d \<in> set (digits_of r n) \<Longrightarrow> d < r"
proof (induction r n rule: digits_of.induct)
  case (1 r n)
  show ?case
  proof (cases "n < r")
    case True
    with "1.prems" show ?thesis by (subst (asm) digits_of.simps) simp
  next
    case False
    with 1 show ?thesis by (subst (asm) digits_of.simps) auto
  qed
qed

lemma digits_of_all: "2 \<le> r \<Longrightarrow> list_all (\<lambda>d. d < r) (digits_of r n)"
  by (simp add: list_all_iff digits_of_bound)

lemma digits_of_not_Nil [simp]: "digits_of r n \<noteq> []"
  by (subst digits_of.simps) simp

lemma length_digits_of:
  "2 \<le> r \<Longrightarrow> 0 < k \<Longrightarrow> n < r ^ k \<Longrightarrow> length (digits_of r n) \<le> k"
proof (induction r n arbitrary: k rule: digits_of.induct)
  case (1 r n)
  show ?case
  proof (cases "n < r")
    case True
    with "1.prems" show ?thesis by (subst digits_of.simps) simp
  next
    case False
    with "1.prems" obtain j where k: "k = Suc j" "0 < j"
      by (cases k; cases "k - 1") auto
    with "1.prems" have "n div r < r ^ j"
      by (simp add: less_mult_imp_div_less mult.commute)
    with 1 False k show ?thesis by (subst digits_of.simps) simp
  qed
qed

lemma digits_of_no_leading_zero: "2 \<le> r \<Longrightarrow> hd (digits_of r n) = 0 \<Longrightarrow> digits_of r n = [0]"
proof (induction r n rule: digits_of.induct)
  case (1 r n)
  show ?case
  proof (cases "n < r")
    case True
    then have "digits_of r n = [n]" by (simp add: digits_of.simps [of r n])
    with "1.prems" show ?thesis by simp
  next
    case False
    then have pos: "n div r \<noteq> 0" using "1.prems" by (simp add: div_eq_0_iff)
    from False "1.prems" have "hd (digits_of r (n div r)) = 0"
      by (simp add: digits_of.simps [of r n])
    with 1 False have "digits_of r (n div r) = [0]" by simp
    then have "digits_val r (digits_of r (n div r)) = 0" by (simp add: digits_val_def)
    with pos "1.prems" show ?thesis by (simp add: digits_val_digits_of)
  qed
qed

lemma to_digit_digit_char: "d < r \<Longrightarrow> r \<le> 36 \<Longrightarrow> to_digit r (digit_char d) = Some d"
  by (simp add: to_digit_def digit_char_def Let_def)

section \<open>Numbers as text\<close>

text \<open>\<open>to_string\<close> of an unsigned number and the \<open>{:02x}\<close> format of a byte.\<close>

definition dec_string :: "nat \<Rightarrow> string" where
  "dec_string n = map digit_char (digits_of 10 n)"

definition hex02 :: "u8 \<Rightarrow> string" where
  "hex02 w = [digit_char (unat w div 16), digit_char (unat w mod 16)]"

text \<open>
  \<open>from_str_radix\<close> of an unsigned type with the given number of values: an optional
  plus sign, at least one digit, nothing else, no overflow. \<open>None\<close> is the error.
\<close>

definition from_str_radix :: "nat \<Rightarrow> nat \<Rightarrow> string \<Rightarrow> nat option" where
  "from_str_radix radix limit s =
     (let body = (case s of [] \<Rightarrow> []
                  | c # cs \<Rightarrow> if c = CHR ''+'' \<and> cs \<noteq> [] then cs else s)
      in if body = [] then None
         else case those (map (to_digit radix) body) of
                None \<Rightarrow> None
              | Some ds \<Rightarrow> if digits_val radix ds < limit then Some (digits_val radix ds)
                           else None)"

lemma those_map_Some: "(\<And>x. x \<in> set xs \<Longrightarrow> f x = Some (g x)) \<Longrightarrow> those (map f xs) = Some (map g xs)"
  by (induction xs) auto

lemma those_to_digit_chars:
  "r \<le> 36 \<Longrightarrow> list_all (\<lambda>d. d < r) ds \<Longrightarrow> those (map (to_digit r) (map digit_char ds)) = Some ds"
  by (induction ds) (auto simp: to_digit_digit_char)

lemma digit_char_neq_plus: "d < 36 \<Longrightarrow> digit_char d \<noteq> CHR ''+''"
  using to_digit_digit_char [of d 36] by (auto simp: to_digit_def Let_def)

lemma from_str_radix_digits:
  assumes "r \<le> 36" "list_all (\<lambda>d. d < r) ds" "ds \<noteq> []" "digits_val r ds < limit"
  shows "from_str_radix r limit (map digit_char ds) = Some (digits_val r ds)"
proof -
  obtain d ds' where ds: "ds = d # ds'" using assms(3) by (cases ds) auto
  with assms have "digit_char d \<noteq> CHR ''+''" by (intro digit_char_neq_plus) auto
  with ds those_to_digit_chars [OF assms(1,2)] assms(4) show ?thesis
    by (simp add: from_str_radix_def Let_def)
qed

lemma from_str_radix_dec_string: "n < limit \<Longrightarrow> from_str_radix 10 limit (dec_string n) = Some n"
  unfolding dec_string_def
  by (subst from_str_radix_digits)
     (simp_all add: digits_of_all digits_val_digits_of)

lemma from_str_radix_hex02: "from_str_radix 16 256 (hex02 w) = Some (unat w)"
proof -
  have *: "unat w < 256" using unsigned_less [of w, where 'a = nat] by simp
  then have "unat w div 16 < 16" by simp
  moreover have "digits_val 16 [unat w div 16, unat w mod 16] = unat w"
    by (simp add: digits_val_def)
  ultimately show ?thesis
    using from_str_radix_digits [of 16 "[unat w div 16, unat w mod 16]" 256] *
    by (simp add: hex02_def)
qed

lemma dec_string_chars: "c \<in> set (dec_string n) \<Longrightarrow> (\<exists>d < 10. c = digit_char d)"
  using digits_of_all [of 10 n] by (auto simp: dec_string_def list_all_iff)

lemma dec_string_no_NUL: "CHR 0x00 \<notin> set (dec_string n)"
proof
  assume "CHR 0x00 \<in> set (dec_string n)"
  then obtain d where d: "d < 10" "CHR 0x00 = digit_char d" using dec_string_chars by blast
  then have "to_digit 10 CHR 0x00 = Some d" using to_digit_digit_char [of d 10] by simp
  then show False by (simp add: to_digit_def Let_def)
qed

lemma hex02_chars: "c \<in> set (hex02 w) \<Longrightarrow> \<exists>d < 16. c = digit_char d"
proof -
  assume c: "c \<in> set (hex02 w)"
  have "unat w < 256" using unsigned_less [of w, where 'a = nat] by simp
  then have "unat w div 16 < 16" "unat w mod 16 < 16" by simp_all
  with c show ?thesis unfolding hex02_def set_simps by blast
qed

section \<open>IPv4 addresses as text\<close>

text \<open>
  An \<open>Ipv4Addr\<close> is represented by the \<open>u32\<close> that \<open>u32::from\<close> gives for it
  (its octets in big-endian order), so \<open>u32::from\<close> and \<open>Ipv4Addr::from\<close> are the
  identity. \<open>Ipv4Addr::from_str\<close> is the recursive-descent parser of \<open>std::net\<close>: four
  numbers of one to three digits without a leading zero, separated by dots, and nothing
  after them.
\<close>

type_synonym ipv4addr = u32

definition ipv4_octets :: "ipv4addr \<Rightarrow> nat list" where
  "ipv4_octets a =
     [unat a div 2 ^ 24, unat a div 2 ^ 16 mod 256, unat a div 2 ^ 8 mod 256, unat a mod 256]"

definition ipv4_new :: "nat \<Rightarrow> nat \<Rightarrow> nat \<Rightarrow> nat \<Rightarrow> ipv4addr" where
  "ipv4_new a b c d = of_nat (((a * 256 + b) * 256 + c) * 256 + d)"

definition ipv4_to_string :: "ipv4addr \<Rightarrow> string" where
  "ipv4_to_string a =
     (case map dec_string (ipv4_octets a) of
        [o1, o2, o3, o4] \<Rightarrow> o1 @ CHR ''.'' # o2 @ CHR ''.'' # o3 @ CHR ''.'' # o4
      | _ \<Rightarrow> [])"

definition read_number ::
  "nat \<Rightarrow> nat \<Rightarrow> nat \<Rightarrow> bool \<Rightarrow> string \<Rightarrow> (nat \<times> string) option" where
  "read_number radix limit max_digits zero_prefix s =
     (let ds = map (the \<circ> to_digit radix) (takeWhile (\<lambda>c. to_digit radix c \<noteq> None) s);
          v = digits_val radix ds
      in if ds = [] \<or> max_digits < length ds then None
         else if \<not> zero_prefix \<and> hd ds = 0 \<and> 1 < length ds then None
         else if v < limit then Some (v, drop (length ds) s) else None)"

definition read_char :: "char \<Rightarrow> string \<Rightarrow> string option" where
  "read_char c s = (case s of [] \<Rightarrow> None | x # xs \<Rightarrow> if x = c then Some xs else None)"

definition read_ipv4_addr :: "string \<Rightarrow> (ipv4addr \<times> string) option" where
  "read_ipv4_addr s0 = do {
     (a, s1) \<leftarrow> read_number 10 256 3 False s0;
     s2 \<leftarrow> read_char CHR ''.'' s1;
     (b, s3) \<leftarrow> read_number 10 256 3 False s2;
     s4 \<leftarrow> read_char CHR ''.'' s3;
     (c, s5) \<leftarrow> read_number 10 256 3 False s4;
     s6 \<leftarrow> read_char CHR ''.'' s5;
     (d, s7) \<leftarrow> read_number 10 256 3 False s6;
     Some (ipv4_new a b c d, s7)
   }"

definition ipv4_from_str :: "string \<Rightarrow> ipv4addr option" where
  "ipv4_from_str s = (case read_ipv4_addr s of Some (a, []) \<Rightarrow> Some a | _ \<Rightarrow> None)"

lemma takeWhile_digits:
  assumes "list_all (\<lambda>d. d < r) ds" "r \<le> 36" "rest = [] \<or> to_digit r (hd rest) = None"
  shows "takeWhile (\<lambda>c. to_digit r c \<noteq> None) (map digit_char ds @ rest) = map digit_char ds"
  using assms(1)
proof (induction ds)
  case Nil
  with assms(3) show ?case by (cases rest) auto
next
  case (Cons d ds)
  with assms(2) show ?case by (simp add: to_digit_digit_char)
qed

lemma map_the_to_digit:
  "list_all (\<lambda>d. d < r) ds \<Longrightarrow> r \<le> 36 \<Longrightarrow>
   map (the \<circ> to_digit r) (map digit_char ds) = ds"
  by (induction ds) (auto simp: to_digit_digit_char)

lemma read_number_digits_of:
  assumes "2 \<le> r" "r \<le> 36" "n < limit" "length (digits_of r n) \<le> k"
    and "rest = [] \<or> to_digit r (hd rest) = None"
  shows "read_number r limit k zp (map digit_char (digits_of r n) @ rest) = Some (n, rest)"
proof -
  have all: "list_all (\<lambda>d. d < r) (digits_of r n)" using assms(1) by (rule digits_of_all)
  have tw: "takeWhile (\<lambda>c. to_digit r c \<noteq> None) (map digit_char (digits_of r n) @ rest)
      = map digit_char (digits_of r n)"
    by (rule takeWhile_digits [OF all assms(2,5)])
  have lead: "\<not> (hd (digits_of r n) = 0 \<and> 1 < length (digits_of r n))"
    using digits_of_no_leading_zero [OF assms(1), of n] by auto
  show ?thesis
    unfolding read_number_def tw map_the_to_digit [OF all assms(2)] Let_def
    using assms lead by (simp add: digits_val_digits_of)
qed

lemma read_number_dec_string:
  assumes "n < 256" "rest = [] \<or> to_digit 10 (hd rest) = None"
  shows "read_number 10 256 3 zp (dec_string n @ rest) = Some (n, rest)"
  unfolding dec_string_def
  using assms length_digits_of [of 10 3 n] by (intro read_number_digits_of) auto

lemma ipv4_octets_bound: "x \<in> set (ipv4_octets a) \<Longrightarrow> x < 256"
  using unsigned_less [of a, where 'a = nat] by (auto simp: ipv4_octets_def)

lemma ipv4_new_octets: "ipv4_octets a = [w, x, y, z] \<Longrightarrow> ipv4_new w x y z = a"
proof -
  assume o: "ipv4_octets a = [w, x, y, z]"
  define n where "n = unat a"
  have "((n div 2 ^ 24 * 256 + n div 2 ^ 16 mod 256) * 256 + n div 2 ^ 8 mod 256) * 256
      + n mod 256 = n"
  proof -
    have d: "n div 2 ^ 24 = n div 2 ^ 8 div 256 div 256" "n div 2 ^ 16 = n div 2 ^ 8 div 256"
      "n div 2 ^ 8 = n div 256"
      by (simp_all add: div_mult2_eq [symmetric])
    show ?thesis unfolding d by (simp only: div_mult_mod_eq)
  qed
  with o show ?thesis by (auto simp: ipv4_octets_def ipv4_new_def n_def)
qed

lemma to_digit_dot [simp]: "to_digit 10 CHR ''.'' = None"
  by (simp add: to_digit_def Let_def)

lemma read_ipv4_to_string:
  assumes "rest = [] \<or> to_digit 10 (hd rest) = None"
  shows "read_ipv4_addr (ipv4_to_string a @ rest) = Some (a, rest)"
proof -
  obtain w x y z where o: "ipv4_octets a = [w, x, y, z]" by (simp add: ipv4_octets_def)
  with ipv4_octets_bound [of _ a] have b: "w < 256" "x < 256" "y < 256" "z < 256" by auto
  show ?thesis
    using b assms ipv4_new_octets [OF o]
    by (simp add: ipv4_to_string_def o read_ipv4_addr_def read_char_def read_number_dec_string)
qed

lemma ipv4_from_to_string: "ipv4_from_str (ipv4_to_string a) = Some a"
  using read_ipv4_to_string [of "[]" a] by (simp add: ipv4_from_str_def)

lemma dec_string_no_slash: "list_all (\<lambda>c. c \<noteq> CHR ''/'') (dec_string n)"
proof (simp only: list_all_iff, rule ballI)
  fix c assume "c \<in> set (dec_string n)"
  then obtain d where "d < 10" "c = digit_char d" using dec_string_chars by blast
  with to_digit_digit_char [of d 10] show "c \<noteq> CHR ''/''" by (auto simp: to_digit_def Let_def)
qed

lemma ipv4_to_string_no_slash: "list_all (\<lambda>c. c \<noteq> CHR ''/'') (ipv4_to_string a)"
  using dec_string_no_slash by (simp add: ipv4_to_string_def ipv4_octets_def)

end
