(* ===== verification/Mac.thy ===== *)
theory Mac
  imports Rust_Text
begin

text \<open>
  Ethernet MAC addresses, \<open>engine/src/net/mac.rs\<close>: the six octets, the textual form
  printed by \<open>Display\<close> and the parser of \<open>FromStr\<close>. The parser keeps the pieces that
  parse and drops the others, so it accepts every printed address and also addresses with
  unparsable pieces between the six good ones.
\<close>

type_synonym octets6 = "u8 \<times> u8 \<times> u8 \<times> u8 \<times> u8 \<times> u8"

datatype mac_addr = MacAddr (octets: octets6)

definition UNSPECIFIED :: mac_addr where
  "UNSPECIFIED = MacAddr (0, 0, 0, 0, 0, 0)"

definition mac_new :: "u8 \<Rightarrow> u8 \<Rightarrow> u8 \<Rightarrow> u8 \<Rightarrow> u8 \<Rightarrow> u8 \<Rightarrow> mac_addr" where
  "mac_new a b c d e f = MacAddr (a, b, c, d, e, f)"

definition mac_from_octets :: "octets6 \<Rightarrow> mac_addr" where
  "mac_from_octets os = MacAddr os"

fun mac_to_string :: "mac_addr \<Rightarrow> string" where
  "mac_to_string (MacAddr (a, b, c, d, e, f)) =
     hex02 a @ CHR '':'' # hex02 b @ CHR '':'' # hex02 c @ CHR '':'' #
     hex02 d @ CHR '':'' # hex02 e @ CHR '':'' # hex02 f"

datatype mac_parse_error = MacParseError string

definition mac_separator :: "char \<Rightarrow> bool" where
  "mac_separator c \<longleftrightarrow> c = CHR '':'' \<or> c = CHR ''-''"

text \<open>The octets of the pieces of \<open>s\<close> that parse as hexadecimal bytes, in order.\<close>

definition mac_pieces :: "string \<Rightarrow> u8 list" where
  "mac_pieces s =
     map of_nat (List.map_filter (from_str_radix 16 256) (split_on mac_separator s))"

definition mac_from_str :: "string \<Rightarrow> mac_parse_error + mac_addr" where
  "mac_from_str s =
     (case mac_pieces s of
        [a, b, c, d, e, f] \<Rightarrow> Inr (mac_from_octets (a, b, c, d, e, f))
      | _ \<Rightarrow> Inl (MacParseError s))"

section \<open>Lemmas\<close>

lemma mac_addr_cases:
  obtains a b c d e f where "m = MacAddr (a, b, c, d, e, f)"
  by (cases m) (metis prod_cases6)

lemma not_separator_digit: "d < 16 \<Longrightarrow> \<not> mac_separator (digit_char d)"
  using to_digit_digit_char [of d 16] by (auto simp: mac_separator_def to_digit_def Let_def)

lemma hex02_no_separator: "list_all (\<lambda>c. \<not> mac_separator c) (hex02 w)"
proof (simp only: list_all_iff, rule ballI)
  fix c assume "c \<in> set (hex02 w)"
  then obtain d where "d < 16" "c = digit_char d" using hex02_chars by blast
  then show "\<not> mac_separator c" by (simp add: not_separator_digit)
qed

lemma map_filter_Cons_Some:
  "f x = Some y \<Longrightarrow> List.map_filter f (x # xs) = y # List.map_filter f xs"
  by (simp add: List.map_filter_simps)

lemma mac_pieces_Cons:
  assumes "list_all (\<lambda>c. \<not> mac_separator c) piece" "mac_separator sep"
  shows "mac_pieces (piece @ sep # s) =
    (case from_str_radix 16 256 piece of None \<Rightarrow> mac_pieces s | Some n \<Rightarrow> of_nat n # mac_pieces s)"
  using split_on_append [OF assms]
  by (simp add: mac_pieces_def List.map_filter_simps split: option.splits)

lemma mac_pieces_last:
  assumes "list_all (\<lambda>c. \<not> mac_separator c) piece"
  shows "mac_pieces piece = (case from_str_radix 16 256 piece of None \<Rightarrow> [] | Some n \<Rightarrow> [of_nat n])"
  using split_on_none [OF assms]
  by (simp add: mac_pieces_def List.map_filter_simps split: option.splits)

lemma mac_pieces_hex02:
  "mac_separator sep \<Longrightarrow> mac_pieces (hex02 w @ sep # s) = w # mac_pieces s"
  "mac_pieces (hex02 w) = [w]"
  by (simp_all add: mac_pieces_Cons hex02_no_separator mac_pieces_last from_str_radix_hex02)

lemma mac_separator_colon [simp]: "mac_separator CHR '':''" "mac_separator CHR ''-''"
  by (simp_all add: mac_separator_def)

lemma mac_pieces_to_string:
  "mac_pieces (mac_to_string (MacAddr (a, b, c, d, e, f))) = [a, b, c, d, e, f]"
  by (simp add: mac_pieces_hex02)

lemma mac_pieces_to_string_append:
  assumes "mac_separator sep"
  shows "mac_pieces (mac_to_string (MacAddr (a, b, c, d, e, f)) @ sep # s)
    = [a, b, c, d, e, f] @ mac_pieces s"
  using assms by (simp add: mac_pieces_hex02)

lemma mac_from_str_Inr_iff:
  "mac_from_str s = Inr (MacAddr (a, b, c, d, e, f)) \<longleftrightarrow> mac_pieces s = [a, b, c, d, e, f]"
  by (auto simp: mac_from_str_def mac_from_octets_def split: list.splits)

section \<open>Properties\<close>

text \<open>
  C18: Parsing the printed form of a MAC address gives the address back, for every address,
  and so does parsing it with dashes in place of the colons.
\<close>

theorem mac_text_roundtrip:
  "mac_from_str (mac_to_string m) = Inr m \<and>
   mac_from_str (map (\<lambda>c. if c = CHR '':'' then CHR ''-'' else c) (mac_to_string m)) = Inr m"
proof -
  obtain a b c d e f where m: "m = MacAddr (a, b, c, d, e, f)"
    by (rule mac_addr_cases)
  have dash: "map (\<lambda>c. if c = CHR '':'' then CHR ''-'' else c) (hex02 w) = hex02 w" for w
    using hex02_no_separator [of w] by (intro map_idI) (auto simp: mac_separator_def list_all_iff)
  have "mac_pieces (map (\<lambda>c. if c = CHR '':'' then CHR ''-'' else c) (mac_to_string m))
      = [a, b, c, d, e, f]"
    by (simp add: m dash mac_pieces_hex02)
  then show ?thesis
    using mac_pieces_to_string [of a b c d e f] by (simp add: m mac_from_str_Inr_iff)
qed

text \<open>
  Pieces that are no hexadecimal bytes are dropped, not rejected: a printed address
  followed by a separator and any further text is accepted, as that same address, exactly
  if no piece of the further text is a hexadecimal byte.
\<close>

lemma mac_ignores_bad_pieces:
  assumes "mac_separator sep"
  shows "mac_from_str (mac_to_string m @ sep # junk) = Inr m \<longleftrightarrow>
    list_all (\<lambda>piece. from_str_radix 16 256 piece = None) (split_on mac_separator junk)"
proof -
  obtain a b c d e f where m: "m = MacAddr (a, b, c, d, e, f)"
    by (rule mac_addr_cases)
  have "List.map_filter g xs = [] \<longleftrightarrow> list_all (\<lambda>x. g x = None) xs" for g :: "string \<Rightarrow> nat option" and xs
    by (induction xs) (auto simp: List.map_filter_simps split: option.splits)
  then have "mac_pieces junk = [] \<longleftrightarrow>
      list_all (\<lambda>piece. from_str_radix 16 256 piece = None) (split_on mac_separator junk)"
    by (simp add: mac_pieces_def)
  then show ?thesis
    using mac_pieces_to_string_append [OF assms, of a b c d e f junk]
    by (simp add: m mac_from_str_Inr_iff)
qed

lemma mac_ignores_bad_pieces_witness:
  "mac_from_str (mac_to_string UNSPECIFIED @ ''-zz:1ff'') = Inr UNSPECIFIED"
  using mac_ignores_bad_pieces [of "CHR ''-''" UNSPECIFIED "''zz:1ff''"]
  by (simp add: mac_separator_def from_str_radix_def to_digit_def digits_val_def Let_def)

end
