(* ===== verification/Dpdk.thy ===== *)
theory Dpdk
  imports Ffi Mac
begin

text \<open>
  The common part of the DPDK layer, \<open>engine/src/dpdk/mod.rs\<close>: error values, socket and
  core identifiers, the start and stop of the environment abstraction layer, the MAC
  address of a port and the bulk release of message buffers. Every DPDK or libc function
  is an argument of the definition that calls it; \<open>'e\<close> is the state behind the foreign
  function interface.

  The interface \<open>mempool_put\<close> states what \<open>rte_mempool_put_bulk\<close> promises; under it
  \<open>mbuf_free_bulk\<close> returns every buffer exactly once.
\<close>

section \<open>Errors\<close>

datatype dpdk_error = DpdkError string

text \<open>
  The last error number of the thread (\<open>_rte_errno\<close>) and the error texts
  (\<open>rte_strerror\<close>).
\<close>

record dpdk_errno =
  rte_errno :: c_int
  rte_strerror :: "c_int \<Rightarrow> string"

text \<open>
  \<open>DpdkError::from_errno\<close>. The negation wraps, which differs from the checked one of the
  \<open>dev\<close> profile only at \<open>i32::MIN\<close>, no error number.
\<close>

definition dpdk_error_from_errno :: "dpdk_errno \<Rightarrow> c_int \<Rightarrow> dpdk_error" where
  "dpdk_error_from_errno err errno =
     (let errno' = (if errno = - 1 then rte_errno err else - errno)
      in DpdkError (rte_strerror err errno'))"

definition sample_errno :: dpdk_errno where
  "sample_errno = \<lparr>rte_errno = 12, rte_strerror = (\<lambda>_. ''error'')\<rparr>"

definition dpdk_error_new :: "dpdk_errno \<Rightarrow> dpdk_error" where
  "dpdk_error_new err = dpdk_error_from_errno err (- 1)"

section \<open>Sockets and cores\<close>

datatype socket_id = SocketId (socket_raw: c_int)

definition socket_ANY :: socket_id where
  "socket_ANY = SocketId (- 1)"

definition socket_current :: "u32 \<Rightarrow> socket_id" where
  "socket_current rte_socket_id = SocketId rte_socket_id"

definition socket_all :: "nat \<Rightarrow> (nat \<Rightarrow> c_int) \<Rightarrow> socket_id list" where
  "socket_all rte_socket_count rte_socket_id_by_idx =
     map SocketId (filter (\<lambda>sid. sid \<noteq> - 1) (map rte_socket_id_by_idx [0..<rte_socket_count]))"

datatype core_id = CoreId (core_raw: usize)

definition core_ANY :: core_id where
  "core_ANY = CoreId (usize_limit - 1)"

definition core_new :: "usize \<Rightarrow> core_id" where
  "core_new i = CoreId i"

definition core_socket_id :: "(c_int \<Rightarrow> c_int) \<Rightarrow> core_id \<Rightarrow> socket_id" where
  "core_socket_id numa_node_of_cpu core = SocketId (numa_node_of_cpu (of_nat (core_raw core)))"

text \<open>\<open>CoreId\<close> derives \<open>Ord\<close>: cores are ordered by their number.\<close>

instantiation core_id :: linorder
begin

definition less_eq_core_id :: "core_id \<Rightarrow> core_id \<Rightarrow> bool" where
  "less_eq_core_id a b \<longleftrightarrow> core_raw a \<le> core_raw b"

definition less_core_id :: "core_id \<Rightarrow> core_id \<Rightarrow> bool" where
  "less_core_id a b \<longleftrightarrow> core_raw a < core_raw b"

instance
  by standard
     (auto simp: less_eq_core_id_def less_core_id_def core_id.expand)

end

text \<open>
  \<open>CoreId::set_thread_affinity\<close>: the new value of the thread-local
  \<open>CURRENT_CORE_ID\<close> and the result. \<open>cpu_set\<close> is libc's \<open>CPU_SET\<close> on a zeroed
  set.
\<close>

definition set_thread_affinity ::
  "(usize \<Rightarrow> (dpdk_error, 'set) outcome) \<Rightarrow> ('set \<Rightarrow> c_int) \<Rightarrow> dpdk_errno \<Rightarrow>
   core_id \<Rightarrow> core_id \<Rightarrow> core_id \<times> (dpdk_error, unit) outcome" where
  "set_thread_affinity cpu_set rte_thread_set_affinity err self current =
     with_ok current (cpu_set (core_raw self)) (\<lambda>set.
       with_ok current
         (to_result_int (rte_thread_set_affinity set) (dpdk_error_from_errno err)) (\<lambda>_.
           (self, Ok ())))"

section \<open>Error values of the layer\<close>

text \<open>
  The error enumerations of \<open>mempool.rs\<close>, \<open>mbuf.rs\<close> and \<open>port.rs\<close>, and the type
  \<open>failure::Error\<close> into which \<open>?\<close> and \<open>.into()\<close> convert them. The errors of the
  \<open>zmq\<close> and \<open>serde_json\<close> packages are represented by their texts.
\<close>

datatype mempool_error = Exhausted | NotFound socket_id

datatype buffer_error = BadOffset usize usize | NotResized | OutOfBuffer usize usize

datatype port_error =
    PortNotFound string
  | CoreNotBound
  | InsufficientRxQueues usize
  | InsufficientTxQueues usize

datatype failure =
    DpdkFailure dpdk_error
  | MempoolFailure mempool_error
  | BufferFailure buffer_error
  | PortFailure port_error
  | ZmqFailure string
  | JsonFailure string
  | FormatErr string

section \<open>Environment abstraction layer\<close>

fun to_cstrings :: "string list \<Rightarrow> ('e, string list) outcome" where
  "to_cstrings [] = Ok []"
| "to_cstrings (s # ss) =
     and_then (to_cstring s) (\<lambda>c. and_then (to_cstrings ss) (\<lambda>cs. Ok (c # cs)))"

definition eal_init ::
  "(c_int \<Rightarrow> string list \<Rightarrow> c_int) \<Rightarrow> dpdk_errno \<Rightarrow> string list \<Rightarrow> (dpdk_error, unit) outcome" where
  "eal_init rte_eal_init err args =
     (let len = of_nat (length args)
      in and_then (to_cstrings args) (\<lambda>cargs.
           and_then (to_result_int (rte_eal_init len cargs) (dpdk_error_from_errno err)) (\<lambda>_. Ok ())))"

definition eal_cleanup :: "c_int \<Rightarrow> dpdk_errno \<Rightarrow> (dpdk_error, unit) outcome" where
  "eal_cleanup rte_eal_cleanup err =
     and_then (to_result_int rte_eal_cleanup (dpdk_error_from_errno err)) (\<lambda>_. Ok ())"

text \<open>
  \<open>eth_macaddr_get\<close>: the out parameter starts as the zero address and the return code
  is dropped. \<open>rte_eth_macaddr_get\<close> gives the address the call stores, \<open>None\<close> if it
  fails and stores none.
\<close>

definition eth_macaddr_get :: "(u16 \<Rightarrow> octets6 option) \<Rightarrow> u16 \<Rightarrow> mac_addr" where
  "eth_macaddr_get rte_eth_macaddr_get port_id =
     (let addr = (0, 0, 0, 0, 0, 0)
      in mac_from_octets
           (case rte_eth_macaddr_get port_id of None \<Rightarrow> addr | Some stored \<Rightarrow> stored))"

section \<open>Bulk release of message buffers\<close>

text \<open>
  The loop of \<open>mbuf_free_bulk\<close>: \<open>pool_of\<close> reads the \<open>pool\<close> field behind a buffer
  pointer, \<open>put_bulk\<close> is \<open>_rte_mempool_put_bulk(pool, objs, n)\<close>. The variable
  \<open>pool\<close> is never assigned again after its initialisation.
\<close>

fun free_bulk_loop ::
  "(ptr \<Rightarrow> ptr) \<Rightarrow> (ptr \<Rightarrow> ptr list \<Rightarrow> u32 \<Rightarrow> 'e \<Rightarrow> 'e) \<Rightarrow> ptr \<Rightarrow>
   ptr list \<Rightarrow> ptr list \<Rightarrow> 'e \<Rightarrow> ptr list \<times> 'e" where
  "free_bulk_loop pool_of put_bulk pool to_free [] e = (to_free, e)"
| "free_bulk_loop pool_of put_bulk pool to_free (mbuf # mbufs) e =
     (if pool = pool_of mbuf
      then free_bulk_loop pool_of put_bulk pool (to_free @ [mbuf]) mbufs e
      else free_bulk_loop pool_of put_bulk pool [mbuf] mbufs
             (put_bulk pool to_free (of_nat (length to_free)) e))"

definition mbuf_free_bulk ::
  "(ptr \<Rightarrow> ptr) \<Rightarrow> (ptr \<Rightarrow> ptr list \<Rightarrow> u32 \<Rightarrow> 'e \<Rightarrow> 'e) \<Rightarrow> ptr list \<Rightarrow> 'e \<Rightarrow>
   'e \<times> ('err, unit) outcome" where
  "mbuf_free_bulk pool_of put_bulk mbufs e =
     (case mbufs of
        [] \<Rightarrow> (e, Panic AssertionFailed)
      | first # _ \<Rightarrow>
          (let pool = pool_of first;
               (to_free, e') = free_bulk_loop pool_of put_bulk pool [] mbufs e
           in (put_bulk pool to_free (of_nat (length to_free)) e', Ok ())))"

text \<open>
  What DPDK documents of \<open>rte_mempool_put_bulk\<close>: the first \<open>n\<close> objects of the table go
  back into the given pool. \<open>freed\<close> observes the pairs of pool and object put so far.
\<close>

locale mempool_put =
  fixes put_bulk :: "ptr \<Rightarrow> ptr list \<Rightarrow> u32 \<Rightarrow> 'e \<Rightarrow> 'e"
    and freed :: "'e \<Rightarrow> (ptr \<times> ptr) list"
  assumes freed_put: "freed (put_bulk pool objs n e) = freed e @ map (Pair pool) (take (unat n) objs)"
begin

lemma freed_put_all:
  assumes "length objs < 2 ^ 32"
  shows "freed (put_bulk pool objs (of_nat (length objs)) e) = freed e @ map (Pair pool) objs"
  using assms by (simp add: freed_put unat_of_nat)

lemma freed_loop:
  assumes "length to_free + length mbufs < 2 ^ 32"
    and "free_bulk_loop pool_of put_bulk pool to_free mbufs e = (rest, e')"
  shows "length rest < 2 ^ 32 \<and>
    freed e' @ map (Pair pool) rest = freed e @ map (Pair pool) (to_free @ mbufs)"
  using assms
proof (induction mbufs arbitrary: to_free e)
  case Nil
  then show ?case by simp
next
  case (Cons m ms)
  show ?case
  proof (cases "pool = pool_of m")
    case True
    with Cons.IH [of "to_free @ [m]" e] Cons.prems show ?thesis by simp
  next
    case False
    with Cons.IH [of "[m]" "put_bulk pool to_free (of_nat (length to_free)) e"] Cons.prems
    show ?thesis by (simp add: freed_put_all)
  qed
qed

lemma freed_bulk:
  assumes "mbufs \<noteq> []" "length mbufs < 2 ^ 32"
    and "mbuf_free_bulk pool_of put_bulk mbufs e = (e', r)"
  shows "r = Ok () \<and> freed e' = freed e @ map (Pair (pool_of (hd mbufs))) mbufs"
proof -
  obtain m ms where m: "mbufs = m # ms" using assms(1) by (cases mbufs) auto
  obtain rest e1 where l: "free_bulk_loop pool_of put_bulk (pool_of m) [] mbufs e = (rest, e1)"
    by fastforce
  from freed_loop [OF _ l] assms(2) m
  have "length rest < 2 ^ 32"
    "freed e1 @ map (Pair (pool_of m)) rest = freed e @ map (Pair (pool_of m)) mbufs" by auto
  with assms(3) l m show ?thesis
    by (auto simp: mbuf_free_bulk_def freed_put_all)
qed

lemma freed_bulk_own_pools:
  assumes "mbufs \<noteq> []" "length mbufs < 2 ^ 32"
    and "mbuf_free_bulk pool_of put_bulk mbufs e = (e', r)"
  shows "freed e' = freed e @ map (\<lambda>m. (pool_of m, m)) mbufs
    \<longleftrightarrow> (\<forall>m \<in> set mbufs. pool_of m = pool_of (hd mbufs))"
  using freed_bulk [OF assms] by auto

end

text \<open>
  The reference instance of the interface: the state is the log of the objects put back.
\<close>

definition put_log :: "ptr \<Rightarrow> ptr list \<Rightarrow> u32 \<Rightarrow> (ptr \<times> ptr) list \<Rightarrow> (ptr \<times> ptr) list" where
  "put_log pool objs n l = l @ map (Pair pool) (take (unat n) objs)"

interpretation log: mempool_put put_log "\<lambda>l. l"
  by unfold_locales (simp add: put_log_def)

section \<open>Properties\<close>

text \<open>
  C7: \<open>mbuf_free_bulk\<close> panics on an empty vector. On any other one (of fewer than
  \<open>2 ^ 32\<close> buffers) it puts every buffer back exactly once, in order, into the pool of the
  first buffer; so all buffers return to the pools they came from exactly if they share
  one.
\<close>

theorem mbuf_free_bulk_spec:
  assumes "mempool_put put_bulk freed" "length mbufs < 2 ^ 32"
  shows "case mbuf_free_bulk pool_of put_bulk mbufs e of (e', r :: ('err, unit) outcome) \<Rightarrow>
    if mbufs = [] then r = Panic AssertionFailed \<and> e' = e
    else r = Ok () \<and> freed e' = freed e @ map (Pair (pool_of (hd mbufs))) mbufs \<and>
      (freed e' = freed e @ map (\<lambda>m. (pool_of m, m)) mbufs \<longleftrightarrow>
       list_all (\<lambda>m. pool_of m = pool_of (hd mbufs)) mbufs)"
proof (cases "mbufs = []")
  case True
  then show ?thesis by (simp add: mbuf_free_bulk_def)
next
  case False
  obtain e' and r :: "('err, unit) outcome"
    where "mbuf_free_bulk pool_of put_bulk mbufs e = (e', r)" by fastforce
  with mempool_put.freed_bulk [OF assms(1) False assms(2) this]
    mempool_put.freed_bulk_own_pools [OF assms(1) False assms(2) this] False
  show ?thesis by (auto simp: list_all_iff)
qed

theorem mbuf_free_bulk_spec_witness:
  "mbuf_free_bulk (\<lambda>m. m mod 2) put_log [4, 5, 6] [] = ([(0, 4), (0, 5), (0, 6)], Ok () :: (failure, unit) outcome)"
  using mbuf_free_bulk_spec [OF log.mempool_put_axioms,
      where pool_of = "\<lambda>m. m mod 2" and mbufs = "[4, 5, 6]" and e = "[]"]
  by (auto split: prod.splits)

end
