(* ===== verification/Mempool.thy ===== *)
theory Mempool
  imports Dpdk
begin

text \<open>
  Memory pools, \<open>engine/src/dpdk/mempool.rs\<close>: creation and release of a pool and the
  map from sockets to pools from which ports and cores choose theirs.
\<close>

text \<open>The fields of \<open>rte_mempool\<close> the engine reads.\<close>

record rte_mempool =
  pool_name :: string
  pool_size :: u32
  pool_cache_size :: u32
  pool_flags :: u32
  pool_socket_id :: c_int

text \<open>A \<open>Mempool\<close> owns a non-null pointer to the struct.\<close>

record mempool =
  mempool_ptr :: ptr
  mempool_raw :: rte_mempool

definition RTE_MBUF_DEFAULT_BUF_SIZE :: nat where
  "RTE_MBUF_DEFAULT_BUF_SIZE = 2176"

text \<open>
  \<open>Mempool::new\<close>; \<open>create\<close> is \<open>rte_pktmbuf_pool_create\<close>, which gives the pointer,
  null on failure. The \<open>usize\<close> arguments are cut to C's \<open>unsigned int\<close>.
\<close>

definition mempool_new ::
  "(string \<Rightarrow> u32 \<Rightarrow> u32 \<Rightarrow> u16 \<Rightarrow> u16 \<Rightarrow> c_int \<Rightarrow> ptr) \<Rightarrow> dpdk_errno \<Rightarrow>
   string \<Rightarrow> usize \<Rightarrow> usize \<Rightarrow> socket_id \<Rightarrow> (failure, ptr) outcome" where
  "mempool_new create err name capacity cache_size sid =
     and_then (to_cstring name) (\<lambda>cname.
       to_result_mut
         (create cname (of_nat capacity) (of_nat cache_size) 0 (of_nat RTE_MBUF_DEFAULT_BUF_SIZE)
            (socket_raw sid))
         (\<lambda>_. DpdkFailure (dpdk_error_new err)))"

text \<open>\<open>Mempool::name\<close>: the C string in the \<open>name\<close> array.\<close>

definition mempool_name :: "mempool \<Rightarrow> ('e, string) outcome" where
  "mempool_name pool = as_str (pool_name (mempool_raw pool))"

text \<open>\<open>Drop for Mempool\<close> frees the pool; \<open>free\<close> is \<open>rte_mempool_free\<close>.\<close>

definition mempool_drop :: "(ptr \<Rightarrow> 'e \<Rightarrow> 'e) \<Rightarrow> mempool \<Rightarrow> 'e \<Rightarrow> 'e" where
  "mempool_drop free pool e = free (mempool_ptr pool) e"

section \<open>Pools by socket\<close>

type_synonym mempool_map = "socket_id \<rightharpoonup> mempool"

definition mempool_map_default :: mempool_map where
  "mempool_map_default = Map.empty"

text \<open>
  \<open>MempoolMap::new\<close>: the pairs are collected into a \<open>HashMap\<close> in the order of the
  slice, so a later pool of the same socket replaces an earlier one.
\<close>

definition mempool_map_new :: "mempool list \<Rightarrow> mempool_map" where
  "mempool_map_new mempools =
     fold (\<lambda>pool m. m(SocketId (pool_socket_id (mempool_raw pool)) \<mapsto> pool)) mempools Map.empty"

definition get_raw :: "mempool_map \<Rightarrow> socket_id \<Rightarrow> (failure, ptr) outcome" where
  "get_raw m sid =
     (case m sid of
        None \<Rightarrow> Err (MempoolFailure (NotFound sid))
      | Some pool \<Rightarrow> Ok (mempool_ptr pool))"

section \<open>Lemmas\<close>

lemma fold_update_eq:
  "fold (\<lambda>x m. m(k x \<mapsto> x)) xs m0 s =
     (case find (\<lambda>x. k x = s) (rev xs) of None \<Rightarrow> m0 s | Some x \<Rightarrow> Some x)"
proof (induction xs arbitrary: m0)
  case Nil
  then show ?case by simp
next
  case (Cons x xs)
  have "find P (ys @ [y]) = (case find P ys of None \<Rightarrow> if P y then Some y else None | Some z \<Rightarrow> Some z)"
    for P :: "'a \<Rightarrow> bool" and ys y by (induction ys) auto
  with Cons show ?case by (auto split: option.splits)
qed

lemma mempool_map_new_lookup:
  "mempool_map_new pools sid =
     find (\<lambda>pool. SocketId (pool_socket_id (mempool_raw pool)) = sid) (rev pools)"
  by (simp add: mempool_map_new_def fold_update_eq split: option.splits)

lemma find_Some_set: "find P xs = Some x \<Longrightarrow> x \<in> set xs \<and> P x"
  by (auto simp: find_Some_iff)

lemma find_None_set: "find P xs = None \<longleftrightarrow> (\<forall>x \<in> set xs. \<not> P x)"
  by (auto simp: find_None_iff)

lemma find_rev_split:
  assumes "find P (rev xs) = Some x"
  shows "\<exists>pre post. xs = pre @ x # post \<and> P x \<and> (\<forall>y \<in> set post. \<not> P y)"
  using assms
proof (induction xs rule: rev_induct)
  case (snoc y ys)
  show ?case
  proof (cases "P y")
    case True
    with snoc.prems show ?thesis by (intro exI [of _ ys] exI [of _ "[]"]) simp
  next
    case False
    with snoc obtain pre post where "ys = pre @ x # post" "P x" "\<forall>z \<in> set post. \<not> P z" by auto
    with False show ?thesis by (intro exI [of _ pre] exI [of _ "post @ [y]"]) simp
  qed
qed simp

lemma get_raw_graceful [simp]: "graceful (get_raw m sid)"
  by (simp add: get_raw_def split: option.splits)

lemma get_raw_Ok:
  assumes "get_raw (mempool_map_new pools) sid = Ok r"
  shows "\<exists>pool \<in> set pools. mempool_ptr pool = r \<and> SocketId (pool_socket_id (mempool_raw pool)) = sid"
  using assms by (auto simp: get_raw_def mempool_map_new_lookup split: option.splits dest!: find_Some_set)

lemma get_raw_Err:
  "get_raw (mempool_map_new pools) sid = Err e \<longleftrightarrow>
     e = MempoolFailure (NotFound sid) \<and>
     (\<forall>pool \<in> set pools. SocketId (pool_socket_id (mempool_raw pool)) \<noteq> sid)"
  by (auto simp: get_raw_def mempool_map_new_lookup find_None_set split: option.splits dest!: find_Some_set)

section \<open>Properties\<close>

text \<open>
  Looking up a socket in the map built from a slice of pools gives the last pool of
  the slice that lies on this socket, and the error \<open>NotFound\<close> with the socket exactly if
  there is none; it never panics.
\<close>

lemma mempool_map_lookup:
  "case get_raw (mempool_map_new pools) sid of
     Ok r \<Rightarrow> \<exists>pre pool post. pools = pre @ pool # post \<and> mempool_ptr pool = r \<and>
               SocketId (pool_socket_id (mempool_raw pool)) = sid \<and>
               sid \<notin> (\<lambda>p. SocketId (pool_socket_id (mempool_raw p))) ` set post
   | Err e \<Rightarrow> e = MempoolFailure (NotFound sid) \<and>
               sid \<notin> (\<lambda>p. SocketId (pool_socket_id (mempool_raw p))) ` set pools
   | _ \<Rightarrow> False"
proof (cases "mempool_map_new pools sid")
  case None
  then have "\<forall>p \<in> set pools. SocketId (pool_socket_id (mempool_raw p)) \<noteq> sid"
    by (simp add: mempool_map_new_lookup find_None_set)
  with None show ?thesis by (auto simp: get_raw_def)
next
  case (Some pool)
  let ?P = "\<lambda>p. SocketId (pool_socket_id (mempool_raw p)) = sid"
  have "\<exists>pre post. pools = pre @ pool # post \<and> ?P pool \<and> (\<forall>p \<in> set post. \<not> ?P p)"
    using Some find_rev_split [of ?P pools pool] by (simp only: mempool_map_new_lookup)
  then show ?thesis using Some by (fastforce simp: get_raw_def)
qed

end
