(* ===== verification/Mbuf.thy ===== *)
theory Mbuf
  imports Mempool
begin

text \<open>
  Message buffers, \<open>engine/src/dpdk/mbuf.rs\<close>. A buffer is a region of memory
  (\<open>buf_mem\<close>, the bytes behind \<open>buf_addr\<close>) in which \<open>data_off\<close> and \<open>data_len\<close>
  delimit the packet. The resizing and access operations are translated with Rust's pointer
  arithmetic: a position outside the region is undefined behaviour.

  \<open>wf_mbuf\<close> is the invariant of the struct and \<open>contents\<close> the packet bytes, the
  abstraction against which the operations are specified.
\<close>

section \<open>The struct\<close>

record rte_mbuf =
  buf_mem :: "u8 list"
  buf_len :: u16
  data_off :: u16
  raw_data_len :: u16
  pkt_len :: u32
  mbuf_pool :: ptr

text \<open>The types that implement \<open>SizeOf\<close>.\<close>

datatype sized_ty = TyUnit | TyU8 | TyU8x2 | TyU8x16 | TyIpv6Addr

fun size_of :: "sized_ty \<Rightarrow> usize" where
  "size_of TyUnit = 0"
| "size_of TyU8 = 1"
| "size_of TyU8x2 = 2"
| "size_of TyU8x16 = 16"
| "size_of TyIpv6Addr = 16"

definition data_len :: "rte_mbuf \<Rightarrow> usize" where
  "data_len m = unat (raw_data_len m)"

text \<open>
  \<open>data_address\<close>: \<open>buf_addr.offset(data_off as isize + offset as isize)\<close>, as a position
  in the region. The sum is checked \<open>isize\<close> arithmetic; \<open>offset\<close> requires the result
  to stay inside the allocation (one past its end included).
\<close>

definition data_address :: "profile \<Rightarrow> usize \<Rightarrow> rte_mbuf \<Rightarrow> ('e, nat) outcome" where
  "data_address p offset m =
     (let pos = int (unat (data_off m)) + as_isize offset
      in if pos \<ge> 2 ^ 63
         then (case p of Dev \<Rightarrow> Panic ArithOverflow | Release \<Rightarrow> UB)
         else if 0 \<le> pos \<and> pos \<le> int (length (buf_mem m)) then Ok (nat pos) else UB)"

text \<open>\<open>tailroom\<close>: two subtractions in \<open>u16\<close>.\<close>

definition tailroom :: "profile \<Rightarrow> rte_mbuf \<Rightarrow> ('e, usize) outcome" where
  "tailroom p m =
     and_then (word_sub p (buf_len m) (data_off m)) (\<lambda>r.
       and_then (word_sub p r (raw_data_len m)) (\<lambda>r'. Ok (unat r')))"

text \<open>\<open>ptr::copy(src, dst, n)\<close> and \<open>ptr::copy_nonoverlapping\<close> from outside the region.\<close>

definition ptr_copy :: "nat \<Rightarrow> nat \<Rightarrow> nat \<Rightarrow> rte_mbuf \<Rightarrow> ('e, rte_mbuf) outcome" where
  "ptr_copy src dst n m =
     (case mem_move (buf_mem m) src dst n of
        None \<Rightarrow> UB
      | Some mem \<Rightarrow> Ok (m\<lparr>buf_mem := mem\<rparr>))"

definition ptr_store :: "nat \<Rightarrow> u8 list \<Rightarrow> rte_mbuf \<Rightarrow> ('e, rte_mbuf) outcome" where
  "ptr_store dst bs m =
     (case mem_write (buf_mem m) dst bs of
        None \<Rightarrow> UB
      | Some mem \<Rightarrow> Ok (m\<lparr>buf_mem := mem\<rparr>))"

section \<open>Resizing\<close>

text \<open>The copies that make room for new bytes and close the gap of removed ones.\<close>

definition shift_down ::
  "profile \<Rightarrow> usize \<Rightarrow> usize \<Rightarrow> usize \<Rightarrow> rte_mbuf \<Rightarrow> ('e, rte_mbuf) outcome" where
  "shift_down p offset len to_copy m =
     (if 0 < to_copy
      then and_then (data_address p offset m) (\<lambda>src.
           and_then (usize_add p offset len) (\<lambda>off'.
           and_then (data_address p off' m) (\<lambda>dst.
             ptr_copy src dst to_copy m)))
      else Ok m)"

definition shift_up ::
  "profile \<Rightarrow> usize \<Rightarrow> usize \<Rightarrow> usize \<Rightarrow> rte_mbuf \<Rightarrow> ('e, rte_mbuf) outcome" where
  "shift_up p offset len to_copy m =
     (if 0 < to_copy
      then and_then (usize_add p offset len) (\<lambda>off'.
           and_then (data_address p off' m) (\<lambda>src.
           and_then (data_address p offset m) (\<lambda>dst.
             ptr_copy src dst to_copy m)))
      else Ok m)"

text \<open>Each operation gives the struct after the call and the outcome of the call.\<close>

definition extend ::
  "profile \<Rightarrow> usize \<Rightarrow> usize \<Rightarrow> rte_mbuf \<Rightarrow> rte_mbuf \<times> (buffer_error, unit) outcome" where
  "extend p offset len m =
     ensure (0 < len) (m, Err NotResized) (
     ensure (offset \<le> data_len m) (m, Err NotResized) (
     with_ok m (tailroom p m) (\<lambda>room.
     ensure (len < room) (m, Err NotResized) (
     with_ok m (usize_sub p (data_len m) offset) (\<lambda>to_copy.
     with_ok m (shift_down p offset len to_copy m) (\<lambda>m1.
     with_ok m1 (word_add p (raw_data_len m1) (of_nat len)) (\<lambda>dl.
       let m2 = m1\<lparr>raw_data_len := dl\<rparr> in
       with_ok m2 (word_add p (pkt_len m2) (of_nat len)) (\<lambda>pl.
         (m2\<lparr>pkt_len := pl\<rparr>, Ok ())))))))))"

definition shrink ::
  "profile \<Rightarrow> usize \<Rightarrow> usize \<Rightarrow> rte_mbuf \<Rightarrow> rte_mbuf \<times> (buffer_error, unit) outcome" where
  "shrink p offset len m =
     ensure (0 < len) (m, Err NotResized) (
     with_ok m (usize_add p offset len) (\<lambda>end.
     ensure (end \<le> data_len m) (m, Err NotResized) (
     with_ok m (usize_sub p (data_len m) offset) (\<lambda>r.
     with_ok m (usize_sub p r len) (\<lambda>to_copy.
     with_ok m (shift_up p offset len to_copy m) (\<lambda>m1.
     with_ok m1 (word_sub p (raw_data_len m1) (of_nat len)) (\<lambda>dl.
       let m2 = m1\<lparr>raw_data_len := dl\<rparr> in
       with_ok m2 (word_sub p (pkt_len m2) (of_nat len)) (\<lambda>pl.
         (m2\<lparr>pkt_len := pl\<rparr>, Ok ())))))))))"

text \<open>
  \<open>resize\<close> takes an \<open>isize\<close>. The negation of \<open>isize::MIN\<close> overflows; the wrapped
  result is \<open>isize::MIN\<close> again, as \<open>usize\<close> \<open>2 ^ 63\<close>, which is also what \<open>nat (- len)\<close>
  gives.
\<close>

definition resize ::
  "profile \<Rightarrow> usize \<Rightarrow> int \<Rightarrow> rte_mbuf \<Rightarrow> rte_mbuf \<times> (buffer_error, unit) outcome" where
  "resize p offset len m =
     (if len < 0
      then if len = - (2 ^ 63) \<and> p = Dev then (m, Panic ArithOverflow)
           else shrink p offset (nat (- len)) m
      else extend p offset (nat len) m)"

definition truncate :: "usize \<Rightarrow> rte_mbuf \<Rightarrow> rte_mbuf \<times> (buffer_error, unit) outcome" where
  "truncate to_len m =
     ensure (to_len < data_len m) (m, Err NotResized)
       (m\<lparr>raw_data_len := of_nat to_len, pkt_len := of_nat to_len\<rparr>, Ok ())"

section \<open>Reading and writing\<close>

text \<open>
  The calls return pointers into the region, here positions. A value of a sized type is
  the list of its bytes, a slice the list of its elements.
\<close>

definition read_data ::
  "profile \<Rightarrow> sized_ty \<Rightarrow> usize \<Rightarrow> rte_mbuf \<Rightarrow> (buffer_error, nat) outcome" where
  "read_data p T offset m =
     ensure (offset < data_len m) (Err (BadOffset offset (data_len m))) (
     and_then (usize_add p offset (size_of T)) (\<lambda>end.
     ensure (end \<le> data_len m)
       (and_then (usize_sub p (data_len m) offset) (\<lambda>left. Err (OutOfBuffer (size_of T) left)))
       (data_address p offset m)))"

definition write_data ::
  "profile \<Rightarrow> sized_ty \<Rightarrow> usize \<Rightarrow> u8 list \<Rightarrow> rte_mbuf \<Rightarrow>
   rte_mbuf \<times> (buffer_error, nat) outcome" where
  "write_data p T offset item m =
     with_ok m (usize_add p offset (size_of T)) (\<lambda>end.
     ensure (end \<le> data_len m)
       (with_ok m (usize_sub p (data_len m) offset) (\<lambda>left. (m, Err (OutOfBuffer (size_of T) left))))
       (with_ok m (data_address p offset m) (\<lambda>dst.
        with_ok m (ptr_store dst item m) (\<lambda>m'.
          (m', read_data p T offset m')))))"

definition read_data_slice ::
  "profile \<Rightarrow> sized_ty \<Rightarrow> usize \<Rightarrow> usize \<Rightarrow> rte_mbuf \<Rightarrow> (buffer_error, nat \<times> usize) outcome" where
  "read_data_slice p T offset count m =
     ensure (offset < data_len m) (Err (BadOffset offset (data_len m))) (
     and_then (usize_mul p (size_of T) count) (\<lambda>bytes.
     and_then (usize_add p offset bytes) (\<lambda>end.
     ensure (end \<le> data_len m)
       (and_then (usize_sub p (data_len m) offset) (\<lambda>left. Err (OutOfBuffer bytes left)))
       (and_then (data_address p offset m) (\<lambda>item0. Ok (item0, count))))))"

definition write_data_slice ::
  "profile \<Rightarrow> sized_ty \<Rightarrow> usize \<Rightarrow> u8 list list \<Rightarrow> rte_mbuf \<Rightarrow>
   rte_mbuf \<times> (buffer_error, nat \<times> usize) outcome" where
  "write_data_slice p T offset items m =
     (let count = length items in
      with_ok m (usize_mul p (size_of T) count) (\<lambda>bytes.
      with_ok m (usize_add p offset bytes) (\<lambda>end.
      ensure (end \<le> data_len m)
        (with_ok m (usize_sub p (data_len m) offset) (\<lambda>left. (m, Err (OutOfBuffer bytes left))))
        (with_ok m (data_address p offset m) (\<lambda>dst.
         with_ok m (ptr_store dst (concat items) m) (\<lambda>m'.
           (m', read_data_slice p T offset count m')))))))"

section \<open>Invariant and abstraction\<close>

definition wf_mbuf :: "rte_mbuf \<Rightarrow> bool" where
  "wf_mbuf m \<longleftrightarrow>
     length (buf_mem m) = unat (buf_len m) \<and>
     unat (data_off m) + data_len m \<le> unat (buf_len m) \<and>
     unat (pkt_len m) = data_len m"

definition contents :: "rte_mbuf \<Rightarrow> u8 list" where
  "contents m = take (data_len m) (drop (unat (data_off m)) (buf_mem m))"

definition room :: "rte_mbuf \<Rightarrow> nat" where
  "room m = unat (buf_len m) - unat (data_off m) - data_len m"

text \<open>The bytes an access at a packet offset finds in the region, packet or not.\<close>

definition behind :: "rte_mbuf \<Rightarrow> nat \<Rightarrow> nat \<Rightarrow> u8 list" where
  "behind m offset n = take n (drop (unat (data_off m) + offset) (buf_mem m))"

lemma wf_mbufD:
  assumes "wf_mbuf m"
  shows "length (buf_mem m) = unat (buf_len m)"
    and "unat (data_off m) + data_len m \<le> unat (buf_len m)"
    and "unat (pkt_len m) = data_len m"
    and "data_len m + room m + unat (data_off m) = unat (buf_len m)"
    and "unat (buf_len m) < 65536"
  using assms by (auto simp: wf_mbuf_def room_def unat_u16_less)

lemma length_contents [simp]: "wf_mbuf m \<Longrightarrow> length (contents m) = data_len m"
  by (auto simp: contents_def wf_mbuf_def)

lemma data_len_limit: "data_len m < 65536"
  by (simp add: data_len_def unat_u16_less)

lemma u16_sub:
  assumes "b \<le> a"
  shows "word_sub p (a :: u16) b = Ok (a - b)" "unat (a - b) = unat a - unat b"
  using assms by (simp_all add: word_sub_Ok unat_sub)

lemma tailroom_wf:
  assumes "wf_mbuf m"
  shows "tailroom p m = Ok (room m)"
proof -
  note wf = wf_mbufD [OF assms]
  have a: "data_off m \<le> buf_len m" using wf by (simp add: word_le_nat_alt)
  have b: "raw_data_len m \<le> buf_len m - data_off m"
    using wf u16_sub(2) [OF a] by (simp add: word_le_nat_alt data_len_def)
  show ?thesis
    by (simp add: tailroom_def room_def data_len_def u16_sub [OF a] u16_sub [OF b])
qed

lemma data_address_wf:
  assumes "wf_mbuf m" "offset \<le> data_len m + room m"
  shows "data_address p offset m = Ok (unat (data_off m) + offset)"
proof -
  note wf = wf_mbufD [OF assms(1)]
  define k where "k = unat (data_off m) + offset"
  have "as_isize offset = int offset" using wf assms(2) by (simp add: as_isize_def)
  then have pos: "int (unat (data_off m)) + as_isize offset = int k" by (simp only: k_def of_nat_add)
  have "k \<le> length (buf_mem m)" "k < 65536" using wf assms(2) by (simp_all add: k_def)
  then have "data_address p offset m = Ok k" unfolding data_address_def Let_def pos by simp
  then show ?thesis by (simp only: k_def)
qed

lemma small_usize: "a < 65536 \<Longrightarrow> b < 65536 \<Longrightarrow> a + b < usize_limit"
  by (simp add: usize_limit_def)

lemma grow_lengths:
  assumes "wf_mbuf m" "len \<le> room m"
  shows "word_add p (raw_data_len m) (of_nat len) = Ok (raw_data_len m + of_nat len)"
    and "unat (raw_data_len m + of_nat len) = data_len m + len"
    and "word_add p (pkt_len m) (of_nat len) = Ok (pkt_len m + of_nat len)"
    and "unat (pkt_len m + of_nat len) = data_len m + len"
proof -
  note wf = wf_mbufD [OF assms(1)]
  have l: "unat (of_nat len :: u16) = len" "unat (of_nat len :: u32) = len"
    using wf assms(2) by (simp_all add: unat_of_nat)
  have 1: "unat (raw_data_len m) + unat (of_nat len :: u16) < 2 ^ LENGTH(16)"
    using wf assms(2) l by (simp add: data_len_def)
  have 2: "unat (pkt_len m) + unat (of_nat len :: u32) < 2 ^ LENGTH(32)"
    using wf assms(2) l by simp
  show "word_add p (raw_data_len m) (of_nat len) = Ok (raw_data_len m + of_nat len)"
    by (rule word_add_Ok [OF 1])
  show "word_add p (pkt_len m) (of_nat len) = Ok (pkt_len m + of_nat len)"
    by (rule word_add_Ok [OF 2])
  show "unat (raw_data_len m + of_nat len) = data_len m + len"
    using unat_add_lem [THEN iffD1, OF 1] l by (simp add: data_len_def)
  show "unat (pkt_len m + of_nat len) = data_len m + len"
    using unat_add_lem [THEN iffD1, OF 2] l wf by simp
qed

lemma cut_lengths:
  assumes "wf_mbuf m" "len \<le> data_len m"
  shows "word_sub p (raw_data_len m) (of_nat len) = Ok (raw_data_len m - of_nat len)"
    and "unat (raw_data_len m - of_nat len) = data_len m - len"
    and "word_sub p (pkt_len m) (of_nat len) = Ok (pkt_len m - of_nat len)"
    and "unat (pkt_len m - of_nat len) = data_len m - len"
proof -
  note wf = wf_mbufD [OF assms(1)]
  have l: "unat (of_nat len :: u16) = len" "unat (of_nat len :: u32) = len"
    using wf assms(2) by (simp_all add: unat_of_nat)
  have 1: "of_nat len \<le> raw_data_len m" "of_nat len \<le> pkt_len m"
    using wf assms(2) l by (simp_all add: word_le_nat_alt data_len_def)
  show "word_sub p (raw_data_len m) (of_nat len) = Ok (raw_data_len m - of_nat len)"
    "word_sub p (pkt_len m) (of_nat len) = Ok (pkt_len m - of_nat len)"
    using 1 by (simp_all add: word_sub_Ok)
  show "unat (raw_data_len m - of_nat len) = data_len m - len"
    "unat (pkt_len m - of_nat len) = data_len m - len"
    using 1 l wf by (simp_all add: unat_sub data_len_def)
qed

section \<open>What the operations do\<close>

lemma open_gap:
  assumes "wf_mbuf m" "offset \<le> data_len m" "len < room m"
  shows "\<exists>mem. shift_down p offset len (data_len m - offset) m
      = (Ok (m\<lparr>buf_mem := mem\<rparr>) :: (buffer_error, rte_mbuf) outcome)
    \<and> length mem = length (buf_mem m)
    \<and> take (data_len m + len) (drop (unat (data_off m)) mem)
      = take offset (contents m) @ behind m offset len @ drop offset (contents m)"
proof (cases "0 < data_len m - offset")
  case True
  note wf = wf_mbufD [OF assms(1)]
  let ?d = "unat (data_off m)" and ?n = "data_len m"
  let ?mem = "take (?d + (offset + len)) (buf_mem m) @ take (?n - offset) (drop (?d + offset) (buf_mem m))
    @ drop (?d + (offset + len) + (?n - offset)) (buf_mem m)"
  have lim: "offset + len < usize_limit" using wf assms(2,3) by (simp add: usize_limit_def)
  have src: "data_address p offset m = Ok (?d + offset)"
    "data_address p (offset + len) m = Ok (?d + (offset + len))" for p
    using assms(2,3) by (simp_all add: data_address_wf [OF assms(1)])
  have copy: "ptr_copy (?d + offset) (?d + (offset + len)) (?n - offset) m = Ok (m\<lparr>buf_mem := ?mem\<rparr>)"
    using wf assms(2,3) by (simp add: ptr_copy_def mem_move_Some)
  have win: "?d + ?n + len \<le> length (buf_mem m)" using wf assms(3) by simp
  show ?thesis
  proof (intro exI [of _ ?mem] conjI)
    show "length ?mem = length (buf_mem m)" using wf assms(2,3) by auto
    show "take (?n + len) (drop ?d ?mem)
      = take offset (contents m) @ behind m offset len @ drop offset (contents m)"
      unfolding contents_def behind_def by (rule window_open_gap [OF win assms(2)])
  qed (use True in \<open>simp only: shift_down_def if_True src usize_add_Ok [OF lim] and_then.simps copy\<close>)
next
  case False
  with assms(2) have "offset = data_len m" by simp
  with False assms(1) show ?thesis
    by (intro exI [of _ "buf_mem m"])
       (simp add: shift_down_def contents_def behind_def take_add [of "data_len m" len]
          add.commute [of "unat (data_off m)"])
qed

lemma extend_accepts:
  assumes "wf_mbuf m" "0 < len" "offset \<le> data_len m" "len < room m"
  shows "\<exists>m'. extend p offset len m = (m', Ok ()) \<and> wf_mbuf m'
    \<and> data_off m' = data_off m \<and> buf_len m' = buf_len m
    \<and> contents m' = take offset (contents m) @ behind m offset len @ drop offset (contents m)"
proof -
  note wf = wf_mbufD [OF assms(1)]
  have len: "len \<le> room m" using assms(4) by simp
  note grow = grow_lengths [OF assms(1) len]
  obtain mem where mem: "shift_down p offset len (data_len m - offset) m
      = (Ok (m\<lparr>buf_mem := mem\<rparr>) :: (buffer_error, rte_mbuf) outcome)"
    and l: "length mem = length (buf_mem m)"
    and c: "take (data_len m + len) (drop (unat (data_off m)) mem)
      = take offset (contents m) @ behind m offset len @ drop offset (contents m)"
    using open_gap [OF assms(1,3,4)] by metis
  let ?m' = "m\<lparr>buf_mem := mem, raw_data_len := raw_data_len m + of_nat len,
    pkt_len := pkt_len m + of_nat len\<rparr>"
  have dl: "data_len ?m' = data_len m + len" using grow(2) by (simp add: data_len_def)
  have "extend p offset len m = (?m', Ok ())"
    using assms(2-4)
    by (simp add: extend_def tailroom_wf [OF assms(1)] usize_sub_Ok mem Let_def
        grow_lengths(1,3) [OF assms(1) len])
  moreover have "wf_mbuf ?m'" using wf dl l grow(4) len by (simp add: wf_mbuf_def)
  moreover have "contents ?m' = take offset (contents m) @ behind m offset len @ drop offset (contents m)"
    using dl c by (simp add: contents_def)
  ultimately show ?thesis by auto
qed

lemma extend_rejects:
  assumes "wf_mbuf m" "\<not> (0 < len \<and> offset \<le> data_len m \<and> len < room m)"
  shows "extend p offset len m = (m, Err NotResized)"
  using assms(2) by (auto simp: extend_def tailroom_wf [OF assms(1)])

lemma close_gap:
  assumes "wf_mbuf m" "offset + len \<le> data_len m"
  shows "\<exists>mem. shift_up p offset len (data_len m - offset - len) m
      = (Ok (m\<lparr>buf_mem := mem\<rparr>) :: (buffer_error, rte_mbuf) outcome)
    \<and> length mem = length (buf_mem m)
    \<and> take (data_len m - len) (drop (unat (data_off m)) mem)
      = take offset (contents m) @ drop (offset + len) (contents m)"
proof (cases "0 < data_len m - offset - len")
  case True
  note wf = wf_mbufD [OF assms(1)]
  let ?d = "unat (data_off m)" and ?n = "data_len m"
  let ?mem = "take (?d + offset) (buf_mem m)
    @ take (?n - offset - len) (drop (?d + (offset + len)) (buf_mem m))
    @ drop (?d + offset + (?n - offset - len)) (buf_mem m)"
  have lim: "offset + len < usize_limit" using wf assms(2) by (simp add: usize_limit_def)
  have src: "data_address p offset m = Ok (?d + offset)"
    "data_address p (offset + len) m = Ok (?d + (offset + len))" for p
    using assms(2) by (simp_all add: data_address_wf [OF assms(1)])
  have copy: "ptr_copy (?d + (offset + len)) (?d + offset) (?n - offset - len) m
      = Ok (m\<lparr>buf_mem := ?mem\<rparr>)"
    using wf assms(2) by (simp add: ptr_copy_def mem_move_Some del: diff_diff_left)
  have win: "?d + ?n \<le> length (buf_mem m)" using wf by simp
  show ?thesis
  proof (intro exI [of _ ?mem] conjI)
    show "length ?mem = length (buf_mem m)" using wf assms(2) by auto
    show "take (?n - len) (drop ?d ?mem)
      = take offset (contents m) @ drop (offset + len) (contents m)"
      unfolding contents_def by (rule window_close_gap [OF win assms(2)])
  qed (use True in \<open>simp only: shift_up_def if_True src usize_add_Ok [OF lim] and_then.simps copy\<close>)
next
  case False
  with assms(2) have n: "data_len m - len = offset" "offset \<le> data_len m" "offset + len = data_len m"
    by auto
  with False assms(1) show ?thesis
    by (intro exI [of _ "buf_mem m"]) (simp add: shift_up_def contents_def min_absorb1)
qed

lemma shrink_accepts:
  assumes "wf_mbuf m" "0 < len" "offset + len \<le> data_len m"
  shows "\<exists>m'. shrink p offset len m = (m', Ok ()) \<and> wf_mbuf m'
    \<and> data_off m' = data_off m \<and> buf_len m' = buf_len m
    \<and> contents m' = take offset (contents m) @ drop (offset + len) (contents m)"
proof -
  note wf = wf_mbufD [OF assms(1)]
  have len: "len \<le> data_len m" using assms(3) by simp
  note cut = cut_lengths [OF assms(1) len]
  have lim: "offset + len < usize_limit" using wf assms(3) by (simp add: usize_limit_def)
  obtain mem where mem: "shift_up p offset len (data_len m - offset - len) m
      = (Ok (m\<lparr>buf_mem := mem\<rparr>) :: (buffer_error, rte_mbuf) outcome)"
    and l: "length mem = length (buf_mem m)"
    and c: "take (data_len m - len) (drop (unat (data_off m)) mem)
      = take offset (contents m) @ drop (offset + len) (contents m)"
    using close_gap [OF assms(1,3)] by metis
  let ?m' = "m\<lparr>buf_mem := mem, raw_data_len := raw_data_len m - of_nat len,
    pkt_len := pkt_len m - of_nat len\<rparr>"
  have dl: "data_len ?m' = data_len m - len" using cut(2) by (simp add: data_len_def)
  have r: "len \<le> data_len m - offset" "offset \<le> data_len m" using assms(3) by simp_all
  have "shrink p offset len m = (?m', Ok ())"
    using assms(2,3) r
    by (simp add: shrink_def usize_sub_Ok usize_add_Ok [OF lim] mem [simplified]
        Let_def cut_lengths(1,3) [OF assms(1) len])
  moreover have "wf_mbuf ?m'" using wf dl l cut(4) by (simp add: wf_mbuf_def)
  moreover have "contents ?m' = take offset (contents m) @ drop (offset + len) (contents m)"
    using dl c by (simp add: contents_def)
  ultimately show ?thesis by auto
qed


lemma read_data_accepts:
  assumes "wf_mbuf m" "offset < data_len m" "offset + size_of T \<le> data_len m"
  shows "read_data p T offset m = Ok (unat (data_off m) + offset)"
  using assms wf_mbufD(5) [OF assms(1)] data_len_limit [of m]
  by (simp add: read_data_def usize_add_def usize_limit_def data_address_wf)

lemma read_data_slice_accepts:
  assumes "wf_mbuf m" "offset < data_len m" "offset + size_of T * count \<le> data_len m"
  shows "read_data_slice p T offset count m = Ok (unat (data_off m) + offset, count)"
  using assms wf_mbufD(5) [OF assms(1)] data_len_limit [of m]
  by (simp add: read_data_slice_def usize_add_def usize_mul_def usize_limit_def data_address_wf)

lemma ptr_store_window:
  assumes "wf_mbuf m" "offset + length bs \<le> data_len m"
  shows "\<exists>m'. (ptr_store (unat (data_off m) + offset) bs m :: ('e, rte_mbuf) outcome) = Ok m' \<and> wf_mbuf m'
    \<and> data_len m' = data_len m \<and> data_off m' = data_off m
    \<and> contents m' = take offset (contents m) @ bs @ drop (offset + length bs) (contents m)"
proof -
  note wf = wf_mbufD [OF assms(1)]
  let ?d = "unat (data_off m)"
  let ?mem = "take (?d + offset) (buf_mem m) @ bs @ drop (?d + offset + length bs) (buf_mem m)"
  let ?m' = "m\<lparr>buf_mem := ?mem\<rparr>"
  have win: "?d + data_len m \<le> length (buf_mem m)" using wf by simp
  have "(ptr_store (?d + offset) bs m :: ('e, rte_mbuf) outcome) = Ok ?m'"
    using win assms(2) by (simp add: ptr_store_def mem_write_def)
  moreover have dl: "data_len ?m' = data_len m" by (simp add: data_len_def)
  moreover have "wf_mbuf ?m'" using wf win assms(2) dl by (auto simp: wf_mbuf_def)
  moreover have "contents ?m' = take offset (contents m) @ bs @ drop (offset + length bs) (contents m)"
    using window_write [OF win assms(2)] dl by (simp only: contents_def) simp
  ultimately show ?thesis by auto
qed

lemma length_concat_items:
  "list_all (\<lambda>b. length b = k) items \<Longrightarrow> length (concat items) = k * length items"
  by (induction items) auto

lemma write_data_slice_accepts:
  assumes "wf_mbuf m" "list_all (\<lambda>b. length b = size_of T) items"
    and "offset + size_of T * length items \<le> data_len m" "offset < data_len m"
  shows "\<exists>m'. write_data_slice p T offset items m
      = (m', Ok (unat (data_off m) + offset, length items)) \<and> wf_mbuf m'
    \<and> contents m' = take offset (contents m) @ concat items
        @ drop (offset + size_of T * length items) (contents m)"
proof -
  note len = length_concat_items [OF assms(2)]
  have "offset + length (concat items) \<le> data_len m" using assms(3) len by simp
  then obtain m' where st: "(ptr_store (unat (data_off m) + offset) (concat items) m
      :: (buffer_error, rte_mbuf) outcome) = Ok m'"
    and m': "wf_mbuf m'" "data_len m' = data_len m" "data_off m' = data_off m"
    and c: "contents m' = take offset (contents m) @ concat items
        @ drop (offset + length (concat items)) (contents m)"
    using ptr_store_window [OF assms(1)] by blast
  have "write_data_slice p T offset items m = (m', read_data_slice p T offset (length items) m')"
    using assms(3,4) data_len_limit [of m] st
    by (simp add: write_data_slice_def usize_add_def usize_mul_def usize_limit_def
        data_address_wf [OF assms(1)])
  moreover have "read_data_slice p T offset (length items) m'
      = Ok (unat (data_off m) + offset, length items)"
    using m' assms(3,4) by (simp add: read_data_slice_accepts)
  ultimately show ?thesis using m' c len by auto
qed

lemma write_data_accepts:
  assumes "wf_mbuf m" "length item = size_of T"
    and "offset + size_of T \<le> data_len m" "offset < data_len m"
  shows "\<exists>m'. write_data p T offset item m = (m', Ok (unat (data_off m) + offset)) \<and> wf_mbuf m'
    \<and> contents m' = take offset (contents m) @ item @ drop (offset + size_of T) (contents m)"
proof -
  have "offset + length item \<le> data_len m" using assms(2,3) by simp
  then obtain m' where st: "(ptr_store (unat (data_off m) + offset) item m
      :: (buffer_error, rte_mbuf) outcome) = Ok m'"
    and m': "wf_mbuf m'" "data_len m' = data_len m" "data_off m' = data_off m"
    and c: "contents m' = take offset (contents m) @ item @ drop (offset + length item) (contents m)"
    using ptr_store_window [OF assms(1)] by blast
  have "write_data p T offset item m = (m', read_data p T offset m')"
    using assms(3,4) data_len_limit [of m] st
    by (simp add: write_data_def usize_add_def usize_limit_def data_address_wf [OF assms(1)])
  moreover have "read_data p T offset m' = Ok (unat (data_off m) + offset)"
    using m' assms(3,4) by (simp add: read_data_accepts)
  ultimately show ?thesis using m' c assms(2) by auto
qed

section \<open>Ownership\<close>

text \<open>
  \<open>MbufInner\<close> tags the owning pointer: an \<open>Original\<close> is given back to DPDK when it
  goes out of scope, a \<open>Clone\<close> is not. The structs live in DPDK's memory, a finite map
  from pointers; \<open>alloc\<close> and \<open>free\<close> are \<open>_rte_pktmbuf_alloc\<close> and
  \<open>_rte_pktmbuf_free\<close>.
\<close>

datatype mbuf_inner = Original ptr | Clone ptr

fun inner_ptr :: "mbuf_inner \<Rightarrow> ptr" where
  "inner_ptr (Original raw) = raw"
| "inner_ptr (Clone raw) = raw"

datatype mbuf = Mbuf (inner: mbuf_inner)

type_synonym heap = "ptr \<rightharpoonup> rte_mbuf"

definition mbuf_from_ptr :: "ptr \<Rightarrow> mbuf" where
  "mbuf_from_ptr r = Mbuf (Original r)"

definition into_ptr :: "mbuf \<Rightarrow> ptr" where
  "into_ptr mb = inner_ptr (inner mb)"

text \<open>A method that works on \<open>self.raw()\<close> or \<open>self.raw_mut()\<close>.\<close>

definition on_raw ::
  "mbuf \<Rightarrow> (rte_mbuf \<Rightarrow> rte_mbuf \<times> (buffer_error, 'a) outcome) \<Rightarrow> heap \<Rightarrow>
   heap \<times> (failure, 'a) outcome" where
  "on_raw mb f h =
     (case h (inner_ptr (inner mb)) of
        None \<Rightarrow> (h, UB)
      | Some m \<Rightarrow> (let (m', r) = f m
                   in (h(inner_ptr (inner mb) \<mapsto> m'), map_err BufferFailure r)))"

definition mbuf_new ::
  "(ptr \<Rightarrow> 'e \<Rightarrow> ptr \<times> 'e) \<Rightarrow> ptr \<Rightarrow> 'e \<Rightarrow> 'e \<times> (failure, mbuf) outcome" where
  "mbuf_new alloc mempool h =
     (let (raw, h') = alloc mempool h
      in with_ok h' (to_result_mut raw (\<lambda>_. MempoolFailure Exhausted)) (\<lambda>r.
           (h', Ok (Mbuf (Original r)))))"

definition mbuf_drop :: "(ptr \<Rightarrow> 'e \<Rightarrow> 'e) \<Rightarrow> mbuf \<Rightarrow> 'e \<Rightarrow> 'e" where
  "mbuf_drop free mb h =
     (case inner mb of Original r \<Rightarrow> free r h | Clone r \<Rightarrow> h)"

text \<open>
  A local \<open>Mbuf\<close> is dropped when its scope is left by an error or a panic; the rest of
  the scope is the continuation.
\<close>

fun scoped ::
  "(ptr \<Rightarrow> heap \<Rightarrow> heap) \<Rightarrow> mbuf \<Rightarrow> heap \<times> (failure, 'a) outcome \<Rightarrow>
   ('a \<Rightarrow> heap \<Rightarrow> heap \<times> (failure, 'b) outcome) \<Rightarrow> heap \<times> (failure, 'b) outcome" where
  "scoped free mb (h, Ok x) k = k x h"
| "scoped free mb (h, Err e) k = (mbuf_drop free mb h, Err e)"
| "scoped free mb (h, Panic e) k = (mbuf_drop free mb h, Panic e)"
| "scoped free mb (h, UB) k = (h, UB)"

definition from_bytes ::
  "profile \<Rightarrow> (ptr \<Rightarrow> heap \<Rightarrow> ptr \<times> heap) \<Rightarrow> (ptr \<Rightarrow> heap \<Rightarrow> heap) \<Rightarrow> ptr \<Rightarrow>
   u8 list \<Rightarrow> heap \<Rightarrow> heap \<times> (failure, mbuf) outcome" where
  "from_bytes p alloc free mempool data h =
     (case mbuf_new alloc mempool h of
        (h1, Ok mb) \<Rightarrow>
          scoped free mb (on_raw mb (extend p 0 (length data)) h1) (\<lambda>_ h2.
          scoped free mb (on_raw mb (write_data_slice p TyU8 0 (map (\<lambda>b. [b]) data)) h2) (\<lambda>_ h3.
            (h3, Ok mb)))
      | (h1, r) \<Rightarrow> (h1, r))"

text \<open>
  \<open>alloc_bulk\<close>: \<open>_rte_pktmbuf_alloc_bulk\<close> gives its return code, the pointers it
  stored and the new memory. \<open>set_len(len)\<close> on fewer stored pointers exposes
  uninitialised memory.
\<close>

definition alloc_bulk ::
  "(ptr \<Rightarrow> u32 \<Rightarrow> 'e \<Rightarrow> c_int \<times> ptr list \<times> 'e) \<Rightarrow> dpdk_errno \<Rightarrow> ptr \<Rightarrow> usize \<Rightarrow>
   'e \<Rightarrow> 'e \<times> (failure, mbuf list) outcome" where
  "alloc_bulk alloc_bulk_ffi err mempool len h =
     (let (code, ptrs, h') = alloc_bulk_ffi mempool (of_nat len) h
      in with_ok h' (to_result_int code (\<lambda>c. DpdkFailure (dpdk_error_from_errno err c))) (\<lambda>_.
           if length ptrs < len then (h', UB)
           else (h', Ok (map mbuf_from_ptr (take len ptrs)))))"

definition free_bulk ::
  "(ptr \<Rightarrow> ptr) \<Rightarrow> (ptr \<Rightarrow> ptr list \<Rightarrow> u32 \<Rightarrow> 'e \<Rightarrow> 'e) \<Rightarrow> mbuf list \<Rightarrow> 'e \<Rightarrow>
   'e \<times> (failure, unit) outcome" where
  "free_bulk pool_of put_bulk mbufs e = mbuf_free_bulk pool_of put_bulk (map into_ptr mbufs) e"

text \<open>
  What DPDK documents of the allocator: a null pointer leaves the memory alone, any other
  is fresh and points to an empty, well-formed buffer; \<open>free\<close> releases the struct.
\<close>

locale pktmbuf_pool =
  fixes alloc :: "ptr \<Rightarrow> heap \<Rightarrow> ptr \<times> heap"
    and free :: "ptr \<Rightarrow> heap \<Rightarrow> heap"
  assumes alloc_null: "alloc pool h = (0, h') \<Longrightarrow> h' = h"
    and alloc_fresh: "alloc pool h = (r, h') \<Longrightarrow> r \<noteq> 0 \<Longrightarrow>
      h r = None \<and> (\<exists>m. h' = h(r \<mapsto> m) \<and> wf_mbuf m \<and> data_len m = 0)"
    and free_releases: "free r h = h(r := None)"
begin

lemma from_bytes_exhausted:
  assumes "alloc pool h = (0, h')"
  shows "from_bytes p alloc free pool data h = (h, Err (MempoolFailure Exhausted))"
  using alloc_null [OF assms] assms
  by (simp add: from_bytes_def mbuf_new_def to_result_mut_eq)

lemma mbuf_new_fresh:
  assumes "alloc pool h = (r, h1)" "r \<noteq> 0"
  shows "mbuf_new alloc pool h = (h1, Ok (Mbuf (Original r)))"
  using assms by (simp add: mbuf_new_def to_result_mut_eq)

lemma from_bytes_rejects:
  assumes "alloc pool h = (r, h(r \<mapsto> m))" "r \<noteq> 0" "h r = None" "wf_mbuf m" "data_len m = 0"
    and "data = [] \<or> room m \<le> length data"
  shows "from_bytes p alloc free pool data h = (h, Err (BufferFailure NotResized))"
proof -
  have "extend p 0 (length data) m = (m, Err NotResized)"
    using assms by (intro extend_rejects) auto
  with assms mbuf_new_fresh [OF assms(1,2)] show ?thesis
    by (simp add: from_bytes_def on_raw_def mbuf_drop_def free_releases fun_upd_idem)
qed

lemma from_bytes_accepts:
  assumes "alloc pool h = (r, h(r \<mapsto> m))" "r \<noteq> 0" "wf_mbuf m" "data_len m = 0"
    and "data \<noteq> []" "length data < room m"
  shows "\<exists>m'. from_bytes p alloc free pool data h = (h(r \<mapsto> m'), Ok (Mbuf (Original r)))
    \<and> wf_mbuf m' \<and> contents m' = data"
proof -
  obtain m1 where e: "extend p 0 (length data) m = (m1, Ok ())" "wf_mbuf m1"
    and c1: "contents m1 = take 0 (contents m) @ behind m 0 (length data) @ drop 0 (contents m)"
    using extend_accepts [OF assms(3), of "length data" 0 p] assms(4-6) by auto
  have "length (behind m 0 (length data)) = length data"
    using wf_mbufD [OF assms(3)] assms(4,6) by (simp add: behind_def)
  moreover have "contents m = []" using length_contents [OF assms(3)] assms(4) by simp
  ultimately have dl: "data_len m1 = length data"
    using c1 length_contents [OF e(2)] by simp
  have items: "list_all (\<lambda>b. length b = size_of TyU8) (map (\<lambda>b. [b]) data)"
    by (simp add: list_all_iff)
  obtain m2 where w: "write_data_slice p TyU8 0 (map (\<lambda>b. [b]) data) m1
      = (m2, Ok (unat (data_off m1) + 0, length (map (\<lambda>b. [b]) data)))" "wf_mbuf m2"
    and c2: "contents m2 = take 0 (contents m1) @ concat (map (\<lambda>b. [b]) data)
      @ drop (0 + size_of TyU8 * length (map (\<lambda>b. [b]) data)) (contents m1)"
    using write_data_slice_accepts [OF e(2) items, of 0 p] dl assms(5) by auto
  have "contents m2 = data" using c2 dl length_contents [OF e(2)] by simp
  moreover have "from_bytes p alloc free pool data h = (h(r \<mapsto> m2), Ok (Mbuf (Original r)))"
    using assms(1,2) e(1) w(1) mbuf_new_fresh [OF assms(1,2)]
    by (simp add: from_bytes_def on_raw_def)
  ultimately show ?thesis using w(2) by auto
qed

end

text \<open>
  The reference instance of the interface: a pool of \<open>n\<close> buffers at the pointers
  \<open>1..n\<close>, each with the default data room and head room of DPDK.
\<close>

definition fresh_mbuf :: "ptr \<Rightarrow> rte_mbuf" where
  "fresh_mbuf pool =
     \<lparr>buf_mem = replicate RTE_MBUF_DEFAULT_BUF_SIZE 0, buf_len = of_nat RTE_MBUF_DEFAULT_BUF_SIZE,
      data_off = 128, raw_data_len = 0, pkt_len = 0, mbuf_pool = pool\<rparr>"

definition pool_alloc :: "nat \<Rightarrow> ptr \<Rightarrow> heap \<Rightarrow> ptr \<times> heap" where
  "pool_alloc n pool h =
     (case find (\<lambda>r. h r = None) [1..<Suc n] of
        None \<Rightarrow> (0, h)
      | Some r \<Rightarrow> (r, h(r \<mapsto> fresh_mbuf pool)))"

definition pool_free :: "ptr \<Rightarrow> heap \<Rightarrow> heap" where
  "pool_free r h = h(r := None)"

lemma fresh_mbuf_wf: "wf_mbuf (fresh_mbuf pool)" "data_len (fresh_mbuf pool) = 0"
    "room (fresh_mbuf pool) = 2048"
  by (simp_all add: wf_mbuf_def fresh_mbuf_def data_len_def room_def RTE_MBUF_DEFAULT_BUF_SIZE_def)

interpretation fixed_pool: pktmbuf_pool "pool_alloc n" pool_free for n
proof unfold_locales
  fix pool h h'
  assume "pool_alloc n pool h = (0, h')"
  then show "h' = h"
    by (auto simp: pool_alloc_def find_Some_iff nth_append simp del: upt_Suc split: option.splits if_splits)
next
  fix pool h r h'
  assume "pool_alloc n pool h = (r, h')" "r \<noteq> 0"
  then show "h r = None \<and> (\<exists>m. h' = h(r \<mapsto> m) \<and> wf_mbuf m \<and> data_len m = 0)"
    using fresh_mbuf_wf
    by (auto simp: pool_alloc_def split: option.splits dest!: find_Some_set)
qed (simp add: pool_free_def)

section \<open>Properties\<close>

text \<open>A packet of three bytes in a region of ten, with two bytes of head room.\<close>

definition sample_mbuf :: rte_mbuf where
  "sample_mbuf =
     \<lparr>buf_mem = [0, 0, 1, 2, 3, 7, 8, 9, 0, 0], buf_len = 10, data_off = 2, raw_data_len = 3,
      pkt_len = 3, mbuf_pool = 1\<rparr>"

lemma sample_mbuf_wf: "wf_mbuf sample_mbuf" "data_len sample_mbuf = 3" "room sample_mbuf = 5"
    "contents sample_mbuf = [1, 2, 3]"
  by (simp_all add: sample_mbuf_def wf_mbuf_def data_len_def room_def contents_def)

text \<open>
  C1: \<open>Mbuf::extend\<close> on a well-formed buffer, in either build profile: it succeeds exactly
  if the length is positive, the offset lies inside the packet and the length is below the
  tail room; then the packet is the old one with \<open>len\<close> bytes inserted at the offset and the
  buffer is well-formed. Otherwise the buffer is unchanged and the error is
  \<open>NotResized\<close>; it never panics and never leaves the region.
\<close>

theorem extend_spec:
  assumes "wf_mbuf m"
  shows "case extend p offset len m of (m', r) \<Rightarrow>
    wf_mbuf m' \<and>
    (if 0 < len \<and> offset \<le> data_len m \<and> len < room m
     then r = Ok () \<and>
       contents m' = take offset (contents m) @ behind m offset len @ drop offset (contents m)
     else r = Err NotResized \<and> m' = m)"
proof (cases "0 < len \<and> offset \<le> data_len m \<and> len < room m")
  case True
  with extend_accepts [OF assms, of len offset p] show ?thesis by auto
next
  case False
  with extend_rejects [OF assms, of len offset p] assms show ?thesis by auto
qed

theorem extend_spec_witness:
  "case extend Dev 1 2 sample_mbuf of (m', r) \<Rightarrow> r = Ok () \<and> contents m' = [1, 2, 3, 2, 3]"
  using extend_spec [OF sample_mbuf_wf(1), where p = Dev and offset = 1 and len = 2]
  by (simp add: sample_mbuf_wf behind_def split: prod.splits) (simp add: sample_mbuf_def)



text \<open>
  Removing at the same place the bytes that \<open>extend\<close> has inserted gives back the
  packet, whatever the inserted bytes were.
\<close>

lemma extend_shrink_roundtrip:
  assumes "wf_mbuf m" "extend p offset len m = (m1, Ok ())"
  shows "\<exists>m2. shrink q offset len m1 = (m2, Ok ()) \<and> wf_mbuf m2 \<and> contents m2 = contents m"
proof -
  have "0 < len \<and> offset \<le> data_len m \<and> len < room m"
    using extend_rejects [OF assms(1), of len offset p] assms(2) by (metis outcome.distinct(1) prod.inject)
  then have ok: "0 < len" "offset \<le> data_len m" "len < room m" by auto
  then have m1: "wf_mbuf m1"
    "contents m1 = take offset (contents m) @ behind m offset len @ drop offset (contents m)"
    using extend_accepts [OF assms(1), of len offset p] assms(2) by auto
  have b: "length (behind m offset len) = len"
    using wf_mbufD [OF assms(1)] ok by (simp add: behind_def)
  have "data_len m1 = data_len m + len"
    using m1 b ok length_contents [OF assms(1)] length_contents [OF m1(1)] by simp
  with shrink_accepts [OF m1(1) ok(1), of offset q] ok obtain m2 where
    m2: "shrink q offset len m1 = (m2, Ok ())" "wf_mbuf m2"
    "contents m2 = take offset (contents m1) @ drop (offset + len) (contents m1)"
    by auto
  then have "contents m2 = contents m"
    using m1(2) b ok length_contents [OF assms(1)] by simp
  with m2 show ?thesis by auto
qed

lemma extend_shrink_roundtrip_witness:
  "\<exists>m1 m2. extend Dev 3 4 sample_mbuf = (m1, Ok ()) \<and> shrink Release 3 4 m1 = (m2, Ok ())
    \<and> contents m2 = [1, 2, 3]"
proof -
  obtain m1 where m1: "extend Dev 3 4 sample_mbuf = (m1, Ok ())"
    using extend_accepts [OF sample_mbuf_wf(1), of 4 3 Dev] by (auto simp: sample_mbuf_wf)
  from extend_shrink_roundtrip [OF sample_mbuf_wf(1) m1, of Release] m1 show ?thesis
    by (auto simp: sample_mbuf_wf)
qed

text \<open>
  C5: \<open>write_data_slice\<close> and the following \<open>read_data_slice\<close>: written inside the packet,
  the slice comes back from the position the call returns, the bytes around it are
  unchanged and so are the packet length and the invariant.
\<close>

theorem write_read_slice:
  assumes "wf_mbuf m" "list_all (\<lambda>b. length b = size_of T) items"
    and "offset < data_len m" "offset + size_of T * length items \<le> data_len m"
  shows "\<exists>m' pos. write_data_slice p T offset items m = (m', Ok (pos, length items))
    \<and> read_data_slice p T offset (length items) m' = Ok (pos, length items)
    \<and> mem_read (buf_mem m') pos (size_of T * length items) = Some (concat items)
    \<and> contents m' = take offset (contents m) @ concat items
        @ drop (offset + size_of T * length items) (contents m)
    \<and> wf_mbuf m' \<and> data_len m' = data_len m"
proof -
  obtain m' where w: "write_data_slice p T offset items m
      = (m', Ok (unat (data_off m) + offset, length items))" "wf_mbuf m'"
    and c: "contents m' = take offset (contents m) @ concat items
        @ drop (offset + size_of T * length items) (contents m)"
    using write_data_slice_accepts [OF assms(1,2,4,3)] by blast
  have dl: "data_len m' = data_len m"
    using c assms(4) length_contents [OF w(2)] length_contents [OF assms(1)]
      length_concat_items [OF assms(2)] by simp
  have off: "data_off m' = data_off m"
    using w(1) assms(3,4) data_len_limit [of m]
    by (auto simp: write_data_slice_def usize_add_def usize_mul_def usize_limit_def
        data_address_wf [OF assms(1)] ptr_store_def split: option.splits)
  have "mem_read (buf_mem m') (unat (data_off m') + offset) (size_of T * length items)
      = Some (take (size_of T * length items) (drop offset (contents m')))"
    using wf_mbufD [OF w(2)] dl assms(4)
    by (simp add: mem_read_def contents_def drop_take min_absorb1 add.commute)
  also have "\<dots> = Some (concat items)"
    using c assms(3,4) length_contents [OF assms(1)] length_concat_items [OF assms(2)] by simp
  finally have "mem_read (buf_mem m') (unat (data_off m) + offset) (size_of T * length items)
      = Some (concat items)" by (simp only: off)
  moreover have "read_data_slice p T offset (length items) m' = Ok (unat (data_off m) + offset, length items)"
    using read_data_slice_accepts [OF w(2)] assms(3,4) dl off by simp
  ultimately show ?thesis using w c dl by blast
qed

theorem write_read_slice_witness:
  "\<exists>m' pos. write_data_slice Dev TyU8x2 1 [[5, 6]] sample_mbuf = (m', Ok (pos, 1))
    \<and> mem_read (buf_mem m') pos 2 = Some [5, 6] \<and> contents m' = [1, 5, 6]"
  using write_read_slice [OF sample_mbuf_wf(1), where p = Dev and T = TyU8x2 and offset = 1
      and items = "[[5, 6]]"]
  by (auto simp: sample_mbuf_wf)

text \<open>
  C6: \<open>Mbuf::from_bytes\<close> under DPDK's allocator contract: with no free buffer it fails
  with \<open>Exhausted\<close>; for empty data or data that does not fit below the tail room it fails
  with \<open>NotResized\<close> and the allocated buffer is released again, so that memory is as
  before; otherwise it returns the owner of a well-formed buffer that holds exactly the
  data, and every other buffer is untouched.
\<close>

theorem from_bytes_spec:
  assumes "pktmbuf_pool alloc free" "alloc pool h = (r, h1)"
  shows "case from_bytes p alloc free pool data h of (h', res) \<Rightarrow>
    if r = 0 then h' = h \<and> res = Err (MempoolFailure Exhausted)
    else if data = [] \<or> room (the (h1 r)) \<le> length data
    then h' = h \<and> res = Err (BufferFailure NotResized)
    else res = Ok (Mbuf (Original r)) \<and>
      (\<exists>m'. h' = h(r \<mapsto> m') \<and> wf_mbuf m' \<and> contents m' = data)"
proof (cases "r = 0")
  case True
  with pktmbuf_pool.from_bytes_exhausted [OF assms(1)] assms(2) show ?thesis by auto
next
  case False
  with pktmbuf_pool.alloc_fresh [OF assms] obtain m
    where m: "h r = None" "h1 = h(r \<mapsto> m)" "wf_mbuf m" "data_len m = 0" by blast
  have a: "alloc pool h = (r, h(r \<mapsto> m))" using assms(2) m(2) by simp
  show ?thesis
  proof (cases "data = [] \<or> room m \<le> length data")
    case True
    with pktmbuf_pool.from_bytes_rejects [OF assms(1) a False m(1,3,4) True] False m(2)
    show ?thesis by simp
  next
    case reject: False
    then have "data \<noteq> []" "length data < room m" by auto
    with pktmbuf_pool.from_bytes_accepts [OF assms(1) a False m(3,4), of data p] False m(2)
    show ?thesis by auto
  qed
qed

theorem from_bytes_spec_witness:
  "\<exists>h' m'. from_bytes Dev (pool_alloc 2) pool_free 7 [1, 2, 3] Map.empty = (h', Ok (Mbuf (Original 1)))
    \<and> h' 1 = Some m' \<and> contents m' = [1, 2, 3]"
proof -
  have a: "pool_alloc 2 7 Map.empty = (1, [1 \<mapsto> fresh_mbuf 7])"
    by (simp add: pool_alloc_def upt_rec)
  have l: "pktmbuf_pool (pool_alloc 2) pool_free" by (rule fixed_pool.pktmbuf_pool_axioms)
  from from_bytes_spec [OF l a, where p = Dev and data = "[1, 2, 3]"] show ?thesis
    by (auto simp: fresh_mbuf_wf split: prod.splits)
qed

text \<open>
  \<open>Mbuf::truncate\<close> cuts a well-formed packet to its first \<open>to_len\<close> bytes if it is
  longer, and \<open>Mbuf::resize\<close> is \<open>extend\<close> for a length that is not negative and
  \<open>shrink\<close> by the absolute value for a negative one above \<open>isize::MIN\<close>.
\<close>

lemma truncate_resize_spec:
  assumes "wf_mbuf m"
  shows "(case truncate to_len m of (m', r) \<Rightarrow>
      if to_len < data_len m
      then r = Ok () \<and> wf_mbuf m' \<and> contents m' = take to_len (contents m)
      else r = Err NotResized \<and> m' = m)
    \<and> resize p offset (int len) m = extend p offset len m
    \<and> (0 < len \<and> len < 2 ^ 63 \<longrightarrow> resize p offset (- int len) m = shrink p offset len m)"
proof -
  note wf = wf_mbufD [OF assms]
  have "case truncate to_len m of (m', r) \<Rightarrow>
      r = Ok () \<and> wf_mbuf m' \<and> contents m' = take to_len (contents m)" if t: "to_len < data_len m"
  proof -
    let ?m' = "m\<lparr>raw_data_len := of_nat to_len, pkt_len := of_nat to_len\<rparr>"
    have u: "unat (of_nat to_len :: u16) = to_len" "unat (of_nat to_len :: u32) = to_len"
      using t wf by (simp_all add: unat_of_nat)
    have dl: "data_len ?m' = to_len" using u by (simp add: data_len_def)
    have "wf_mbuf ?m'" using wf t u dl by (simp add: wf_mbuf_def)
    moreover have "contents ?m' = take to_len (contents m)"
      using t by (simp add: contents_def dl min_absorb1)
    ultimately show ?thesis using t by (simp add: truncate_def)
  qed
  then show ?thesis by (auto simp: truncate_def resize_def)
qed

lemma truncate_resize_spec_witness:
  "contents (fst (truncate 2 sample_mbuf)) = [1, 2]
    \<and> contents (fst (resize Dev 0 (- 1) sample_mbuf)) = [2, 3]"
  using truncate_resize_spec [OF sample_mbuf_wf(1), where to_len = 2 and p = Dev and offset = 0 and len = 1]
    shrink_accepts [OF sample_mbuf_wf(1), of 1 0 Dev]
  by (auto simp: sample_mbuf_wf split: prod.splits)

text \<open>
  \<open>write_data\<close> with an offset behind the packet: the error value subtracts the offset
  from the packet length, so the call panics in the \<open>dev\<close> profile instead of returning
  \<open>OutOfBuffer\<close>, and reports a wrapped length in the \<open>release\<close> profile.
\<close>

lemma write_data_past_end:
  assumes "data_len m < offset" "offset + size_of T < usize_limit"
  shows "write_data Dev T offset item m = (m, Panic ArithOverflow)
    \<and> write_data Release T offset item m
        = (m, Err (OutOfBuffer (size_of T) (usize_limit + data_len m - offset)))"
proof -
  have "(data_len m + usize_limit - offset) mod usize_limit = usize_limit + data_len m - offset"
    using assms by (simp add: mod_less)
  then show ?thesis
    using assms by (simp add: write_data_def usize_add_def usize_sub_def)
qed

lemma write_data_past_end_witness:
  "write_data Dev TyU8 4 [9] sample_mbuf = (sample_mbuf, Panic ArithOverflow)"
  using write_data_past_end [of sample_mbuf 4 TyU8 "[9]"]
  by (simp add: sample_mbuf_wf usize_limit_def)

text \<open>
  C19: \<open>write_data\<close> on a well-formed buffer, for an item of \<open>n\<close> bytes, \<open>n\<close> at least one, and an end of
  the write that is a \<open>usize\<close>. Inside the packet it stores the item at the offset and keeps
  everything else; otherwise the buffer is unchanged. If the offset is inside the packet the error is
  \<open>OutOfBuffer\<close> with the bytes left. If it is behind the packet, the error value subtracts it from
  the length: a panic in the \<open>dev\<close> profile and a wrapped number in the \<open>release\<close> profile.
\<close>

theorem write_data_spec:
  assumes "wf_mbuf m" "length item = size_of T" "0 < size_of T" "offset + size_of T < usize_limit"
  shows "case write_data p T offset item m of (m', r) \<Rightarrow>
    if offset + size_of T \<le> data_len m
    then r = Ok (unat (data_off m) + offset) \<and> wf_mbuf m'
      \<and> contents m' = take offset (contents m) @ item @ drop (offset + size_of T) (contents m)
    else m' = m \<and> r = (if offset \<le> data_len m then Err (OutOfBuffer (size_of T) (data_len m - offset))
      else case p of Dev \<Rightarrow> Panic ArithOverflow
                   | Release \<Rightarrow> Err (OutOfBuffer (size_of T) (usize_limit + data_len m - offset)))"
proof -
  consider (fits) "offset + size_of T \<le> data_len m"
    | (out) "\<not> offset + size_of T \<le> data_len m" "offset \<le> data_len m" | (past) "data_len m < offset"
    by linarith
  then show ?thesis
  proof cases
    case fits
    with assms(3) write_data_accepts [OF assms(1,2) fits, of p] show ?thesis by auto
  next
    case out
    with assms(4) show ?thesis by (simp add: write_data_def usize_add_def usize_sub_def)
  next
    case past
    with write_data_past_end [OF past assms(4), of item] show ?thesis by (cases p) auto
  qed
qed

theorem write_data_spec_witness:
  "contents (fst (write_data Dev TyU8 1 [9] sample_mbuf)) = [1, 9, 3]
   \<and> snd (write_data Dev TyU8 3 [9] sample_mbuf) = Err (OutOfBuffer 1 0)
   \<and> snd (write_data Dev TyU8 4 [9] sample_mbuf) = Panic ArithOverflow"
  using write_data_spec [OF sample_mbuf_wf(1), of "[9]" TyU8 1 Dev]
    write_data_spec [OF sample_mbuf_wf(1), of "[9]" TyU8 3 Dev]
    write_data_spec [OF sample_mbuf_wf(1), of "[9]" TyU8 4 Dev]
  by (auto simp: sample_mbuf_wf usize_limit_def split: prod.splits)

text \<open>The bounds check of \<open>write_data\<close> wraps: the last byte in front of the packet is overwritten.\<close>

lemma write_data_wraps:
  assumes "wf_mbuf m" "0 < unat (data_off m)"
  shows "write_data Dev TyU8 (usize_limit - 1) [b] m = (m, Panic ArithOverflow)
    \<and> write_data Release TyU8 (usize_limit - 1) [b] m
        = (m\<lparr>buf_mem := (buf_mem m)[unat (data_off m) - 1 := b]\<rparr>,
           Err (BadOffset (usize_limit - 1) (data_len m)))"
proof -
  note wf = wf_mbufD [OF assms(1)]
  define d where "d = unat (data_off m) - 1"
  have d: "int (unat (data_off m)) + as_isize (usize_limit - 1) = int d" "d < length (buf_mem m)"
    using wf assms(2) by (simp_all add: d_def as_isize_def usize_limit_def)
  have a: "data_address Release (usize_limit - 1) m = (Ok d :: (buffer_error, nat) outcome)"
  proof -
    have "d < 65536" using d(2) wf by simp
    with d(2) show ?thesis unfolding data_address_def Let_def d(1) by simp
  qed
  have s: "ptr_store d [b] m
      = (Ok (m\<lparr>buf_mem := (buf_mem m)[d := b]\<rparr>) :: (buffer_error, rte_mbuf) outcome)"
    using d(2) by (simp add: ptr_store_def mem_write_def upd_conv_take_nth_drop)
  have "data_len (m\<lparr>buf_mem := x\<rparr>) = data_len m" for x by (simp add: data_len_def)
  then show ?thesis
    using a s data_len_limit [of m]
    by (simp add: write_data_def read_data_def usize_add_def usize_limit_def) (simp add: d_def)
qed

text \<open>
  In the \<open>release\<close> profile a length of \<open>usize_limit - k\<close> is the length \<open>- k\<close>: \<open>shrink\<close> does what
  \<open>extend\<close> would do, \<open>k\<close> bytes before the offset, but does not ask for the tail room.
\<close>

lemma wrapped_difference:
  assumes "e < dl" "dl < usize_limit" "0 < k" "e + k < usize_limit"
  shows "\<exists>r. usize_sub Release dl (e + k) = (Ok r :: ('e, usize) outcome)
    \<and> usize_sub Release r (usize_limit - k) = (Ok (dl - e) :: ('e, usize) outcome)"
proof (cases "e + k \<le> dl")
  case True
  then have "\<not> usize_limit - k \<le> dl - (e + k)" using assms by linarith
  moreover have "dl - (e + k) + usize_limit - (usize_limit - k) = dl - e" using True assms by simp
  ultimately show ?thesis using True assms by (simp add: usize_sub_def)
next
  case False
  define r where "r = dl + usize_limit - (e + k)"
  have r: "r < usize_limit" "usize_limit - k \<le> r" "r - (usize_limit - k) = dl - e"
    using False assms by (auto simp: r_def)
  then have "usize_sub Release dl (e + k) = (Ok r :: ('e, usize) outcome)"
    using False by (simp add: usize_sub_def r_def [symmetric])
  then show ?thesis using r by (simp add: usize_sub_def)
qed

lemma shrink_wraps:
  assumes "wf_mbuf m" "0 < k" "offset + k < 2 ^ 63" "offset < data_len m" "room m < k"
  shows "shrink Release (offset + k) (usize_limit - k) m = (m, UB)"
proof -
  note wf = wf_mbufD [OF assms(1)]
  have lim: "offset + k < usize_limit" "data_len m < usize_limit"
    using assms(3) data_len_limit [of m] by (simp_all add: usize_limit_def)
  have wrapped: "usize_add Release (offset + k) (usize_limit - k) = (Ok offset :: (buffer_error, usize) outcome)"
    using lim by (simp add: usize_add_def)
  obtain r where r: "usize_sub Release (data_len m) (offset + k) = (Ok r :: (buffer_error, usize) outcome)"
    "usize_sub Release r (usize_limit - k) = (Ok (data_len m - offset) :: (buffer_error, usize) outcome)"
    using wrapped_difference [OF assms(4) lim(2) assms(2) lim(1), where 'e = buffer_error] by blast
  have src: "data_address Release offset m = (Ok (unat (data_off m) + offset) :: (buffer_error, nat) outcome)"
    using assms(4) by (intro data_address_wf [OF assms(1)]) simp
  have pos: "int (unat (data_off m)) + as_isize (offset + k) = int (unat (data_off m) + offset + k)"
    using assms(3) by (simp add: as_isize_def)
  have "unat (data_off m) + offset + k + (data_len m - offset) > length (buf_mem m)"
    using wf(1,4) assms(4,5) by linarith
  then have copy: "ptr_copy src (unat (data_off m) + offset + k) (data_len m - offset) m
      = (UB :: (buffer_error, rte_mbuf) outcome)" for src
    by (simp add: ptr_copy_def mem_move_def mem_write_def mem_read_def)
  have "data_address Release (offset + k) m = (UB :: (buffer_error, nat) outcome)
    \<or> data_address Release (offset + k) m = (Ok (unat (data_off m) + offset + k) :: (buffer_error, nat) outcome)"
    unfolding data_address_def Let_def pos nat_int by simp
  then have "shift_up Release (offset + k) (usize_limit - k) (data_len m - offset) m
      = (UB :: (buffer_error, rte_mbuf) outcome)"
    using assms(4) by (auto simp: shift_up_def wrapped src copy)
  then show ?thesis using assms(2,4) lim by (simp add: shrink_def wrapped r)
qed

text \<open>
  C20: The bounds checks wrap in the \<open>release\<close> profile, and safe code leaves the packet. Writing one
  byte at the largest offset overwrites the last byte in front of the packet before
  the error is returned. Shrinking by \<open>2 ^ 64 - k\<close> passes the check of an offset inside the packet
  plus \<open>k\<close> and moves the bytes behind it \<open>k\<close> places down; without room for \<open>k\<close> more bytes that leaves the
  buffer. The \<open>dev\<close> profile panics on both additions.
\<close>

theorem bounds_checks_wrap:
  assumes "wf_mbuf m" "0 < unat (data_off m)"
    and "offset < data_len m" "room m < k" "offset + k < 2 ^ 63"
  shows "write_data Dev TyU8 (usize_limit - 1) [b] m = (m, Panic ArithOverflow)
    \<and> write_data Release TyU8 (usize_limit - 1) [b] m
        = (m\<lparr>buf_mem := (buf_mem m)[unat (data_off m) - 1 := b]\<rparr>,
           Err (BadOffset (usize_limit - 1) (data_len m)))
    \<and> shrink Dev (offset + k) (usize_limit - k) m = (m, Panic ArithOverflow)
    \<and> shrink Release (offset + k) (usize_limit - k) m = (m, UB)"
proof -
  have "0 < usize_limit - k" "\<not> offset + k + (usize_limit - k) < usize_limit"
    using assms(5) by (simp_all add: usize_limit_def)
  then have "shrink Dev (offset + k) (usize_limit - k) m = (m, Panic ArithOverflow)"
    by (simp add: shrink_def usize_add_def)
  moreover have "0 < k" using assms(4) by simp
  ultimately show ?thesis using write_data_wraps [OF assms(1,2), of b] shrink_wraps [OF assms(1) _ assms(5,3,4)]
    by simp
qed

theorem bounds_checks_wrap_witness:
  "write_data Release TyU8 (usize_limit - 1) [255] sample_mbuf
      = (sample_mbuf\<lparr>buf_mem := [0, 255, 1, 2, 3, 7, 8, 9, 0, 0]\<rparr>,
         Err (BadOffset (usize_limit - 1) 3))
    \<and> shrink Release 8 (usize_limit - 7) sample_mbuf = (sample_mbuf, UB)"
  using bounds_checks_wrap [OF sample_mbuf_wf(1), of 1 7 255]
  by (simp add: sample_mbuf_wf) (simp add: sample_mbuf_def)

end
