(* ===== verification/Cidr.thy ===== *)
theory Cidr
  imports Rust_Text
begin

text \<open>
  What the two address families of \<open>engine/src/net/cidr\<close> share: the bit counts of Rust's
  unsigned types, the theory of prefix masks on words of any width, the error type and the
  contract of the trait \<open>Cidr\<close> (\<open>mod.rs\<close>) as the locale \<open>cidr_range\<close>, whose lemmas
  hold for both implementations.
\<close>

section \<open>Bit counts\<close>

definition leading_zeros :: "'w::len word \<Rightarrow> nat" where
  "leading_zeros w = length (takeWhile (\<lambda>i. \<not> bit w i) (rev [0..<LENGTH('w)]))"

definition trailing_zeros :: "'w::len word \<Rightarrow> nat" where
  "trailing_zeros w = length (takeWhile (\<lambda>i. \<not> bit w i) [0..<LENGTH('w)])"

definition count_zeros :: "'w::len word \<Rightarrow> nat" where
  "count_zeros w = length (filter (\<lambda>i. \<not> bit w i) [0..<LENGTH('w)])"

lemma leading_zeros_le: "leading_zeros (w :: 'w::len word) \<le> LENGTH('w)"
  using length_takeWhile_le [of "\<lambda>i. \<not> bit w i" "rev [0..<LENGTH('w)]"]
  by (simp add: leading_zeros_def)

section \<open>Errors\<close>

datatype cidr_error = Malformed string | InvalidPrefixLength

section \<open>Prefix masks\<close>

text \<open>\<open>prefix_mask k\<close> has its \<open>k\<close> most significant bits set.\<close>

definition prefix_mask :: "nat \<Rightarrow> 'w::len word" where
  "prefix_mask k = push_bit (LENGTH('w) - k) (- 1)"

lemma bit_prefix_mask:
  "bit (prefix_mask k :: 'w::len word) i \<longleftrightarrow> LENGTH('w) - k \<le> i \<and> i < LENGTH('w)"
  by (auto simp: prefix_mask_def bit_not_iff bit_mask_iff)

lemma not_prefix_mask: "NOT (prefix_mask k :: 'w::len word) = mask (LENGTH('w) - k)"
  by (rule bit_word_eqI) (auto simp: bit_not_iff bit_prefix_mask bit_mask_iff)

lemma prefix_mask_full [simp]: "prefix_mask LENGTH('w) = (- 1 :: 'w::len word)"
  by (simp add: prefix_mask_def)

lemma prefix_mask_zero [simp]: "prefix_mask 0 = (0 :: 'w::len word)"
  by (rule bit_word_eqI) (simp add: bit_prefix_mask)

lemma upt_split: "k \<le> n \<Longrightarrow> [0..<n] = [0..<k] @ [k..<n]"
  using upt_add_eq_append [of 0 k "n - k"] by simp

lemma takeWhile_upt_less:
  "k \<le> n \<Longrightarrow> (\<And>i. i < n \<Longrightarrow> P i \<longleftrightarrow> i < k) \<Longrightarrow> takeWhile P [0..<n] = [0..<k]"
proof -
  assume k: "k \<le> n" and P: "\<And>i. i < n \<Longrightarrow> P i \<longleftrightarrow> i < k"
  have "[0..<n] = [0..<k] @ [k..<n]" by (rule upt_split [OF k])
  moreover have "takeWhile P [k..<n] = []"
    using P by (cases "k < n") (auto simp: upt_conv_Cons)
  moreover have "takeWhile P ([0..<k] @ [k..<n]) = [0..<k] @ takeWhile P [k..<n]"
    using k P by (intro takeWhile_append2) auto
  ultimately show ?thesis by simp
qed

lemma takeWhile_rev_upt_less:
  "k \<le> n \<Longrightarrow> (\<And>i. i < n \<Longrightarrow> P i \<longleftrightarrow> k \<le> i) \<Longrightarrow> takeWhile P (rev [0..<n]) = rev [k..<n]"
proof -
  assume k: "k \<le> n" and P: "\<And>i. i < n \<Longrightarrow> P i \<longleftrightarrow> k \<le> i"
  have "rev [0..<n] = rev [k..<n] @ rev [0..<k]" by (simp add: upt_split [OF k])
  moreover have "takeWhile P (rev [0..<k]) = []"
    using P k by (cases k) auto
  moreover have "takeWhile P (rev [k..<n] @ rev [0..<k]) = rev [k..<n] @ takeWhile P (rev [0..<k])"
    using P by (intro takeWhile_append2) auto
  ultimately show ?thesis by simp
qed

lemma leading_zeros_mask:
  assumes "h \<le> LENGTH('w)"
  shows "leading_zeros (mask h :: 'w::len word) = LENGTH('w) - h"
proof -
  have "takeWhile (\<lambda>i. \<not> bit (mask h :: 'w word) i) (rev [0..<LENGTH('w)]) = rev [h..<LENGTH('w)]"
    using assms by (intro takeWhile_rev_upt_less) (auto simp: bit_mask_iff)
  then show ?thesis by (simp add: leading_zeros_def)
qed

lemma length_prefix_mask:
  "k \<le> LENGTH('w) \<Longrightarrow> leading_zeros (NOT (prefix_mask k :: 'w::len word)) = k"
  by (simp add: not_prefix_mask leading_zeros_mask)

lemma prefix_mask_inj:
  "j \<le> LENGTH('w) \<Longrightarrow> k \<le> LENGTH('w) \<Longrightarrow>
   prefix_mask j = (prefix_mask k :: 'w::len word) \<longleftrightarrow> j = k"
  by (metis length_prefix_mask)

lemma leading_zeros_eq_0_iff:
  "leading_zeros (w :: 'w::len word) = 0 \<longleftrightarrow> bit w (LENGTH('w) - 1)"
proof -
  obtain n where n: "LENGTH('w) = Suc n" using len_gt_0 [where 'a = 'w] gr0_implies_Suc by blast
  then show ?thesis by (simp add: leading_zeros_def takeWhile_eq_Nil_iff)
qed

text \<open>
  The test of \<open>netmask_length\<close>: the zeros of the mask are exactly its trailing ones.
\<close>

lemma trailing_zeros_prefix:
  assumes "k \<le> LENGTH('w)"
  shows "trailing_zeros (prefix_mask k :: 'w::len word) = LENGTH('w) - k"
    and "count_zeros (prefix_mask k :: 'w::len word) = LENGTH('w) - k"
proof -
  have "takeWhile (\<lambda>i. \<not> bit (prefix_mask k :: 'w word) i) [0..<LENGTH('w)] = [0..<LENGTH('w) - k]"
    by (rule takeWhile_upt_less) (auto simp: bit_prefix_mask)
  then show "trailing_zeros (prefix_mask k :: 'w word) = LENGTH('w) - k"
    by (simp add: trailing_zeros_def)
  have "filter (\<lambda>i. \<not> bit (prefix_mask k :: 'w word) i) [0..<LENGTH('w)]
      = filter (\<lambda>i. i < LENGTH('w) - k) [0..<LENGTH('w)]"
    by (rule filter_cong) (auto simp: bit_prefix_mask)
  moreover have "length (filter (\<lambda>i. i < h) [0..<n]) = min h n" for h n :: nat
    by (induction n) auto
  ultimately show "count_zeros (prefix_mask k :: 'w word) = LENGTH('w) - k"
    by (simp add: count_zeros_def)
qed

lemma zeros_trailing_imp_prefix:
  assumes "trailing_zeros w = count_zeros (w :: 'w::len word)"
  shows "w = prefix_mask (LENGTH('w) - trailing_zeros w)"
proof -
  let ?P = "\<lambda>i. \<not> bit w i" and ?n = "LENGTH('w)" and ?t = "trailing_zeros w"
  have le: "?t \<le> ?n"
    using length_takeWhile_le [of ?P "[0..<?n]"] by (simp add: trailing_zeros_def)
  have "takeWhile ?P [0..<?n] = take ?t [0..<?n]"
    unfolding trailing_zeros_def by (rule takeWhile_eq_take)
  with le have tw: "takeWhile ?P [0..<?n] = [0..<?t]" by (simp add: take_upt)
  then have low: "\<not> bit w i" if "i < ?t" for i
    using that set_takeWhileD [of i ?P "[0..<?n]"] by simp
  have split: "[0..<?n] = [0..<?t] @ [?t..<?n]" by (rule upt_split [OF le])
  have "filter ?P [0..<?t] = [0..<?t]" using low by simp
  then have "length (filter ?P [0..<?n]) = ?t + length (filter ?P [?t..<?n])"
    by (subst split) simp
  then have "filter ?P [?t..<?n] = []" using assms by (simp add: count_zeros_def)
  then have high: "bit w i" if "?t \<le> i" "i < ?n" for i
    using that by (auto simp: filter_empty_conv)
  show ?thesis
    by (rule bit_word_eqI) (use low high le in \<open>auto simp: bit_prefix_mask simp flip: not_less\<close>)
qed

lemma netmask_test_iff:
  "leading_zeros w = 0 \<and> trailing_zeros w = count_zeros w \<longleftrightarrow>
   (\<exists>k. 0 < k \<and> k \<le> LENGTH('w) \<and> (w :: 'w::len word) = prefix_mask k)"
proof
  assume *: "leading_zeros w = 0 \<and> trailing_zeros w = count_zeros w"
  let ?k = "LENGTH('w) - trailing_zeros w"
  have w: "w = prefix_mask ?k" using * zeros_trailing_imp_prefix by blast
  moreover have "0 < ?k"
  proof (rule ccontr)
    assume "\<not> 0 < ?k"
    with w have "w = 0" by simp
    with * show False by (simp add: leading_zeros_eq_0_iff)
  qed
  ultimately show "\<exists>k. 0 < k \<and> k \<le> LENGTH('w) \<and> w = prefix_mask k"
    by (intro exI [of _ ?k]) simp
next
  assume "\<exists>k. 0 < k \<and> k \<le> LENGTH('w) \<and> w = prefix_mask k"
  then obtain k where k: "0 < k" "k \<le> LENGTH('w)" "w = prefix_mask k" by blast
  then show "leading_zeros w = 0 \<and> trailing_zeros w = count_zeros w"
    by (simp add: leading_zeros_eq_0_iff bit_prefix_mask trailing_zeros_prefix)
qed

section \<open>Ranges\<close>

text \<open>
  Masking with a prefix rounds down to a multiple of the range size; the addresses that
  agree on the prefix form the interval from the network to the broadcast address.
\<close>

lemma unat_prefix_and:
  assumes "k \<le> LENGTH('w)"
  shows "unat (prefix_mask k AND (a :: 'w::len word))
    = unat a div 2 ^ (LENGTH('w) - k) * 2 ^ (LENGTH('w) - k)"
proof -
  let ?h = "LENGTH('w) - k"
  have "prefix_mask k AND a = push_bit ?h (drop_bit ?h a)"
    by (rule bit_word_eqI)
       (auto simp: bit_and_iff bit_prefix_mask bit_push_bit_iff bit_drop_bit_eq)
  then have "unat (prefix_mask k AND a) = take_bit LENGTH('w) (push_bit ?h (drop_bit ?h (unat a)))"
    by (simp only: unsigned_push_bit_eq unat_drop_bit_eq)
  then have "unat (prefix_mask k AND a) = (unat a div 2 ^ ?h * 2 ^ ?h) mod 2 ^ LENGTH('w)"
    by (simp only: take_bit_eq_mod push_bit_eq_mult drop_bit_eq_div)
  moreover have "unat a div 2 ^ ?h * 2 ^ ?h \<le> unat a" by (rule div_times_less_eq_dividend)
  moreover have "unat a < 2 ^ LENGTH('w)" by simp
  ultimately show ?thesis by (metis le_less_trans mod_less)
qed

lemma unat_mask:
  assumes "h \<le> LENGTH('w)"
  shows "unat (mask h :: 'w::len word) = 2 ^ h - 1"
proof -
  have "unat (mask h :: 'w word) = unat (of_nat (mask h) :: 'w word)" by (simp only: of_nat_mask_eq)
  also have "\<dots> = (2 ^ h - 1) mod 2 ^ LENGTH('w)" by (simp only: unat_of_nat mask_eq_exp_minus_1)
  also have "\<dots> = 2 ^ h - 1"
  proof (rule mod_less)
    have "(2 :: nat) ^ h \<le> 2 ^ LENGTH('w)" using assms by (intro power_increasing) auto
    then show "(2 :: nat) ^ h - 1 < 2 ^ LENGTH('w)" by (metis diff_less less_le_trans zero_less_numeral zero_less_one zero_less_power)
  qed
  finally show ?thesis .
qed

lemma unat_prefix_or:
  assumes "k \<le> LENGTH('w)"
  shows "unat ((prefix_mask k AND (a :: 'w::len word)) OR NOT (prefix_mask k))
    = unat a div 2 ^ (LENGTH('w) - k) * 2 ^ (LENGTH('w) - k) + (2 ^ (LENGTH('w) - k) - 1)"
proof -
  let ?h = "LENGTH('w) - k" and ?n = "prefix_mask k AND a" and ?m = "NOT (prefix_mask k :: 'w word)"
  have disj: "?n AND ?m = 0"
    by (rule bit_word_eqI) (auto simp: bit_and_iff bit_not_iff)
  have n: "unat ?n = unat a div 2 ^ ?h * 2 ^ ?h" by (rule unat_prefix_and [OF assms])
  have m: "unat ?m = 2 ^ ?h - 1" by (simp add: not_prefix_mask unat_mask)
  have "unat a div 2 ^ ?h < 2 ^ k"
    using assms by (simp add: less_mult_imp_div_less flip: power_add)
  then have "unat a div 2 ^ ?h * 2 ^ ?h + 2 ^ ?h \<le> 2 ^ k * 2 ^ ?h"
    by (metis Suc_leI add.commute mult_Suc mult_le_mono1)
  also have "\<dots> = 2 ^ LENGTH('w)" using assms by (simp flip: power_add)
  finally have "unat ?n + unat ?m < 2 ^ LENGTH('w)"
    using n m by (metis add_strict_left_mono diff_less less_le_trans less_numeral_extra(1)
        zero_less_numeral zero_less_power)
  then have "unat (?n + ?m) = unat ?n + unat ?m" by (simp add: unat_add_lem)
  then show ?thesis using disj n m by (simp add: disjunctive_add_eq_or [symmetric])
qed

lemma prefix_and_eq_iff:
  assumes "k \<le> LENGTH('w)"
  shows "prefix_mask k AND a = prefix_mask k AND (b :: 'w::len word) \<longleftrightarrow>
    unat a div 2 ^ (LENGTH('w) - k) = unat b div 2 ^ (LENGTH('w) - k)"
  by (simp add: word_unat_eq_iff unat_prefix_and [OF assms])

lemma div_eq_iff_between:
  assumes "0 < (s :: nat)"
  shows "q = b div s \<longleftrightarrow> q * s \<le> b \<and> b \<le> q * s + (s - 1)"
proof
  assume "q = b div s"
  moreover have "b div s * s \<le> b" by (rule div_times_less_eq_dividend)
  moreover have "b = b div s * s + b mod s" by simp
  moreover have "b mod s \<le> s - 1" using assms by (simp add: less_eq_Suc_le [symmetric] less_Suc_eq_le [symmetric])
  ultimately show "q * s \<le> b \<and> b \<le> q * s + (s - 1)" by (metis add_le_mono le_refl)
next
  assume "q * s \<le> b \<and> b \<le> q * s + (s - 1)"
  with assms have "b = q * s + (b - q * s)" "b - q * s < s" by auto
  then show "q = b div s" using assms by (metis add.commute add_cancel_right_left div_less div_mult_self3 less_not_refl)
qed

lemma prefix_range:
  assumes "k \<le> LENGTH('w)"
  shows "prefix_mask k AND a = prefix_mask k AND (b :: 'w::len word) \<longleftrightarrow>
    prefix_mask k AND a \<le> b \<and> b \<le> (prefix_mask k AND a) OR NOT (prefix_mask k)"
  unfolding prefix_and_eq_iff [OF assms] word_le_nat_alt unat_prefix_and [OF assms]
    unat_prefix_or [OF assms]
  by (rule div_eq_iff_between) simp

lemma card_word_interval: "lo \<le> hi \<Longrightarrow> card {lo..hi :: 'w::len word} = unat hi - unat lo + 1"
proof -
  assume "lo \<le> hi"
  have "bij_betw unat {lo..hi} {unat lo..unat hi}"
  proof (rule bij_betw_imageI)
    show "inj_on unat {lo..hi}" by (rule inj_onI) (simp add: word_unat_eq_iff)
    show "unat ` {lo..hi} = {unat lo..unat hi}"
    proof
      show "{unat lo..unat hi} \<subseteq> unat ` {lo..hi}"
      proof
        fix n assume n: "n \<in> {unat lo..unat hi}"
        have "unat hi < 2 ^ LENGTH('w)" by simp
        with n have "n < 2 ^ LENGTH('w)" by (metis atLeastAtMost_iff le_less_trans)
        then have "unat (of_nat n :: 'w word) = n" by (simp add: unat_of_nat)
        with n show "n \<in> unat ` {lo..hi}"
          by (metis atLeastAtMost_iff image_eqI word_le_nat_alt)
      qed
    qed (auto simp: word_le_nat_alt)
  qed
  then show ?thesis using \<open>lo \<le> hi\<close> by (simp add: bij_betw_same_card word_le_nat_alt)
qed

text \<open>Counting up from one end of an interval to the other enumerates it.\<close>

lemma word_enum:
  fixes lo hi :: "'w::len word"
  assumes "unat hi = unat lo + (n - 1)" "0 < n"
  defines "as \<equiv> map (\<lambda>i. lo + of_nat i) [0..<n]"
  shows "sorted as" "distinct as" "set as = {lo..hi}" "hd as = lo"
proof -
  let ?f = "\<lambda>i. lo + (of_nat i :: 'w word)"
  have u: "unat (?f i) = unat lo + i" if "i < n" for i
  proof -
    have "unat lo + i < 2 ^ LENGTH('w)"
      using that assms(1,2) unsigned_less [of hi, where 'a = nat] by linarith
    then show ?thesis by (simp add: unat_word_ariths unat_of_nat)
  qed
  have mono: "i < j \<Longrightarrow> j < n \<Longrightarrow> ?f i < ?f j" for i j
    using u by (simp add: word_less_nat_alt)
  have "sorted_wrt (<) as"
    unfolding as_def sorted_wrt_map
    by (rule sorted_wrt_mono_rel [OF _ sorted_wrt_upt]) (auto intro: mono)
  then show sd: "sorted as" "distinct as" by (simp_all add: strict_sorted_iff)
  have le: "lo \<le> hi" using assms(1) by (simp add: word_le_nat_alt)
  have "set as \<subseteq> {lo..hi}"
    using u assms(1) by (auto simp: as_def word_le_nat_alt)
  moreover have "card (set as) = card {lo..hi}"
    using distinct_card [OF sd(2)] card_word_interval [OF le] assms(1,2) by (simp add: as_def)
  ultimately show "set as = {lo..hi}" by (intro card_subset_eq) auto
  show "hd as = lo" using assms(2) by (simp add: as_def hd_map)
qed

section \<open>The contract of the trait\<close>

text \<open>
  A range is an address with a netmask; \<open>valid\<close> says that the netmask is a prefix mask of
  the reported length.
\<close>

locale cidr_range =
  fixes address :: "'c \<Rightarrow> 'w::len word"
    and netmask :: "'c \<Rightarrow> 'w word"
    and hostmask :: "'c \<Rightarrow> 'w word"
    and network :: "'c \<Rightarrow> 'w word"
    and broadcast :: "'c \<Rightarrow> 'w word"
    and contains :: "'c \<Rightarrow> 'w word \<Rightarrow> bool"
    and plen :: "'c \<Rightarrow> nat"
    and valid :: "'c \<Rightarrow> bool"
  assumes netmask_prefix: "valid c \<Longrightarrow> plen c \<le> LENGTH('w) \<and> netmask c = prefix_mask (plen c)"
    and hostmask_eq: "hostmask c = NOT (netmask c)"
    and network_eq: "network c = netmask c AND address c"
    and broadcast_eq: "broadcast c = (netmask c AND address c) OR NOT (netmask c)"
    and contains_eq: "contains c a \<longleftrightarrow> netmask c AND address c = netmask c AND a"
begin

lemma contains_iff_range:
  assumes "valid c"
  shows "contains c a \<longleftrightarrow> network c \<le> a \<and> a \<le> broadcast c"
  using netmask_prefix [OF assms] prefix_range [of "plen c" "address c" a]
  by (simp add: contains_eq network_eq broadcast_eq)

lemma unat_network:
  assumes "valid c"
  shows "unat (network c) = unat (address c) div 2 ^ (LENGTH('w) - plen c) * 2 ^ (LENGTH('w) - plen c)"
  using netmask_prefix [OF assms] by (simp add: network_eq unat_prefix_and)

lemma unat_broadcast:
  assumes "valid c"
  shows "unat (broadcast c) = unat (network c) + (2 ^ (LENGTH('w) - plen c) - 1)"
  using netmask_prefix [OF assms] unat_network [OF assms]
  by (simp add: broadcast_eq unat_prefix_or)

lemma network_le_broadcast: "valid c \<Longrightarrow> network c \<le> broadcast c"
  by (simp only: word_le_nat_alt unat_broadcast le_add1)

lemma contains_address: "contains c (address c)"
  by (simp add: contains_eq)

lemma contains_ends: "valid c \<Longrightarrow> contains c (network c) \<and> contains c (broadcast c)"
  by (simp add: contains_iff_range network_le_broadcast)

lemma contained_set:
  assumes "valid c"
  shows "{a. contains c a} = {network c..broadcast c}"
  by (simp only: contains_iff_range [OF assms] atLeastAtMost_def atLeast_def atMost_def Collect_conj_eq)

lemma card_contained:
  assumes "valid c"
  shows "card {a. contains c a} = 2 ^ (LENGTH('w) - plen c)"
proof -
  note contained_set [OF assms]
  then have "card {a. contains c a} = unat (broadcast c) - unat (network c) + 1"
    by (simp only: card_word_interval [OF network_le_broadcast [OF assms]])
  then have "card {a. contains c a} = 2 ^ (LENGTH('w) - plen c) - 1 + 1"
    by (simp only: unat_broadcast [OF assms] diff_add_inverse)
  then show ?thesis by simp
qed

lemma nested:
  assumes "valid c" "valid d" "plen c \<le> plen d" "contains c x" "contains d x" "contains d y"
  shows "contains c y"
proof -
  let ?hc = "LENGTH('w) - plen c" and ?hd = "LENGTH('w) - plen d"
  note c = netmask_prefix [OF assms(1)] and d = netmask_prefix [OF assms(2)]
  have eqs: "unat (address c) div 2 ^ ?hc = unat x div 2 ^ ?hc"
    "unat (address d) div 2 ^ ?hd = unat x div 2 ^ ?hd"
    "unat (address d) div 2 ^ ?hd = unat y div 2 ^ ?hd"
    using assms(4-6) c d by (simp_all add: contains_eq prefix_and_eq_iff)
  have "(2 :: nat) ^ ?hc = 2 ^ ?hd * 2 ^ (?hc - ?hd)"
    using assms(3) by (subst power_add [symmetric]) simp
  then have *: "n div 2 ^ ?hc = n div 2 ^ ?hd div 2 ^ (?hc - ?hd)" for n :: nat
    by (simp only: div_mult2_eq)
  have "unat (address c) div 2 ^ ?hc = unat y div 2 ^ ?hc"
  proof -
    have "unat x div 2 ^ ?hd = unat y div 2 ^ ?hd" using eqs(2,3) by simp
    then have "unat x div 2 ^ ?hc = unat y div 2 ^ ?hc" by (simp only: *)
    with eqs(1) show ?thesis by simp
  qed
  with c show ?thesis by (simp add: contains_eq prefix_and_eq_iff)
qed

end

section \<open>Iteration\<close>

text \<open>
  \<open>collect\<close> drains an iterator into a vector, calling \<open>next\<close> at most \<open>fuel\<close> times;
  \<open>None\<close> means that the iterator has not ended by then.
\<close>

fun collect ::
  "('it \<Rightarrow> 'it \<times> ('e, 'a option) outcome) \<Rightarrow> nat \<Rightarrow> 'it \<Rightarrow> ('e, 'a list) outcome option" where
  "collect nxt 0 it = None"
| "collect nxt (Suc fuel) it =
     (case nxt it of
        (it', Ok None) \<Rightarrow> Some (Ok [])
      | (it', Ok (Some a)) \<Rightarrow>
          map_option (\<lambda>r. and_then r (\<lambda>as. Ok (a # as))) (collect nxt fuel it')
      | (it', Err e) \<Rightarrow> Some (Err e)
      | (it', Panic k) \<Rightarrow> Some (Panic k)
      | (it', UB) \<Rightarrow> Some UB)"

text \<open>The contract of the two address iterators: they count up to their last address.\<close>

locale addr_iterator =
  fixes nxt :: "'it \<Rightarrow> 'it \<times> ('e, 'w::len word option) outcome"
    and cur :: "'it \<Rightarrow> 'w word option"
    and final :: "'it \<Rightarrow> 'w word"
  assumes nxt_done: "cur it = None \<Longrightarrow> \<exists>it'. nxt it = (it', Ok None)"
    and nxt_last: "cur it = Some (final it) \<Longrightarrow> \<exists>it'. nxt it = (it', Ok (Some (final it))) \<and> cur it' = None"
    and nxt_step: "cur it = Some a \<Longrightarrow> a < final it \<Longrightarrow>
      \<exists>it'. nxt it = (it', Ok (Some a)) \<and> cur it' = Some (a + 1) \<and> final it' = final it"
begin

lemma collect_counts:
  assumes "cur it = Some a" "unat (final it) = unat a + d" "d + 1 < fuel"
  shows "collect nxt fuel it = Some (Ok (map (\<lambda>i. a + of_nat i) [0..<Suc d]))"
  using assms
proof (induction d arbitrary: it a fuel)
  case 0
  then have "a = final it" by (simp add: word_unat_eq_iff)
  with 0 nxt_last obtain it' where it': "nxt it = (it', Ok (Some a))" "cur it' = None" by metis
  obtain f where f: "fuel = Suc (Suc f)" using "0.prems"(3) by (cases fuel; cases "fuel - 1") auto
  from it' nxt_done [of it'] f show ?case by auto
next
  case (Suc d)
  have lt: "a < final it" using Suc.prems(2) by (simp add: word_less_nat_alt)
  with Suc.prems nxt_step obtain it'
    where it': "nxt it = (it', Ok (Some a))" "cur it' = Some (a + 1)" "final it' = final it" by metis
  have "unat a + unat (1 :: 'w word) < 2 ^ LENGTH('w)"
    using Suc.prems(2) unsigned_less [of "final it", where 'a = nat] by simp
  then have "unat (a + 1) = unat a + 1" by (simp only: unat_add_lem) simp
  with Suc.prems it' have "unat (final it') = unat (a + 1) + d" by simp
  moreover obtain f where f: "fuel = Suc f" "d + 1 < f" using Suc.prems(3) by (cases fuel) auto
  ultimately have "collect nxt f it' = Some (Ok (map (\<lambda>i. (a + 1) + of_nat i) [0..<Suc d]))"
    using Suc.IH it' by blast
  moreover have "map (\<lambda>i. a + of_nat i) [0..<Suc (Suc d)]
      = a # map (\<lambda>i. (a + 1) + of_nat i) [0..<Suc d]"
    by (simp only: upt_rec [of 0 "Suc (Suc d)"] map_Suc_upt [symmetric])
       (simp add: add.assoc del: upt_Suc)
  ultimately show ?case using it' f by simp
qed

end

end
