(* ===== verification/Cidr_V4.thy ===== *)
theory Cidr_V4
  imports Cidr
begin

text \<open>
  IPv4 CIDR ranges, \<open>engine/src/net/cidr/v4.rs\<close>: the constructors, the queries of the
  trait \<open>Cidr\<close>, the address iterator and the textual form. The contract
  \<open>cidr_range\<close> and the iterator contract are interpreted on these definitions.
\<close>

definition IPV4ADDR_BITS :: usize where
  "IPV4ADDR_BITS = 32"

record ipv4_cidr =
  v4_addr :: ipv4addr
  v4_mask :: u32

definition v4_default :: ipv4_cidr where
  "v4_default = \<lparr>v4_addr = 0, v4_mask = 0\<rparr>"

section \<open>Queries\<close>

definition v4_address :: "ipv4_cidr \<Rightarrow> ipv4addr" where
  "v4_address c = v4_addr c"

definition v4_broadcast :: "ipv4_cidr \<Rightarrow> ipv4addr" where
  "v4_broadcast c = (v4_mask c AND v4_addr c) OR NOT (v4_mask c)"

definition v4_contains :: "ipv4_cidr \<Rightarrow> ipv4addr \<Rightarrow> bool" where
  "v4_contains c a \<longleftrightarrow> v4_mask c AND v4_addr c = v4_mask c AND a"

definition v4_length :: "ipv4_cidr \<Rightarrow> usize" where
  "v4_length c = leading_zeros (NOT (v4_mask c))"

definition v4_hostmask :: "ipv4_cidr \<Rightarrow> ipv4addr" where
  "v4_hostmask c = NOT (v4_mask c)"

definition v4_netmask :: "ipv4_cidr \<Rightarrow> ipv4addr" where
  "v4_netmask c = v4_mask c"

definition v4_network :: "ipv4_cidr \<Rightarrow> ipv4addr" where
  "v4_network c = v4_mask c AND v4_addr c"

definition v4_size :: "profile \<Rightarrow> ipv4_cidr \<Rightarrow> ('e, usize) outcome" where
  "v4_size p c = and_then (usize_sub p IPV4ADDR_BITS (v4_length c)) (\<lambda>n. usize_pow p 2 n)"

section \<open>Constructors\<close>

definition v4_new :: "ipv4addr \<Rightarrow> usize \<Rightarrow> cidr_error + ipv4_cidr" where
  "v4_new a len =
     (if len = 0 then Inr \<lparr>v4_addr = a, v4_mask = - 1\<rparr>
      else if 1 \<le> len \<and> len \<le> IPV4ADDR_BITS
      then Inr \<lparr>v4_addr = a, v4_mask = push_bit (IPV4ADDR_BITS - len) (- 1)\<rparr>
      else Inl (Malformed ''Not a valid length''))"

definition v4_netmask_length :: "ipv4addr \<Rightarrow> cidr_error + usize" where
  "v4_netmask_length nm =
     (let len = leading_zeros (NOT nm)
      in if leading_zeros nm = 0 \<and> trailing_zeros nm = count_zeros nm then Inr len
         else Inl InvalidPrefixLength)"

definition v4_with_netmask :: "ipv4addr \<Rightarrow> ipv4addr \<Rightarrow> cidr_error + ipv4_cidr" where
  "v4_with_netmask a nm =
     (case v4_netmask_length nm of Inl e \<Rightarrow> Inl e | Inr len \<Rightarrow> v4_new a len)"

section \<open>Iterator\<close>

record ipv4_cidr_iterator =
  v4_it_next :: "u32 option"
  v4_it_end :: u32

definition v4_iterator_new ::
  "profile \<Rightarrow> ipv4addr \<Rightarrow> usize \<Rightarrow> ('e, ipv4_cidr_iterator) outcome" where
  "v4_iterator_new p start e =
     and_then (word_sub p (of_nat e) 1) (\<lambda>d.
     and_then (word_add p start d) (\<lambda>last.
       Ok \<lparr>v4_it_next = Some start, v4_it_end = last\<rparr>))"

definition v4_iter :: "profile \<Rightarrow> ipv4_cidr \<Rightarrow> ('e, ipv4_cidr_iterator) outcome" where
  "v4_iter p c = and_then (v4_size p c) (\<lambda>n. v4_iterator_new p (v4_network c) n)"

definition v4_next ::
  "profile \<Rightarrow> ipv4_cidr_iterator \<Rightarrow> ipv4_cidr_iterator \<times> ('e, ipv4addr option) outcome" where
  "v4_next p it =
     (case v4_it_next it of
        None \<Rightarrow> (it, Ok None)
      | Some n \<Rightarrow>
          if n = v4_it_end it then (it\<lparr>v4_it_next := None\<rparr>, Ok (Some n))
          else with_ok it (word_add p n 1) (\<lambda>n'. (it\<lparr>v4_it_next := Some n'\<rparr>, Ok (Some n))))"

section \<open>Text\<close>

text \<open>The message of \<open>AddrParseError\<close> for IPv4.\<close>

definition ipv4_parse_error :: string where
  "ipv4_parse_error = ''invalid IPv4 address syntax''"

definition v4_from_str :: "string \<Rightarrow> cidr_error + ipv4_cidr" where
  "v4_from_str s =
     (case split_on (\<lambda>c. c = CHR ''/'') s of
        [addr, len_or_netmask] \<Rightarrow>
          (case ipv4_from_str addr of
             None \<Rightarrow> Inl (Malformed ipv4_parse_error)
           | Some a \<Rightarrow>
               (case from_str_radix 10 usize_limit len_or_netmask of
                  Some len \<Rightarrow> v4_new a len
                | None \<Rightarrow>
                    (case ipv4_from_str len_or_netmask of
                       None \<Rightarrow> Inl (Malformed ipv4_parse_error)
                     | Some nm \<Rightarrow> v4_with_netmask a nm)))
      | _ \<Rightarrow> Inl (Malformed ''No `/` found''))"

definition v4_to_string :: "ipv4_cidr \<Rightarrow> string" where
  "v4_to_string c = ipv4_to_string (v4_address c) @ CHR ''/'' # dec_string (v4_length c)"

section \<open>Validity and the contracts\<close>

text \<open>A range whose mask is a prefix mask. The constructors give no others.\<close>

definition v4_valid :: "ipv4_cidr \<Rightarrow> bool" where
  "v4_valid c \<longleftrightarrow> v4_mask c = prefix_mask (v4_length c)"

lemmas v4_query_defs =
  v4_address_def v4_broadcast_def v4_contains_def v4_hostmask_def v4_netmask_def v4_network_def

lemma v4_length_le: "v4_length c \<le> 32"
  using leading_zeros_le [of "NOT (v4_mask c)"] by (simp add: v4_length_def)

interpretation v4: cidr_range v4_address v4_netmask v4_hostmask v4_network v4_broadcast v4_contains
  v4_length v4_valid
  by unfold_locales (use v4_length_le in \<open>simp_all add: v4_query_defs v4_valid_def\<close>)

interpretation v4_it: addr_iterator "v4_next p" v4_it_next v4_it_end for p
proof unfold_locales
  fix it :: ipv4_cidr_iterator and a :: u32
  assume *: "v4_it_next it = Some a" "a < v4_it_end it"
  have "unat a + unat (1 :: u32) < 2 ^ LENGTH(32)"
    using *(2) unsigned_less [of "v4_it_end it", where 'a = nat] by (simp add: word_less_nat_alt)
  with * less_imp_neq [OF *(2)] show "\<exists>it'. v4_next p it = (it', Ok (Some a)) \<and> v4_it_next it' = Some (a + 1)
      \<and> v4_it_end it' = v4_it_end it"
    by (simp add: v4_next_def word_add_Ok)
qed (auto simp: v4_next_def)

lemma v4_new_cases:
  "v4_new a len =
     (if len \<le> 32 then Inr \<lparr>v4_addr = a, v4_mask = prefix_mask (if len = 0 then 32 else len)\<rparr>
      else Inl (Malformed ''Not a valid length''))"
  using prefix_mask_full [where 'w = 32]
  by (simp add: v4_new_def IPV4ADDR_BITS_def prefix_mask_def)

lemma v4_length_prefix:
  "k \<le> 32 \<Longrightarrow> v4_length \<lparr>v4_addr = a, v4_mask = prefix_mask k\<rparr> = k"
  by (simp add: v4_length_def length_prefix_mask)

lemma v4_new_Inr:
  assumes "v4_new a len = Inr c"
  shows "v4_valid c \<and> v4_addr c = a \<and> v4_length c = (if len = 0 then 32 else len)"
proof -
  define k where "k = (if len = 0 then 32 else len)"
  have "len \<le> 32" "c = \<lparr>v4_addr = a, v4_mask = prefix_mask k\<rparr>"
    using assms by (auto simp: v4_new_cases k_def split: if_splits)
  moreover from this(1) have "k \<le> 32" by (simp add: k_def)
  ultimately show ?thesis
    unfolding k_def [symmetric] by (simp add: v4_valid_def v4_length_prefix)
qed

lemma v4_netmask_length_prefix:
  assumes "0 < k" "k \<le> 32"
  shows "v4_netmask_length (prefix_mask k) = Inr k"
proof -
  have "leading_zeros (prefix_mask k :: u32) = 0
      \<and> trailing_zeros (prefix_mask k :: u32) = count_zeros (prefix_mask k :: u32)"
    using assms by (subst netmask_test_iff) auto
  then show ?thesis
    using assms by (simp add: v4_netmask_length_def length_prefix_mask Let_def)
qed

lemma v4_netmask_length_Inr:
  assumes "v4_netmask_length nm = Inr k"
  shows "0 < k \<and> k \<le> 32 \<and> nm = prefix_mask k"
proof -
  have k: "k = leading_zeros (NOT nm)"
    and "leading_zeros nm = 0 \<and> trailing_zeros nm = count_zeros nm"
    using assms by (auto simp: v4_netmask_length_def Let_def split: if_splits)
  then obtain j where "0 < j" "j \<le> 32" "nm = prefix_mask j"
    using netmask_test_iff [of nm] by auto
  with k show ?thesis by (simp add: length_prefix_mask)
qed

lemma v4_netmask_length_Inl: "v4_netmask_length nm = Inl e \<Longrightarrow> e = InvalidPrefixLength"
  by (auto simp: v4_netmask_length_def Let_def split: if_splits)

lemma v4_with_netmask_zero: "v4_with_netmask a 0 = Inl InvalidPrefixLength"
proof -
  have "(0 :: u32) \<noteq> prefix_mask k" if "0 < k" "k \<le> 32" for k
    using prefix_mask_inj [of 0 k, where 'w = 32] that by simp
  then have "v4_netmask_length 0 = Inl InvalidPrefixLength"
    using v4_netmask_length_Inr [of 0] v4_netmask_length_Inl [of 0] by (cases "v4_netmask_length 0") auto
  then show ?thesis by (simp add: v4_with_netmask_def)
qed

lemma v4_size_valid: "v4_size p c = Ok (2 ^ (32 - v4_length c))"
proof -
  have "(2 :: nat) ^ (32 - v4_length c) \<le> 2 ^ 32" by (rule power_increasing) auto
  then have "(2 :: nat) ^ (32 - v4_length c) < usize_limit" by (simp add: usize_limit_def)
  then show ?thesis
    using v4_length_le by (simp add: v4_size_def IPV4ADDR_BITS_def usize_sub_Ok usize_pow_Ok)
qed

lemma v4_iter_valid:
  assumes "v4_valid c" "0 < v4_length c"
  shows "v4_iter p c = Ok \<lparr>v4_it_next = Some (v4_network c), v4_it_end = v4_broadcast c\<rparr>"
proof -
  let ?h = "32 - v4_length c"
  have "(2 :: nat) ^ ?h \<le> 2 ^ 31" using assms(2) by (intro power_increasing) auto
  then have n: "unat (of_nat (2 ^ ?h) :: u32) = 2 ^ ?h" by (simp only: unat_of_nat) simp
  have le: "(1 :: u32) \<le> of_nat (2 ^ ?h)"
    unfolding word_le_nat_alt n by simp
  have d: "unat (of_nat (2 ^ ?h) - 1 :: u32) = 2 ^ ?h - 1"
    using n le by (simp only: unat_sub unat_1)
  have b: "unat (v4_broadcast c) = unat (v4_network c) + (2 ^ ?h - 1)"
    using v4.unat_broadcast [OF assms(1)] by simp
  have sum: "unat (v4_network c) + unat (of_nat (2 ^ ?h) - 1 :: u32) < 2 ^ LENGTH(32)"
    using b unsigned_less [of "v4_broadcast c", where 'a = nat] by (simp only: d)
  have "v4_network c + (of_nat (2 ^ ?h) - 1) = v4_broadcast c"
    using unat_add_lem [THEN iffD1, OF sum] b d by (simp only: word_unat_eq_iff)
  then show ?thesis
    by (simp only: v4_iter_def v4_size_valid and_then.simps v4_iterator_new_def word_sub_Ok [OF le]
        word_add_Ok [OF sum])
qed

text \<open>
  A valid range of length 0 exists (\<open>Default\<close> gives one). Its size, 2 to the 32, is cut to 0.
\<close>

lemma v4_zero_queries:
  assumes "v4_valid c" "v4_length c = 0"
  shows "v4_mask c = 0" "v4_network c = 0" "v4_broadcast c = - 1"
proof -
  show "v4_mask c = 0" using assms by (simp add: v4_valid_def)
  then show "v4_network c = 0" "v4_broadcast c = - 1" by (simp_all add: v4_query_defs)
qed

lemma v4_iter_zero:
  assumes "v4_valid c" "v4_length c = 0"
  shows "v4_iter p c = (case p of Dev \<Rightarrow> Panic ArithOverflow
    | Release \<Rightarrow> Ok \<lparr>v4_it_next = Some (v4_network c), v4_it_end = v4_broadcast c\<rparr>)"
proof -
  have z: "(of_nat (2 ^ (32 - v4_length c)) :: u32) = 0" using assms(2) by simp
  show ?thesis
    unfolding v4_iter_def v4_size_valid and_then.simps v4_iterator_new_def z v4_zero_queries [OF assms]
    by (cases p) (simp_all add: word_sub_def word_add_def)
qed

lemma v4_collect_valid:
  assumes "v4_valid c" "2 ^ (32 - v4_length c) < fuel"
  shows "collect (v4_next p) fuel \<lparr>v4_it_next = Some (v4_network c), v4_it_end = v4_broadcast c\<rparr>
    = Some (Ok (map (\<lambda>i. v4_network c + of_nat i) [0..<2 ^ (32 - v4_length c)]))"
proof -
  let ?d = "2 ^ (32 - v4_length c) - 1 :: nat"
  have *: "Suc ?d = 2 ^ (32 - v4_length c)" by simp
  show ?thesis
    using v4_it.collect_counts [of "\<lparr>v4_it_next = Some (v4_network c), v4_it_end = v4_broadcast c\<rparr>"
        "v4_network c" ?d fuel p] v4.unat_broadcast [OF assms(1)] assms(2)
    unfolding * by simp
qed

lemma v4_from_str_slash:
  assumes "list_all (\<lambda>c. c \<noteq> CHR ''/'') t"
  shows "v4_from_str (ipv4_to_string a @ CHR ''/'' # t) =
    (case from_str_radix 10 usize_limit t of
       Some len \<Rightarrow> v4_new a len
     | None \<Rightarrow> (case ipv4_from_str t of
                  None \<Rightarrow> Inl (Malformed ipv4_parse_error)
                | Some nm \<Rightarrow> v4_with_netmask a nm))"
proof -
  have "split_on (\<lambda>c. c = CHR ''/'') (ipv4_to_string a @ CHR ''/'' # t) = [ipv4_to_string a, t]"
    using split_on_append [of "\<lambda>c. c = CHR ''/''" "ipv4_to_string a" "CHR ''/''" t]
      split_on_none [of "\<lambda>c. c = CHR ''/''" t] ipv4_to_string_no_slash [of a] assms by simp
  then show ?thesis by (simp add: v4_from_str_def ipv4_from_to_string)
qed

lemma from_str_radix_ipv4: "from_str_radix 10 limit (ipv4_to_string a) = None"
proof -
  obtain w rest where s: "ipv4_to_string a = dec_string w @ CHR ''.'' # rest"
    by (simp add: ipv4_to_string_def ipv4_octets_def)
  obtain d ds where w: "digits_of 10 w = d # ds" using digits_of_not_Nil by (cases "digits_of 10 w") auto
  with digits_of_all [of 10 w] have "digit_char d \<noteq> CHR ''+''" by (intro digit_char_neq_plus) simp
  moreover have "those (xs @ None # ys) = None" for xs ys :: "nat option list"
    by (induction xs) (auto split: option.splits)
  ultimately show ?thesis using w by (simp add: s from_str_radix_def dec_string_def Let_def split: option.splits)
qed

section \<open>Properties\<close>

text \<open>10.1.0.10/20\<close>

definition v4_sample :: ipv4_cidr where
  "v4_sample = \<lparr>v4_addr = 0x0A01000A, v4_mask = prefix_mask 20\<rparr>"

lemma v4_sample_valid: "v4_valid v4_sample" "v4_length v4_sample = 20"
  by (simp_all add: v4_valid_def v4_sample_def v4_length_prefix)

text \<open>
  C9: \<open>Ipv4Cidr::new\<close> accepts exactly the prefix lengths up to 32. The range it builds has the
  given address, and \<open>length\<close>, \<open>netmask\<close> and \<open>hostmask\<close> report the same prefix: the mask with that
  many leading ones, and its complement, the number of addresses minus one. The prefix is the
  given length, but 32 for the length 0.
\<close>

theorem v4_new_spec:
  "case v4_new a len of
     Inl e \<Rightarrow> 32 < len \<and> e = Malformed ''Not a valid length''
   | Inr c \<Rightarrow> (let k = (if len = 0 then 32 else len)
       in len \<le> 32 \<and> v4_valid c \<and> v4_address c = a \<and> v4_length c = k
         \<and> v4_netmask c = push_bit (32 - k) (- 1) \<and> v4_hostmask c = NOT (v4_netmask c)
         \<and> unat (v4_hostmask c) = 2 ^ (32 - k) - 1)"
proof (cases "v4_new a len")
  case (Inl e)
  then show ?thesis by (auto simp: v4_new_cases split: if_splits)
next
  case (Inr c)
  define k where "k = (if len = 0 then 32 else len)"
  have len: "len \<le> 32" using Inr by (auto simp: v4_new_cases split: if_splits)
  then have k: "k \<le> 32" by (simp add: k_def)
  note new = v4_new_Inr [OF Inr, folded k_def]
  then have m: "v4_mask c = prefix_mask k" by (simp add: v4_valid_def)
  have "unat (NOT (prefix_mask k) :: u32) = 2 ^ (32 - k) - 1"
    using k by (simp add: not_prefix_mask unat_mask)
  with new m len Inr show ?thesis
    unfolding k_def [symmetric] by (simp add: Let_def v4_query_defs prefix_mask_def k_def [symmetric])
qed

text \<open>
  A prefix length of 0, which stands for all addresses, gives the range of a single
  address: \<open>new(a, 0)\<close> and \<open>new(a, 32)\<close> are the same range and it contains only \<open>a\<close>.
\<close>

lemma v4_new_zero_is_host_route:
  "\<exists>c. v4_new a 0 = Inr c \<and> v4_new a 32 = Inr c \<and> (\<forall>b. v4_contains c b \<longleftrightarrow> b = a)"
  by (auto simp: v4_new_def IPV4ADDR_BITS_def v4_contains_def)

text \<open>
  C3: For every valid range \<open>contains\<close> accepts exactly the addresses from \<open>network\<close> to
  \<open>broadcast\<close>, both included, and \<open>size\<close> is their number, in either profile.
\<close>

theorem v4_contains_interval:
  assumes "v4_valid c"
  shows "{a. v4_contains c a} = {v4_network c..v4_broadcast c}
    \<and> v4_size p c = Ok (card {a. v4_contains c a})"
proof
  show "{a. v4_contains c a} = {v4_network c..v4_broadcast c}"
    by (rule v4.contained_set [OF assms])
  show "v4_size p c = Ok (card {a. v4_contains c a})"
    using v4.card_contained [OF assms] by (simp add: v4_size_valid)
qed

theorem v4_contains_interval_witness:
  "{a. v4_contains v4_sample a} = {0x0A010000..0x0A010FFF} \<and> v4_size Dev v4_sample = (Ok 4096 :: (unit, usize) outcome)"
proof -
  have "v4_network v4_sample = 0x0A010000" "v4_broadcast v4_sample = 0x0A010FFF"
    by (simp_all add: v4_query_defs v4_sample_def prefix_mask_def mask_eq_exp_minus_1)
  with v4_contains_interval [OF v4_sample_valid(1), of Dev] show ?thesis
    by (simp add: v4_size_valid v4_sample_valid)
qed

text \<open>
  C4: Draining \<open>iter()\<close> of a valid range terminates after as many calls of \<open>next\<close> as there are
  addresses, plus one, and yields exactly the addresses of the range, each once and in
  ascending order from the network address. The one exception is a range of length 0, which
  \<open>Default\<close> gives, in the \<open>dev\<close> profile: \<open>iter()\<close> panics, as the size is cut to 0 and 1 is taken
  from it.
\<close>

theorem v4_iter_enumerates:
  assumes "v4_valid c" "2 ^ (32 - v4_length c) < fuel"
  shows "if p = Dev \<and> v4_length c = 0 then v4_iter p c = (Panic ArithOverflow :: ('e, ipv4_cidr_iterator) outcome)
    else \<exists>it as. v4_iter p c = (Ok it :: ('e, ipv4_cidr_iterator) outcome)
      \<and> collect (v4_next p) fuel it = (Some (Ok as) :: ('e, ipv4addr list) outcome option)
      \<and> set as = {a. v4_contains c a} \<and> sorted as \<and> distinct as \<and> hd as = v4_network c"
proof (cases "p = Dev \<and> v4_length c = 0")
  case True
  then show ?thesis by (simp add: v4_iter_zero [OF assms(1)])
next
  case False
  then have "v4_iter p c = (Ok \<lparr>v4_it_next = Some (v4_network c), v4_it_end = v4_broadcast c\<rparr> :: ('e, _) outcome)"
    by (cases p; cases "v4_length c = 0") (simp_all add: v4_iter_valid [OF assms(1)] v4_iter_zero [OF assms(1)])
  moreover have "unat (v4_broadcast c) = unat (v4_network c) + (2 ^ (32 - v4_length c) - 1)"
    using v4.unat_broadcast [OF assms(1)] by simp
  note word_enum [OF this]
  ultimately show ?thesis
    using v4_collect_valid [OF assms, of p] False
    unfolding v4.contained_set [OF assms(1)] by (metis zero_less_numeral zero_less_power)
qed

theorem v4_iter_enumerates_witness:
  "\<exists>it as. v4_iter Release v4_sample = (Ok it :: (unit, ipv4_cidr_iterator) outcome)
    \<and> collect (v4_next Release) 5000 it = (Some (Ok as) :: (unit, ipv4addr list) outcome option)
    \<and> set as = {a. v4_contains v4_sample a} \<and> distinct as"
  using v4_iter_enumerates [OF v4_sample_valid(1), of 5000 Release, where 'e = unit]
  by (auto simp: v4_sample_valid)

text \<open>
  C10: \<open>with_netmask\<close> agrees with \<open>new\<close>: for a netmask that is a prefix of ones of length \<open>k\<close> from 1
  on it is \<open>new\<close> with the length \<open>k\<close>, which builds the range with that netmask, and every other
  netmask is rejected with \<open>InvalidPrefixLength\<close>. The two disagree on the prefix of length 0:
  the netmask 0.0.0.0 is rejected, the length 0 accepted.
\<close>

theorem v4_netmask_spec:
  "(case v4_netmask_length nm of
      Inl e \<Rightarrow> e = InvalidPrefixLength \<and> (\<nexists>k. 0 < k \<and> k \<le> 32 \<and> nm = prefix_mask k)
        \<and> v4_with_netmask a nm = Inl InvalidPrefixLength
    | Inr k \<Rightarrow> 0 < k \<and> k \<le> 32 \<and> nm = prefix_mask k \<and> v4_with_netmask a nm = v4_new a k
        \<and> (\<exists>c. v4_new a k = Inr c \<and> v4_valid c \<and> v4_address c = a \<and> v4_netmask c = nm))
   \<and> v4_with_netmask a 0 = Inl InvalidPrefixLength \<and> (\<exists>c. v4_new a 0 = Inr c)"
proof -
  have zero: "v4_with_netmask a 0 = Inl InvalidPrefixLength" "\<exists>c. v4_new a 0 = Inr c"
    by (simp_all add: v4_with_netmask_zero v4_new_def)
  show ?thesis
  proof (cases "v4_netmask_length nm")
    case (Inl e)
    then have "e = InvalidPrefixLength" by (rule v4_netmask_length_Inl)
    moreover have "\<nexists>k. 0 < k \<and> k \<le> 32 \<and> nm = prefix_mask k"
      using Inl v4_netmask_length_prefix by fastforce
    ultimately show ?thesis using Inl zero by (simp add: v4_with_netmask_def)
  next
    case (Inr k)
    from v4_netmask_length_Inr [OF Inr] have k: "0 < k" "k \<le> 32" "nm = prefix_mask k" by auto
    then have new: "v4_new a k = Inr \<lparr>v4_addr = a, v4_mask = prefix_mask k\<rparr>"
      by (simp add: v4_new_cases)
    with Inr k zero v4_new_Inr [OF new] show ?thesis
      by (simp add: v4_address_def v4_netmask_def v4_with_netmask_def)
  qed
qed

text \<open>
  C8: Parsing inverts printing: \<open>from_str\<close> of the text \<open>address/length\<close> that \<open>Display\<close> prints for a
  valid range with a length from 1 on gives the range back, and so does \<open>from_str\<close> of the text
  \<open>address/netmask\<close>. A range of length 0, which \<open>Default\<close> gives, comes back as a single address,
  and its netmask is rejected.
\<close>

theorem v4_text_roundtrip:
  assumes "v4_valid c"
  shows "if 0 < v4_length c
    then v4_from_str (v4_to_string c) = Inr c
      \<and> v4_from_str (ipv4_to_string (v4_address c) @ CHR ''/'' # ipv4_to_string (v4_netmask c)) = Inr c
    else v4_from_str (v4_to_string c) = Inr (c\<lparr>v4_mask := - 1\<rparr>) \<and> c\<lparr>v4_mask := - 1\<rparr> \<noteq> c
      \<and> v4_from_str (ipv4_to_string (v4_address c) @ CHR ''/'' # ipv4_to_string (v4_netmask c))
        = Inl InvalidPrefixLength"
proof -
  have c: "v4_mask c = prefix_mask (v4_length c)" using assms(1) by (simp add: v4_valid_def)
  have parse: "v4_from_str (v4_to_string c) = v4_new (v4_addr c) (v4_length c)"
    "v4_from_str (ipv4_to_string (v4_address c) @ CHR ''/'' # ipv4_to_string (v4_netmask c))
      = v4_with_netmask (v4_addr c) (v4_mask c)"
    using v4_length_le [of c]
    by (simp_all add: v4_to_string_def v4_from_str_slash dec_string_no_slash from_str_radix_dec_string
        ipv4_to_string_no_slash from_str_radix_ipv4 ipv4_from_to_string usize_limit_def
        v4_address_def v4_netmask_def)
  show ?thesis
  proof (cases "0 < v4_length c")
    case True
    then have new: "v4_new (v4_addr c) (v4_length c) = Inr c"
      using c v4_length_le [of c] by (simp add: v4_new_cases)
    moreover have "v4_with_netmask (v4_addr c) (v4_mask c) = Inr c"
      using v4_netmask_length_prefix [OF True v4_length_le] new
      by (simp add: v4_with_netmask_def c [symmetric])
    ultimately show ?thesis using True by (simp add: parse)
  next
    case False
    then have m: "v4_mask c = 0" using c by simp
    then have "c\<lparr>v4_mask := - 1\<rparr> = \<lparr>v4_addr = v4_addr c, v4_mask = - 1\<rparr>" "c\<lparr>v4_mask := - 1\<rparr> \<noteq> c"
      by (cases c, simp)+
    with False m show ?thesis by (simp add: parse v4_new_def v4_with_netmask_zero)
  qed
qed

theorem v4_text_roundtrip_witness:
  "v4_from_str (v4_to_string v4_sample) = Inr v4_sample"
  using v4_text_roundtrip [OF v4_sample_valid(1)] by (simp add: v4_sample_valid)

end
