(* ===== verification/Ipv6_Text.thy ===== *)
theory Ipv6_Text
  imports Rust_Text
begin

text \<open>
  The textual form of \<open>std::net::Ipv6Addr\<close> (Rust's standard library): printing with the
  longest run of zero segments shortened to \<open>::\<close> and the dotted form of IPv4-mapped addresses,
  and the recursive-descent parser. The lemma \<open>ipv6_from_to_string\<close> is the round trip.
\<close>

section \<open>Addresses and segments\<close>

text \<open>An \<open>Ipv6Addr\<close> is the \<open>u128\<close> that \<open>u128::from\<close> gives for it.\<close>

type_synonym ipv6addr = u128

definition ipv6_segments :: "ipv6addr \<Rightarrow> nat list" where
  "ipv6_segments a = map (\<lambda>i. unat a div 2 ^ (16 * (7 - i)) mod 65536) [0..<8]"

definition ipv6_of_segments :: "nat list \<Rightarrow> ipv6addr" where
  "ipv6_of_segments gs = of_nat (foldl (\<lambda>a g. a * 65536 + g) 0 gs)"

section \<open>Printing\<close>

text \<open>The loop that finds the longest run of zeros, as (start, length).\<close>

fun longest_zeros ::
  "nat \<Rightarrow> nat list \<Rightarrow> nat \<times> nat \<Rightarrow> nat \<times> nat \<Rightarrow> nat \<times> nat" where
  "longest_zeros i [] current longest = longest"
| "longest_zeros i (g # gs) current longest =
     (if g = 0
      then let start = (if snd current = 0 then i else fst current);
               current' = (start, Suc (snd current))
           in longest_zeros (Suc i) gs current' (if snd longest < snd current' then current' else longest)
      else longest_zeros (Suc i) gs (0, 0) longest)"

definition hex_string :: "nat \<Rightarrow> string" where
  "hex_string n = map digit_char (digits_of 16 n)"

fun fmt_subslice :: "nat list \<Rightarrow> string" where
  "fmt_subslice [] = []"
| "fmt_subslice (g # gs) = hex_string g @ concat (map (\<lambda>h. CHR '':'' # hex_string h) gs)"

definition to_ipv4_mapped :: "ipv6addr \<Rightarrow> ipv4addr option" where
  "to_ipv4_mapped a =
     (if take 6 (ipv6_segments a) = [0, 0, 0, 0, 0, 65535]
      then Some (of_nat (ipv6_segments a ! 6 * 65536 + ipv6_segments a ! 7)) else None)"

definition ipv6_to_string :: "ipv6addr \<Rightarrow> string" where
  "ipv6_to_string a =
     (case to_ipv4_mapped a of
        Some v4 \<Rightarrow> ''::ffff:'' @ ipv4_to_string v4
      | None \<Rightarrow>
          (let segments = ipv6_segments a;
               (start, len) = longest_zeros 0 segments (0, 0) (0, 0)
           in if 1 < len
              then fmt_subslice (take start segments) @ ''::'' @ fmt_subslice (drop (start + len) segments)
              else fmt_subslice segments))"

section \<open>Parsing\<close>

text \<open>\<open>read_separator\<close>: the separator comes before every element but the first.\<close>

definition read_separator :: "char \<Rightarrow> nat \<Rightarrow> string \<Rightarrow> string option" where
  "read_separator sep index s = (if 0 < index then read_char sep s else Some s)"

text \<open>
  \<open>read_groups\<close>: groups of up to four hexadecimal digits into the slots from \<open>i\<close> on, or an
  embedded IPv4 address, which takes two slots and ends the groups.
\<close>

function read_groups :: "nat \<Rightarrow> nat \<Rightarrow> string \<Rightarrow> nat list \<times> bool \<times> string" where
  "read_groups limit i s =
     (if limit \<le> i then ([], False, s)
      else case (if i < limit - 1 then Option.bind (read_separator CHR '':'' i s) read_ipv4_addr else None) of
        Some (v4, s') \<Rightarrow> ([unat v4 div 65536, unat v4 mod 65536], True, s')
      | None \<Rightarrow>
          (case Option.bind (read_separator CHR '':'' i s) (read_number 16 65536 4 True) of
             None \<Rightarrow> ([], False, s)
           | Some (g, s') \<Rightarrow>
               (case read_groups limit (Suc i) s' of (gs, v4, s'') \<Rightarrow> (g # gs, v4, s''))))"
  by pat_completeness auto
termination by (relation "measure (\<lambda>(limit, i, s). limit - i)") auto

declare read_groups.simps [simp del]

definition read_ipv6_addr :: "string \<Rightarrow> (ipv6addr \<times> string) option" where
  "read_ipv6_addr s =
     (case read_groups 8 0 s of
        (head, head_ipv4, s1) \<Rightarrow>
          if length head = 8 then Some (ipv6_of_segments head, s1)
          else if head_ipv4 then None
          else do {
            s2 \<leftarrow> read_char CHR '':'' s1;
            s3 \<leftarrow> read_char CHR '':'' s2;
            let (tail, _, s4) = read_groups (8 - (length head + 1)) 0 s3;
            Some (ipv6_of_segments (head @ replicate (8 - length head - length tail) 0 @ tail), s4)
          })"

definition ipv6_from_str :: "string \<Rightarrow> ipv6addr option" where
  "ipv6_from_str s = (case read_ipv6_addr s of Some (a, []) \<Rightarrow> Some a | _ \<Rightarrow> None)"

section \<open>Round trip\<close>

lemma length_ipv6_segments [simp]: "length (ipv6_segments a) = 8"
  by (simp add: ipv6_segments_def)

lemma ipv6_segments_bound: "g \<in> set (ipv6_segments a) \<Longrightarrow> g < 65536"
  by (auto simp: ipv6_segments_def)

lemma foldl_base:
  "foldl (\<lambda>a g. a * b + g) 0 (map (\<lambda>i. n div b ^ (k - i) mod b) [0..<Suc k]) = n mod b ^ Suc k" for b n :: nat
proof (induction k arbitrary: n)
  case (Suc k)
  have "map (\<lambda>i. n div b ^ (Suc k - i) mod b) [0..<Suc (Suc k)]
      = map (\<lambda>i. n div b div b ^ (k - i) mod b) [0..<Suc k] @ [n mod b]"
    by (simp add: Suc_diff_le div_mult2_eq [symmetric] mult.commute)
  then show ?case using Suc [of "n div b"]
    by (simp only: foldl_append foldl.simps) (simp add: mod_mult2_eq mult.commute)
qed simp

lemma ipv6_of_segments: "ipv6_of_segments (ipv6_segments a) = a"
proof -
  have seg: "ipv6_segments a = map (\<lambda>i. unat a div 65536 ^ (7 - i) mod 65536) [0..<Suc 7]"
    by (simp add: ipv6_segments_def power_mult)
  have "unat a < 65536 ^ Suc 7" using unsigned_less [of a, where 'a = nat] by simp
  then show ?thesis
    unfolding ipv6_of_segments_def seg foldl_base by simp
qed

text \<open>The span that is shortened holds zeros only.\<close>

lemma longest_zeros_spec:
  assumes "longest_zeros i gs (cs, cl) (ls, ll) = (start, len)"
    and "cl = 0 \<or> cs + cl = i" "i \<le> length all" "gs = drop i all"
    and "\<forall>k. cs \<le> k \<and> k < cs + cl \<longrightarrow> all ! k = 0"
    and "ls + ll \<le> length all" "\<forall>k. ls \<le> k \<and> k < ls + ll \<longrightarrow> all ! k = 0"
  shows "start + len \<le> length all \<and> (\<forall>k. start \<le> k \<and> k < start + len \<longrightarrow> all ! k = 0)"
  using assms
proof (induction gs arbitrary: i cs cl ls ll)
  case (Cons g gs)
  have i: "i < length all" using Cons.prems(4) by (metis drop_all list.distinct(1) not_less)
  have g: "g = all ! i" "gs = drop (Suc i) all"
    using Cons.prems(4) i by (simp_all add: Cons_nth_drop_Suc [symmetric])
  show ?case
  proof (cases "g = 0")
    case True
    define cs' where "cs' = (if cl = 0 then i else cs)"
    have c: "cs' + Suc cl = Suc i" using Cons.prems(2) by (auto simp: cs'_def)
    have z: "\<forall>k. cs' \<le> k \<and> k < cs' + Suc cl \<longrightarrow> all ! k = 0"
    proof (intro allI impI)
      fix k assume "cs' \<le> k \<and> k < cs' + Suc cl"
      then show "all ! k = 0"
        using Cons.prems(2,5) True g(1) c by (cases "k = i") (auto simp: cs'_def split: if_splits)
    qed
    define l where "l = (if ll < Suc cl then (cs', Suc cl) else (ls, ll))"
    have "longest_zeros (Suc i) gs (cs', Suc cl) (fst l, snd l) = (start, len)"
      using Cons.prems(1) True by (auto simp: cs'_def l_def Let_def split: if_splits)
    then show ?thesis
      using Cons.prems(6,7) c z i g(2)
      by (intro Cons.IH [of "Suc i" cs' "Suc cl" "fst l" "snd l"]) (auto simp: l_def)
  next
    case False
    then have "longest_zeros (Suc i) gs (0, 0) (ls, ll) = (start, len)" using Cons.prems(1) by simp
    then show ?thesis using Cons.prems(6,7) i g(2)
      by (intro Cons.IH [of "Suc i" 0 0 ls ll]) auto
  qed
qed simp

text \<open>A text without a dot holds no IPv4 address.\<close>

lemma read_number_suffix: "read_number r m k z s = Some (v, s') \<Longrightarrow> set s' \<subseteq> set s"
  by (auto simp: read_number_def Let_def split: if_splits dest: in_set_dropD)

lemma read_ipv4_no_dot:
  assumes "CHR ''.'' \<notin> set s"
  shows "read_ipv4_addr s = None"
proof (cases "read_number 10 256 3 False s")
  case (Some r)
  obtain v s' where r: "r = (v, s')" by (cases r)
  then have "CHR ''.'' \<notin> set s'" using assms read_number_suffix Some by blast
  then have "read_char CHR ''.'' s' = None" by (cases s') (auto simp: read_char_def)
  then show ?thesis using Some r by (simp add: read_ipv4_addr_def)
qed (simp add: read_ipv4_addr_def)

lemma digit_char_not: "d < 16 \<Longrightarrow> digit_char d \<noteq> CHR '':''" "d < 16 \<Longrightarrow> digit_char d \<noteq> CHR ''.''"
  "d < 16 \<Longrightarrow> digit_char d \<noteq> CHR ''/''"
  using to_digit_digit_char [of d 16] by (auto simp: to_digit_def Let_def)

lemma hex_string_chars: "c \<in> set (hex_string n) \<Longrightarrow> \<exists>d < 16. c = digit_char d"
  using digits_of_all [of 16 n] by (auto simp: hex_string_def list_all_iff)

lemma to_digit_colon [simp]: "to_digit 16 CHR '':'' = None" "to_digit 10 CHR '':'' = None"
  by (simp_all add: to_digit_def Let_def)

lemma read_number_hex:
  assumes "n < 65536" "rest = [] \<or> to_digit 16 (hd rest) = None"
  shows "read_number 16 65536 4 True (hex_string n @ rest) = Some (n, rest)"
  unfolding hex_string_def
  using assms length_digits_of [of 16 4 n] by (intro read_number_digits_of) auto

lemma read_number_none: "s = [] \<or> to_digit r (hd s) = None \<Longrightarrow> read_number r m k z s = None"
  by (cases s) (auto simp: read_number_def)

text \<open>The groups as they stand from slot \<open>i\<close> on, each after its separator.\<close>

fun groups_text :: "nat \<Rightarrow> nat list \<Rightarrow> string" where
  "groups_text i [] = []"
| "groups_text i (g # gs) = (if 0 < i then '':'' else []) @ hex_string g @ groups_text (Suc i) gs"

lemma groups_text_later: "groups_text (Suc i) gs = concat (map (\<lambda>h. CHR '':'' # hex_string h) gs)"
  by (induction gs arbitrary: i) auto

lemma fmt_subslice_groups: "fmt_subslice gs = groups_text 0 gs"
  by (cases gs) (simp_all add: groups_text_later)

lemma no_dot_hex [simp]: "CHR ''.'' \<notin> set (hex_string n)" "CHR ''/'' \<notin> set (hex_string n)"
  using hex_string_chars [of _ n] digit_char_not(2,3) by metis+

lemma no_dot_groups [simp]: "CHR ''.'' \<notin> set (groups_text i gs)" "CHR ''/'' \<notin> set (groups_text i gs)"
  by (induction i gs rule: groups_text.induct) auto

text \<open>Reading stops where no group follows: at the end, or at a double colon.\<close>

definition stops :: "string \<Rightarrow> bool" where
  "stops s \<longleftrightarrow> s = [] \<or> (\<exists>t. s = CHR '':'' # CHR '':'' # t)"

lemma stops_first: "stops s \<Longrightarrow> s = [] \<or> to_digit 16 (hd s) = None"
  by (auto simp: stops_def)

lemma read_groups_stop:
  assumes "stops s" "CHR ''.'' \<notin> set s"
  shows "read_groups limit i s = ([], False, s)"
proof -
  have num: "Option.bind (read_separator CHR '':'' i s) (read_number 16 65536 4 True) = None"
    using assms(1) by (auto simp: stops_def read_separator_def read_char_def read_number_none)
  have "Option.bind (read_separator CHR '':'' i s) read_ipv4_addr = None"
    using assms by (auto simp: stops_def read_separator_def read_char_def read_ipv4_no_dot)
  then show ?thesis by (subst read_groups.simps) (simp add: num)
qed

lemma read_groups_text:
  assumes "list_all (\<lambda>g. g < 65536) gs" "i + length gs \<le> limit" "stops rest" "CHR ''.'' \<notin> set rest"
  shows "read_groups limit i (groups_text i gs @ rest) = (gs, False, rest)"
  using assms(1,2)
proof (induction gs arbitrary: i)
  case Nil
  then show ?case using read_groups_stop [OF assms(3,4)] by simp
next
  case (Cons g gs)
  let ?t = "groups_text (Suc i) gs @ rest"
  have sep: "read_separator CHR '':'' i (groups_text i (g # gs) @ rest) = Some (hex_string g @ ?t)"
    by (simp add: read_separator_def read_char_def)
  have v4: "read_ipv4_addr (hex_string g @ ?t) = None"
    using assms(4) by (intro read_ipv4_no_dot) simp
  have "?t = [] \<or> to_digit 16 (hd ?t) = None"
    using stops_first [OF assms(3)] by (cases gs) auto
  then have num: "read_number 16 65536 4 True (hex_string g @ ?t) = Some (g, ?t)"
    using Cons.prems(1) by (intro read_number_hex) simp_all
  have "read_groups limit (Suc i) ?t = (gs, False, rest)" using Cons by simp
  then show ?case using Cons.prems(2)
    by (subst read_groups.simps) (simp only: sep bind.bind_lunit v4 num if_cancel, simp)
qed

lemma read_mapped:
  "read_ipv6_addr (''::ffff:'' @ ipv4_to_string v4)
    = Some (ipv6_of_segments [0, 0, 0, 0, 0, 65535, unat v4 div 65536, unat v4 mod 65536], [])"
proof -
  let ?t = "ipv4_to_string v4"
  have head: "read_groups 8 0 (''::ffff:'' @ ?t) = ([], False, ''::ffff:'' @ ?t)"
    by (subst read_groups.simps)
       (simp add: read_separator_def read_number_none read_ipv4_addr_def)
  have last: "read_groups 7 (Suc 0) (CHR '':'' # ?t) = ([unat v4 div 65536, unat v4 mod 65536], True, [])"
    using read_ipv4_to_string [of "[]" v4]
    by (subst read_groups.simps) (simp add: read_separator_def read_char_def)
  have "char_of (102 :: nat) = CHR ''f''" by (simp add: char_of_def bit_0)
  then have "hex_string 65535 = ''ffff''"
    by (simp add: hex_string_def digits_of.simps digit_char_def)
  then have "read_number 16 65536 4 True (''ffff:'' @ ?t) = Some (65535, CHR '':'' # ?t)"
    using read_number_hex [of 65535 "CHR '':'' # ?t"] by simp
  moreover have "read_ipv4_addr (''ffff:'' @ ?t) = None"
    by (simp add: read_ipv4_addr_def read_number_none to_digit_def)
  ultimately have "read_groups 7 0 (''ffff:'' @ ?t)
      = ([65535, unat v4 div 65536, unat v4 mod 65536], True, [])"
    by (subst read_groups.simps) (simp add: read_separator_def last)
  moreover have "replicate 5 (0 :: nat) = [0, 0, 0, 0, 0]" by (simp add: eval_nat_numeral)
  ultimately show ?thesis using head by (simp add: read_ipv6_addr_def read_char_def)
qed

lemma mapped_segments:
  assumes "to_ipv4_mapped a = Some v4"
  shows "ipv6_segments a = [0, 0, 0, 0, 0, 65535, unat v4 div 65536, unat v4 mod 65536]"
proof -
  obtain h l where seg: "ipv6_segments a = [0, 0, 0, 0, 0, 65535, h, l]"
  proof -
    have "ipv6_segments a = take 6 (ipv6_segments a) @ drop 6 (ipv6_segments a)" by simp
    moreover have "drop 6 (ipv6_segments a) = [ipv6_segments a ! 6, ipv6_segments a ! 7]"
      by (simp add: ipv6_segments_def upt_rec)
    ultimately show ?thesis using assms that by (auto simp: to_ipv4_mapped_def split: if_splits)
  qed
  have b: "h < 65536" "l < 65536" using ipv6_segments_bound [of _ a] by (simp_all add: seg)
  have v4: "v4 = of_nat (h * 65536 + l)" using assms by (simp add: to_ipv4_mapped_def seg)
  have "unat v4 = (h * 65536 + l) mod 2 ^ LENGTH(32)" by (simp only: v4 unat_of_nat)
  also have "\<dots> = h * 65536 + l" using b by simp
  finally have "unat v4 = h * 65536 + l" .
  then show ?thesis using b seg by simp
qed

lemma read_shortened:
  assumes "list_all (\<lambda>g. g < 65536) (hs @ ts)" "length hs + length ts < 8"
  shows "read_ipv6_addr (fmt_subslice hs @ ''::'' @ fmt_subslice ts)
    = Some (ipv6_of_segments (hs @ replicate (8 - length hs - length ts) 0 @ ts), [])"
proof -
  have rest: "stops (''::'' @ fmt_subslice ts)" "CHR ''.'' \<notin> set (''::'' @ fmt_subslice ts)"
    by (simp_all add: stops_def fmt_subslice_groups)
  have head: "read_groups 8 0 (fmt_subslice hs @ ''::'' @ fmt_subslice ts)
      = (hs, False, ''::'' @ fmt_subslice ts)"
    unfolding fmt_subslice_groups [of hs] using assms rest by (intro read_groups_text) auto
  have "read_groups (8 - (length hs + 1)) 0 (fmt_subslice ts @ []) = (ts, False, [])"
    unfolding fmt_subslice_groups using assms by (intro read_groups_text) (auto simp: stops_def)
  then show ?thesis using assms(2) by (simp add: read_ipv6_addr_def head [simplified] read_char_def)
qed

lemma read_full:
  assumes "list_all (\<lambda>g. g < 65536) gs" "length gs = 8"
  shows "read_ipv6_addr (fmt_subslice gs) = Some (ipv6_of_segments gs, [])"
proof -
  have "read_groups 8 0 (fmt_subslice gs @ []) = (gs, False, [])"
    unfolding fmt_subslice_groups using assms by (intro read_groups_text) (auto simp: stops_def)
  then show ?thesis using assms(2) by (simp add: read_ipv6_addr_def)
qed

lemma read_ipv6_to_string: "read_ipv6_addr (ipv6_to_string a) = Some (a, [])"
proof (cases "to_ipv4_mapped a")
  case (Some v4)
  then show ?thesis
    using read_mapped [of v4] mapped_segments [OF Some] ipv6_of_segments [of a]
    by (simp add: ipv6_to_string_def)
next
  case None
  let ?gs = "ipv6_segments a"
  have all: "list_all (\<lambda>g. g < 65536) ?gs" by (simp add: list_all_iff ipv6_segments_bound)
  obtain start len where z: "longest_zeros 0 ?gs (0, 0) (0, 0) = (start, len)"
    by (cases "longest_zeros 0 ?gs (0, 0) (0, 0)")
  have span: "start + len \<le> length ?gs" "\<forall>k. start \<le> k \<and> k < start + len \<longrightarrow> ?gs ! k = 0"
    using longest_zeros_spec [OF z, where all = ?gs] by auto
  show ?thesis
  proof (cases "1 < len")
    case True
    let ?h = "take start ?gs" and ?t = "drop (start + len) ?gs"
    have lens: "length ?h = start" "length ?t = 8 - (start + len)" using span(1) by auto
    have "take len (drop start ?gs) = replicate len 0"
      using span by (intro nth_equalityI) auto
    then have "?gs = ?h @ replicate len 0 @ ?t"
      by (metis append_take_drop_id drop_drop add.commute)
    moreover have "8 - start - length ?t = len" using span(1) lens by simp
    moreover have "list_all (\<lambda>g. g < 65536) (?h @ ?t)"
      using all by (auto simp: list_all_iff dest: in_set_takeD in_set_dropD)
    moreover have "length ?h + length ?t < 8" using lens True span(1) by simp
    ultimately show ?thesis
      using read_shortened [of ?h ?t] None True lens(1) ipv6_of_segments [of a]
      by (simp add: ipv6_to_string_def z Let_def)
  next
    case False
    then show ?thesis using read_full [OF all] None ipv6_of_segments [of a]
      by (simp add: ipv6_to_string_def z)
  qed
qed

lemma ipv6_from_to_string: "ipv6_from_str (ipv6_to_string a) = Some a"
  by (simp add: ipv6_from_str_def read_ipv6_to_string)

section \<open>Characters\<close>

lemma ipv6_to_string_no_slash: "list_all (\<lambda>c. c \<noteq> CHR ''/'') (ipv6_to_string a)"
proof -
  have "CHR ''/'' \<notin> set (ipv4_to_string v4)" for v4
    using ipv4_to_string_no_slash [of v4] by (auto simp: list_all_iff)
  then have "CHR ''/'' \<notin> set (ipv6_to_string a)"
    by (simp add: ipv6_to_string_def fmt_subslice_groups Let_def split: option.split prod.split)
  then show ?thesis by (auto simp: list_all_iff)
qed

text \<open>The text of an address is not that of a number: it holds a colon.\<close>

lemma colon_in_groups: "1 < length gs \<Longrightarrow> CHR '':'' \<in> set (fmt_subslice gs)"
  by (cases gs; cases "tl gs") auto

lemma colon_in_ipv6: "CHR '':'' \<in> set (ipv6_to_string a)"
  by (simp add: ipv6_to_string_def colon_in_groups Let_def split_beta split: option.split)

lemma those_colon: "CHR '':'' \<in> set t \<Longrightarrow> those (map (to_digit 10) t) = None"
  by (induction t) (auto split: option.splits)

lemma unsigned_colon:
  "CHR '':'' \<in> set s \<Longrightarrow>
   CHR '':'' \<in> set (case s of [] \<Rightarrow> [] | c # cs \<Rightarrow> if c = CHR ''+'' \<and> cs \<noteq> [] then cs else s)"
  by (cases s) auto

lemma from_str_radix_colon: "CHR '':'' \<in> set s \<Longrightarrow> from_str_radix 10 limit s = None"
  by (simp only: from_str_radix_def Let_def those_colon [OF unsigned_colon] option.case if_cancel)

lemma from_str_radix_ipv6: "from_str_radix 10 limit (ipv6_to_string a) = None"
  by (rule from_str_radix_colon [OF colon_in_ipv6])

end
