(* ===== verification/Cidr_V6.thy ===== *)
theory Cidr_V6
  imports Cidr Ipv6_Text
begin

text \<open>
  IPv6 CIDR ranges, \<open>engine/src/net/cidr/v6.rs\<close>: the constructors, the queries of the
  trait \<open>Cidr\<close>, the address iterator, parsing and printing. The contract
  \<open>cidr_range\<close> and the iterator contract are interpreted on these definitions.
\<close>

definition IPV6ADDR_BITS :: usize where
  "IPV6ADDR_BITS = 128"

record ipv6_cidr =
  v6_addr :: ipv6addr
  v6_mask :: u128

definition v6_default :: ipv6_cidr where
  "v6_default = \<lparr>v6_addr = 0, v6_mask = 0\<rparr>"

section \<open>Queries\<close>

definition v6_address :: "ipv6_cidr \<Rightarrow> ipv6addr" where
  "v6_address c = v6_addr c"

definition v6_broadcast :: "ipv6_cidr \<Rightarrow> ipv6addr" where
  "v6_broadcast c = (v6_mask c AND v6_addr c) OR NOT (v6_mask c)"

definition v6_contains :: "ipv6_cidr \<Rightarrow> ipv6addr \<Rightarrow> bool" where
  "v6_contains c a \<longleftrightarrow> v6_mask c AND v6_addr c = v6_mask c AND a"

definition v6_length :: "ipv6_cidr \<Rightarrow> usize" where
  "v6_length c = leading_zeros (NOT (v6_mask c))"

definition v6_hostmask :: "ipv6_cidr \<Rightarrow> ipv6addr" where
  "v6_hostmask c = NOT (v6_mask c)"

definition v6_netmask :: "ipv6_cidr \<Rightarrow> ipv6addr" where
  "v6_netmask c = v6_mask c"

definition v6_network :: "ipv6_cidr \<Rightarrow> ipv6addr" where
  "v6_network c = v6_mask c AND v6_addr c"

definition v6_size :: "profile \<Rightarrow> ipv6_cidr \<Rightarrow> ('e, usize) outcome" where
  "v6_size p c = and_then (usize_sub p IPV6ADDR_BITS (v6_length c)) (\<lambda>n. usize_pow p 2 n)"

section \<open>Constructors\<close>

definition v6_new :: "ipv6addr \<Rightarrow> usize \<Rightarrow> cidr_error + ipv6_cidr" where
  "v6_new a len =
     (if len = 0 then Inr \<lparr>v6_addr = a, v6_mask = - 1\<rparr>
      else if 1 \<le> len \<and> len \<le> IPV6ADDR_BITS
      then Inr \<lparr>v6_addr = a, v6_mask = push_bit (IPV6ADDR_BITS - len) (- 1)\<rparr>
      else Inl (Malformed ''Not a valid length''))"

definition v6_netmask_length :: "ipv6addr \<Rightarrow> cidr_error + usize" where
  "v6_netmask_length nm =
     (let len = leading_zeros (NOT nm)
      in if leading_zeros nm = 0 \<and> trailing_zeros nm = count_zeros nm then Inr len
         else Inl InvalidPrefixLength)"

definition v6_with_netmask :: "ipv6addr \<Rightarrow> ipv6addr \<Rightarrow> cidr_error + ipv6_cidr" where
  "v6_with_netmask a nm =
     (case v6_netmask_length nm of Inl e \<Rightarrow> Inl e | Inr len \<Rightarrow> v6_new a len)"

section \<open>Iterator\<close>

record ipv6_cidr_iterator =
  v6_it_next :: "u128 option"
  v6_it_end :: u128

definition v6_iterator_new ::
  "profile \<Rightarrow> ipv6addr \<Rightarrow> usize \<Rightarrow> ('e, ipv6_cidr_iterator) outcome" where
  "v6_iterator_new p start e =
     and_then (word_sub p (of_nat e) 1) (\<lambda>d.
     and_then (word_add p start d) (\<lambda>last.
       Ok \<lparr>v6_it_next = Some start, v6_it_end = last\<rparr>))"

definition v6_iter :: "profile \<Rightarrow> ipv6_cidr \<Rightarrow> ('e, ipv6_cidr_iterator) outcome" where
  "v6_iter p c = and_then (v6_size p c) (\<lambda>n. v6_iterator_new p (v6_network c) n)"

definition v6_next ::
  "profile \<Rightarrow> ipv6_cidr_iterator \<Rightarrow> ipv6_cidr_iterator \<times> ('e, ipv6addr option) outcome" where
  "v6_next p it =
     (case v6_it_next it of
        None \<Rightarrow> (it, Ok None)
      | Some n \<Rightarrow>
          if n = v6_it_end it then (it\<lparr>v6_it_next := None\<rparr>, Ok (Some n))
          else with_ok it (word_add p n 1) (\<lambda>n'. (it\<lparr>v6_it_next := Some n'\<rparr>, Ok (Some n))))"

section \<open>Text\<close>

text \<open>The message of \<open>AddrParseError\<close> for IPv6.\<close>

definition ipv6_parse_error :: string where
  "ipv6_parse_error = ''invalid IPv6 address syntax''"

definition v6_from_str :: "string \<Rightarrow> cidr_error + ipv6_cidr" where
  "v6_from_str s =
     (case split_on (\<lambda>c. c = CHR ''/'') s of
        [addr, len_or_netmask] \<Rightarrow>
          (case ipv6_from_str addr of
             None \<Rightarrow> Inl (Malformed ipv6_parse_error)
           | Some a \<Rightarrow>
               (case from_str_radix 10 usize_limit len_or_netmask of
                  Some len \<Rightarrow> v6_new a len
                | None \<Rightarrow>
                    (case ipv6_from_str len_or_netmask of
                       None \<Rightarrow> Inl (Malformed ipv6_parse_error)
                     | Some nm \<Rightarrow> v6_with_netmask a nm)))
      | _ \<Rightarrow> Inl (Malformed ''No `/` found''))"

definition v6_to_string :: "ipv6_cidr \<Rightarrow> string" where
  "v6_to_string c = ipv6_to_string (v6_address c) @ CHR ''/'' # dec_string (v6_length c)"

section \<open>Validity and the contracts\<close>

text \<open>A range whose mask is a prefix mask. The constructors give no others.\<close>

definition v6_valid :: "ipv6_cidr \<Rightarrow> bool" where
  "v6_valid c \<longleftrightarrow> v6_mask c = prefix_mask (v6_length c)"

lemmas v6_query_defs =
  v6_address_def v6_broadcast_def v6_contains_def v6_hostmask_def v6_netmask_def v6_network_def

lemma v6_length_le: "v6_length c \<le> 128"
  using leading_zeros_le [of "NOT (v6_mask c)"] by (simp add: v6_length_def)

interpretation v6: cidr_range v6_address v6_netmask v6_hostmask v6_network v6_broadcast v6_contains
  v6_length v6_valid
  by unfold_locales (use v6_length_le in \<open>simp_all add: v6_query_defs v6_valid_def\<close>)

interpretation v6_it: addr_iterator "v6_next p" v6_it_next v6_it_end for p
proof unfold_locales
  fix it :: ipv6_cidr_iterator and a :: u128
  assume *: "v6_it_next it = Some a" "a < v6_it_end it"
  have "unat a + unat (1 :: u128) < 2 ^ LENGTH(128)"
    using *(2) unsigned_less [of "v6_it_end it", where 'a = nat] by (simp add: word_less_nat_alt)
  with * less_imp_neq [OF *(2)] show "\<exists>it'. v6_next p it = (it', Ok (Some a)) \<and> v6_it_next it' = Some (a + 1)
      \<and> v6_it_end it' = v6_it_end it"
    by (simp add: v6_next_def word_add_Ok)
qed (auto simp: v6_next_def)

lemma v6_new_cases:
  "v6_new a len =
     (if len \<le> 128 then Inr \<lparr>v6_addr = a, v6_mask = prefix_mask (if len = 0 then 128 else len)\<rparr>
      else Inl (Malformed ''Not a valid length''))"
  using prefix_mask_full [where 'w = 128]
  by (simp add: v6_new_def IPV6ADDR_BITS_def prefix_mask_def)

lemma v6_length_prefix:
  "k \<le> 128 \<Longrightarrow> v6_length \<lparr>v6_addr = a, v6_mask = prefix_mask k\<rparr> = k"
  by (simp add: v6_length_def length_prefix_mask)

lemma v6_new_Inr:
  assumes "v6_new a len = Inr c"
  shows "v6_valid c \<and> v6_addr c = a \<and> v6_length c = (if len = 0 then 128 else len)"
proof -
  define k where "k = (if len = 0 then 128 else len)"
  have "len \<le> 128" "c = \<lparr>v6_addr = a, v6_mask = prefix_mask k\<rparr>"
    using assms by (auto simp: v6_new_cases k_def split: if_splits)
  moreover from this(1) have "k \<le> 128" by (simp add: k_def)
  ultimately show ?thesis
    unfolding k_def [symmetric] by (simp add: v6_valid_def v6_length_prefix)
qed

lemma v6_netmask_length_prefix:
  assumes "0 < k" "k \<le> 128"
  shows "v6_netmask_length (prefix_mask k) = Inr k"
proof -
  have "leading_zeros (prefix_mask k :: u128) = 0
      \<and> trailing_zeros (prefix_mask k :: u128) = count_zeros (prefix_mask k :: u128)"
    using assms by (subst netmask_test_iff) auto
  then show ?thesis
    using assms by (simp add: v6_netmask_length_def length_prefix_mask Let_def)
qed

lemma v6_netmask_length_Inr:
  assumes "v6_netmask_length nm = Inr k"
  shows "0 < k \<and> k \<le> 128 \<and> nm = prefix_mask k"
proof -
  have k: "k = leading_zeros (NOT nm)"
    and "leading_zeros nm = 0 \<and> trailing_zeros nm = count_zeros nm"
    using assms by (auto simp: v6_netmask_length_def Let_def split: if_splits)
  then obtain j where "0 < j" "j \<le> 128" "nm = prefix_mask j"
    using netmask_test_iff [of nm] by auto
  with k show ?thesis by (simp add: length_prefix_mask)
qed

lemma pow2_less_usize: "(2 :: nat) ^ n < usize_limit \<longleftrightarrow> n < 64"
  unfolding usize_limit_def by (rule power_strict_increasing_iff) simp

lemma v6_size_fits:
  assumes "64 < v6_length c"
  shows "v6_size p c = Ok (2 ^ (128 - v6_length c))"
proof -
  have "(2 :: nat) ^ (128 - v6_length c) < usize_limit" using assms by (simp only: pow2_less_usize)
  then show ?thesis
    using v6_length_le by (simp add: v6_size_def IPV6ADDR_BITS_def usize_sub_Ok usize_pow_Ok)
qed

lemma v6_size_overflows:
  assumes "v6_length c \<le> 64"
  shows "v6_size Dev c = Panic ArithOverflow" "v6_size Release c = Ok 0"
proof -
  let ?h = "128 - v6_length c"
  have big: "\<not> (2 :: nat) ^ ?h < usize_limit" using assms by (simp only: pow2_less_usize)
  have "?h = 64 + (?h - 64)" using assms by simp
  then have "(2 :: nat) ^ ?h = 2 ^ 64 * 2 ^ (?h - 64)" by (simp only: power_add [symmetric])
  then have z: "(2 :: nat) ^ ?h mod usize_limit = 0" by (simp only: usize_limit_def mod_mult_self1_is_0)
  have s: "usize_sub p IPV6ADDR_BITS (v6_length c) = Ok ?h" for p
    using v6_length_le by (simp add: IPV6ADDR_BITS_def usize_sub_Ok)
  show "v6_size Dev c = Panic ArithOverflow" "v6_size Release c = Ok 0"
    by (simp_all only: v6_size_def s and_then.simps usize_pow_def big if_False profile.case z)
qed

lemma v6_iter_valid:
  assumes "v6_valid c" "64 < v6_length c"
  shows "v6_iter p c = Ok \<lparr>v6_it_next = Some (v6_network c), v6_it_end = v6_broadcast c\<rparr>"
proof -
  let ?h = "128 - v6_length c"
  have "(2 :: nat) ^ ?h \<le> 2 ^ 63" using assms(2) by (intro power_increasing) auto
  then have n: "unat (of_nat (2 ^ ?h) :: u128) = 2 ^ ?h" by (simp only: unat_of_nat) simp
  have le: "(1 :: u128) \<le> of_nat (2 ^ ?h)"
    unfolding word_le_nat_alt n by simp
  have d: "unat (of_nat (2 ^ ?h) - 1 :: u128) = 2 ^ ?h - 1"
    using n le by (simp only: unat_sub unat_1)
  have b: "unat (v6_broadcast c) = unat (v6_network c) + (2 ^ ?h - 1)"
    using v6.unat_broadcast [OF assms(1)] by simp
  have sum: "unat (v6_network c) + unat (of_nat (2 ^ ?h) - 1 :: u128) < 2 ^ LENGTH(128)"
    using b unsigned_less [of "v6_broadcast c", where 'a = nat] by (simp only: d)
  have "v6_network c + (of_nat (2 ^ ?h) - 1) = v6_broadcast c"
    using unat_add_lem [THEN iffD1, OF sum] b d by (simp only: word_unat_eq_iff)
  then show ?thesis
    by (simp only: v6_iter_def v6_size_fits [OF assms(2)] and_then.simps v6_iterator_new_def word_sub_Ok [OF le]
        word_add_Ok [OF sum])
qed

lemma v6_collect_valid:
  assumes "v6_valid c" "64 < v6_length c" "2 ^ (128 - v6_length c) < fuel"
  shows "collect (v6_next p) fuel \<lparr>v6_it_next = Some (v6_network c), v6_it_end = v6_broadcast c\<rparr>
    = Some (Ok (map (\<lambda>i. v6_network c + of_nat i) [0..<2 ^ (128 - v6_length c)]))"
proof -
  let ?d = "2 ^ (128 - v6_length c) - 1 :: nat"
  have *: "Suc ?d = 2 ^ (128 - v6_length c)" by simp
  show ?thesis
    using v6_it.collect_counts [of "\<lparr>v6_it_next = Some (v6_network c), v6_it_end = v6_broadcast c\<rparr>"
        "v6_network c" ?d fuel p] v6.unat_broadcast [OF assms(1)] assms(3)
    unfolding * by simp
qed

section \<open>Properties\<close>

text \<open>20f6:1b85:cc34::/126\<close>

definition v6_sample :: ipv6_cidr where
  "v6_sample = \<lparr>v6_addr = 0x20F61B85CC3400000000000000000000, v6_mask = prefix_mask 126\<rparr>"

lemma v6_sample_valid: "v6_valid v6_sample" "v6_length v6_sample = 126"
  by (simp_all add: v6_valid_def v6_sample_def v6_length_prefix)

text \<open>
  \<open>Ipv6Cidr::new\<close> accepts exactly the prefix lengths up to 128 and builds a range with
  the given address and a prefix mask of that length, but for length 0, which gives the
  same range as 128.
\<close>

lemma v6_new_spec:
  "case v6_new a len of
     Inl e \<Rightarrow> 128 < len \<and> e = Malformed ''Not a valid length''
   | Inr c \<Rightarrow> len \<le> 128 \<and> v6_valid c \<and> v6_address c = a \<and> v6_length c = (if len = 0 then 128 else len)"
proof (cases "v6_new a len")
  case (Inl e)
  then show ?thesis by (auto simp: v6_new_cases split: if_splits)
next
  case (Inr c)
  then have "len \<le> 128" by (auto simp: v6_new_cases split: if_splits)
  with Inr v6_new_Inr [OF Inr] show ?thesis by (simp add: v6_address_def)
qed

text \<open>
  C11: For every valid range \<open>contains\<close> accepts exactly the addresses from \<open>network\<close> to
  \<open>broadcast\<close>. \<open>size\<close> is their number if the prefix is longer than 64 bits; for every
  other prefix, the usual /64 among them, it panics in the \<open>dev\<close> profile and returns 0 in
  the \<open>release\<close> profile.
\<close>

theorem v6_contains_interval_and_size:
  assumes "v6_valid c"
  shows "{a. v6_contains c a} = {v6_network c..v6_broadcast c}
    \<and> v6_size p c =
        (if 64 < v6_length c then Ok (card {a. v6_contains c a})
         else case p of Dev \<Rightarrow> Panic ArithOverflow | Release \<Rightarrow> Ok 0)"
proof
  show "{a. v6_contains c a} = {v6_network c..v6_broadcast c}"
    by (rule v6.contained_set [OF assms])
  show "v6_size p c =
        (if 64 < v6_length c then Ok (card {a. v6_contains c a})
         else case p of Dev \<Rightarrow> Panic ArithOverflow | Release \<Rightarrow> Ok 0)"
    using v6.card_contained [OF assms]
    by (cases p) (simp_all add: v6_size_fits v6_size_overflows)
qed

theorem v6_contains_interval_and_size_witness:
  "v6_valid v6_sample \<and> v6_size Dev v6_sample = (Ok 4 :: (unit, usize) outcome)"
proof -
  have "card {a. v6_contains v6_sample a} = 4"
    using v6.card_contained [OF v6_sample_valid(1)] by (simp add: v6_sample_valid)
  with v6_contains_interval_and_size [OF v6_sample_valid(1), where p = Dev and 'a = unit]
  show ?thesis by (simp add: v6_sample_valid)
qed

text \<open>
  Draining \<open>iter()\<close> of a valid range with a prefix longer than 64 bits terminates after
  as many calls of \<open>next\<close> as there are addresses, plus one, and yields exactly the
  addresses of the range, each once and in ascending order from the network address.
\<close>

lemma v6_iter_enumerates:
  assumes "v6_valid c" "64 < v6_length c" "2 ^ (128 - v6_length c) < fuel"
  shows "\<exists>it as. v6_iter p c = (Ok it :: ('e, ipv6_cidr_iterator) outcome)
    \<and> collect (v6_next p) fuel it = (Some (Ok as) :: ('e, ipv6addr list) outcome option)
    \<and> set as = {a. v6_contains c a} \<and> sorted as \<and> distinct as \<and> hd as = v6_network c"
proof -
  have "unat (v6_broadcast c) = unat (v6_network c) + (2 ^ (128 - v6_length c) - 1)"
    using v6.unat_broadcast [OF assms(1)] by simp
  from word_enum [OF this] show ?thesis
    using v6_iter_valid [OF assms(1,2), of p] v6_collect_valid [OF assms, of p]
    unfolding v6.contained_set [OF assms(1)] by (metis zero_less_numeral zero_less_power)
qed

lemma v6_iter_enumerates_witness:
  "\<exists>it as. v6_iter Release v6_sample = (Ok it :: (unit, ipv6_cidr_iterator) outcome)
    \<and> collect (v6_next Release) 5 it = (Some (Ok as) :: (unit, ipv6addr list) outcome option)
    \<and> set as = {a. v6_contains v6_sample a} \<and> distinct as"
  using v6_iter_enumerates [OF v6_sample_valid(1), of 5 Release, where 'e = unit]
  by (auto simp: v6_sample_valid)

lemma v6_netmask_length_Inl: "v6_netmask_length nm = Inl e \<Longrightarrow> e = InvalidPrefixLength"
  by (auto simp: v6_netmask_length_def Let_def split: if_splits)

lemma v6_with_netmask_zero: "v6_with_netmask a 0 = Inl InvalidPrefixLength"
proof -
  have "(0 :: u128) \<noteq> prefix_mask k" if "0 < k" "k \<le> 128" for k
    using prefix_mask_inj [of 0 k, where 'w = 128] that by simp
  then have "v6_netmask_length 0 = Inl InvalidPrefixLength"
    using v6_netmask_length_Inr [of 0] v6_netmask_length_Inl [of 0] by (cases "v6_netmask_length 0") auto
  then show ?thesis by (simp add: v6_with_netmask_def)
qed

text \<open>
  \<open>netmask_length\<close> accepts exactly the netmasks that are a prefix of ones of length at
  least 1 and returns that length, and rejects every other address with
  \<open>InvalidPrefixLength\<close>; so \<open>with_netmask\<close> builds the range whose netmask is the
  given one.
\<close>

lemma v6_netmask_spec:
  "(case v6_netmask_length nm of
      Inl e \<Rightarrow> e = InvalidPrefixLength \<and> (\<nexists>k. 0 < k \<and> k \<le> 128 \<and> nm = prefix_mask k)
    | Inr k \<Rightarrow> 0 < k \<and> k \<le> 128 \<and> nm = prefix_mask k)
   \<and> (case v6_with_netmask a nm of
        Inl e \<Rightarrow> v6_netmask_length nm = Inl e
      | Inr c \<Rightarrow> v6_valid c \<and> v6_address c = a \<and> v6_netmask c = nm)"
proof (cases "v6_netmask_length nm")
  case (Inl e)
  then have "e = InvalidPrefixLength" by (rule v6_netmask_length_Inl)
  moreover have "\<nexists>k. 0 < k \<and> k \<le> 128 \<and> nm = prefix_mask k"
    using Inl v6_netmask_length_prefix by fastforce
  ultimately show ?thesis using Inl by (simp add: v6_with_netmask_def)
next
  case (Inr k)
  from v6_netmask_length_Inr [OF Inr] have k: "0 < k" "k \<le> 128" "nm = prefix_mask k" by auto
  then have new: "v6_new a k = Inr \<lparr>v6_addr = a, v6_mask = prefix_mask k\<rparr>"
    by (simp add: v6_new_cases)
  then have "v6_with_netmask a nm = Inr \<lparr>v6_addr = a, v6_mask = prefix_mask k\<rparr>"
    using Inr by (simp add: v6_with_netmask_def)
  with Inr k v6_new_Inr [OF new] show ?thesis by (simp add: v6_address_def v6_netmask_def)
qed

lemma v6_from_str_slash:
  assumes "list_all (\<lambda>c. c \<noteq> CHR ''/'') t"
  shows "v6_from_str (ipv6_to_string a @ CHR ''/'' # t) =
    (case from_str_radix 10 usize_limit t of
       Some len \<Rightarrow> v6_new a len
     | None \<Rightarrow> (case ipv6_from_str t of
                  None \<Rightarrow> Inl (Malformed ipv6_parse_error)
                | Some nm \<Rightarrow> v6_with_netmask a nm))"
proof -
  have "split_on (\<lambda>c. c = CHR ''/'') (ipv6_to_string a @ CHR ''/'' # t) = [ipv6_to_string a, t]"
    using split_on_append [of "\<lambda>c. c = CHR ''/''" "ipv6_to_string a" "CHR ''/''" t]
      split_on_none [of "\<lambda>c. c = CHR ''/''" t] ipv6_to_string_no_slash [of a] assms by simp
  then show ?thesis by (simp add: v6_from_str_def ipv6_from_to_string)
qed

text \<open>
  C12: Parsing inverts printing for IPv6: \<open>from_str\<close> of the text \<open>address/length\<close> that
  \<open>Display\<close> prints for a valid range with a length from 1 on gives the range back, and so
  does \<open>from_str\<close> of the text \<open>address/netmask\<close>. The address may be printed with a shortened
  run of zeros or with an embedded IPv4 address. A range of length 0, which \<open>Default\<close> gives, comes
  back as a single address, and its netmask is rejected.
\<close>

theorem v6_text_roundtrip:
  assumes "v6_valid c"
  shows "if 0 < v6_length c
    then v6_from_str (v6_to_string c) = Inr c
      \<and> v6_from_str (ipv6_to_string (v6_address c) @ CHR ''/'' # ipv6_to_string (v6_netmask c)) = Inr c
    else v6_from_str (v6_to_string c) = Inr (c\<lparr>v6_mask := - 1\<rparr>) \<and> c\<lparr>v6_mask := - 1\<rparr> \<noteq> c
      \<and> v6_from_str (ipv6_to_string (v6_address c) @ CHR ''/'' # ipv6_to_string (v6_netmask c))
        = Inl InvalidPrefixLength"
proof -
  have c: "v6_mask c = prefix_mask (v6_length c)" using assms(1) by (simp add: v6_valid_def)
  have parse: "v6_from_str (v6_to_string c) = v6_new (v6_addr c) (v6_length c)"
    "v6_from_str (ipv6_to_string (v6_address c) @ CHR ''/'' # ipv6_to_string (v6_netmask c))
      = v6_with_netmask (v6_addr c) (v6_mask c)"
    using v6_length_le [of c]
    by (simp_all add: v6_to_string_def v6_from_str_slash dec_string_no_slash from_str_radix_dec_string
        ipv6_to_string_no_slash from_str_radix_ipv6 ipv6_from_to_string usize_limit_def
        v6_address_def v6_netmask_def)
  show ?thesis
  proof (cases "0 < v6_length c")
    case True
    then have new: "v6_new (v6_addr c) (v6_length c) = Inr c"
      using c v6_length_le [of c] by (simp add: v6_new_cases)
    moreover have "v6_with_netmask (v6_addr c) (v6_mask c) = Inr c"
      using v6_netmask_length_prefix [OF True v6_length_le] new
      by (simp add: v6_with_netmask_def c [symmetric])
    ultimately show ?thesis using True by (simp add: parse)
  next
    case False
    then have m: "v6_mask c = 0" using c by simp
    then have "c\<lparr>v6_mask := - 1\<rparr> = \<lparr>v6_addr = v6_addr c, v6_mask = - 1\<rparr>" "c\<lparr>v6_mask := - 1\<rparr> \<noteq> c"
      by (cases c, simp)+
    with False m show ?thesis by (simp add: parse v6_new_def v6_with_netmask_zero)
  qed
qed

theorem v6_text_roundtrip_witness:
  "v6_from_str (v6_to_string v6_sample) = Inr v6_sample"
  using v6_text_roundtrip [OF v6_sample_valid(1)] by (simp add: v6_sample_valid)

end
