(* ===== verification/Routing.thy ===== *)
theory Routing
  imports Mac
begin

text \<open>
  The forwarding table, \<open>engine/src/net/routing_table.rs\<close>: two hash maps, MAC to IP and IP
  to MAC, each behind a reader-writer lock. The locks are part of the model because
  \<open>add\<close> calls the reading methods while it holds both write guards.
\<close>

section \<open>Reader-writer locks\<close>

text \<open>
  What a call does: it returns, it panics, or it blocks for ever. \<open>ShardedLock\<close> is not
  reentrant: its documentation leaves open whether \<open>read\<close> or \<open>write\<close> panics or
  deadlocks when the calling thread already holds the lock for writing. The choice is a
  parameter; \<open>Reenters\<close> is the third conceivable lock, one that lets its owner in again.
\<close>

datatype 'a call = Return 'a | Panics | Blocks

datatype reentry = DeadlockOnReentry | PanicOnReentry | Reenters

text \<open>
  A lock with its protected value, as one thread sees it: \<open>rw_held\<close> says that this thread
  holds the write guard (other threads release theirs after finitely many steps),
  \<open>rw_poisoned\<close> that a thread has panicked while it held the write guard.
\<close>

record 'v rwlock =
  rw_value :: 'v
  rw_held :: bool
  rw_poisoned :: bool

fun on_reentry :: "reentry \<Rightarrow> 'a \<Rightarrow> 'a call" where
  "on_reentry DeadlockOnReentry x = Blocks"
| "on_reentry PanicOnReentry x = Panics"
| "on_reentry Reenters x = Return x"

definition rw_read :: "reentry \<Rightarrow> 'v rwlock \<Rightarrow> 'v option call" where
  "rw_read r l =
     (let res = (if rw_poisoned l then None else Some (rw_value l))
      in if rw_held l then on_reentry r res else Return res)"

text \<open>\<open>write\<close>: whether the guard has been acquired.\<close>

definition rw_write :: "reentry \<Rightarrow> 'v rwlock \<Rightarrow> bool call" where
  "rw_write r l =
     (if rw_held l then on_reentry r (\<not> rw_poisoned l) else Return (\<not> rw_poisoned l))"

definition rw_hold :: "'v rwlock \<Rightarrow> 'v rwlock" where
  "rw_hold l = l\<lparr>rw_held := True\<rparr>"

definition rw_release :: "'v rwlock \<Rightarrow> 'v rwlock" where
  "rw_release l = l\<lparr>rw_held := False\<rparr>"

definition rw_poison :: "'v rwlock \<Rightarrow> 'v rwlock" where
  "rw_poison l = l\<lparr>rw_held := False, rw_poisoned := True\<rparr>"

section \<open>The table\<close>

type_synonym mac_map = "mac_addr \<rightharpoonup> ipv4addr"
type_synonym ip_map = "ipv4addr \<rightharpoonup> mac_addr"

record routing_table =
  mac_table :: "mac_map rwlock"
  ip_table :: "ip_map rwlock"

fun call_map :: "('a \<Rightarrow> 'b) \<Rightarrow> 'a call \<Rightarrow> 'b call" where
  "call_map f (Return x) = Return (f x)"
| "call_map f Panics = Panics"
| "call_map f Blocks = Blocks"

definition contains_mac :: "reentry \<Rightarrow> routing_table \<Rightarrow> mac_addr \<Rightarrow> bool call" where
  "contains_mac r rt mac =
     call_map (\<lambda>t. case t of Some table \<Rightarrow> table mac \<noteq> None | None \<Rightarrow> False)
       (rw_read r (mac_table rt))"

definition contains_ip :: "reentry \<Rightarrow> routing_table \<Rightarrow> ipv4addr \<Rightarrow> bool call" where
  "contains_ip r rt ip =
     call_map (\<lambda>t. case t of Some table \<Rightarrow> table ip \<noteq> None | None \<Rightarrow> False)
       (rw_read r (ip_table rt))"

definition get_mac :: "reentry \<Rightarrow> routing_table \<Rightarrow> ipv4addr \<Rightarrow> mac_addr option call" where
  "get_mac r rt ip =
     call_map (\<lambda>t. case t of Some table \<Rightarrow> table ip | None \<Rightarrow> None) (rw_read r (ip_table rt))"

definition get_ip :: "reentry \<Rightarrow> routing_table \<Rightarrow> mac_addr \<Rightarrow> ipv4addr option call" where
  "get_ip r rt mac =
     call_map (\<lambda>t. case t of Some table \<Rightarrow> table mac | None \<Rightarrow> None) (rw_read r (mac_table rt))"

text \<open>
  \<open>add\<close>. The condition is evaluated from left to right: \<open>contains_ip\<close> is called only if
  \<open>contains_mac\<close> has returned true. Both guards are released at the end of the block; a
  panic inside it poisons both locks.
\<close>

definition both_inserted :: "mac_addr \<Rightarrow> ipv4addr \<Rightarrow> routing_table \<Rightarrow> routing_table" where
  "both_inserted mac ip rt =
     rt\<lparr>mac_table := (mac_table rt)\<lparr>rw_value := (rw_value (mac_table rt))(mac \<mapsto> ip)\<rparr>,
        ip_table := (ip_table rt)\<lparr>rw_value := (rw_value (ip_table rt))(ip \<mapsto> mac)\<rparr>\<rparr>"

definition release_both :: "routing_table \<Rightarrow> routing_table" where
  "release_both rt = rt\<lparr>mac_table := rw_release (mac_table rt), ip_table := rw_release (ip_table rt)\<rparr>"

definition poison_both :: "routing_table \<Rightarrow> routing_table" where
  "poison_both rt = rt\<lparr>mac_table := rw_poison (mac_table rt), ip_table := rw_poison (ip_table rt)\<rparr>"

definition add_guarded ::
  "reentry \<Rightarrow> mac_addr \<Rightarrow> ipv4addr \<Rightarrow> routing_table \<Rightarrow> routing_table \<times> unit call" where
  "add_guarded r mac ip rt =
     (let insert = (release_both (both_inserted mac ip rt), Return ());
          keep = (release_both rt, Return ())
      in case contains_mac r rt mac of
           Panics \<Rightarrow> (poison_both rt, Panics)
         | Blocks \<Rightarrow> (rt, Blocks)
         | Return False \<Rightarrow> insert
         | Return True \<Rightarrow>
             (case contains_ip r rt ip of
                Panics \<Rightarrow> (poison_both rt, Panics)
              | Blocks \<Rightarrow> (rt, Blocks)
              | Return False \<Rightarrow> insert
              | Return True \<Rightarrow> keep))"

definition add ::
  "reentry \<Rightarrow> mac_addr \<Rightarrow> ipv4addr \<Rightarrow> routing_table \<Rightarrow> routing_table \<times> unit call" where
  "add r mac ip rt =
     (case rw_write r (mac_table rt) of
        Panics \<Rightarrow> (rt, Panics)
      | Blocks \<Rightarrow> (rt, Blocks)
      | Return False \<Rightarrow> (rt, Return ())
      | Return True \<Rightarrow>
          (let rt1 = rt\<lparr>mac_table := rw_hold (mac_table rt)\<rparr>
           in case rw_write r (ip_table rt1) of
                Panics \<Rightarrow> (rt1\<lparr>mac_table := rw_poison (mac_table rt1)\<rparr>, Panics)
              | Blocks \<Rightarrow> (rt1, Blocks)
              | Return False \<Rightarrow> (rt1\<lparr>mac_table := rw_release (mac_table rt1)\<rparr>, Return ())
              | Return True \<Rightarrow>
                  add_guarded r mac ip (rt1\<lparr>ip_table := rw_hold (ip_table rt1)\<rparr>)))"

section \<open>Lemmas\<close>

definition idle :: "'v rwlock \<Rightarrow> bool" where
  "idle l \<longleftrightarrow> \<not> rw_held l \<and> \<not> rw_poisoned l"

definition table_idle :: "routing_table \<Rightarrow> bool" where
  "table_idle rt \<longleftrightarrow> idle (mac_table rt) \<and> idle (ip_table rt)"

text \<open>Every address one table gives is a key of the other.\<close>

definition table_closed :: "routing_table \<Rightarrow> bool" where
  "table_closed rt \<longleftrightarrow>
     ran (rw_value (mac_table rt)) \<subseteq> dom (rw_value (ip_table rt)) \<and>
     ran (rw_value (ip_table rt)) \<subseteq> dom (rw_value (mac_table rt))"

lemmas lock_defs = rw_read_def rw_write_def rw_hold_def rw_release_def rw_poison_def idle_def
  table_idle_def release_both_def poison_both_def both_inserted_def

lemma add_idle:
  assumes "table_idle rt"
  shows "add r mac ip rt =
    add_guarded r mac ip (rt\<lparr>mac_table := rw_hold (mac_table rt), ip_table := rw_hold (ip_table rt)\<rparr>)"
  using assms by (simp add: add_def lock_defs Let_def)

lemma add_reenters:
  assumes "table_idle rt"
  shows "add Reenters mac ip rt =
    ((if rw_value (mac_table rt) mac = None \<or> rw_value (ip_table rt) ip = None
      then both_inserted mac ip rt else rt), Return ())"
  using assms
  by (cases "rw_value (mac_table rt) mac"; cases "rw_value (ip_table rt) ip")
    (simp_all add: add_idle add_guarded_def contains_mac_def contains_ip_def lock_defs Let_def)

lemma both_inserted_closed:
  assumes "table_closed rt"
  shows "table_closed (both_inserted mac ip rt)"
proof -
  let ?m = "rw_value (mac_table rt)" and ?i = "rw_value (ip_table rt)"
  have "ran (?m(mac \<mapsto> ip)) \<subseteq> insert ip (ran ?m)" "ran (?i(ip \<mapsto> mac)) \<subseteq> insert mac (ran ?i)"
    by (auto simp: ran_def)
  with assms show ?thesis by (auto simp: table_closed_def both_inserted_def)
qed

text \<open>
  With a reentrant lock the body of \<open>add\<close> works as intended: it returns, leaves both
  locks free and the tables closed (every IP of the MAC table is a key of the IP table and
  the other way round), and if the MAC or the IP was unknown both lookups then find the new
  pair. If both were known nothing changes, even when they were paired with other
  addresses.
\<close>

lemma add_reentrant_spec:
  assumes "table_idle rt" "table_closed rt"
  shows "case add Reenters mac ip rt of (rt', res) \<Rightarrow>
    res = Return () \<and> table_idle rt' \<and> table_closed rt' \<and>
    (if contains_mac r rt mac = Return False \<or> contains_ip r rt ip = Return False
     then get_ip r rt' mac = Return (Some ip) \<and> get_mac r rt' ip = Return (Some mac)
     else rt' = rt)"
proof -
  let ?new = "rw_value (mac_table rt) mac = None \<or> rw_value (ip_table rt) ip = None"
  have "?new \<longleftrightarrow> contains_mac r rt mac = Return False \<or> contains_ip r rt ip = Return False"
    using assms(1) by (auto simp: contains_mac_def contains_ip_def lock_defs Let_def)
  moreover have "get_ip r (both_inserted mac ip rt) mac = Return (Some ip)"
    "get_mac r (both_inserted mac ip rt) ip = Return (Some mac)"
    "table_idle (both_inserted mac ip rt)"
    using assms(1) by (simp_all add: get_ip_def get_mac_def lock_defs Let_def)
  ultimately show ?thesis
    using assms both_inserted_closed [OF assms(2)] by (auto simp: add_reenters)
qed

section \<open>Properties\<close>

definition empty_table :: routing_table where
  "empty_table =
     \<lparr>mac_table = \<lparr>rw_value = Map.empty, rw_held = False, rw_poisoned = False\<rparr>,
      ip_table = \<lparr>rw_value = Map.empty, rw_held = False, rw_poisoned = False\<rparr>\<rparr>"

lemma empty_table_idle: "table_idle empty_table" "table_closed empty_table"
  by (simp_all add: empty_table_def table_idle_def idle_def table_closed_def)

text \<open>
  C17: \<open>RoutingTable::add\<close> never returns on a table whose locks are free: holding both write
  guards, it reads through \<open>contains_mac\<close>, and the lock, which is not reentrant, panics or
  blocks for ever. No address is stored; afterwards both locks are poisoned, so that every
  lookup answers no, or both stay held.
\<close>

theorem add_never_returns:
  assumes "table_idle rt" "r \<noteq> Reenters"
  shows "case add r mac ip rt of (rt', res) \<Rightarrow>
    res \<noteq> Return () \<and>
    rw_value (mac_table rt') = rw_value (mac_table rt) \<and>
    rw_value (ip_table rt') = rw_value (ip_table rt) \<and>
    (if res = Panics
     then contains_mac r rt' m = Return False \<and> contains_ip r rt' i = Return False
     else rw_held (mac_table rt') \<and> rw_held (ip_table rt'))"
  using assms
  by (cases r) (simp_all add: add_idle add_guarded_def contains_mac_def contains_ip_def lock_defs Let_def)

theorem add_never_returns_witness:
  "snd (add DeadlockOnReentry UNSPECIFIED 1 empty_table) \<noteq> Return ()
    \<and> snd (add PanicOnReentry UNSPECIFIED 1 empty_table) \<noteq> Return ()"
  using add_never_returns [OF empty_table_idle(1), where r = DeadlockOnReentry and mac = UNSPECIFIED and ip = 1 and m = UNSPECIFIED and i = 0]
    add_never_returns [OF empty_table_idle(1), where r = PanicOnReentry and mac = UNSPECIFIED and ip = 1 and m = UNSPECIFIED and i = 0]
  by (auto split: prod.splits)

end
