(* ===== verification/Headers.thy ===== *)
theory Headers
  imports Mbuf
begin

text \<open>
  Packet headers: the C structs of the Ethernet and IPv4 headers with the layout of the
  bindings (\<open>ffi/src/bindings_rustdoc.rs\<close>), the accessors of \<open>ffi/src/shim.c\<close>, the
  wrappers \<open>EtherHdr\<close> and \<open>Ipv4Hdr\<close> (\<open>engine/src/net/ether.rs\<close>, \<open>ipv4.rs\<close>)
  and the \<open>FiveTuple\<close> built from them (\<open>engine/src/net/mod.rs\<close>).

  A pointer into the packet is a position in the buffer's memory region, a null pointer is
  \<open>None\<close>. The alignment of the region is not modelled (the Ethernet struct asks for an
  even address).
\<close>

section \<open>Header structs\<close>

record rte_ether_hdr =
  d_addr :: octets6
  s_addr :: octets6
  ether_type :: u16

record rte_ipv4_hdr =
  version_ihl :: u8
  type_of_service :: u8
  total_length :: u16
  packet_id :: u16
  fragment_offset :: u16
  time_to_live :: u8
  next_proto_id :: u8
  hdr_checksum :: u16
  src_addr :: u32
  dst_addr :: u32

text \<open>
  Multi-byte fields are loaded as the x86-64 target loads them, least significant byte
  first; the position of each field is the one the bindings assert.
\<close>

definition le16 :: "u8 list \<Rightarrow> nat \<Rightarrow> u16" where
  "le16 bs i = of_nat (unat (bs ! i) + 256 * unat (bs ! Suc i))"

definition le32 :: "u8 list \<Rightarrow> nat \<Rightarrow> u32" where
  "le32 bs i =
     of_nat (unat (bs ! i) + 256 * (unat (bs ! (i + 1)) + 256 * (unat (bs ! (i + 2)) +
       256 * unat (bs ! (i + 3)))))"

definition octets_at :: "u8 list \<Rightarrow> nat \<Rightarrow> octets6" where
  "octets_at bs i =
     (bs ! i, bs ! (i + 1), bs ! (i + 2), bs ! (i + 3), bs ! (i + 4), bs ! (i + 5))"

definition size_of_ether_hdr :: nat where
  "size_of_ether_hdr = 14"

definition size_of_ipv4_hdr :: nat where
  "size_of_ipv4_hdr = 20"

definition load_ether_hdr :: "u8 list \<Rightarrow> rte_ether_hdr" where
  "load_ether_hdr bs = \<lparr>d_addr = octets_at bs 0, s_addr = octets_at bs 6, ether_type = le16 bs 12\<rparr>"

definition load_ipv4_hdr :: "u8 list \<Rightarrow> rte_ipv4_hdr" where
  "load_ipv4_hdr bs =
     \<lparr>version_ihl = bs ! 0, type_of_service = bs ! 1, total_length = le16 bs 2,
      packet_id = le16 bs 4, fragment_offset = le16 bs 6, time_to_live = bs ! 8,
      next_proto_id = bs ! 9, hdr_checksum = le16 bs 10, src_addr = le32 bs 12,
      dst_addr = le32 bs 16\<rparr>"

section \<open>Accessors\<close>

text \<open>\<open>rte_pktmbuf_mtod\<close>: \<open>buf_addr + data_off\<close>. It does not look at \<open>data_len\<close>.\<close>

definition pktmbuf_mtod :: "rte_mbuf \<Rightarrow> nat" where
  "pktmbuf_mtod m = unat (data_off m)"

definition pkt_ether_hdr :: "rte_mbuf option \<Rightarrow> nat option" where
  "pkt_ether_hdr pkt = (case pkt of None \<Rightarrow> None | Some m \<Rightarrow> Some (pktmbuf_mtod m))"

definition pkt_ipv4_hdr :: "rte_mbuf \<Rightarrow> ('e, nat option) outcome" where
  "pkt_ipv4_hdr m =
     (let ipv4 = pktmbuf_mtod m + size_of_ether_hdr
      in case mem_read (buf_mem m) ipv4 1 of
           None \<Rightarrow> UB
         | Some bs \<Rightarrow>
             (let version = (drop_bit 4 (bs ! 0)) AND 15
              in Ok (if version \<noteq> 4 then None else Some ipv4)))"

text \<open>Reading a struct of \<open>n\<close> bytes through a pointer; a null pointer must not be read.\<close>

definition deref :: "rte_mbuf \<Rightarrow> nat option \<Rightarrow> nat \<Rightarrow> ('e, u8 list) outcome" where
  "deref m r n =
     (case r of
        None \<Rightarrow> UB
      | Some pos \<Rightarrow> (case mem_read (buf_mem m) pos n of None \<Rightarrow> UB | Some bs \<Rightarrow> Ok bs))"

definition ether_hdr_from_mbuf :: "rte_mbuf \<Rightarrow> ('e, rte_ether_hdr) outcome" where
  "ether_hdr_from_mbuf m =
     and_then (deref m (pkt_ether_hdr (Some m)) size_of_ether_hdr) (\<lambda>bs. Ok (load_ether_hdr bs))"

definition ipv4_hdr_from_mbuf :: "rte_mbuf \<Rightarrow> ('e, rte_ipv4_hdr) outcome" where
  "ipv4_hdr_from_mbuf m =
     and_then (pkt_ipv4_hdr m) (\<lambda>r.
       and_then (deref m r size_of_ipv4_hdr) (\<lambda>bs. Ok (load_ipv4_hdr bs)))"

section \<open>The five-tuple\<close>

record five_tuple =
  src_mac :: mac_addr
  dst_mac :: mac_addr
  src_ip :: ipv4addr
  dst_ip :: ipv4addr
  proto :: u8

text \<open>
  \<open>FiveTuple::new\<close>. \<open>Ipv4Addr::from(u32)\<close> keeps the number (its most significant byte is
  the first octet), which is also how an \<^typ>\<open>ipv4addr\<close> represents an address.
\<close>

definition five_tuple_new :: "rte_ipv4_hdr \<Rightarrow> rte_ether_hdr \<Rightarrow> five_tuple" where
  "five_tuple_new ihdr ehdr =
     \<lparr>src_mac = mac_from_octets (s_addr ehdr), dst_mac = mac_from_octets (d_addr ehdr),
      src_ip = src_addr ihdr, dst_ip = dst_addr ihdr, proto = next_proto_id ihdr\<rparr>"

definition get_d_mac :: "five_tuple \<Rightarrow> mac_addr" where
  "get_d_mac t = dst_mac t"

definition get_d_ip :: "five_tuple \<Rightarrow> ipv4addr" where
  "get_d_ip t = dst_ip t"

text \<open>What the engine extracts from a packet (the order of the two reads is the engine's).\<close>

definition extract_five_tuple :: "rte_mbuf \<Rightarrow> ('e, five_tuple) outcome" where
  "extract_five_tuple m =
     and_then (ether_hdr_from_mbuf m) (\<lambda>ehdr.
       and_then (ipv4_hdr_from_mbuf m) (\<lambda>ihdr. Ok (five_tuple_new ihdr ehdr)))"

section \<open>Lemmas\<close>

text \<open>A batch of packets received from a port.\<close>

record port_id_mbuf =
  portid :: u16
  buf :: "mbuf list"

lemma le32_reverses:
  "le32 bs i = ipv4_new (unat (bs ! (i + 3))) (unat (bs ! (i + 2))) (unat (bs ! (i + 1))) (unat (bs ! i))"
  by (simp add: le32_def ipv4_new_def algebra_simps)

lemma version_nibble: "drop_bit 4 (b :: u8) AND 15 = 4 \<longleftrightarrow> unat b div 16 = 4"
proof -
  have m: "(15 :: u8) = mask 4" by (simp add: mask_eq_exp_minus_1)
  have "drop_bit 4 b AND mask 4 = drop_bit 4 b"
    using bit_imp_le_length [of b "4 + n" for n] by (intro bit_word_eqI) (auto simp: bit_simps)
  then have "drop_bit 4 b AND 15 = 4 \<longleftrightarrow> unat (drop_bit 4 b) = 4"
    by (simp only: m word_unat_eq_iff) simp
  then show ?thesis by (simp add: drop_bit_eq_div unat_div_distrib)
qed

lemma read_in_packet:
  assumes "wf_mbuf m" "i + n \<le> data_len m"
  shows "mem_read (buf_mem m) (unat (data_off m) + i) n = Some (take n (drop i (contents m)))"
proof -
  have "unat (data_off m) + i + n \<le> length (buf_mem m)"
    using wf_mbufD [OF assms(1)] assms(2) by simp
  moreover have "take n (drop (unat (data_off m) + i) (buf_mem m)) = take n (drop i (contents m))"
    using assms(2) by (simp add: contents_def drop_take min_absorb1 add.commute)
  ultimately show ?thesis by (simp add: mem_read_def)
qed

lemma load_ether_hdr_nth:
  assumes "14 \<le> length bs"
  shows "load_ether_hdr (take 14 bs) = load_ether_hdr bs"
  using assms by (simp add: load_ether_hdr_def octets_at_def le16_def)

lemma ether_hdr_in_packet:
  assumes "wf_mbuf m" "14 \<le> data_len m"
  shows "ether_hdr_from_mbuf m = Ok (load_ether_hdr (contents m))"
  using read_in_packet [OF assms(1), of 0 14] assms load_ether_hdr_nth [of "contents m"]
  by (simp add: ether_hdr_from_mbuf_def deref_def pkt_ether_hdr_def pktmbuf_mtod_def size_of_ether_hdr_def)

lemma ipv4_hdr_in_packet:
  assumes "wf_mbuf m" "34 \<le> data_len m"
  shows "ipv4_hdr_from_mbuf m =
    (if unat (contents m ! 14) div 16 = 4 then Ok (load_ipv4_hdr (take 20 (drop 14 (contents m)))) else UB)"
proof -
  have "drop 14 (contents m) ! 0 = contents m ! 14" using assms by simp
  then have "take 1 (drop 14 (contents m)) ! 0 = contents m ! 14" by simp
  with read_in_packet [OF assms(1), of 14 1] read_in_packet [OF assms(1), of 14 20] assms(2)
  show ?thesis
    by (simp add: ipv4_hdr_from_mbuf_def pkt_ipv4_hdr_def deref_def pktmbuf_mtod_def
        size_of_ether_hdr_def size_of_ipv4_hdr_def version_nibble Let_def)
qed

section \<open>Properties\<close>

text \<open>
  C24: For a packet that holds both headers, extracting the five-tuple succeeds exactly if
  the version field says 4, and then it gives the two MAC addresses and the protocol of the
  packet. Both IP addresses come out with their octets in reverse order: the big-endian
  header fields are used as numbers of the little-endian host. Any other version makes the
  engine read through the null pointer that \<open>_pkt_ipv4_hdr\<close> returns.
\<close>

theorem extract_five_tuple_spec:
  assumes "wf_mbuf m" "34 \<le> data_len m"
  shows "extract_five_tuple m =
    (let c = contents m; octet = (\<lambda>i. unat (c ! i))
     in if octet 14 div 16 = 4
        then Ok \<lparr>src_mac = MacAddr (octets_at c 6), dst_mac = MacAddr (octets_at c 0),
                 src_ip = ipv4_new (octet 29) (octet 28) (octet 27) (octet 26),
                 dst_ip = ipv4_new (octet 33) (octet 32) (octet 31) (octet 30),
                 proto = c ! 23\<rparr>
        else UB)"
proof -
  have l: "34 \<le> length (contents m)" using assms by simp
  then have "src_addr (load_ipv4_hdr (take 20 (drop 14 (contents m)))) = le32 (contents m) 26"
    "dst_addr (load_ipv4_hdr (take 20 (drop 14 (contents m)))) = le32 (contents m) 30"
    "next_proto_id (load_ipv4_hdr (take 20 (drop 14 (contents m)))) = contents m ! 23"
    by (simp_all add: load_ipv4_hdr_def le32_def)
  then show ?thesis
    using assms
    by (simp add: extract_five_tuple_def ether_hdr_in_packet ipv4_hdr_in_packet five_tuple_new_def load_ether_hdr_def
        mac_from_octets_def le32_reverses Let_def)
qed

text \<open>A packet from 10.0.0.1 to 10.0.0.2, protocol 6, and the same with version 6.\<close>

definition sample_packet :: "u8 \<Rightarrow> rte_mbuf" where
  "sample_packet vihl =
     \<lparr>buf_mem = [2, 0, 0, 0, 0, 2,  2, 0, 0, 0, 0, 1,  8, 0,
                 vihl, 0, 0, 20, 0, 0, 0, 0, 64, 6, 0, 0, 10, 0, 0, 1, 10, 0, 0, 2],
      buf_len = 34, data_off = 0, raw_data_len = 34, pkt_len = 34, mbuf_pool = 1\<rparr>"

lemma sample_packet_wf: "wf_mbuf (sample_packet v)" "data_len (sample_packet v) = 34"
  by (simp_all add: sample_packet_def wf_mbuf_def data_len_def)

theorem extract_five_tuple_spec_witness:
  "and_then (extract_five_tuple (sample_packet 0x45)) (\<lambda>t. Ok (dst_ip t)) = (Ok (ipv4_new 2 0 0 10) :: (failure, ipv4addr) outcome)
   \<and> extract_five_tuple (sample_packet 0x60) = (UB :: (failure, five_tuple) outcome)"
  using extract_five_tuple_spec [where 'a = failure, OF sample_packet_wf(1), of "0x45"]
    extract_five_tuple_spec [where 'a = failure, OF sample_packet_wf(1), of "0x60"]
  by (simp add: sample_packet_wf contents_def data_len_def sample_packet_def Let_def)

end
