(* ===== verification/Concurrent_Map.thy ===== *)
theory Concurrent_Map
  imports Main
begin

text \<open>
  The concurrent hash maps of the engine (\<open>chashmap::CHashMap\<close>) come from another
  package. Their operations are a record that the definitions take as an argument;
  the interface \<open>chashmap\<close> states what the package documents of them. Every access locks
  the map for its duration, so the operations are atomic steps.
\<close>

record ('k, 'v, 'm) chashmap_ops =
  cm_new :: 'm
  cm_get :: "'m \<Rightarrow> 'k \<Rightarrow> 'v option"
  cm_insert :: "'k \<Rightarrow> 'v \<Rightarrow> 'm \<Rightarrow> 'v option \<times> 'm"
  cm_remove :: "'k \<Rightarrow> 'm \<Rightarrow> 'v option \<times> 'm"

text \<open>\<open>insert\<close> and \<open>remove\<close> hand out the value that was stored under the key.\<close>

locale chashmap =
  fixes ops :: "('k, 'v, 'm) chashmap_ops"
  assumes get_new: "cm_get ops (cm_new ops) k = None"
    and get_insert: "cm_get ops (snd (cm_insert ops k v m)) j = (if j = k then Some v else cm_get ops m j)"
    and old_insert: "fst (cm_insert ops k v m) = cm_get ops m k"
    and get_remove: "cm_get ops (snd (cm_remove ops k m)) j = (if j = k then None else cm_get ops m j)"
    and old_remove: "fst (cm_remove ops k m) = cm_get ops m k"
begin

lemma insert_cases:
  obtains m' where "cm_insert ops k v m = (cm_get ops m k, m')"
    "cm_get ops m' = (cm_get ops m)(k \<mapsto> v)"
proof
  show "cm_insert ops k v m = (cm_get ops m k, snd (cm_insert ops k v m))"
    by (metis old_insert prod.collapse)
  show "cm_get ops (snd (cm_insert ops k v m)) = (cm_get ops m)(k \<mapsto> v)"
    by (rule ext) (simp add: get_insert)
qed

lemma remove_cases:
  obtains m' where "cm_remove ops k m = (cm_get ops m k, m')"
    "cm_get ops m' = (cm_get ops m)(k := None)"
proof
  show "cm_remove ops k m = (cm_get ops m k, snd (cm_remove ops k m))"
    by (metis old_remove prod.collapse)
  show "cm_get ops (snd (cm_remove ops k m)) = (cm_get ops m)(k := None)"
    by (rule ext) (simp add: get_remove)
qed

lemma new_empty: "cm_get ops (cm_new ops) = Map.empty"
  by (rule ext) (simp add: get_new)

end

text \<open>Partial functions are such a map.\<close>

definition map_ops :: "('k, 'v, 'k \<rightharpoonup> 'v) chashmap_ops" where
  "map_ops =
     \<lparr>cm_new = Map.empty, cm_get = (\<lambda>m k. m k), cm_insert = (\<lambda>k v m. (m k, m(k \<mapsto> v))),
      cm_remove = (\<lambda>k m. (m k, m(k := None)))\<rparr>"

interpretation map_ops: chashmap map_ops
  by unfold_locales (simp_all add: map_ops_def)

end
