(* ===== verification/Mem_Ring.thy ===== *)
theory Mem_Ring
  imports Mbuf Concurrent_Map
begin

text \<open>
  The rings between the engine and its clients, \<open>engine/src/dpdk/memring.rs\<close>: a
  \<open>Ring\<close> wraps an \<open>rte_ring\<close>, a \<open>Channel\<close> is a pair of rings and the
  \<open>EngineRingMap\<close> finds the channel of a client. DPDK's ring functions are a record of
  operations on the state \<open>'s\<close> behind the foreign function interface; the interface
  \<open>rte_rings\<close> states what DPDK documents of them, \<open>rings_and_buffers\<close> adds the release
  of a message buffer.
\<close>

section \<open>Rings\<close>

record 's ring_ffi =
  rte_ring_create :: "string \<Rightarrow> u32 \<Rightarrow> c_int \<Rightarrow> u32 \<Rightarrow> 's \<Rightarrow> ptr \<times> 's"
  rte_ring_enqueue :: "ptr \<Rightarrow> ptr \<Rightarrow> 's \<Rightarrow> c_int \<times> 's"
  rte_ring_dequeue :: "ptr \<Rightarrow> 's \<Rightarrow> c_int \<times> ptr option \<times> 's"
  rte_ring_free :: "ptr \<Rightarrow> 's \<Rightarrow> 's"

definition NO_FLAGS :: u8 where
  "NO_FLAGS = 0"

datatype ring_type = RX | TX

record ring =
  client_id :: u16
  rtype :: ring_type
  ring_raw :: ptr

text \<open>\<open>Default for Ring\<close>: \<open>dangling\<close> is the non-null pointer \<open>NonNull::dangling()\<close> gives.\<close>

definition ring_default :: "ptr \<Rightarrow> ring" where
  "ring_default dangling = \<lparr>client_id = 0, rtype = TX, ring_raw = dangling\<rparr>"

definition ring_from_ptr :: "u16 \<Rightarrow> ring_type \<Rightarrow> ptr \<Rightarrow> ring option" where
  "ring_from_ptr cid rt r =
     (case nonnull_new r of
        Some raw \<Rightarrow> Some \<lparr>client_id = cid, rtype = rt, ring_raw = raw\<rparr>
      | None \<Rightarrow> None)"

definition ring_new ::
  "'s ring_ffi \<Rightarrow> dpdk_errno \<Rightarrow> u16 \<Rightarrow> ring_type \<Rightarrow> string \<Rightarrow> usize \<Rightarrow> socket_id \<Rightarrow>
   's \<Rightarrow> 's \<times> (failure, ring) outcome" where
  "ring_new ffi err cid rt name capacity sid s =
     with_ok s (to_cstring name) (\<lambda>cname.
       let (r, s') = rte_ring_create ffi cname (of_nat capacity) (socket_raw sid) (ucast NO_FLAGS) s
       in with_ok s' (to_result_mut r (\<lambda>_. DpdkFailure (dpdk_error_new err))) (\<lambda>raw.
            (s', Ok \<lparr>client_id = cid, rtype = rt, ring_raw = raw\<rparr>)))"

definition ring_prefix :: "ring_type \<Rightarrow> string" where
  "ring_prefix rt = (case rt of RX \<Rightarrow> ''RX-'' | TX \<Rightarrow> ''TX-'')"

definition ring_name :: "ring \<Rightarrow> string" where
  "ring_name r = ring_prefix (rtype r) @ dec_string (unat (client_id r))"

text \<open>
  \<open>enqueue\<close> takes the buffer out of its \<open>Mbuf\<close> first, so nothing is dropped if the call
  fails.
\<close>

definition ring_enqueue ::
  "'s ring_ffi \<Rightarrow> dpdk_errno \<Rightarrow> ring \<Rightarrow> mbuf \<Rightarrow> 's \<Rightarrow> 's \<times> (failure, unit) outcome" where
  "ring_enqueue ffi err r pkt s =
     (let (code, s') = rte_ring_enqueue ffi (ring_raw r) (into_ptr pkt) s
      in with_ok s' (to_result_int code (\<lambda>_. DpdkFailure (dpdk_error_new err))) (\<lambda>_. (s', Ok ())))"

text \<open>
  \<open>dequeue\<close> hands the C function the address of a temporary that holds a copy of the
  pointer inside \<open>pkt\<close>. The result is the state, the \<open>Mbuf\<close> behind \<open>pkt\<close> and the
  temporary after the call, and what the call returns.
\<close>

definition ring_dequeue ::
  "'s ring_ffi \<Rightarrow> dpdk_errno \<Rightarrow> ring \<Rightarrow> mbuf \<Rightarrow> 's \<Rightarrow> ('s \<times> mbuf \<times> ptr) \<times> (failure, unit) outcome" where
  "ring_dequeue ffi err r pkt s =
     (let (code, stored, s') = rte_ring_dequeue ffi (ring_raw r) s;
          temporary = (case stored of None \<Rightarrow> into_ptr pkt | Some obj \<Rightarrow> obj)
      in with_ok (s', pkt, temporary)
           (to_result_int code (\<lambda>_. DpdkFailure (dpdk_error_new err)))
           (\<lambda>_. ((s', pkt, temporary), Ok ())))"

definition ring_drop :: "'s ring_ffi \<Rightarrow> ring \<Rightarrow> 's \<Rightarrow> 's" where
  "ring_drop ffi r s = rte_ring_free ffi (ring_raw r) s"

section \<open>Channels\<close>

record channel =
  tx_q :: ring
  rx_q :: ring

definition channel_new :: "ring \<Rightarrow> ring \<Rightarrow> channel" where
  "channel_new tx rx = \<lparr>tx_q = tx, rx_q = rx\<rparr>"

definition channel_send ::
  "'s ring_ffi \<Rightarrow> dpdk_errno \<Rightarrow> channel \<Rightarrow> mbuf \<Rightarrow> 's \<Rightarrow> 's \<times> (failure, unit) outcome" where
  "channel_send ffi err ch pkt s = ring_enqueue ffi err (tx_q ch) pkt s"

definition channel_receive ::
  "'s ring_ffi \<Rightarrow> dpdk_errno \<Rightarrow> channel \<Rightarrow> mbuf \<Rightarrow> 's \<Rightarrow> ('s \<times> mbuf \<times> ptr) \<times> (failure, unit) outcome" where
  "channel_receive ffi err ch pkt s = ring_dequeue ffi err (rx_q ch) pkt s"

text \<open>\<open>Drop for Channel\<close> does nothing itself; the fields are dropped in their order.\<close>

definition channel_drop :: "'s ring_ffi \<Rightarrow> channel \<Rightarrow> 's \<Rightarrow> 's" where
  "channel_drop ffi ch s = ring_drop ffi (rx_q ch) (ring_drop ffi (tx_q ch) s)"

section \<open>The channels of the engine\<close>

record 'm engine_ring_map =
  ring_map :: 'm

definition engine_ring_map_new :: "(u16, channel, 'm) chashmap_ops \<Rightarrow> 'm engine_ring_map" where
  "engine_ring_map_new ops = \<lparr>ring_map = cm_new ops\<rparr>"

text \<open>
  A packet for an unknown client is dropped at the end of \<open>send\<close>; \<open>pktmbuf_free\<close> is
  \<open>_rte_pktmbuf_free\<close>.
\<close>

definition engine_map_send ::
  "(u16, channel, 'm) chashmap_ops \<Rightarrow> 's ring_ffi \<Rightarrow> (ptr \<Rightarrow> 's \<Rightarrow> 's) \<Rightarrow> dpdk_errno \<Rightarrow>
   'm engine_ring_map \<Rightarrow> u16 \<Rightarrow> mbuf \<Rightarrow> 's \<Rightarrow> 's \<times> (failure, unit) outcome" where
  "engine_map_send ops ffi pktmbuf_free err em key pkt s =
     (case cm_get ops (ring_map em) key of
        Some ch \<Rightarrow> channel_send ffi err ch pkt s
      | None \<Rightarrow> (mbuf_drop pktmbuf_free pkt s, Err (FormatErr ''Failed to send packet'')))"

definition engine_map_receive ::
  "(u16, channel, 'm) chashmap_ops \<Rightarrow> 's ring_ffi \<Rightarrow> dpdk_errno \<Rightarrow>
   'm engine_ring_map \<Rightarrow> u16 \<Rightarrow> mbuf \<Rightarrow> 's \<Rightarrow> ('s \<times> mbuf \<times> ptr) \<times> (failure, unit) outcome" where
  "engine_map_receive ops ffi err em key pkt s =
     (case cm_get ops (ring_map em) key of
        Some ch \<Rightarrow> channel_receive ffi err ch pkt s
      | None \<Rightarrow> ((s, pkt, into_ptr pkt), Err (FormatErr ''Failed to receive packet'')))"

section \<open>Interfaces\<close>

text \<open>
  DPDK's rings: \<open>rings\<close> views the state as the bounded queues behind the ring pointers,
  each with its capacity and its objects from the oldest to the youngest. Without flags a
  ring of \<open>count\<close> slots, a power of two, holds \<open>count - 1\<close> objects; a failing call stores
  and removes nothing.
\<close>

locale rte_rings =
  fixes ffi :: "'s ring_ffi"
    and rings :: "'s \<Rightarrow> ptr \<rightharpoonup> nat \<times> ptr list"
  assumes create_null: "rte_ring_create ffi name count sid flags s = (0, s') \<Longrightarrow> rings s' = rings s"
    and create_ring: "rte_ring_create ffi name count sid flags s = (r, s') \<Longrightarrow> r \<noteq> 0 \<Longrightarrow>
      rings s r = None \<and> rings s' = (rings s)(r \<mapsto> (unat count - 1, []))"
    and enqueue_room: "rings s r = Some (cap, xs) \<Longrightarrow> length xs < cap \<Longrightarrow>
      rte_ring_enqueue ffi r x s = (code, s') \<Longrightarrow> code = 0 \<and> rings s' = (rings s)(r \<mapsto> (cap, xs @ [x]))"
    and enqueue_full: "rings s r = Some (cap, xs) \<Longrightarrow> \<not> length xs < cap \<Longrightarrow>
      rte_ring_enqueue ffi r x s = (code, s') \<Longrightarrow> sint code < 0 \<and> rings s' = rings s"
    and dequeue_some: "rings s r = Some (cap, x # xs) \<Longrightarrow>
      rte_ring_dequeue ffi r s = (code, stored, s') \<Longrightarrow>
      code = 0 \<and> stored = Some x \<and> rings s' = (rings s)(r \<mapsto> (cap, xs))"
    and dequeue_none: "rings s r = Some (cap, []) \<Longrightarrow>
      rte_ring_dequeue ffi r s = (code, stored, s') \<Longrightarrow>
      sint code < 0 \<and> stored = None \<and> rings s' = rings s"
    and free_ring: "rings (rte_ring_free ffi r s) = (rings s)(r := None)"
begin

lemma enqueue_outcome:
  assumes "rings s (ring_raw r) = Some (cap, xs)" "ring_enqueue ffi err r pkt s = (s', res)"
  shows "if length xs < cap
    then res = Ok () \<and> rings s' = (rings s)(ring_raw r \<mapsto> (cap, xs @ [into_ptr pkt]))
    else res = Err (DpdkFailure (dpdk_error_new err)) \<and> rings s' = rings s"
proof -
  obtain code s1 where e: "rte_ring_enqueue ffi (ring_raw r) (into_ptr pkt) s = (code, s1)"
    by fastforce
  show ?thesis
  proof (cases "length xs < cap")
    case True
    with assms e enqueue_room [OF assms(1) True e] show ?thesis
      by (auto simp: ring_enqueue_def to_result_int_def)
  next
    case False
    with assms e enqueue_full [OF assms(1) False e] show ?thesis
      by (auto simp: ring_enqueue_def to_result_int_def)
  qed
qed

lemma dequeue_outcome:
  assumes "rings s (ring_raw r) = Some (cap, xs)"
    and "ring_dequeue ffi err r pkt s = ((s', pkt', temporary), res)"
  shows "pkt' = pkt \<and>
    (case xs of
       [] \<Rightarrow> res = Err (DpdkFailure (dpdk_error_new err)) \<and> rings s' = rings s
     | x # ys \<Rightarrow> res = Ok () \<and> temporary = x \<and> rings s' = (rings s)(ring_raw r \<mapsto> (cap, ys)))"
proof -
  obtain code stored s1 where e: "rte_ring_dequeue ffi (ring_raw r) s = (code, stored, s1)"
    by (cases "rte_ring_dequeue ffi (ring_raw r) s") auto
  show ?thesis
  proof (cases xs)
    case Nil
    with assms e dequeue_none [OF _ e] show ?thesis
      by (auto simp: ring_dequeue_def to_result_int_def split: option.splits)
  next
    case (Cons x ys)
    with assms e dequeue_some [OF _ e] show ?thesis
      by (auto simp: ring_dequeue_def to_result_int_def)
  qed
qed

lemma new_outcome:
  assumes "NUL \<notin> set name" "ring_new ffi err cid rt name count sid s = (s', res)"
  shows "case res of
      Ok r \<Rightarrow> client_id r = cid \<and> rtype r = rt \<and> ring_raw r \<noteq> 0 \<and> rings s (ring_raw r) = None
        \<and> rings s' = (rings s)(ring_raw r \<mapsto> (unat (of_nat count :: u32) - 1, []))
    | Err e \<Rightarrow> e = DpdkFailure (dpdk_error_new err) \<and> rings s' = rings s
    | _ \<Rightarrow> False"
proof -
  obtain r s1 where e: "rte_ring_create ffi (name @ [NUL]) (of_nat count) (socket_raw sid) (ucast NO_FLAGS) s
      = (r, s1)" by fastforce
  show ?thesis
  proof (cases "r = 0")
    case True
    with assms e create_null show ?thesis
      by (auto simp: ring_new_def to_cstring_def to_result_mut_eq)
  next
    case False
    with assms e create_ring [OF e False] show ?thesis
      by (auto simp: ring_new_def to_cstring_def to_result_mut_eq)
  qed
qed

end

text \<open>
  Rings and message buffers together: \<open>live\<close> is the set of buffers that are allocated.
\<close>

locale rings_and_buffers = rte_rings ffi rings
  for ffi :: "'s ring_ffi" and rings :: "'s \<Rightarrow> ptr \<rightharpoonup> nat \<times> ptr list" +
  fixes pktmbuf_free :: "ptr \<Rightarrow> 's \<Rightarrow> 's"
    and live :: "'s \<Rightarrow> ptr set"
  assumes free_live: "live (pktmbuf_free p s) = live s - {p}"
    and free_rings: "rings (pktmbuf_free p s) = rings s"
    and enqueue_live: "live (snd (rte_ring_enqueue ffi r x s)) = live s"
begin

lemma enqueue_keeps_live:
  assumes "ring_enqueue ffi err r pkt s = (s', res)"
  shows "live s' = live s"
proof -
  obtain code s1 where "rte_ring_enqueue ffi (ring_raw r) (into_ptr pkt) s = (code, s1)" by fastforce
  then show ?thesis
    using assms enqueue_live [of "ring_raw r" "into_ptr pkt" s]
    by (cases "0 \<le> sint code") (simp_all add: ring_enqueue_def to_result_int_def)
qed

end

text \<open>
  The reference instance: at most \<open>n\<close> rings, each with its name, at the pointers
  \<open>1..n\<close>, beside the set of allocated buffers. A name is used once, the number of slots
  is a power of two.
\<close>

record ring_store =
  st_rings :: "ptr \<rightharpoonup> string \<times> nat \<times> ptr list"
  st_live :: "ptr set"

definition power_of_two :: "u32 \<Rightarrow> bool" where
  "power_of_two count = list_ex (\<lambda>k. unat count = 2 ^ k) [0..<32]"

definition name_used :: "nat \<Rightarrow> string \<Rightarrow> 'x ring_store_scheme \<Rightarrow> bool" where
  "name_used n name s = list_ex (\<lambda>r. map_option fst (st_rings s r) = Some name) (map Suc [0..<n])"

definition store_create ::
  "nat \<Rightarrow> string \<Rightarrow> u32 \<Rightarrow> c_int \<Rightarrow> u32 \<Rightarrow> 'x ring_store_scheme \<Rightarrow> ptr \<times> 'x ring_store_scheme" where
  "store_create n name count sid flags s =
     (if \<not> power_of_two count \<or> name_used n name s then (0, s)
      else case find (\<lambda>r. st_rings s r = None) (map Suc [0..<n]) of
             None \<Rightarrow> (0, s)
           | Some r \<Rightarrow> (r, s\<lparr>st_rings := (st_rings s)(r \<mapsto> (name, unat count - 1, []))\<rparr>))"

definition store_enqueue :: "ptr \<Rightarrow> ptr \<Rightarrow> 'x ring_store_scheme \<Rightarrow> c_int \<times> 'x ring_store_scheme" where
  "store_enqueue r x s =
     (case st_rings s r of
        None \<Rightarrow> (- 22, s)
      | Some (name, cap, xs) \<Rightarrow>
          if length xs < cap
          then (0, s\<lparr>st_rings := (st_rings s)(r \<mapsto> (name, cap, xs @ [x]))\<rparr>) else (- 105, s))"

definition store_dequeue ::
  "ptr \<Rightarrow> 'x ring_store_scheme \<Rightarrow> c_int \<times> ptr option \<times> 'x ring_store_scheme" where
  "store_dequeue r s =
     (case st_rings s r of
        None \<Rightarrow> (- 22, None, s)
      | Some (name, cap, xs) \<Rightarrow>
          (case xs of
             [] \<Rightarrow> (- 2, None, s)
           | x # ys \<Rightarrow> (0, Some x, s\<lparr>st_rings := (st_rings s)(r \<mapsto> (name, cap, ys))\<rparr>)))"

definition store_ffi :: "nat \<Rightarrow> 'x ring_store_scheme ring_ffi" where
  "store_ffi n =
     \<lparr>rte_ring_create = store_create n, rte_ring_enqueue = store_enqueue,
      rte_ring_dequeue = store_dequeue,
      rte_ring_free = (\<lambda>r s. s\<lparr>st_rings := (st_rings s)(r := None)\<rparr>)\<rparr>"

definition store_free :: "ptr \<Rightarrow> 'x ring_store_scheme \<Rightarrow> 'x ring_store_scheme" where
  "store_free p s = s\<lparr>st_live := st_live s - {p}\<rparr>"

definition store_view :: "'x ring_store_scheme \<Rightarrow> ptr \<rightharpoonup> nat \<times> ptr list" where
  "store_view s r = map_option snd (st_rings s r)"

lemma store_view_upd:
  "store_view (s\<lparr>st_rings := (st_rings s)(r \<mapsto> (name, q))\<rparr>) = (store_view s)(r \<mapsto> q)"
  "store_view (s\<lparr>st_rings := (st_rings s)(r := None)\<rparr>) = (store_view s)(r := None)"
  "store_view (s\<lparr>st_live := l\<rparr>) = store_view s"
  by (auto simp: store_view_def)

lemma store_view_Some: "store_view s r = Some q \<longleftrightarrow> (\<exists>name. st_rings s r = Some (name, q))"
  by (cases q) (auto simp: store_view_def)

lemma store_ffi_sel [simp]:
  "rte_ring_create (store_ffi n) = store_create n" "rte_ring_enqueue (store_ffi n) = store_enqueue"
  "rte_ring_dequeue (store_ffi n) = store_dequeue"
  "rte_ring_free (store_ffi n) r s = s\<lparr>st_rings := (st_rings s)(r := None)\<rparr>"
  by (simp_all add: store_ffi_def)

lemma store_create_cases:
  obtains (null) "store_create n name count sid flags s = (0, s)"
  | (ring) r where "r \<noteq> 0" "st_rings s r = None"
      "store_create n name count sid flags s = (r, s\<lparr>st_rings := (st_rings s)(r \<mapsto> (name, unat count - 1, []))\<rparr>)"
proof (cases "\<not> power_of_two count \<or> name_used n name s")
  case True
  then show ?thesis using null by (simp add: store_create_def)
next
  case ok: False
  show ?thesis
  proof (cases "find (\<lambda>r. st_rings s r = None) (map Suc [0..<n])")
    case None
    with ok show ?thesis using null by (simp add: store_create_def)
  next
    case (Some r)
    with ok find_Some_set [OF this] show ?thesis by (intro ring [of r]) (auto simp: store_create_def)
  qed
qed

interpretation store: rings_and_buffers "store_ffi n" store_view store_free st_live for n
proof unfold_locales
  fix name count sid flags s s'
  assume "rte_ring_create (store_ffi n) name count sid flags s = (0, s')"
  then show "store_view s' = store_view s"
    by (cases rule: store_create_cases [of n name count sid flags s]) auto
next
  fix name count sid flags s r s'
  assume "rte_ring_create (store_ffi n) name count sid flags s = (r, s')" "r \<noteq> 0"
  then show "store_view s r = None \<and> store_view s' = (store_view s)(r \<mapsto> (unat count - 1, []))"
    by (cases rule: store_create_cases [of n name count sid flags s])
      (auto simp: store_view_upd store_view_def [of s])
next
  show "st_live (snd (rte_ring_enqueue (store_ffi n) r x s)) = st_live s" for r x s
    by (simp add: store_enqueue_def split: option.splits prod.splits)
qed (auto simp: store_enqueue_def store_dequeue_def store_free_def store_view_upd store_view_Some)

section \<open>Properties\<close>

text \<open>
  C27: Sending a packet to a client. If the client is registered and its ring has room, the
  packet is appended to the ring. If the client is unknown the call fails and the packet is
  freed. If the ring is full the call fails, no ring has changed, and the packet is still
  allocated although its only owner is gone: it is leaked.
\<close>

theorem engine_map_send_spec:
  assumes "rings_and_buffers ffi rings pktmbuf_free live"
    and "\<And>ch. cm_get ops (ring_map em) key = Some ch \<Longrightarrow> rings s (ring_raw (tx_q ch)) = Some (cap, xs)"
  shows "case engine_map_send ops ffi pktmbuf_free err em key (Mbuf (Original p)) s of (s', res) \<Rightarrow>
    (case cm_get ops (ring_map em) key of
       None \<Rightarrow> res = Err (FormatErr ''Failed to send packet'') \<and> rings s' = rings s \<and> live s' = live s - {p}
     | Some ch \<Rightarrow> live s' = live s \<and>
         (if length xs < cap
          then res = Ok () \<and> rings s' = (rings s)(ring_raw (tx_q ch) \<mapsto> (cap, xs @ [p]))
          else res = Err (DpdkFailure (dpdk_error_new err)) \<and> rings s' = rings s))"
proof (cases "cm_get ops (ring_map em) key")
  case None
  then show ?thesis
    using rings_and_buffers.free_live [OF assms(1)] rings_and_buffers.free_rings [OF assms(1)]
    by (simp add: engine_map_send_def mbuf_drop_def)
next
  case (Some ch)
  obtain s' res where e: "ring_enqueue ffi err (tx_q ch) (Mbuf (Original p)) s = (s', res)" by fastforce
  have "rte_rings ffi rings" using assms(1) by (simp add: rings_and_buffers_def)
  from rte_rings.enqueue_outcome [OF this assms(2) [OF Some] e]
    rings_and_buffers.enqueue_keeps_live [OF assms(1) e] Some e
  show ?thesis by (auto simp: engine_map_send_def channel_send_def into_ptr_def)
qed

definition sample_rings :: ring_store where
  "sample_rings = \<lparr>st_rings = [1 \<mapsto> (''TX-7'', 1, []), 2 \<mapsto> (''RX-7'', 1, [40])], st_live = {40, 41}\<rparr>"

definition sample_map :: "(u16 \<rightharpoonup> channel) engine_ring_map" where
  "sample_map = \<lparr>ring_map = [7 \<mapsto>
     \<lparr>tx_q = \<lparr>client_id = 7, rtype = TX, ring_raw = 1\<rparr>, rx_q = \<lparr>client_id = 7, rtype = RX, ring_raw = 2\<rparr>\<rparr>]\<rparr>"

lemma sample_map_get:
  "cm_get map_ops (ring_map sample_map) key = (if key = 7 then Some
     \<lparr>tx_q = \<lparr>client_id = 7, rtype = TX, ring_raw = 1\<rparr>, rx_q = \<lparr>client_id = 7, rtype = RX, ring_raw = 2\<rparr>\<rparr>
     else None)"
  by (simp add: map_ops_def sample_map_def)

theorem engine_map_send_spec_witness:
  "snd (engine_map_send map_ops (store_ffi 4) store_free sample_errno sample_map 7 (Mbuf (Original 41)) sample_rings) = Ok ()
   \<and> snd (engine_map_send map_ops (store_ffi 4) store_free sample_errno sample_map 8 (Mbuf (Original 41)) sample_rings)
       = Err (FormatErr ''Failed to send packet'')"
  using engine_map_send_spec [OF store.rings_and_buffers_axioms [of 4], where ops = map_ops and em = sample_map
      and key = 7 and s = sample_rings and cap = 1 and xs = "[]" and p = 41 and err = sample_errno]
    engine_map_send_spec [OF store.rings_and_buffers_axioms [of 4], where ops = map_ops and em = sample_map
      and key = 8 and s = sample_rings and cap = 1 and xs = "[]" and p = 41 and err = sample_errno]
  by (simp add: sample_map_get store_view_def sample_rings_def split: prod.splits)

text \<open>
  C28: Receiving a packet from a client whose ring is not empty removes the oldest packet
  from the ring and returns success, but the packet reaches a temporary only: the
  \<open>Mbuf\<close> of the caller is the one it passed in, so the packet is in no ring any more
  (packets being in at most one place) and in no \<open>Mbuf\<close>. From an empty ring the call
  fails and changes nothing.
\<close>

theorem channel_receive_loses_packet:
  assumes "rte_rings ffi rings" "rings s (ring_raw (rx_q ch)) = Some (cap, xs)"
    and "\<forall>r cap' ys. r \<noteq> ring_raw (rx_q ch) \<longrightarrow> rings s r = Some (cap', ys) \<longrightarrow> set xs \<inter> set ys = {}"
    and "distinct xs"
  shows "case channel_receive ffi err ch pkt s of ((s', pkt', temporary), res) \<Rightarrow>
    pkt' = pkt \<and>
    (case xs of
       [] \<Rightarrow> res = Err (DpdkFailure (dpdk_error_new err)) \<and> rings s' = rings s
     | x # ys \<Rightarrow> res = Ok () \<and> temporary = x \<and>
         rings s' = (rings s)(ring_raw (rx_q ch) \<mapsto> (cap, ys)) \<and>
         (\<forall>r cap' zs. rings s' r = Some (cap', zs) \<longrightarrow> x \<notin> set zs))"
proof -
  obtain s' pkt' temporary res
    where e: "ring_dequeue ffi err (rx_q ch) pkt s = ((s', pkt', temporary), res)"
    by (metis prod.exhaust)
  note out = rte_rings.dequeue_outcome [OF assms(1,2) e]
  show ?thesis
  proof (cases xs)
    case Nil
    with out e show ?thesis by (simp add: channel_receive_def)
  next
    case (Cons x ys)
    have "x \<notin> set zs" if "((rings s)(ring_raw (rx_q ch) \<mapsto> (cap, ys))) r = Some (cap', zs)" for r cap' zs
      using that assms(3,4) Cons by (cases "r = ring_raw (rx_q ch)") force+
    with out e Cons show ?thesis by (simp add: channel_receive_def)
  qed
qed

theorem channel_receive_loses_packet_witness:
  "case channel_receive (store_ffi 4) sample_errno
     \<lparr>tx_q = \<lparr>client_id = 7, rtype = TX, ring_raw = 1\<rparr>, rx_q = \<lparr>client_id = 7, rtype = RX, ring_raw = 2\<rparr>\<rparr>
     (Mbuf (Original 41)) sample_rings of
     ((s', pkt', temporary), res) \<Rightarrow> pkt' = Mbuf (Original 41) \<and> temporary = 40 \<and> res = Ok ()"
proof -
  let ?ch = "\<lparr>tx_q = \<lparr>client_id = 7, rtype = TX, ring_raw = 1\<rparr>, rx_q = \<lparr>client_id = 7, rtype = RX, ring_raw = 2\<rparr>\<rparr>"
  have "store_view sample_rings (ring_raw (rx_q ?ch)) = Some (1, [40])"
    "\<forall>r cap' ys. r \<noteq> ring_raw (rx_q ?ch) \<longrightarrow> store_view sample_rings r = Some (cap', ys) \<longrightarrow> set [40] \<inter> set ys = {}"
    "distinct [40 :: ptr]"
    by (auto simp: store_view_def sample_rings_def)
  from channel_receive_loses_packet [OF store.rte_rings_axioms [of 4] this, where pkt = "Mbuf (Original 41)" and err = sample_errno]
  show ?thesis by (auto split: prod.splits)
qed

text \<open>
  Different rings have different names, by which the clients look them up: the names of
  two rings agree exactly if the rings have the same direction and client.
\<close>

lemma ring_name_unique:
  "ring_name a = ring_name b \<longleftrightarrow> rtype a = rtype b \<and> client_id a = client_id b"
proof
  assume eq: "ring_name a = ring_name b"
  then have rt: "rtype a = rtype b"
    by (cases "rtype a"; cases "rtype b") (auto simp: ring_name_def ring_prefix_def)
  with eq have "dec_string (unat (client_id a)) = dec_string (unat (client_id b))"
    by (simp add: ring_name_def)
  then have "unat (client_id a) = unat (client_id b)"
    using from_str_radix_dec_string unat_u16_less by (metis option.inject)
  with rt show "rtype a = rtype b \<and> client_id a = client_id b" by (simp add: word_unat_eq_iff)
qed (simp add: ring_name_def)

end
