(* ===== verification/Port.thy ===== *)
theory Port
  imports Mbuf
begin

text \<open>
  Ethernet ports, \<open>engine/src/dpdk/port.rs\<close>: the queue pairs through which a core
  receives and transmits, the port itself and the builder that configures it. The DPDK
  functions are arguments; the interface \<open>eth_tx\<close> states what DPDK documents of
  \<open>rte_eth_tx_burst\<close> beside the bulk release of buffers.
\<close>

section \<open>Identifiers\<close>

datatype port_id = PortId (port_raw: u16)
datatype rx_queue_index = RxQueueIndex (rxq_raw: u16)
datatype tx_queue_index = TxQueueIndex (txq_raw: u16)
datatype rx_tx_queue = Rx rx_queue_index | Tx tx_queue_index

text \<open>
  \<open>PortId::socket_id\<close>: \<open>dev_socket_id\<close> is \<open>rte_eth_dev_socket_id\<close> and \<open>sockets\<close> the
  list that \<open>SocketId::all\<close> gives.
\<close>

definition port_socket_id :: "(u16 \<Rightarrow> c_int) \<Rightarrow> socket_id list \<Rightarrow> port_id \<Rightarrow> socket_id option" where
  "port_socket_id dev_socket_id sockets self =
     (let i = SocketId (dev_socket_id (port_raw self))
      in if i \<in> set sockets then Some i else None)"

section \<open>Queues\<close>

record port_queue =
  queue_port :: port_id
  rxq :: rx_queue_index
  txq :: tx_queue_index

definition port_queue_new :: "port_id \<Rightarrow> rx_queue_index \<Rightarrow> tx_queue_index \<Rightarrow> port_queue" where
  "port_queue_new port rx tx = \<lparr>queue_port = port, rxq = rx, txq = tx\<rparr>"

definition get_portid :: "port_queue \<Rightarrow> u16" where
  "get_portid q = port_raw (queue_port q)"

definition RX_BURST_MAX :: usize where
  "RX_BURST_MAX = 32"

text \<open>
  \<open>receive\<close>: \<open>_rte_eth_rx_burst\<close> gives the number it returns, the pointers it stored and
  the new state. \<open>set_len\<close> beyond the capacity or the stored pointers, and
  \<open>new_unchecked\<close> of a null pointer, are undefined.
\<close>

definition receive ::
  "(u16 \<Rightarrow> u16 \<Rightarrow> u16 \<Rightarrow> 'e \<Rightarrow> u16 \<times> ptr list \<times> 'e) \<Rightarrow> port_queue \<Rightarrow> 'e \<Rightarrow>
   'e \<times> ('err, mbuf list) outcome" where
  "receive rx_burst q e =
     (let (len, ptrs, e') = rx_burst (port_raw (queue_port q)) (rxq_raw (rxq q)) (of_nat RX_BURST_MAX) e
      in if RX_BURST_MAX < unat len \<or> length ptrs < unat len \<or> 0 \<in> set (take (unat len) ptrs)
         then (e', UB)
         else (e', Ok (map mbuf_from_ptr (take (unat len) ptrs))))"

text \<open>
  The loop of \<open>transmit\<close> over the pointers not yet sent. \<open>to_send\<close> is the length cut to
  16 bits, \<open>to_send - sent\<close> is checked, and \<open>drain\<close> panics beyond the end of the vector.
\<close>

function transmit_loop ::
  "profile \<Rightarrow> (u16 \<Rightarrow> u16 \<Rightarrow> ptr list \<Rightarrow> u16 \<Rightarrow> 'e \<Rightarrow> u16 \<times> 'e) \<Rightarrow> (ptr \<Rightarrow> ptr) \<Rightarrow>
   (ptr \<Rightarrow> ptr list \<Rightarrow> u32 \<Rightarrow> 'e \<Rightarrow> 'e) \<Rightarrow> port_queue \<Rightarrow> ptr list \<Rightarrow> 'e \<Rightarrow>
   'e \<times> (failure, unit) outcome" where
  "transmit_loop p tx_burst pool_of put_bulk q ptrs e =
     (let to_send = of_nat (length ptrs);
          (sent, e') = tx_burst (port_raw (queue_port q)) (txq_raw (txq q)) ptrs to_send e
      in if 0 < sent
         then with_ok e' (word_sub p to_send sent) (\<lambda>rest.
           if 0 < rest
           then if unat sent \<le> length ptrs
                then transmit_loop p tx_burst pool_of put_bulk q (drop (unat sent) ptrs) e'
                else (e', Panic IndexOutOfBounds)
           else (e', Ok ()))
         else mbuf_free_bulk pool_of put_bulk ptrs e')"
  by pat_completeness auto

termination
proof (relation "measure (\<lambda>(p, tx_burst, pool_of, put_bulk, q, ptrs, e). length ptrs)", simp)
  fix p tx_burst pool_of put_bulk q ptrs e to_send pair and sent rest :: u16 and e'
  assume "0 < sent" "unat sent \<le> length ptrs"
  then have "0 < unat sent" by (simp add: word_less_nat_alt)
  with \<open>unat sent \<le> length ptrs\<close>
  show "((p, tx_burst, pool_of, put_bulk, q, drop (unat sent) ptrs, e'), p, tx_burst, pool_of, put_bulk, q, ptrs, e)
      \<in> measure (\<lambda>(p, tx_burst, pool_of, put_bulk, q, ptrs, e). length ptrs)"
    by simp
qed

declare transmit_loop.simps [simp del]

definition transmit ::
  "profile \<Rightarrow> (u16 \<Rightarrow> u16 \<Rightarrow> ptr list \<Rightarrow> u16 \<Rightarrow> 'e \<Rightarrow> u16 \<times> 'e) \<Rightarrow> (ptr \<Rightarrow> ptr) \<Rightarrow>
   (ptr \<Rightarrow> ptr list \<Rightarrow> u32 \<Rightarrow> 'e \<Rightarrow> 'e) \<Rightarrow> port_queue \<Rightarrow> mbuf list \<Rightarrow> 'e \<Rightarrow>
   'e \<times> (failure, unit) outcome" where
  "transmit p tx_burst pool_of put_bulk q packets e =
     transmit_loop p tx_burst pool_of put_bulk q (map into_ptr packets) e"

definition queue_mac_addr :: "(u16 \<Rightarrow> octets6 option) \<Rightarrow> port_queue \<Rightarrow> mac_addr" where
  "queue_mac_addr macaddr_get q = eth_macaddr_get macaddr_get (port_raw (queue_port q))"

section \<open>Transmission under DPDK's contract\<close>

text \<open>
  \<open>rte_eth_tx_burst\<close> takes over a prefix of the packets it is given and returns its
  length, at most the number asked for; \<open>sent\<close> observes the packets taken over.
\<close>

locale eth_tx = mempool_put put_bulk freed
  for put_bulk :: "ptr \<Rightarrow> ptr list \<Rightarrow> u32 \<Rightarrow> 'e \<Rightarrow> 'e" and freed :: "'e \<Rightarrow> (ptr \<times> ptr) list" +
  fixes tx_burst :: "u16 \<Rightarrow> u16 \<Rightarrow> ptr list \<Rightarrow> u16 \<Rightarrow> 'e \<Rightarrow> u16 \<times> 'e"
    and sent :: "'e \<Rightarrow> ptr list"
  assumes burst_prefix: "tx_burst port queue ptrs n e = (k, e') \<Longrightarrow>
      k \<le> n \<and> sent e' = sent e @ take (unat k) ptrs \<and> freed e' = freed e"
    and put_sent: "sent (put_bulk pool objs len e) = sent e"
begin

lemma loop_sent: "free_bulk_loop pool_of put_bulk pool to_free mbufs e = (rest, e') \<Longrightarrow> sent e' = sent e"
  by (induction mbufs arbitrary: to_free e) (auto simp: put_sent split: if_splits)

lemma free_bulk_sent:
  assumes "mbuf_free_bulk pool_of put_bulk mbufs e = (e', r)"
  shows "sent e' = sent e"
proof (cases mbufs)
  case Nil
  with assms show ?thesis by (simp add: mbuf_free_bulk_def)
next
  case (Cons m ms)
  obtain rest e1 where l: "free_bulk_loop pool_of put_bulk (pool_of m) [] mbufs e = (rest, e1)"
    by fastforce
  with assms Cons loop_sent [OF l] show ?thesis by (auto simp: mbuf_free_bulk_def put_sent)
qed

text \<open>
  Of a vector of \<open>n\<close> packets only \<open>n mod 65536\<close> are ever offered to the device. A prefix
  of these is sent; then the rest is freed, unless all of them have been sent.
\<close>

lemma transmit_loop_outcome:
  assumes "ptrs \<noteq> []" "length ptrs < 2 ^ 32"
    and "transmit_loop p tx_burst pool_of put_bulk q ptrs e = (e', r)"
  shows "r = Ok () \<and> (\<exists>k \<le> length ptrs mod 65536. sent e' = sent e @ take k ptrs \<and>
    ((0 < k \<and> k = length ptrs mod 65536 \<and> freed e' = freed e) \<or>
     (k < length ptrs \<and> freed e' = freed e @ map (Pair (pool_of (ptrs ! k))) (drop k ptrs))))"
  using assms
proof (induction "length ptrs" arbitrary: ptrs e rule: less_induct)
  case less
  let ?to_send = "of_nat (length ptrs) :: u16"
  have ts: "unat ?to_send = length ptrs mod 65536" by (simp add: unat_of_nat)
  obtain k e1 where b: "tx_burst (port_raw (queue_port q)) (txq_raw (txq q)) ptrs ?to_send e = (k, e1)"
    by fastforce
  note pre = burst_prefix [OF b]
  have kle: "unat k \<le> length ptrs mod 65536" using pre ts by (simp add: word_le_nat_alt)
  consider (none) "k = 0" | (all) "0 < k" "k = ?to_send" | (some) "0 < k" "k < ?to_send"
    using pre by (metis order_le_less word_gt_0)
  then show ?case
  proof cases
    case none
    with less.prems b have "mbuf_free_bulk pool_of put_bulk ptrs e1 = (e', r)"
      by (simp add: transmit_loop.simps [of p tx_burst])
    with freed_bulk [OF less.prems(1,2) this] free_bulk_sent [OF this] pre none less.prems(1)
    show ?thesis by (intro conjI exI [of _ 0]) (auto simp: hd_conv_nth)
  next
    case all
    with less.prems(3) b have "e' = e1" "r = Ok ()"
      by (simp_all add: transmit_loop.simps [of p tx_burst] word_sub_Ok)
    moreover have "0 < unat k" using all(1) by (simp add: word_less_nat_alt)
    ultimately show ?thesis
      using pre ts all(2) by (intro conjI exI [of _ "unat k"]) auto
  next
    case some
    have lt: "unat k < length ptrs mod 65536" "0 < unat k"
      using some ts by (simp_all add: word_less_nat_alt)
    then have klen: "unat k < length ptrs" using mod_less_eq_dividend [of "length ptrs" 65536] by linarith
    have rest: "0 < ?to_send - k" using some by (simp add: word_gt_0)
    let ?ptrs = "drop (unat k) ptrs"
    have loop: "transmit_loop p tx_burst pool_of put_bulk q ?ptrs e1 = (e', r)"
      using less.prems(3) b some klen rest
      by (simp add: transmit_loop.simps [of p tx_burst _ _ _ ptrs] word_sub_Ok)
    have mod: "length ?ptrs mod 65536 = length ptrs mod 65536 - unat k"
      using lt by (simp add: mod_diff_small)
    have smaller: "length ?ptrs < length ptrs" "?ptrs \<noteq> []" "length ?ptrs < 2 ^ 32"
      using klen lt less.prems(2) by auto
    obtain j where r: "r = Ok ()" and j: "j \<le> length ?ptrs mod 65536" "sent e' = sent e1 @ take j ?ptrs"
      and d: "(0 < j \<and> j = length ?ptrs mod 65536 \<and> freed e' = freed e1) \<or>
        (j < length ?ptrs \<and> freed e' = freed e1 @ map (Pair (pool_of (?ptrs ! j))) (drop j ?ptrs))"
      using less.hyps [OF smaller(1,2) _ loop] smaller(3) by blast
    have "sent e' = sent e @ take (unat k + j) ptrs" using j(2) pre by (simp add: take_add)
    moreover have "unat k + j \<le> length ptrs mod 65536" using j(1) mod lt by simp
    moreover have "(0 < unat k + j \<and> unat k + j = length ptrs mod 65536 \<and> freed e' = freed e) \<or>
        (unat k + j < length ptrs \<and>
         freed e' = freed e @ map (Pair (pool_of (ptrs ! (unat k + j)))) (drop (unat k + j) ptrs))"
      using d pre mod lt klen by (auto simp: add.commute)
    ultimately show ?thesis using r by blast
  qed
qed

end

text \<open>
  The reference instance: a device with a number of free descriptors, which takes packets
  while it has some.
\<close>

record tx_device =
  tx_free :: nat
  tx_sent :: "ptr list"
  tx_freed :: "(ptr \<times> ptr) list"

definition device_burst :: "u16 \<Rightarrow> u16 \<Rightarrow> ptr list \<Rightarrow> u16 \<Rightarrow> tx_device \<Rightarrow> u16 \<times> tx_device" where
  "device_burst port queue ptrs n d =
     (let k = min (unat n) (tx_free d)
      in (of_nat k, d\<lparr>tx_free := tx_free d - k, tx_sent := tx_sent d @ take k ptrs\<rparr>))"

definition device_put :: "ptr \<Rightarrow> ptr list \<Rightarrow> u32 \<Rightarrow> tx_device \<Rightarrow> tx_device" where
  "device_put pool objs len d = d\<lparr>tx_freed := put_log pool objs len (tx_freed d)\<rparr>"

interpretation device: eth_tx device_put tx_freed device_burst tx_sent
proof unfold_locales
  fix port queue ptrs n d k d'
  assume "device_burst port queue ptrs n d = (k, d')"
  moreover have "min (unat n) (tx_free d) < 65536" using unat_u16_less [of n] by simp
  ultimately show "k \<le> n \<and> tx_sent d' = tx_sent d @ take (unat k) ptrs \<and> tx_freed d' = tx_freed d"
    by (auto simp: device_burst_def Let_def word_le_nat_alt unat_of_nat)
qed (simp_all add: device_put_def put_log_def)

section \<open>The port\<close>

text \<open>The fields of \<open>rte_eth_dev_info\<close> and \<open>rte_eth_conf\<close> that the engine uses.\<close>

record dev_info =
  driver_name :: string
  max_rx_queues :: u16
  max_tx_queues :: u16
  rx_offload_capa :: u64
  tx_offload_capa :: u64
  flow_type_rss_offloads :: u64

record eth_conf =
  rx_mq_mode :: u32
  rss_hf :: u64
  tx_offloads :: u64

definition ETH_RSS_IP :: u32 where
  "ETH_RSS_IP = 41868"

definition ETH_RSS_UDP :: u32 where
  "ETH_RSS_UDP = 133152"

definition ETH_RSS_TCP :: u32 where
  "ETH_RSS_TCP = 66576"

definition ETH_RSS_SCTP :: u32 where
  "ETH_RSS_SCTP = 4160"

definition ETH_MQ_RX_NONE :: u32 where
  "ETH_MQ_RX_NONE = 0"

definition ETH_MQ_RX_RSS :: u32 where
  "ETH_MQ_RX_RSS = 1"

definition DEV_TX_OFFLOAD_MBUF_FAST_FREE :: u32 where
  "DEV_TX_OFFLOAD_MBUF_FAST_FREE = 65536"

definition DEFAULT_RSS_HF :: u64 where
  "DEFAULT_RSS_HF = ucast (((ETH_RSS_IP OR ETH_RSS_TCP) OR ETH_RSS_UDP) OR ETH_RSS_SCTP)"

text \<open>The device functions of DPDK and libnuma.\<close>

record 'e port_ffi =
  rte_eth_dev_socket_id :: "u16 \<Rightarrow> c_int"
  all_sockets :: "socket_id list"
  numa_node :: "c_int \<Rightarrow> c_int"
  rte_eth_dev_get_port_by_name :: "string \<Rightarrow> 'e \<Rightarrow> c_int \<times> u16"
  rte_eth_dev_info_get :: "u16 \<Rightarrow> 'e \<Rightarrow> dev_info"
  rte_eth_dev_adjust_nb_rx_tx_desc :: "u16 \<Rightarrow> u16 \<Rightarrow> u16 \<Rightarrow> 'e \<Rightarrow> c_int \<times> u16 \<times> u16"
  rte_eth_dev_configure :: "u16 \<Rightarrow> u16 \<Rightarrow> u16 \<Rightarrow> eth_conf \<Rightarrow> 'e \<Rightarrow> c_int \<times> 'e"
  rte_eth_rx_queue_setup :: "u16 \<Rightarrow> u16 \<Rightarrow> u16 \<Rightarrow> u32 \<Rightarrow> ptr \<Rightarrow> 'e \<Rightarrow> c_int \<times> 'e"
  rte_eth_tx_queue_setup :: "u16 \<Rightarrow> u16 \<Rightarrow> u16 \<Rightarrow> u32 \<Rightarrow> 'e \<Rightarrow> c_int \<times> 'e"
  rte_eth_allmulticast_enable :: "u16 \<Rightarrow> 'e \<Rightarrow> 'e"
  rte_eth_allmulticast_disable :: "u16 \<Rightarrow> 'e \<Rightarrow> 'e"
  rte_eth_dev_start :: "u16 \<Rightarrow> 'e \<Rightarrow> c_int \<times> 'e"
  rte_eth_promiscuous_enable :: "u16 \<Rightarrow> 'e \<Rightarrow> c_int \<times> 'e"
  rte_eth_dev_stop :: "u16 \<Rightarrow> 'e \<Rightarrow> 'e"
  rte_eth_dev_close :: "u16 \<Rightarrow> 'e \<Rightarrow> 'e"

text \<open>A call with a return code, turned into a result by \<open>to_result(DpdkError::from_errno)?\<close>.\<close>

definition checked_call ::
  "dpdk_errno \<Rightarrow> c_int \<times> 'e \<Rightarrow> ('e \<Rightarrow> 'e \<times> (failure, 'a) outcome) \<Rightarrow> 'e \<times> (failure, 'a) outcome" where
  "checked_call err call k =
     (let (code, e) = call
      in with_ok e (to_result_int code (\<lambda>c. DpdkFailure (dpdk_error_from_errno err c))) (\<lambda>_. k e))"

record port =
  port_self :: port_id
  port_name :: string
  port_device :: string
  queues :: "core_id \<rightharpoonup> port_queue"
  port_dev_info :: dev_info

definition port_mac_addr :: "(u16 \<Rightarrow> octets6 option) \<Rightarrow> port \<Rightarrow> mac_addr" where
  "port_mac_addr macaddr_get self = eth_macaddr_get macaddr_get (port_raw (port_self self))"

definition port_start :: "'e port_ffi \<Rightarrow> dpdk_errno \<Rightarrow> port \<Rightarrow> 'e \<Rightarrow> 'e \<times> (failure, unit) outcome" where
  "port_start ffi err self e =
     checked_call err (rte_eth_dev_start ffi (port_raw (port_self self)) e) (\<lambda>e1.
     checked_call err (rte_eth_promiscuous_enable ffi (port_raw (port_self self)) e1) (\<lambda>e2. (e2, Ok ())))"

definition port_stop :: "'e port_ffi \<Rightarrow> port \<Rightarrow> 'e \<Rightarrow> 'e" where
  "port_stop ffi self e = rte_eth_dev_stop ffi (port_raw (port_self self)) e"

definition port_drop :: "'e port_ffi \<Rightarrow> port \<Rightarrow> 'e \<Rightarrow> 'e" where
  "port_drop ffi self e = rte_eth_dev_close ffi (port_raw (port_self self)) e"

section \<open>The builder\<close>

record port_builder =
  b_name :: string
  b_device :: string
  b_port_id :: port_id
  b_dev_info :: dev_info
  b_cores :: "core_id list"
  b_mempools :: mempool_map
  b_rxd :: u16
  b_txd :: u16

definition port_builder_new ::
  "'e port_ffi \<Rightarrow> dpdk_errno \<Rightarrow> string \<Rightarrow> string \<Rightarrow> 'e \<Rightarrow> (failure, port_builder) outcome" where
  "port_builder_new ffi err name device e =
     and_then (to_cstring device) (\<lambda>cdevice.
       let (code, i) = rte_eth_dev_get_port_by_name ffi cdevice e
       in and_then (to_result_int code (\<lambda>c. DpdkFailure (dpdk_error_from_errno err c))) (\<lambda>_.
            Ok \<lparr>b_name = name, b_device = device, b_port_id = PortId i,
                b_dev_info = rte_eth_dev_info_get ffi i e, b_cores = [core_new 0],
                b_mempools = mempool_map_default, b_rxd = 0, b_txd = 0\<rparr>))"

text \<open>
  \<open>sort\<close> and \<open>dedup\<close> (which removes equal neighbours). The number of cores is cut to 16
  bits before it is compared with the limits of the device.
\<close>

definition builder_cores ::
  "core_id list \<Rightarrow> port_builder \<Rightarrow> port_builder \<times> (failure, unit) outcome" where
  "builder_cores cores b =
     ensure (cores \<noteq> []) (b, Err (PortFailure CoreNotBound)) (
     let cores' = remdups_adj (sort cores);
         len = of_nat (length cores') :: u16
     in ensure (len \<le> max_rx_queues (b_dev_info b))
          (b, Err (PortFailure (InsufficientRxQueues (unat (max_rx_queues (b_dev_info b)))))) (
        ensure (len \<le> max_tx_queues (b_dev_info b))
          (b, Err (PortFailure (InsufficientTxQueues (unat (max_tx_queues (b_dev_info b))))))
          (b\<lparr>b_cores := cores'\<rparr>, Ok ())))"

definition rx_tx_queue_capacity ::
  "'e port_ffi \<Rightarrow> dpdk_errno \<Rightarrow> usize \<Rightarrow> usize \<Rightarrow> 'e \<Rightarrow> port_builder \<Rightarrow>
   port_builder \<times> (failure, unit) outcome" where
  "rx_tx_queue_capacity ffi err rxd txd e b =
     (let (code, rxd2, txd2) =
            rte_eth_dev_adjust_nb_rx_tx_desc ffi (port_raw (b_port_id b)) (of_nat rxd) (of_nat txd) e
      in with_ok b (to_result_int code (\<lambda>c. DpdkFailure (dpdk_error_from_errno err c))) (\<lambda>_.
           (b\<lparr>b_rxd := rxd2, b_txd := txd2\<rparr>, Ok ())))"

definition builder_mempools :: "mempool list \<Rightarrow> port_builder \<Rightarrow> port_builder" where
  "builder_mempools pools b = b\<lparr>b_mempools := mempool_map_new pools\<rparr>"

definition eth_conf_for :: "u16 \<Rightarrow> dev_info \<Rightarrow> eth_conf" where
  "eth_conf_for len info =
     (let conf = \<lparr>rx_mq_mode = ETH_MQ_RX_NONE, rss_hf = 0, tx_offloads = 0\<rparr>;
          conf1 = (if 1 < len
                   then conf\<lparr>rx_mq_mode := ETH_MQ_RX_RSS,
                             rss_hf := DEFAULT_RSS_HF AND flow_type_rss_offloads info\<rparr>
                   else conf)
      in if 0 < (tx_offload_capa info AND ucast DEV_TX_OFFLOAD_MBUF_FAST_FREE)
         then conf1\<lparr>tx_offloads := tx_offloads conf1 OR ucast DEV_TX_OFFLOAD_MBUF_FAST_FREE\<rparr>
         else conf1)"

text \<open>The loop of \<open>finish\<close> over the cores, with the index of the next one.\<close>

fun setup_queues ::
  "'e port_ffi \<Rightarrow> dpdk_errno \<Rightarrow> port_builder \<Rightarrow> socket_id \<Rightarrow> ptr \<Rightarrow> nat \<Rightarrow> core_id list \<Rightarrow>
   (core_id \<rightharpoonup> port_queue) \<Rightarrow> 'e \<Rightarrow> 'e \<times> (failure, core_id \<rightharpoonup> port_queue) outcome" where
  "setup_queues ffi err b sid mempool idx [] qs e = (e, Ok qs)"
| "setup_queues ffi err b sid mempool idx (core # cores) qs e =
     (let rx = RxQueueIndex (of_nat idx);
          tx = TxQueueIndex (of_nat idx);
          pid = port_raw (b_port_id b)
      in checked_call err (rte_eth_rx_queue_setup ffi pid (rxq_raw rx) (b_rxd b) (socket_raw sid) mempool e) (\<lambda>e1.
         checked_call err (rte_eth_tx_queue_setup ffi pid (txq_raw tx) (b_txd b) (socket_raw sid) e1) (\<lambda>e2.
           setup_queues ffi err b sid mempool (Suc idx) cores
             (qs(core \<mapsto> port_queue_new (b_port_id b) rx tx)) e2)))"

definition port_or_core_socket :: "'e port_ffi \<Rightarrow> port_builder \<Rightarrow> (failure, socket_id) outcome" where
  "port_or_core_socket ffi b =
     (case port_socket_id (rte_eth_dev_socket_id ffi) (all_sockets ffi) (b_port_id b) of
        Some sid \<Rightarrow> Ok sid
      | None \<Rightarrow> (case b_cores b of
                   [] \<Rightarrow> Panic IndexOutOfBounds
                 | core # _ \<Rightarrow> Ok (core_socket_id (numa_node ffi) core)))"

definition builder_finish ::
  "'e port_ffi \<Rightarrow> dpdk_errno \<Rightarrow> bool \<Rightarrow> port_builder \<Rightarrow> 'e \<Rightarrow> 'e \<times> (failure, port) outcome" where
  "builder_finish ffi err multicast b e =
     (let len = of_nat (length (b_cores b)) :: u16;
          pid = port_raw (b_port_id b)
      in checked_call err (rte_eth_dev_configure ffi pid len len (eth_conf_for len (b_dev_info b)) e) (\<lambda>e1.
         with_ok e1 (port_or_core_socket ffi b) (\<lambda>sid.
         with_ok e1 (get_raw (b_mempools b) sid) (\<lambda>mempool.
         case setup_queues ffi err b sid mempool 0 (b_cores b) Map.empty e1 of
           (e2, r) \<Rightarrow> with_ok e2 r (\<lambda>qs.
             let e3 = (if multicast then rte_eth_allmulticast_enable ffi pid e2
                       else rte_eth_allmulticast_disable ffi pid e2)
             in (e3, Ok \<lparr>port_self = b_port_id b, port_name = b_name b, port_device = b_device b,
                         queues = qs, port_dev_info = b_dev_info b\<rparr>))))))"

section \<open>Lemmas on the builder\<close>

text \<open>
  The calls for one queue pair: \<open>queue_pair_set_up\<close> if both report success, with the state of the
  device before and after, \<open>queue_pair_fails\<close> with the code of the one that does not, after
  which nothing more is called. \<open>queue_pairs_set_up\<close> is \<open>n\<close> pairs in a row.
\<close>

definition queue_pair_set_up ::
  "'e port_ffi \<Rightarrow> port_builder \<Rightarrow> socket_id \<Rightarrow> ptr \<Rightarrow> nat \<Rightarrow> 'e \<Rightarrow> 'e \<Rightarrow> bool" where
  "queue_pair_set_up ffi b sid pool i e e' \<longleftrightarrow>
     (case rte_eth_rx_queue_setup ffi (port_raw (b_port_id b)) (of_nat i) (b_rxd b) (socket_raw sid) pool e of
        (rx, e1) \<Rightarrow> 0 \<le> sint rx \<and>
     (case rte_eth_tx_queue_setup ffi (port_raw (b_port_id b)) (of_nat i) (b_txd b) (socket_raw sid) e1 of
        (tx, e2) \<Rightarrow> 0 \<le> sint tx \<and> e' = e2))"

definition queue_pair_fails ::
  "'e port_ffi \<Rightarrow> port_builder \<Rightarrow> socket_id \<Rightarrow> ptr \<Rightarrow> nat \<Rightarrow> 'e \<Rightarrow> c_int \<Rightarrow> 'e \<Rightarrow> bool" where
  "queue_pair_fails ffi b sid pool i e code e' \<longleftrightarrow> sint code < 0 \<and>
     (case rte_eth_rx_queue_setup ffi (port_raw (b_port_id b)) (of_nat i) (b_rxd b) (socket_raw sid) pool e of
        (rx, e1) \<Rightarrow>
          if sint rx < 0 then code = rx \<and> e' = e1
          else rte_eth_tx_queue_setup ffi (port_raw (b_port_id b)) (of_nat i) (b_txd b) (socket_raw sid) e1 = (code, e'))"

fun queue_pairs_set_up ::
  "'e port_ffi \<Rightarrow> port_builder \<Rightarrow> socket_id \<Rightarrow> ptr \<Rightarrow> nat \<Rightarrow> nat \<Rightarrow> 'e \<Rightarrow> 'e \<Rightarrow> bool" where
  "queue_pairs_set_up ffi b sid pool i 0 e e' \<longleftrightarrow> e' = e"
| "queue_pairs_set_up ffi b sid pool i (Suc n) e e' \<longleftrightarrow>
     (\<exists>m. queue_pair_set_up ffi b sid pool i e m \<and> queue_pairs_set_up ffi b sid pool (Suc i) n m e')"

lemma checked_call_cases:
  "checked_call err (code, e) k =
     (if sint code < 0 then (e, Err (DpdkFailure (dpdk_error_from_errno err code))) else k e)"
  by (simp add: checked_call_def to_result_int_def)

lemma checked_call_Ok:
  "checked_call err call k = (e', Ok x) \<Longrightarrow> 0 \<le> sint (fst call) \<and> k (snd call) = (e', Ok x)"
  by (cases call) (auto simp: checked_call_def to_result_int_def split: if_splits)

definition queue_of :: "port_id \<Rightarrow> nat \<Rightarrow> port_queue" where
  "queue_of pid i = port_queue_new pid (RxQueueIndex (of_nat i)) (TxQueueIndex (of_nat i))"

lemma setup_queues_Ok:
  assumes "setup_queues ffi err b sid mempool idx cores qs e = (e', Ok qs')" "distinct cores"
  shows "qs' = qs ++ map_of (zip cores (map (queue_of (b_port_id b)) [idx..<idx + length cores]))"
  using assms
proof (induction cores arbitrary: idx qs e)
  case (Cons core cores)
  let ?q = "queue_of (b_port_id b) idx"
  obtain e2 where r: "setup_queues ffi err b sid mempool (Suc idx) cores (qs(core \<mapsto> ?q)) e2 = (e', Ok qs')"
    using Cons.prems(1) by (auto simp: Let_def queue_of_def dest!: checked_call_Ok)
  have "qs' = qs(core \<mapsto> ?q) ++
      map_of (zip cores (map (queue_of (b_port_id b)) [Suc idx..<Suc idx + length cores]))"
    by (rule Cons.IH [OF r]) (use Cons.prems(2) in simp)
  moreover have "core \<notin> dom (map_of (zip cores ys))" for ys :: "port_queue list"
    using Cons.prems(2) by (auto dest!: map_of_SomeD set_zip_leftD)
  moreover have "[idx..<idx + length (core # cores)] = idx # [Suc idx..<Suc idx + length cores]"
    by (simp add: upt_conv_Cons del: upt_Suc)
  ultimately show ?case
    by (simp only: list.map zip_Cons_Cons map_of.simps fst_conv snd_conv map_add_upd map_add_upd_left
        not_False_eq_True)
qed simp

lemma queues_of_cores:
  assumes "setup_queues ffi err b sid pool 0 cores Map.empty e = (e', Ok qs)" "distinct cores"
    and "length cores < 65536"
  shows "dom qs = set cores"
    and "\<forall>i < length cores. qs (cores ! i) =
      Some \<lparr>queue_port = b_port_id b, rxq = RxQueueIndex (of_nat i), txq = TxQueueIndex (of_nat i)\<rparr>"
    and "inj_on qs (set cores)"
proof -
  have qs: "qs = map_of (zip cores (map (queue_of (b_port_id b)) [0..<length cores]))"
    using setup_queues_Ok [OF assms(1,2)] by simp
  then show "dom qs = set cores" by simp
  have at: "qs (cores ! i) = Some (queue_of (b_port_id b) i)" if "i < length cores" for i
    using that assms(2) by (simp add: qs map_of_zip_nth)
  then show "\<forall>i < length cores. qs (cores ! i) =
      Some \<lparr>queue_port = b_port_id b, rxq = RxQueueIndex (of_nat i), txq = TxQueueIndex (of_nat i)\<rparr>"
    by (simp add: queue_of_def port_queue_new_def)
  show "inj_on qs (set cores)"
  proof (rule inj_onI)
    fix x y assume "x \<in> set cores" "y \<in> set cores" "qs x = qs y"
    then obtain i j where ij: "i < length cores" "j < length cores" "x = cores ! i" "y = cores ! j"
      by (metis in_set_conv_nth)
    with \<open>qs x = qs y\<close> at have "(of_nat i :: u16) = of_nat j" by (simp add: queue_of_def port_queue_new_def)
    then have "i = j" using ij assms(3) by (simp add: of_nat_eq_iff word_of_nat_eq_iff take_bit_nat_eq_self)
    with ij show "x = y" by simp
  qed
qed

lemma setup_queues_outcome:
  assumes "setup_queues ffi err b sid pool idx cores qs e = (e', r)"
  shows "(\<exists>qs'. r = Ok qs' \<and> queue_pairs_set_up ffi b sid pool idx (length cores) e e') \<or>
    (\<exists>k < length cores. \<exists>m code. queue_pairs_set_up ffi b sid pool idx k e m \<and>
       queue_pair_fails ffi b sid pool (idx + k) m code e' \<and>
       r = Err (DpdkFailure (dpdk_error_from_errno err code)))"
  using assms
proof (induction cores arbitrary: idx qs e)
  case (Cons core cores)
  obtain rx e1 where rx: "rte_eth_rx_queue_setup ffi (port_raw (b_port_id b)) (of_nat idx) (b_rxd b)
      (socket_raw sid) pool e = (rx, e1)" by fastforce
  obtain tx e2 where tx: "rte_eth_tx_queue_setup ffi (port_raw (b_port_id b)) (of_nat idx) (b_txd b)
      (socket_raw sid) e1 = (tx, e2)" by fastforce
  show ?case
  proof (cases "sint rx < 0 \<or> sint tx < 0")
    case True
    then have "queue_pair_fails ffi b sid pool idx e (if sint rx < 0 then rx else tx) e' \<and>
        r = Err (DpdkFailure (dpdk_error_from_errno err (if sint rx < 0 then rx else tx)))"
      using Cons.prems rx tx by (auto simp: queue_pair_fails_def checked_call_cases Let_def split: if_splits)
    then show ?thesis by (intro disjI2 exI [of _ 0]) auto
  next
    case False
    then have pair: "queue_pair_set_up ffi b sid pool idx e e2" using rx tx by (simp add: queue_pair_set_up_def)
    have "setup_queues ffi err b sid pool (Suc idx) cores
        (qs(core \<mapsto> port_queue_new (b_port_id b) (RxQueueIndex (of_nat idx)) (TxQueueIndex (of_nat idx)))) e2 = (e', r)"
      using Cons.prems rx tx False by (simp add: checked_call_cases Let_def)
    from Cons.IH [OF this] show ?thesis
    proof (elim disjE exE conjE)
      fix qs' assume "r = Ok qs'" "queue_pairs_set_up ffi b sid pool (Suc idx) (length cores) e2 e'"
      with pair show ?thesis by auto
    next
      fix k m code
      assume "k < length cores" "queue_pairs_set_up ffi b sid pool (Suc idx) k e2 m"
        "queue_pair_fails ffi b sid pool (Suc idx + k) m code e'"
        "r = Err (DpdkFailure (dpdk_error_from_errno err code))"
      with pair show ?thesis by (intro disjI2 exI [of _ "Suc k"]) auto
    qed
  qed
qed auto

section \<open>Properties\<close>

text \<open>
  C23: \<open>PortQueue::transmit\<close> of up to 65535 packets, under DPDK's contract: with none it
  panics. Otherwise it returns, a prefix of the packets has been sent and every other one
  has been freed (into the pool of the first packet that is freed), so each packet is sent
  or freed exactly once and none is leaked.
\<close>

theorem transmit_each_once:
  assumes "eth_tx put_bulk freed tx_burst sent" "length packets < 65536"
  shows "case transmit p tx_burst pool_of put_bulk q packets e of (e', r) \<Rightarrow>
    if packets = [] then r = Panic AssertionFailed \<and> sent e' = sent e \<and> freed e' = freed e
    else r = Ok () \<and>
      (\<exists>s f pool. map into_ptr packets = s @ f \<and> sent e' = sent e @ s \<and>
         freed e' = freed e @ map (Pair pool) f \<and> (f = [] \<or> pool = pool_of (hd f)))"
proof (cases "packets = []")
  case True
  obtain k e1 where b: "tx_burst (port_raw (queue_port q)) (txq_raw (txq q)) [] 0 e = (k, e1)" by fastforce
  from eth_tx.burst_prefix [OF assms(1) b] True b show ?thesis
    by (auto simp: transmit_def transmit_loop.simps [of p tx_burst] mbuf_free_bulk_def)
next
  case False
  let ?ptrs = "map into_ptr packets"
  obtain e' r where t: "transmit_loop p tx_burst pool_of put_bulk q ?ptrs e = (e', r)" by fastforce
  obtain k where r: "r = Ok ()" and k: "k \<le> length ?ptrs" "sent e' = sent e @ take k ?ptrs"
    and d: "(k = length ?ptrs \<and> freed e' = freed e) \<or>
      (k < length ?ptrs \<and> freed e' = freed e @ map (Pair (pool_of (?ptrs ! k))) (drop k ?ptrs))"
    using eth_tx.transmit_loop_outcome [OF assms(1) _ _ t] False assms(2) by auto
  have "freed e' = freed e @ map (Pair (pool_of (?ptrs ! k))) (drop k ?ptrs) \<and>
      (drop k ?ptrs = [] \<or> pool_of (?ptrs ! k) = pool_of (hd (drop k ?ptrs)))"
    using d by (auto simp: hd_drop_conv_nth)
  then have "\<exists>s f pool. ?ptrs = s @ f \<and> sent e' = sent e @ s \<and>
      freed e' = freed e @ map (Pair pool) f \<and> (f = [] \<or> pool = pool_of (hd f))"
    using k(2) append_take_drop_id [of k ?ptrs] by metis
  then show ?thesis using t r False by (simp add: transmit_def)
qed

definition sample_queue :: port_queue where
  "sample_queue = port_queue_new (PortId 0) (RxQueueIndex 0) (TxQueueIndex 0)"

definition sample_device :: tx_device where
  "sample_device = \<lparr>tx_free = 2, tx_sent = [], tx_freed = []\<rparr>"

theorem transmit_each_once_witness:
  "snd (transmit Dev device_burst (\<lambda>m. 9) device_put sample_queue (map mbuf_from_ptr [4, 5, 6]) sample_device) = Ok ()
   \<and> snd (transmit Dev device_burst (\<lambda>m. 9) device_put sample_queue [] sample_device) = Panic AssertionFailed"
  using transmit_each_once [OF device.eth_tx_axioms, where packets = "map mbuf_from_ptr [4, 5, 6]"
      and p = Dev and pool_of = "\<lambda>m. 9" and q = sample_queue and e = sample_device]
    transmit_each_once [OF device.eth_tx_axioms, where packets = "[]"
      and p = Dev and pool_of = "\<lambda>m. 9" and q = sample_queue and e = sample_device]
  by (auto split: prod.splits)

text \<open>
  A vector of 65536 packets or more: its length is cut to 16 bits, so at most
  \<open>n mod 65536\<close> of the \<open>n\<close> packets are sent. Either all the others are freed, or the
  call returns after the offered packets have been sent and the last
  \<open>n - n mod 65536\<close> packets are neither sent nor freed.
\<close>

lemma transmit_truncates:
  assumes "eth_tx put_bulk freed tx_burst sent" "65536 \<le> length packets" "length packets < 2 ^ 32"
  shows "case transmit p tx_burst pool_of put_bulk q packets e of (e', r) \<Rightarrow>
    r = Ok () \<and>
    (\<exists>k \<le> length packets mod 65536. sent e' = sent e @ take k (map into_ptr packets) \<and>
      ((0 < k \<and> k = length packets mod 65536 \<and> freed e' = freed e) \<or>
       map snd (freed e') = map snd (freed e) @ drop k (map into_ptr packets)))"
proof -
  let ?ptrs = "map into_ptr packets"
  obtain e' r where t: "transmit_loop p tx_burst pool_of put_bulk q ?ptrs e = (e', r)" by fastforce
  have "?ptrs \<noteq> []" using assms(2) by auto
  from eth_tx.transmit_loop_outcome [OF assms(1) this _ t] assms(3)
  obtain k where r: "r = Ok ()" and k: "k \<le> length packets mod 65536" "sent e' = sent e @ take k ?ptrs"
    and d: "(0 < k \<and> k = length packets mod 65536 \<and> freed e' = freed e) \<or>
      freed e' = freed e @ map (Pair (pool_of (?ptrs ! k))) (drop k ?ptrs)"
    by auto
  from d have "(0 < k \<and> k = length packets mod 65536 \<and> freed e' = freed e) \<or>
      map snd (freed e') = map snd (freed e) @ drop k ?ptrs"
    by (auto simp: comp_def)
  with t r k show ?thesis by (auto simp: transmit_def)
qed

text \<open>
  \<open>PortBuilder::cores\<close>, for fewer than 65536 different cores: no core at all is
  rejected, then a number of different cores above the device's limit of receive queues,
  then above the limit of transmit queues, and the builder is unchanged. Otherwise the
  builder gets the cores in increasing order, each once.
\<close>

lemma builder_cores_spec:
  assumes "card (set cores) < 65536"
  shows "builder_cores cores b =
    (let n = card (set cores); rx = unat (max_rx_queues (b_dev_info b)); tx = unat (max_tx_queues (b_dev_info b))
     in if cores = [] then (b, Err (PortFailure CoreNotBound))
        else if rx < n then (b, Err (PortFailure (InsufficientRxQueues rx)))
        else if tx < n then (b, Err (PortFailure (InsufficientTxQueues tx)))
        else (b\<lparr>b_cores := sorted_list_of_set (set cores)\<rparr>, Ok ()))"
  using assms
  by (auto simp: builder_cores_def sort_dedup_set Let_def word_le_nat_alt unat_of_nat not_le)

definition sample_builder :: port_builder where
  "sample_builder =
     \<lparr>b_name = ''eth0'', b_device = ''net_null0'', b_port_id = PortId 3,
      b_dev_info = \<lparr>driver_name = ''null'', max_rx_queues = 2, max_tx_queues = 2, rx_offload_capa = 0,
        tx_offload_capa = 0, flow_type_rss_offloads = 0\<rparr>,
      b_cores = [CoreId 1, CoreId 2],
      b_mempools = [SocketId 0 \<mapsto> \<lparr>mempool_ptr = 77, mempool_raw = \<lparr>pool_name = ''p'', pool_size = 1,
        pool_cache_size = 0, pool_flags = 0, pool_socket_id = 0\<rparr>\<rparr>],
      b_rxd = 128, b_txd = 128\<rparr>"

lemma builder_cores_spec_witness:
  "snd (builder_cores [CoreId 2, CoreId 1, CoreId 2] sample_builder) = Ok ()
   \<and> snd (builder_cores [CoreId 2, CoreId 1, CoreId 3] sample_builder) = Err (PortFailure (InsufficientRxQueues 2))"
  using builder_cores_spec [of "[CoreId 2, CoreId 1, CoreId 2]" sample_builder]
    builder_cores_spec [of "[CoreId 2, CoreId 1, CoreId 3]" sample_builder]
  by (simp add: card_insert_if sample_builder_def)

text \<open>
  C25: \<open>PortBuilder::finish\<close> on every branch, for a device whose calls may fail and the cores that
  \<open>PortBuilder::cores\<close> stores: at least one, none twice, fewer than 65536. If the configuration fails, its code is the error. Otherwise the port's socket (or for a virtual
  device that of its first core) needs a memory pool, else the error is \<open>NotFound\<close>. Then either
  the queue pairs of all cores have been set up, in their order and with their position as index, and the
  port is built: every one of its cores, and nothing else, owns the pair of its position, and different
  cores own different pairs. Or some pair failed after all earlier ones were set up: then no
  later one is asked for, the error is the code of the failing call, and what was set up stays so.
\<close>

theorem builder_finish_spec:
  assumes "b_cores b \<noteq> []" "distinct (b_cores b)" "length (b_cores b) < 65536"
  shows "case builder_finish ffi err multicast b e of (e', r) \<Rightarrow>
    (let pid = port_raw (b_port_id b); n = length (b_cores b) in
     case rte_eth_dev_configure ffi pid (of_nat n) (of_nat n) (eth_conf_for (of_nat n) (b_dev_info b)) e of
       (code, e1) \<Rightarrow>
         if sint code < 0 then e' = e1 \<and> r = Err (DpdkFailure (dpdk_error_from_errno err code))
         else \<exists>sid. port_or_core_socket ffi b = Ok sid \<and>
           (case b_mempools b sid of
              None \<Rightarrow> e' = e1 \<and> r = Err (MempoolFailure (NotFound sid))
            | Some pool \<Rightarrow>
                (\<exists>e2 port. queue_pairs_set_up ffi b sid (mempool_ptr pool) 0 n e1 e2 \<and> r = Ok port \<and>
                   e' = (if multicast then rte_eth_allmulticast_enable ffi pid e2
                         else rte_eth_allmulticast_disable ffi pid e2) \<and>
                   port_self port = b_port_id b \<and> port_name port = b_name b \<and>
                   dom (queues port) = set (b_cores b) \<and>
                   (\<forall>i < n. queues port (b_cores b ! i) =
                      Some \<lparr>queue_port = b_port_id b, rxq = RxQueueIndex (of_nat i), txq = TxQueueIndex (of_nat i)\<rparr>) \<and>
                   inj_on (queues port) (set (b_cores b)))
                \<or> (\<exists>k < n. \<exists>m failed. queue_pairs_set_up ffi b sid (mempool_ptr pool) 0 k e1 m \<and>
                   queue_pair_fails ffi b sid (mempool_ptr pool) k m failed e' \<and>
                   r = Err (DpdkFailure (dpdk_error_from_errno err failed)))))"
proof -
  let ?cs = "b_cores b" and ?pid = "port_raw (b_port_id b)"
  have "\<exists>sid. port_or_core_socket ffi b = Ok sid"
    using assms(1) by (auto simp: port_or_core_socket_def split: option.splits list.splits)
  then obtain sid where sid: "port_or_core_socket ffi b = Ok sid" by blast
  obtain code e1 where conf: "rte_eth_dev_configure ffi ?pid (of_nat (length ?cs)) (of_nat (length ?cs))
      (eth_conf_for (of_nat (length ?cs)) (b_dev_info b)) e = (code, e1)" by fastforce
  note finish = builder_finish_def Let_def conf checked_call_cases sid get_raw_def
  show ?thesis
  proof (cases "sint code < 0 \<or> b_mempools b sid = None")
    case True
    then show ?thesis by (auto simp: finish)
  next
    case False
    then obtain pool where pool: "b_mempools b sid = Some pool" and code: "\<not> sint code < 0" by auto
    obtain e2 r where q: "setup_queues ffi err b sid (mempool_ptr pool) 0 ?cs Map.empty e1 = (e2, r)" by fastforce
    from setup_queues_outcome [OF q] show ?thesis
    proof (elim disjE exE conjE)
      fix qs assume r: "r = Ok qs" and up: "queue_pairs_set_up ffi b sid (mempool_ptr pool) 0 (length ?cs) e1 e2"
      note own = queues_of_cores [OF q [unfolded r] assms(2,3)]
      with up pool code show ?thesis by (auto simp: finish q r)
    next
      fix k m failed
      assume "k < length ?cs" "queue_pairs_set_up ffi b sid (mempool_ptr pool) 0 k e1 m"
        "queue_pair_fails ffi b sid (mempool_ptr pool) (0 + k) m failed e2"
        "r = Err (DpdkFailure (dpdk_error_from_errno err failed))"
      with pool code show ?thesis by (auto simp: finish q)
    qed
  qed
qed

definition sample_ffi :: "unit port_ffi" where
  "sample_ffi =
     \<lparr>rte_eth_dev_socket_id = (\<lambda>_. - 1), all_sockets = [SocketId 0], numa_node = (\<lambda>_. 0),
      rte_eth_dev_get_port_by_name = (\<lambda>_ _. (0, 3)), rte_eth_dev_info_get = (\<lambda>_ _. b_dev_info sample_builder),
      rte_eth_dev_adjust_nb_rx_tx_desc = (\<lambda>_ r t _. (0, r, t)),
      rte_eth_dev_configure = (\<lambda>_ _ _ _ e. (0, e)), rte_eth_rx_queue_setup = (\<lambda>_ _ _ _ _ e. (0, e)),
      rte_eth_tx_queue_setup = (\<lambda>_ _ _ _ e. (0, e)), rte_eth_allmulticast_enable = (\<lambda>_ e. e),
      rte_eth_allmulticast_disable = (\<lambda>_ e. e), rte_eth_dev_start = (\<lambda>_ e. (0, e)),
      rte_eth_promiscuous_enable = (\<lambda>_ e. (0, e)), rte_eth_dev_stop = (\<lambda>_ e. e), rte_eth_dev_close = (\<lambda>_ e. e)\<rparr>"

text \<open>The sample device gives a port with two queue pairs; if its transmit queues fail, the error.\<close>

theorem builder_finish_spec_witness:
  "(\<exists>port. snd (builder_finish sample_ffi sample_errno True sample_builder ()) = Ok port
      \<and> dom (queues port) = {CoreId 1, CoreId 2})
   \<and> snd (builder_finish (sample_ffi\<lparr>rte_eth_tx_queue_setup := (\<lambda>_ _ _ _ e. (- 22, e))\<rparr>) sample_errno True
        sample_builder ()) = Err (DpdkFailure (dpdk_error_from_errno sample_errno (- 22)))"
proof -
  let ?broken = "sample_ffi\<lparr>rte_eth_tx_queue_setup := (\<lambda>_ _ _ _ e. (- 22, e))\<rparr>"
  have sid: "port_or_core_socket sample_ffi sample_builder = Ok (SocketId 0)"
    "port_or_core_socket ?broken sample_builder = Ok (SocketId 0)"
    by (simp_all add: port_or_core_socket_def port_socket_id_def core_socket_id_def sample_ffi_def sample_builder_def)
  have cores: "b_cores sample_builder \<noteq> []" "distinct (b_cores sample_builder)" "length (b_cores sample_builder) < 65536"
    by (simp_all add: sample_builder_def)
  have pool: "b_mempools sample_builder (SocketId 0) \<noteq> None" "set (b_cores sample_builder) = {CoreId 1, CoreId 2}"
    "length (b_cores sample_builder) = 2"
    by (simp_all add: sample_builder_def)
  have code: "sint (- 22 :: c_int) = - 22" by simp
  have good: "\<not> queue_pair_fails sample_ffi sample_builder sid p k m code e" for sid p k m code e
    by (auto simp: queue_pair_fails_def sample_ffi_def)
  have bad: "\<not> queue_pair_set_up ?broken sample_builder sid p k m e"
    "queue_pair_fails ?broken sample_builder sid p k m c e \<longleftrightarrow> c = - 22" for sid p k m e c
    by (auto simp: queue_pair_set_up_def queue_pair_fails_def sample_ffi_def code)
  have conf: "rte_eth_dev_configure sample_ffi p a c conf e = (0, e)"
    "rte_eth_dev_configure ?broken p a c conf e = (0, e)" for p a c conf e
    by (simp_all add: sample_ffi_def)
  show ?thesis
    using builder_finish_spec [OF cores, where ffi = sample_ffi and err = sample_errno and multicast = True and e = "()"]
      builder_finish_spec [OF cores, where ffi = ?broken and err = sample_errno and multicast = True and e = "()"] pool
    by (auto simp: sid good bad conf numeral_2_eq_2 Let_def split: prod.splits option.splits)
qed

end
