(* ===== verification/Engine.thy ===== *)
theory Engine
  imports Mem_Ring
begin

text \<open>
  The control plane of the engine, \<open>engine/src/runtime/engine.rs\<close>: the registration of
  container clients over a message socket, their status and their rings. The message
  socket (\<open>zmq\<close>), the JSON parser (\<open>serde_json\<close>) and the hash maps are arguments.

  The invariant of the component says which rings exist: exactly the two of each registered
  client; \<open>client_step\<close> is the step relation of the client messages under which it is
  preserved.
\<close>

section \<open>State\<close>

datatype client_status = STARTING | READY

record ('sm, 'rm) engine =
  statusmap :: 'sm
  ringmap :: "'rm engine_ring_map"
  new_msg :: "(u16 \<times> u64) option"

definition PACKET_READ_SIZE :: usize where
  "PACKET_READ_SIZE = 32"

definition SOCKET :: string where
  "SOCKET = ''tcp://localhost:5555''"

text \<open>
  The socket: every operation gives an error text or a result, and the new state. \<open>poll\<close>
  returns the number of signalled items.
\<close>

record 's zmq_ffi =
  zmq_socket :: "'s \<Rightarrow> (string + unit) \<times> 's"
  zmq_connect :: "string \<Rightarrow> 's \<Rightarrow> (string + unit) \<times> 's"
  zmq_poll :: "nat \<Rightarrow> 's \<Rightarrow> (string + int) \<times> 's"
  zmq_recv :: "'s \<Rightarrow> (string + string) \<times> 's"
  zmq_send :: "string \<Rightarrow> 's \<Rightarrow> (string + unit) \<times> 's"

text \<open>
  The JSON values of \<open>serde_json\<close>: the parser and \<open>value[key].as_u64()\<close>.
\<close>

record 'j json_ffi =
  json_parse :: "string \<Rightarrow> string + 'j"
  json_u64 :: "'j \<Rightarrow> string \<Rightarrow> u64 option"

section \<open>Operations\<close>

definition engine_new ::
  "(u16, client_status, 'sm) chashmap_ops \<Rightarrow> (u16, channel, 'rm) chashmap_ops \<Rightarrow> 's zmq_ffi \<Rightarrow>
   's \<Rightarrow> 's \<times> (string, ('sm, 'rm) engine) outcome" where
  "engine_new sops rops zmq s =
     (case zmq_socket zmq s of
        (Inl e, s1) \<Rightarrow> (s1, Err e)
      | (Inr _, s1) \<Rightarrow>
          (case zmq_connect zmq SOCKET s1 of
             (Inl e, s2) \<Rightarrow> (s2, Err e)
           | (Inr _, s2) \<Rightarrow>
               (s2, Ok \<lparr>statusmap = cm_new sops, ringmap = engine_ring_map_new rops, new_msg = None\<rparr>)))"

text \<open>The part of \<open>get_msg\<close> that decodes a received message; ids are cut to 16 bits.\<close>

definition decode_msg :: "'j json_ffi \<Rightarrow> string \<Rightarrow> (failure, u16 \<times> u64) outcome" where
  "decode_msg json bytes =
     (if is_utf8 bytes
      then case json_parse json bytes of
             Inl e \<Rightarrow> Err (JsonFailure e)
           | Inr data \<Rightarrow>
               (case json_u64 json data ''id'' of
                  None \<Rightarrow> Err (FormatErr ''Unknown ID Format'')
                | Some i \<Rightarrow>
                    (case json_u64 json data ''msg'' of
                       None \<Rightarrow> Err (FormatErr ''Unknown Container Message'')
                     | Some m \<Rightarrow> Ok (ucast i, m)))
      else Err (FormatErr ''Unknown Message Format''))"

definition get_msg ::
  "'s zmq_ffi \<Rightarrow> 'j json_ffi \<Rightarrow> ('sm, 'rm) engine \<Rightarrow> 's \<Rightarrow>
   (('sm, 'rm) engine \<times> 's) \<times> (failure, unit) outcome" where
  "get_msg zmq json eng s =
     (case zmq_poll zmq 2 s of
        (Inl e, s1) \<Rightarrow> ((eng, s1), Err (FormatErr e))
      | (Inr n, s1) \<Rightarrow>
          if n = 1
          then case zmq_recv zmq s1 of
                 (Inl e, s2) \<Rightarrow> ((eng, s2), Err (ZmqFailure e))
               | (Inr bytes, s2) \<Rightarrow>
                   with_ok (eng, s2) (decode_msg json bytes) (\<lambda>im.
                     ((eng\<lparr>new_msg := Some im\<rparr>, s2), Ok ()))
          else ((eng, s1), Ok ()))"

text \<open>
  A value that is dropped if the rest of its scope fails; \<open>k\<close> is the rest.
\<close>

fun or_drop :: "('s \<Rightarrow> 's) \<Rightarrow> 's \<times> (failure, 'a) outcome \<Rightarrow> ('a \<Rightarrow> 's \<Rightarrow> 'b \<times> 's \<times> (failure, unit) outcome) \<Rightarrow>
   'b \<Rightarrow> 'b \<times> 's \<times> (failure, unit) outcome" where
  "or_drop d (s, Ok x) k b = k x s"
| "or_drop d (s, Err e) k b = (b, d s, Err e)"
| "or_drop d (s, Panic e) k b = (b, d s, Panic e)"
| "or_drop d (s, UB) k b = (b, s, UB)"

definition optional_drop :: "'s ring_ffi \<Rightarrow> channel option \<Rightarrow> 's \<Rightarrow> 's" where
  "optional_drop ffi old s = (case old of None \<Rightarrow> s | Some ch \<Rightarrow> channel_drop ffi ch s)"

text \<open>\<open>self.socket.send(..)?\<close>\<close>

definition send_reply :: "'s zmq_ffi \<Rightarrow> string \<Rightarrow> 's \<Rightarrow> 's \<times> (failure, unit) outcome" where
  "send_reply zmq text s =
     (case zmq_send zmq text s of (Inl e, s') \<Rightarrow> (s', Err (ZmqFailure e)) | (Inr _, s') \<Rightarrow> (s', Ok ()))"

text \<open>
  Message 0 registers a client: two rings are created, the client gets an answer, and the
  channel and the status are stored. Locals are dropped in reverse order on an early
  return; a channel that was stored under the same id is dropped by \<open>insert\<close>.
\<close>

definition register_client ::
  "(u16, client_status, 'sm) chashmap_ops \<Rightarrow> (u16, channel, 'rm) chashmap_ops \<Rightarrow> 's ring_ffi \<Rightarrow>
   's zmq_ffi \<Rightarrow> dpdk_errno \<Rightarrow> (u32) \<Rightarrow> u16 \<Rightarrow> ('sm, 'rm) engine \<Rightarrow> 's \<Rightarrow>
   ('sm, 'rm) engine \<times> 's \<times> (failure, unit) outcome" where
  "register_client sops rops ffi zmq err current i eng s =
     or_drop (\<lambda>s. s)
       (ring_new ffi err i RX (''RX-'' @ dec_string (unat i)) PACKET_READ_SIZE (socket_current current) s)
       (\<lambda>rx s1. or_drop (ring_drop ffi rx)
         (ring_new ffi err i TX (''TX-'' @ dec_string (unat i)) PACKET_READ_SIZE (socket_current current) s1)
         (\<lambda>tx s2. or_drop (\<lambda>s. ring_drop ffi rx (ring_drop ffi tx s)) (send_reply zmq ''1'' s2)
           (\<lambda>_ s3.
             let (old, rm') = cm_insert rops i \<lparr>tx_q = tx, rx_q = rx\<rparr> (ring_map (ringmap eng));
                 s4 = optional_drop ffi old s3;
                 (_, sm') = cm_insert sops i STARTING (statusmap eng)
             in (eng\<lparr>statusmap := sm', ringmap := (ringmap eng)\<lparr>ring_map := rm'\<rparr>\<rparr>, s4, Ok ()))
           eng)
         eng)
       eng"

text \<open>Message 1; a write through the guard of \<open>get_mut\<close> replaces the stored status.\<close>

definition ready_client ::
  "(u16, client_status, 'sm) chashmap_ops \<Rightarrow> u16 \<Rightarrow> ('sm, 'rm) engine \<Rightarrow> 's \<Rightarrow>
   ('sm, 'rm) engine \<times> 's \<times> (failure, unit) outcome" where
  "ready_client sops i eng s =
     (case cm_get sops (statusmap eng) i of
        None \<Rightarrow> (eng, s, Err (FormatErr ''Failed to get client''))
      | Some _ \<Rightarrow> (eng\<lparr>statusmap := snd (cm_insert sops i READY (statusmap eng))\<rparr>, s, Ok ()))"

definition remove_client ::
  "(u16, client_status, 'sm) chashmap_ops \<Rightarrow> (u16, channel, 'rm) chashmap_ops \<Rightarrow> 's ring_ffi \<Rightarrow>
   u16 \<Rightarrow> ('sm, 'rm) engine \<Rightarrow> 's \<Rightarrow> ('sm, 'rm) engine \<times> 's \<times> (failure, unit) outcome" where
  "remove_client sops rops ffi i eng s =
     (case cm_remove sops i (statusmap eng) of
        (None, sm') \<Rightarrow> (eng\<lparr>statusmap := sm'\<rparr>, s, Err (FormatErr ''Failed to remove client''))
      | (Some _, sm') \<Rightarrow>
          (let eng1 = eng\<lparr>statusmap := sm'\<rparr>;
               (old, rm') = cm_remove rops i (ring_map (ringmap eng1));
               eng2 = eng1\<lparr>ringmap := (ringmap eng1)\<lparr>ring_map := rm'\<rparr>\<rparr>
           in case old of
                None \<Rightarrow> (eng2, s, Err (FormatErr ''Failed to remove client''))
              | Some ch \<Rightarrow> (eng2, channel_drop ffi ch s, Ok ())))"

definition set_client_status ::
  "(u16, client_status, 'sm) chashmap_ops \<Rightarrow> (u16, channel, 'rm) chashmap_ops \<Rightarrow> 's ring_ffi \<Rightarrow>
   's zmq_ffi \<Rightarrow> dpdk_errno \<Rightarrow> u32 \<Rightarrow> u16 \<Rightarrow> u64 \<Rightarrow> ('sm, 'rm) engine \<Rightarrow> 's \<Rightarrow>
   ('sm, 'rm) engine \<times> 's \<times> (failure, unit) outcome" where
  "set_client_status sops rops ffi zmq err current i m eng s =
     (if m = 0 then register_client sops rops ffi zmq err current i eng s
      else if m = 1 then ready_client sops i eng s
      else if m = 2 then remove_client sops rops ffi i eng s
      else (eng, s, Err (FormatErr ''Unknown client status'')))"

text \<open>\<open>check_n_set_client_status\<close> after its sleep: the result is discarded.\<close>

definition check_n_set_client_status ::
  "(u16, client_status, 'sm) chashmap_ops \<Rightarrow> (u16, channel, 'rm) chashmap_ops \<Rightarrow> 's ring_ffi \<Rightarrow>
   's zmq_ffi \<Rightarrow> dpdk_errno \<Rightarrow> u32 \<Rightarrow> ('sm, 'rm) engine \<Rightarrow> 's \<Rightarrow>
   ('sm, 'rm) engine \<times> 's \<times> (failure, unit) outcome" where
  "check_n_set_client_status sops rops ffi zmq err current eng s =
     (case new_msg eng of
        None \<Rightarrow> (eng, s, Ok ())
      | Some (i, m) \<Rightarrow>
          (case set_client_status sops rops ffi zmq err current i m eng s of
             (eng', s', Ok _) \<Rightarrow> (eng'\<lparr>new_msg := None\<rparr>, s', Ok ())
           | (eng', s', Err _) \<Rightarrow> (eng'\<lparr>new_msg := None\<rparr>, s', Ok ())
           | (eng', s', r) \<Rightarrow> (eng', s', r)))"

definition engine_send ::
  "(u16, channel, 'rm) chashmap_ops \<Rightarrow> 's ring_ffi \<Rightarrow> (ptr \<Rightarrow> 's \<Rightarrow> 's) \<Rightarrow> dpdk_errno \<Rightarrow>
   ('sm, 'rm) engine \<Rightarrow> u16 \<Rightarrow> mbuf \<Rightarrow> 's \<Rightarrow> 's \<times> (failure, unit) outcome" where
  "engine_send rops ffi pktmbuf_free err eng key pkt s =
     engine_map_send rops ffi pktmbuf_free err (ringmap eng) key pkt s"

definition engine_receive ::
  "(u16, channel, 'rm) chashmap_ops \<Rightarrow> 's ring_ffi \<Rightarrow> dpdk_errno \<Rightarrow>
   ('sm, 'rm) engine \<Rightarrow> u16 \<Rightarrow> mbuf \<Rightarrow> 's \<Rightarrow> ('s \<times> mbuf \<times> ptr) \<times> (failure, unit) outcome" where
  "engine_receive rops ffi err eng key pkt s = engine_map_receive rops ffi err (ringmap eng) key pkt s"

section \<open>Reachable states\<close>

text \<open>
  The states of an engine that starts with \<open>Engine::new\<close> in the state \<open>s0\<close> and then
  polls for messages, applies them, and exchanges packets with its clients, in any order.
\<close>

inductive engine_reach ::
  "(u16, client_status, 'sm) chashmap_ops \<Rightarrow> (u16, channel, 'rm) chashmap_ops \<Rightarrow> 's ring_ffi \<Rightarrow>
   (ptr \<Rightarrow> 's \<Rightarrow> 's) \<Rightarrow> 's zmq_ffi \<Rightarrow> 'j json_ffi \<Rightarrow> dpdk_errno \<Rightarrow> 's \<Rightarrow> ('sm, 'rm) engine \<Rightarrow> 's \<Rightarrow> bool"
  for sops rops ffi pktmbuf_free zmq json err s0
where
  reach_new: "engine_new sops rops zmq s0 = (s, Ok eng) \<Longrightarrow>
    engine_reach sops rops ffi pktmbuf_free zmq json err s0 eng s"
| reach_msg: "engine_reach sops rops ffi pktmbuf_free zmq json err s0 eng s \<Longrightarrow>
    get_msg zmq json eng s = ((eng', s'), r) \<Longrightarrow>
    engine_reach sops rops ffi pktmbuf_free zmq json err s0 eng' s'"
| reach_check: "engine_reach sops rops ffi pktmbuf_free zmq json err s0 eng s \<Longrightarrow>
    check_n_set_client_status sops rops ffi zmq err current eng s = (eng', s', r) \<Longrightarrow>
    engine_reach sops rops ffi pktmbuf_free zmq json err s0 eng' s'"
| reach_send: "engine_reach sops rops ffi pktmbuf_free zmq json err s0 eng s \<Longrightarrow>
    engine_send rops ffi pktmbuf_free err eng key pkt s = (s', r) \<Longrightarrow>
    engine_reach sops rops ffi pktmbuf_free zmq json err s0 eng s'"
| reach_receive: "engine_reach sops rops ffi pktmbuf_free zmq json err s0 eng s \<Longrightarrow>
    engine_receive rops ffi err eng key pkt s = ((s', pkt', temporary), r) \<Longrightarrow>
    engine_reach sops rops ffi pktmbuf_free zmq json err s0 eng s'"

section \<open>Ownership of the rings\<close>

definition channel_rings :: "channel \<Rightarrow> ptr set" where
  "channel_rings ch = {ring_raw (tx_q ch), ring_raw (rx_q ch)}"

definition owned_rings :: "(u16 \<rightharpoonup> channel) \<Rightarrow> ptr set" where
  "owned_rings cs = (\<Union>ch \<in> ran cs. channel_rings ch)"

text \<open>Every channel has two rings and no two channels share one.\<close>

definition separate :: "(u16 \<rightharpoonup> channel) \<Rightarrow> bool" where
  "separate cs \<longleftrightarrow>
     (\<forall>i ch. cs i = Some ch \<longrightarrow> ring_raw (tx_q ch) \<noteq> ring_raw (rx_q ch)) \<and>
     (\<forall>i j ch ch'. i \<noteq> j \<longrightarrow> cs i = Some ch \<longrightarrow> cs j = Some ch' \<longrightarrow>
        channel_rings ch \<inter> channel_rings ch' = {})"

text \<open>
  The invariant of the control plane on the abstract maps: status and channel are stored
  for the same clients, and exactly the rings of the registered clients exist.
\<close>

definition clients_inv :: "(u16 \<rightharpoonup> client_status) \<Rightarrow> (u16 \<rightharpoonup> channel) \<Rightarrow> (ptr \<rightharpoonup> 'q) \<Rightarrow> bool" where
  "clients_inv st cs rs \<longleftrightarrow> dom st = dom cs \<and> separate cs \<and> dom rs = owned_rings cs"

lemma owned_rings_iff: "r \<in> owned_rings cs \<longleftrightarrow> (\<exists>j ch. cs j = Some ch \<and> r \<in> channel_rings ch)"
  by (auto simp: owned_rings_def ran_def)

lemma owned_update: "owned_rings (cs(i \<mapsto> ch)) = owned_rings (cs(i := None)) \<union> channel_rings ch"
proof -
  have "r \<in> owned_rings (cs(i \<mapsto> ch)) \<longleftrightarrow>
      r \<in> channel_rings ch \<or> (\<exists>j ch'. j \<noteq> i \<and> cs j = Some ch' \<and> r \<in> channel_rings ch')" for r
    unfolding owned_rings_iff fun_upd_apply by (metis option.inject)
  moreover have "r \<in> owned_rings (cs(i := None)) \<longleftrightarrow>
      (\<exists>j ch'. j \<noteq> i \<and> cs j = Some ch' \<and> r \<in> channel_rings ch')" for r
    unfolding owned_rings_iff fun_upd_apply by (metis option.distinct(1))
  ultimately show ?thesis by blast
qed

lemma owned_delete:
  assumes "separate cs"
  shows "owned_rings (cs(i := None)) =
    owned_rings cs - (case cs i of None \<Rightarrow> {} | Some ch \<Rightarrow> channel_rings ch)"
proof (cases "cs i")
  case None
  then have "cs(i := None) = cs" by (simp add: fun_upd_idem)
  with None show ?thesis by simp
next
  case (Some ch)
  have apart: "r \<notin> channel_rings ch'" if "j \<noteq> i" "cs j = Some ch'" "r \<in> channel_rings ch" for r j ch'
    using assms that Some unfolding separate_def by blast
  have "r \<in> owned_rings (cs(i := None)) \<longleftrightarrow> r \<in> owned_rings cs \<and> r \<notin> channel_rings ch" for r
  proof
    assume "r \<in> owned_rings (cs(i := None))"
    then obtain j ch' where "j \<noteq> i" "cs j = Some ch'" "r \<in> channel_rings ch'"
      by (auto simp: owned_rings_iff split: if_splits)
    with apart [of j ch' r] show "r \<in> owned_rings cs \<and> r \<notin> channel_rings ch"
      by (auto simp: owned_rings_iff)
  next
    assume r: "r \<in> owned_rings cs \<and> r \<notin> channel_rings ch"
    then obtain j ch' where j: "cs j = Some ch'" "r \<in> channel_rings ch'" by (auto simp: owned_rings_iff)
    with r Some have "j \<noteq> i" by auto
    with j show "r \<in> owned_rings (cs(i := None))" by (auto simp: owned_rings_iff)
  qed
  with Some show ?thesis by auto
qed

lemma owned_rings_member: "cs i = Some ch \<Longrightarrow> channel_rings ch \<subseteq> owned_rings cs"
  by (auto simp: owned_rings_def ran_def)

lemma separate_delete: "separate cs \<Longrightarrow> separate (cs(i := None))"
  by (simp add: separate_def)

lemma separate_update:
  assumes "separate cs" "ring_raw (tx_q ch) \<noteq> ring_raw (rx_q ch)" "channel_rings ch \<inter> owned_rings cs = {}"
  shows "separate (cs(i \<mapsto> ch))"
proof -
  have "channel_rings ch \<inter> channel_rings ch' = {}" if "cs j = Some ch'" for j ch'
    using assms(3) owned_rings_member [of cs j ch'] that by blast
  with assms(1,2) show ?thesis by (fastforce simp: separate_def Int_commute)
qed

lemma clients_inv_register:
  assumes "clients_inv st cs rs" "ring_raw (tx_q ch) \<noteq> ring_raw (rx_q ch)"
    and "rs (ring_raw (tx_q ch)) = None" "rs (ring_raw (rx_q ch)) = None"
    and "dom rs' = (dom rs \<union> channel_rings ch) - (case cs i of None \<Rightarrow> {} | Some old \<Rightarrow> channel_rings old)"
  shows "clients_inv (st(i \<mapsto> v)) (cs(i \<mapsto> ch)) rs'"
proof -
  have fresh: "channel_rings ch \<inter> owned_rings cs = {}"
    using assms(1,3,4) by (auto simp: clients_inv_def channel_rings_def)
  have sep: "separate cs" and d: "dom rs = owned_rings cs" "dom st = dom cs"
    using assms(1) by (simp_all add: clients_inv_def)
  have "channel_rings ch \<inter> (case cs i of None \<Rightarrow> {} | Some old \<Rightarrow> channel_rings old) = {}"
    using fresh owned_rings_member [of cs i] by (auto split: option.splits)
  then have "dom rs' = owned_rings (cs(i \<mapsto> ch))"
    using assms(5) d by (auto simp: owned_update owned_delete [OF sep])
  then show ?thesis using separate_update [OF sep assms(2) fresh] d(2) by (simp add: clients_inv_def)
qed

lemma clients_inv_remove:
  assumes "clients_inv st cs rs" "cs i = Some ch" "dom rs' = dom rs - channel_rings ch"
  shows "clients_inv (st(i := None)) (cs(i := None)) rs'"
  using assms separate_delete [of cs i] by (simp add: clients_inv_def owned_delete)

section \<open>The control plane under its contracts\<close>

locale engine_env =
  sm: chashmap sops + rm: chashmap rops + rings_and_buffers ffi rings pktmbuf_free live
  for sops :: "(u16, client_status, 'sm) chashmap_ops"
    and rops :: "(u16, channel, 'rm) chashmap_ops"
    and ffi :: "'s ring_ffi" and rings :: "'s \<Rightarrow> ptr \<rightharpoonup> nat \<times> ptr list"
    and pktmbuf_free :: "ptr \<Rightarrow> 's \<Rightarrow> 's" and live :: "'s \<Rightarrow> ptr set" +
  fixes zmq :: "'s zmq_ffi"
  assumes socket_rings: "rings (snd (zmq_socket zmq s)) = rings s"
    and connect_rings: "rings (snd (zmq_connect zmq url s)) = rings s"
    and poll_rings: "rings (snd (zmq_poll zmq timeout s)) = rings s"
    and recv_rings: "rings (snd (zmq_recv zmq s)) = rings s"
    and send_rings: "rings (snd (zmq_send zmq msg s)) = rings s"
begin

definition statuses :: "('sm, 'rm) engine \<Rightarrow> u16 \<rightharpoonup> client_status" where
  "statuses eng = cm_get sops (statusmap eng)"

definition channels :: "('sm, 'rm) engine \<Rightarrow> u16 \<rightharpoonup> channel" where
  "channels eng = cm_get rops (ring_map (ringmap eng))"

lemma rings_channel_drop:
  "rings (channel_drop ffi ch s) = (rings s)(ring_raw (tx_q ch) := None, ring_raw (rx_q ch) := None)"
  by (simp add: channel_drop_def ring_drop_def free_ring)

lemma dom_optional_drop:
  "dom (rings (optional_drop ffi old s)) =
     dom (rings s) - (case old of None \<Rightarrow> {} | Some ch \<Rightarrow> channel_rings ch)"
  by (auto simp: optional_drop_def rings_channel_drop channel_rings_def split: option.splits if_splits)

lemma label_no_NUL: "NUL \<notin> set (''RX-'' @ dec_string n)" "NUL \<notin> set (''TX-'' @ dec_string n)"
  using dec_string_no_NUL [of n] by simp_all

lemma send_reply_cases:
  obtains (sent) s' where "send_reply zmq msg s = (s', Ok ())" "rings s' = rings s"
  | (failed) s' e where "send_reply zmq msg s = (s', Err (ZmqFailure e))" "rings s' = rings s"
proof -
  obtain r s' where z: "zmq_send zmq msg s = (r, s')" by fastforce
  with send_rings [of msg s] show ?thesis
    by (cases r) (auto simp: send_reply_def intro: sent failed)
qed

lemma ring_new_cases:
  assumes "NUL \<notin> set name"
  obtains (created) r s' where "ring_new ffi err i rt name PACKET_READ_SIZE sid s = (s', Ok r)"
      "client_id r = i" "rtype r = rt" "rings s (ring_raw r) = None"
      "rings s' = (rings s)(ring_raw r \<mapsto> (31, []))"
  | (failed) e s' where "ring_new ffi err i rt name PACKET_READ_SIZE sid s = (s', Err e)" "rings s' = rings s"
proof -
  obtain s' res where n: "ring_new ffi err i rt name PACKET_READ_SIZE sid s = (s', res)" by fastforce
  have "unat (of_nat PACKET_READ_SIZE :: u32) - 1 = 31" by (simp add: PACKET_READ_SIZE_def)
  with new_outcome [OF assms n] n show ?thesis
    by (cases res) (auto intro: created failed)
qed

lemma statuses_insert:
  "statuses (eng\<lparr>statusmap := snd (cm_insert sops i v (statusmap eng))\<rparr>) = (statuses eng)(i \<mapsto> v)"
  by (rule ext) (simp add: statuses_def sm.get_insert)

lemma register_cases:
  obtains (registered) tx rx eng' s' where
      "register_client sops rops ffi zmq err current i eng s = (eng', s', Ok ())"
      "client_id tx = i" "rtype tx = TX" "client_id rx = i" "rtype rx = RX"
      "ring_raw tx \<noteq> ring_raw rx" "rings s (ring_raw tx) = None" "rings s (ring_raw rx) = None"
      "statuses eng' = (statuses eng)(i \<mapsto> STARTING)"
      "channels eng' = (channels eng)(i \<mapsto> \<lparr>tx_q = tx, rx_q = rx\<rparr>)" "new_msg eng' = new_msg eng"
      "\<exists>s3. rings s3 = (rings s)(ring_raw rx \<mapsto> (31, []), ring_raw tx \<mapsto> (31, [])) \<and>
        s' = optional_drop ffi (channels eng i) s3"
  | (failed) e s' where
      "register_client sops rops ffi zmq err current i eng s = (eng, s', Err e)" "rings s' = rings s"
proof -
  let ?sid = "socket_current current"
  let ?rxn = "''RX-'' @ dec_string (unat i)" and ?txn = "''TX-'' @ dec_string (unat i)"
  show ?thesis
    using label_no_NUL(1) [of "unat i"]
  proof (cases rule: ring_new_cases [of ?rxn err i RX ?sid s])
    case (failed e s1)
    then show ?thesis using that(2) by (simp add: register_client_def)
  next
    case (created rx s1)
    note rx = created
    show ?thesis
      using label_no_NUL(2) [of "unat i"]
    proof (cases rule: ring_new_cases [of ?txn err i TX ?sid s1])
      case (failed e s2)
      with rx have "rings (ring_drop ffi rx s2) = rings s" by (auto simp: ring_drop_def free_ring)
      with failed rx show ?thesis using that(2) by (simp add: register_client_def)
    next
      case (created tx s2)
      note tx = created
      have ne: "ring_raw tx \<noteq> ring_raw rx" and none: "rings s (ring_raw tx) = None"
        using rx tx by (auto split: if_splits)
      have r2: "rings s2 = (rings s)(ring_raw rx \<mapsto> (31, []), ring_raw tx \<mapsto> (31, []))" using rx tx by simp
      show ?thesis
      proof (cases rule: send_reply_cases [of "''1''" s2])
        case (failed s3 e)
        have "rings (ring_drop ffi rx (ring_drop ffi tx s3)) = rings s"
          using failed(2) r2 ne none rx(4) by (auto simp: ring_drop_def free_ring)
        with failed rx tx show ?thesis using that(2) by (simp add: register_client_def)
      next
        case (sent s3)
        obtain rm' where rm': "cm_insert rops i \<lparr>tx_q = tx, rx_q = rx\<rparr> (ring_map (ringmap eng)) = (channels eng i, rm')"
          "cm_get rops rm' = (channels eng)(i \<mapsto> \<lparr>tx_q = tx, rx_q = rx\<rparr>)"
          using rm.insert_cases [of i "\<lparr>tx_q = tx, rx_q = rx\<rparr>" "ring_map (ringmap eng)"]
          by (metis channels_def)
        obtain sm' where sm': "cm_insert sops i STARTING (statusmap eng) = (statuses eng i, sm')"
          "cm_get sops sm' = (statuses eng)(i \<mapsto> STARTING)"
          using sm.insert_cases [of i STARTING "statusmap eng"] by (metis statuses_def)
        let ?eng' = "eng\<lparr>statusmap := sm', ringmap := (ringmap eng)\<lparr>ring_map := rm'\<rparr>\<rparr>"
        have "register_client sops rops ffi zmq err current i eng s
            = (?eng', optional_drop ffi (channels eng i) s3, Ok ())"
          using rx(1) tx(1) sent(1) rm'(1) sm'(1) by (simp add: register_client_def)
        then show ?thesis
          using rx tx ne none sent(2) r2 rm'(2) sm'(2)
          by (intro that(1) [of ?eng' _ tx rx]) (auto simp: statuses_def channels_def)
      qed
    qed
  qed
qed

lemma register_inv:
  assumes "clients_inv (statuses eng) (channels eng) (rings s)"
    and "register_client sops rops ffi zmq err current i eng s = (eng', s', r)"
  shows "clients_inv (statuses eng') (channels eng') (rings s') \<and> graceful r"
proof (cases rule: register_cases [of err current i eng s])
  case (registered tx rx eng1 s1)
  from registered(12) obtain s3 where s3: "rings s3 = (rings s)(ring_raw rx \<mapsto> (31, []), ring_raw tx \<mapsto> (31, []))"
    and s1: "s1 = optional_drop ffi (channels eng i) s3" by blast
  have "dom (rings s1) = (dom (rings s) \<union> channel_rings \<lparr>tx_q = tx, rx_q = rx\<rparr>) -
      (case channels eng i of None \<Rightarrow> {} | Some old \<Rightarrow> channel_rings old)"
    unfolding s1 dom_optional_drop s3 by (auto simp: channel_rings_def)
  with assms registered show ?thesis
    using clients_inv_register [OF assms(1), where ch = "\<lparr>tx_q = tx, rx_q = rx\<rparr>" and i = i and rs' = "rings s1"]
    by auto
next
  case (failed e s1)
  with assms show ?thesis by auto
qed

lemma ready_inv:
  assumes "clients_inv (statuses eng) (channels eng) (rings s)"
    and "ready_client sops i eng s = (eng', s', r)"
  shows "clients_inv (statuses eng') (channels eng') (rings s') \<and> graceful r"
proof (cases "statuses eng i")
  case None
  with assms show ?thesis by (auto simp: ready_client_def statuses_def)
next
  case (Some v)
  with assms(2) have e: "eng' = eng\<lparr>statusmap := snd (cm_insert sops i READY (statusmap eng))\<rparr>"
    "s' = s" "r = Ok ()" by (auto simp: ready_client_def statuses_def)
  have "channels eng' = channels eng" using e(1) by (simp add: channels_def)
  with Some assms(1) e show ?thesis
    by (auto simp: clients_inv_def statuses_insert)
qed

lemma remove_cases:
  assumes "clients_inv (statuses eng) (channels eng) (rings s)"
  obtains (absent) eng' where "statuses eng i = None"
      "remove_client sops rops ffi i eng s = (eng', s, Err (FormatErr ''Failed to remove client''))"
      "statuses eng' = statuses eng" "channels eng' = channels eng" "new_msg eng' = new_msg eng"
  | (removed) eng' ch where "statuses eng i \<noteq> None" "channels eng i = Some ch"
      "remove_client sops rops ffi i eng s = (eng', channel_drop ffi ch s, Ok ())"
      "statuses eng' = (statuses eng)(i := None)" "channels eng' = (channels eng)(i := None)"
      "new_msg eng' = new_msg eng"
proof -
  obtain sm' where sm': "cm_remove sops i (statusmap eng) = (statuses eng i, sm')"
    "cm_get sops sm' = (statuses eng)(i := None)"
    using sm.remove_cases [of i "statusmap eng"] by (metis statuses_def)
  obtain rm' where rm': "cm_remove rops i (ring_map (ringmap eng)) = (channels eng i, rm')"
    "cm_get rops rm' = (channels eng)(i := None)"
    using rm.remove_cases [of i "ring_map (ringmap eng)"] by (metis channels_def)
  show ?thesis
  proof (cases "statuses eng i")
    case None
    let ?eng' = "eng\<lparr>statusmap := sm'\<rparr>"
    have "statuses ?eng' = statuses eng" using sm'(2) None by (simp add: statuses_def fun_upd_idem)
    with None sm'(1) show ?thesis
      by (intro that(1) [of ?eng']) (simp_all add: remove_client_def channels_def)
  next
    case (Some v)
    then have "i \<in> dom (channels eng)" using assms by (auto simp: clients_inv_def)
    then obtain ch where ch: "channels eng i = Some ch" by blast
    let ?eng' = "eng\<lparr>statusmap := sm', ringmap := (ringmap eng)\<lparr>ring_map := rm'\<rparr>\<rparr>"
    have "remove_client sops rops ffi i eng s = (?eng', channel_drop ffi ch s, Ok ())"
      using Some ch sm'(1) rm'(1) by (simp add: remove_client_def Let_def)
    with Some ch sm'(2) rm'(2) show ?thesis
      by (intro that(2) [of ch ?eng']) (simp_all add: statuses_def channels_def)
  qed
qed

lemma remove_inv:
  assumes "clients_inv (statuses eng) (channels eng) (rings s)"
    and "remove_client sops rops ffi i eng s = (eng', s', r)"
  shows "clients_inv (statuses eng') (channels eng') (rings s') \<and> graceful r"
  using assms(1)
proof (cases rule: remove_cases [of eng s i])
  case (absent eng1)
  with assms show ?thesis by auto
next
  case (removed eng1 ch)
  have "dom (rings (channel_drop ffi ch s)) = dom (rings s) - channel_rings ch"
    by (auto simp: rings_channel_drop channel_rings_def)
  with removed assms(2) clients_inv_remove [OF assms(1) removed(2) this] show ?thesis by auto
qed

lemma set_client_status_inv:
  assumes "clients_inv (statuses eng) (channels eng) (rings s)"
    and "set_client_status sops rops ffi zmq err current i m eng s = (eng', s', r)"
  shows "clients_inv (statuses eng') (channels eng') (rings s') \<and> graceful r"
  using assms(2) register_inv [OF assms(1)] ready_inv [OF assms(1)] remove_inv [OF assms(1)] assms(1)
  by (auto simp: set_client_status_def split: if_splits)

lemma check_inv:
  assumes "clients_inv (statuses eng) (channels eng) (rings s)"
    and "check_n_set_client_status sops rops ffi zmq err current eng s = (eng', s', r)"
  shows "clients_inv (statuses eng') (channels eng') (rings s') \<and> r = Ok ()"
proof (cases "new_msg eng")
  case None
  with assms show ?thesis by (auto simp: check_n_set_client_status_def)
next
  case (Some im)
  obtain i m where im: "im = (i, m)" by fastforce
  obtain eng1 s1 r1 where set: "set_client_status sops rops ffi zmq err current i m eng s = (eng1, s1, r1)"
    by (metis prod.exhaust)
  from set_client_status_inv [OF assms(1) set]
  have inv: "clients_inv (statuses eng1) (channels eng1) (rings s1)" and g: "graceful r1" by simp_all
  have same: "statuses (eng1\<lparr>new_msg := None\<rparr>) = statuses eng1" "channels (eng1\<lparr>new_msg := None\<rparr>) = channels eng1"
    by (simp_all add: statuses_def channels_def)
  from g assms(2) Some im set have "eng' = eng1\<lparr>new_msg := None\<rparr> \<and> s' = s1 \<and> r = Ok ()"
    by (cases r1) (auto simp: check_n_set_client_status_def)
  with inv same show ?thesis by simp
qed

lemma get_msg_keeps:
  assumes "get_msg zmq json eng s = ((eng', s'), r)"
  shows "statuses eng' = statuses eng \<and> channels eng' = channels eng \<and> rings s' = rings s"
proof -
  obtain pr s1 where p: "zmq_poll zmq 2 s = (pr, s1)" by fastforce
  obtain rr s2 where q: "zmq_recv zmq s1 = (rr, s2)" by fastforce
  have r: "rings s1 = rings s" "rings s2 = rings s1"
    using poll_rings [of 2 s] recv_rings [of s1] p q by simp_all
  show ?thesis
  proof (cases "\<exists>b. pr = Inr 1 \<and> rr = Inr b")
    case True
    then obtain b where "pr = Inr 1" "rr = Inr b" by blast
    with assms p q r show ?thesis
      by (cases "decode_msg json b") (auto simp: get_msg_def statuses_def channels_def)
  next
    case False
    with assms p q r show ?thesis
      by (cases pr; cases rr) (auto simp: get_msg_def split: if_splits)
  qed
qed

lemma send_keeps:
  assumes "clients_inv (statuses eng) (channels eng) (rings s)"
    and "engine_send rops ffi pktmbuf_free err eng key pkt s = (s', r)"
  shows "dom (rings s') = dom (rings s)"
proof (cases "channels eng key")
  case None
  with assms(2) show ?thesis
    by (auto simp: engine_send_def engine_map_send_def channels_def mbuf_drop_def free_rings
        split: mbuf_inner.splits)
next
  case (Some ch)
  then have "ring_raw (tx_q ch) \<in> dom (rings s)"
    using assms(1) by (auto simp: clients_inv_def owned_rings_iff channel_rings_def)
  then obtain cap xs where q: "rings s (ring_raw (tx_q ch)) = Some (cap, xs)" by auto
  have "ring_enqueue ffi err (tx_q ch) pkt s = (s', r)"
    using Some assms(2) by (simp add: engine_send_def engine_map_send_def channels_def channel_send_def)
  from enqueue_outcome [OF q this] q show ?thesis by (auto split: if_splits)
qed

lemma receive_keeps:
  assumes "clients_inv (statuses eng) (channels eng) (rings s)"
    and "engine_receive rops ffi err eng key pkt s = ((s', pkt', temporary), r)"
  shows "dom (rings s') = dom (rings s)"
proof (cases "channels eng key")
  case None
  with assms(2) show ?thesis by (auto simp: engine_receive_def engine_map_receive_def channels_def)
next
  case (Some ch)
  then have "ring_raw (rx_q ch) \<in> dom (rings s)"
    using assms(1) by (auto simp: clients_inv_def owned_rings_iff channel_rings_def)
  then obtain cap xs where q: "rings s (ring_raw (rx_q ch)) = Some (cap, xs)" by auto
  have "ring_dequeue ffi err (rx_q ch) pkt s = ((s', pkt', temporary), r)"
    using Some assms(2) by (simp add: engine_receive_def engine_map_receive_def channels_def channel_receive_def)
  from dequeue_outcome [OF q this] q show ?thesis by (auto split: list.splits)
qed

lemma reach_inv:
  assumes "engine_reach sops rops ffi pktmbuf_free zmq json err s0 eng s" "rings s0 = Map.empty"
  shows "clients_inv (statuses eng) (channels eng) (rings s)"
  using assms
proof (induction rule: engine_reach.induct)
  case (reach_new s eng)
  obtain a s1 where a: "zmq_socket zmq s0 = (a, s1)" by fastforce
  obtain b s2 where b: "zmq_connect zmq SOCKET s1 = (b, s2)" by fastforce
  have "rings s2 = Map.empty"
    using socket_rings [of s0] connect_rings [of SOCKET s1] a b reach_new.prems by simp
  moreover have "s = s2 \<and> eng = \<lparr>statusmap = cm_new sops, ringmap = engine_ring_map_new rops, new_msg = None\<rparr>"
    using reach_new.hyps a b by (cases a; cases b) (auto simp: engine_new_def)
  ultimately show ?case
    by (auto simp: clients_inv_def statuses_def channels_def sm.new_empty rm.new_empty
        engine_ring_map_new_def separate_def owned_rings_def)
next
  case (reach_msg eng s eng' s' r)
  with get_msg_keeps [OF reach_msg.hyps(2)] show ?case by simp
next
  case (reach_check eng s current eng' s' r)
  with check_inv show ?case by blast
next
  case (reach_send eng s key pkt s' r)
  with send_keeps [OF _ reach_send.hyps(2)] show ?case by (auto simp: clients_inv_def)
next
  case (reach_receive eng s key pkt s' pkt' temporary r)
  with receive_keeps [OF _ reach_receive.hyps(2)] show ?case by (auto simp: clients_inv_def)
qed

text \<open>The effect of the three messages on the abstract maps.\<close>

lemma register_effect:
  assumes "clients_inv (statuses eng) (channels eng) (rings s)"
    and "register_client sops rops ffi zmq err current i eng s = (eng', s', r)"
  shows "graceful r \<and>
    (if is_ok r
     then statuses eng' = (statuses eng)(i \<mapsto> STARTING) \<and>
       (\<exists>tx rx. channels eng' = (channels eng)(i \<mapsto> \<lparr>tx_q = tx, rx_q = rx\<rparr>) \<and> ring_raw tx \<noteq> ring_raw rx \<and>
          ring_name tx = ''TX-'' @ dec_string (unat i) \<and> ring_name rx = ''RX-'' @ dec_string (unat i) \<and>
          rings s (ring_raw tx) = None \<and> rings s (ring_raw rx) = None \<and>
          rings s' (ring_raw tx) = Some (31, []) \<and> rings s' (ring_raw rx) = Some (31, []) \<and>
          (case channels eng i of None \<Rightarrow> True
           | Some old \<Rightarrow> rings s' (ring_raw (tx_q old)) = None \<and> rings s' (ring_raw (rx_q old)) = None))
     else eng' = eng \<and> rings s' = rings s)"
proof (cases rule: register_cases [of err current i eng s])
  case (registered tx rx eng1 s1)
  from registered(12) obtain s3 where s3: "rings s3 = (rings s)(ring_raw rx \<mapsto> (31, []), ring_raw tx \<mapsto> (31, []))"
    and s1: "s1 = optional_drop ffi (channels eng i) s3" by blast
  have old: "ring_raw (tx_q old) \<in> dom (rings s) \<and> ring_raw (rx_q old) \<in> dom (rings s)"
    if "channels eng i = Some old" for old
    using assms(1) owned_rings_member [of "channels eng" i old] that
    by (auto simp: clients_inv_def channel_rings_def)
  have "rings s1 (ring_raw tx) = Some (31, []) \<and> rings s1 (ring_raw rx) = Some (31, []) \<and>
      (case channels eng i of None \<Rightarrow> True
       | Some o' \<Rightarrow> rings s1 (ring_raw (tx_q o')) = None \<and> rings s1 (ring_raw (rx_q o')) = None)"
    using old registered(6-8) s3
    by (auto simp: s1 optional_drop_def rings_channel_drop split: option.splits)
  moreover have "ring_name tx = ''TX-'' @ dec_string (unat i)" "ring_name rx = ''RX-'' @ dec_string (unat i)"
    using registered(2-5) by (simp_all add: ring_name_def ring_prefix_def)
  ultimately show ?thesis using assms(2) registered by auto
next
  case (failed e s1)
  with assms(2) show ?thesis by auto
qed

lemma ready_effect:
  assumes "ready_client sops i eng s = (eng', s', r)"
  shows "graceful r \<and> channels eng' = channels eng \<and> s' = s \<and>
    (if is_ok r then i \<in> dom (statuses eng) \<and> statuses eng' = (statuses eng)(i \<mapsto> READY)
     else i \<notin> dom (statuses eng) \<and> statuses eng' = statuses eng)"
proof (cases "statuses eng i")
  case None
  with assms show ?thesis by (auto simp: ready_client_def statuses_def)
next
  case (Some v)
  with assms have "eng' = eng\<lparr>statusmap := snd (cm_insert sops i READY (statusmap eng))\<rparr> \<and> s' = s \<and> r = Ok ()"
    by (auto simp: ready_client_def statuses_def)
  then show ?thesis using Some by (simp add: statuses_insert domIff) (simp add: channels_def)
qed

lemma remove_effect:
  assumes "clients_inv (statuses eng) (channels eng) (rings s)"
    and "remove_client sops rops ffi i eng s = (eng', s', r)"
  shows "graceful r \<and>
    (if is_ok r
     then i \<in> dom (statuses eng) \<and> statuses eng' = (statuses eng)(i := None) \<and>
       channels eng' = (channels eng)(i := None) \<and>
       (\<exists>old. channels eng i = Some old \<and>
          rings s' = (rings s)(ring_raw (tx_q old) := None, ring_raw (rx_q old) := None))
     else i \<notin> dom (statuses eng) \<and> statuses eng' = statuses eng \<and> channels eng' = channels eng \<and> s' = s)"
  using assms(1)
proof (cases rule: remove_cases [of eng s i])
  case (absent eng1)
  with assms(2) show ?thesis by auto
next
  case (removed eng1 ch)
  with assms(2) show ?thesis by (auto simp: rings_channel_drop)
qed

end

text \<open>
  The reference instance: partial functions for the maps, the ring store, and a socket
  that never has a message and accepts every answer.
\<close>

definition quiet_socket :: "'s zmq_ffi" where
  "quiet_socket =
     \<lparr>zmq_socket = (\<lambda>s. (Inr (), s)), zmq_connect = (\<lambda>_ s. (Inr (), s)), zmq_poll = (\<lambda>_ s. (Inr 0, s)),
      zmq_recv = (\<lambda>s. (Inl ''empty'', s)), zmq_send = (\<lambda>_ s. (Inr (), s))\<rparr>"

interpretation store_engine:
  engine_env map_ops map_ops "store_ffi n" store_view store_free st_live quiet_socket for n
  by unfold_locales (simp_all add: quiet_socket_def)

section \<open>Properties\<close>

text \<open>
  C21: In every state the engine can reach, a client has a status exactly if it has a
  channel, no two channels share a ring, and the rings that exist are exactly those of the
  registered clients: no error path of a registration or removal leaks a ring or leaves a
  channel whose ring has been freed.
\<close>

theorem engine_rings_owned:
  assumes "engine_env sops rops ffi rings pktmbuf_free live zmq" "rings s0 = Map.empty"
    and "engine_reach sops rops ffi pktmbuf_free zmq json err s0 eng s"
  shows "clients_inv (cm_get sops (statusmap eng)) (cm_get rops (ring_map (ringmap eng))) (rings s)"
  using engine_env.reach_inv [OF assms(1,3,2)]
  unfolding engine_env.statuses_def [OF assms(1)] engine_env.channels_def [OF assms(1)] .

definition sample_engine :: "(u16 \<rightharpoonup> client_status, u16 \<rightharpoonup> channel) engine" where
  "sample_engine = \<lparr>statusmap = Map.empty, ringmap = \<lparr>ring_map = Map.empty\<rparr>, new_msg = None\<rparr>"

definition no_json :: "unit json_ffi" where
  "no_json = \<lparr>json_parse = (\<lambda>_. Inl ''expected value''), json_u64 = (\<lambda>_ _. None)\<rparr>"

definition no_rings :: ring_store where
  "no_rings = \<lparr>st_rings = Map.empty, st_live = {}\<rparr>"

theorem engine_rings_owned_witness:
  "clients_inv (statusmap sample_engine) (ring_map (ringmap sample_engine)) (store_view no_rings)"
proof -
  have "engine_reach map_ops map_ops (store_ffi 4) store_free quiet_socket no_json sample_errno no_rings
      sample_engine no_rings"
    by (rule reach_new) (simp add: engine_new_def quiet_socket_def map_ops_def engine_ring_map_new_def sample_engine_def)
  moreover have "store_view no_rings = Map.empty" by (auto simp: store_view_def no_rings_def)
  ultimately show ?thesis
    using engine_rings_owned [OF store_engine.engine_env_axioms [of 4], where json = no_json
        and err = sample_errno and eng = sample_engine and s = no_rings]
    by (simp add: map_ops_def)
qed

text \<open>
  C22: What a client message does. A registration that succeeds gives the client the status
  \<open>STARTING\<close> and a channel of two new, empty rings with room for 31 packets each; the rings
  of an older channel of the client are freed. A registration that fails changes nothing.
  Message 1 sets the status of a registered client to \<open>READY\<close>, message 2 removes a
  registered client and frees its rings; for unknown clients, and for all other messages,
  the call fails and changes neither status, channels nor rings. No message makes the
  engine panic.
\<close>

theorem set_client_status_spec:
  assumes "engine_env sops rops ffi rings pktmbuf_free live zmq"
    and "clients_inv (cm_get sops (statusmap eng)) (cm_get rops (ring_map (ringmap eng))) (rings s)"
    and "set_client_status sops rops ffi zmq err current i m eng s = (eng', s', r)"
    and "st = cm_get sops (statusmap eng)" "st' = cm_get sops (statusmap eng')"
    and "ch = cm_get rops (ring_map (ringmap eng))" "ch' = cm_get rops (ring_map (ringmap eng'))"
  shows "graceful r \<and>
    (if is_ok r
     then (m = 0 \<and> st' = st(i \<mapsto> STARTING) \<and>
            (\<exists>tx rx. ch' = ch(i \<mapsto> \<lparr>tx_q = tx, rx_q = rx\<rparr>) \<and> ring_raw tx \<noteq> ring_raw rx \<and>
               ring_name tx = ''TX-'' @ dec_string (unat i) \<and> ring_name rx = ''RX-'' @ dec_string (unat i) \<and>
               rings s (ring_raw tx) = None \<and> rings s (ring_raw rx) = None \<and>
               rings s' (ring_raw tx) = Some (31, []) \<and> rings s' (ring_raw rx) = Some (31, []) \<and>
               (case ch i of None \<Rightarrow> True
                | Some old \<Rightarrow> rings s' (ring_raw (tx_q old)) = None \<and> rings s' (ring_raw (rx_q old)) = None)))
        \<or> (m = 1 \<and> i \<in> dom st \<and> st' = st(i \<mapsto> READY) \<and> ch' = ch \<and> rings s' = rings s)
        \<or> (m = 2 \<and> i \<in> dom st \<and> st' = st(i := None) \<and> ch' = ch(i := None) \<and>
            (\<exists>old. ch i = Some old \<and>
               rings s' = (rings s)(ring_raw (tx_q old) := None, ring_raw (rx_q old) := None)))
     else st' = st \<and> ch' = ch \<and> rings s' = rings s \<and> (m = 1 \<or> m = 2 \<longrightarrow> i \<notin> dom st))"
proof -
  have env: "engine_env.statuses sops e = cm_get sops (statusmap e)"
    "engine_env.channels rops e = cm_get rops (ring_map (ringmap e))" for e :: "('a, 'b) engine"
    by (rule engine_env.statuses_def [OF assms(1)] engine_env.channels_def [OF assms(1)])+
  note inv = assms(2) [folded env]
  consider (register) "m = 0" | (ready) "m = 1" | (remove) "m = 2" | (other) "m \<noteq> 0" "m \<noteq> 1" "m \<noteq> 2"
    by blast
  then show ?thesis
  proof cases
    case register
    with assms(3) have "register_client sops rops ffi zmq err current i eng s = (eng', s', r)"
      by (simp add: set_client_status_def)
    from engine_env.register_effect [OF assms(1) inv this, unfolded env] register assms(4-7) show ?thesis
      by (auto split: if_splits)
  next
    case ready
    with assms(3) have "ready_client sops i eng s = (eng', s', r)" by (simp add: set_client_status_def)
    from engine_env.ready_effect [OF assms(1) this, unfolded env] ready assms(4-7) show ?thesis
      by (auto split: if_splits)
  next
    case remove
    with assms(3) have "remove_client sops rops ffi i eng s = (eng', s', r)" by (simp add: set_client_status_def)
    from engine_env.remove_effect [OF assms(1) inv this, unfolded env] remove assms(4-7) show ?thesis
      by (auto split: if_splits)
  next
    case other
    with assms(3-7) show ?thesis by (auto simp: set_client_status_def)
  qed
qed

lemma sample_register:
  "set_client_status map_ops map_ops (store_ffi 4) quiet_socket sample_errno 0 7 0 sample_engine no_rings =
    (sample_engine\<lparr>statusmap := [7 \<mapsto> STARTING], ringmap := \<lparr>ring_map = [7 \<mapsto>
       \<lparr>tx_q = \<lparr>client_id = 7, rtype = TX, ring_raw = 2\<rparr>, rx_q = \<lparr>client_id = 7, rtype = RX, ring_raw = 1\<rparr>\<rparr>]\<rparr>\<rparr>,
     \<lparr>st_rings = [1 \<mapsto> (''RX-7'' @ [NUL], 31, []), 2 \<mapsto> (''TX-7'' @ [NUL], 31, [])], st_live = {}\<rparr>, Ok ())"
proof -
  have p: "power_of_two 32" by (simp add: power_of_two_def list_ex_iff) (rule bexI [of _ 5], simp_all)
  have d: "dec_string 7 = ''7''" by code_simp
  have l: "map Suc [0..<4] = [1, 2, 3, 4]" by (simp add: upt_rec)
  show ?thesis
    by (simp add: set_client_status_def register_client_def ring_new_def to_cstring_def d store_create_def p
        name_used_def PACKET_READ_SIZE_def no_rings_def to_result_mut_eq l
        send_reply_def quiet_socket_def map_ops_def sample_engine_def optional_drop_def fun_upd_twist)
qed

theorem set_client_status_spec_witness:
  "case set_client_status map_ops map_ops (store_ffi 4) quiet_socket sample_errno 0 7 0 sample_engine no_rings of
     (eng', s', r) \<Rightarrow> is_ok r \<and> statusmap eng' = [7 \<mapsto> STARTING]"
proof -
  have "clients_inv (cm_get map_ops (statusmap sample_engine)) (cm_get map_ops (ring_map (ringmap sample_engine)))
      (store_view no_rings)"
    by (auto simp: clients_inv_def map_ops_def sample_engine_def separate_def owned_rings_def store_view_def no_rings_def)
  from set_client_status_spec [OF store_engine.engine_env_axioms [of 4] this sample_register refl refl refl refl]
  show ?thesis
    unfolding sample_register prod.case by (auto simp: map_ops_def sample_engine_def)
qed

end
