(* ===== verification/Engine_Data.thy ===== *)
theory Engine_Data
  imports Engine Headers Port Routing
begin

text \<open>
  The data plane of the engine, \<open>engine/src/runtime/engine.rs\<close>: \<open>rx_main\<close> moves packets
  from the ports into a bounded queue, \<open>process_packets\<close> takes them out. The queue
  (\<open>crossbeam_queue::ArrayQueue\<close>), the stop signal (\<open>oneshot::Receiver\<close>) and the port map
  (\<open>DashMap\<close>) come from other packages and are arguments. The loops are partial functions:
  \<open>None\<close> is a loop that never ends.
\<close>

section \<open>The packet queue\<close>

record 'q queue_ops =
  aq_is_full :: "'q \<Rightarrow> bool"
  aq_is_empty :: "'q \<Rightarrow> bool"
  aq_push :: "port_id_mbuf \<Rightarrow> 'q \<Rightarrow> bool \<times> 'q"
  aq_pop :: "'q \<Rightarrow> port_id_mbuf option \<times> 'q"

text \<open>
  What the package documents: a first-in first-out queue of fixed capacity whose \<open>push\<close>
  fails, without effect, when it is full.
\<close>

locale array_queue =
  fixes ops :: "'q queue_ops" and items :: "'q \<Rightarrow> port_id_mbuf list" and capacity :: nat
  assumes is_full: "aq_is_full ops q \<longleftrightarrow> capacity \<le> length (items q)"
    and is_empty: "aq_is_empty ops q \<longleftrightarrow> items q = []"
    and push: "aq_push ops x q = (ok, q') \<Longrightarrow>
      ok = (length (items q) < capacity) \<and> items q' = (if ok then items q @ [x] else items q)"
    and pop: "aq_pop ops q = (r, q') \<Longrightarrow>
      (case items q of [] \<Rightarrow> r = None \<and> items q' = [] | x # xs \<Rightarrow> r = Some x \<and> items q' = xs)"

definition list_queue :: "nat \<Rightarrow> port_id_mbuf list queue_ops" where
  "list_queue n =
     \<lparr>aq_is_full = (\<lambda>q. n \<le> length q), aq_is_empty = (\<lambda>q. q = []),
      aq_push = (\<lambda>x q. if length q < n then (True, q @ [x]) else (False, q)),
      aq_pop = (\<lambda>q. case q of [] \<Rightarrow> (None, []) | x # xs \<Rightarrow> (Some x, xs))\<rparr>"

interpretation list_queue: array_queue "list_queue n" "\<lambda>q. q" n for n
  by unfold_locales (auto simp: list_queue_def split: list.splits if_splits)

section \<open>Receiving\<close>

text \<open>
  One pass of \<open>for port in ports\<close>. A batch that cannot be pushed comes back in the error
  and is dropped, which frees its buffers.
\<close>

fun rx_pass ::
  "'q queue_ops \<Rightarrow> (u16 \<Rightarrow> u16 \<Rightarrow> u16 \<Rightarrow> 'e \<Rightarrow> u16 \<times> ptr list \<times> 'e) \<Rightarrow> (ptr \<Rightarrow> 'e \<Rightarrow> 'e) \<Rightarrow>
   port_queue list \<Rightarrow> 'q \<times> 'e \<Rightarrow> ('q \<times> 'e) \<times> (failure, unit) outcome" where
  "rx_pass ops rx_burst pktmbuf_free [] (q, e) = ((q, e), Ok ())"
| "rx_pass ops rx_burst pktmbuf_free (port # ports) (q, e) =
     (case receive rx_burst port e of
        (e1, r) \<Rightarrow> with_ok (q, e1) r (\<lambda>recvd.
          let (pushed, q') = aq_push ops \<lparr>portid = get_portid port, buf = recvd\<rparr> q;
              e2 = (if pushed then e1 else fold (mbuf_drop pktmbuf_free) recvd e1)
          in rx_pass ops rx_burst pktmbuf_free ports (q', e2)))"

text \<open>\<open>while !mbufs.is_full()\<close>\<close>

partial_function (option) fill_queue ::
  "'q queue_ops \<Rightarrow> (u16 \<Rightarrow> u16 \<Rightarrow> u16 \<Rightarrow> 'e \<Rightarrow> u16 \<times> ptr list \<times> 'e) \<Rightarrow> (ptr \<Rightarrow> 'e \<Rightarrow> 'e) \<Rightarrow>
   port_queue list \<Rightarrow> 'q \<times> 'e \<Rightarrow> (('q \<times> 'e) \<times> (failure, unit) outcome) option" where
  "fill_queue ops rx_burst pktmbuf_free ports qe =
     (if aq_is_full ops (fst qe) then Some (qe, Ok ())
      else case rx_pass ops rx_burst pktmbuf_free ports qe of
             (qe', Ok _) \<Rightarrow> fill_queue ops rx_burst pktmbuf_free ports qe'
           | (qe', Err e) \<Rightarrow> Some (qe', Err e)
           | (qe', Panic k) \<Rightarrow> Some (qe', Panic k)
           | (qe', UB) \<Rightarrow> Some (qe', UB))"

text \<open>
  \<open>rx_main\<close> with the global \<open>PORTS\<close>, which panics while it is not set. \<open>try_recv\<close> gives
  \<open>Canceled\<close> (\<open>Inl\<close>), nothing yet (\<open>Inr None\<close>) or the signal.
\<close>

partial_function (option) rx_loop ::
  "'q queue_ops \<Rightarrow> (u16 \<Rightarrow> u16 \<Rightarrow> u16 \<Rightarrow> 'e \<Rightarrow> u16 \<times> ptr list \<times> 'e) \<Rightarrow> (ptr \<Rightarrow> 'e \<Rightarrow> 'e) \<Rightarrow>
   ('r \<Rightarrow> (unit + unit option) \<times> 'r) \<Rightarrow> port_queue list \<Rightarrow> 'r \<Rightarrow> 'q \<times> 'e \<Rightarrow>
   (('q \<times> 'e) \<times> (failure, unit) outcome) option" where
  "rx_loop ops rx_burst pktmbuf_free try_recv ports receiver qe =
     (case try_recv receiver of
        (Inr _, receiver') \<Rightarrow> Some (qe, Ok ())
      | (Inl _, receiver') \<Rightarrow>
          Option.bind (fill_queue ops rx_burst pktmbuf_free ports qe) (\<lambda>(qe', r).
            case r of
              Ok _ \<Rightarrow> rx_loop ops rx_burst pktmbuf_free try_recv ports receiver' qe'
            | Err e \<Rightarrow> Some (qe', Err e)
            | Panic k \<Rightarrow> Some (qe', Panic k)
            | UB \<Rightarrow> Some (qe', UB)))"

definition rx_main ::
  "'q queue_ops \<Rightarrow> (u16 \<Rightarrow> u16 \<Rightarrow> u16 \<Rightarrow> 'e \<Rightarrow> u16 \<times> ptr list \<times> 'e) \<Rightarrow> (ptr \<Rightarrow> 'e \<Rightarrow> 'e) \<Rightarrow>
   ('r \<Rightarrow> (unit + unit option) \<times> 'r) \<Rightarrow> port_queue list option \<Rightarrow> 'r \<Rightarrow> 'q \<times> 'e \<Rightarrow>
   (('q \<times> 'e) \<times> (failure, unit) outcome) option" where
  "rx_main ops rx_burst pktmbuf_free try_recv PORTS receiver qe =
     (case PORTS of
        None \<Rightarrow> Some (qe, Panic UnwrapFailed)
      | Some ports \<Rightarrow> rx_loop ops rx_burst pktmbuf_free try_recv ports receiver qe)"

text \<open>
  The same loops step by step, for runs that never end: a step is a look at the stop signal or
  one pass over the ports. \<open>Inl\<close> is a loop that goes on, with its state, \<open>Inr\<close> one that has
  returned. \<open>rx_main_after n\<close> is the run of \<open>rx_main\<close> looked at after \<open>n\<close> steps.
\<close>

datatype rx_point = LoopHead | FillHead

fun rx_step ::
  "'q queue_ops \<Rightarrow> (u16 \<Rightarrow> u16 \<Rightarrow> u16 \<Rightarrow> 'e \<Rightarrow> u16 \<times> ptr list \<times> 'e) \<Rightarrow> (ptr \<Rightarrow> 'e \<Rightarrow> 'e) \<Rightarrow>
   ('r \<Rightarrow> (unit + unit option) \<times> 'r) \<Rightarrow> port_queue list \<Rightarrow> rx_point \<times> 'r \<times> 'q \<times> 'e \<Rightarrow>
   (rx_point \<times> 'r \<times> 'q \<times> 'e) + (('q \<times> 'e) \<times> (failure, unit) outcome)" where
  "rx_step ops rx_burst pktmbuf_free try_recv ports (LoopHead, receiver, qe) =
     (case try_recv receiver of
        (Inr _, receiver') \<Rightarrow> Inr (qe, Ok ())
      | (Inl _, receiver') \<Rightarrow> Inl (FillHead, receiver', qe))"
| "rx_step ops rx_burst pktmbuf_free try_recv ports (FillHead, receiver, qe) =
     (if aq_is_full ops (fst qe) then Inl (LoopHead, receiver, qe)
      else case rx_pass ops rx_burst pktmbuf_free ports qe of
             (qe', Ok _) \<Rightarrow> Inl (FillHead, receiver, qe')
           | (qe', Err e) \<Rightarrow> Inr (qe', Err e)
           | (qe', Panic k) \<Rightarrow> Inr (qe', Panic k)
           | (qe', UB) \<Rightarrow> Inr (qe', UB))"

fun rx_steps ::
  "'q queue_ops \<Rightarrow> (u16 \<Rightarrow> u16 \<Rightarrow> u16 \<Rightarrow> 'e \<Rightarrow> u16 \<times> ptr list \<times> 'e) \<Rightarrow> (ptr \<Rightarrow> 'e \<Rightarrow> 'e) \<Rightarrow>
   ('r \<Rightarrow> (unit + unit option) \<times> 'r) \<Rightarrow> port_queue list \<Rightarrow> nat \<Rightarrow> rx_point \<times> 'r \<times> 'q \<times> 'e \<Rightarrow>
   (rx_point \<times> 'r \<times> 'q \<times> 'e) + (('q \<times> 'e) \<times> (failure, unit) outcome)" where
  "rx_steps ops rx_burst pktmbuf_free try_recv ports 0 st = Inl st"
| "rx_steps ops rx_burst pktmbuf_free try_recv ports (Suc n) st =
     (case rx_step ops rx_burst pktmbuf_free try_recv ports st of
        Inl st' \<Rightarrow> rx_steps ops rx_burst pktmbuf_free try_recv ports n st'
      | Inr res \<Rightarrow> Inr res)"

definition rx_main_after ::
  "'q queue_ops \<Rightarrow> (u16 \<Rightarrow> u16 \<Rightarrow> u16 \<Rightarrow> 'e \<Rightarrow> u16 \<times> ptr list \<times> 'e) \<Rightarrow> (ptr \<Rightarrow> 'e \<Rightarrow> 'e) \<Rightarrow>
   ('r \<Rightarrow> (unit + unit option) \<times> 'r) \<Rightarrow> port_queue list option \<Rightarrow> nat \<Rightarrow> 'r \<Rightarrow> 'q \<times> 'e \<Rightarrow>
   (rx_point \<times> 'r \<times> 'q \<times> 'e) + (('q \<times> 'e) \<times> (failure, unit) outcome)" where
  "rx_main_after ops rx_burst pktmbuf_free try_recv PORTS n receiver qe =
     (case PORTS of
        None \<Rightarrow> Inr (qe, Panic UnwrapFailed)
      | Some ports \<Rightarrow> rx_steps ops rx_burst pktmbuf_free try_recv ports n (LoopHead, receiver, qe))"

section \<open>Processing\<close>

text \<open>How the processing of a packet ends; \<open>Stuck\<close> blocks for ever.\<close>

datatype 'a run = Done 'a | Failed panic | Stuck | Undefined

text \<open>\<open>tx_to_clients\<close> is \<open>unimplemented!()\<close>.\<close>

definition tx_to_clients :: "mbuf \<Rightarrow> unit run" where
  "tx_to_clients mb = Failed NotImplemented"

text \<open>
  The body of the loop over the packets of a batch. The globals \<open>PORTMAP\<close> and
  \<open>FORWARDING_TABLE\<close> are \<open>None\<close> until they are set.
\<close>

type_synonym 'pm tables = "'pm option \<times> routing_table option"

definition forward_mbuf ::
  "reentry \<Rightarrow> (u16, five_tuple, 'pm) chashmap_ops \<Rightarrow> u16 \<Rightarrow> five_tuple \<Rightarrow> mbuf \<Rightarrow> 'pm tables \<Rightarrow>
   'pm tables \<times> unit run" where
  "forward_mbuf r pops pnum tuple mb t =
     (case t of
        (None, table) \<Rightarrow> (t, Failed UnwrapFailed)
      | (Some portmap, table) \<Rightarrow>
          (let pm' = snd (cm_insert pops pnum tuple portmap)
           in case table of
                None \<Rightarrow> ((Some pm', None), Failed UnwrapFailed)
              | Some forwarding_table \<Rightarrow>
                  (case add r (get_d_mac tuple) (get_d_ip tuple) forwarding_table of
                     (table', Return _) \<Rightarrow> ((Some pm', Some table'), tx_to_clients mb)
                   | (table', Panics) \<Rightarrow> ((Some pm', Some table'), Failed UnwrapFailed)
                   | (table', Blocks) \<Rightarrow> ((Some pm', Some table'), Stuck))))"

definition process_mbuf ::
  "reentry \<Rightarrow> (u16, five_tuple, 'pm) chashmap_ops \<Rightarrow> heap \<Rightarrow> u16 \<Rightarrow> mbuf \<Rightarrow> 'pm tables \<Rightarrow>
   'pm tables \<times> unit run" where
  "process_mbuf r pops h pnum mb t =
     (case h (inner_ptr (inner mb)) of
        None \<Rightarrow> (t, Undefined)
      | Some m \<Rightarrow>
          (case (extract_five_tuple m :: (failure, five_tuple) outcome) of
             Ok tuple \<Rightarrow> forward_mbuf r pops pnum tuple mb t
           | Err e \<Rightarrow> (t, Undefined)
           | Panic k \<Rightarrow> (t, Failed k)
           | UB \<Rightarrow> (t, Undefined)))"

fun process_batch ::
  "reentry \<Rightarrow> (u16, five_tuple, 'pm) chashmap_ops \<Rightarrow> heap \<Rightarrow> u16 \<Rightarrow> mbuf list \<Rightarrow> 'pm tables \<Rightarrow>
   'pm tables \<times> unit run" where
  "process_batch r pops h pnum [] t = (t, Done ())"
| "process_batch r pops h pnum (mb # mbs) t =
     (case process_mbuf r pops h pnum mb t of
        (t', Done _) \<Rightarrow> process_batch r pops h pnum mbs t'
      | (t', other) \<Rightarrow> (t', other))"

partial_function (option) process_packets ::
  "'q queue_ops \<Rightarrow> reentry \<Rightarrow> (u16, five_tuple, 'pm) chashmap_ops \<Rightarrow> heap \<Rightarrow> 'q \<Rightarrow> 'pm tables \<Rightarrow>
   (('q \<times> 'pm tables) \<times> unit run) option" where
  "process_packets ops r pops h q t =
     (if aq_is_empty ops q then Some ((q, t), Done ())
      else case aq_pop ops q of
             (None, q') \<Rightarrow> process_packets ops r pops h q' t
           | (Some elem, q') \<Rightarrow>
               (case process_batch r pops h (portid elem) (buf elem) t of
                  (t', Done _) \<Rightarrow> process_packets ops r pops h q' t'
                | (t', other) \<Rightarrow> Some ((q', t'), other)))"

section \<open>Lemmas\<close>

text \<open>What DPDK documents of \<open>rte_eth_rx_burst\<close>.\<close>

definition rx_contract :: "(u16 \<Rightarrow> u16 \<Rightarrow> u16 \<Rightarrow> 'e \<Rightarrow> u16 \<times> ptr list \<times> 'e) \<Rightarrow> bool" where
  "rx_contract rx_burst \<longleftrightarrow>
     (\<forall>port queue n e. case rx_burst port queue n e of
        (len, ptrs, e') \<Rightarrow> len \<le> n \<and> length ptrs = unat len \<and> 0 \<notin> set ptrs)"

lemma receive_contract:
  assumes "rx_contract rx_burst"
  shows "\<exists>e' ms. receive rx_burst q e = (e', Ok ms :: (failure, mbuf list) outcome) \<and> length ms \<le> 32"
proof -
  obtain len ptrs e' where b: "rx_burst (port_raw (queue_port q)) (rxq_raw (rxq q)) 32 e = (len, ptrs, e')"
    by (metis prod.exhaust)
  from assms have "case rx_burst (port_raw (queue_port q)) (rxq_raw (rxq q)) 32 e of
      (len, ptrs, e') \<Rightarrow> len \<le> 32 \<and> length ptrs = unat len \<and> 0 \<notin> set ptrs"
    unfolding rx_contract_def by (elim allE)
  with b have c: "len \<le> 32" "length ptrs = unat len" "0 \<notin> set ptrs" by simp_all
  from c(1) have "unat len \<le> 32" by (simp add: word_le_nat_alt)
  with c b have "receive rx_burst q e = (e', Ok (map mbuf_from_ptr ptrs) :: (failure, mbuf list) outcome)"
    by (simp add: receive_def RX_BURST_MAX_def)
  with c(2) \<open>unat len \<le> 32\<close> show ?thesis by simp
qed

text \<open>
  The steps and the loops agree: \<open>rx_main\<close> returns with a result exactly if it has returned with
  it after some number of steps.
\<close>

lemma rx_steps_add:
  "rx_steps ops rx fr tr ports (m + n) st =
     (case rx_steps ops rx fr tr ports m st of
        Inl st' \<Rightarrow> rx_steps ops rx fr tr ports n st' | Inr res \<Rightarrow> Inr res)"
  by (induction m arbitrary: st) (auto split: sum.splits)

lemma fill_queue_steps:
  assumes "fill_queue ops rx fr ports qe = Some (qe', r)"
  shows "\<exists>n. rx_steps ops rx fr tr ports n (FillHead, rc, qe) =
    (case r of Ok _ \<Rightarrow> Inl (LoopHead, rc, qe') | _ \<Rightarrow> Inr (qe', r))"
proof -
  let ?P = "\<lambda>ops rx fr ports qe y. \<exists>n. rx_steps ops rx fr tr ports n (FillHead, rc, qe) =
    (case snd y of Ok _ \<Rightarrow> Inl (LoopHead, rc, fst y) | _ \<Rightarrow> Inr y)"
  have "?P ops rx fr ports qe (qe', r)"
  proof (rule fill_queue.raw_induct [where P = ?P, OF _ assms])
    fix f ops rx fr ports qe y
    assume IH: "\<And>ops rx fr ports qe y. f ops rx fr ports qe = Some y \<Longrightarrow> ?P ops rx fr ports qe y"
      and body: "(if aq_is_full ops (fst qe) then Some (qe, Ok ())
        else case rx_pass ops rx fr ports qe of
               (qe', Ok _) \<Rightarrow> f ops rx fr ports qe'
             | (qe', Err e) \<Rightarrow> Some (qe', Err e)
             | (qe', Panic k) \<Rightarrow> Some (qe', Panic k)
             | (qe', UB) \<Rightarrow> Some (qe', UB)) = Some y"
    show "?P ops rx fr ports qe y"
    proof (cases "aq_is_full ops (fst qe)")
      case True
      with body show ?thesis by (intro exI [of _ 1]) auto
    next
      case False
      obtain qe1 r1 where p: "rx_pass ops rx fr ports qe = (qe1, r1)" by fastforce
      show ?thesis
      proof (cases r1)
        case (Ok u)
        with body p False have "f ops rx fr ports qe1 = Some y" by simp
        from IH [OF this] obtain n where "rx_steps ops rx fr tr ports n (FillHead, rc, qe1) =
          (case snd y of Ok _ \<Rightarrow> Inl (LoopHead, rc, fst y) | _ \<Rightarrow> Inr y)" by blast
        with p False Ok show ?thesis by (intro exI [of _ "Suc n"]) simp
      qed (use body p False in \<open>auto intro!: exI [of _ 1]\<close>)
    qed
  qed
  then show ?thesis by (simp only: fst_conv snd_conv)
qed

lemma rx_loop_steps:
  assumes "rx_loop ops rx fr tr ports rc qe = Some y"
  shows "\<exists>n. rx_steps ops rx fr tr ports n (LoopHead, rc, qe) = Inr y"
proof -
  let ?P = "\<lambda>ops rx fr tr ports rc qe y. \<exists>n. rx_steps ops rx fr tr ports n (LoopHead, rc, qe) = Inr y"
  show ?thesis
  proof (rule rx_loop.raw_induct [where P = ?P, OF _ assms])
    fix f ops rx fr tr ports rc qe y
    assume IH: "\<And>ops rx fr tr ports rc qe y. f ops rx fr tr ports rc qe = Some y \<Longrightarrow> ?P ops rx fr tr ports rc qe y"
      and body: "(case tr rc of
          (Inl _, rc') \<Rightarrow> Option.bind (fill_queue ops rx fr ports qe) (\<lambda>(qe', r).
            case r of Ok _ \<Rightarrow> f ops rx fr tr ports rc' qe' | Err e \<Rightarrow> Some (qe', Err e)
            | Panic k \<Rightarrow> Some (qe', Panic k) | UB \<Rightarrow> Some (qe', UB))
        | (Inr _, rc') \<Rightarrow> Some (qe, Ok ())) = Some y"
    obtain sig rc' where t: "tr rc = (sig, rc')" by fastforce
    show "?P ops rx fr tr ports rc qe y"
    proof (cases sig)
      case (Inr signal)
      with body t show ?thesis by (intro exI [of _ 1]) auto
    next
      case (Inl u)
      with body t obtain qe' r where fill: "fill_queue ops rx fr ports qe = Some (qe', r)"
        by (auto simp: bind_eq_Some_conv)
      obtain m where m: "rx_steps ops rx fr tr ports m (FillHead, rc', qe) =
          (case r of Ok _ \<Rightarrow> Inl (LoopHead, rc', qe') | _ \<Rightarrow> Inr (qe', r))"
        using fill_queue_steps [OF fill, of tr rc'] by (elim exE)
      show ?thesis
      proof (cases r)
        case (Ok u)
        with body t fill Inl have "f ops rx fr tr ports rc' qe' = Some y" by simp
        from IH [OF this] obtain n where "rx_steps ops rx fr tr ports n (LoopHead, rc', qe') = Inr y" by blast
        with m t Inl Ok show ?thesis by (intro exI [of _ "Suc (m + n)"]) (simp add: rx_steps_add)
      qed (use body t fill Inl m in \<open>auto intro!: exI [of _ "Suc m"]\<close>)
    qed
  qed
qed

lemma rx_steps_loop:
  "rx_steps ops rx fr tr ports n (LoopHead, rc, qe) = Inr y \<Longrightarrow> rx_loop ops rx fr tr ports rc qe = Some y"
  "rx_steps ops rx fr tr ports n (FillHead, rc, qe) = Inr y \<Longrightarrow>
     Option.bind (fill_queue ops rx fr ports qe) (\<lambda>(qe', r).
       case r of Ok _ \<Rightarrow> rx_loop ops rx fr tr ports rc qe' | Err e \<Rightarrow> Some (qe', Err e)
       | Panic k \<Rightarrow> Some (qe', Panic k) | UB \<Rightarrow> Some (qe', UB)) = Some y"
proof (induction n arbitrary: rc qe)
  case (Suc n)
  {
    case 1
    obtain sig rc' where t: "tr rc = (sig, rc')" by fastforce
    from 1 Suc.IH(2) [of rc' qe] show ?case
      by (cases sig) (simp_all add: t rx_loop.simps [of ops rx fr tr ports rc qe])
  next
    case 2
    obtain qe1 r1 where p: "rx_pass ops rx fr ports qe = (qe1, r1)" by fastforce
    from 2 Suc.IH(1) [of rc qe] Suc.IH(2) [of rc qe1] show ?case
      by (cases "aq_is_full ops (fst qe)"; cases r1) (auto simp: p fill_queue.simps [of ops rx fr ports qe])
  }
qed simp_all

lemma rx_main_after_iff:
  "rx_main ops rx fr tr PORTS rc qe = Some y \<longleftrightarrow> (\<exists>n. rx_main_after ops rx fr tr PORTS n rc qe = Inr y)"
proof (cases PORTS)
  case None
  then show ?thesis by (simp add: rx_main_def rx_main_after_def)
next
  case (Some ports)
  have "rx_loop ops rx fr tr ports rc qe = Some y \<longleftrightarrow>
      (\<exists>n. rx_steps ops rx fr tr ports n (LoopHead, rc, qe) = Inr y)"
    by (rule iffI, erule rx_loop_steps, elim exE, erule rx_steps_loop(1))
  with Some show ?thesis by (simp add: rx_main_def rx_main_after_def)
qed

lemma forward_mbuf_never_done: "snd (forward_mbuf r pops pnum tuple mb (pm, table)) \<noteq> Done x"
proof (cases pm)
  case None
  then show ?thesis by (simp add: forward_mbuf_def)
next
  case pm: (Some m)
  show ?thesis
  proof (cases table)
    case None
    with pm show ?thesis by (simp add: forward_mbuf_def Let_def)
  next
    case (Some tb)
    obtain table' res where a: "add r (get_d_mac tuple) (get_d_ip tuple) tb = (table', res)"
      by (rule prod.exhaust)
    show ?thesis by (cases res) (simp_all add: forward_mbuf_def tx_to_clients_def Let_def pm Some a)
  qed
qed

lemma process_mbuf_never_done: "snd (process_mbuf r pops h pnum mb t) \<noteq> Done x"
proof (cases "h (inner_ptr (inner mb))")
  case None
  then show ?thesis by (simp add: process_mbuf_def)
next
  case (Some m)
  then show ?thesis
    by (cases "extract_five_tuple m :: (failure, five_tuple) outcome")
      (cases t, simp add: process_mbuf_def forward_mbuf_never_done)+
qed

lemma process_batch_done:
  "snd (process_batch r pops h pnum mbs t) = Done () \<longleftrightarrow> mbs = []"
  "mbs = [] \<Longrightarrow> process_batch r pops h pnum mbs t = (t, Done ())"
proof -
  show "snd (process_batch r pops h pnum mbs t) = Done () \<longleftrightarrow> mbs = []"
  proof (cases mbs)
    case (Cons mb ms)
    obtain t' res where "process_mbuf r pops h pnum mb t = (t', res)" by fastforce
    with Cons process_mbuf_never_done [of r pops h pnum mb t] show ?thesis
      by (cases res) auto
  qed simp
qed simp

context array_queue
begin

lemma pop_cases:
  assumes "items q = x # xs"
  obtains q' where "aq_pop ops q = (Some x, q')" "items q' = xs"
proof -
  obtain r q' where "aq_pop ops q = (r, q')" by fastforce
  with pop [OF this] assms show ?thesis by (intro that [of q']) auto
qed

lemma process_packets_outcome:
  "\<exists>q' t' res. process_packets ops r pops h q t = Some ((q', t'), res) \<and>
    (if list_all (\<lambda>b. buf b = []) (items q) then res = Done () \<and> items q' = [] \<and> t' = t
     else res \<noteq> Done ())"
proof (induction "items q" arbitrary: q)
  case Nil
  then show ?case by (simp add: process_packets.simps [of ops r pops h q] is_empty)
next
  case (Cons x xs)
  obtain q' where q': "aq_pop ops q = (Some x, q')" "items q' = xs"
    using pop_cases Cons.hyps(2) by metis
  note step = process_packets.simps [of ops r pops h q t] is_empty [of q] q'(1) Cons.hyps(2) [symmetric]
  obtain t' res where b: "process_batch r pops h (portid x) (buf x) t = (t', res)" by fastforce
  show ?case
  proof (cases "buf x = []")
    case True
    with process_batch_done(2) [of "buf x" r pops h "portid x" t] b have "t' = t" "res = Done ()" by simp_all
    with Cons.hyps(1) [of q'] q'(2) b step True show ?thesis by auto
  next
    case False
    then have "res \<noteq> Done ()" using process_batch_done(1) [of r pops h "portid x" "buf x" t] b by simp
    with b step False show ?thesis by (cases res) auto
  qed
qed

lemma rx_pass_outcome:
  assumes "rx_contract rx_burst"
  shows "\<exists>q' e' bs. rx_pass ops rx_burst pktmbuf_free ports (q, e) = ((q', e'), Ok ()) \<and>
    items q' = items q @ bs \<and> length bs = min (length ports) (capacity - length (items q)) \<and>
    list_all (\<lambda>b. portid b \<in> get_portid ` set ports \<and> length (buf b) \<le> 32) bs"
proof (induction ports arbitrary: q e)
  case (Cons port ports)
  obtain e1 ms where r: "receive rx_burst port e = (e1, Ok ms :: (failure, mbuf list) outcome)" "length ms \<le> 32"
    using receive_contract [OF assms] by blast
  let ?b = "\<lparr>portid = get_portid port, buf = ms\<rparr>"
  obtain ok q1 where p: "aq_push ops ?b q = (ok, q1)" by fastforce
  note push [OF p]
  moreover obtain q' e' bs where "rx_pass ops rx_burst pktmbuf_free ports
      (q1, if ok then e1 else fold (mbuf_drop pktmbuf_free) ms e1) = ((q', e'), Ok ())"
    "items q' = items q1 @ bs" "length bs = min (length ports) (capacity - length (items q1))"
    "list_all (\<lambda>b. portid b \<in> get_portid ` set ports \<and> length (buf b) \<le> 32) bs"
    using Cons.IH by blast
  ultimately show ?case
    using r p by (intro exI [of _ q'] exI [of _ e'] exI [of _ "(if ok then [?b] else []) @ bs"])
      (auto simp: list_all_iff)
qed simp

lemma fill_queue_outcome:
  assumes "rx_contract rx_burst" "ports \<noteq> []"
  shows "\<exists>q' e' bs. fill_queue ops rx_burst pktmbuf_free ports (q, e) = Some ((q', e'), Ok ()) \<and>
    items q' = items q @ bs \<and> length bs = capacity - length (items q) \<and>
    list_all (\<lambda>b. portid b \<in> get_portid ` set ports \<and> length (buf b) \<le> 32) bs"
proof (induction "capacity - length (items q)" arbitrary: q e rule: less_induct)
  case less
  note step = fill_queue.simps [of ops rx_burst pktmbuf_free ports "(q, e)"] is_full [of q]
  show ?case
  proof (cases "capacity \<le> length (items q)")
    case True
    with step show ?thesis by simp
  next
    case False
    obtain q1 e1 bs where p: "rx_pass ops rx_burst pktmbuf_free ports (q, e) = ((q1, e1), Ok ())"
      and b: "items q1 = items q @ bs" "length bs = min (length ports) (capacity - length (items q))"
        "list_all (\<lambda>b. portid b \<in> get_portid ` set ports \<and> length (buf b) \<le> 32) bs"
      using rx_pass_outcome [OF assms(1)] by blast
    have "0 < length ports" using assms(2) by simp
    with False b(2) have "0 < length bs" by simp
    moreover have "length (items q1) = length (items q) + length bs" using b(1) by simp
    ultimately have "capacity - length (items q1) < capacity - length (items q)" using False by linarith
    from less.hyps [OF this, of e1] obtain q' e' cs
      where "fill_queue ops rx_burst pktmbuf_free ports (q1, e1) = Some ((q', e'), Ok ())"
        "items q' = items q1 @ cs" "length cs = capacity - length (items q1)"
        "list_all (\<lambda>b. portid b \<in> get_portid ` set ports \<and> length (buf b) \<le> 32) cs"
      by blast
    with step False p b show ?thesis
      by (intro exI [of _ q'] exI [of _ e'] exI [of _ "bs @ cs"]) auto
  qed
qed

lemma rx_loop_cancelled:
  assumes "rx_contract rx_burst" "ports \<noteq> []" "try_recv receiver = (Inl (), receiver)"
  shows "rx_loop ops rx_burst pktmbuf_free try_recv ports receiver qe = None"
proof (rule ccontr)
  let ?P = "\<lambda>o' rx fr tr ps rc qe y.
    \<not> (o' = ops \<and> rx_contract rx \<and> ps \<noteq> [] \<and> tr rc = (Inl (), rc))"
  assume "rx_loop ops rx_burst pktmbuf_free try_recv ports receiver qe \<noteq> None"
  then obtain y where y: "rx_loop ops rx_burst pktmbuf_free try_recv ports receiver qe = Some y" by blast
  have "?P ops rx_burst pktmbuf_free try_recv ports receiver qe y"
  proof (rule rx_loop.raw_induct [where P = ?P, OF _ y])
    fix f o' rx fr tr ps rc qe z
    assume IH: "\<And>o' rx fr tr ps rc qe z. f o' rx fr tr ps rc qe = Some z \<Longrightarrow> ?P o' rx fr tr ps rc qe z"
      and body: "(case tr rc of
          (Inl _, rc') \<Rightarrow> Option.bind (fill_queue o' rx fr ps qe) (\<lambda>(qe', r).
            case r of Ok _ \<Rightarrow> f o' rx fr tr ps rc' qe' | Err e \<Rightarrow> Some (qe', Err e)
            | Panic k \<Rightarrow> Some (qe', Panic k) | UB \<Rightarrow> Some (qe', UB))
        | (Inr _, rc') \<Rightarrow> Some (qe, Ok ())) = Some z"
    show "?P o' rx fr tr ps rc qe z"
    proof
      assume a: "o' = ops \<and> rx_contract rx \<and> ps \<noteq> [] \<and> tr rc = (Inl (), rc)"
      obtain q e where qe: "qe = (q, e)" by fastforce
      obtain q' e' where "fill_queue ops rx fr ps (q, e) = Some ((q', e'), Ok ())"
        using fill_queue_outcome [of rx ps fr q e] a by (elim conjE exE) auto
      with body a qe have "f ops rx fr tr ps rc (q', e') = Some z" by simp
      from IH [OF this] a show False by simp
    qed
  qed
  with assms show False by simp
qed

text \<open>The steps of a loop whose sender is gone: with a full queue it spins, until then it fills it.\<close>

lemma rx_steps_full:
  assumes "try_recv receiver = (Inl (), receiver)" "capacity \<le> length (items q)"
  shows "\<exists>pc'. rx_steps ops rx_burst pktmbuf_free try_recv ports n (pc, receiver, (q, e)) =
    Inl (pc', receiver, (q, e))"
proof (induction n arbitrary: pc)
  case (Suc n)
  with assms show ?case by (cases pc) (simp_all add: is_full)
qed simp

lemma rx_steps_cancelled:
  assumes "rx_contract rx_burst" "ports \<noteq> []" "try_recv receiver = (Inl (), receiver)"
  shows "\<exists>pc' q' e' bs. rx_steps ops rx_burst pktmbuf_free try_recv ports n (pc, receiver, (q, e)) =
      Inl (pc', receiver, (q', e')) \<and>
    items q' = items q @ bs \<and> length bs \<le> capacity - length (items q) \<and>
    list_all (\<lambda>b. portid b \<in> get_portid ` set ports \<and> length (buf b) \<le> 32) bs \<and>
    (capacity - length (items q) + (if pc = LoopHead then 1 else 0) \<le> n \<longrightarrow>
      fill_queue ops rx_burst pktmbuf_free ports (q, e) = Some ((q', e'), Ok ()) \<and>
      length bs = capacity - length (items q))"
proof (induction n arbitrary: pc q e)
  case 0
  then show ?case by (cases pc) (simp_all add: is_full fill_queue.simps [of ops rx_burst pktmbuf_free ports "(q, e)"])
next
  case (Suc n)
  note step = fill_queue.simps [of ops rx_burst pktmbuf_free ports "(q, e)"] is_full [of q]
  show ?case
  proof (cases "capacity \<le> length (items q)")
    case True
    with rx_steps_full [of try_recv receiver q rx_burst pktmbuf_free ports "Suc n" pc e] assms(3) step
    show ?thesis by auto
  next
    case False
    show ?thesis
    proof (cases pc)
      case LoopHead
      with Suc.IH [of FillHead q e] assms(3) show ?thesis by simp
    next
      case FillHead
      obtain q1 e1 bs where p: "rx_pass ops rx_burst pktmbuf_free ports (q, e) = ((q1, e1), Ok ())"
        and b: "items q1 = items q @ bs" "length bs = min (length ports) (capacity - length (items q))"
          "list_all (\<lambda>b. portid b \<in> get_portid ` set ports \<and> length (buf b) \<le> 32) bs"
        using rx_pass_outcome [OF assms(1)] by blast
      have "0 < length bs" using assms(2) b(2) False by (cases ports) simp_all
      obtain pc' q' e' cs where
        i: "rx_steps ops rx_burst pktmbuf_free try_recv ports n (FillHead, receiver, (q1, e1)) =
            Inl (pc', receiver, (q', e'))"
          "items q' = items q1 @ cs" "length cs \<le> capacity - length (items q1)"
          "list_all (\<lambda>b. portid b \<in> get_portid ` set ports \<and> length (buf b) \<le> 32) cs"
        and f: "capacity - length (items q1) \<le> n \<Longrightarrow>
          fill_queue ops rx_burst pktmbuf_free ports (q1, e1) = Some ((q', e'), Ok ()) \<and>
          length cs = capacity - length (items q1)"
        using Suc.IH [of FillHead q1 e1] by auto
      have "rx_steps ops rx_burst pktmbuf_free try_recv ports (Suc n) (pc, receiver, (q, e)) =
          Inl (pc', receiver, (q', e'))"
        using FillHead False step(2) p i(1) by simp
      moreover have "fill_queue ops rx_burst pktmbuf_free ports (q, e) = Some ((q', e'), Ok ()) \<and>
          length (bs @ cs) = capacity - length (items q)" if "capacity - length (items q) \<le> Suc n"
      proof -
        have "length (items q1) = length (items q) + length bs" using b(1) by simp
        with that \<open>0 < length bs\<close> have "capacity - length (items q1) \<le> n" by linarith
        from f [OF this] show ?thesis using step False p b(1,2) by simp
      qed
      moreover have "length (bs @ cs) \<le> capacity - length (items q)" using b(1,2) i(3) by simp
      ultimately show ?thesis
        using FillHead b i(2,4) by (intro exI [of _ pc'] exI [of _ q'] exI [of _ e'] exI [of _ "bs @ cs"]) simp
    qed
  qed
qed

end

section \<open>Properties\<close>

text \<open>
  C34: \<open>fill_queue\<close>, the inner loop of \<open>rx_main\<close>, terminates for at least one port: it
  appends batches until the queue is exactly full, keeps what was in the queue, and every
  batch carries the number of one of the ports and at most 32 packets.
\<close>

theorem fill_queue_fills:
  assumes "array_queue ops items capacity" "rx_contract rx_burst" "ports \<noteq> []"
  shows "\<exists>q' e' bs. fill_queue ops rx_burst pktmbuf_free ports (q, e) = Some ((q', e'), Ok ()) \<and>
    items q' = items q @ bs \<and> length bs = capacity - length (items q) \<and>
    list_all (\<lambda>b. portid b \<in> get_portid ` set ports \<and> length (buf b) \<le> 32) bs"
  by (rule array_queue.fill_queue_outcome [OF assms])

text \<open>A device that never has a packet.\<close>

definition idle_burst :: "u16 \<Rightarrow> u16 \<Rightarrow> u16 \<Rightarrow> unit \<Rightarrow> u16 \<times> ptr list \<times> unit" where
  "idle_burst port queue n e = (0, [], e)"

lemma idle_burst_contract: "rx_contract idle_burst"
  by (simp add: rx_contract_def idle_burst_def)

theorem fill_queue_fills_witness:
  "\<exists>q' e'. fill_queue (list_queue 3) idle_burst (\<lambda>_ e. e) [sample_queue] ([], ()) = Some ((q', e'), Ok ())
     \<and> length q' = 3"
  using fill_queue_fills [OF list_queue.array_queue_axioms [of 3] idle_burst_contract,
      where ports = "[sample_queue]" and pktmbuf_free = "\<lambda>_ e. e" and q = "[]" and e = "()"]
  by auto

text \<open>
  \<open>rx_main\<close> never runs as intended. As long as the sender of the stop signal exists,
  \<open>try_recv\<close> answers \<open>Ok\<close>, and \<open>rx_main\<close> returns at once without asking any port for a
  packet. When the sender is gone, \<open>rx_main\<close> never returns.
\<close>

lemma rx_main_stops_or_hangs:
  assumes "array_queue ops items capacity" "rx_contract rx_burst" "ports \<noteq> []"
  shows "(\<forall>signal receiver'. try_recv receiver = (Inr signal, receiver') \<longrightarrow>
      rx_main ops rx_burst pktmbuf_free try_recv (Some ports) receiver qe = Some (qe, Ok ())) \<and>
    (try_recv receiver = (Inl (), receiver) \<longrightarrow>
      rx_main ops rx_burst pktmbuf_free try_recv (Some ports) receiver qe = None)"
proof (intro conjI allI impI)
  fix signal receiver'
  assume "try_recv receiver = (Inr signal, receiver')"
  then show "rx_main ops rx_burst pktmbuf_free try_recv (Some ports) receiver qe = Some (qe, Ok ())"
    by (simp add: rx_main_def rx_loop.simps [of ops rx_burst pktmbuf_free try_recv ports receiver qe])
next
  assume "try_recv receiver = (Inl (), receiver)"
  then show "rx_main ops rx_burst pktmbuf_free try_recv (Some ports) receiver qe = None"
    using array_queue.rx_loop_cancelled [OF assms] by (simp add: rx_main_def)
qed

lemma rx_main_stops_or_hangs_witness:
  "rx_main (list_queue 3) idle_burst (\<lambda>_ e. e) (\<lambda>r. (r, r)) (Some [sample_queue]) (Inr None) ([], ())
     = Some (([], ()), Ok ())
   \<and> rx_main (list_queue 3) idle_burst (\<lambda>_ e. e) (\<lambda>r. (r, r)) (Some [sample_queue]) (Inl ()) ([], ()) = None"
  using rx_main_stops_or_hangs [OF list_queue.array_queue_axioms [of 3] idle_burst_contract,
      where ports = "[sample_queue]" and pktmbuf_free = "\<lambda>_ e. e" and try_recv = "\<lambda>r. (r, r)"
        and receiver = "Inr None" and qe = "([], ())"]
    rx_main_stops_or_hangs [OF list_queue.array_queue_axioms [of 3] idle_burst_contract,
      where ports = "[sample_queue]" and pktmbuf_free = "\<lambda>_ e. e" and try_recv = "\<lambda>r. (r, r)"
        and receiver = "Inl ()" and qe = "([], ())"]
  by simp

text \<open>
  C32: \<open>process_packets\<close> drains a queue of empty batches and returns; if the queue holds
  any packet it does not return normally: the five-tuple is undefined for it, a global is
  not set, the routing table blocks or panics, or \<open>tx_to_clients\<close> is reached, which is
  not implemented.
\<close>

theorem process_packets_spec:
  assumes "array_queue ops items capacity"
  shows "\<exists>q' t' res. process_packets ops r pops h q t = Some ((q', t'), res) \<and>
    (if list_all (\<lambda>b. buf b = []) (items q) then res = Done () \<and> items q' = [] \<and> t' = t
     else res \<noteq> Done ())"
  by (rule array_queue.process_packets_outcome [OF assms])

theorem process_packets_spec_witness:
  "\<exists>q' t' res. process_packets (list_queue 3) DeadlockOnReentry map_ops Map.empty
       [\<lparr>portid = 0, buf = []\<rparr>, \<lparr>portid = 1, buf = [mbuf_from_ptr 5]\<rparr>] (None, None) = Some ((q', t'), res)
     \<and> res \<noteq> Done ()"
  using process_packets_spec [OF list_queue.array_queue_axioms [of 3], where r = DeadlockOnReentry
      and pops = map_ops and h = Map.empty and t = "(None, None)"
      and q = "[\<lparr>portid = 0, buf = []\<rparr>, \<lparr>portid = 1, buf = [mbuf_from_ptr 5]\<rparr>]"]
  by auto

end
