(* ===== verification/Work_Horse.thy ===== *)
theory Work_Horse
  imports Engine_Data
begin

text \<open>
  \<open>Engine::work_horse\<close> of \<open>engine/src/runtime/engine.rs\<close>: the function of a worker thread,
  which runs \<open>rx_main\<close>, \<open>process_packets\<close> and \<open>check_n_set_client_status\<close> as futures on one
  thread. The executor (\<open>futures::executor::LocalPool\<close>) comes from a package. It is modelled
  by the order in which it polls the tasks, an argument: a list of rounds, with the result
  of \<open>rx_main\<close> looked at before the first round and after each one. Spawning on a
  pool that exists does not fail.

  \<open>rx_main\<close> and \<open>process_packets\<close> have no \<open>await\<close>, so one poll runs each of them to its end;
  \<open>check_n_set_client_status\<close> waits for its sleep first. A poll of \<open>rx_main\<close> need not end: the
  order says after how many steps of its loops it is looked at. \<open>Stuck\<close> is a thread that has
  not returned by then, with the state it has at that moment; it never returns if it is \<open>Stuck\<close> for
  every number of steps.
\<close>

section \<open>State\<close>

text \<open>
  A poll of one of the three tasks: the number of steps after the first look at the stop signal,
  and the flag that says whether the sleep is over by then.
\<close>

datatype task_poll = PollRx nat | PollProcess | PollCheck bool

text \<open>The first poll of the receiving task.\<close>

fun first_rx :: "task_poll list \<Rightarrow> nat option" where
  "first_rx [] = None"
| "first_rx (PollRx n # ps) = Some n"
| "first_rx (PollProcess # ps) = first_rx ps"
| "first_rx (PollCheck elapsed # ps) = first_rx ps"

datatype 'r rx_task = Waiting 'r | Finished "unit run"

record ('q, 'e, 'r, 'pm, 'sm, 'rm, 's) worker =
  worker_packets :: 'q
  worker_device :: 'e
  worker_tables :: "'pm tables"
  worker_engine :: "('sm, 'rm) engine"
  worker_env :: 's
  rx_handle :: "'r rx_task"
  process_ended :: bool
  check_ended :: bool

text \<open>What the thread uses of other packages and of the globals.\<close>

record ('q, 'e, 'r, 'pm, 'sm, 'rm, 's) host =
  host_queue :: "'q queue_ops"
  host_rx_burst :: "u16 \<Rightarrow> u16 \<Rightarrow> u16 \<Rightarrow> 'e \<Rightarrow> u16 \<times> ptr list \<times> 'e"
  host_pktmbuf_free :: "ptr \<Rightarrow> 'e \<Rightarrow> 'e"
  host_try_recv :: "'r \<Rightarrow> (unit + unit option) \<times> 'r"
  host_ports :: "port_queue list option"
  host_reentry :: reentry
  host_portmap :: "(u16, five_tuple, 'pm) chashmap_ops"
  host_heap :: heap
  host_statuses :: "(u16, client_status, 'sm) chashmap_ops"
  host_rings :: "(u16, channel, 'rm) chashmap_ops"
  host_ring_ffi :: "'s ring_ffi"
  host_zmq :: "'s zmq_ffi"
  host_errno :: dpdk_errno
  host_socket_id :: u32

section \<open>Operations\<close>

fun run_of :: "('err, 'a) outcome \<Rightarrow> unit run" where
  "run_of (Ok _) = Done ()"
| "run_of (Err _) = Done ()"
| "run_of (Panic k) = Failed k"
| "run_of UB = Undefined"

text \<open>
  A poll of the receiving task. It was spawned with a handle, which keeps a panic for the
  one who waits for the result.
\<close>

definition poll_rx ::
  "('q, 'e, 'r, 'pm, 'sm, 'rm, 's) host \<Rightarrow> nat \<Rightarrow> ('q, 'e, 'r, 'pm, 'sm, 'rm, 's) worker \<Rightarrow>
   ('q, 'e, 'r, 'pm, 'sm, 'rm, 's) worker \<times> unit run" where
  "poll_rx host n w =
     (case rx_handle w of
        Finished _ \<Rightarrow> (w, Done ())
      | Waiting receiver \<Rightarrow>
          (case rx_main_after (host_queue host) (host_rx_burst host) (host_pktmbuf_free host)
             (host_try_recv host) (host_ports host) (Suc n) receiver (worker_packets w, worker_device w) of
             Inl (_, receiver', (q, e)) \<Rightarrow>
               (w\<lparr>worker_packets := q, worker_device := e, rx_handle := Waiting receiver'\<rparr>, Stuck)
           | Inr ((q, e), r) \<Rightarrow>
               (w\<lparr>worker_packets := q, worker_device := e, rx_handle := Finished (run_of r)\<rparr>,
                if r = UB then Undefined else Done ())))"

definition poll_process ::
  "('q, 'e, 'r, 'pm, 'sm, 'rm, 's) host \<Rightarrow> ('q, 'e, 'r, 'pm, 'sm, 'rm, 's) worker \<Rightarrow>
   ('q, 'e, 'r, 'pm, 'sm, 'rm, 's) worker \<times> unit run" where
  "poll_process host w =
     (if process_ended w then (w, Done ())
      else case process_packets (host_queue host) (host_reentry host) (host_portmap host) (host_heap host)
             (worker_packets w) (worker_tables w) of
             None \<Rightarrow> (w, Stuck)
           | Some ((q, t), res) \<Rightarrow>
               (w\<lparr>worker_packets := q, worker_tables := t, process_ended := True\<rparr>, res))"

definition poll_check ::
  "('q, 'e, 'r, 'pm, 'sm, 'rm, 's) host \<Rightarrow> bool \<Rightarrow> ('q, 'e, 'r, 'pm, 'sm, 'rm, 's) worker \<Rightarrow>
   ('q, 'e, 'r, 'pm, 'sm, 'rm, 's) worker \<times> unit run" where
  "poll_check host elapsed w =
     (if check_ended w \<or> \<not> elapsed then (w, Done ())
      else case check_n_set_client_status (host_statuses host) (host_rings host) (host_ring_ffi host)
             (host_zmq host) (host_errno host) (host_socket_id host) (worker_engine w) (worker_env w) of
             (eng, s, r) \<Rightarrow>
               (w\<lparr>worker_engine := eng, worker_env := s, check_ended := True\<rparr>, run_of r))"

fun poll_task ::
  "('q, 'e, 'r, 'pm, 'sm, 'rm, 's) host \<Rightarrow> task_poll \<Rightarrow> ('q, 'e, 'r, 'pm, 'sm, 'rm, 's) worker \<Rightarrow>
   ('q, 'e, 'r, 'pm, 'sm, 'rm, 's) worker \<times> unit run" where
  "poll_task host (PollRx n) w = poll_rx host n w"
| "poll_task host PollProcess w = poll_process host w"
| "poll_task host (PollCheck elapsed) w = poll_check host elapsed w"

fun poll_round ::
  "('q, 'e, 'r, 'pm, 'sm, 'rm, 's) host \<Rightarrow> task_poll list \<Rightarrow> ('q, 'e, 'r, 'pm, 'sm, 'rm, 's) worker \<Rightarrow>
   ('q, 'e, 'r, 'pm, 'sm, 'rm, 's) worker \<times> unit run" where
  "poll_round host [] w = (w, Done ())"
| "poll_round host (p # ps) w =
     (case poll_task host p w of
        (w', Done _) \<Rightarrow> poll_round host ps w'
      | (w', other) \<Rightarrow> (w', other))"

text \<open>
  \<open>run_until\<close>: ends when the handle has a result, with its panic if it has one. An executor
  that has nothing more to poll waits for ever.
\<close>

fun run_until ::
  "('q, 'e, 'r, 'pm, 'sm, 'rm, 's) host \<Rightarrow> task_poll list list \<Rightarrow> ('q, 'e, 'r, 'pm, 'sm, 'rm, 's) worker \<Rightarrow>
   ('q, 'e, 'r, 'pm, 'sm, 'rm, 's) worker \<times> unit run" where
  "run_until host [] w =
     (case rx_handle w of Finished res \<Rightarrow> (w, res) | Waiting _ \<Rightarrow> (w, Stuck))"
| "run_until host (ps # rounds) w =
     (case rx_handle w of
        Finished res \<Rightarrow> (w, res)
      | Waiting _ \<Rightarrow>
          (case poll_round host ps w of
             (w', Done _) \<Rightarrow> run_until host rounds w'
           | (w', other) \<Rightarrow> (w', other)))"

text \<open>The thread starts with the three tasks; it returns \<open>Ok(())\<close> when it is \<open>Done\<close>.\<close>

definition work_horse ::
  "('q, 'e, 'r, 'pm, 'sm, 'rm, 's) host \<Rightarrow> task_poll list list \<Rightarrow> ('sm, 'rm) engine \<Rightarrow> 'r \<Rightarrow> 'q \<Rightarrow>
   'e \<Rightarrow> 'pm tables \<Rightarrow> 's \<Rightarrow> ('q, 'e, 'r, 'pm, 'sm, 'rm, 's) worker \<times> unit run" where
  "work_horse host rounds eng receiver mbufs e t s =
     run_until host rounds
       \<lparr>worker_packets = mbufs, worker_device = e, worker_tables = t, worker_engine = eng,
        worker_env = s, rx_handle = Waiting receiver, process_ended = False, check_ended = False\<rparr>"

section \<open>Lemmas\<close>

text \<open>The part of the state a worker without packets and messages does not touch.\<close>

definition untouched ::
  "('q \<Rightarrow> port_id_mbuf list) \<Rightarrow> 'e \<Rightarrow> 'pm tables \<Rightarrow> ('sm, 'rm) engine \<Rightarrow> 's \<Rightarrow>
   ('q, 'e, 'r, 'pm, 'sm, 'rm, 's) worker \<Rightarrow> bool" where
  "untouched items e t eng s w \<longleftrightarrow>
     worker_device w = e \<and> worker_tables w = t \<and> worker_engine w = eng \<and> worker_env w = s \<and>
     list_all (\<lambda>b. buf b = []) (items (worker_packets w))"

lemma poll_process_untouched:
  assumes "array_queue (host_queue host) items capacity" "untouched items e t eng s w"
  obtains w' where "poll_process host w = (w', Done ())" "untouched items e t eng s w'"
    "rx_handle w' = rx_handle w"
proof (cases "process_ended w")
  case True
  with assms(2) show ?thesis by (intro that [of w]) (simp_all add: poll_process_def)
next
  case False
  obtain q t' res where "process_packets (host_queue host) (host_reentry host) (host_portmap host)
      (host_heap host) (worker_packets w) (worker_tables w) = Some ((q, t'), res)"
    and "if list_all (\<lambda>b. buf b = []) (items (worker_packets w))
      then res = Done () \<and> items q = [] \<and> t' = worker_tables w else res \<noteq> Done ()"
    using array_queue.process_packets_outcome [OF assms(1)] by blast
  with False assms(2) show ?thesis
    by (intro that [of "w\<lparr>worker_packets := q, worker_tables := t, process_ended := True\<rparr>"])
      (auto simp: poll_process_def untouched_def)
qed

lemma poll_check_untouched:
  assumes "new_msg eng = None" "untouched items e t eng s w"
  obtains w' where "poll_check host elapsed w = (w', Done ())" "untouched items e t eng s w'"
    "rx_handle w' = rx_handle w"
proof (cases "check_ended w \<or> \<not> elapsed")
  case True
  with assms(2) show ?thesis by (intro that [of w]) (simp_all add: poll_check_def)
next
  case False
  with assms show ?thesis
    by (intro that [of "w\<lparr>worker_engine := eng, worker_env := s, check_ended := True\<rparr>"])
      (auto simp: poll_check_def untouched_def check_n_set_client_status_def)
qed

text \<open>
  What a worker has done whose receiving task was polled after the sender was gone: it has put
  batches of the ports behind a queue without packets, at most up to the capacity, and after
  enough steps it has done what \<open>fill_queue\<close> does.
\<close>

definition received ::
  "('q, 'e, 'r, 'pm, 'sm, 'rm, 's) host \<Rightarrow> ('q \<Rightarrow> port_id_mbuf list) \<Rightarrow> nat \<Rightarrow> port_queue list \<Rightarrow> nat \<Rightarrow> 'e \<Rightarrow>
   'pm tables \<Rightarrow> ('sm, 'rm) engine \<Rightarrow> 's \<Rightarrow> ('q, 'e, 'r, 'pm, 'sm, 'rm, 's) worker \<Rightarrow> bool" where
  "received host items capacity ports n e t eng s w \<longleftrightarrow>
     worker_tables w = t \<and> worker_engine w = eng \<and> worker_env w = s \<and>
     (\<exists>q bs. list_all (\<lambda>b. buf b = []) (items q) \<and> items (worker_packets w) = items q @ bs \<and>
       list_all (\<lambda>b. portid b \<in> get_portid ` set ports \<and> length (buf b) \<le> 32) bs \<and>
       length bs \<le> capacity - length (items q) \<and>
       (capacity \<le> n \<longrightarrow> length bs = capacity - length (items q) \<and>
         fill_queue (host_queue host) (host_rx_burst host) (host_pktmbuf_free host) ports (q, e) =
           Some ((worker_packets w, worker_device w), Ok ())))"

lemma poll_rx_gone:
  assumes "array_queue (host_queue host) items capacity" "rx_contract (host_rx_burst host)"
    "host_ports host = Some ports" "ports \<noteq> []" "host_try_recv host receiver = (Inl (), receiver)"
    "untouched items e t eng s w" "rx_handle w = Waiting receiver"
  obtains w' where "poll_rx host n w = (w', Stuck)" "received host items capacity ports n e t eng s w'"
proof -
  obtain pc q' e' bs where
    "rx_steps (host_queue host) (host_rx_burst host) (host_pktmbuf_free host) (host_try_recv host) ports
       (Suc n) (LoopHead, receiver, (worker_packets w, e)) = Inl (pc, receiver, (q', e'))"
    and b: "items q' = items (worker_packets w) @ bs" "length bs \<le> capacity - length (items (worker_packets w))"
      "list_all (\<lambda>b. portid b \<in> get_portid ` set ports \<and> length (buf b) \<le> 32) bs"
    and f: "capacity - length (items (worker_packets w)) + 1 \<le> Suc n \<Longrightarrow>
      fill_queue (host_queue host) (host_rx_burst host) (host_pktmbuf_free host) ports (worker_packets w, e) =
        Some ((q', e'), Ok ()) \<and> length bs = capacity - length (items (worker_packets w))"
    using array_queue.rx_steps_cancelled [OF assms(1,2,4), where try_recv = "host_try_recv host"
        and receiver = receiver and pktmbuf_free = "host_pktmbuf_free host" and n = "Suc n" and pc = LoopHead
        and q = "worker_packets w" and e = e] assms(5) by auto
  moreover have "worker_device w = e" using assms(6) by (simp add: untouched_def)
  ultimately have "poll_rx host n w =
      (w\<lparr>worker_packets := q', worker_device := e', rx_handle := Waiting receiver\<rparr>, Stuck)"
    using assms(3,7) by (simp add: poll_rx_def rx_main_after_def del: rx_steps.simps)
  moreover have "received host items capacity ports n e t eng s
      (w\<lparr>worker_packets := q', worker_device := e', rx_handle := Waiting receiver\<rparr>)"
    using assms(6) b f by (fastforce simp: received_def untouched_def)
  ultimately show ?thesis by (rule that)
qed

text \<open>A poll of any task while the stop sender exists.\<close>

lemma poll_task_sender:
  assumes "array_queue (host_queue host) items capacity" "host_ports host = Some ports"
    "host_try_recv host receiver = (Inr signal, receiver')" "new_msg eng = None"
    "untouched items e t eng s w" "rx_handle w \<in> {Waiting receiver, Finished (Done ())}"
  shows "\<exists>w'. poll_task host p w = (w', Done ()) \<and> untouched items e t eng s w' \<and>
    rx_handle w' = (if first_rx [p] = None then rx_handle w else Finished (Done ()))"
proof (cases p)
  case (PollRx n)
  have "rx_main_after (host_queue host) (host_rx_burst host) (host_pktmbuf_free host) (host_try_recv host)
      (host_ports host) (Suc n) receiver qe = Inr (qe, Ok ())" for qe
    using assms(2,3) by (simp add: rx_main_after_def)
  with assms(5,6) PollRx show ?thesis by (auto simp: poll_rx_def untouched_def)
next
  case PollProcess
  with poll_process_untouched [OF assms(1,5)] show ?thesis by auto
next
  case (PollCheck elapsed)
  obtain w' where "poll_check host elapsed w = (w', Done ())" "untouched items e t eng s w'"
    "rx_handle w' = rx_handle w"
    by (rule poll_check_untouched [OF assms(4,5)])
  with PollCheck show ?thesis by auto
qed

lemma first_rx_append: "first_rx (ps @ qs) = (case first_rx ps of None \<Rightarrow> first_rx qs | Some n \<Rightarrow> Some n)"
  by (induction ps rule: first_rx.induct) simp_all

lemma first_rx_Cons: "first_rx (p # ps) = (case first_rx [p] of None \<Rightarrow> first_rx ps | Some n \<Rightarrow> Some n)"
  using first_rx_append [of "[p]" ps] by simp

lemma poll_round_sender:
  assumes "array_queue (host_queue host) items capacity" "host_ports host = Some ports"
    "host_try_recv host receiver = (Inr signal, receiver')" "new_msg eng = None"
  shows "untouched items e t eng s w \<Longrightarrow> rx_handle w \<in> {Waiting receiver, Finished (Done ())} \<Longrightarrow>
    \<exists>w'. poll_round host ps w = (w', Done ()) \<and> untouched items e t eng s w' \<and>
      rx_handle w' = (if first_rx ps = None then rx_handle w else Finished (Done ()))"
proof (induction ps arbitrary: w)
  case (Cons p ps)
  obtain w1 where w1: "poll_task host p w = (w1, Done ())" "untouched items e t eng s w1"
    "rx_handle w1 = (if first_rx [p] = None then rx_handle w else Finished (Done ()))"
    using poll_task_sender [OF assms Cons.prems] by blast
  with Cons.prems(2) have "rx_handle w1 \<in> {Waiting receiver, Finished (Done ())}" by auto
  from Cons.IH [OF w1(2) this] w1 show ?case by (auto simp: first_rx_Cons [of p ps] split: option.split)
qed simp

lemma run_until_sender:
  assumes "array_queue (host_queue host) items capacity" "host_ports host = Some ports"
    "host_try_recv host receiver = (Inr signal, receiver')" "new_msg eng = None"
  shows "untouched items e t eng s w \<Longrightarrow> rx_handle w = Waiting receiver \<Longrightarrow>
    \<exists>w'. run_until host rounds w =
        (w', if first_rx (concat rounds) = None then Stuck else Done ()) \<and> untouched items e t eng s w'"
proof (induction rounds arbitrary: w)
  case (Cons ps rounds)
  obtain w1 where w1: "poll_round host ps w = (w1, Done ())" "untouched items e t eng s w1"
    "rx_handle w1 = (if first_rx ps = None then Waiting receiver else Finished (Done ()))"
    using poll_round_sender [OF assms Cons.prems(1), of ps] Cons.prems(2) by auto
  show ?case
  proof (cases "first_rx ps")
    case None
    with w1 Cons.IH [OF w1(2)] Cons.prems(2) show ?thesis by (auto simp: first_rx_append)
  next
    case (Some n)
    with w1 Cons.prems show ?thesis by (cases rounds) (auto simp: first_rx_append)
  qed
qed simp

text \<open>The same after the sender is gone: the first poll of the receiving task never ends.\<close>

lemma poll_task_gone:
  assumes "array_queue (host_queue host) items capacity" "rx_contract (host_rx_burst host)"
    "host_ports host = Some ports" "ports \<noteq> []" "host_try_recv host receiver = (Inl (), receiver)"
    "new_msg eng = None" "untouched items e t eng s w" "rx_handle w = Waiting receiver"
  shows "\<exists>w'. case first_rx [p] of
      None \<Rightarrow> poll_task host p w = (w', Done ()) \<and> untouched items e t eng s w' \<and> rx_handle w' = Waiting receiver
    | Some n \<Rightarrow> poll_task host p w = (w', Stuck) \<and> received host items capacity ports n e t eng s w'"
proof (cases p)
  case (PollRx n)
  obtain w' where "poll_rx host n w = (w', Stuck)" "received host items capacity ports n e t eng s w'"
    by (rule poll_rx_gone [OF assms(1-5,7,8)])
  with PollRx show ?thesis by auto
next
  case PollProcess
  with assms(8) poll_process_untouched [OF assms(1,7)] show ?thesis by auto
next
  case (PollCheck elapsed)
  obtain w' where "poll_check host elapsed w = (w', Done ())" "untouched items e t eng s w'"
    "rx_handle w' = rx_handle w"
    by (rule poll_check_untouched [OF assms(6,7)])
  with PollCheck assms(8) show ?thesis by auto
qed

lemma poll_round_gone:
  assumes "array_queue (host_queue host) items capacity" "rx_contract (host_rx_burst host)"
    "host_ports host = Some ports" "ports \<noteq> []" "host_try_recv host receiver = (Inl (), receiver)"
    "new_msg eng = None"
  shows "untouched items e t eng s w \<Longrightarrow> rx_handle w = Waiting receiver \<Longrightarrow>
    \<exists>w'. case first_rx ps of
        None \<Rightarrow> poll_round host ps w = (w', Done ()) \<and> untouched items e t eng s w' \<and> rx_handle w' = Waiting receiver
      | Some n \<Rightarrow> poll_round host ps w = (w', Stuck) \<and> received host items capacity ports n e t eng s w'"
proof (induction ps arbitrary: w)
  case (Cons p ps)
  note task = poll_task_gone [OF assms Cons.prems, of p]
  show ?case
  proof (cases "first_rx [p]")
    case None
    with task obtain w1 where w1: "poll_task host p w = (w1, Done ())" "untouched items e t eng s w1"
      "rx_handle w1 = Waiting receiver" by auto
    with Cons.IH [OF w1(2,3)] None show ?thesis
      by (cases "first_rx ps") (auto simp: first_rx_Cons [of p ps])
  next
    case (Some n)
    with task show ?thesis by (auto simp: first_rx_Cons [of p ps])
  qed
qed simp

lemma run_until_gone:
  assumes "array_queue (host_queue host) items capacity" "rx_contract (host_rx_burst host)"
    "host_ports host = Some ports" "ports \<noteq> []" "host_try_recv host receiver = (Inl (), receiver)"
    "new_msg eng = None"
  shows "untouched items e t eng s w \<Longrightarrow> rx_handle w = Waiting receiver \<Longrightarrow>
    \<exists>w'. run_until host rounds w = (w', Stuck) \<and>
      (case first_rx (concat rounds) of
         None \<Rightarrow> untouched items e t eng s w'
       | Some n \<Rightarrow> received host items capacity ports n e t eng s w')"
proof (induction rounds arbitrary: w)
  case (Cons ps rounds)
  note round = poll_round_gone [OF assms Cons.prems, of ps]
  show ?case
  proof (cases "first_rx ps")
    case None
    with round obtain w1 where w1: "poll_round host ps w = (w1, Done ())" "untouched items e t eng s w1"
      "rx_handle w1 = Waiting receiver" by auto
    with Cons.IH [OF w1(2,3)] None Cons.prems(2) show ?thesis by (simp add: first_rx_append)
  next
    case (Some n)
    with round Cons.prems(2) show ?thesis by (auto simp: first_rx_append)
  qed
qed simp

section \<open>Properties\<close>

text \<open>
  C33: A worker thread forwards nothing. It starts with a queue without packets and an engine
  without a message. In whatever order its three tasks are polled, no table is changed, no
  client is registered and no packet is taken out of the queue. While the stop sender exists, the
  thread returns as soon as \<open>rx_main\<close> was polled, and no port has been asked for a packet. After
  the sender is gone, it never returns, however long one waits: once \<open>rx_main\<close> is polled, it
  puts batches of the ports into the queue, at most up to the capacity; after as many passes as
  the queue has places it is full and the thread spins, with the ports asked as often as
  \<open>fill_queue\<close> asks them.
\<close>

theorem work_horse_forwards_nothing:
  assumes "array_queue (host_queue host) items capacity" "rx_contract (host_rx_burst host)"
    "host_ports host = Some ports" "ports \<noteq> []"
    "list_all (\<lambda>b. buf b = []) (items mbufs)" "new_msg eng = None"
    "host_try_recv host receiver = (r, receiver')" "r = Inl () \<longrightarrow> receiver' = receiver"
  shows "\<exists>w. work_horse host rounds eng receiver mbufs e t s =
      (w, if r = Inl () \<or> first_rx (concat rounds) = None then Stuck else Done ()) \<and>
    (case first_rx (concat rounds) of
       Some n \<Rightarrow> if r = Inl () then received host items capacity ports n e t eng s w
         else untouched items e t eng s w
     | None \<Rightarrow> untouched items e t eng s w)"
proof -
  define w0 where "w0 = \<lparr>worker_packets = mbufs, worker_device = e, worker_tables = t, worker_engine = eng,
    worker_env = s, rx_handle = Waiting receiver, process_ended = False, check_ended = False\<rparr>"
  have w0: "untouched items e t eng s w0" "rx_handle w0 = Waiting receiver"
    using assms(5) by (simp_all add: w0_def untouched_def)
  show ?thesis
  proof (cases r)
    case (Inl u)
    with assms(7,8) have "host_try_recv host receiver = (Inl (), receiver)" by simp
    from run_until_gone [OF assms(1-4) this assms(6) w0, of rounds] Inl show ?thesis
      by (cases "first_rx (concat rounds)") (auto simp: work_horse_def w0_def)
  next
    case (Inr signal)
    with assms(7) have "host_try_recv host receiver = (Inr signal, receiver')" by simp
    from run_until_sender [OF assms(1,3) this assms(6) w0, of rounds] Inr show ?thesis
      by (auto simp: work_horse_def w0_def split: option.split)
  qed
qed

definition sample_host ::
  "(port_id_mbuf list, unit, unit + unit option, u16 \<rightharpoonup> five_tuple, u16 \<rightharpoonup> client_status, u16 \<rightharpoonup> channel, ring_store) host" where
  "sample_host =
     \<lparr>host_queue = list_queue 3, host_rx_burst = idle_burst, host_pktmbuf_free = (\<lambda>_ e. e),
      host_try_recv = (\<lambda>r. (r, r)), host_ports = Some [sample_queue], host_reentry = DeadlockOnReentry,
      host_portmap = map_ops, host_heap = Map.empty, host_statuses = map_ops, host_rings = map_ops,
      host_ring_ffi = store_ffi 4, host_zmq = quiet_socket, host_errno = sample_errno, host_socket_id = 0\<rparr>"

theorem work_horse_forwards_nothing_witness:
  "(\<exists>w. work_horse sample_host [[PollRx 0, PollProcess, PollCheck True]] sample_engine (Inr None) []
      () (None, None) no_rings = (w, Done ()) \<and> worker_engine w = sample_engine) \<and>
   (\<exists>w. work_horse sample_host [[PollProcess, PollRx 3]] sample_engine (Inl ()) [] () (None, None) no_rings =
      (w, Stuck) \<and> 3 \<le> length (worker_packets w) \<and> worker_tables w = (None, None))"
proof
  have host: "array_queue (host_queue sample_host) (\<lambda>q. q) 3" "rx_contract (host_rx_burst sample_host)"
    "host_ports sample_host = Some [sample_queue]"
    by (simp_all add: sample_host_def idle_burst_contract list_queue.array_queue_axioms)
  have recv: "host_try_recv sample_host receiver = (receiver, receiver)" for receiver
    by (simp add: sample_host_def)
  have "\<exists>w. work_horse sample_host [[PollRx 0, PollProcess, PollCheck True]] sample_engine (Inr None) []
      () (None, None) no_rings = (w, Done ()) \<and> untouched (\<lambda>q. q) () (None, None) sample_engine no_rings w"
    using work_horse_forwards_nothing [OF host, of "[]" sample_engine "Inr None" "Inr None" "Inr None"
        "[[PollRx 0, PollProcess, PollCheck True]]" "()" "(None, None)" no_rings]
    by (simp add: recv sample_engine_def)
  then show "\<exists>w. work_horse sample_host [[PollRx 0, PollProcess, PollCheck True]] sample_engine (Inr None) []
      () (None, None) no_rings = (w, Done ()) \<and> worker_engine w = sample_engine"
    by (auto simp: untouched_def)
  have "\<exists>w. work_horse sample_host [[PollProcess, PollRx 3]] sample_engine (Inl ()) [] () (None, None) no_rings =
      (w, Stuck) \<and> received sample_host (\<lambda>q. q) 3 [sample_queue] 3 () (None, None) sample_engine no_rings w"
    using work_horse_forwards_nothing [OF host, of "[]" sample_engine "Inl ()" "Inl ()" "Inl ()"
        "[[PollProcess, PollRx 3]]" "()" "(None, None)" no_rings]
    by (simp add: recv sample_engine_def)
  then show "\<exists>w. work_horse sample_host [[PollProcess, PollRx 3]] sample_engine (Inl ()) [] () (None, None) no_rings =
      (w, Stuck) \<and> 3 \<le> length (worker_packets w) \<and> worker_tables w = (None, None)"
    by (auto simp: received_def)
qed

end
