(* ===== verification/Client_Comm.thy ===== *)
theory Client_Comm
  imports Engine
begin

text \<open>
  The library of the container clients, \<open>engine/src/dockerlib/client_comm.rs\<close>: client
  numbers, the messages to the engine with their textual form, the retries of sending, and
  the set-up of the client's channel. The message socket is the one of \<open>Engine\<close>; its
  contract \<open>message_socket\<close> says which messages have been sent.
\<close>

section \<open>Messages\<close>

datatype cont_msg_type = PodStarting | PodReady | PodStopping

definition msg_display :: "cont_msg_type \<Rightarrow> string" where
  "msg_display m = (case m of PodStarting \<Rightarrow> ''0'' | PodReady \<Rightarrow> ''1'' | PodStopping \<Rightarrow> ''2'')"

text \<open>\<open>From<ContMsgType> for zmq::Message\<close>: a message of one byte.\<close>

definition msg_bytes :: "cont_msg_type \<Rightarrow> u8 list" where
  "msg_bytes msg = (let m = (case msg of PodStarting \<Rightarrow> 0 | PodReady \<Rightarrow> 1 | PodStopping \<Rightarrow> 2) in [m])"

record container_msg =
  cm_id :: u16
  cm_msg :: cont_msg_type

definition msg_registration :: "u16 \<Rightarrow> container_msg" where
  "msg_registration i = \<lparr>cm_id = i, cm_msg = PodStarting\<rparr>"

definition msg_ready :: "u16 \<Rightarrow> container_msg" where
  "msg_ready i = \<lparr>cm_id = i, cm_msg = PodReady\<rparr>"

definition msg_terminating :: "u16 \<Rightarrow> container_msg" where
  "msg_terminating i = \<lparr>cm_id = i, cm_msg = PodStopping\<rparr>"

abbreviation newline :: char where
  "newline \<equiv> CHR 0x0A"

abbreviation quote :: char where
  "quote \<equiv> CHR 0x27"

definition to_json :: "container_msg \<Rightarrow> string" where
  "to_json m =
     [newline] @ ''        {'' @ [newline]
     @ ''            '' @ [quote] @ ''id'' @ [quote] @ '': '' @ dec_string (unat (cm_id m)) @ '','' @ [newline]
     @ ''            '' @ [quote] @ ''msg'' @ [quote] @ '': '' @ msg_display (cm_msg m) @ '','' @ [newline]
     @ ''        }''"

section \<open>Client numbers\<close>

text \<open>
  \<open>CLIENT_ID\<close> trailing its lock. A panic while the guard is held poisons the lock, and then
  the counter is no longer used.
\<close>

record id_counter =
  next_id :: u16
  id_poisoned :: bool

definition CLIENT_ID :: id_counter where
  "CLIENT_ID = \<lparr>next_id = 0, id_poisoned = False\<rparr>"

definition get_dockerclient_id :: "profile \<Rightarrow> id_counter \<Rightarrow> id_counter \<times> ('e, u16) outcome" where
  "get_dockerclient_id p c =
     (if id_poisoned c then (c, Ok 0)
      else case (word_add p (next_id c) 1 :: (unit, u16) outcome) of
             Ok n \<Rightarrow> (c\<lparr>next_id := n\<rparr>, Ok (next_id c))
           | _ \<Rightarrow> (c\<lparr>id_poisoned := True\<rparr>, Panic ArithOverflow))"

section \<open>The client\<close>

record container_client =
  cc_id :: u16
  cc_channel :: "channel option"

definition client_new ::
  "profile \<Rightarrow> 's zmq_ffi \<Rightarrow> id_counter \<Rightarrow> 's \<Rightarrow> (id_counter \<times> 's) \<times> (string, container_client) outcome" where
  "client_new p zmq c s =
     (let (c', r) = get_dockerclient_id p c
      in with_ok (c', s) r (\<lambda>i.
           case zmq_socket zmq s of
             (Inl e, s') \<Rightarrow> ((c', s'), Err e)
           | (Inr _, s') \<Rightarrow> ((c', s'), Ok \<lparr>cc_id = i, cc_channel = None\<rparr>)))"

definition get_id :: "container_client \<Rightarrow> u16" where
  "get_id self = cc_id self"

text \<open>A loop of \<open>n\<close> attempts that stops at the first success.\<close>

fun retry :: "nat \<Rightarrow> ('s \<Rightarrow> (string + unit) \<times> 's) \<Rightarrow> 's \<Rightarrow> bool \<times> 's" where
  "retry 0 f s = (False, s)"
| "retry (Suc n) f s = (case f s of (Inr _, s') \<Rightarrow> (True, s') | (Inl _, s') \<Rightarrow> retry n f s')"

definition client_send ::
  "'s zmq_ffi \<Rightarrow> container_client \<Rightarrow> cont_msg_type \<Rightarrow> 's \<Rightarrow> 's \<times> (string, unit) outcome" where
  "client_send zmq self msg s =
     (let cmsg = (case msg of
                    PodStarting \<Rightarrow> to_json (msg_registration (get_id self))
                  | PodReady \<Rightarrow> to_json (msg_ready (get_id self))
                  | PodStopping \<Rightarrow> to_json (msg_terminating (get_id self)))
      in case zmq_connect zmq SOCKET s of
           (Inl ce, s1) \<Rightarrow>
             (let (connected, s2) = retry 2 (zmq_connect zmq SOCKET) s1
              in if \<not> connected then (s2, Err ce) else (s2, Ok ()))
         | (Inr _, s1) \<Rightarrow>
             (case zmq_send zmq cmsg s1 of
                (Inl se, s2) \<Rightarrow>
                  (let (sent, s3) = retry 2 (zmq_send zmq cmsg) s2
                   in if \<not> sent then (s3, Err se) else (s3, Ok ()))
              | (Inr _, s2) \<Rightarrow> (s2, Ok ())))"

definition client_register :: "'s zmq_ffi \<Rightarrow> container_client \<Rightarrow> 's \<Rightarrow> 's \<times> (string, unit) outcome" where
  "client_register zmq self s =
     (case client_send zmq self PodStarting s of
        (s1, Ok _) \<Rightarrow>
          (case zmq_recv zmq s1 of (Inl e, s2) \<Rightarrow> (s2, Err e) | (Inr _, s2) \<Rightarrow> (s2, Ok ()))
      | (s1, r) \<Rightarrow> (s1, r))"

definition client_notify :: "'s zmq_ffi \<Rightarrow> container_client \<Rightarrow> 's \<Rightarrow> 's \<times> (string, unit) outcome" where
  "client_notify zmq self s = client_send zmq self PodReady s"

definition client_terminate :: "'s zmq_ffi \<Rightarrow> container_client \<Rightarrow> 's \<Rightarrow> 's \<times> (string, unit) outcome" where
  "client_terminate zmq self s = client_send zmq self PodStopping s"

text \<open>
  \<open>setup_channel\<close>. The Rust string whose address goes to \<open>rte_ring_lookup\<close> has no NUL at
  its end: the C function reads on into the bytes \<open>trailing\<close> that follow it in memory, up to
  the first NUL. A ring that is not stored in the channel is dropped, which frees it.
\<close>

definition c_name :: "string \<Rightarrow> string \<Rightarrow> string" where
  "c_name name trailing = takeWhile (\<lambda>c. c \<noteq> NUL) (name @ trailing)"

definition setup_channel ::
  "'s ring_ffi \<Rightarrow> 's zmq_ffi \<Rightarrow> (string \<Rightarrow> 's \<Rightarrow> ptr) \<Rightarrow> string \<Rightarrow> container_client \<Rightarrow> 's \<Rightarrow>
   's \<times> container_client" where
  "setup_channel ffi zmq ring_lookup trailing self s =
     (case client_register zmq self s of
        (s1, Ok _) \<Rightarrow>
          (case ring_from_ptr (cc_id self) TX
                  (ring_lookup (c_name (''TX-'' @ dec_string (unat (cc_id self))) trailing) s1) of
             None \<Rightarrow> (s1, self)
           | Some t_ring \<Rightarrow>
               (case ring_from_ptr (cc_id self) RX
                       (ring_lookup (c_name (''RX-'' @ dec_string (unat (cc_id self))) trailing) s1) of
                  None \<Rightarrow> (ring_drop ffi t_ring s1, self)
                | Some r_ring \<Rightarrow>
                    (optional_drop ffi (cc_channel self) s1,
                     self\<lparr>cc_channel := Some \<lparr>tx_q = t_ring, rx_q = r_ring\<rparr>\<rparr>)))
      | (s1, _) \<Rightarrow> (s1, self))"

section \<open>The socket's contract\<close>

text \<open>
  \<open>sent\<close> observes the messages handed to the transport: a successful \<open>send\<close> hands over its
  message, a failing one nothing, and \<open>connect\<close> sends nothing.
\<close>

locale message_socket =
  fixes zmq :: "'s zmq_ffi" and sent :: "'s \<Rightarrow> string list"
  assumes send_sent: "zmq_send zmq msg s = (r, s') \<Longrightarrow>
      sent s' = (case r of Inl _ \<Rightarrow> sent s | Inr _ \<Rightarrow> sent s @ [msg])"
    and connect_sent: "zmq_connect zmq url s = (r, s') \<Longrightarrow> sent s' = sent s"
begin

lemma retry_connect: "retry n (zmq_connect zmq url) s = (ok, s') \<Longrightarrow> sent s' = sent s"
proof (induction n arbitrary: s)
  case (Suc n)
  obtain r s1 where c: "zmq_connect zmq url s = (r, s1)" by fastforce
  with Suc connect_sent [OF c] show ?case by (cases r) auto
qed simp

lemma retry_send:
  "retry n (zmq_send zmq msg) s = (ok, s') \<Longrightarrow> sent s' = (if ok then sent s @ [msg] else sent s)"
proof (induction n arbitrary: s)
  case (Suc n)
  obtain r s1 where c: "zmq_send zmq msg s = (r, s1)" by fastforce
  with Suc send_sent [OF c] show ?case by (cases r) auto
qed simp

lemma client_send_outcome:
  assumes "client_send zmq self m s = (s', r)"
  shows "graceful r \<and>
    (case fst (zmq_connect zmq SOCKET s) of
       Inr _ \<Rightarrow> sent s' = (if is_ok r then sent s @ [to_json \<lparr>cm_id = cc_id self, cm_msg = m\<rparr>] else sent s)
     | Inl _ \<Rightarrow> sent s' = sent s)"
proof -
  let ?msg = "to_json \<lparr>cm_id = cc_id self, cm_msg = m\<rparr>"
  have msg: "(case m of PodStarting \<Rightarrow> to_json (msg_registration (get_id self))
      | PodReady \<Rightarrow> to_json (msg_ready (get_id self))
      | PodStopping \<Rightarrow> to_json (msg_terminating (get_id self))) = ?msg"
    by (cases m) (simp_all add: msg_registration_def msg_ready_def msg_terminating_def get_id_def)
  obtain c s1 where c: "zmq_connect zmq SOCKET s = (c, s1)" by fastforce
  show ?thesis
  proof (cases c)
    case (Inl ce)
    obtain ok s2 where t: "retry 2 (zmq_connect zmq SOCKET) s1 = (ok, s2)" by fastforce
    with assms c Inl have "s' = s2" "r = (if ok then Ok () else Err ce)"
      by (auto simp: client_send_def split: if_splits)
    with c Inl retry_connect [OF t] connect_sent [OF c] show ?thesis by simp
  next
    case conn: (Inr u)
    obtain d s2 where d: "zmq_send zmq ?msg s1 = (d, s2)" by fastforce
    show ?thesis
    proof (cases d)
      case (Inl se)
      obtain ok s3 where t: "retry 2 (zmq_send zmq ?msg) s2 = (ok, s3)" by fastforce
      with assms c conn d Inl msg have "s' = s3" "r = (if ok then Ok () else Err se)"
        by (auto simp: client_send_def split: if_splits)
      with c conn d Inl retry_send [OF t] send_sent [OF d] connect_sent [OF c] show ?thesis by simp
    next
      case (Inr v)
      with assms c conn d msg have "s' = s2" "r = Ok ()" by (auto simp: client_send_def)
      with c conn d Inr send_sent [OF d] connect_sent [OF c] show ?thesis by simp
    qed
  qed
qed

end

text \<open>
  The reference instance: a socket that refuses the first \<open>refusals\<close> connections and logs
  what is sent.
\<close>

record log_socket =
  refusals :: nat
  sent_log :: "string list"

definition log_zmq :: "log_socket zmq_ffi" where
  "log_zmq =
     \<lparr>zmq_socket = (\<lambda>s. (Inr (), s)),
      zmq_connect = (\<lambda>_ s. if 0 < refusals s then (Inl ''refused'', s\<lparr>refusals := refusals s - 1\<rparr>) else (Inr (), s)),
      zmq_poll = (\<lambda>_ s. (Inr 0, s)), zmq_recv = (\<lambda>s. (Inr ''1'', s)),
      zmq_send = (\<lambda>m s. (Inr (), s\<lparr>sent_log := sent_log s @ [m]\<rparr>))\<rparr>"

interpretation log_zmq: message_socket log_zmq sent_log
  by unfold_locales (auto simp: log_zmq_def split: if_splits)

section \<open>Rings found by their names\<close>

text \<open>
  What DPDK documents of \<open>rte_ring_lookup\<close>: it gives the ring that was created under the name, until
  that ring is freed; other rings and the socket make no difference.
\<close>

locale named_rings = engine_env sops rops ffi rings pktmbuf_free live zmq
  for sops :: "(u16, client_status, 'sm) chashmap_ops" and rops :: "(u16, channel, 'rm) chashmap_ops"
    and ffi :: "'s ring_ffi" and rings :: "'s \<Rightarrow> ptr \<rightharpoonup> nat \<times> ptr list"
    and pktmbuf_free :: "ptr \<Rightarrow> 's \<Rightarrow> 's" and live :: "'s \<Rightarrow> ptr set" and zmq :: "'s zmq_ffi" +
  fixes ring_lookup :: "string \<Rightarrow> 's \<Rightarrow> ptr"
  assumes lookup_create: "rte_ring_create ffi (name @ [NUL]) slots sid flags s = (r, s') \<Longrightarrow> r \<noteq> 0 \<Longrightarrow>
      ring_lookup nm s' = (if nm = name then r else ring_lookup nm s)"
    and lookup_free: "ring_lookup nm s \<noteq> r \<Longrightarrow> ring_lookup nm (rte_ring_free ffi r s) = ring_lookup nm s"
    and lookup_send: "ring_lookup nm (snd (zmq_send zmq msg s)) = ring_lookup nm s"
begin

lemma ring_new_lookup:
  assumes "NUL \<notin> set name" "ring_new ffi err cid rt name capacity sid s = (s', Ok r)"
  shows "ring_lookup nm s' = (if nm = name then ring_raw r else ring_lookup nm s)" "ring_raw r \<noteq> 0"
proof -
  obtain b s1 where c: "rte_ring_create ffi (name @ [NUL]) (of_nat capacity) (socket_raw sid) (ucast NO_FLAGS) s
      = (b, s1)" by fastforce
  with assms have "b \<noteq> 0" "s' = s1" "ring_raw r = b"
    by (auto simp: ring_new_def to_cstring_def to_result_mut_eq split: if_splits)
  with lookup_create [OF c] show "ring_lookup nm s' = (if nm = name then ring_raw r else ring_lookup nm s)"
    "ring_raw r \<noteq> 0" by simp_all
qed

lemma optional_drop_lookup:
  assumes "\<And>ch. old = Some ch \<Longrightarrow> ring_lookup nm s \<notin> channel_rings ch"
  shows "ring_lookup nm (optional_drop ffi old s) = ring_lookup nm s"
  using assms by (auto simp: optional_drop_def channel_drop_def ring_drop_def channel_rings_def lookup_free split: option.split)

text \<open>A registration that succeeds: the stored rings are the ones found under the client's two names.\<close>

lemma register_lookup:
  assumes inv: "clients_inv (statuses eng) (channels eng) (rings s)"
    and reg: "register_client sops rops ffi zmq err current i eng s = (eng', s', Ok ())"
  obtains ch where "channels eng' i = Some ch" "ring_raw (tx_q ch) \<noteq> ring_raw (rx_q ch)"
    "tx_q ch = \<lparr>client_id = i, rtype = TX, ring_raw = ring_lookup (''TX-'' @ dec_string (unat i)) s'\<rparr>"
    "rx_q ch = \<lparr>client_id = i, rtype = RX, ring_raw = ring_lookup (''RX-'' @ dec_string (unat i)) s'\<rparr>"
    "ring_raw (tx_q ch) \<noteq> 0" "ring_raw (rx_q ch) \<noteq> 0"
proof -
  let ?new = "\<lambda>rt name s. ring_new ffi err i rt name PACKET_READ_SIZE (socket_current current) s"
  let ?rxn = "''RX-'' @ dec_string (unat i)" and ?txn = "''TX-'' @ dec_string (unat i)"
  obtain s1 r1 where 1: "?new RX ?rxn s = (s1, r1)" by fastforce
  with reg obtain rx where rx: "r1 = Ok rx" by (cases r1) (auto simp: register_client_def)
  obtain s2 r2 where 2: "?new TX ?txn s1 = (s2, r2)" by fastforce
  with reg 1 rx obtain tx where tx: "r2 = Ok tx" by (cases r2) (auto simp: register_client_def)
  obtain s3 r3 where 3: "send_reply zmq ''1'' s2 = (s3, r3)" by fastforce
  with reg 1 rx 2 tx have sent: "r3 = Ok ()" by (cases r3) (auto simp: register_client_def)
  obtain rm' where rm': "cm_insert rops i \<lparr>tx_q = tx, rx_q = rx\<rparr> (ring_map (ringmap eng)) = (channels eng i, rm')"
    "cm_get rops rm' = (channels eng)(i \<mapsto> \<lparr>tx_q = tx, rx_q = rx\<rparr>)"
    using rm.insert_cases [of i "\<lparr>tx_q = tx, rx_q = rx\<rparr>" "ring_map (ringmap eng)"] by (metis channels_def)
  have s': "s' = optional_drop ffi (channels eng i) s3" and eng': "ring_map (ringmap eng') = rm'"
    using reg 1 rx 2 tx 3 sent rm'(1) by (auto simp: register_client_def split: prod.splits)
  note out1 = new_outcome [OF label_no_NUL(1) 1, unfolded rx outcome.case]
  note out2 = new_outcome [OF label_no_NUL(2) 2, unfolded tx outcome.case]
  note look1 = ring_new_lookup [OF label_no_NUL(1) 1 [unfolded rx]]
  note look2 = ring_new_lookup [OF label_no_NUL(2) 2 [unfolded tx]]
  have "ring_lookup nm s3 = ring_lookup nm s2" for nm
    using 3 lookup_send [of nm "''1''" s2] by (auto simp: send_reply_def split: prod.splits sum.splits)
  then have look3: "ring_lookup ?rxn s3 = ring_raw rx" "ring_lookup ?txn s3 = ring_raw tx"
    using look1(1) look2(1) by simp_all
  have ne: "ring_raw tx \<noteq> ring_raw rx" "rings s (ring_raw tx) = None" using out1 out2 by (auto split: if_splits)
  have apart: "ring_raw tx \<notin> channel_rings old \<and> ring_raw rx \<notin> channel_rings old" if "channels eng i = Some old" for old
    using inv owned_rings_member [of "channels eng" i old] that ne(2) out1 by (auto simp: clients_inv_def)
  have "ring_lookup nm s' = ring_lookup nm s3" if "nm = ?rxn \<or> nm = ?txn" for nm
    unfolding s' by (rule optional_drop_lookup) (use that apart look3 in \<open>elim disjE, simp_all\<close>)
  then have "ring_lookup ?rxn s' = ring_raw rx" "ring_lookup ?txn s' = ring_raw tx" using look3 by simp_all
  moreover have "channels eng' i = Some \<lparr>tx_q = tx, rx_q = rx\<rparr>" using rm'(2) eng' by (simp add: channels_def)
  ultimately show ?thesis
    using out1 out2 look1(2) look2(2) ne(1) by (intro that [of "\<lparr>tx_q = tx, rx_q = rx\<rparr>"]) auto
qed

text \<open>What the engine sends goes into the transmit ring and leaves every other ring alone.\<close>

lemma engine_send_rings:
  assumes "channels eng i = Some ch" "rings s (ring_raw (tx_q ch)) = Some queue"
    and "engine_send rops ffi pktmbuf_free err eng i pkt s = (s', r)" "b \<noteq> ring_raw (tx_q ch)"
  shows "rings s' b = rings s b"
proof -
  obtain cap xs where q: "rings s (ring_raw (tx_q ch)) = Some (cap, xs)" using assms(2) by (cases queue) simp
  have "ring_enqueue ffi err (tx_q ch) pkt s = (s', r)"
    using assms(1,3) by (simp add: engine_send_def engine_map_send_def channel_send_def channels_def)
  from enqueue_outcome [OF q this] assms(4) show ?thesis by (auto split: if_splits)
qed

end

text \<open>Names in the ring store.\<close>

definition store_lookup :: "nat \<Rightarrow> string \<Rightarrow> 'x ring_store_scheme \<Rightarrow> ptr" where
  "store_lookup n name s =
     (case find (\<lambda>r. map_option fst (st_rings s r) = Some (name @ [NUL])) (map Suc [0..<n]) of
        None \<Rightarrow> 0 | Some r \<Rightarrow> r)"

lemma find_unique:
  assumes "\<forall>x \<in> set xs. P x \<longleftrightarrow> x = y" "y \<in> set xs"
  shows "find P xs = Some y"
  using assms by (induction xs) auto

lemma find_except:
  assumes "find P xs \<noteq> Some y"
  shows "find (\<lambda>x. x \<noteq> y \<and> P x) xs = find P xs"
  using assms by (induction xs) auto

lemma find_same: "\<forall>x \<in> set xs. P x \<longleftrightarrow> Q x \<Longrightarrow> find P xs = find Q xs"
  by (induction xs) auto

interpretation store_named:
  named_rings map_ops map_ops "store_ffi n" store_view store_free st_live quiet_socket "store_lookup n" for n
proof unfold_locales
  fix name slots sid flags s r s' nm
  assume "rte_ring_create (store_ffi n) (name @ [NUL]) slots sid flags s = (r, s')" "r \<noteq> 0"
  then have c: "store_create n (name @ [NUL]) slots sid flags s = (r, s')" "r \<noteq> 0" by simp_all
  then have free: "\<not> name_used n (name @ [NUL]) s" and found: "find (\<lambda>r. st_rings s r = None) (map Suc [0..<n]) = Some r"
    and s': "s' = s\<lparr>st_rings := (st_rings s)(r \<mapsto> (name @ [NUL], unat slots - 1, []))\<rparr>"
    by (auto simp: store_create_def split: if_splits option.splits)
  from find_Some_set [OF found] have r: "r \<in> set (map Suc [0..<n])" "st_rings s r = None" by blast+
  show "store_lookup n nm s' = (if nm = name then r else store_lookup n nm s)"
  proof (cases "nm = name")
    case True
    have "\<forall>x \<in> set (map Suc [0..<n]). map_option fst (st_rings s' x) = Some (nm @ [NUL]) \<longleftrightarrow> x = r"
      using free s' True by (auto simp: name_used_def list_ex_iff)
    from find_unique [OF this r(1)] True show ?thesis by (simp add: store_lookup_def)
  next
    case False
    have "find (\<lambda>r. map_option fst (st_rings s' r) = Some (nm @ [NUL])) (map Suc [0..<n]) =
        find (\<lambda>r. map_option fst (st_rings s r) = Some (nm @ [NUL])) (map Suc [0..<n])"
      by (rule find_same) (use s' r(2) False in auto)
    with False show ?thesis by (simp add: store_lookup_def)
  qed
next
  fix nm s r
  assume ne: "store_lookup n nm s \<noteq> r"
  let ?P = "\<lambda>b. map_option fst (st_rings s b) = Some (nm @ [NUL])"
  have "find (\<lambda>b. map_option fst (st_rings (rte_ring_free (store_ffi n) r s) b) = Some (nm @ [NUL])) (map Suc [0..<n]) =
      find (\<lambda>b. b \<noteq> r \<and> ?P b) (map Suc [0..<n])"
    by (rule find_same) simp
  also have "\<dots> = find ?P (map Suc [0..<n])"
    by (rule find_except) (use ne in \<open>auto simp: store_lookup_def\<close>)
  finally show "store_lookup n nm (rte_ring_free (store_ffi n) r s) = store_lookup n nm s"
    by (simp add: store_lookup_def)
qed (simp add: quiet_socket_def)

section \<open>Lemmas\<close>

text \<open>The counter after \<open>i\<close> calls, and what call \<open>i\<close> returns.\<close>

definition counter_after :: "profile \<Rightarrow> nat \<Rightarrow> id_counter" where
  "counter_after p i =
     (if p = Dev \<and> 65536 \<le> i then \<lparr>next_id = 65535, id_poisoned = True\<rparr>
      else \<lparr>next_id = of_nat i, id_poisoned = False\<rparr>)"

definition id_of_call :: "profile \<Rightarrow> nat \<Rightarrow> ('e, u16) outcome" where
  "id_of_call p i =
     (if p = Release \<or> i < 65535 then Ok (of_nat i)
      else if i = 65535 then Panic ArithOverflow else Ok 0)"

fun take_ids :: "profile \<Rightarrow> nat \<Rightarrow> id_counter \<Rightarrow> ('e, u16) outcome list" where
  "take_ids p 0 c = []"
| "take_ids p (Suc n) c = (case get_dockerclient_id p c of (c', r) \<Rightarrow> r # take_ids p n c')"

lemma word_add_Release: "word_add Release a b = Ok (a + b)"
  by (simp add: word_add_def)

lemma get_dockerclient_id_step:
  "get_dockerclient_id p (counter_after p i) = (counter_after p (Suc i), id_of_call p i)"
proof (cases p)
  case Release
  have "of_nat i + 1 = (of_nat (Suc i) :: u16)" by simp
  with Release show ?thesis
    by (simp only: get_dockerclient_id_def counter_after_def id_of_call_def word_add_Release) simp
next
  case Dev
  consider "i < 65535" | "i = 65535" | "65535 < i" by linarith
  then show ?thesis
  proof cases
    case 1
    then have "unat (of_nat i :: u16) = i" by (simp add: unat_of_nat)
    with 1 have "word_add Dev (of_nat i :: u16) 1 = (Ok (of_nat (Suc i)) :: (unit, u16) outcome)"
      by (subst word_add_Ok) simp_all
    with 1 Dev show ?thesis
      by (simp add: get_dockerclient_id_def counter_after_def id_of_call_def)
  next
    case 2
    have "word_add Dev (65535 :: u16) 1 = (Panic ArithOverflow :: (unit, u16) outcome)"
      by (simp add: word_add_def)
    with 2 Dev show ?thesis
      by (simp add: get_dockerclient_id_def counter_after_def id_of_call_def)
  next
    case 3
    with Dev show ?thesis
      by (simp add: get_dockerclient_id_def counter_after_def id_of_call_def)
  qed
qed

lemma take_ids_after: "take_ids p n (counter_after p k) = map (id_of_call p) [k..<k + n]"
proof (induction n arbitrary: k)
  case (Suc n)
  from Suc [of "Suc k"] show ?case
    by (simp add: get_dockerclient_id_step upt_conv_Cons del: upt_Suc)
qed simp

definition json_ws :: "char \<Rightarrow> bool" where
  "json_ws c \<longleftrightarrow> c = CHR '' '' \<or> c = CHR 0x09 \<or> c = newline \<or> c = CHR 0x0D"

text \<open>
  What the JSON grammar (RFC 8259) asks of an object: after the opening brace and white
  space comes a double quote or the closing brace.
\<close>

definition json_grammar :: "'j json_ffi \<Rightarrow> bool" where
  "json_grammar json \<longleftrightarrow>
     (\<forall>s rest c cs. dropWhile json_ws s = CHR ''{'' # rest \<longrightarrow> dropWhile json_ws rest = c # cs \<longrightarrow>
        c \<noteq> CHR 0x22 \<longrightarrow> c \<noteq> CHR ''}'' \<longrightarrow> (\<exists>e. json_parse json s = Inl e))"

lemma to_json_rejected:
  assumes "json_grammar json"
  shows "\<exists>e. json_parse json (to_json m) = Inl e"
proof -
  have "dropWhile json_ws (to_json m) = CHR ''{'' # drop 10 (to_json m)"
    by (simp add: to_json_def json_ws_def)
  moreover have "dropWhile json_ws (drop 10 (to_json m)) = quote # drop 24 (to_json m)"
    by (simp add: to_json_def json_ws_def)
  moreover have "quote \<noteq> CHR 0x22" "quote \<noteq> CHR ''}''" by simp_all
  ultimately show ?thesis
    using assms [unfolded json_grammar_def, rule_format] by blast
qed

lemma dec_string_ascii:
  assumes "c \<in> set (dec_string n)"
  shows "(of_char c :: nat) < 128"
proof -
  obtain d where "d < 10" "c = digit_char d" using dec_string_chars [OF assms] by blast
  then have "c = char_of (48 + d)" "48 + d < 256" "48 + d < 128" by (simp_all add: digit_char_def)
  then show ?thesis by (simp only: of_char_of mod_less)
qed

lemma to_json_utf8: "is_utf8 (to_json m)"
  by (rule is_utf8_ascii)
    (auto simp: to_json_def list_all_iff msg_display_def dec_string_ascii split: cont_msg_type.splits)

section \<open>Properties\<close>

text \<open>
  C36: The numbers the clients get, call by call. The first 65535 calls number the clients
  from 0 on. After that a release build starts again at 0; a debug build panics on the
  next call and from then on gives every client the number 0.
\<close>

theorem client_ids:
  "(take_ids p n CLIENT_ID :: ('e, u16) outcome list) =
    map (\<lambda>i. if p = Release \<or> i < 65535 then Ok (of_nat i)
              else if i = 65535 then Panic ArithOverflow else Ok 0) [0..<n]"
proof -
  have "CLIENT_ID = counter_after p 0" by (simp add: CLIENT_ID_def counter_after_def)
  then show ?thesis using take_ids_after [of p n 0] by (simp only: id_of_call_def [abs_def] add_0)
qed

text \<open>
  C30: \<open>ContainerClient::send\<close> never panics. If the first connection attempt succeeds, the
  message has been sent, once, exactly if the call returns success. If only a retry
  connects, the call returns success and nothing has been sent.
\<close>

theorem client_send_spec:
  assumes "message_socket zmq sent" "client_send zmq self m s = (s', r)"
  shows "graceful r \<and>
    (case zmq_connect zmq SOCKET s of
       (Inr _, _) \<Rightarrow> sent s' = (if is_ok r then sent s @ [to_json \<lparr>cm_id = cc_id self, cm_msg = m\<rparr>] else sent s)
     | (Inl _, s1) \<Rightarrow> sent s' = sent s \<and> (fst (zmq_connect zmq SOCKET s1) = Inr () \<longrightarrow> r = Ok ()))"
proof -
  obtain c s1 where c: "zmq_connect zmq SOCKET s = (c, s1)" by fastforce
  have "r = Ok ()" if ce: "c = Inl ce" and ok: "fst (zmq_connect zmq SOCKET s1) = Inr ()" for ce
  proof -
    obtain s2 where "zmq_connect zmq SOCKET s1 = (Inr (), s2)" using ok by (metis prod.collapse)
    with assms(2) c ce show ?thesis by (simp add: client_send_def numeral_2_eq_2)
  qed
  with message_socket.client_send_outcome [OF assms] c show ?thesis
    by (cases c) auto
qed

theorem client_send_spec_witness:
  "client_send log_zmq \<lparr>cc_id = 3, cc_channel = None\<rparr> PodReady \<lparr>refusals = 1, sent_log = []\<rparr>
    = (\<lparr>refusals = 0, sent_log = []\<rparr>, Ok ())"
proof -
  have e: "client_send log_zmq \<lparr>cc_id = 3, cc_channel = None\<rparr> PodReady \<lparr>refusals = 1, sent_log = []\<rparr>
    = (\<lparr>refusals = 0, sent_log = []\<rparr>, Ok ())"
    by (simp add: client_send_def log_zmq_def numeral_2_eq_2)
  from client_send_spec [OF log_zmq.message_socket_axioms e]
  show ?thesis using e by simp
qed

text \<open>
  C29: The engine understands no message of any client: the text a client sends has single
  quotes, which no JSON parser accepts, so \<open>get_msg\<close> fails on it and no status is ever
  set.
\<close>

theorem engine_rejects_client_messages:
  assumes "json_grammar json" "zmq_poll zmq 2 s = (Inr 1, s1)" "zmq_recv zmq s1 = (Inr (to_json m), s2)"
  shows "\<exists>e. get_msg zmq json eng s = ((eng, s2), Err (JsonFailure e))"
  using to_json_rejected [OF assms(1), of m] assms(2,3)
  by (auto simp: get_msg_def decode_msg_def to_json_utf8)

lemma no_json_grammar: "json_grammar no_json"
  by (simp add: json_grammar_def no_json_def)

definition one_message :: "unit zmq_ffi" where
  "one_message =
     \<lparr>zmq_socket = (\<lambda>s. (Inr (), s)), zmq_connect = (\<lambda>_ s. (Inr (), s)), zmq_poll = (\<lambda>_ s. (Inr 1, s)),
      zmq_recv = (\<lambda>s. (Inr (to_json \<lparr>cm_id = 1, cm_msg = PodReady\<rparr>), s)), zmq_send = (\<lambda>_ s. (Inr (), s))\<rparr>"

theorem engine_rejects_client_messages_witness:
  "\<exists>e. get_msg one_message no_json sample_engine () = ((sample_engine, ()), Err (JsonFailure e))"
  by (rule engine_rejects_client_messages [OF no_json_grammar, where m = "\<lparr>cm_id = 1, cm_msg = PodReady\<rparr>" and ?s1.0 = "()"])
    (simp_all add: one_message_def)

text \<open>
  C31: The channels of a client are not crossed. The engine has registered a client and the client, which
  has its answer, looks up the two rings (a NUL byte must follow the unterminated names in memory, and no
  one has created or freed a ring of these names in between). Then the client gets the very channel
  that the engine stores for it, not one with the two rings exchanged: both sides send into the
  same ring and receive from the same other ring. So a packet the engine sends to the client never enters the
  ring its client reads.
\<close>

theorem client_channel_not_crossed:
  assumes "named_rings sops rops ffi rings pktmbuf_free live zmq ring_lookup"
    and "clients_inv (cm_get sops (statusmap eng)) (cm_get rops (ring_map (ringmap eng))) (rings s)"
    and "set_client_status sops rops ffi zmq err current (cc_id self) 0 eng s = (eng', s', Ok ())"
    and "client_register client_zmq self t = (t', Ok ())" "trailing = NUL # junk"
    and "\<forall>p \<in> {''TX-'', ''RX-''}. ring_lookup (p @ dec_string (unat (cc_id self))) t' =
      ring_lookup (p @ dec_string (unat (cc_id self))) s'"
  shows "\<exists>ch u. cm_get rops (ring_map (ringmap eng')) (cc_id self) = Some ch \<and>
    setup_channel ffi client_zmq ring_lookup trailing self t = (u, self\<lparr>cc_channel := Some ch\<rparr>) \<and>
    ring_raw (tx_q ch) \<noteq> ring_raw (rx_q ch) \<and>
    (\<forall>v pkt v' r. rings v (ring_raw (tx_q ch)) \<noteq> None \<longrightarrow>
      engine_send rops ffi pktmbuf_free err eng' (cc_id self) pkt v = (v', r) \<longrightarrow>
      rings v' (ring_raw (rx_q ch)) = rings v (ring_raw (rx_q ch)))"
proof -
  let ?id = "dec_string (unat (cc_id self))"
  have env: "engine_env sops rops ffi rings pktmbuf_free live zmq" by (rule named_rings.axioms(1) [OF assms(1)])
  note maps = engine_env.statuses_def [OF env] engine_env.channels_def [OF env]
  have inv: "clients_inv (engine_env.statuses sops eng) (engine_env.channels rops eng) (rings s)"
    using assms(2) by (simp add: maps)
  have reg: "register_client sops rops ffi zmq err current (cc_id self) eng s = (eng', s', Ok ())"
    using assms(3) by (simp add: set_client_status_def)
  obtain ch where ch: "engine_env.channels rops eng' (cc_id self) = Some ch" "ring_raw (tx_q ch) \<noteq> ring_raw (rx_q ch)"
    "tx_q ch = \<lparr>client_id = cc_id self, rtype = TX, ring_raw = ring_lookup (''TX-'' @ ?id) s'\<rparr>"
    "rx_q ch = \<lparr>client_id = cc_id self, rtype = RX, ring_raw = ring_lookup (''RX-'' @ ?id) s'\<rparr>"
    "ring_raw (tx_q ch) \<noteq> 0" "ring_raw (rx_q ch) \<noteq> 0"
    by (rule named_rings.register_lookup [OF assms(1) inv reg])
  have "c_name (p @ ?id) trailing = p @ ?id" if "p \<in> {''TX-'', ''RX-''}" for p
    using that takeWhile_before_NUL [of "p @ ?id" junk] dec_string_no_NUL by (auto simp: c_name_def assms(5))
  then have names: "c_name (''TX-'' @ ?id) trailing = ''TX-'' @ ?id" "c_name (''RX-'' @ ?id) trailing = ''RX-'' @ ?id"
    by blast+
  have found: "ring_lookup (''TX-'' @ ?id) t' = ring_raw (tx_q ch)" "ring_lookup (''RX-'' @ ?id) t' = ring_raw (rx_q ch)"
    using assms(6) ch(3,4) by simp_all
  have "\<lparr>tx_q = \<lparr>client_id = cc_id self, rtype = TX, ring_raw = ring_raw (tx_q ch)\<rparr>,
      rx_q = \<lparr>client_id = cc_id self, rtype = RX, ring_raw = ring_raw (rx_q ch)\<rparr>\<rparr> = ch"
    using ch(3,4) by simp
  then have "\<exists>u. setup_channel ffi client_zmq ring_lookup trailing self t = (u, self\<lparr>cc_channel := Some ch\<rparr>)"
    using assms(4) ch(5,6) found names by (simp add: setup_channel_def ring_from_ptr_def nonnull_new_def)
  moreover have "rings v' (ring_raw (rx_q ch)) = rings v (ring_raw (rx_q ch))"
    if "rings v (ring_raw (tx_q ch)) \<noteq> None"
      and "engine_send rops ffi pktmbuf_free err eng' (cc_id self) pkt v = (v', r)" for v pkt v' r
    using that ch(2) named_rings.engine_send_rings [OF assms(1) ch(1) _ that(2)] by auto
  ultimately show ?thesis using ch(1,2) by (auto simp: maps)
qed

definition answering_socket :: "'s zmq_ffi" where
  "answering_socket = quiet_socket\<lparr>zmq_recv := (\<lambda>s. (Inr ''1'', s))\<rparr>"

theorem client_channel_not_crossed_witness:
  "case set_client_status map_ops map_ops (store_ffi 4) quiet_socket sample_errno 0 7 0 sample_engine no_rings of
     (eng', s', r) \<Rightarrow> r = Ok () \<and>
       (\<exists>u ch. setup_channel (store_ffi 4) answering_socket (store_lookup 4) [NUL] \<lparr>cc_id = 7, cc_channel = None\<rparr> s' =
          (u, \<lparr>cc_id = 7, cc_channel = Some ch\<rparr>) \<and> ring_map (ringmap eng') 7 = Some ch)"
proof -
  let ?self = "\<lparr>cc_id = 7, cc_channel = None\<rparr>"
  have inv: "clients_inv (cm_get map_ops (statusmap sample_engine)) (cm_get map_ops (ring_map (ringmap sample_engine)))
      (store_view no_rings)"
    by (auto simp: clients_inv_def map_ops_def sample_engine_def separate_def owned_rings_def store_view_def no_rings_def)
  have client: "client_register answering_socket ?self t = (t, Ok ())" for t :: ring_store
    by (simp add: client_register_def client_send_def answering_socket_def quiet_socket_def)
  have "set_client_status map_ops map_ops (store_ffi 4) quiet_socket sample_errno 0 (cc_id ?self) 0 sample_engine no_rings =
      set_client_status map_ops map_ops (store_ffi 4) quiet_socket sample_errno 0 7 0 sample_engine no_rings" by simp
  from client_channel_not_crossed [OF store_named.named_rings_axioms [of 4] inv
      this [unfolded sample_register] client refl, where junk = "[]"]
  show ?thesis unfolding sample_register by (auto simp: map_ops_def)
qed

end
