(* ===== verification/Config.thy ===== *)
theory Config
  imports Cidr_V4 Cidr_V6 Mac Dpdk
begin

text \<open>
  The runtime configuration, \<open>engine/src/config.rs\<close>: the settings with their defaults, the
  custom deserializers, and the two functions that turn settings into the cores of the
  runtime and the command line of DPDK's environment layer. The TOML reader hands over the
  fields that are present, with their types; the regular expression matcher (\<open>regex\<close>) is
  an argument.
\<close>

section \<open>Settings\<close>

record mempool_config =
  mp_capacity :: usize
  mp_cache_size :: usize

record port_config =
  pc_name :: string
  pc_device :: string
  pc_args :: "string option"
  pc_cores :: "core_id list"
  pc_rxd :: usize
  pc_txd :: usize
  pc_promiscuous :: bool
  pc_multicast :: bool
  pc_kni :: bool

record runtime_config =
  app_name :: string
  secondary :: bool
  app_group :: "string option"
  master_core :: core_id
  rc_cores :: "core_id list"
  rc_mempool :: mempool_config
  rc_ports :: "port_config list"
  dpdk_args :: "string option"
  duration :: "u64 option"

section \<open>Deserialization\<close>

definition default_capacity :: usize where
  "default_capacity = 65535"

definition default_cache_size :: usize where
  "default_cache_size = 0"

definition mempool_config_default :: mempool_config where
  "mempool_config_default = \<lparr>mp_capacity = default_capacity, mp_cache_size = default_cache_size\<rparr>"

definition default_port_rxd :: usize where
  "default_port_rxd = 128"

definition default_port_txd :: usize where
  "default_port_txd = 128"

definition default_multicast_mode :: bool where
  "default_multicast_mode = True"

definition core_id_deserialize :: "usize \<Rightarrow> core_id" where
  "core_id_deserialize i = core_new i"

text \<open>The custom deserializers pass on the text of the parser's error.\<close>

fun mac_error_text :: "mac_parse_error \<Rightarrow> string" where
  "mac_error_text (MacParseError s) = ''Failed to parse '' @ [CHR 0x27] @ s @ [CHR 0x27] @ '' as MAC address.''"

fun cidr_error_text :: "cidr_error \<Rightarrow> string" where
  "cidr_error_text (Malformed s) = ''Failed to parse CIDR: '' @ s"
| "cidr_error_text InvalidPrefixLength = ''Invalid prefix length''"

definition mac_deserialize :: "string \<Rightarrow> string + mac_addr" where
  "mac_deserialize s = (case mac_from_str s of Inl e \<Rightarrow> Inl (mac_error_text e) | Inr m \<Rightarrow> Inr m)"

definition ipv4_cidr_deserialize :: "string \<Rightarrow> string + ipv4_cidr" where
  "ipv4_cidr_deserialize s = (case v4_from_str s of Inl e \<Rightarrow> Inl (cidr_error_text e) | Inr c \<Rightarrow> Inr c)"

definition ipv6_cidr_deserialize :: "string \<Rightarrow> string + ipv6_cidr" where
  "ipv6_cidr_deserialize s = (case v6_from_str s of Inl e \<Rightarrow> Inl (cidr_error_text e) | Inr c \<Rightarrow> Inr c)"

text \<open>A duration is its number of seconds.\<close>

definition duration_from_secs :: "u64 \<Rightarrow> u64" where
  "duration_from_secs secs = secs"

definition duration_option_from_secs :: "u64 option \<Rightarrow> u64 option" where
  "duration_option_from_secs x =
     Option.bind (map_option duration_from_secs x) (\<lambda>dur. if 0 < dur then Some dur else None)"

text \<open>
  The fields the TOML reader found. A required field that is absent is an error, every
  other one has its default; the runtime table must not have unknown fields.
\<close>

record raw_mempool =
  raw_capacity :: "usize option"
  raw_cache_size :: "usize option"

record raw_port =
  raw_name :: "string option"
  raw_device :: "string option"
  raw_args :: "string option"
  raw_port_cores :: "usize list option"
  raw_rxd :: "usize option"
  raw_txd :: "usize option"
  raw_promiscuous :: "bool option"
  raw_multicast :: "bool option"
  raw_kni :: "bool option"

record raw_runtime =
  raw_unknown :: "string list"
  raw_app_name :: "string option"
  raw_secondary :: "bool option"
  raw_app_group :: "string option"
  raw_master_core :: "usize option"
  raw_cores :: "usize list option"
  raw_mempool_table :: "raw_mempool option"
  raw_ports :: "raw_port list option"
  raw_dpdk_args :: "string option"
  raw_duration :: "u64 option"

datatype config_error = MissingField string | UnknownField string

definition or_default :: "'a option \<Rightarrow> 'a \<Rightarrow> 'a" where
  "or_default x d = (case x of None \<Rightarrow> d | Some v \<Rightarrow> v)"

fun required :: "string \<Rightarrow> 'a option \<Rightarrow> ('a \<Rightarrow> config_error + 'b) \<Rightarrow> config_error + 'b" where
  "required field None k = Inl (MissingField field)"
| "required field (Some x) k = k x"

definition mempool_config_of :: "raw_mempool option \<Rightarrow> mempool_config" where
  "mempool_config_of raw =
     (case raw of
        None \<Rightarrow> mempool_config_default
      | Some t \<Rightarrow> \<lparr>mp_capacity = or_default (raw_capacity t) default_capacity,
                  mp_cache_size = or_default (raw_cache_size t) default_cache_size\<rparr>)"

definition port_config_of :: "raw_port \<Rightarrow> config_error + port_config" where
  "port_config_of raw =
     required ''name'' (raw_name raw) (\<lambda>name.
     required ''device'' (raw_device raw) (\<lambda>device.
     required ''cores'' (raw_port_cores raw) (\<lambda>cores.
       Inr \<lparr>pc_name = name, pc_device = device, pc_args = raw_args raw,
            pc_cores = map core_id_deserialize cores,
            pc_rxd = or_default (raw_rxd raw) default_port_rxd,
            pc_txd = or_default (raw_txd raw) default_port_txd,
            pc_promiscuous = or_default (raw_promiscuous raw) False,
            pc_multicast = or_default (raw_multicast raw) default_multicast_mode,
            pc_kni = or_default (raw_kni raw) False\<rparr>)))"

fun port_configs_of :: "raw_port list \<Rightarrow> config_error + port_config list" where
  "port_configs_of [] = Inr []"
| "port_configs_of (r # rs) =
     (case port_config_of r of
        Inl e \<Rightarrow> Inl e
      | Inr p \<Rightarrow> (case port_configs_of rs of Inl e \<Rightarrow> Inl e | Inr ps \<Rightarrow> Inr (p # ps)))"

definition runtime_config_of :: "raw_runtime \<Rightarrow> config_error + runtime_config" where
  "runtime_config_of raw =
     (case raw_unknown raw of
        f # _ \<Rightarrow> Inl (UnknownField f)
      | [] \<Rightarrow>
         (case (case raw_ports raw of None \<Rightarrow> Inr None
                | Some rs \<Rightarrow> (case port_configs_of rs of Inl e \<Rightarrow> Inl e | Inr ps \<Rightarrow> Inr (Some ps))) of
            Inl e \<Rightarrow> Inl e
          | Inr parsed \<Rightarrow>
              required ''app_name'' (raw_app_name raw) (\<lambda>name.
              required ''master_core'' (raw_master_core raw) (\<lambda>master.
              required ''ports'' parsed (\<lambda>ports.
                Inr \<lparr>app_name = name, secondary = or_default (raw_secondary raw) False,
                     app_group = raw_app_group raw, master_core = core_id_deserialize master,
                     rc_cores = map core_id_deserialize (or_default (raw_cores raw) []),
                     rc_mempool = mempool_config_of (raw_mempool_table raw), rc_ports = ports,
                     dpdk_args = raw_dpdk_args raw,
                     duration = duration_option_from_secs (raw_duration raw)\<rparr>)))))"

text \<open>
  \<open>load_config\<close> from the path the command line gives: the file system and the TOML parser are
  arguments, and their errors are passed on by \<open>?\<close> and \<open>into\<close>. The parser gives the table;
  serde turns it into the settings.
\<close>

datatype ('io, 'toml) load_error = IoError 'io | TomlError 'toml | SerdeError config_error

definition load_config ::
  "(string \<Rightarrow> 'io + string) \<Rightarrow> (string \<Rightarrow> 'toml + raw_runtime) \<Rightarrow> string \<Rightarrow>
   ('io, 'toml) load_error + runtime_config" where
  "load_config read_to_string toml_parse path =
     (case read_to_string path of
        Inl e \<Rightarrow> Inl (IoError e)
      | Inr content \<Rightarrow>
          (case toml_parse content of
             Inl e \<Rightarrow> Inl (TomlError e)
           | Inr raw \<Rightarrow>
               (case runtime_config_of raw of Inl e \<Rightarrow> Inl (SerdeError e) | Inr c \<Rightarrow> Inr c)))"

section \<open>Use of the settings\<close>

definition all_cores :: "runtime_config \<Rightarrow> core_id list" where
  "all_cores c =
     remdups_adj (sort (master_core c # rc_cores c @ concat (map pc_cores (rc_ports c))))"

definition num_knis :: "runtime_config \<Rightarrow> nat" where
  "num_knis c = length (filter pc_kni (rc_ports c))"

text \<open>\<open>str::contains\<close> for a string pattern: the pattern occurs somewhere in the text.\<close>

fun str_contains :: "string \<Rightarrow> string \<Rightarrow> bool" where
  "str_contains [] pat = (pat = [])"
| "str_contains (c # cs) pat = (take (length pat) (c # cs) = pat \<or> str_contains cs pat)"

text \<open>The argument of \<open>-l\<close>: the loops over the ports and their cores.\<close>

fun add_core :: "core_id \<Rightarrow> string \<Rightarrow> string" where
  "add_core (CoreId n) cores =
     (let c = dec_string n
      in if \<not> str_contains cores c then (if cores = [] then c else cores @ '', '' @ c) else cores)"

definition core_list :: "port_config list \<Rightarrow> string" where
  "core_list ports = fold (\<lambda>port cores. fold add_core (pc_cores port) cores) ports []"

definition PCIE :: string where
  "PCIE = ''^'' @ [CHR 0x5C] @ ''d{4}:'' @ [CHR 0x5C] @ ''d{2}:'' @ [CHR 0x5C] @ ''d{2}'' @ [CHR 0x5C] @ ''.''
     @ [CHR 0x5C] @ ''d$''"

definition port_eal_args :: "(string \<Rightarrow> string \<Rightarrow> bool) \<Rightarrow> port_config \<Rightarrow> string list" where
  "port_eal_args is_match port =
     (if is_match PCIE (pc_device port) then [''--pci-whitelist'', pc_device port]
      else [''--vdev'',
            case pc_args port of Some args \<Rightarrow> pc_device port @ '','' @ args | None \<Rightarrow> pc_device port])"

text \<open>\<open>split_ascii_whitespace\<close>: the maximal runs of other characters.\<close>

definition ascii_whitespace :: "char \<Rightarrow> bool" where
  "ascii_whitespace c \<longleftrightarrow> (of_char c :: nat) \<in> {9, 10, 12, 13, 32}"

definition split_ascii_whitespace :: "string \<Rightarrow> string list" where
  "split_ascii_whitespace s = filter (\<lambda>w. w \<noteq> []) (split_on ascii_whitespace s)"

definition to_eal_args :: "(string \<Rightarrow> string \<Rightarrow> bool) \<Rightarrow> runtime_config \<Rightarrow> string list" where
  "to_eal_args is_match c =
     [app_name c]
     @ [''--proc-type'', if secondary c then ''secondary'' else ''primary'']
     @ [''--file-prefix'', case app_group c of Some g \<Rightarrow> g | None \<Rightarrow> app_name c]
     @ concat (map (port_eal_args is_match) (rc_ports c))
     @ [''--master-lcore'', dec_string (core_raw (master_core c))]
     @ [''-l'', core_list (rc_ports c)]
     @ (case dpdk_args c of Some args \<Rightarrow> split_ascii_whitespace args | None \<Rightarrow> [])"

section \<open>Lemmas\<close>

fun join :: "string \<Rightarrow> string list \<Rightarrow> string" where
  "join sep [] = []"
| "join sep [x] = x"
| "join sep (x # y # xs) = x @ sep @ join sep (y # xs)"

text \<open>The elements of a list in the order of their first occurrence.\<close>

definition firsts :: "'a list \<Rightarrow> 'a list" where
  "firsts xs = rev (remdups (rev xs))"

lemma firsts_simps [simp]:
  "firsts [] = []"
  "firsts (xs @ [x]) = (if x \<in> set xs then firsts xs else firsts xs @ [x])"
  "set (firsts xs) = set xs"
  by (simp_all add: firsts_def)

lemma join_snoc: "join sep (xs @ [x]) = (if xs = [] then x else join sep xs @ sep @ x)"
  by (induction sep xs rule: join.induct) auto

lemma core_list_fold: "core_list ports = fold add_core (concat (map pc_cores ports)) []"
proof -
  have "fold (\<lambda>port cores. fold add_core (pc_cores port) cores) ports s
      = fold add_core (concat (map pc_cores ports)) s" for s
    by (induction ports arbitrary: s) auto
  then show ?thesis by (simp add: core_list_def)
qed

lemma dec_string_digit: "n < 10 \<Longrightarrow> dec_string n = [digit_char n]"
  by (simp add: dec_string_def digits_of.simps [of 10 n])

lemma digit_char_inj:
  assumes "m < 10" "n < 10" "digit_char m = digit_char n"
  shows "m = n"
proof -
  have r: "(10::nat) \<le> 36" by simp
  have "Some m = to_digit 10 (digit_char m)" by (rule to_digit_digit_char [OF assms(1) r, symmetric])
  also have "\<dots> = to_digit 10 (digit_char n)" by (rule arg_cong [OF assms(3)])
  also have "\<dots> = Some n" by (rule to_digit_digit_char [OF assms(2) r])
  finally show ?thesis by (rule option.inject [THEN iffD1])
qed

section \<open>Cores and arguments\<close>

text \<open>
  \<open>all_cores\<close> gives the master core, the additional cores and the cores of all ports
  in increasing order, each once.
\<close>

lemma all_cores_spec:
  "all_cores c = sorted_list_of_set
     ({master_core c} \<union> set (rc_cores c) \<union> (\<Union>p \<in> set (rc_ports c). set (pc_cores p)))"
  unfolding all_cores_def sort_dedup_set by (rule arg_cong [of _ _ sorted_list_of_set]) auto

definition sample_port :: "string \<Rightarrow> string option \<Rightarrow> nat list \<Rightarrow> port_config" where
  "sample_port device args cores =
     \<lparr>pc_name = ''eth'', pc_device = device, pc_args = args, pc_cores = map CoreId cores,
      pc_rxd = 32, pc_txd = 32, pc_promiscuous = False, pc_multicast = True, pc_kni = False\<rparr>"

text \<open>
  The command line for the configuration of the unit test, for any matcher that
  recognises the PCIe address and rejects the virtual device: the argument of \<open>-l\<close> lists
  the cores of the ports. (The test expects the master core alone.)
\<close>

lemma eal_args_of_test_config:
  assumes "is_match PCIE ''0000:00:01.0''" "\<not> is_match PCIE ''net_pcap0''"
  shows "to_eal_args is_match
      \<lparr>app_name = ''myapp'', secondary = False, app_group = Some ''mygroup'', master_core = CoreId 0,
       rc_cores = [CoreId 1], rc_mempool = \<lparr>mp_capacity = 255, mp_cache_size = 16\<rparr>,
       rc_ports = [sample_port ''0000:00:01.0'' None [2, 3], sample_port ''net_pcap0'' (Some ''rx=lo,tx=lo'') [0, 4]],
       dpdk_args = Some ''-v --log-level eal:8'', duration = None\<rparr>
    = [''myapp'', ''--proc-type'', ''primary'', ''--file-prefix'', ''mygroup'', ''--pci-whitelist'', ''0000:00:01.0'',
       ''--vdev'', ''net_pcap0,rx=lo,tx=lo'', ''--master-lcore'', ''0'', ''-l'', ''2, 3, 0, 4'', ''-v'', ''--log-level'',
       ''eal:8'']"
proof -
  have "dec_string 0 = ''0''" "dec_string 2 = ''2''" "dec_string 3 = ''3''" "dec_string 4 = ''4''" by code_simp+
  moreover have "split_ascii_whitespace ''-v --log-level eal:8'' = [''-v'', ''--log-level'', ''eal:8'']"
    by code_simp
  ultimately show ?thesis
    using assms by (simp add: to_eal_args_def port_eal_args_def sample_port_def core_list_def Let_def)
qed

lemma eal_args_of_test_config_witness:
  "''2, 3, 0, 4'' \<in> set (to_eal_args (\<lambda>_ s. s = ''0000:00:01.0'')
      \<lparr>app_name = ''myapp'', secondary = False, app_group = Some ''mygroup'', master_core = CoreId 0,
       rc_cores = [CoreId 1], rc_mempool = \<lparr>mp_capacity = 255, mp_cache_size = 16\<rparr>,
       rc_ports = [sample_port ''0000:00:01.0'' None [2, 3], sample_port ''net_pcap0'' (Some ''rx=lo,tx=lo'') [0, 4]],
       dpdk_args = Some ''-v --log-level eal:8'', duration = None\<rparr>)"
  by (subst eal_args_of_test_config) simp_all

end
