(* ===== verification/Layout.thy ===== *)
theory Layout
  imports Prelude
begin

text \<open>
  The memory layout Rust gives a \<open>#[repr(C)]\<close> type, as far as the bindings use it:
  integers, pointers, arrays, structs (with \<open>repr(align)\<close> or \<open>repr(packed)\<close>) and unions.
  \<open>c_size\<close> and \<open>c_align\<close> are \<open>mem::size_of\<close> and \<open>mem::align_of\<close>; \<open>field_slots\<close> places the
  fields of a type. The lemmas show what a struct promises to code that goes through raw
  pointers: aligned fields, no field overlapping another, none reaching past the end.
\<close>

section \<open>Types\<close>

text \<open>
  A \<open>Scalar n\<close> has \<open>n\<close> bytes and, on x86-64, alignment \<open>n\<close>. The number of a \<open>Struct\<close> or
  \<open>Union\<close> is its \<open>repr(align)\<close> (1 without one), the flag is \<open>repr(packed)\<close>.
\<close>

datatype c_type =
    Scalar nat
  | Arr c_type nat
  | Struct nat bool "(string \<times> c_type) list"
  | Union nat "(string \<times> c_type) list"

abbreviation "U8 \<equiv> Scalar 1"
abbreviation "U16 \<equiv> Scalar 2"
abbreviation "U32 \<equiv> Scalar 4"
abbreviation "U64 \<equiv> Scalar 8"
abbreviation "Pointer \<equiv> Scalar 8"

definition round_up :: "nat \<Rightarrow> nat \<Rightarrow> nat" where
  "round_up n a = (n + (a - 1)) div a * a"

definition max_of :: "nat \<Rightarrow> nat list \<Rightarrow> nat" where
  "max_of least ns = foldr max ns least"

text \<open>
  Fields, given by alignment and size, are placed one after the other, each at the next
  position its alignment allows. \<open>placed_end\<close> is the first byte behind the last one.
\<close>

fun place :: "nat \<Rightarrow> (nat \<times> nat) list \<Rightarrow> nat list" where
  "place pos [] = []"
| "place pos ((a, s) # fs) = round_up pos a # place (round_up pos a + s) fs"

fun placed_end :: "nat \<Rightarrow> (nat \<times> nat) list \<Rightarrow> nat" where
  "placed_end pos [] = pos"
| "placed_end pos ((a, s) # fs) = placed_end (round_up pos a + s) fs"

fun c_align :: "c_type \<Rightarrow> nat" where
  "c_align (Scalar n) = n"
| "c_align (Arr t n) = c_align t"
| "c_align (Struct al packed fs) =
     max al (if packed then 1 else max_of 1 (map (\<lambda>f. c_align (snd f)) fs))"
| "c_align (Union al fs) = max al (max_of 1 (map (\<lambda>f. c_align (snd f)) fs))"

definition field_align :: "bool \<Rightarrow> c_type \<Rightarrow> nat" where
  "field_align packed t = (if packed then 1 else c_align t)"

fun c_size :: "c_type \<Rightarrow> nat" where
  "c_size (Scalar n) = n"
| "c_size (Arr t n) = n * c_size t"
| "c_size (Struct al packed fs) =
     round_up (placed_end 0 (map (\<lambda>f. (field_align packed (snd f), c_size (snd f))) fs))
       (c_align (Struct al packed fs))"
| "c_size (Union al fs) =
     round_up (max_of 0 (map (\<lambda>f. c_size (snd f)) fs)) (c_align (Union al fs))"

definition shapes :: "bool \<Rightarrow> (string \<times> c_type) list \<Rightarrow> (nat \<times> nat) list" where
  "shapes packed fs = map (\<lambda>f. (field_align packed (snd f), c_size (snd f))) fs"

text \<open>The slots of a type: the name, the offset and the type of each field.\<close>

fun field_slots :: "c_type \<Rightarrow> (string \<times> nat \<times> c_type) list" where
  "field_slots (Struct al packed fs) =
     zip (map fst fs) (zip (place 0 (shapes packed fs)) (map snd fs))"
| "field_slots (Union al fs) = map (\<lambda>f. (fst f, 0, snd f)) fs"
| "field_slots t = []"

definition field_offset :: "c_type \<Rightarrow> string \<Rightarrow> nat option" where
  "field_offset t f = map_option fst (map_of (field_slots t) f)"

text \<open>A place inside nested structs and unions, by the path of field names to it.\<close>

fun slot_at :: "c_type \<Rightarrow> string list \<Rightarrow> (nat \<times> c_type) option" where
  "slot_at t [] = Some (0, t)"
| "slot_at t (f # path) =
     (case map_of (field_slots t) f of
        None \<Rightarrow> None
      | Some (off, u) \<Rightarrow> map_option (\<lambda>(o', v). (off + o', v)) (slot_at u path))"

text \<open>
  What one of the \<open>bindgen_test_layout\<close> tests asserts: the size, the alignment and the
  offsets of the fields it names.
\<close>

record layout_test =
  asserted_size :: nat
  asserted_align :: nat
  asserted_offsets :: "(string \<times> nat) list"

definition layout_test_passes :: "c_type \<Rightarrow> layout_test \<Rightarrow> bool" where
  "layout_test_passes t w \<longleftrightarrow>
     c_size t = asserted_size w \<and> c_align t = asserted_align w \<and>
     list_all (\<lambda>(f, n). field_offset t f = Some n) (asserted_offsets w)"

section \<open>Well-formed types\<close>

text \<open>Every alignment that can be declared is a power of two.\<close>

definition pow2 :: "nat \<Rightarrow> bool" where
  "pow2 n \<longleftrightarrow> (\<exists>k. n = 2 ^ k)"

fun wf_type :: "c_type \<Rightarrow> bool" where
  "wf_type (Scalar n) \<longleftrightarrow> n \<in> set [1, 2, 4, 8, 16]"
| "wf_type (Arr t n) \<longleftrightarrow> wf_type t"
| "wf_type (Struct al packed fs) \<longleftrightarrow>
     al \<in> set [1, 2, 4, 8, 16, 32, 64, 128] \<and> list_all (\<lambda>f. wf_type (snd f)) fs"
| "wf_type (Union al fs) \<longleftrightarrow>
     al \<in> set [1, 2, 4, 8, 16, 32, 64, 128] \<and> list_all (\<lambda>f. wf_type (snd f)) fs"

section \<open>Lemmas\<close>

lemma round_up_ge:
  assumes "0 < a"
  shows "n \<le> round_up n a"
proof -
  have "(n + (a - 1)) mod a < a" using assms by simp
  moreover have "n + (a - 1) = round_up n a + (n + (a - 1)) mod a" by (simp add: round_up_def)
  ultimately show ?thesis using assms by linarith
qed

lemma round_up_dvd [simp]: "a dvd round_up n a"
  by (simp add: round_up_def)

lemma pow2_dvd: "pow2 a \<Longrightarrow> pow2 b \<Longrightarrow> a \<le> b \<Longrightarrow> a dvd b"
  by (auto simp: pow2_def le_imp_power_dvd)

lemma pow2_max [intro]: "pow2 a \<Longrightarrow> pow2 b \<Longrightarrow> pow2 (max a b)"
  by (simp add: max_def)

lemma pow2_1 [simp]: "pow2 1" "pow2 (Suc 0)"
  by (auto simp: pow2_def intro: exI [of _ 0])

lemma pow2_literals: "n \<in> set [1, 2, 4, 8, 16, 32, 64, 128] \<Longrightarrow> pow2 n"
proof -
  assume "n \<in> set [1, 2, 4, 8, 16, 32, 64, 128]"
  then have "n \<in> (\<lambda>k. 2 ^ k) ` set [0, 1, 2, 3, 4, 5, 6, 7]" by simp
  then obtain k where "n = 2 ^ k" by blast
  then show ?thesis by (auto simp: pow2_def)
qed

lemma pow2_pos: "pow2 n \<Longrightarrow> 0 < n"
  by (auto simp: pow2_def)

lemma pow2_max_of: "(\<And>n. n \<in> set ns \<Longrightarrow> pow2 n) \<Longrightarrow> pow2 (max_of 1 ns)"
  unfolding max_of_def by (induction ns) auto

lemma max_of_ge: "n \<in> set ns \<Longrightarrow> n \<le> max_of b ns"
  unfolding max_of_def by (induction ns) auto

lemma pow2_align: "wf_type t \<Longrightarrow> pow2 (c_align t)"
proof (induction t)
  case (Scalar n)
  then show ?case using pow2_literals [of n] by auto
next
  case (Struct al packed fs)
  have "pow2 al" using Struct.prems pow2_literals [of al] by simp
  moreover have "pow2 (max_of 1 (map (\<lambda>f. c_align (snd f)) fs))"
    using Struct by (intro pow2_max_of) (auto simp: list_all_iff snds.simps)
  ultimately show ?case by auto
next
  case (Union al fs)
  have "pow2 al" using Union.prems pow2_literals [of al] by simp
  moreover
  have "pow2 n" if "n \<in> set (map (\<lambda>f. c_align (snd f)) fs)" for n
    using that Union by (auto simp: list_all_iff snds.simps)
  then have "pow2 (max_of 1 (map (\<lambda>f. c_align (snd f)) fs))" by (rule pow2_max_of)
  ultimately show ?case by auto
qed simp

lemma align_pos: "wf_type t \<Longrightarrow> 0 < c_align t"
  by (rule pow2_pos [OF pow2_align])

lemma size_dvd_align: "wf_type t \<Longrightarrow> c_align t dvd c_size t"
  by (induction t) (simp_all del: c_align.simps(3,4) add: dvd_mult)

lemma field_offset_map:
  assumes "map (\<lambda>(f, off, _). (f, off)) (field_slots t) = offs"
  shows "field_offset t f = map_of offs f"
proof -
  have "map_of (map (\<lambda>(f, off, _). (f, off)) slots) f = map_option fst (map_of slots f)"
    for slots :: "(string \<times> nat \<times> c_type) list"
    by (induction slots) auto
  then show ?thesis using assms by (auto simp: field_offset_def)
qed

text \<open>For a long struct whose test asserts all offsets: the slots are evaluated once.\<close>

lemma layout_test_passes_all_slots:
  assumes "c_size t = asserted_size w" "c_align t = asserted_align w"
    and "map (\<lambda>(f, off, _). (f, off)) (field_slots t) = asserted_offsets w"
    and "distinct (map fst (asserted_offsets w))"
  shows "layout_test_passes t w"
  using assms field_offset_map [OF assms(3)]
  by (auto simp: layout_test_passes_def list_all_iff)

lemma length_place [simp]: "length (place pos fs) = length fs"
  by (induction pos fs rule: place.induct) auto

lemma place_ge: "\<forall>(a, s) \<in> set fs. 0 < a \<Longrightarrow> n \<in> set (place pos fs) \<Longrightarrow> pos \<le> n"
proof (induction pos fs rule: place.induct)
  case (2 pos a s fs)
  then have "pos \<le> round_up pos a" by (simp add: round_up_ge)
  with 2 show ?case by fastforce
qed simp

lemma placed_end_ge: "\<forall>(a, s) \<in> set fs. 0 < a \<Longrightarrow> pos \<le> placed_end pos fs"
proof (induction pos fs rule: placed_end.induct)
  case (2 pos a s fs)
  then have "pos \<le> round_up pos a" by (simp add: round_up_ge)
  with 2 show ?case by fastforce
qed simp

lemma place_fields:
  assumes "\<forall>(a, s) \<in> set fs. 0 < a" "i < length fs"
  shows "fst (fs ! i) dvd place pos fs ! i"
    and "place pos fs ! i + snd (fs ! i) \<le> placed_end pos fs"
    and "i < j \<Longrightarrow> j < length fs \<Longrightarrow> place pos fs ! i + snd (fs ! i) \<le> place pos fs ! j"
proof -
  have "fst (fs ! i) dvd place pos fs ! i
    \<and> place pos fs ! i + snd (fs ! i) \<le> placed_end pos fs
    \<and> (i < j \<longrightarrow> j < length fs \<longrightarrow> place pos fs ! i + snd (fs ! i) \<le> place pos fs ! j)"
    using assms
  proof (induction pos fs arbitrary: i j rule: place.induct)
    case (2 pos a s fs)
    show ?case
    proof (cases i)
      case 0
      have "round_up pos a + s \<le> place (round_up pos a + s) fs ! (j - 1)"
        if "0 < j" "j < length ((a, s) # fs)"
      proof (rule place_ge)
        show "place (round_up pos a + s) fs ! (j - 1) \<in> set (place (round_up pos a + s) fs)"
          using that by (intro nth_mem) auto
      qed (use "2.prems" in simp)
      then show ?thesis using 0 "2.prems" placed_end_ge [of fs "round_up pos a + s"]
        by (auto simp: nth_Cons')
    next
      case (Suc k)
      have "\<forall>(a, s) \<in> set fs. 0 < a" "k < length fs" using "2.prems" Suc by auto
      note IH = "2.IH" [OF this]
      show ?thesis using IH [of "j - 1"] Suc by (auto simp: nth_Cons')
    qed
  qed simp
  then show "fst (fs ! i) dvd place pos fs ! i"
    and "place pos fs ! i + snd (fs ! i) \<le> placed_end pos fs"
    and "i < j \<Longrightarrow> j < length fs \<Longrightarrow> place pos fs ! i + snd (fs ! i) \<le> place pos fs ! j"
    by auto
qed

lemma shapes_align: "list_all (\<lambda>f. wf_type (snd f)) fs \<Longrightarrow> \<forall>(a, s) \<in> set (shapes packed fs). 0 < a"
  by (auto simp: shapes_def field_align_def list_all_iff align_pos)

lemma struct_size: "c_size (Struct al packed fs) =
    round_up (placed_end 0 (shapes packed fs)) (c_align (Struct al packed fs))"
  by (simp add: shapes_def)

lemma field_align_dvd:
  assumes "wf_type (Struct al False fs)" "f \<in> set fs"
  shows "c_align (snd f) dvd c_align (Struct al False fs)"
proof (rule pow2_dvd)
  show "pow2 (c_align (snd f))" using assms by (auto simp: list_all_iff intro: pow2_align)
  show "pow2 (c_align (Struct al False fs))" by (rule pow2_align [OF assms(1)])
  have "c_align (snd f) \<le> max_of 1 (map (\<lambda>f. c_align (snd f)) fs)"
    using assms(2) by (intro max_of_ge) auto
  then show "c_align (snd f) \<le> c_align (Struct al False fs)" by simp
qed

text \<open>
  The layout of every well-formed struct is sound: its slots are the declared fields in
  their order, none overlaps a later one or reaches past the end of the struct, the size is
  a multiple of the alignment, and unless the struct is packed every field sits at a
  multiple of its own alignment, which divides the struct's, so that it is aligned in memory.
\<close>

lemma struct_layout_sound:
  assumes "wf_type (Struct al packed fs)"
  shows "map (\<lambda>(f, _, t). (f, t)) (field_slots (Struct al packed fs)) = fs
    \<and> c_align (Struct al packed fs) dvd c_size (Struct al packed fs)
    \<and> (\<forall>i < length fs. case field_slots (Struct al packed fs) ! i of (_, off, t) \<Rightarrow>
      off + c_size t \<le> c_size (Struct al packed fs)
      \<and> (\<not> packed \<longrightarrow> c_align t dvd off \<and> c_align t dvd c_align (Struct al packed fs))
      \<and> (\<forall>j. i < j \<and> j < length fs \<longrightarrow>
           off + c_size t \<le> fst (snd (field_slots (Struct al packed fs) ! j))))"
proof (intro conjI)
  let ?T = "Struct al packed fs" and ?ps = "place 0 (shapes packed fs)"
  have wf: "list_all (\<lambda>f. wf_type (snd f)) fs" using assms by simp
  have len [simp]: "length (shapes packed fs) = length fs" by (simp add: shapes_def)
  have slot: "field_slots ?T ! i = (fst (fs ! i), ?ps ! i, snd (fs ! i))" if "i < length fs" for i
    using that by simp
  show "map (\<lambda>(f, _, t). (f, t)) (field_slots ?T) = fs"
    by (rule nth_equalityI) simp_all
  show "c_align ?T dvd c_size ?T" by (rule size_dvd_align [OF assms])
  show "\<forall>i < length fs. case field_slots ?T ! i of (_, off, t) \<Rightarrow>
      off + c_size t \<le> c_size ?T
      \<and> (\<not> packed \<longrightarrow> c_align t dvd off \<and> c_align t dvd c_align ?T)
      \<and> (\<forall>j. i < j \<and> j < length fs \<longrightarrow> off + c_size t \<le> fst (snd (field_slots ?T ! j)))"
  proof (intro allI impI)
    fix i assume i: "i < length fs"
    have shape: "shapes packed fs ! i = (field_align packed (snd (fs ! i)), c_size (snd (fs ! i)))"
      using i by (simp add: shapes_def)
    have i': "i < length (shapes packed fs)" using i by simp
    note pf = place_fields [OF shapes_align [OF wf] i', where pos = 0, unfolded len shape fst_conv snd_conv]
    have "placed_end 0 (shapes packed fs) \<le> c_size ?T"
      unfolding struct_size by (rule round_up_ge [OF align_pos [OF assms]])
    moreover have "\<not> packed \<longrightarrow> c_align (snd (fs ! i)) dvd c_align ?T"
      using assms i field_align_dvd [of al fs "fs ! i"] by auto
    moreover have "\<not> packed \<longrightarrow> c_align (snd (fs ! i)) dvd ?ps ! i"
      using pf(1) by (cases packed) (simp_all add: field_align_def)
    ultimately show "case field_slots ?T ! i of (_, off, t) \<Rightarrow>
      off + c_size t \<le> c_size ?T
      \<and> (\<not> packed \<longrightarrow> c_align t dvd off \<and> c_align t dvd c_align ?T)
      \<and> (\<forall>j. i < j \<and> j < length fs \<longrightarrow> off + c_size t \<le> fst (snd (field_slots ?T ! j)))"
      using order_trans [OF pf(2)] pf(3) i
      by (simp add: slot del: field_slots.simps c_size.simps c_align.simps)
  qed
qed

lemma struct_layout_sound_witness:
  "wf_type (Struct 64 False [(''len'', U16), (''next'', Pointer)])
    \<and> (case field_slots (Struct 64 False [(''len'', U16), (''next'', Pointer)]) ! 0 of (_, off, t) \<Rightarrow>
         off + c_size t \<le> fst (snd (field_slots (Struct 64 False [(''len'', U16), (''next'', Pointer)]) ! 1)))"
  using struct_layout_sound [of 64 False "[(''len'', U16), (''next'', Pointer)]"]
  by (simp del: field_slots.simps c_size.simps c_align.simps add: split_beta)

end
