(* ===== verification/Bitfield.thy ===== *)
theory Bitfield
  imports Layout
begin

text \<open>
  The bit fields of the bindings (\<open>ffi/src/bindings_rustdoc.rs\<close>): C packs several integers
  into the bits of one storage unit, and \<open>__BindgenBitfieldUnit\<close> reads and writes them bit
  by bit. The storage is its list of bytes; \<open>storage_bit\<close> is the abstraction the operations
  are specified against, bit \<open>k\<close> of the unit. Only the little-endian branch of \<open>cfg!\<close> is
  compiled on x86-64.
\<close>

section \<open>The storage unit\<close>

definition bitfield_unit :: "nat \<Rightarrow> c_type \<Rightarrow> c_type" where
  "bitfield_unit n a = Struct 1 False [(''storage'', Arr U8 n), (''align'', Arr a 0)]"

text \<open>\<open>debug_assert!\<close> is compiled into the \<open>dev\<close> profile only.\<close>

definition debug_assert :: "profile \<Rightarrow> bool \<Rightarrow> ('e, unit) outcome" where
  "debug_assert p c = (if p = Dev \<and> \<not> c then Panic AssertionFailed else Ok ())"

definition unit_get_bit :: "profile \<Rightarrow> u8 list \<Rightarrow> usize \<Rightarrow> ('e, bool) outcome" where
  "unit_get_bit p storage index =
     and_then (debug_assert p (index div 8 < length storage)) (\<lambda>_.
       let byte_index = index div 8 in
       if byte_index < length storage
       then let byte = storage ! byte_index;
                bit_index = index mod 8;
                mask = push_bit bit_index 1
            in Ok (byte AND mask = mask)
       else Panic IndexOutOfBounds)"

definition unit_set_bit ::
  "profile \<Rightarrow> usize \<Rightarrow> bool \<Rightarrow> u8 list \<Rightarrow> u8 list \<times> ('e, unit) outcome" where
  "unit_set_bit p index val storage =
     with_ok storage (debug_assert p (index div 8 < length storage)) (\<lambda>_.
       let byte_index = index div 8 in
       if byte_index < length storage
       then let byte = storage ! byte_index;
                bit_index = index mod 8;
                mask = push_bit bit_index 1
            in (storage[byte_index := (if val then byte OR mask else byte AND NOT mask)], Ok ())
       else (storage, Panic IndexOutOfBounds))"

text \<open>
  \<open>1 << i\<close> in \<open>u64\<close>. In the \<open>dev\<close> profile \<open>i\<close> is below 64 by the first assertion of the
  callers; in the \<open>release\<close> profile the shift uses the low six bits of \<open>i\<close>.
\<close>

definition bit64 :: "nat \<Rightarrow> u64" where
  "bit64 i = push_bit (i mod 64) 1"

definition unit_asserts :: "profile \<Rightarrow> u8 list \<Rightarrow> usize \<Rightarrow> u8 \<Rightarrow> ('e, unit) outcome" where
  "unit_asserts p storage bit_offset bit_width =
     and_then (debug_assert p (unat bit_width \<le> 64)) (\<lambda>_.
     and_then (debug_assert p (bit_offset div 8 < length storage)) (\<lambda>_.
     case p of
       Release \<Rightarrow> Ok ()
     | Dev \<Rightarrow> and_then (usize_add p bit_offset (unat bit_width)) (\<lambda>end.
         debug_assert p (end div 8 \<le> length storage))))"

fun unit_get_loop ::
  "profile \<Rightarrow> u8 list \<Rightarrow> usize \<Rightarrow> nat list \<Rightarrow> u64 \<Rightarrow> ('e, u64) outcome" where
  "unit_get_loop p storage bit_offset [] val = Ok val"
| "unit_get_loop p storage bit_offset (i # is) val =
     and_then (usize_add p i bit_offset) (\<lambda>k.
     and_then (unit_get_bit p storage k) (\<lambda>b.
       unit_get_loop p storage bit_offset is (if b then val OR bit64 i else val)))"

definition unit_get :: "profile \<Rightarrow> u8 list \<Rightarrow> usize \<Rightarrow> u8 \<Rightarrow> ('e, u64) outcome" where
  "unit_get p storage bit_offset bit_width =
     and_then (unit_asserts p storage bit_offset bit_width) (\<lambda>_.
       unit_get_loop p storage bit_offset [0..<unat bit_width] 0)"

fun unit_set_loop ::
  "profile \<Rightarrow> usize \<Rightarrow> nat list \<Rightarrow> u64 \<Rightarrow> u8 list \<Rightarrow> u8 list \<times> ('e, unit) outcome" where
  "unit_set_loop p bit_offset [] val storage = (storage, Ok ())"
| "unit_set_loop p bit_offset (i # is) val storage =
     (let mask = bit64 i;
          val_bit_is_set = (val AND mask = mask)
      in with_ok storage (usize_add p i bit_offset) (\<lambda>k.
         case unit_set_bit p k val_bit_is_set storage of
           (storage', r) \<Rightarrow> with_ok storage' r (\<lambda>_.
             unit_set_loop p bit_offset is val storage')))"

definition unit_set ::
  "profile \<Rightarrow> usize \<Rightarrow> u8 \<Rightarrow> u64 \<Rightarrow> u8 list \<Rightarrow> u8 list \<times> ('e, unit) outcome" where
  "unit_set p bit_offset bit_width val storage =
     with_ok storage (unit_asserts p storage bit_offset bit_width) (\<lambda>_.
       unit_set_loop p bit_offset [0..<unat bit_width] val storage)"

section \<open>Bits of the storage\<close>

definition storage_bit :: "u8 list \<Rightarrow> nat \<Rightarrow> bool" where
  "storage_bit storage k = bit (storage ! (k div 8)) (k mod 8)"

text \<open>Positions a real object can have: an allocation is smaller than \<open>isize::MAX\<close> bytes.\<close>

definition storage_ok :: "u8 list \<Rightarrow> bool" where
  "storage_ok storage \<longleftrightarrow> 8 * length storage + 256 < usize_limit"

lemma byte_index: "k < 8 * length storage \<Longrightarrow> k div 8 < length (storage :: u8 list)"
  by (simp add: less_mult_imp_div_less mult.commute)

lemma bit_two_power: "bit (2 ^ n :: 'a::len word) m \<longleftrightarrow> m = n \<and> n < LENGTH('a)"
  by (auto simp: bit_exp_iff)

lemma and_mask_eq: "n < LENGTH('a) \<Longrightarrow> (w AND 2 ^ n = (2 ^ n :: 'a::len word)) = bit w n"
  by (metis bit_and_iff bit_two_power bit_word_eqI)

lemma unit_get_bit_in:
  assumes "k < 8 * length storage"
  shows "unit_get_bit p storage k = Ok (storage_bit storage k)"
  using byte_index [OF assms]
  by (simp add: unit_get_bit_def debug_assert_def storage_bit_def Let_def and_mask_eq)

lemma unit_get_bit_out:
  assumes "8 * length storage \<le> k"
  shows "\<exists>e. unit_get_bit p storage k = Panic e"
proof -
  have "\<not> k div 8 < length storage" using assms by (simp add: div_less_iff_less_mult)
  then show ?thesis by (cases p) (simp_all add: unit_get_bit_def debug_assert_def Let_def)
qed

lemma unit_set_bit_in:
  assumes "k < 8 * length storage"
  shows "\<exists>storage'. unit_set_bit p k v storage = (storage', Ok ())
    \<and> length storage' = length storage
    \<and> (\<forall>j < 8 * length storage. storage_bit storage' j = (if j = k then v else storage_bit storage j))"
proof -
  define w where "w = (if v then storage ! (k div 8) OR push_bit (k mod 8) 1
    else storage ! (k div 8) AND NOT (push_bit (k mod 8) 1))"
  have bits: "bit w n = (if n = k mod 8 then v else bit (storage ! (k div 8)) n)" if "n < 8" for n
    using that by (auto simp: w_def bit_or_iff bit_and_iff bit_not_iff bit_two_power)
  have "storage_bit (storage[k div 8 := w]) j = (if j = k then v else storage_bit storage j)"
    if "j < 8 * length storage" for j
  proof (cases "j div 8 = k div 8")
    case True
    then have "j = k \<longleftrightarrow> j mod 8 = k mod 8" by (metis mod_mult_div_eq)
    then show ?thesis using True byte_index [OF assms] bits [of "j mod 8"]
      by (simp add: storage_bit_def)
  next
    case False
    then show ?thesis by (auto simp: storage_bit_def)
  qed
  then show ?thesis using byte_index [OF assms]
    by (intro exI [of _ "storage[k div 8 := w]"])
       (simp add: unit_set_bit_def debug_assert_def Let_def w_def)
qed

lemma unit_set_bit_out:
  assumes "8 * length storage \<le> k"
  shows "\<exists>e. unit_set_bit p k v storage = (storage, Panic e)"
proof -
  have "\<not> k div 8 < length storage" using assms by (simp add: div_less_iff_less_mult)
  then show ?thesis by (cases p) (simp_all add: unit_set_bit_def debug_assert_def Let_def)
qed

section \<open>Ranges of bits\<close>

lemma unit_asserts_in:
  assumes "storage_ok storage" "unat w \<le> 64" "off < 8 * length storage"
    "off + unat w \<le> 8 * length storage"
  shows "unit_asserts p storage off w = Ok ()"
proof -
  have "off + unat w < usize_limit" using assms(1,4) by (simp add: storage_ok_def)
  moreover have "(off + unat w) div 8 \<le> length storage"
    using assms(4) by (metis div_le_mono nonzero_mult_div_cancel_left zero_neq_numeral)
  ultimately show ?thesis using assms(2) byte_index [OF assms(3)]
    by (cases p) (simp_all add: unit_asserts_def debug_assert_def usize_add_Ok)
qed

lemma bit_bit64: "i < 64 \<Longrightarrow> bit (bit64 i) j \<longleftrightarrow> j = i"
  by (simp add: bit64_def bit_two_power)

lemma and_bit64: "i < 64 \<Longrightarrow> (v AND bit64 i = bit64 i) \<longleftrightarrow> bit v i"
  by (simp add: bit64_def and_mask_eq)

lemma unit_get_loop_in:
  assumes "storage_ok storage" "\<forall>i \<in> set is. i < 64 \<and> i + off < 8 * length storage"
  shows "\<exists>v. unit_get_loop p storage off is acc = (Ok v :: ('e, u64) outcome)
    \<and> (\<forall>j. bit v j \<longleftrightarrow> bit acc j \<or> j \<in> set is \<and> storage_bit storage (off + j))"
  using assms(2)
proof (induction "is" arbitrary: acc)
  case (Cons i "is")
  have "i + off < usize_limit" using Cons.prems assms(1) by (simp add: storage_ok_def)
  moreover have "unit_get_bit p storage (i + off) = (Ok (storage_bit storage (i + off)) :: ('e, bool) outcome)"
    using Cons.prems by (intro unit_get_bit_in) simp
  moreover have "\<forall>i \<in> set is. i < 64 \<and> i + off < 8 * length storage" using Cons.prems by simp
  note Cons.IH [OF this, of "if storage_bit storage (i + off) then acc OR bit64 i else acc"]
  moreover have "i < 64" using Cons.prems by simp
  ultimately show ?case
    by (auto simp: usize_add_Ok bit_or_iff bit_bit64 add.commute)
qed simp

lemma unit_set_loop_in:
  assumes "\<forall>i \<in> set is. i < 64 \<and> i + off < 8 * length storage" "storage_ok storage"
  shows "\<exists>storage'. unit_set_loop p off is v storage = (storage', (Ok () :: ('e, unit) outcome))
    \<and> length storage' = length storage
    \<and> (\<forall>k < 8 * length storage. storage_bit storage' k =
         (if off \<le> k \<and> k - off \<in> set is then bit v (k - off) else storage_bit storage k))"
  using assms
proof (induction "is" arbitrary: storage)
  case (Cons i "is")
  have add: "usize_add p i off = Ok (i + off)"
    using Cons.prems by (intro usize_add_Ok) (simp add: storage_ok_def)
  have i: "i < 64" "i + off < 8 * length storage" using Cons.prems(1) by auto
  obtain s1 where s1: "unit_set_bit p (i + off) (bit v i) storage = (s1, (Ok () :: ('e, unit) outcome))"
    "length s1 = length storage"
    "\<forall>j < 8 * length storage. storage_bit s1 j = (if j = i + off then bit v i else storage_bit storage j)"
    using unit_set_bit_in [OF i(2)] by metis
  have "\<forall>i \<in> set is. i < 64 \<and> i + off < 8 * length s1" "storage_ok s1"
    using Cons.prems s1(2) by (auto simp: storage_ok_def)
  from Cons.IH [OF this] obtain s2 where s2: "unit_set_loop p off is v s1 = (s2, (Ok () :: ('e, unit) outcome))"
    "length s2 = length s1"
    "\<forall>k < 8 * length s1. storage_bit s2 k =
         (if off \<le> k \<and> k - off \<in> set is then bit v (k - off) else storage_bit s1 k)"
    by metis
  have "unit_set_loop p off (i # is) v storage = (s2, (Ok () :: ('e, unit) outcome))"
    using i(1) by (simp add: and_bit64 add s1(1) s2(1))
  moreover have "storage_bit s2 k = (if off \<le> k \<and> k - off \<in> set (i # is) then bit v (k - off)
      else storage_bit storage k)" if "k < 8 * length storage" for k
    using that s1(2,3) s2(3) by auto
  ultimately show ?case using s1(2) s2(2) by auto
qed auto

text \<open>The two operations on a range of at most 64 bits inside the storage.\<close>

lemma unit_get_in:
  assumes "storage_ok storage" "unat w \<le> 64" "0 < unat w" "off + unat w \<le> 8 * length storage"
  shows "\<exists>v. unit_get p storage off w = Ok v
    \<and> (\<forall>j. bit v j \<longleftrightarrow> j < unat w \<and> storage_bit storage (off + j))"
proof -
  have "off < 8 * length storage" using assms(3,4) by linarith
  note ok = unit_asserts_in [OF assms(1,2) this assms(4)]
  have "\<forall>i \<in> set [0..<unat w]. i < 64 \<and> i + off < 8 * length storage" using assms(2,4) by auto
  from unit_get_loop_in [OF assms(1) this, of p 0] show ?thesis
    by (simp add: unit_get_def ok)
qed

lemma unit_set_in:
  assumes "storage_ok storage" "unat w \<le> 64" "0 < unat w" "off + unat w \<le> 8 * length storage"
  shows "\<exists>storage'. unit_set p off w v storage = (storage', (Ok () :: ('e, unit) outcome))
    \<and> length storage' = length storage
    \<and> (\<forall>k < 8 * length storage. storage_bit storage' k =
         (if off \<le> k \<and> k < off + unat w then bit v (k - off) else storage_bit storage k))"
proof -
  have "off < 8 * length storage" using assms(3,4) by linarith
  note ok = unit_asserts_in [OF assms(1,2) this assms(4)]
  have "\<forall>i \<in> set [0..<unat w]. i < 64 \<and> i + off < 8 * length storage" using assms(2,4) by auto
  from unit_set_loop_in [OF this assms(1), of p v] obtain s' where
    "unit_set_loop p off [0..<unat w] v storage = (s', (Ok () :: ('e, unit) outcome))" "length s' = length storage"
    "\<forall>k < 8 * length storage. storage_bit s' k =
       (if off \<le> k \<and> k - off \<in> set [0..<unat w] then bit v (k - off) else storage_bit storage k)"
    by metis
  then show ?thesis by (intro exI [of _ s']) (auto simp: unit_set_def ok)
qed

lemma unit_get_eq:
  assumes "storage_ok storage" "unat w \<le> 64" "0 < unat w" "off + unat w \<le> 8 * length storage"
    "\<And>j. bit x j \<longleftrightarrow> j < unat w \<and> storage_bit storage (off + j)"
  shows "unit_get p storage off w = (Ok x :: ('e, u64) outcome)"
proof -
  obtain v where v: "unit_get p storage off w = (Ok v :: ('e, u64) outcome)"
    "\<forall>j. bit v j \<longleftrightarrow> j < unat w \<and> storage_bit storage (off + j)"
    using unit_get_in [OF assms(1-4)] by metis
  have "v = x" by (rule bit_word_eqI) (simp only: v(2) assms(5))
  with v(1) show ?thesis by simp
qed

lemma unit_get_cong:
  assumes "storage_ok s1" "storage_ok s2" "length s1 = length s2"
    "unat w \<le> 64" "0 < unat w" "off + unat w \<le> 8 * length s1"
    "\<And>j. j < unat w \<Longrightarrow> storage_bit s1 (off + j) = storage_bit s2 (off + j)"
  shows "unit_get p s1 off w = (unit_get p s2 off w :: ('e, u64) outcome)"
proof -
  obtain v where v: "unit_get p s2 off w = (Ok v :: ('e, u64) outcome)"
    "\<forall>j. bit v j \<longleftrightarrow> j < unat w \<and> storage_bit s2 (off + j)"
    using unit_get_in [OF assms(2,4,5)] assms(3,6) by metis
  have "unit_get p s1 off w = (Ok v :: ('e, u64) outcome)"
    by (rule unit_get_eq [OF assms(1,4,5,6)]) (use v(2) assms(7) in blast)
  with v(1) show ?thesis by simp
qed

text \<open>
  What \<open>set\<close> stores in a range of at most 64 bits inside the unit, \<open>get\<close> reads back (cut to
  the width of the range), and every range apart from it reads as before. Neither call panics.
\<close>

lemma unit_set_get:
  assumes "storage_ok storage" "unat w \<le> 64" "0 < unat w" "off + unat w \<le> 8 * length storage"
  shows "\<exists>storage'. unit_set p off w v storage = (storage', (Ok () :: ('e, unit) outcome))
    \<and> length storage' = length storage
    \<and> unit_get p storage' off w = (Ok (take_bit (unat w) v) :: ('e, u64) outcome)
    \<and> (\<forall>off' w'. unat w' \<le> 64 \<and> 0 < unat w' \<and> off' + unat w' \<le> 8 * length storage
         \<and> (off' + unat w' \<le> off \<or> off + unat w \<le> off')
         \<longrightarrow> unit_get p storage' off' w' = (unit_get p storage off' w' :: ('e, u64) outcome))"
proof -
  obtain s' where s': "unit_set p off w v storage = (s', (Ok () :: ('e, unit) outcome))"
    "length s' = length storage"
    "\<forall>k < 8 * length storage. storage_bit s' k =
       (if off \<le> k \<and> k < off + unat w then bit v (k - off) else storage_bit storage k)"
    using unit_set_in [OF assms] by metis
  have ok': "storage_ok s'" using assms(1) s'(2) by (simp add: storage_ok_def)
  have "unit_get p s' off w = (Ok (take_bit (unat w) v) :: ('e, u64) outcome)"
  proof (rule unit_get_eq [OF ok' assms(2,3)])
    show "bit (take_bit (unat w) v) j \<longleftrightarrow> j < unat w \<and> storage_bit s' (off + j)" for j
      using s'(3) [rule_format, of "off + j"] assms(4) by (auto simp: bit_take_bit_iff)
  qed (use assms(4) s'(2) in simp)
  moreover have "unit_get p s' off' w' = (unit_get p storage off' w' :: ('e, u64) outcome)"
    if r: "unat w' \<le> 64 \<and> 0 < unat w' \<and> off' + unat w' \<le> 8 * length storage
      \<and> (off' + unat w' \<le> off \<or> off + unat w \<le> off')" for off' w'
  proof (rule unit_get_cong [OF ok' assms(1) s'(2)])
    show "storage_bit s' (off' + j) = storage_bit storage (off' + j)" if "j < unat w'" for j
      using s'(3) [rule_format, of "off' + j"] r that by auto
  qed (use r s'(2) in simp_all)
  ultimately show ?thesis using s'(1,2) by (intro exI [of _ s'] conjI allI impI) simp_all
qed

lemma unit_set_get_witness:
  "\<exists>storage'. unit_set Dev 7 9 511 [0, 0, 0] = (storage', (Ok () :: (unit, unit) outcome))
    \<and> unit_get Dev storage' 7 9 = (Ok (take_bit 9 511) :: (unit, u64) outcome)
    \<and> unit_get Dev storage' 0 7 = (unit_get Dev [0, 0, 0] 0 7 :: (unit, u64) outcome)"
proof -
  have "storage_ok [0, 0, 0]" by (simp add: storage_ok_def usize_limit_def)
  from unit_set_get [OF this, of 9 7 Dev 511, where 'e = unit] show ?thesis
    by (auto dest: spec [of _ 0] spec [of _ 7])
qed

section \<open>Past the end\<close>

lemma unit_get_loop_out:
  assumes "\<forall>i \<in> set is. i + off < usize_limit" "\<exists>i \<in> set is. 8 * length storage \<le> i + off"
  shows "\<exists>e. unit_get_loop p storage off is acc = (Panic e :: ('e, u64) outcome)"
  using assms
proof (induction "is" arbitrary: acc)
  case (Cons i "is")
  have add: "usize_add p i off = (Ok (i + off) :: ('e, usize) outcome)"
    using Cons.prems(1) by (intro usize_add_Ok) simp
  show ?case
  proof (cases "8 * length storage \<le> i + off")
    case True
    then obtain e where "unit_get_bit p storage (i + off) = (Panic e :: ('e, bool) outcome)"
      using unit_get_bit_out by metis
    then show ?thesis by (simp add: add)
  next
    case False
    then have "unit_get_bit p storage (i + off)
        = (Ok (storage_bit storage (i + off)) :: ('e, bool) outcome)"
      by (intro unit_get_bit_in) simp
    then show ?thesis using Cons.IH Cons.prems False by (simp add: add)
  qed
qed simp

lemma unit_set_loop_out:
  assumes "\<forall>i \<in> set is. i + off < usize_limit" "\<exists>i \<in> set is. 8 * length storage \<le> i + off"
  shows "\<exists>storage' e. unit_set_loop p off is v storage = (storage', (Panic e :: ('e, unit) outcome))"
  using assms
proof (induction "is" arbitrary: storage)
  case (Cons i "is")
  have add: "usize_add p i off = (Ok (i + off) :: ('e, usize) outcome)"
    using Cons.prems(1) by (intro usize_add_Ok) simp
  let ?b = "v AND bit64 i = bit64 i"
  show ?case
  proof (cases "8 * length storage \<le> i + off")
    case True
    then obtain e where "unit_set_bit p (i + off) ?b storage = (storage, (Panic e :: ('e, unit) outcome))"
      using unit_set_bit_out by metis
    then show ?thesis by (simp add: add)
  next
    case False
    then have "i + off < 8 * length storage" by simp
    from unit_set_bit_in [OF this, of p ?b, where 'a = 'e] obtain s1 where
      s1: "unit_set_bit p (i + off) ?b storage = (s1, (Ok () :: ('e, unit) outcome))"
        "length s1 = length storage" by blast
    have "\<exists>storage' e. unit_set_loop p off is v s1 = (storage', (Panic e :: ('e, unit) outcome))"
      using Cons.IH [of s1] Cons.prems False s1(2) by auto
    then show ?thesis by (simp add: add s1(1))
  qed
qed simp

text \<open>
  An access that reaches past the last bit of the unit never returns: \<open>get\<close> and \<open>set\<close> panic
  in both profiles. (The last \<open>debug_assert!\<close> lets up to seven bits too many through, and a
  release build has no assertions; the index of the byte is what stops the access.)
\<close>

lemma unit_access_past_end:
  assumes "off + unat w < usize_limit" "0 < unat w" "8 * length storage < off + unat w"
  shows "(\<exists>e. unit_get p storage off w = (Panic e :: ('e, u64) outcome))
    \<and> (\<exists>storage' e. unit_set p off w v storage = (storage', (Panic e :: ('e, unit) outcome)))"
proof (cases "unit_asserts p storage off w :: ('e, unit) outcome")
  case (Ok u)
  have "\<forall>i \<in> set [0..<unat w]. i + off < usize_limit" using assms(1) by auto
  moreover have "\<exists>i \<in> set [0..<unat w]. 8 * length storage \<le> i + off"
    using assms(2,3) by (intro bexI [of _ "unat w - 1"]) auto
  ultimately show ?thesis
    using unit_get_loop_out [of "[0..<unat w]" off storage p 0, where 'e = 'e]
      unit_set_loop_out [of "[0..<unat w]" off storage p v, where 'e = 'e]
    by (simp add: unit_get_def unit_set_def Ok)
next
  case (Panic e)
  then show ?thesis by (simp add: unit_get_def unit_set_def)
qed (use assms(1) in \<open>auto simp: unit_asserts_def debug_assert_def usize_add_Ok split: profile.splits if_splits\<close>)

lemma unit_access_past_end_witness:
  "(\<exists>e. unit_get Dev [0] 4 8 = (Panic e :: (unit, u64) outcome))
    \<and> (\<exists>storage' e. unit_set Dev 4 8 255 [0] = (storage', (Panic e :: (unit, unit) outcome)))"
  by (rule unit_access_past_end) (simp_all add: usize_limit_def)

end
