(* ===== verification/Bound_Types.thy ===== *)
theory Bound_Types
  imports Bitfield
begin

text \<open>
  The C types of DPDK that the engine works on, as \<open>ffi/src/bindings_rustdoc.rs\<close> declares
  them. \<open>ty_X\<close> is the declaration of the struct or union \<open>X\<close>, field by field; \<open>test_X\<close> is
  what its \<open>bindgen_test_layout_X\<close> asserts of the layout in C. Enumerations are their integer
  type, function pointers and \<open>Option\<close>s of them are pointers (all eight bytes).

  Each declaration passes its test: the layout Rust computes for it is the one of C.
\<close>

named_theorems layout_eval \<open>evaluation of layouts\<close>
named_theorems layout_simps \<open>sizes, alignments and tests of the bound types\<close>

lemmas [layout_eval] =
  round_up_def max_of_def shapes_def field_align_def field_offset_def bitfield_unit_def
  layout_test_passes_def   numeral_2_eq_2 [symmetric]

section \<open>Packet headers\<close>

text \<open>The Ethernet address and header and the IPv4 header (\<open>rte_ether_hdr\<close>, \<open>rte_ipv4_hdr\<close>).\<close>

definition ty_rte_ether_addr :: c_type where
  "ty_rte_ether_addr = Struct 2 False [(''addr_bytes'', Arr U8 6)]"

definition test_rte_ether_addr :: layout_test where
  "test_rte_ether_addr = \<lparr>asserted_size = 6, asserted_align = 2,
     asserted_offsets = [(''addr_bytes'', 0)]\<rparr>"

definition ty_rte_ether_hdr :: c_type where
  "ty_rte_ether_hdr = Struct 1 False [(''d_addr'', ty_rte_ether_addr),
      (''s_addr'', ty_rte_ether_addr), (''ether_type'', U16)]"

definition test_rte_ether_hdr :: layout_test where
  "test_rte_ether_hdr = \<lparr>asserted_size = 14, asserted_align = 2,
     asserted_offsets = [(''d_addr'', 0), (''s_addr'', 6), (''ether_type'', 12)]\<rparr>"

definition ty_rte_ipv4_hdr :: c_type where
  "ty_rte_ipv4_hdr = Struct 1 True [(''version_ihl'', U8), (''type_of_service'', U8),
      (''total_length'', U16), (''packet_id'', U16), (''fragment_offset'', U16),
      (''time_to_live'', U8), (''next_proto_id'', U8), (''hdr_checksum'', U16),
      (''src_addr'', U32), (''dst_addr'', U32)]"

definition test_rte_ipv4_hdr :: layout_test where
  "test_rte_ipv4_hdr = \<lparr>asserted_size = 20, asserted_align = 1,
     asserted_offsets = [(''version_ihl'', 0), (''type_of_service'', 1), (''total_length'', 2),
      (''packet_id'', 4), (''fragment_offset'', 6), (''time_to_live'', 8),
      (''next_proto_id'', 9), (''hdr_checksum'', 10), (''src_addr'', 12),
      (''dst_addr'', 16)]\<rparr>"

lemma layout_rte_ether_addr [layout_simps]:
  "c_size ty_rte_ether_addr = 6" "c_align ty_rte_ether_addr = 2" "wf_type ty_rte_ether_addr"
  "layout_test_passes ty_rte_ether_addr test_rte_ether_addr"
  by (simp_all add: ty_rte_ether_addr_def test_rte_ether_addr_def layout_simps layout_eval)

lemma layout_rte_ether_hdr [layout_simps]:
  "c_size ty_rte_ether_hdr = 14" "c_align ty_rte_ether_hdr = 2" "wf_type ty_rte_ether_hdr"
  "layout_test_passes ty_rte_ether_hdr test_rte_ether_hdr"
  by (simp_all add: ty_rte_ether_hdr_def test_rte_ether_hdr_def layout_simps layout_eval)

lemma layout_rte_ipv4_hdr [layout_simps]:
  "c_size ty_rte_ipv4_hdr = 20" "c_align ty_rte_ipv4_hdr = 1" "wf_type ty_rte_ipv4_hdr"
  "layout_test_passes ty_rte_ipv4_hdr test_rte_ipv4_hdr"
  by (simp_all add: ty_rte_ipv4_hdr_def test_rte_ipv4_hdr_def layout_simps layout_eval)

section \<open>Message buffers\<close>

text \<open>\<open>rte_mbuf\<close> with the structs and unions nested in it, which bindgen names by their path.\<close>

definition ty_rte_mbuf_sched :: c_type where
  "ty_rte_mbuf_sched = Struct 1 False [(''queue_id'', U32), (''traffic_class'', U8),
      (''color'', U8), (''reserved'', U16)]"

definition test_rte_mbuf_sched :: layout_test where
  "test_rte_mbuf_sched = \<lparr>asserted_size = 8, asserted_align = 4,
     asserted_offsets = [(''queue_id'', 0), (''traffic_class'', 4), (''color'', 5),
      (''reserved'', 6)]\<rparr>"

definition ty_rte_mbuf__bindgen_ty_1 :: c_type where
  "ty_rte_mbuf__bindgen_ty_1 = Union 1 [(''buf_iova'', U64), (''buf_physaddr'', U64),
      (''_bindgen_union_align'', U64)]"

definition test_rte_mbuf__bindgen_ty_1 :: layout_test where
  "test_rte_mbuf__bindgen_ty_1 = \<lparr>asserted_size = 8, asserted_align = 8,
     asserted_offsets = [(''buf_iova'', 0), (''buf_physaddr'', 0)]\<rparr>"

definition ty_rte_atomic16_t :: c_type where
  "ty_rte_atomic16_t = Struct 1 False [(''cnt'', U16)]"

definition test_rte_atomic16_t :: layout_test where
  "test_rte_atomic16_t = \<lparr>asserted_size = 2, asserted_align = 2,
     asserted_offsets = [(''cnt'', 0)]\<rparr>"

definition ty_rte_mbuf__bindgen_ty_2 :: c_type where
  "ty_rte_mbuf__bindgen_ty_2 = Union 1 [(''refcnt_atomic'', ty_rte_atomic16_t),
      (''refcnt'', U16), (''_bindgen_union_align'', U16)]"

definition test_rte_mbuf__bindgen_ty_2 :: layout_test where
  "test_rte_mbuf__bindgen_ty_2 = \<lparr>asserted_size = 2, asserted_align = 2,
     asserted_offsets = [(''refcnt_atomic'', 0), (''refcnt'', 0)]\<rparr>"

definition ty_rte_mbuf__bindgen_ty_3__bindgen_ty_1__bindgen_ty_1__bindgen_ty_1 :: c_type where
  "ty_rte_mbuf__bindgen_ty_3__bindgen_ty_1__bindgen_ty_1__bindgen_ty_1 = Struct 1 True [
      (''_bitfield_1'', bitfield_unit 1 U8)]"

definition test_rte_mbuf__bindgen_ty_3__bindgen_ty_1__bindgen_ty_1__bindgen_ty_1 :: layout_test where
  "test_rte_mbuf__bindgen_ty_3__bindgen_ty_1__bindgen_ty_1__bindgen_ty_1 = \<lparr>asserted_size = 1, asserted_align = 1,
     asserted_offsets = []\<rparr>"

definition ty_rte_mbuf__bindgen_ty_3__bindgen_ty_1__bindgen_ty_1 :: c_type where
  "ty_rte_mbuf__bindgen_ty_3__bindgen_ty_1__bindgen_ty_1 = Union 1 [
      (''inner_esp_next_proto'', U8),
      (''__bindgen_anon_1'', ty_rte_mbuf__bindgen_ty_3__bindgen_ty_1__bindgen_ty_1__bindgen_ty_1),
      (''_bindgen_union_align'', U8)]"

definition test_rte_mbuf__bindgen_ty_3__bindgen_ty_1__bindgen_ty_1 :: layout_test where
  "test_rte_mbuf__bindgen_ty_3__bindgen_ty_1__bindgen_ty_1 = \<lparr>asserted_size = 1, asserted_align = 1,
     asserted_offsets = [(''inner_esp_next_proto'', 0)]\<rparr>"

definition ty_rte_mbuf__bindgen_ty_3__bindgen_ty_1 :: c_type where
  "ty_rte_mbuf__bindgen_ty_3__bindgen_ty_1 = Struct 4 False [
      (''_bitfield_1'', bitfield_unit 2 U8),
      (''__bindgen_anon_1'', ty_rte_mbuf__bindgen_ty_3__bindgen_ty_1__bindgen_ty_1),
      (''_bitfield_2'', bitfield_unit 1 U8)]"

definition test_rte_mbuf__bindgen_ty_3__bindgen_ty_1 :: layout_test where
  "test_rte_mbuf__bindgen_ty_3__bindgen_ty_1 = \<lparr>asserted_size = 4, asserted_align = 4,
     asserted_offsets = []\<rparr>"

definition ty_rte_mbuf__bindgen_ty_3 :: c_type where
  "ty_rte_mbuf__bindgen_ty_3 = Union 1 [(''packet_type'', U32),
      (''__bindgen_anon_1'', ty_rte_mbuf__bindgen_ty_3__bindgen_ty_1),
      (''_bindgen_union_align'', U32)]"

definition test_rte_mbuf__bindgen_ty_3 :: layout_test where
  "test_rte_mbuf__bindgen_ty_3 = \<lparr>asserted_size = 4, asserted_align = 4,
     asserted_offsets = [(''packet_type'', 0)]\<rparr>"

definition ty_rte_mbuf__bindgen_ty_4__bindgen_ty_1__bindgen_ty_1__bindgen_ty_1__bindgen_ty_1 :: c_type where
  "ty_rte_mbuf__bindgen_ty_4__bindgen_ty_1__bindgen_ty_1__bindgen_ty_1__bindgen_ty_1 = Struct 1 False [
      (''hash'', U16), (''id'', U16)]"

definition test_rte_mbuf__bindgen_ty_4__bindgen_ty_1__bindgen_ty_1__bindgen_ty_1__bindgen_ty_1 :: layout_test where
  "test_rte_mbuf__bindgen_ty_4__bindgen_ty_1__bindgen_ty_1__bindgen_ty_1__bindgen_ty_1 = \<lparr>asserted_size = 4, asserted_align = 2,
     asserted_offsets = [(''hash'', 0), (''id'', 2)]\<rparr>"

definition ty_rte_mbuf__bindgen_ty_4__bindgen_ty_1__bindgen_ty_1__bindgen_ty_1 :: c_type where
  "ty_rte_mbuf__bindgen_ty_4__bindgen_ty_1__bindgen_ty_1__bindgen_ty_1 = Union 1 [
      (''__bindgen_anon_1'', ty_rte_mbuf__bindgen_ty_4__bindgen_ty_1__bindgen_ty_1__bindgen_ty_1__bindgen_ty_1),
      (''lo'', U32), (''_bindgen_union_align'', U32)]"

definition test_rte_mbuf__bindgen_ty_4__bindgen_ty_1__bindgen_ty_1__bindgen_ty_1 :: layout_test where
  "test_rte_mbuf__bindgen_ty_4__bindgen_ty_1__bindgen_ty_1__bindgen_ty_1 = \<lparr>asserted_size = 4, asserted_align = 4,
     asserted_offsets = [(''lo'', 0)]\<rparr>"

definition ty_rte_mbuf__bindgen_ty_4__bindgen_ty_1__bindgen_ty_1 :: c_type where
  "ty_rte_mbuf__bindgen_ty_4__bindgen_ty_1__bindgen_ty_1 = Struct 1 False [
      (''__bindgen_anon_1'', ty_rte_mbuf__bindgen_ty_4__bindgen_ty_1__bindgen_ty_1__bindgen_ty_1),
      (''hi'', U32)]"

definition test_rte_mbuf__bindgen_ty_4__bindgen_ty_1__bindgen_ty_1 :: layout_test where
  "test_rte_mbuf__bindgen_ty_4__bindgen_ty_1__bindgen_ty_1 = \<lparr>asserted_size = 8, asserted_align = 4,
     asserted_offsets = [(''hi'', 4)]\<rparr>"

definition ty_rte_mbuf__bindgen_ty_4__bindgen_ty_1__bindgen_ty_2 :: c_type where
  "ty_rte_mbuf__bindgen_ty_4__bindgen_ty_1__bindgen_ty_2 = Struct 1 False [(''reserved1'', U32),
      (''reserved2'', U16), (''txq'', U16)]"

definition test_rte_mbuf__bindgen_ty_4__bindgen_ty_1__bindgen_ty_2 :: layout_test where
  "test_rte_mbuf__bindgen_ty_4__bindgen_ty_1__bindgen_ty_2 = \<lparr>asserted_size = 8, asserted_align = 4,
     asserted_offsets = [(''reserved1'', 0), (''reserved2'', 4), (''txq'', 6)]\<rparr>"

definition ty_rte_mbuf__bindgen_ty_4__bindgen_ty_1 :: c_type where
  "ty_rte_mbuf__bindgen_ty_4__bindgen_ty_1 = Union 1 [(''rss'', U32),
      (''fdir'', ty_rte_mbuf__bindgen_ty_4__bindgen_ty_1__bindgen_ty_1),
      (''sched'', ty_rte_mbuf_sched),
      (''txadapter'', ty_rte_mbuf__bindgen_ty_4__bindgen_ty_1__bindgen_ty_2), (''usr'', U32),
      (''_bindgen_union_align'', Arr U32 2)]"

definition test_rte_mbuf__bindgen_ty_4__bindgen_ty_1 :: layout_test where
  "test_rte_mbuf__bindgen_ty_4__bindgen_ty_1 = \<lparr>asserted_size = 8, asserted_align = 4,
     asserted_offsets = [(''rss'', 0), (''fdir'', 0), (''sched'', 0), (''txadapter'', 0),
      (''usr'', 0)]\<rparr>"

definition ty_rte_mbuf__bindgen_ty_4 :: c_type where
  "ty_rte_mbuf__bindgen_ty_4 = Union 1 [(''hash'', ty_rte_mbuf__bindgen_ty_4__bindgen_ty_1),
      (''_bindgen_union_align'', Arr U32 2)]"

definition test_rte_mbuf__bindgen_ty_4 :: layout_test where
  "test_rte_mbuf__bindgen_ty_4 = \<lparr>asserted_size = 8, asserted_align = 4,
     asserted_offsets = [(''hash'', 0)]\<rparr>"

definition ty_rte_mbuf__bindgen_ty_5 :: c_type where
  "ty_rte_mbuf__bindgen_ty_5 = Union 1 [(''userdata'', Pointer), (''udata64'', U64),
      (''_bindgen_union_align'', U64)]"

definition test_rte_mbuf__bindgen_ty_5 :: layout_test where
  "test_rte_mbuf__bindgen_ty_5 = \<lparr>asserted_size = 8, asserted_align = 8,
     asserted_offsets = [(''userdata'', 0), (''udata64'', 0)]\<rparr>"

definition ty_rte_mbuf__bindgen_ty_6__bindgen_ty_1 :: c_type where
  "ty_rte_mbuf__bindgen_ty_6__bindgen_ty_1 = Struct 8 False [
      (''_bitfield_1'', bitfield_unit 8 U16)]"

definition test_rte_mbuf__bindgen_ty_6__bindgen_ty_1 :: layout_test where
  "test_rte_mbuf__bindgen_ty_6__bindgen_ty_1 = \<lparr>asserted_size = 8, asserted_align = 8,
     asserted_offsets = []\<rparr>"

definition ty_rte_mbuf__bindgen_ty_6 :: c_type where
  "ty_rte_mbuf__bindgen_ty_6 = Union 1 [(''tx_offload'', U64),
      (''__bindgen_anon_1'', ty_rte_mbuf__bindgen_ty_6__bindgen_ty_1),
      (''_bindgen_union_align'', U64)]"

definition test_rte_mbuf__bindgen_ty_6 :: layout_test where
  "test_rte_mbuf__bindgen_ty_6 = \<lparr>asserted_size = 8, asserted_align = 8,
     asserted_offsets = [(''tx_offload'', 0)]\<rparr>"

definition ty_rte_mbuf :: c_type where
  "ty_rte_mbuf = Struct 64 False [(''cacheline0'', Arr Pointer 0), (''buf_addr'', Pointer),
      (''__bindgen_anon_1'', ty_rte_mbuf__bindgen_ty_1), (''rearm_data'', Arr U64 0),
      (''data_off'', U16), (''__bindgen_anon_2'', ty_rte_mbuf__bindgen_ty_2), (''nb_segs'', U16),
      (''port'', U16), (''ol_flags'', U64), (''rx_descriptor_fields1'', Arr Pointer 0),
      (''__bindgen_anon_3'', ty_rte_mbuf__bindgen_ty_3), (''pkt_len'', U32), (''data_len'', U16),
      (''vlan_tci'', U16), (''__bindgen_anon_4'', ty_rte_mbuf__bindgen_ty_4),
      (''vlan_tci_outer'', U16), (''buf_len'', U16), (''timestamp'', U64),
      (''cacheline1'', Arr Pointer 0), (''__bindgen_anon_5'', ty_rte_mbuf__bindgen_ty_5),
      (''pool'', Pointer), (''next'', Pointer),
      (''__bindgen_anon_6'', ty_rte_mbuf__bindgen_ty_6), (''priv_size'', U16),
      (''timesync'', U16), (''seqn'', U32), (''shinfo'', Pointer), (''dynfield1'', Arr U64 2)]"

definition test_rte_mbuf :: layout_test where
  "test_rte_mbuf = \<lparr>asserted_size = 128, asserted_align = 64,
     asserted_offsets = [(''cacheline0'', 0), (''buf_addr'', 0), (''rearm_data'', 16),
      (''data_off'', 16), (''nb_segs'', 20), (''port'', 22), (''ol_flags'', 24),
      (''rx_descriptor_fields1'', 32), (''pkt_len'', 36), (''data_len'', 40), (''vlan_tci'', 42),
      (''vlan_tci_outer'', 52), (''buf_len'', 54), (''timestamp'', 56), (''cacheline1'', 64),
      (''pool'', 72), (''next'', 80), (''priv_size'', 96), (''timesync'', 98), (''seqn'', 100),
      (''shinfo'', 104), (''dynfield1'', 112)]\<rparr>"

lemma layout_rte_mbuf_sched [layout_simps]:
  "c_size ty_rte_mbuf_sched = 8" "c_align ty_rte_mbuf_sched = 4" "wf_type ty_rte_mbuf_sched"
  "layout_test_passes ty_rte_mbuf_sched test_rte_mbuf_sched"
  by (simp_all add: ty_rte_mbuf_sched_def test_rte_mbuf_sched_def layout_simps layout_eval)

lemma layout_rte_mbuf__bindgen_ty_1 [layout_simps]:
  "c_size ty_rte_mbuf__bindgen_ty_1 = 8" "c_align ty_rte_mbuf__bindgen_ty_1 = 8" "wf_type ty_rte_mbuf__bindgen_ty_1"
  "layout_test_passes ty_rte_mbuf__bindgen_ty_1 test_rte_mbuf__bindgen_ty_1"
  by (simp_all add: ty_rte_mbuf__bindgen_ty_1_def test_rte_mbuf__bindgen_ty_1_def layout_simps layout_eval)

lemma layout_rte_atomic16_t [layout_simps]:
  "c_size ty_rte_atomic16_t = 2" "c_align ty_rte_atomic16_t = 2" "wf_type ty_rte_atomic16_t"
  "layout_test_passes ty_rte_atomic16_t test_rte_atomic16_t"
  by (simp_all add: ty_rte_atomic16_t_def test_rte_atomic16_t_def layout_simps layout_eval)

lemma layout_rte_mbuf__bindgen_ty_2 [layout_simps]:
  "c_size ty_rte_mbuf__bindgen_ty_2 = 2" "c_align ty_rte_mbuf__bindgen_ty_2 = 2" "wf_type ty_rte_mbuf__bindgen_ty_2"
  "layout_test_passes ty_rte_mbuf__bindgen_ty_2 test_rte_mbuf__bindgen_ty_2"
  by (simp_all add: ty_rte_mbuf__bindgen_ty_2_def test_rte_mbuf__bindgen_ty_2_def layout_simps layout_eval)

lemma layout_rte_mbuf__bindgen_ty_3__bindgen_ty_1__bindgen_ty_1__bindgen_ty_1 [layout_simps]:
  "c_size ty_rte_mbuf__bindgen_ty_3__bindgen_ty_1__bindgen_ty_1__bindgen_ty_1 = 1" "c_align ty_rte_mbuf__bindgen_ty_3__bindgen_ty_1__bindgen_ty_1__bindgen_ty_1 = 1" "wf_type ty_rte_mbuf__bindgen_ty_3__bindgen_ty_1__bindgen_ty_1__bindgen_ty_1"
  "layout_test_passes ty_rte_mbuf__bindgen_ty_3__bindgen_ty_1__bindgen_ty_1__bindgen_ty_1 test_rte_mbuf__bindgen_ty_3__bindgen_ty_1__bindgen_ty_1__bindgen_ty_1"
  by (simp_all add: ty_rte_mbuf__bindgen_ty_3__bindgen_ty_1__bindgen_ty_1__bindgen_ty_1_def test_rte_mbuf__bindgen_ty_3__bindgen_ty_1__bindgen_ty_1__bindgen_ty_1_def layout_simps layout_eval)

lemma layout_rte_mbuf__bindgen_ty_3__bindgen_ty_1__bindgen_ty_1 [layout_simps]:
  "c_size ty_rte_mbuf__bindgen_ty_3__bindgen_ty_1__bindgen_ty_1 = 1" "c_align ty_rte_mbuf__bindgen_ty_3__bindgen_ty_1__bindgen_ty_1 = 1" "wf_type ty_rte_mbuf__bindgen_ty_3__bindgen_ty_1__bindgen_ty_1"
  "layout_test_passes ty_rte_mbuf__bindgen_ty_3__bindgen_ty_1__bindgen_ty_1 test_rte_mbuf__bindgen_ty_3__bindgen_ty_1__bindgen_ty_1"
  by (simp_all add: ty_rte_mbuf__bindgen_ty_3__bindgen_ty_1__bindgen_ty_1_def test_rte_mbuf__bindgen_ty_3__bindgen_ty_1__bindgen_ty_1_def layout_simps layout_eval)

lemma layout_rte_mbuf__bindgen_ty_3__bindgen_ty_1 [layout_simps]:
  "c_size ty_rte_mbuf__bindgen_ty_3__bindgen_ty_1 = 4" "c_align ty_rte_mbuf__bindgen_ty_3__bindgen_ty_1 = 4" "wf_type ty_rte_mbuf__bindgen_ty_3__bindgen_ty_1"
  "layout_test_passes ty_rte_mbuf__bindgen_ty_3__bindgen_ty_1 test_rte_mbuf__bindgen_ty_3__bindgen_ty_1"
  by (simp_all add: ty_rte_mbuf__bindgen_ty_3__bindgen_ty_1_def test_rte_mbuf__bindgen_ty_3__bindgen_ty_1_def layout_simps layout_eval)

lemma layout_rte_mbuf__bindgen_ty_3 [layout_simps]:
  "c_size ty_rte_mbuf__bindgen_ty_3 = 4" "c_align ty_rte_mbuf__bindgen_ty_3 = 4" "wf_type ty_rte_mbuf__bindgen_ty_3"
  "layout_test_passes ty_rte_mbuf__bindgen_ty_3 test_rte_mbuf__bindgen_ty_3"
  by (simp_all add: ty_rte_mbuf__bindgen_ty_3_def test_rte_mbuf__bindgen_ty_3_def layout_simps layout_eval)

lemma layout_rte_mbuf__bindgen_ty_4__bindgen_ty_1__bindgen_ty_1__bindgen_ty_1__bindgen_ty_1 [layout_simps]:
  "c_size ty_rte_mbuf__bindgen_ty_4__bindgen_ty_1__bindgen_ty_1__bindgen_ty_1__bindgen_ty_1 = 4" "c_align ty_rte_mbuf__bindgen_ty_4__bindgen_ty_1__bindgen_ty_1__bindgen_ty_1__bindgen_ty_1 = 2" "wf_type ty_rte_mbuf__bindgen_ty_4__bindgen_ty_1__bindgen_ty_1__bindgen_ty_1__bindgen_ty_1"
  "layout_test_passes ty_rte_mbuf__bindgen_ty_4__bindgen_ty_1__bindgen_ty_1__bindgen_ty_1__bindgen_ty_1 test_rte_mbuf__bindgen_ty_4__bindgen_ty_1__bindgen_ty_1__bindgen_ty_1__bindgen_ty_1"
  by (simp_all add: ty_rte_mbuf__bindgen_ty_4__bindgen_ty_1__bindgen_ty_1__bindgen_ty_1__bindgen_ty_1_def test_rte_mbuf__bindgen_ty_4__bindgen_ty_1__bindgen_ty_1__bindgen_ty_1__bindgen_ty_1_def layout_simps layout_eval)

lemma layout_rte_mbuf__bindgen_ty_4__bindgen_ty_1__bindgen_ty_1__bindgen_ty_1 [layout_simps]:
  "c_size ty_rte_mbuf__bindgen_ty_4__bindgen_ty_1__bindgen_ty_1__bindgen_ty_1 = 4" "c_align ty_rte_mbuf__bindgen_ty_4__bindgen_ty_1__bindgen_ty_1__bindgen_ty_1 = 4" "wf_type ty_rte_mbuf__bindgen_ty_4__bindgen_ty_1__bindgen_ty_1__bindgen_ty_1"
  "layout_test_passes ty_rte_mbuf__bindgen_ty_4__bindgen_ty_1__bindgen_ty_1__bindgen_ty_1 test_rte_mbuf__bindgen_ty_4__bindgen_ty_1__bindgen_ty_1__bindgen_ty_1"
  by (simp_all add: ty_rte_mbuf__bindgen_ty_4__bindgen_ty_1__bindgen_ty_1__bindgen_ty_1_def test_rte_mbuf__bindgen_ty_4__bindgen_ty_1__bindgen_ty_1__bindgen_ty_1_def layout_simps layout_eval)

lemma layout_rte_mbuf__bindgen_ty_4__bindgen_ty_1__bindgen_ty_1 [layout_simps]:
  "c_size ty_rte_mbuf__bindgen_ty_4__bindgen_ty_1__bindgen_ty_1 = 8" "c_align ty_rte_mbuf__bindgen_ty_4__bindgen_ty_1__bindgen_ty_1 = 4" "wf_type ty_rte_mbuf__bindgen_ty_4__bindgen_ty_1__bindgen_ty_1"
  "layout_test_passes ty_rte_mbuf__bindgen_ty_4__bindgen_ty_1__bindgen_ty_1 test_rte_mbuf__bindgen_ty_4__bindgen_ty_1__bindgen_ty_1"
  by (simp_all add: ty_rte_mbuf__bindgen_ty_4__bindgen_ty_1__bindgen_ty_1_def test_rte_mbuf__bindgen_ty_4__bindgen_ty_1__bindgen_ty_1_def layout_simps layout_eval)

lemma layout_rte_mbuf__bindgen_ty_4__bindgen_ty_1__bindgen_ty_2 [layout_simps]:
  "c_size ty_rte_mbuf__bindgen_ty_4__bindgen_ty_1__bindgen_ty_2 = 8" "c_align ty_rte_mbuf__bindgen_ty_4__bindgen_ty_1__bindgen_ty_2 = 4" "wf_type ty_rte_mbuf__bindgen_ty_4__bindgen_ty_1__bindgen_ty_2"
  "layout_test_passes ty_rte_mbuf__bindgen_ty_4__bindgen_ty_1__bindgen_ty_2 test_rte_mbuf__bindgen_ty_4__bindgen_ty_1__bindgen_ty_2"
  by (simp_all add: ty_rte_mbuf__bindgen_ty_4__bindgen_ty_1__bindgen_ty_2_def test_rte_mbuf__bindgen_ty_4__bindgen_ty_1__bindgen_ty_2_def layout_simps layout_eval)

lemma layout_rte_mbuf__bindgen_ty_4__bindgen_ty_1 [layout_simps]:
  "c_size ty_rte_mbuf__bindgen_ty_4__bindgen_ty_1 = 8" "c_align ty_rte_mbuf__bindgen_ty_4__bindgen_ty_1 = 4" "wf_type ty_rte_mbuf__bindgen_ty_4__bindgen_ty_1"
  "layout_test_passes ty_rte_mbuf__bindgen_ty_4__bindgen_ty_1 test_rte_mbuf__bindgen_ty_4__bindgen_ty_1"
  by (simp_all add: ty_rte_mbuf__bindgen_ty_4__bindgen_ty_1_def test_rte_mbuf__bindgen_ty_4__bindgen_ty_1_def layout_simps layout_eval)

lemma layout_rte_mbuf__bindgen_ty_4 [layout_simps]:
  "c_size ty_rte_mbuf__bindgen_ty_4 = 8" "c_align ty_rte_mbuf__bindgen_ty_4 = 4" "wf_type ty_rte_mbuf__bindgen_ty_4"
  "layout_test_passes ty_rte_mbuf__bindgen_ty_4 test_rte_mbuf__bindgen_ty_4"
  by (simp_all add: ty_rte_mbuf__bindgen_ty_4_def test_rte_mbuf__bindgen_ty_4_def layout_simps layout_eval)

lemma layout_rte_mbuf__bindgen_ty_5 [layout_simps]:
  "c_size ty_rte_mbuf__bindgen_ty_5 = 8" "c_align ty_rte_mbuf__bindgen_ty_5 = 8" "wf_type ty_rte_mbuf__bindgen_ty_5"
  "layout_test_passes ty_rte_mbuf__bindgen_ty_5 test_rte_mbuf__bindgen_ty_5"
  by (simp_all add: ty_rte_mbuf__bindgen_ty_5_def test_rte_mbuf__bindgen_ty_5_def layout_simps layout_eval)

lemma layout_rte_mbuf__bindgen_ty_6__bindgen_ty_1 [layout_simps]:
  "c_size ty_rte_mbuf__bindgen_ty_6__bindgen_ty_1 = 8" "c_align ty_rte_mbuf__bindgen_ty_6__bindgen_ty_1 = 8" "wf_type ty_rte_mbuf__bindgen_ty_6__bindgen_ty_1"
  "layout_test_passes ty_rte_mbuf__bindgen_ty_6__bindgen_ty_1 test_rte_mbuf__bindgen_ty_6__bindgen_ty_1"
  by (simp_all add: ty_rte_mbuf__bindgen_ty_6__bindgen_ty_1_def test_rte_mbuf__bindgen_ty_6__bindgen_ty_1_def layout_simps layout_eval)

lemma layout_rte_mbuf__bindgen_ty_6 [layout_simps]:
  "c_size ty_rte_mbuf__bindgen_ty_6 = 8" "c_align ty_rte_mbuf__bindgen_ty_6 = 8" "wf_type ty_rte_mbuf__bindgen_ty_6"
  "layout_test_passes ty_rte_mbuf__bindgen_ty_6 test_rte_mbuf__bindgen_ty_6"
  by (simp_all add: ty_rte_mbuf__bindgen_ty_6_def test_rte_mbuf__bindgen_ty_6_def layout_simps layout_eval)

lemma layout_rte_mbuf [layout_simps]:
  "c_size ty_rte_mbuf = 128" "c_align ty_rte_mbuf = 64" "wf_type ty_rte_mbuf"
  "layout_test_passes ty_rte_mbuf test_rte_mbuf"
  by (simp_all add: ty_rte_mbuf_def test_rte_mbuf_def layout_simps layout_eval)

section \<open>Pools, rings and zones\<close>

text \<open>\<open>rte_mempool\<close>, \<open>rte_ring\<close> and \<open>rte_memzone\<close>.\<close>

definition ty_rte_mempool__bindgen_ty_1 :: c_type where
  "ty_rte_mempool__bindgen_ty_1 = Union 1 [(''pool_data'', Pointer), (''pool_id'', U64),
      (''_bindgen_union_align'', U64)]"

definition test_rte_mempool__bindgen_ty_1 :: layout_test where
  "test_rte_mempool__bindgen_ty_1 = \<lparr>asserted_size = 8, asserted_align = 8,
     asserted_offsets = [(''pool_data'', 0), (''pool_id'', 0)]\<rparr>"

definition ty_rte_mempool_objhdr_list :: c_type where
  "ty_rte_mempool_objhdr_list = Struct 1 False [(''stqh_first'', Pointer),
      (''stqh_last'', Pointer)]"

definition test_rte_mempool_objhdr_list :: layout_test where
  "test_rte_mempool_objhdr_list = \<lparr>asserted_size = 16, asserted_align = 8,
     asserted_offsets = [(''stqh_first'', 0), (''stqh_last'', 8)]\<rparr>"

definition ty_rte_mempool_memhdr_list :: c_type where
  "ty_rte_mempool_memhdr_list = Struct 1 False [(''stqh_first'', Pointer),
      (''stqh_last'', Pointer)]"

definition test_rte_mempool_memhdr_list :: layout_test where
  "test_rte_mempool_memhdr_list = \<lparr>asserted_size = 16, asserted_align = 8,
     asserted_offsets = [(''stqh_first'', 0), (''stqh_last'', 8)]\<rparr>"

definition ty_rte_mempool :: c_type where
  "ty_rte_mempool = Struct 64 False [(''name'', Arr U8 32),
      (''__bindgen_anon_1'', ty_rte_mempool__bindgen_ty_1), (''pool_config'', Pointer),
      (''mz'', Pointer), (''flags'', U32), (''socket_id'', U32), (''size'', U32),
      (''cache_size'', U32), (''elt_size'', U32), (''header_size'', U32),
      (''trailer_size'', U32), (''private_data_size'', U32), (''ops_index'', U32),
      (''local_cache'', Pointer), (''populated_size'', U32),
      (''elt_list'', ty_rte_mempool_objhdr_list), (''nb_mem_chunks'', U32),
      (''mem_list'', ty_rte_mempool_memhdr_list)]"

definition test_rte_mempool :: layout_test where
  "test_rte_mempool = \<lparr>asserted_size = 192, asserted_align = 64,
     asserted_offsets = [(''name'', 0), (''pool_config'', 40), (''mz'', 48), (''flags'', 56),
      (''socket_id'', 60), (''size'', 64), (''cache_size'', 68), (''elt_size'', 72),
      (''header_size'', 76), (''trailer_size'', 80), (''private_data_size'', 84),
      (''ops_index'', 88), (''local_cache'', 96), (''populated_size'', 104), (''elt_list'', 112),
      (''nb_mem_chunks'', 128), (''mem_list'', 136)]\<rparr>"

definition ty_rte_ring_headtail :: c_type where
  "ty_rte_ring_headtail = Struct 1 False [(''head'', U32), (''tail'', U32), (''single'', U32)]"

definition test_rte_ring_headtail :: layout_test where
  "test_rte_ring_headtail = \<lparr>asserted_size = 12, asserted_align = 4,
     asserted_offsets = [(''head'', 0), (''tail'', 4), (''single'', 8)]\<rparr>"

definition ty_rte_ring :: c_type where
  "ty_rte_ring = Struct 64 False [(''name'', Arr U8 32), (''flags'', U32),
      (''memzone'', Pointer), (''size'', U32), (''mask'', U32), (''capacity'', U32),
      (''__bindgen_padding_0'', Arr U8 4), (''pad0'', U8), (''__bindgen_padding_1'', Arr U32 15),
      (''prod'', ty_rte_ring_headtail), (''__bindgen_padding_2'', Arr U8 52), (''pad1'', U8),
      (''__bindgen_padding_3'', Arr U32 15), (''cons'', ty_rte_ring_headtail),
      (''__bindgen_padding_4'', Arr U8 52), (''pad2'', U8)]"

definition test_rte_ring :: layout_test where
  "test_rte_ring = \<lparr>asserted_size = 384, asserted_align = 64,
     asserted_offsets = [(''name'', 0), (''flags'', 32), (''memzone'', 40), (''size'', 48),
      (''mask'', 52), (''capacity'', 56), (''pad0'', 64), (''prod'', 128), (''pad1'', 192),
      (''cons'', 256), (''pad2'', 320)]\<rparr>"

definition ty_rte_memzone__bindgen_ty_1 :: c_type where
  "ty_rte_memzone__bindgen_ty_1 = Union 1 [(''phys_addr'', U64), (''iova'', U64),
      (''_bindgen_union_align'', U64)]"

definition test_rte_memzone__bindgen_ty_1 :: layout_test where
  "test_rte_memzone__bindgen_ty_1 = \<lparr>asserted_size = 8, asserted_align = 8,
     asserted_offsets = [(''phys_addr'', 0), (''iova'', 0)]\<rparr>"

definition ty_rte_memzone__bindgen_ty_2 :: c_type where
  "ty_rte_memzone__bindgen_ty_2 = Union 1 [(''addr'', Pointer), (''addr_64'', U64),
      (''_bindgen_union_align'', U64)]"

definition test_rte_memzone__bindgen_ty_2 :: layout_test where
  "test_rte_memzone__bindgen_ty_2 = \<lparr>asserted_size = 8, asserted_align = 8,
     asserted_offsets = [(''addr'', 0), (''addr_64'', 0)]\<rparr>"

definition ty_rte_memzone :: c_type where
  "ty_rte_memzone = Struct 1 True [(''name'', Arr U8 32),
      (''__bindgen_anon_1'', ty_rte_memzone__bindgen_ty_1),
      (''__bindgen_anon_2'', ty_rte_memzone__bindgen_ty_2), (''len'', U64),
      (''hugepage_sz'', U64), (''socket_id'', U32), (''flags'', U32)]"

definition test_rte_memzone :: layout_test where
  "test_rte_memzone = \<lparr>asserted_size = 72, asserted_align = 1,
     asserted_offsets = [(''name'', 0), (''len'', 48), (''hugepage_sz'', 56),
      (''socket_id'', 64), (''flags'', 68)]\<rparr>"

lemma layout_rte_mempool__bindgen_ty_1 [layout_simps]:
  "c_size ty_rte_mempool__bindgen_ty_1 = 8" "c_align ty_rte_mempool__bindgen_ty_1 = 8" "wf_type ty_rte_mempool__bindgen_ty_1"
  "layout_test_passes ty_rte_mempool__bindgen_ty_1 test_rte_mempool__bindgen_ty_1"
  by (simp_all add: ty_rte_mempool__bindgen_ty_1_def test_rte_mempool__bindgen_ty_1_def layout_simps layout_eval)

lemma layout_rte_mempool_objhdr_list [layout_simps]:
  "c_size ty_rte_mempool_objhdr_list = 16" "c_align ty_rte_mempool_objhdr_list = 8" "wf_type ty_rte_mempool_objhdr_list"
  "layout_test_passes ty_rte_mempool_objhdr_list test_rte_mempool_objhdr_list"
  by (simp_all add: ty_rte_mempool_objhdr_list_def test_rte_mempool_objhdr_list_def layout_simps layout_eval)

lemma layout_rte_mempool_memhdr_list [layout_simps]:
  "c_size ty_rte_mempool_memhdr_list = 16" "c_align ty_rte_mempool_memhdr_list = 8" "wf_type ty_rte_mempool_memhdr_list"
  "layout_test_passes ty_rte_mempool_memhdr_list test_rte_mempool_memhdr_list"
  by (simp_all add: ty_rte_mempool_memhdr_list_def test_rte_mempool_memhdr_list_def layout_simps layout_eval)

lemma layout_rte_mempool [layout_simps]:
  "c_size ty_rte_mempool = 192" "c_align ty_rte_mempool = 64" "wf_type ty_rte_mempool"
  "layout_test_passes ty_rte_mempool test_rte_mempool"
  by (simp_all add: ty_rte_mempool_def test_rte_mempool_def layout_simps layout_eval)

lemma layout_rte_ring_headtail [layout_simps]:
  "c_size ty_rte_ring_headtail = 12" "c_align ty_rte_ring_headtail = 4" "wf_type ty_rte_ring_headtail"
  "layout_test_passes ty_rte_ring_headtail test_rte_ring_headtail"
  by (simp_all add: ty_rte_ring_headtail_def test_rte_ring_headtail_def layout_simps layout_eval)

lemma layout_rte_ring [layout_simps]:
  "c_size ty_rte_ring = 384" "c_align ty_rte_ring = 64" "wf_type ty_rte_ring"
  "layout_test_passes ty_rte_ring test_rte_ring"
  by (simp_all add: ty_rte_ring_def test_rte_ring_def layout_simps layout_eval)

lemma layout_rte_memzone__bindgen_ty_1 [layout_simps]:
  "c_size ty_rte_memzone__bindgen_ty_1 = 8" "c_align ty_rte_memzone__bindgen_ty_1 = 8" "wf_type ty_rte_memzone__bindgen_ty_1"
  "layout_test_passes ty_rte_memzone__bindgen_ty_1 test_rte_memzone__bindgen_ty_1"
  by (simp_all add: ty_rte_memzone__bindgen_ty_1_def test_rte_memzone__bindgen_ty_1_def layout_simps layout_eval)

lemma layout_rte_memzone__bindgen_ty_2 [layout_simps]:
  "c_size ty_rte_memzone__bindgen_ty_2 = 8" "c_align ty_rte_memzone__bindgen_ty_2 = 8" "wf_type ty_rte_memzone__bindgen_ty_2"
  "layout_test_passes ty_rte_memzone__bindgen_ty_2 test_rte_memzone__bindgen_ty_2"
  by (simp_all add: ty_rte_memzone__bindgen_ty_2_def test_rte_memzone__bindgen_ty_2_def layout_simps layout_eval)

lemma layout_rte_memzone [layout_simps]:
  "c_size ty_rte_memzone = 72" "c_align ty_rte_memzone = 1" "wf_type ty_rte_memzone"
  "layout_test_passes ty_rte_memzone test_rte_memzone"
  by (simp_all add: ty_rte_memzone_def test_rte_memzone_def layout_simps layout_eval)

section \<open>Devices\<close>

text \<open>\<open>rte_eth_dev_info\<close> and the structs in it, which the port builder reads.\<close>

definition ty_rte_eth_thresh :: c_type where
  "ty_rte_eth_thresh = Struct 1 False [(''pthresh'', U8), (''hthresh'', U8), (''wthresh'', U8)]"

definition test_rte_eth_thresh :: layout_test where
  "test_rte_eth_thresh = \<lparr>asserted_size = 3, asserted_align = 1,
     asserted_offsets = [(''pthresh'', 0), (''hthresh'', 1), (''wthresh'', 2)]\<rparr>"

definition ty_rte_eth_rxconf :: c_type where
  "ty_rte_eth_rxconf = Struct 1 False [(''rx_thresh'', ty_rte_eth_thresh),
      (''rx_free_thresh'', U16), (''rx_drop_en'', U8), (''rx_deferred_start'', U8),
      (''offloads'', U64), (''reserved_64s'', Arr U64 2), (''reserved_ptrs'', Arr Pointer 2)]"

definition test_rte_eth_rxconf :: layout_test where
  "test_rte_eth_rxconf = \<lparr>asserted_size = 48, asserted_align = 8,
     asserted_offsets = [(''rx_thresh'', 0), (''rx_free_thresh'', 4), (''rx_drop_en'', 6),
      (''rx_deferred_start'', 7), (''offloads'', 8), (''reserved_64s'', 16),
      (''reserved_ptrs'', 32)]\<rparr>"

definition ty_rte_eth_txconf :: c_type where
  "ty_rte_eth_txconf = Struct 1 False [(''tx_thresh'', ty_rte_eth_thresh),
      (''tx_rs_thresh'', U16), (''tx_free_thresh'', U16), (''tx_deferred_start'', U8),
      (''offloads'', U64), (''reserved_64s'', Arr U64 2), (''reserved_ptrs'', Arr Pointer 2)]"

definition test_rte_eth_txconf :: layout_test where
  "test_rte_eth_txconf = \<lparr>asserted_size = 56, asserted_align = 8,
     asserted_offsets = [(''tx_thresh'', 0), (''tx_rs_thresh'', 4), (''tx_free_thresh'', 6),
      (''tx_deferred_start'', 8), (''offloads'', 16), (''reserved_64s'', 24),
      (''reserved_ptrs'', 40)]\<rparr>"

definition ty_rte_eth_desc_lim :: c_type where
  "ty_rte_eth_desc_lim = Struct 1 False [(''nb_max'', U16), (''nb_min'', U16),
      (''nb_align'', U16), (''nb_seg_max'', U16), (''nb_mtu_seg_max'', U16)]"

definition test_rte_eth_desc_lim :: layout_test where
  "test_rte_eth_desc_lim = \<lparr>asserted_size = 10, asserted_align = 2,
     asserted_offsets = [(''nb_max'', 0), (''nb_min'', 2), (''nb_align'', 4),
      (''nb_seg_max'', 6), (''nb_mtu_seg_max'', 8)]\<rparr>"

definition ty_rte_eth_dev_portconf :: c_type where
  "ty_rte_eth_dev_portconf = Struct 1 False [(''burst_size'', U16), (''ring_size'', U16),
      (''nb_queues'', U16)]"

definition test_rte_eth_dev_portconf :: layout_test where
  "test_rte_eth_dev_portconf = \<lparr>asserted_size = 6, asserted_align = 2,
     asserted_offsets = [(''burst_size'', 0), (''ring_size'', 2), (''nb_queues'', 4)]\<rparr>"

definition ty_rte_eth_switch_info :: c_type where
  "ty_rte_eth_switch_info = Struct 1 False [(''name'', Pointer), (''domain_id'', U16),
      (''port_id'', U16)]"

definition test_rte_eth_switch_info :: layout_test where
  "test_rte_eth_switch_info = \<lparr>asserted_size = 16, asserted_align = 8,
     asserted_offsets = [(''name'', 0), (''domain_id'', 8), (''port_id'', 10)]\<rparr>"

definition ty_rte_eth_dev_info :: c_type where
  "ty_rte_eth_dev_info = Struct 1 False [(''device'', Pointer), (''driver_name'', Pointer),
      (''if_index'', U32), (''min_mtu'', U16), (''max_mtu'', U16), (''dev_flags'', Pointer),
      (''min_rx_bufsize'', U32), (''max_rx_pktlen'', U32), (''max_lro_pkt_size'', U32),
      (''max_rx_queues'', U16), (''max_tx_queues'', U16), (''max_mac_addrs'', U32),
      (''max_hash_mac_addrs'', U32), (''max_vfs'', U16), (''max_vmdq_pools'', U16),
      (''rx_offload_capa'', U64), (''tx_offload_capa'', U64), (''rx_queue_offload_capa'', U64),
      (''tx_queue_offload_capa'', U64), (''reta_size'', U16), (''hash_key_size'', U8),
      (''flow_type_rss_offloads'', U64), (''default_rxconf'', ty_rte_eth_rxconf),
      (''default_txconf'', ty_rte_eth_txconf), (''vmdq_queue_base'', U16),
      (''vmdq_queue_num'', U16), (''vmdq_pool_base'', U16),
      (''rx_desc_lim'', ty_rte_eth_desc_lim), (''tx_desc_lim'', ty_rte_eth_desc_lim),
      (''speed_capa'', U32), (''nb_rx_queues'', U16), (''nb_tx_queues'', U16),
      (''default_rxportconf'', ty_rte_eth_dev_portconf),
      (''default_txportconf'', ty_rte_eth_dev_portconf), (''dev_capa'', U64),
      (''switch_info'', ty_rte_eth_switch_info), (''reserved_64s'', Arr U64 2),
      (''reserved_ptrs'', Arr Pointer 2)]"

definition test_rte_eth_dev_info :: layout_test where
  "test_rte_eth_dev_info = \<lparr>asserted_size = 320, asserted_align = 8,
     asserted_offsets = [(''device'', 0), (''driver_name'', 8), (''if_index'', 16),
      (''min_mtu'', 20), (''max_mtu'', 22), (''dev_flags'', 24), (''min_rx_bufsize'', 32),
      (''max_rx_pktlen'', 36), (''max_lro_pkt_size'', 40), (''max_rx_queues'', 44),
      (''max_tx_queues'', 46), (''max_mac_addrs'', 48), (''max_hash_mac_addrs'', 52),
      (''max_vfs'', 56), (''max_vmdq_pools'', 58), (''rx_offload_capa'', 64),
      (''tx_offload_capa'', 72), (''rx_queue_offload_capa'', 80),
      (''tx_queue_offload_capa'', 88), (''reta_size'', 96), (''hash_key_size'', 98),
      (''flow_type_rss_offloads'', 104), (''default_rxconf'', 112), (''default_txconf'', 160),
      (''vmdq_queue_base'', 216), (''vmdq_queue_num'', 218), (''vmdq_pool_base'', 220),
      (''rx_desc_lim'', 222), (''tx_desc_lim'', 232), (''speed_capa'', 244),
      (''nb_rx_queues'', 248), (''nb_tx_queues'', 250), (''default_rxportconf'', 252),
      (''default_txportconf'', 258), (''dev_capa'', 264), (''switch_info'', 272),
      (''reserved_64s'', 288), (''reserved_ptrs'', 304)]\<rparr>"

lemma layout_rte_eth_thresh [layout_simps]:
  "c_size ty_rte_eth_thresh = 3" "c_align ty_rte_eth_thresh = 1" "wf_type ty_rte_eth_thresh"
  "layout_test_passes ty_rte_eth_thresh test_rte_eth_thresh"
  by (simp_all add: ty_rte_eth_thresh_def test_rte_eth_thresh_def layout_simps layout_eval)

lemma layout_rte_eth_rxconf [layout_simps]:
  "c_size ty_rte_eth_rxconf = 48" "c_align ty_rte_eth_rxconf = 8" "wf_type ty_rte_eth_rxconf"
  "layout_test_passes ty_rte_eth_rxconf test_rte_eth_rxconf"
  by (simp_all add: ty_rte_eth_rxconf_def test_rte_eth_rxconf_def layout_simps layout_eval)

lemma layout_rte_eth_txconf [layout_simps]:
  "c_size ty_rte_eth_txconf = 56" "c_align ty_rte_eth_txconf = 8" "wf_type ty_rte_eth_txconf"
  "layout_test_passes ty_rte_eth_txconf test_rte_eth_txconf"
  by (simp_all add: ty_rte_eth_txconf_def test_rte_eth_txconf_def layout_simps layout_eval)

lemma layout_rte_eth_desc_lim [layout_simps]:
  "c_size ty_rte_eth_desc_lim = 10" "c_align ty_rte_eth_desc_lim = 2" "wf_type ty_rte_eth_desc_lim"
  "layout_test_passes ty_rte_eth_desc_lim test_rte_eth_desc_lim"
  by (simp_all add: ty_rte_eth_desc_lim_def test_rte_eth_desc_lim_def layout_simps layout_eval)

lemma layout_rte_eth_dev_portconf [layout_simps]:
  "c_size ty_rte_eth_dev_portconf = 6" "c_align ty_rte_eth_dev_portconf = 2" "wf_type ty_rte_eth_dev_portconf"
  "layout_test_passes ty_rte_eth_dev_portconf test_rte_eth_dev_portconf"
  by (simp_all add: ty_rte_eth_dev_portconf_def test_rte_eth_dev_portconf_def layout_simps layout_eval)

lemma layout_rte_eth_switch_info [layout_simps]:
  "c_size ty_rte_eth_switch_info = 16" "c_align ty_rte_eth_switch_info = 8" "wf_type ty_rte_eth_switch_info"
  "layout_test_passes ty_rte_eth_switch_info test_rte_eth_switch_info"
  by (simp_all add: ty_rte_eth_switch_info_def test_rte_eth_switch_info_def layout_simps layout_eval)

lemma layout_rte_eth_dev_info [layout_simps]:
  "c_size ty_rte_eth_dev_info = 320" "c_align ty_rte_eth_dev_info = 8" "wf_type ty_rte_eth_dev_info"
  "layout_test_passes ty_rte_eth_dev_info test_rte_eth_dev_info"
  by (simp_all add: ty_rte_eth_dev_info_def test_rte_eth_dev_info_def layout_simps layout_eval)

section \<open>Port configuration\<close>

text \<open>\<open>rte_eth_conf\<close> with the modes, filters and queue maps in it, which the port builder fills.\<close>

definition ty_rte_eth_rxmode :: c_type where
  "ty_rte_eth_rxmode = Struct 1 False [(''mq_mode'', U32), (''max_rx_pkt_len'', U32),
      (''max_lro_pkt_size'', U32), (''split_hdr_size'', U16), (''offloads'', U64),
      (''reserved_64s'', Arr U64 2), (''reserved_ptrs'', Arr Pointer 2)]"

definition test_rte_eth_rxmode :: layout_test where
  "test_rte_eth_rxmode = \<lparr>asserted_size = 56, asserted_align = 8,
     asserted_offsets = [(''mq_mode'', 0), (''max_rx_pkt_len'', 4), (''max_lro_pkt_size'', 8),
      (''split_hdr_size'', 12), (''offloads'', 16), (''reserved_64s'', 24),
      (''reserved_ptrs'', 40)]\<rparr>"

definition ty_rte_eth_txmode :: c_type where
  "ty_rte_eth_txmode = Struct 1 False [(''mq_mode'', U32), (''offloads'', U64), (''pvid'', U16),
      (''_bitfield_1'', bitfield_unit 1 U8), (''reserved_64s'', Arr U64 2),
      (''reserved_ptrs'', Arr Pointer 2)]"

definition test_rte_eth_txmode :: layout_test where
  "test_rte_eth_txmode = \<lparr>asserted_size = 56, asserted_align = 8,
     asserted_offsets = [(''mq_mode'', 0), (''offloads'', 8), (''pvid'', 16),
      (''reserved_64s'', 24), (''reserved_ptrs'', 40)]\<rparr>"

definition ty_rte_eth_rss_conf :: c_type where
  "ty_rte_eth_rss_conf = Struct 1 False [(''rss_key'', Pointer), (''rss_key_len'', U8),
      (''rss_hf'', U64)]"

definition test_rte_eth_rss_conf :: layout_test where
  "test_rte_eth_rss_conf = \<lparr>asserted_size = 24, asserted_align = 8,
     asserted_offsets = [(''rss_key'', 0), (''rss_key_len'', 8), (''rss_hf'', 16)]\<rparr>"

definition ty_rte_eth_vmdq_dcb_conf__bindgen_ty_1 :: c_type where
  "ty_rte_eth_vmdq_dcb_conf__bindgen_ty_1 = Struct 1 False [(''vlan_id'', U16),
      (''pools'', U64)]"

definition test_rte_eth_vmdq_dcb_conf__bindgen_ty_1 :: layout_test where
  "test_rte_eth_vmdq_dcb_conf__bindgen_ty_1 = \<lparr>asserted_size = 16, asserted_align = 8,
     asserted_offsets = [(''vlan_id'', 0), (''pools'', 8)]\<rparr>"

definition ty_rte_eth_vmdq_dcb_conf :: c_type where
  "ty_rte_eth_vmdq_dcb_conf = Struct 1 False [(''nb_queue_pools'', U32),
      (''enable_default_pool'', U8), (''default_pool'', U8), (''nb_pool_maps'', U8),
      (''pool_map'', Arr ty_rte_eth_vmdq_dcb_conf__bindgen_ty_1 64), (''dcb_tc'', Arr U8 8)]"

definition test_rte_eth_vmdq_dcb_conf :: layout_test where
  "test_rte_eth_vmdq_dcb_conf = \<lparr>asserted_size = 1040, asserted_align = 8,
     asserted_offsets = [(''nb_queue_pools'', 0), (''enable_default_pool'', 4),
      (''default_pool'', 5), (''nb_pool_maps'', 6), (''pool_map'', 8),
      (''dcb_tc'', 1032)]\<rparr>"

definition ty_rte_eth_dcb_rx_conf :: c_type where
  "ty_rte_eth_dcb_rx_conf = Struct 1 False [(''nb_tcs'', U32), (''dcb_tc'', Arr U8 8)]"

definition test_rte_eth_dcb_rx_conf :: layout_test where
  "test_rte_eth_dcb_rx_conf = \<lparr>asserted_size = 12, asserted_align = 4,
     asserted_offsets = [(''nb_tcs'', 0), (''dcb_tc'', 4)]\<rparr>"

definition ty_rte_eth_vmdq_rx_conf__bindgen_ty_1 :: c_type where
  "ty_rte_eth_vmdq_rx_conf__bindgen_ty_1 = Struct 1 False [(''vlan_id'', U16), (''pools'', U64)]"

definition test_rte_eth_vmdq_rx_conf__bindgen_ty_1 :: layout_test where
  "test_rte_eth_vmdq_rx_conf__bindgen_ty_1 = \<lparr>asserted_size = 16, asserted_align = 8,
     asserted_offsets = [(''vlan_id'', 0), (''pools'', 8)]\<rparr>"

definition ty_rte_eth_vmdq_rx_conf :: c_type where
  "ty_rte_eth_vmdq_rx_conf = Struct 1 False [(''nb_queue_pools'', U32),
      (''enable_default_pool'', U8), (''default_pool'', U8), (''enable_loop_back'', U8),
      (''nb_pool_maps'', U8), (''rx_mode'', U32),
      (''pool_map'', Arr ty_rte_eth_vmdq_rx_conf__bindgen_ty_1 64)]"

definition test_rte_eth_vmdq_rx_conf :: layout_test where
  "test_rte_eth_vmdq_rx_conf = \<lparr>asserted_size = 1040, asserted_align = 8,
     asserted_offsets = [(''nb_queue_pools'', 0), (''enable_default_pool'', 4),
      (''default_pool'', 5), (''enable_loop_back'', 6), (''nb_pool_maps'', 7), (''rx_mode'', 8),
      (''pool_map'', 16)]\<rparr>"

definition ty_rte_eth_conf__bindgen_ty_1 :: c_type where
  "ty_rte_eth_conf__bindgen_ty_1 = Struct 1 False [(''rss_conf'', ty_rte_eth_rss_conf),
      (''vmdq_dcb_conf'', ty_rte_eth_vmdq_dcb_conf), (''dcb_rx_conf'', ty_rte_eth_dcb_rx_conf),
      (''vmdq_rx_conf'', ty_rte_eth_vmdq_rx_conf)]"

definition test_rte_eth_conf__bindgen_ty_1 :: layout_test where
  "test_rte_eth_conf__bindgen_ty_1 = \<lparr>asserted_size = 2120, asserted_align = 8,
     asserted_offsets = [(''rss_conf'', 0), (''vmdq_dcb_conf'', 24), (''dcb_rx_conf'', 1064),
      (''vmdq_rx_conf'', 1080)]\<rparr>"

definition ty_rte_eth_vmdq_dcb_tx_conf :: c_type where
  "ty_rte_eth_vmdq_dcb_tx_conf = Struct 1 False [(''nb_queue_pools'', U32),
      (''dcb_tc'', Arr U8 8)]"

definition test_rte_eth_vmdq_dcb_tx_conf :: layout_test where
  "test_rte_eth_vmdq_dcb_tx_conf = \<lparr>asserted_size = 12, asserted_align = 4,
     asserted_offsets = [(''nb_queue_pools'', 0), (''dcb_tc'', 4)]\<rparr>"

definition ty_rte_eth_dcb_tx_conf :: c_type where
  "ty_rte_eth_dcb_tx_conf = Struct 1 False [(''nb_tcs'', U32), (''dcb_tc'', Arr U8 8)]"

definition test_rte_eth_dcb_tx_conf :: layout_test where
  "test_rte_eth_dcb_tx_conf = \<lparr>asserted_size = 12, asserted_align = 4,
     asserted_offsets = [(''nb_tcs'', 0), (''dcb_tc'', 4)]\<rparr>"

definition ty_rte_eth_vmdq_tx_conf :: c_type where
  "ty_rte_eth_vmdq_tx_conf = Struct 1 False [(''nb_queue_pools'', U32)]"

definition test_rte_eth_vmdq_tx_conf :: layout_test where
  "test_rte_eth_vmdq_tx_conf = \<lparr>asserted_size = 4, asserted_align = 4,
     asserted_offsets = [(''nb_queue_pools'', 0)]\<rparr>"

definition ty_rte_eth_conf__bindgen_ty_2 :: c_type where
  "ty_rte_eth_conf__bindgen_ty_2 = Union 1 [(''vmdq_dcb_tx_conf'', ty_rte_eth_vmdq_dcb_tx_conf),
      (''dcb_tx_conf'', ty_rte_eth_dcb_tx_conf), (''vmdq_tx_conf'', ty_rte_eth_vmdq_tx_conf),
      (''_bindgen_union_align'', Arr U32 3)]"

definition test_rte_eth_conf__bindgen_ty_2 :: layout_test where
  "test_rte_eth_conf__bindgen_ty_2 = \<lparr>asserted_size = 12, asserted_align = 4,
     asserted_offsets = [(''vmdq_dcb_tx_conf'', 0), (''dcb_tx_conf'', 0),
      (''vmdq_tx_conf'', 0)]\<rparr>"

definition ty_rte_eth_ipv4_flow :: c_type where
  "ty_rte_eth_ipv4_flow = Struct 1 False [(''src_ip'', U32), (''dst_ip'', U32), (''tos'', U8),
      (''ttl'', U8), (''proto'', U8)]"

definition test_rte_eth_ipv4_flow :: layout_test where
  "test_rte_eth_ipv4_flow = \<lparr>asserted_size = 12, asserted_align = 4,
     asserted_offsets = [(''src_ip'', 0), (''dst_ip'', 4), (''tos'', 8), (''ttl'', 9),
      (''proto'', 10)]\<rparr>"

definition ty_rte_eth_ipv6_flow :: c_type where
  "ty_rte_eth_ipv6_flow = Struct 1 False [(''src_ip'', Arr U32 4), (''dst_ip'', Arr U32 4),
      (''tc'', U8), (''proto'', U8), (''hop_limits'', U8)]"

definition test_rte_eth_ipv6_flow :: layout_test where
  "test_rte_eth_ipv6_flow = \<lparr>asserted_size = 36, asserted_align = 4,
     asserted_offsets = [(''src_ip'', 0), (''dst_ip'', 16), (''tc'', 32), (''proto'', 33),
      (''hop_limits'', 34)]\<rparr>"

definition ty_rte_eth_fdir_masks :: c_type where
  "ty_rte_eth_fdir_masks = Struct 1 False [(''vlan_tci_mask'', U16),
      (''ipv4_mask'', ty_rte_eth_ipv4_flow), (''ipv6_mask'', ty_rte_eth_ipv6_flow),
      (''src_port_mask'', U16), (''dst_port_mask'', U16), (''mac_addr_byte_mask'', U8),
      (''tunnel_id_mask'', U32), (''tunnel_type_mask'', U8)]"

definition test_rte_eth_fdir_masks :: layout_test where
  "test_rte_eth_fdir_masks = \<lparr>asserted_size = 68, asserted_align = 4,
     asserted_offsets = [(''vlan_tci_mask'', 0), (''ipv4_mask'', 4), (''ipv6_mask'', 16),
      (''src_port_mask'', 52), (''dst_port_mask'', 54), (''mac_addr_byte_mask'', 56),
      (''tunnel_id_mask'', 60), (''tunnel_type_mask'', 64)]\<rparr>"

definition ty_rte_eth_flex_payload_cfg :: c_type where
  "ty_rte_eth_flex_payload_cfg = Struct 1 False [(''type_'', U32), (''src_offset'', Arr U16 16)]"

definition test_rte_eth_flex_payload_cfg :: layout_test where
  "test_rte_eth_flex_payload_cfg = \<lparr>asserted_size = 36, asserted_align = 4,
     asserted_offsets = [(''type_'', 0), (''src_offset'', 4)]\<rparr>"

definition ty_rte_eth_fdir_flex_mask :: c_type where
  "ty_rte_eth_fdir_flex_mask = Struct 1 False [(''flow_type'', U16), (''mask'', Arr U8 16)]"

definition test_rte_eth_fdir_flex_mask :: layout_test where
  "test_rte_eth_fdir_flex_mask = \<lparr>asserted_size = 18, asserted_align = 2,
     asserted_offsets = [(''flow_type'', 0), (''mask'', 2)]\<rparr>"

definition ty_rte_eth_fdir_flex_conf :: c_type where
  "ty_rte_eth_fdir_flex_conf = Struct 1 False [(''nb_payloads'', U16), (''nb_flexmasks'', U16),
      (''flex_set'', Arr ty_rte_eth_flex_payload_cfg 8),
      (''flex_mask'', Arr ty_rte_eth_fdir_flex_mask 24)]"

definition test_rte_eth_fdir_flex_conf :: layout_test where
  "test_rte_eth_fdir_flex_conf = \<lparr>asserted_size = 724, asserted_align = 4,
     asserted_offsets = [(''nb_payloads'', 0), (''nb_flexmasks'', 2), (''flex_set'', 4),
      (''flex_mask'', 292)]\<rparr>"

definition ty_rte_fdir_conf :: c_type where
  "ty_rte_fdir_conf = Struct 1 False [(''mode'', U32), (''pballoc'', U32), (''status'', U32),
      (''drop_queue'', U8), (''mask'', ty_rte_eth_fdir_masks),
      (''flex_conf'', ty_rte_eth_fdir_flex_conf)]"

definition test_rte_fdir_conf :: layout_test where
  "test_rte_fdir_conf = \<lparr>asserted_size = 808, asserted_align = 4,
     asserted_offsets = [(''mode'', 0), (''pballoc'', 4), (''status'', 8), (''drop_queue'', 12),
      (''mask'', 16), (''flex_conf'', 84)]\<rparr>"

definition ty_rte_intr_conf :: c_type where
  "ty_rte_intr_conf = Struct 4 False [(''_bitfield_1'', bitfield_unit 1 U8),
      (''__bindgen_padding_0'', Arr U8 3)]"

definition test_rte_intr_conf :: layout_test where
  "test_rte_intr_conf = \<lparr>asserted_size = 4, asserted_align = 4,
     asserted_offsets = []\<rparr>"

definition ty_rte_eth_conf :: c_type where
  "ty_rte_eth_conf = Struct 1 False [(''link_speeds'', U32), (''rxmode'', ty_rte_eth_rxmode),
      (''txmode'', ty_rte_eth_txmode), (''lpbk_mode'', U32),
      (''rx_adv_conf'', ty_rte_eth_conf__bindgen_ty_1),
      (''tx_adv_conf'', ty_rte_eth_conf__bindgen_ty_2), (''dcb_capability_en'', U32),
      (''fdir_conf'', ty_rte_fdir_conf), (''intr_conf'', ty_rte_intr_conf)]"

definition test_rte_eth_conf :: layout_test where
  "test_rte_eth_conf = \<lparr>asserted_size = 3080, asserted_align = 8,
     asserted_offsets = [(''link_speeds'', 0), (''rxmode'', 8), (''txmode'', 64),
      (''lpbk_mode'', 120), (''rx_adv_conf'', 128), (''tx_adv_conf'', 2248),
      (''dcb_capability_en'', 2260), (''fdir_conf'', 2264), (''intr_conf'', 3072)]\<rparr>"

lemma layout_rte_eth_rxmode [layout_simps]:
  "c_size ty_rte_eth_rxmode = 56" "c_align ty_rte_eth_rxmode = 8" "wf_type ty_rte_eth_rxmode"
  "layout_test_passes ty_rte_eth_rxmode test_rte_eth_rxmode"
  by (simp_all add: ty_rte_eth_rxmode_def test_rte_eth_rxmode_def layout_simps layout_eval)

lemma layout_rte_eth_txmode [layout_simps]:
  "c_size ty_rte_eth_txmode = 56" "c_align ty_rte_eth_txmode = 8" "wf_type ty_rte_eth_txmode"
  "layout_test_passes ty_rte_eth_txmode test_rte_eth_txmode"
  by (simp_all add: ty_rte_eth_txmode_def test_rte_eth_txmode_def layout_simps layout_eval)

lemma layout_rte_eth_rss_conf [layout_simps]:
  "c_size ty_rte_eth_rss_conf = 24" "c_align ty_rte_eth_rss_conf = 8" "wf_type ty_rte_eth_rss_conf"
  "layout_test_passes ty_rte_eth_rss_conf test_rte_eth_rss_conf"
  by (simp_all add: ty_rte_eth_rss_conf_def test_rte_eth_rss_conf_def layout_simps layout_eval)

lemma layout_rte_eth_vmdq_dcb_conf__bindgen_ty_1 [layout_simps]:
  "c_size ty_rte_eth_vmdq_dcb_conf__bindgen_ty_1 = 16" "c_align ty_rte_eth_vmdq_dcb_conf__bindgen_ty_1 = 8" "wf_type ty_rte_eth_vmdq_dcb_conf__bindgen_ty_1"
  "layout_test_passes ty_rte_eth_vmdq_dcb_conf__bindgen_ty_1 test_rte_eth_vmdq_dcb_conf__bindgen_ty_1"
  by (simp_all add: ty_rte_eth_vmdq_dcb_conf__bindgen_ty_1_def test_rte_eth_vmdq_dcb_conf__bindgen_ty_1_def layout_simps layout_eval)

lemma layout_rte_eth_vmdq_dcb_conf [layout_simps]:
  "c_size ty_rte_eth_vmdq_dcb_conf = 1040" "c_align ty_rte_eth_vmdq_dcb_conf = 8" "wf_type ty_rte_eth_vmdq_dcb_conf"
  "layout_test_passes ty_rte_eth_vmdq_dcb_conf test_rte_eth_vmdq_dcb_conf"
  by (simp_all add: ty_rte_eth_vmdq_dcb_conf_def test_rte_eth_vmdq_dcb_conf_def layout_simps layout_eval)

lemma layout_rte_eth_dcb_rx_conf [layout_simps]:
  "c_size ty_rte_eth_dcb_rx_conf = 12" "c_align ty_rte_eth_dcb_rx_conf = 4" "wf_type ty_rte_eth_dcb_rx_conf"
  "layout_test_passes ty_rte_eth_dcb_rx_conf test_rte_eth_dcb_rx_conf"
  by (simp_all add: ty_rte_eth_dcb_rx_conf_def test_rte_eth_dcb_rx_conf_def layout_simps layout_eval)

lemma layout_rte_eth_vmdq_rx_conf__bindgen_ty_1 [layout_simps]:
  "c_size ty_rte_eth_vmdq_rx_conf__bindgen_ty_1 = 16" "c_align ty_rte_eth_vmdq_rx_conf__bindgen_ty_1 = 8" "wf_type ty_rte_eth_vmdq_rx_conf__bindgen_ty_1"
  "layout_test_passes ty_rte_eth_vmdq_rx_conf__bindgen_ty_1 test_rte_eth_vmdq_rx_conf__bindgen_ty_1"
  by (simp_all add: ty_rte_eth_vmdq_rx_conf__bindgen_ty_1_def test_rte_eth_vmdq_rx_conf__bindgen_ty_1_def layout_simps layout_eval)

lemma layout_rte_eth_vmdq_rx_conf [layout_simps]:
  "c_size ty_rte_eth_vmdq_rx_conf = 1040" "c_align ty_rte_eth_vmdq_rx_conf = 8" "wf_type ty_rte_eth_vmdq_rx_conf"
  "layout_test_passes ty_rte_eth_vmdq_rx_conf test_rte_eth_vmdq_rx_conf"
  by (simp_all add: ty_rte_eth_vmdq_rx_conf_def test_rte_eth_vmdq_rx_conf_def layout_simps layout_eval)

lemma layout_rte_eth_conf__bindgen_ty_1 [layout_simps]:
  "c_size ty_rte_eth_conf__bindgen_ty_1 = 2120" "c_align ty_rte_eth_conf__bindgen_ty_1 = 8" "wf_type ty_rte_eth_conf__bindgen_ty_1"
  "layout_test_passes ty_rte_eth_conf__bindgen_ty_1 test_rte_eth_conf__bindgen_ty_1"
  by (simp_all add: ty_rte_eth_conf__bindgen_ty_1_def test_rte_eth_conf__bindgen_ty_1_def layout_simps layout_eval)

lemma layout_rte_eth_vmdq_dcb_tx_conf [layout_simps]:
  "c_size ty_rte_eth_vmdq_dcb_tx_conf = 12" "c_align ty_rte_eth_vmdq_dcb_tx_conf = 4" "wf_type ty_rte_eth_vmdq_dcb_tx_conf"
  "layout_test_passes ty_rte_eth_vmdq_dcb_tx_conf test_rte_eth_vmdq_dcb_tx_conf"
  by (simp_all add: ty_rte_eth_vmdq_dcb_tx_conf_def test_rte_eth_vmdq_dcb_tx_conf_def layout_simps layout_eval)

lemma layout_rte_eth_dcb_tx_conf [layout_simps]:
  "c_size ty_rte_eth_dcb_tx_conf = 12" "c_align ty_rte_eth_dcb_tx_conf = 4" "wf_type ty_rte_eth_dcb_tx_conf"
  "layout_test_passes ty_rte_eth_dcb_tx_conf test_rte_eth_dcb_tx_conf"
  by (simp_all add: ty_rte_eth_dcb_tx_conf_def test_rte_eth_dcb_tx_conf_def layout_simps layout_eval)

lemma layout_rte_eth_vmdq_tx_conf [layout_simps]:
  "c_size ty_rte_eth_vmdq_tx_conf = 4" "c_align ty_rte_eth_vmdq_tx_conf = 4" "wf_type ty_rte_eth_vmdq_tx_conf"
  "layout_test_passes ty_rte_eth_vmdq_tx_conf test_rte_eth_vmdq_tx_conf"
  by (simp_all add: ty_rte_eth_vmdq_tx_conf_def test_rte_eth_vmdq_tx_conf_def layout_simps layout_eval)

lemma layout_rte_eth_conf__bindgen_ty_2 [layout_simps]:
  "c_size ty_rte_eth_conf__bindgen_ty_2 = 12" "c_align ty_rte_eth_conf__bindgen_ty_2 = 4" "wf_type ty_rte_eth_conf__bindgen_ty_2"
  "layout_test_passes ty_rte_eth_conf__bindgen_ty_2 test_rte_eth_conf__bindgen_ty_2"
  by (simp_all add: ty_rte_eth_conf__bindgen_ty_2_def test_rte_eth_conf__bindgen_ty_2_def layout_simps layout_eval)

lemma layout_rte_eth_ipv4_flow [layout_simps]:
  "c_size ty_rte_eth_ipv4_flow = 12" "c_align ty_rte_eth_ipv4_flow = 4" "wf_type ty_rte_eth_ipv4_flow"
  "layout_test_passes ty_rte_eth_ipv4_flow test_rte_eth_ipv4_flow"
  by (simp_all add: ty_rte_eth_ipv4_flow_def test_rte_eth_ipv4_flow_def layout_simps layout_eval)

lemma layout_rte_eth_ipv6_flow [layout_simps]:
  "c_size ty_rte_eth_ipv6_flow = 36" "c_align ty_rte_eth_ipv6_flow = 4" "wf_type ty_rte_eth_ipv6_flow"
  "layout_test_passes ty_rte_eth_ipv6_flow test_rte_eth_ipv6_flow"
  by (simp_all add: ty_rte_eth_ipv6_flow_def test_rte_eth_ipv6_flow_def layout_simps layout_eval)

lemma layout_rte_eth_fdir_masks [layout_simps]:
  "c_size ty_rte_eth_fdir_masks = 68" "c_align ty_rte_eth_fdir_masks = 4" "wf_type ty_rte_eth_fdir_masks"
  "layout_test_passes ty_rte_eth_fdir_masks test_rte_eth_fdir_masks"
  by (simp_all add: ty_rte_eth_fdir_masks_def test_rte_eth_fdir_masks_def layout_simps layout_eval)

lemma layout_rte_eth_flex_payload_cfg [layout_simps]:
  "c_size ty_rte_eth_flex_payload_cfg = 36" "c_align ty_rte_eth_flex_payload_cfg = 4" "wf_type ty_rte_eth_flex_payload_cfg"
  "layout_test_passes ty_rte_eth_flex_payload_cfg test_rte_eth_flex_payload_cfg"
  by (simp_all add: ty_rte_eth_flex_payload_cfg_def test_rte_eth_flex_payload_cfg_def layout_simps layout_eval)

lemma layout_rte_eth_fdir_flex_mask [layout_simps]:
  "c_size ty_rte_eth_fdir_flex_mask = 18" "c_align ty_rte_eth_fdir_flex_mask = 2" "wf_type ty_rte_eth_fdir_flex_mask"
  "layout_test_passes ty_rte_eth_fdir_flex_mask test_rte_eth_fdir_flex_mask"
  by (simp_all add: ty_rte_eth_fdir_flex_mask_def test_rte_eth_fdir_flex_mask_def layout_simps layout_eval)

lemma layout_rte_eth_fdir_flex_conf [layout_simps]:
  "c_size ty_rte_eth_fdir_flex_conf = 724" "c_align ty_rte_eth_fdir_flex_conf = 4" "wf_type ty_rte_eth_fdir_flex_conf"
  "layout_test_passes ty_rte_eth_fdir_flex_conf test_rte_eth_fdir_flex_conf"
  by (simp_all add: ty_rte_eth_fdir_flex_conf_def test_rte_eth_fdir_flex_conf_def layout_simps layout_eval)

lemma layout_rte_fdir_conf [layout_simps]:
  "c_size ty_rte_fdir_conf = 808" "c_align ty_rte_fdir_conf = 4" "wf_type ty_rte_fdir_conf"
  "layout_test_passes ty_rte_fdir_conf test_rte_fdir_conf"
  by (simp_all add: ty_rte_fdir_conf_def test_rte_fdir_conf_def layout_simps layout_eval)

lemma layout_rte_intr_conf [layout_simps]:
  "c_size ty_rte_intr_conf = 4" "c_align ty_rte_intr_conf = 4" "wf_type ty_rte_intr_conf"
  "layout_test_passes ty_rte_intr_conf test_rte_intr_conf"
  by (simp_all add: ty_rte_intr_conf_def test_rte_intr_conf_def layout_simps layout_eval)

lemma layout_rte_eth_conf [layout_simps]:
  "c_size ty_rte_eth_conf = 3080" "c_align ty_rte_eth_conf = 8" "wf_type ty_rte_eth_conf"
  "layout_test_passes ty_rte_eth_conf test_rte_eth_conf"
  by (simp_all add: ty_rte_eth_conf_def test_rte_eth_conf_def layout_simps layout_eval)

section \<open>The tests\<close>

definition bound_layouts :: "(c_type \<times> layout_test) list" where
  "bound_layouts = [(ty_rte_ether_addr, test_rte_ether_addr),
      (ty_rte_ether_hdr, test_rte_ether_hdr), (ty_rte_ipv4_hdr, test_rte_ipv4_hdr),
      (ty_rte_mbuf_sched, test_rte_mbuf_sched),
      (ty_rte_mbuf__bindgen_ty_1, test_rte_mbuf__bindgen_ty_1),
      (ty_rte_atomic16_t, test_rte_atomic16_t),
      (ty_rte_mbuf__bindgen_ty_2, test_rte_mbuf__bindgen_ty_2),
      (ty_rte_mbuf__bindgen_ty_3__bindgen_ty_1__bindgen_ty_1__bindgen_ty_1, test_rte_mbuf__bindgen_ty_3__bindgen_ty_1__bindgen_ty_1__bindgen_ty_1),
      (ty_rte_mbuf__bindgen_ty_3__bindgen_ty_1__bindgen_ty_1, test_rte_mbuf__bindgen_ty_3__bindgen_ty_1__bindgen_ty_1),
      (ty_rte_mbuf__bindgen_ty_3__bindgen_ty_1, test_rte_mbuf__bindgen_ty_3__bindgen_ty_1),
      (ty_rte_mbuf__bindgen_ty_3, test_rte_mbuf__bindgen_ty_3),
      (ty_rte_mbuf__bindgen_ty_4__bindgen_ty_1__bindgen_ty_1__bindgen_ty_1__bindgen_ty_1, test_rte_mbuf__bindgen_ty_4__bindgen_ty_1__bindgen_ty_1__bindgen_ty_1__bindgen_ty_1),
      (ty_rte_mbuf__bindgen_ty_4__bindgen_ty_1__bindgen_ty_1__bindgen_ty_1, test_rte_mbuf__bindgen_ty_4__bindgen_ty_1__bindgen_ty_1__bindgen_ty_1),
      (ty_rte_mbuf__bindgen_ty_4__bindgen_ty_1__bindgen_ty_1, test_rte_mbuf__bindgen_ty_4__bindgen_ty_1__bindgen_ty_1),
      (ty_rte_mbuf__bindgen_ty_4__bindgen_ty_1__bindgen_ty_2, test_rte_mbuf__bindgen_ty_4__bindgen_ty_1__bindgen_ty_2),
      (ty_rte_mbuf__bindgen_ty_4__bindgen_ty_1, test_rte_mbuf__bindgen_ty_4__bindgen_ty_1),
      (ty_rte_mbuf__bindgen_ty_4, test_rte_mbuf__bindgen_ty_4),
      (ty_rte_mbuf__bindgen_ty_5, test_rte_mbuf__bindgen_ty_5),
      (ty_rte_mbuf__bindgen_ty_6__bindgen_ty_1, test_rte_mbuf__bindgen_ty_6__bindgen_ty_1),
      (ty_rte_mbuf__bindgen_ty_6, test_rte_mbuf__bindgen_ty_6), (ty_rte_mbuf, test_rte_mbuf),
      (ty_rte_mempool__bindgen_ty_1, test_rte_mempool__bindgen_ty_1),
      (ty_rte_mempool_objhdr_list, test_rte_mempool_objhdr_list),
      (ty_rte_mempool_memhdr_list, test_rte_mempool_memhdr_list),
      (ty_rte_mempool, test_rte_mempool), (ty_rte_ring_headtail, test_rte_ring_headtail),
      (ty_rte_ring, test_rte_ring),
      (ty_rte_memzone__bindgen_ty_1, test_rte_memzone__bindgen_ty_1),
      (ty_rte_memzone__bindgen_ty_2, test_rte_memzone__bindgen_ty_2),
      (ty_rte_memzone, test_rte_memzone), (ty_rte_eth_thresh, test_rte_eth_thresh),
      (ty_rte_eth_rxconf, test_rte_eth_rxconf), (ty_rte_eth_txconf, test_rte_eth_txconf),
      (ty_rte_eth_desc_lim, test_rte_eth_desc_lim),
      (ty_rte_eth_dev_portconf, test_rte_eth_dev_portconf),
      (ty_rte_eth_switch_info, test_rte_eth_switch_info),
      (ty_rte_eth_dev_info, test_rte_eth_dev_info), (ty_rte_eth_rxmode, test_rte_eth_rxmode),
      (ty_rte_eth_txmode, test_rte_eth_txmode), (ty_rte_eth_rss_conf, test_rte_eth_rss_conf),
      (ty_rte_eth_vmdq_dcb_conf__bindgen_ty_1, test_rte_eth_vmdq_dcb_conf__bindgen_ty_1),
      (ty_rte_eth_vmdq_dcb_conf, test_rte_eth_vmdq_dcb_conf),
      (ty_rte_eth_dcb_rx_conf, test_rte_eth_dcb_rx_conf),
      (ty_rte_eth_vmdq_rx_conf__bindgen_ty_1, test_rte_eth_vmdq_rx_conf__bindgen_ty_1),
      (ty_rte_eth_vmdq_rx_conf, test_rte_eth_vmdq_rx_conf),
      (ty_rte_eth_conf__bindgen_ty_1, test_rte_eth_conf__bindgen_ty_1),
      (ty_rte_eth_vmdq_dcb_tx_conf, test_rte_eth_vmdq_dcb_tx_conf),
      (ty_rte_eth_dcb_tx_conf, test_rte_eth_dcb_tx_conf),
      (ty_rte_eth_vmdq_tx_conf, test_rte_eth_vmdq_tx_conf),
      (ty_rte_eth_conf__bindgen_ty_2, test_rte_eth_conf__bindgen_ty_2),
      (ty_rte_eth_ipv4_flow, test_rte_eth_ipv4_flow),
      (ty_rte_eth_ipv6_flow, test_rte_eth_ipv6_flow),
      (ty_rte_eth_fdir_masks, test_rte_eth_fdir_masks),
      (ty_rte_eth_flex_payload_cfg, test_rte_eth_flex_payload_cfg),
      (ty_rte_eth_fdir_flex_mask, test_rte_eth_fdir_flex_mask),
      (ty_rte_eth_fdir_flex_conf, test_rte_eth_fdir_flex_conf),
      (ty_rte_fdir_conf, test_rte_fdir_conf), (ty_rte_intr_conf, test_rte_intr_conf),
      (ty_rte_eth_conf, test_rte_eth_conf)]"

lemma bound_layouts_pass:
  "list_all (\<lambda>(t, w). layout_test_passes t w \<and> wf_type t) bound_layouts"
  by (simp add: bound_layouts_def layout_simps)

end
