(* ===== verification/Memory_Image.thy ===== *)
theory Memory_Image
  imports Bitfield
begin

text \<open>
  Values in memory: an integer is stored least significant byte first (x86-64), a struct is
  the bytes of its size, and a field is the range of bytes at its slot. These are the loads
  and stores that the engine's accesses through raw pointers compile to.
\<close>

section \<open>Integers\<close>

fun le_word :: "u8 list \<Rightarrow> 'w::len word" where
  "le_word [] = 0"
| "le_word (b # bs) = ucast b OR push_bit 8 (le_word bs)"

definition le_bytes :: "nat \<Rightarrow> 'w::len word \<Rightarrow> u8 list" where
  "le_bytes n w = map (\<lambda>i. ucast (drop_bit (8 * i) w)) [0..<n]"

lemma length_le_bytes [simp]: "length (le_bytes n w) = n"
  by (simp add: le_bytes_def)

lemma bit_u8_high: "8 \<le> n \<Longrightarrow> \<not> bit (b :: u8) n"
  using bit_imp_le_length [of b n] by auto

lemma bit_le_word:
  "bit (le_word bs :: 'w::len word) k \<longleftrightarrow> k < LENGTH('w) \<and> k < 8 * length bs \<and> storage_bit bs k"
proof (induction bs arbitrary: k)
  case (Cons b bs)
  show ?case
  proof (cases "k < 8")
    case True
    then show ?thesis by (auto simp: bit_or_iff bit_ucast_iff bit_push_bit_iff storage_bit_def
        dest: bit_imp_le_length)
  next
    case False
    then have "k div 8 = Suc ((k - 8) div 8)" "k mod 8 = (k - 8) mod 8"
      by (simp_all add: div_if mod_if)
    with False Cons.IH [of "k - 8"] show ?thesis
      by (auto simp: bit_or_iff bit_ucast_iff bit_push_bit_iff storage_bit_def bit_u8_high
          dest: bit_imp_le_length)
  qed
qed simp

lemma storage_bit_le_bytes:
  "k < 8 * n \<Longrightarrow> storage_bit (le_bytes n w) k \<longleftrightarrow> bit w k"
proof -
  assume "k < 8 * n"
  then have "k div 8 < n" by (simp add: less_mult_imp_div_less mult.commute)
  then show ?thesis by (simp add: storage_bit_def le_bytes_def bit_ucast_iff bit_drop_bit_eq)
qed

lemma le_word_le_bytes: "LENGTH('w) \<le> 8 * n \<Longrightarrow> le_word (le_bytes n w) = (w :: 'w::len word)"
  by (rule bit_word_eqI) (simp add: bit_le_word storage_bit_le_bytes)

lemma le_bytes_le_word:
  assumes "8 * length bs \<le> LENGTH('w)"
  shows "le_bytes (length bs) (le_word bs :: 'w::len word) = bs"
proof (rule nth_equalityI)
  fix i assume "i < length (le_bytes (length bs) (le_word bs :: 'w word))"
  then have i: "i < length bs" by simp
  show "le_bytes (length bs) (le_word bs :: 'w word) ! i = bs ! i"
  proof (rule bit_word_eqI)
    fix n :: nat assume n: "n < LENGTH(8)"
    then have "8 * i + n < 8 * length bs" using i by simp
    then show "bit (le_bytes (length bs) (le_word bs :: 'w word) ! i) n = bit (bs ! i) n"
      using i n assms
      by (simp add: le_bytes_def bit_ucast_iff bit_drop_bit_eq bit_le_word storage_bit_def)
  qed
qed simp

lemma le_word_zeros: "le_word (replicate n 0) = 0"
  by (induction n) simp_all

section \<open>Fields\<close>

text \<open>Loading and storing the field at a path; \<open>None\<close> where the struct has no such field.\<close>

definition load_field :: "c_type \<Rightarrow> string list \<Rightarrow> u8 list \<Rightarrow> u8 list option" where
  "load_field t path img =
     (case slot_at t path of
        None \<Rightarrow> None
      | Some (off, u) \<Rightarrow> mem_read img off (c_size u))"

definition store_field :: "c_type \<Rightarrow> string list \<Rightarrow> u8 list \<Rightarrow> u8 list \<Rightarrow> u8 list option" where
  "store_field t path bs img =
     (case slot_at t path of
        None \<Rightarrow> None
      | Some (off, u) \<Rightarrow> if length bs = c_size u then mem_write img off bs else None)"

text \<open>Two places in a struct are apart if neither reaches into the other.\<close>

definition slots_apart :: "c_type \<Rightarrow> string list \<Rightarrow> string list \<Rightarrow> bool" where
  "slots_apart t p q =
     (case (slot_at t p, slot_at t q) of
        (Some (a, u), Some (b, v)) \<Rightarrow> a + c_size u \<le> b \<or> b + c_size v \<le> a
      | _ \<Rightarrow> False)"

lemma load_store_same:
  "store_field t path bs img = Some img' \<Longrightarrow> load_field t path img' = Some bs"
  by (auto simp: store_field_def load_field_def split: option.splits if_splits) (metis mem_read_write)

lemma mem_read_write_apart:
  assumes "mem_write mem a bs = Some mem'" "a + length bs \<le> b \<or> b + n \<le> a"
  shows "mem_read mem' b n = mem_read mem b n"
proof -
  have le: "a + length bs \<le> length mem" and m: "mem' = take a mem @ bs @ drop (a + length bs) mem"
    using assms(1) by (auto simp: mem_write_def split: if_splits)
  from assms(2) show ?thesis
  proof
    assume "a + length bs \<le> b"
    then show ?thesis using le by (simp add: m mem_read_def)
  next
    assume "b + n \<le> a"
    then show ?thesis using le by (auto simp: m mem_read_def drop_take)
  qed
qed

lemma load_store_apart:
  assumes "store_field t p bs img = Some img'" "slots_apart t p q"
  shows "load_field t q img' = load_field t q img"
  using assms mem_read_write_apart [of img _ bs img']
  by (auto simp: store_field_def load_field_def slots_apart_def split: option.splits if_splits)

lemma store_field_length: "store_field t path bs img = Some img' \<Longrightarrow> length img' = length img"
  by (auto simp: store_field_def mem_write_length split: option.splits if_splits)

section \<open>Zeroed memory\<close>

text \<open>
  A place inside a well-formed type lies within its bytes, so that every place can be loaded
  from \<open>mem::zeroed()\<close>, and reads as zeroed memory of its own type.
\<close>

definition zeroed :: "c_type \<Rightarrow> u8 list" where
  "zeroed t = replicate (c_size t) 0"

lemma union_size: "c_size (Union al fs) =
    round_up (max_of 0 (map (\<lambda>f. c_size (snd f)) fs)) (c_align (Union al fs))"
  by simp

lemma field_in_bounds:
  assumes "wf_type t" "(f, off, u) \<in> set (field_slots t)"
  shows "off + c_size u \<le> c_size t \<and> wf_type u"
proof (cases t)
  case (Struct al packed fs)
  obtain i where i: "i < length fs" "field_slots t ! i = (f, off, u)"
    using assms(2) Struct by (auto simp: in_set_conv_nth shapes_def)
  then have "u = snd (fs ! i)" using Struct by (simp add: shapes_def)
  then have "wf_type u" using assms(1) Struct i(1) by (auto simp: list_all_length)
  moreover have "off + c_size u \<le> c_size t"
    using struct_layout_sound [of al packed fs] assms(1) i unfolding Struct by fastforce
  ultimately show ?thesis by simp
next
  case (Union al fs)
  have u: "off = 0" "(f, u) \<in> set fs" using assms(2) Union by auto
  then have "c_size u \<in> set (map (\<lambda>f. c_size (snd f)) fs)" by force
  then have "c_size u \<le> max_of 0 (map (\<lambda>f. c_size (snd f)) fs)" by (rule max_of_ge)
  also have "\<dots> \<le> c_size t"
    unfolding Union union_size by (rule round_up_ge) (use assms(1) Union align_pos in blast)
  finally show ?thesis using u assms(1) Union by (auto simp: list_all_iff)
qed (use assms in auto)

lemma slot_in_bounds:
  "wf_type t \<Longrightarrow> slot_at t path = Some (off, u) \<Longrightarrow> off + c_size u \<le> c_size t \<and> wf_type u"
proof (induction path arbitrary: t off)
  case (Cons f path)
  obtain o1 v o2 where s: "map_of (field_slots t) f = Some (o1, v)"
    "slot_at v path = Some (o2, u)" "off = o1 + o2"
    using Cons.prems(2) by (auto split: option.splits prod.splits)
  have "o1 + c_size v \<le> c_size t \<and> wf_type v"
    by (rule field_in_bounds [OF Cons.prems(1) map_of_SomeD [OF s(1)]])
  moreover from this have "o2 + c_size u \<le> c_size v \<and> wf_type u" using Cons.IH s(2) by blast
  ultimately show ?case using s(3) by simp
qed simp

lemma load_zeroed:
  assumes "wf_type t" "slot_at t path = Some (off, u)"
  shows "load_field t path (zeroed t) = Some (zeroed u)"
proof -
  have "off + c_size u \<le> c_size t" using slot_in_bounds [OF assms] by simp
  then have "min (c_size u) (c_size t - off) = c_size u" "off + c_size u \<le> c_size t" by auto
  then show ?thesis using assms(2) by (simp add: load_field_def mem_read_def zeroed_def min.commute)
qed

lemma le_word_zeroed [simp]: "le_word (zeroed t) = 0"
  by (simp add: zeroed_def le_word_zeros)

end
