(* ===== verification/Mbuf_Bits.thy ===== *)
theory Mbuf_Bits
  imports Memory_Image Bound_Types
begin

text \<open>
  The bit fields of \<open>rte_mbuf\<close> in \<open>ffi/src/bindings_rustdoc.rs\<close>: the packet type
  (\<open>rte_mbuf__bindgen_ty_3\<close>, a union of \<open>packet_type\<close> with seven fields of four bits) and the
  offload lengths (\<open>rte_mbuf__bindgen_ty_6\<close>, a union of \<open>tx_offload\<close> with six fields). The
  accessors are the generated ones; the theorems relate the two views of each union.
\<close>

section \<open>Constants\<close>

definition RTE_PTYPE_L2_MASK :: u32 where "RTE_PTYPE_L2_MASK = 15"
definition RTE_PTYPE_L3_MASK :: u32 where "RTE_PTYPE_L3_MASK = 240"
definition RTE_PTYPE_L4_MASK :: u32 where "RTE_PTYPE_L4_MASK = 3840"
definition RTE_PTYPE_TUNNEL_MASK :: u32 where "RTE_PTYPE_TUNNEL_MASK = 61440"
definition RTE_PTYPE_INNER_L2_MASK :: u32 where "RTE_PTYPE_INNER_L2_MASK = 983040"
definition RTE_PTYPE_INNER_L3_MASK :: u32 where "RTE_PTYPE_INNER_L3_MASK = 15728640"
definition RTE_PTYPE_INNER_L4_MASK :: u32 where "RTE_PTYPE_INNER_L4_MASK = 251658240"

section \<open>Reading and writing a unit\<close>

text \<open>The cast of the \<open>u64\<close> a unit gives to the type of the field.\<close>

definition unit_value :: "('e, u64) outcome \<Rightarrow> ('e, 'w::len word) outcome" where
  "unit_value r = and_then r (\<lambda>v. Ok (ucast v))"

definition on_unit ::
  "(u8 list \<Rightarrow> 's) \<Rightarrow> u8 list \<times> ('e, unit) outcome \<Rightarrow> 's \<times> ('e, unit) outcome" where
  "on_unit put r = (case r of (u, r') \<Rightarrow> (put u, r'))"

section \<open>The packet type\<close>

text \<open>
  \<open>rte_mbuf__bindgen_ty_3__bindgen_ty_1\<close>. Its middle byte is again a union, of
  \<open>inner_esp_next_proto\<close> and a struct with one unit.
\<close>

record ptype_bits =
  bitfield_1 :: "u8 list"
  inner_bitfield :: "u8 list"
  bitfield_2 :: "u8 list"

definition inner_l2_type :: "profile \<Rightarrow> ptype_bits \<Rightarrow> ('e, u8) outcome" where
  "inner_l2_type p s = unit_value (unit_get p (inner_bitfield s) 0 4)"

definition set_inner_l2_type :: "profile \<Rightarrow> u8 \<Rightarrow> ptype_bits \<Rightarrow> ptype_bits \<times> ('e, unit) outcome" where
  "set_inner_l2_type p val s =
     on_unit (\<lambda>u. s\<lparr>inner_bitfield := u\<rparr>) (unit_set p 0 4 (ucast val) (inner_bitfield s))"

definition inner_l3_type :: "profile \<Rightarrow> ptype_bits \<Rightarrow> ('e, u8) outcome" where
  "inner_l3_type p s = unit_value (unit_get p (inner_bitfield s) 4 4)"

definition set_inner_l3_type :: "profile \<Rightarrow> u8 \<Rightarrow> ptype_bits \<Rightarrow> ptype_bits \<times> ('e, unit) outcome" where
  "set_inner_l3_type p val s =
     on_unit (\<lambda>u. s\<lparr>inner_bitfield := u\<rparr>) (unit_set p 4 4 (ucast val) (inner_bitfield s))"

text \<open>The calls of \<open>set\<close>, in order, on a unit of zeros, by which \<open>new_bitfield\<close> builds one.\<close>

fun set_all ::
  "profile \<Rightarrow> (usize \<times> u8 \<times> u64) list \<Rightarrow> u8 list \<Rightarrow> u8 list \<times> ('e, unit) outcome" where
  "set_all p [] u = (u, Ok ())"
| "set_all p ((off, w, v) # rest) u =
     (case unit_set p off w v u of (u', r) \<Rightarrow> with_ok u' r (\<lambda>_. set_all p rest u'))"

definition new_inner_bitfield ::
  "profile \<Rightarrow> u8 \<Rightarrow> u8 \<Rightarrow> u8 list \<times> ('e, unit) outcome" where
  "new_inner_bitfield p inner_l2 inner_l3 =
     set_all p [(0, 4, ucast inner_l2), (4, 4, ucast inner_l3)]
       (replicate 1 0)"

definition l2_type :: "profile \<Rightarrow> ptype_bits \<Rightarrow> ('e, u32) outcome" where
  "l2_type p s = unit_value (unit_get p (bitfield_1 s) 0 4)"

definition set_l2_type :: "profile \<Rightarrow> u32 \<Rightarrow> ptype_bits \<Rightarrow> ptype_bits \<times> ('e, unit) outcome" where
  "set_l2_type p val s =
     on_unit (\<lambda>u. s\<lparr>bitfield_1 := u\<rparr>) (unit_set p 0 4 (ucast val) (bitfield_1 s))"

definition l3_type :: "profile \<Rightarrow> ptype_bits \<Rightarrow> ('e, u32) outcome" where
  "l3_type p s = unit_value (unit_get p (bitfield_1 s) 4 4)"

definition set_l3_type :: "profile \<Rightarrow> u32 \<Rightarrow> ptype_bits \<Rightarrow> ptype_bits \<times> ('e, unit) outcome" where
  "set_l3_type p val s =
     on_unit (\<lambda>u. s\<lparr>bitfield_1 := u\<rparr>) (unit_set p 4 4 (ucast val) (bitfield_1 s))"

definition l4_type :: "profile \<Rightarrow> ptype_bits \<Rightarrow> ('e, u32) outcome" where
  "l4_type p s = unit_value (unit_get p (bitfield_1 s) 8 4)"

definition set_l4_type :: "profile \<Rightarrow> u32 \<Rightarrow> ptype_bits \<Rightarrow> ptype_bits \<times> ('e, unit) outcome" where
  "set_l4_type p val s =
     on_unit (\<lambda>u. s\<lparr>bitfield_1 := u\<rparr>) (unit_set p 8 4 (ucast val) (bitfield_1 s))"

definition tun_type :: "profile \<Rightarrow> ptype_bits \<Rightarrow> ('e, u32) outcome" where
  "tun_type p s = unit_value (unit_get p (bitfield_1 s) 12 4)"

definition set_tun_type :: "profile \<Rightarrow> u32 \<Rightarrow> ptype_bits \<Rightarrow> ptype_bits \<times> ('e, unit) outcome" where
  "set_tun_type p val s =
     on_unit (\<lambda>u. s\<lparr>bitfield_1 := u\<rparr>) (unit_set p 12 4 (ucast val) (bitfield_1 s))"

definition new_ptype_bitfield_1 ::
  "profile \<Rightarrow> u32 \<Rightarrow> u32 \<Rightarrow> u32 \<Rightarrow> u32 \<Rightarrow> u8 list \<times> ('e, unit) outcome" where
  "new_ptype_bitfield_1 p l2 l3 l4 tun =
     set_all p [(0, 4, ucast l2), (4, 4, ucast l3), (8, 4, ucast l4), (12, 4, ucast tun)]
       (replicate 2 0)"

definition inner_l4_type :: "profile \<Rightarrow> ptype_bits \<Rightarrow> ('e, u32) outcome" where
  "inner_l4_type p s = unit_value (unit_get p (bitfield_2 s) 0 4)"

definition set_inner_l4_type :: "profile \<Rightarrow> u32 \<Rightarrow> ptype_bits \<Rightarrow> ptype_bits \<times> ('e, unit) outcome" where
  "set_inner_l4_type p val s =
     on_unit (\<lambda>u. s\<lparr>bitfield_2 := u\<rparr>) (unit_set p 0 4 (ucast val) (bitfield_2 s))"

definition new_ptype_bitfield_2 ::
  "profile \<Rightarrow> u32 \<Rightarrow> u8 list \<times> ('e, unit) outcome" where
  "new_ptype_bitfield_2 p inner_l4 =
     set_all p [(0, 4, ucast inner_l4)]
       (replicate 1 0)"

section \<open>The offload lengths\<close>

text \<open>\<open>rte_mbuf__bindgen_ty_6__bindgen_ty_1\<close>: one unit of eight bytes.\<close>

record offload_bits =
  offload_unit :: "u8 list"

definition l2_len :: "profile \<Rightarrow> offload_bits \<Rightarrow> ('e, u64) outcome" where
  "l2_len p s = unit_value (unit_get p (offload_unit s) 0 7)"

definition set_l2_len :: "profile \<Rightarrow> u64 \<Rightarrow> offload_bits \<Rightarrow> offload_bits \<times> ('e, unit) outcome" where
  "set_l2_len p val s =
     on_unit (\<lambda>u. s\<lparr>offload_unit := u\<rparr>) (unit_set p 0 7 (ucast val) (offload_unit s))"

definition l3_len :: "profile \<Rightarrow> offload_bits \<Rightarrow> ('e, u64) outcome" where
  "l3_len p s = unit_value (unit_get p (offload_unit s) 7 9)"

definition set_l3_len :: "profile \<Rightarrow> u64 \<Rightarrow> offload_bits \<Rightarrow> offload_bits \<times> ('e, unit) outcome" where
  "set_l3_len p val s =
     on_unit (\<lambda>u. s\<lparr>offload_unit := u\<rparr>) (unit_set p 7 9 (ucast val) (offload_unit s))"

definition l4_len :: "profile \<Rightarrow> offload_bits \<Rightarrow> ('e, u64) outcome" where
  "l4_len p s = unit_value (unit_get p (offload_unit s) 16 8)"

definition set_l4_len :: "profile \<Rightarrow> u64 \<Rightarrow> offload_bits \<Rightarrow> offload_bits \<times> ('e, unit) outcome" where
  "set_l4_len p val s =
     on_unit (\<lambda>u. s\<lparr>offload_unit := u\<rparr>) (unit_set p 16 8 (ucast val) (offload_unit s))"

definition tso_segsz :: "profile \<Rightarrow> offload_bits \<Rightarrow> ('e, u64) outcome" where
  "tso_segsz p s = unit_value (unit_get p (offload_unit s) 24 16)"

definition set_tso_segsz :: "profile \<Rightarrow> u64 \<Rightarrow> offload_bits \<Rightarrow> offload_bits \<times> ('e, unit) outcome" where
  "set_tso_segsz p val s =
     on_unit (\<lambda>u. s\<lparr>offload_unit := u\<rparr>) (unit_set p 24 16 (ucast val) (offload_unit s))"

definition outer_l3_len :: "profile \<Rightarrow> offload_bits \<Rightarrow> ('e, u64) outcome" where
  "outer_l3_len p s = unit_value (unit_get p (offload_unit s) 40 9)"

definition set_outer_l3_len :: "profile \<Rightarrow> u64 \<Rightarrow> offload_bits \<Rightarrow> offload_bits \<times> ('e, unit) outcome" where
  "set_outer_l3_len p val s =
     on_unit (\<lambda>u. s\<lparr>offload_unit := u\<rparr>) (unit_set p 40 9 (ucast val) (offload_unit s))"

definition outer_l2_len :: "profile \<Rightarrow> offload_bits \<Rightarrow> ('e, u64) outcome" where
  "outer_l2_len p s = unit_value (unit_get p (offload_unit s) 49 7)"

definition set_outer_l2_len :: "profile \<Rightarrow> u64 \<Rightarrow> offload_bits \<Rightarrow> offload_bits \<times> ('e, unit) outcome" where
  "set_outer_l2_len p val s =
     on_unit (\<lambda>u. s\<lparr>offload_unit := u\<rparr>) (unit_set p 49 7 (ucast val) (offload_unit s))"

definition new_offload_bitfield ::
  "profile \<Rightarrow> u64 \<Rightarrow> u64 \<Rightarrow> u64 \<Rightarrow> u64 \<Rightarrow> u64 \<Rightarrow> u64 \<Rightarrow> u8 list \<times> ('e, unit) outcome" where
  "new_offload_bitfield p l2 l3 l4 tso outer_l3 outer_l2 =
     set_all p [(0, 7, ucast l2), (7, 9, ucast l3), (16, 8, ucast l4), (24, 16, ucast tso), (40, 9, ucast outer_l3), (49, 7, ucast outer_l2)]
       (replicate 8 0)"

text \<open>
  The enumeration \<open>_bindgen_ty_14\<close> gives offset and width of each offload length: the pairs of
  \<open>RTE_MBUF_X_OFS\<close> and \<open>RTE_MBUF_X_BITS\<close>, in the order L2, L3, L4,
  TSO, OUTL3, OUTL2 and the unused bits.
\<close>

definition offload_ranges :: "(nat \<times> nat) list" where
  "offload_ranges = [(0, 7), (7, 9), (16, 8), (24, 16), (40, 9), (49, 7), (56, 8)]"

section \<open>Both views of a union\<close>

text \<open>The structs overlaid on the four bytes of \<open>packet_type\<close>: each unit at its slot.\<close>

definition ptype_view :: "u8 list \<Rightarrow> ptype_bits option" where
  "ptype_view bytes =
     (let t = ty_rte_mbuf__bindgen_ty_3; anon = ''__bindgen_anon_1'' in
      case (load_field t [anon, ''_bitfield_1''] bytes,
            load_field t [anon, anon, anon, ''_bitfield_1''] bytes,
            load_field t [anon, ''_bitfield_2''] bytes) of
        (Some u1, Some i, Some u2) \<Rightarrow>
          Some \<lparr>bitfield_1 = u1, inner_bitfield = i, bitfield_2 = u2\<rparr>
      | _ \<Rightarrow> None)"

lemma ptype_view_bytes:
  "ptype_view [a, b, c, d] = Some \<lparr>bitfield_1 = [a, b], inner_bitfield = [c], bitfield_2 = [d]\<rparr>"
  by (simp add: ptype_view_def load_field_def Let_def ty_rte_mbuf__bindgen_ty_3_def
      ty_rte_mbuf__bindgen_ty_3__bindgen_ty_1_def
      ty_rte_mbuf__bindgen_ty_3__bindgen_ty_1__bindgen_ty_1_def
      ty_rte_mbuf__bindgen_ty_3__bindgen_ty_1__bindgen_ty_1__bindgen_ty_1_def
      layout_eval layout_simps mem_read_def)

text \<open>A range of a unit that holds the bytes of a word from byte \<open>b\<close> on.\<close>

lemma unit_get_of_word:
  fixes x :: "'w::len word"
  assumes "storage_ok u" "unat w \<le> 64" "0 < unat w" "off + unat w \<le> 8 * length u"
    and "\<And>k. k < 8 * length u \<Longrightarrow> storage_bit u k = bit x (8 * b + k)" "LENGTH('w) \<le> 64"
  shows "unit_get p u off w = (Ok (take_bit (unat w) (drop_bit (8 * b + off) (ucast x))) :: ('e, u64) outcome)"
proof (rule unit_get_eq [OF assms(1-4)])
  fix j
  show "bit (take_bit (unat w) (drop_bit (8 * b + off) (ucast x :: u64))) j
      \<longleftrightarrow> j < unat w \<and> storage_bit u (off + j)"
  proof (cases "j < unat w")
    case True
    then have "off + j < 8 * length u" using assms(4) by linarith
    from assms(5) [OF this] show ?thesis using True assms(6) bit_imp_le_length [of x "8 * b + off + j"]
      by (auto simp: bit_take_bit_iff bit_drop_bit_eq bit_ucast_iff add.assoc)
  qed (simp add: bit_take_bit_iff)
qed

lemma storage_bits_split:
  assumes "w = (le_word bytes :: 'w::len word)" "8 * length bytes = LENGTH('w)"
    "u = take n (drop b bytes)" "b + n \<le> length bytes" "k < 8 * length u"
  shows "storage_bit u k = bit w (8 * b + k)"
proof -
  have "k div 8 < n" using assms(3-5) by (simp add: less_mult_imp_div_less mult.commute)
  then have "storage_bit u k = storage_bit bytes (8 * b + k)"
    using assms(3,4) by (simp add: storage_bit_def add.commute)
  then show ?thesis using assms by (simp add: bit_le_word)
qed

lemma mask_field:
  fixes w :: u32
  assumes "n + 4 \<le> 32" "4 \<le> LENGTH('a)"
  shows "(ucast (take_bit 4 (drop_bit n (ucast w :: u64))) :: 'a::len word)
    = ucast (drop_bit n (w AND push_bit n (mask 4)))"
proof (rule bit_word_eqI)
  fix j assume "j < LENGTH('a)"
  then show "bit (ucast (take_bit 4 (drop_bit n (ucast w :: u64))) :: 'a word) j
      = bit (ucast (drop_bit n (w AND push_bit n (mask 4))) :: 'a word) j"
    using assms bit_imp_le_length [of w "n + j"]
    by (auto simp: bit_ucast_iff bit_take_bit_iff bit_drop_bit_eq bit_and_iff bit_push_bit_iff bit_mask_iff)
qed

lemma ptype_masks:
  "RTE_PTYPE_L2_MASK = push_bit 0 (mask 4)" "RTE_PTYPE_L3_MASK = push_bit 4 (mask 4)"
  "RTE_PTYPE_L4_MASK = push_bit 8 (mask 4)" "RTE_PTYPE_TUNNEL_MASK = push_bit 12 (mask 4)"
  "RTE_PTYPE_INNER_L2_MASK = push_bit 16 (mask 4)" "RTE_PTYPE_INNER_L3_MASK = push_bit 20 (mask 4)"
  "RTE_PTYPE_INNER_L4_MASK = push_bit 24 (mask 4)"
  by (simp_all add: RTE_PTYPE_L2_MASK_def RTE_PTYPE_L3_MASK_def RTE_PTYPE_L4_MASK_def
      RTE_PTYPE_TUNNEL_MASK_def RTE_PTYPE_INNER_L2_MASK_def RTE_PTYPE_INNER_L3_MASK_def
      RTE_PTYPE_INNER_L4_MASK_def mask_eq_exp_minus_1)

lemma ptype_field:
  fixes w :: u32
  assumes "u = take n (drop b (le_bytes 4 w))" "b + n \<le> 4" "off + 4 \<le> 8 * n" "4 \<le> LENGTH('a)"
  shows "(unit_value (unit_get p u off 4) :: ('e, 'a::len word) outcome)
    = Ok (ucast (drop_bit (8 * b + off) (w AND push_bit (8 * b + off) (mask 4))))"
proof -
  have len: "length u = n" using assms(1,2) by simp
  have "unit_get p u off 4 = (Ok (take_bit (unat (4 :: u8)) (drop_bit (8 * b + off) (ucast w))) :: ('e, u64) outcome)"
  proof (rule unit_get_of_word)
    show "storage_ok u" using assms(2) len by (simp add: storage_ok_def usize_limit_def)
    show "storage_bit u k = bit w (8 * b + k)" if "k < 8 * length u" for k
      using assms(1,2) that by (intro storage_bits_split [of w "le_bytes 4 w" u n b])
        (simp_all add: le_word_le_bytes)
  qed (use assms(3) len in simp_all)
  then have get: "unit_get p u off 4 = (Ok (take_bit 4 (drop_bit (8 * b + off) (ucast w))) :: ('e, u64) outcome)"
    by simp
  have "8 * b + off + 4 \<le> 32" using assms(2,3) by linarith
  from mask_field [OF this assms(4), of w] show ?thesis by (simp add: unit_value_def get)
qed

text \<open>
  The seven bit fields of the packet type are the parts of the \<open>packet_type\<close> word that the
  \<open>RTE_PTYPE\<close> masks select, shifted down: code that uses the accessors and code that masks the
  word agree, in both profiles, for every word.
\<close>

lemma ptype_fields_are_masks:
  "\<exists>s. ptype_view (le_bytes 4 w) = Some s
    \<and> l2_type p s = (Ok (w AND RTE_PTYPE_L2_MASK) :: ('e, u32) outcome)
    \<and> l3_type p s = (Ok (drop_bit 4 (w AND RTE_PTYPE_L3_MASK)) :: ('e, u32) outcome)
    \<and> l4_type p s = (Ok (drop_bit 8 (w AND RTE_PTYPE_L4_MASK)) :: ('e, u32) outcome)
    \<and> tun_type p s = (Ok (drop_bit 12 (w AND RTE_PTYPE_TUNNEL_MASK)) :: ('e, u32) outcome)
    \<and> inner_l2_type p s = (Ok (ucast (drop_bit 16 (w AND RTE_PTYPE_INNER_L2_MASK))) :: ('e, u8) outcome)
    \<and> inner_l3_type p s = (Ok (ucast (drop_bit 20 (w AND RTE_PTYPE_INNER_L3_MASK))) :: ('e, u8) outcome)
    \<and> inner_l4_type p s = (Ok (drop_bit 24 (w AND RTE_PTYPE_INNER_L4_MASK)) :: ('e, u32) outcome)"
proof -
  obtain a b c d where bs: "le_bytes 4 w = [a, b, c, d]"
    by (simp add: le_bytes_def numeral_eq_Suc)
  let ?s = "\<lparr>bitfield_1 = [a, b], inner_bitfield = [c], bitfield_2 = [d]\<rparr>"
  have u: "[a, b] = take 2 (drop 0 (le_bytes 4 w))" "[c] = take 1 (drop 2 (le_bytes 4 w))"
    "[d] = take 1 (drop 3 (le_bytes 4 w))"
    by (simp_all add: bs)
  note f = ptype_field [OF u(1), where p = p and 'e = 'e] ptype_field [OF u(2), where p = p and 'e = 'e]
    ptype_field [OF u(3), where p = p and 'e = 'e]
  show ?thesis
    by (intro exI [of _ ?s])
       (simp add: bs ptype_view_bytes ptype_masks l2_type_def l3_type_def l4_type_def tun_type_def
         inner_l2_type_def inner_l3_type_def inner_l4_type_def f del: push_bit_mask_eq)
qed

section \<open>Building a unit\<close>

text \<open>Ranges of at most 64 bits in a unit of \<open>n\<close> bytes, one after the other.\<close>

fun ranges_ok :: "nat \<Rightarrow> nat \<Rightarrow> (usize \<times> u8 \<times> u64) list \<Rightarrow> bool" where
  "ranges_ok n from [] \<longleftrightarrow> True"
| "ranges_ok n from ((off, w, v) # rest) \<longleftrightarrow>
     from \<le> off \<and> 0 < unat w \<and> unat w \<le> 64 \<and> off + unat w \<le> 8 * n
     \<and> ranges_ok n (off + unat w) rest"

fun packed_bit :: "(usize \<times> u8 \<times> u64) list \<Rightarrow> nat \<Rightarrow> bool" where
  "packed_bit [] k = False"
| "packed_bit ((off, w, v) # rest) k =
     (if off \<le> k \<and> k < off + unat w then bit v (k - off) else packed_bit rest k)"

fun in_ranges :: "(usize \<times> u8 \<times> u64) list \<Rightarrow> nat \<Rightarrow> bool" where
  "in_ranges [] k = False"
| "in_ranges ((off, w, v) # rest) k \<longleftrightarrow> (off \<le> k \<and> k < off + unat w) \<or> in_ranges rest k"

lemma before_ranges: "ranges_ok n from rs \<Longrightarrow> k < from \<Longrightarrow> \<not> in_ranges rs k"
proof (induction n "from" rs rule: ranges_ok.induct)
  case (2 n "from" off w v rest)
  then have "k < off" "\<not> in_ranges rest k" by auto
  then show ?case by simp
qed simp

lemma set_all_spec:
  assumes "ranges_ok (length u) from rs" "storage_ok u"
  shows "\<exists>u'. set_all p rs u = (u', (Ok () :: ('e, unit) outcome)) \<and> length u' = length u
    \<and> (\<forall>k < 8 * length u. storage_bit u' k \<longleftrightarrow>
         (if in_ranges rs k then packed_bit rs k
          else storage_bit u k))"
  using assms
proof (induction rs arbitrary: u "from")
  case (Cons r rs)
  obtain off w v where r: "r = (off, w, v)" by (cases r)
  have ok: "0 < unat w" "unat w \<le> 64" "off + unat w \<le> 8 * length u"
    "ranges_ok (length u) (off + unat w) rs"
    using Cons.prems r by auto
  obtain u1 where u1: "unit_set p off w v u = (u1, (Ok () :: ('e, unit) outcome))" "length u1 = length u"
    "\<forall>k < 8 * length u. storage_bit u1 k =
       (if off \<le> k \<and> k < off + unat w then bit v (k - off) else storage_bit u k)"
    using unit_set_in [OF Cons.prems(2) ok(2,1,3)] by metis
  have "storage_ok u1" using Cons.prems(2) u1(2) by (simp add: storage_ok_def)
  from Cons.IH [of u1, OF _ this] ok(4) u1(2) obtain u2 where
    u2: "set_all p rs u1 = (u2, (Ok () :: ('e, unit) outcome))" "length u2 = length u1"
      "\<forall>k < 8 * length u1. storage_bit u2 k \<longleftrightarrow>
         (if in_ranges rs k then packed_bit rs k
          else storage_bit u1 k)"
    by metis
  have "set_all p (r # rs) u = (u2, (Ok () :: ('e, unit) outcome))" by (simp add: r u1(1) u2(1))
  moreover have "storage_bit u2 k \<longleftrightarrow>
      (if in_ranges (r # rs) k then packed_bit (r # rs) k else storage_bit u k)"
    if k: "k < 8 * length u" for k
  proof (cases "off \<le> k \<and> k < off + unat w")
    case True
    then have "\<not> in_ranges rs k" using before_ranges [OF ok(4)] by simp
    then show ?thesis using True k u1(2,3) u2(3) by (simp add: r)
  next
    case False
    then show ?thesis using k u1(2,3) u2(3) by (auto simp: r)
  qed
  ultimately show ?case using u1(2) u2(2) by (intro exI [of _ u2]) simp
qed simp

text \<open>
  \<open>new_bitfield_1\<close> of the offload lengths packs its six values at the offsets and widths the
  enumeration of the C header gives them, each cut to its width; read as the \<open>tx_offload\<close> word
  that is their sum, and every accessor gives its own value back.
\<close>

lemma offload_fields_packed:
  "\<exists>u. new_offload_bitfield p a b c d e f = (u, (Ok () :: ('e, unit) outcome))
    \<and> (le_word u :: u64) = foldr (\<lambda>((off, w), v) x. push_bit off (take_bit w v) OR x)
         (zip offload_ranges [a, b, c, d, e, f]) 0
    \<and> l2_len p \<lparr>offload_unit = u\<rparr> = (Ok (take_bit 7 a) :: ('e, u64) outcome)
    \<and> l3_len p \<lparr>offload_unit = u\<rparr> = (Ok (take_bit 9 b) :: ('e, u64) outcome)
    \<and> l4_len p \<lparr>offload_unit = u\<rparr> = (Ok (take_bit 8 c) :: ('e, u64) outcome)
    \<and> tso_segsz p \<lparr>offload_unit = u\<rparr> = (Ok (take_bit 16 d) :: ('e, u64) outcome)
    \<and> outer_l3_len p \<lparr>offload_unit = u\<rparr> = (Ok (take_bit 9 e) :: ('e, u64) outcome)
    \<and> outer_l2_len p \<lparr>offload_unit = u\<rparr> = (Ok (take_bit 7 f) :: ('e, u64) outcome)"
proof -
  let ?rs = "[(0, 7, a), (7, 9, b), (16, 8, c), (24, 16, d), (40, 9, e), (49, 7, f)]"
  have ok: "storage_ok (replicate 8 0)" by (simp add: storage_ok_def usize_limit_def)
  have ranges: "ranges_ok (length (replicate 8 (0 :: u8))) 0 ?rs" by simp
  obtain u where u: "set_all p ?rs (replicate 8 0) = (u, (Ok () :: ('e, unit) outcome))" "length u = 8"
    "\<forall>k < 64. storage_bit u k \<longleftrightarrow> (if in_ranges ?rs k
       then packed_bit ?rs k else storage_bit (replicate 8 0) k)"
    using set_all_spec [OF ranges ok, of p, where 'e = 'e] unfolding length_replicate by auto
  have zero: "\<not> storage_bit (replicate 8 0) k" if "k < 64" for k
    using that by (simp add: storage_bit_def)
  have bits: "storage_bit u k \<longleftrightarrow> packed_bit ?rs k" if "k < 64" for k
    using that u(3) zero [OF that] by auto
  have su: "storage_ok u" using u(2) by (simp add: storage_ok_def usize_limit_def)
  have get: "unit_get p u off w = (Ok (take_bit (unat w) v) :: ('e, u64) outcome)"
    if "(off, w, v) \<in> set ?rs" for off w v
  proof (rule unit_get_eq [OF su])
    show "bit (take_bit (unat w) v) j \<longleftrightarrow> j < unat w \<and> storage_bit u (off + j)" for j
      using that bits [of "off + j"] by (auto simp: bit_take_bit_iff)
  qed (use that u(2) in auto)
  have "(le_word u :: u64) = foldr (\<lambda>((off, w), v) x. push_bit off (take_bit w v) OR x)
      (zip offload_ranges [a, b, c, d, e, f]) 0"
  proof (rule bit_word_eqI)
    fix k :: nat assume k: "k < LENGTH(64)"
    then show "bit (le_word u :: u64) k = bit (foldr (\<lambda>((off, w), v) x. push_bit off (take_bit w v) OR x)
        (zip offload_ranges [a, b, c, d, e, f]) 0) k"
      using bits [of k] u(2)
      by (auto simp: bit_le_word offload_ranges_def bit_or_iff bit_push_bit_iff bit_take_bit_iff)
  qed
  moreover have "new_offload_bitfield p a b c d e f = (u, (Ok () :: ('e, unit) outcome))"
    using u(1) by (simp add: new_offload_bitfield_def)
  ultimately show ?thesis
    using get [of 0 7 a] get [of 7 9 b] get [of 16 8 c] get [of 24 16 d] get [of 40 9 e] get [of 49 7 f]
    by (intro exI [of _ u])
       (simp add: l2_len_def l3_len_def l4_len_def tso_segsz_def outer_l3_len_def outer_l2_len_def
         unit_value_def)
qed

end
