(* ===== verification/Mbuf_Image.thy ===== *)
theory Mbuf_Image
  imports Memory_Image Bound_Types Mbuf
begin

text \<open>
  Message buffers one level down: the struct \<open>rte_mbuf\<close> as the 128 bytes of its C layout, and
  the resizing operations of \<open>engine/src/dpdk/mbuf.rs\<close> as loads and stores at the slots of its
  fields. \<open>abs_mbuf\<close> reads a record of theory \<open>Mbuf\<close> out of the bytes.

  The operations refine those of theory \<open>Mbuf\<close>, so that everything proved there holds of the
  memory, and they change no byte of the struct outside \<open>data_len\<close> and \<open>pkt_len\<close>.
\<close>

section \<open>The memory of a buffer\<close>

record mbuf_memory =
  struct_bytes :: "u8 list"
  region_bytes :: "u8 list"

text \<open>An access to a field of the struct; there is no struct behind too short a memory.\<close>

definition load :: "string \<Rightarrow> mbuf_memory \<Rightarrow> ('e, 'w::len word) outcome" where
  "load f s =
     (case load_field ty_rte_mbuf [f] (struct_bytes s) of
        None \<Rightarrow> UB
      | Some bs \<Rightarrow> Ok (le_word bs))"

definition store :: "string \<Rightarrow> 'w::len word \<Rightarrow> mbuf_memory \<Rightarrow> ('e, mbuf_memory) outcome" where
  "store f w s =
     (case store_field ty_rte_mbuf [f] (le_bytes (LENGTH('w) div 8) w) (struct_bytes s) of
        None \<Rightarrow> UB
      | Some bs \<Rightarrow> Ok (s\<lparr>struct_bytes := bs\<rparr>))"

section \<open>The operations\<close>

definition data_len_at :: "mbuf_memory \<Rightarrow> ('e, usize) outcome" where
  "data_len_at s = and_then (load ''data_len'' s) (\<lambda>n. Ok (unat (n :: u16)))"

definition data_address_at :: "profile \<Rightarrow> usize \<Rightarrow> mbuf_memory \<Rightarrow> ('e, nat) outcome" where
  "data_address_at p offset s =
     and_then (load ''data_off'' s) (\<lambda>off :: u16.
       let pos = int (unat off) + as_isize offset
       in if pos \<ge> 2 ^ 63
          then (case p of Dev \<Rightarrow> Panic ArithOverflow | Release \<Rightarrow> UB)
          else if 0 \<le> pos \<and> pos \<le> int (length (region_bytes s)) then Ok (nat pos) else UB)"

definition tailroom_at :: "profile \<Rightarrow> mbuf_memory \<Rightarrow> ('e, usize) outcome" where
  "tailroom_at p s =
     and_then (load ''buf_len'' s) (\<lambda>len :: u16.
     and_then (load ''data_off'' s) (\<lambda>off.
     and_then (word_sub p len off) (\<lambda>r.
     and_then (load ''data_len'' s) (\<lambda>dl.
     and_then (word_sub p r dl) (\<lambda>r'. Ok (unat r'))))))"

definition copy_at :: "nat \<Rightarrow> nat \<Rightarrow> nat \<Rightarrow> mbuf_memory \<Rightarrow> ('e, mbuf_memory) outcome" where
  "copy_at src dst n s =
     (case mem_move (region_bytes s) src dst n of
        None \<Rightarrow> UB
      | Some mem \<Rightarrow> Ok (s\<lparr>region_bytes := mem\<rparr>))"

definition shift_down_at ::
  "profile \<Rightarrow> usize \<Rightarrow> usize \<Rightarrow> usize \<Rightarrow> mbuf_memory \<Rightarrow> ('e, mbuf_memory) outcome" where
  "shift_down_at p offset len to_copy s =
     (if 0 < to_copy
      then and_then (data_address_at p offset s) (\<lambda>src.
           and_then (usize_add p offset len) (\<lambda>off'.
           and_then (data_address_at p off' s) (\<lambda>dst.
             copy_at src dst to_copy s)))
      else Ok s)"

definition shift_up_at ::
  "profile \<Rightarrow> usize \<Rightarrow> usize \<Rightarrow> usize \<Rightarrow> mbuf_memory \<Rightarrow> ('e, mbuf_memory) outcome" where
  "shift_up_at p offset len to_copy s =
     (if 0 < to_copy
      then and_then (usize_add p offset len) (\<lambda>off'.
           and_then (data_address_at p off' s) (\<lambda>src.
           and_then (data_address_at p offset s) (\<lambda>dst.
             copy_at src dst to_copy s)))
      else Ok s)"

text \<open>\<open>raw_mut().f += x\<close> and \<open>raw_mut().f -= x\<close>: a load, the arithmetic, a store.\<close>

definition update_at ::
  "string \<Rightarrow> ('w::len word \<Rightarrow> (buffer_error, 'w word) outcome) \<Rightarrow> mbuf_memory \<Rightarrow>
   (mbuf_memory \<Rightarrow> mbuf_memory \<times> (buffer_error, 'r) outcome) \<Rightarrow>
   mbuf_memory \<times> (buffer_error, 'r) outcome" where
  "update_at f g s k =
     with_ok s (load f s) (\<lambda>w. with_ok s (g w) (\<lambda>w'. with_ok s (store f w' s) k))"

definition extend_at ::
  "profile \<Rightarrow> usize \<Rightarrow> usize \<Rightarrow> mbuf_memory \<Rightarrow> mbuf_memory \<times> (buffer_error, unit) outcome" where
  "extend_at p offset len s =
     ensure (0 < len) (s, Err NotResized) (
     with_ok s (data_len_at s) (\<lambda>dl.
     ensure (offset \<le> dl) (s, Err NotResized) (
     with_ok s (tailroom_at p s) (\<lambda>room.
     ensure (len < room) (s, Err NotResized) (
     with_ok s (data_len_at s) (\<lambda>dl.
     with_ok s (usize_sub p dl offset) (\<lambda>to_copy.
     with_ok s (shift_down_at p offset len to_copy s) (\<lambda>s1.
     update_at ''data_len'' (\<lambda>w :: u16. word_add p w (of_nat len)) s1 (\<lambda>s2.
     update_at ''pkt_len'' (\<lambda>w :: u32. word_add p w (of_nat len)) s2 (\<lambda>s3.
       (s3, Ok ())))))))))))"

definition shrink_at ::
  "profile \<Rightarrow> usize \<Rightarrow> usize \<Rightarrow> mbuf_memory \<Rightarrow> mbuf_memory \<times> (buffer_error, unit) outcome" where
  "shrink_at p offset len s =
     ensure (0 < len) (s, Err NotResized) (
     with_ok s (usize_add p offset len) (\<lambda>end.
     with_ok s (data_len_at s) (\<lambda>dl.
     ensure (end \<le> dl) (s, Err NotResized) (
     with_ok s (data_len_at s) (\<lambda>dl.
     with_ok s (usize_sub p dl offset) (\<lambda>r.
     with_ok s (usize_sub p r len) (\<lambda>to_copy.
     with_ok s (shift_up_at p offset len to_copy s) (\<lambda>s1.
     update_at ''data_len'' (\<lambda>w :: u16. word_sub p w (of_nat len)) s1 (\<lambda>s2.
     update_at ''pkt_len'' (\<lambda>w :: u32. word_sub p w (of_nat len)) s2 (\<lambda>s3.
       (s3, Ok ())))))))))))"

definition truncate_at :: "usize \<Rightarrow> mbuf_memory \<Rightarrow> mbuf_memory \<times> (buffer_error, unit) outcome" where
  "truncate_at to_len s =
     with_ok s (data_len_at s) (\<lambda>dl.
     ensure (to_len < dl) (s, Err NotResized) (
     with_ok s (store ''data_len'' (of_nat to_len :: u16) s) (\<lambda>s1.
     with_ok s1 (store ''pkt_len'' (of_nat to_len :: u32) s1) (\<lambda>s2. (s2, Ok ())))))"

section \<open>The abstraction\<close>

definition memory_ok :: "mbuf_memory \<Rightarrow> bool" where
  "memory_ok s \<longleftrightarrow> length (struct_bytes s) = c_size ty_rte_mbuf"

definition field_word :: "string \<Rightarrow> mbuf_memory \<Rightarrow> 'w::len word" where
  "field_word f s =
     (case load_field ty_rte_mbuf [f] (struct_bytes s) of None \<Rightarrow> 0 | Some bs \<Rightarrow> le_word bs)"

definition abs_mbuf :: "mbuf_memory \<Rightarrow> rte_mbuf" where
  "abs_mbuf s =
     \<lparr>buf_mem = region_bytes s, buf_len = field_word ''buf_len'' s,
      data_off = field_word ''data_off'' s, raw_data_len = field_word ''data_len'' s,
      pkt_len = field_word ''pkt_len'' s, mbuf_pool = unat (field_word ''pool'' s :: u64)\<rparr>"

lemma abs_mbuf_simps [simp]:
  "buf_mem (abs_mbuf s) = region_bytes s" "buf_len (abs_mbuf s) = field_word ''buf_len'' s"
  "data_off (abs_mbuf s) = field_word ''data_off'' s"
  "raw_data_len (abs_mbuf s) = field_word ''data_len'' s"
  "pkt_len (abs_mbuf s) = field_word ''pkt_len'' s"
  by (simp_all add: abs_mbuf_def)

text \<open>The slots of the fields the operations use.\<close>

lemma mbuf_slots:
  "slot_at ty_rte_mbuf [''buf_len''] = Some (54, U16)"
  "slot_at ty_rte_mbuf [''data_off''] = Some (16, U16)"
  "slot_at ty_rte_mbuf [''data_len''] = Some (40, U16)"
  "slot_at ty_rte_mbuf [''pkt_len''] = Some (36, U32)"
  "slot_at ty_rte_mbuf [''pool''] = Some (72, Pointer)"
  by (simp_all add: ty_rte_mbuf_def layout_eval layout_simps)

definition put :: "string \<Rightarrow> 'w::len word \<Rightarrow> mbuf_memory \<Rightarrow> mbuf_memory" where
  "put f w s = s\<lparr>struct_bytes :=
     the (store_field ty_rte_mbuf [f] (le_bytes (LENGTH('w) div 8) w) (struct_bytes s))\<rparr>"

text \<open>What the operations leave alone: every place of the struct apart from the two lengths.\<close>

definition kept :: "mbuf_memory \<Rightarrow> mbuf_memory \<Rightarrow> bool" where
  "kept s s' \<longleftrightarrow> length (region_bytes s') = length (region_bytes s) \<and>
     (\<forall>q. slots_apart ty_rte_mbuf [''data_len''] q \<and> slots_apart ty_rte_mbuf [''pkt_len''] q \<longrightarrow>
        load_field ty_rte_mbuf q (struct_bytes s') = load_field ty_rte_mbuf q (struct_bytes s))"

lemma load_ok:
  "memory_ok s \<Longrightarrow> f \<in> {''buf_len'', ''data_off'', ''data_len'', ''pkt_len'', ''pool''} \<Longrightarrow>
   load f s = (Ok (field_word f s) :: ('e, 'w::len word) outcome)"
  by (auto simp: load_def field_word_def load_field_def mbuf_slots mem_read_def memory_ok_def
      layout_simps simp del: slot_at.simps)

lemma put_apart:
  assumes "store_field ty_rte_mbuf [f] (le_bytes (LENGTH('w) div 8) (w :: 'w::len word)) (struct_bytes s) \<noteq> None"
    "slots_apart ty_rte_mbuf [f] q"
  shows "load_field ty_rte_mbuf q (struct_bytes (put f w s)) = load_field ty_rte_mbuf q (struct_bytes s)"
  using assms by (auto simp: put_def intro: load_store_apart)

lemma store_length:
  fixes w :: u16 and v :: u32
  assumes "memory_ok s"
  shows "store ''data_len'' w s = (Ok (put ''data_len'' w s) :: ('e, mbuf_memory) outcome)"
    "store ''pkt_len'' v s = (Ok (put ''pkt_len'' v s) :: ('e, mbuf_memory) outcome)"
    "memory_ok (put ''data_len'' w s)" "memory_ok (put ''pkt_len'' v s)"
    "abs_mbuf (put ''data_len'' w s) = abs_mbuf s\<lparr>raw_data_len := w\<rparr>"
    "abs_mbuf (put ''pkt_len'' v s) = abs_mbuf s\<lparr>rte_mbuf.pkt_len := v\<rparr>"
    "kept s (put ''data_len'' w s)" "kept s (put ''pkt_len'' v s)"
proof -
  obtain b1 where b1: "store_field ty_rte_mbuf [''data_len''] (le_bytes 2 w) (struct_bytes s) = Some b1"
    using assms by (auto simp: store_field_def mbuf_slots mem_write_def memory_ok_def layout_simps
        simp del: slot_at.simps)
  obtain b2 where b2: "store_field ty_rte_mbuf [''pkt_len''] (le_bytes 4 v) (struct_bytes s) = Some b2"
    using assms by (auto simp: store_field_def mbuf_slots mem_write_def memory_ok_def layout_simps
        simp del: slot_at.simps)
  show "store ''data_len'' w s = (Ok (put ''data_len'' w s) :: ('e, mbuf_memory) outcome)"
    "store ''pkt_len'' v s = (Ok (put ''pkt_len'' v s) :: ('e, mbuf_memory) outcome)"
    by (simp_all add: store_def put_def b1 b2)
  show "memory_ok (put ''data_len'' w s)" "memory_ok (put ''pkt_len'' v s)"
    using assms store_field_length [OF b1] store_field_length [OF b2]
    by (simp_all add: memory_ok_def put_def b1 b2)
  have ap: "slots_apart ty_rte_mbuf [''data_len''] [f]"
    if "f \<in> {''buf_len'', ''data_off'', ''pkt_len'', ''pool''}" for f
    using that by (auto simp: slots_apart_def mbuf_slots simp del: slot_at.simps)
  have ap': "slots_apart ty_rte_mbuf [''pkt_len''] [f]"
    if "f \<in> {''buf_len'', ''data_off'', ''data_len'', ''pool''}" for f
    using that by (auto simp: slots_apart_def mbuf_slots simp del: slot_at.simps)
  have f1: "load_field ty_rte_mbuf q b1 = load_field ty_rte_mbuf q (struct_bytes s)"
    if "slots_apart ty_rte_mbuf [''data_len''] q" for q
    by (rule load_store_apart [OF b1 that])
  have f2: "load_field ty_rte_mbuf q b2 = load_field ty_rte_mbuf q (struct_bytes s)"
    if "slots_apart ty_rte_mbuf [''pkt_len''] q" for q
    by (rule load_store_apart [OF b2 that])
  show "abs_mbuf (put ''data_len'' w s) = abs_mbuf s\<lparr>raw_data_len := w\<rparr>"
    by (simp add: abs_mbuf_def field_word_def put_def b1 f1 ap load_store_same [OF b1] le_word_le_bytes)
  show "abs_mbuf (put ''pkt_len'' v s) = abs_mbuf s\<lparr>rte_mbuf.pkt_len := v\<rparr>"
    by (simp add: abs_mbuf_def field_word_def put_def b2 f2 ap' load_store_same [OF b2] le_word_le_bytes)
  show "kept s (put ''data_len'' w s)" "kept s (put ''pkt_len'' v s)"
    by (simp_all add: kept_def put_def b1 b2 f1 f2)
qed

lemma kept_trans: "kept s s' \<Longrightarrow> kept s' s'' \<Longrightarrow> kept s s''"
  by (auto simp: kept_def)

lemma kept_refl [simp]: "kept s s"
  by (simp add: kept_def)

lemma region_update:
  "memory_ok (s\<lparr>region_bytes := m\<rparr>) = memory_ok s"
  "abs_mbuf (s\<lparr>region_bytes := m\<rparr>) = abs_mbuf s\<lparr>buf_mem := m\<rparr>"
  "kept s (s\<lparr>region_bytes := m\<rparr>) \<longleftrightarrow> length m = length (region_bytes s)"
  by (simp_all add: memory_ok_def abs_mbuf_def field_word_def kept_def)

section \<open>Refinement\<close>

lemma and_then_assoc: "and_then (and_then r f) g = and_then r (\<lambda>x. and_then (f x) g)"
  by (cases r) simp_all

lemma with_ok_and_then: "with_ok s (and_then r g) f = with_ok s r (\<lambda>x. with_ok s (g x) f)"
  by (cases r) simp_all

lemma reads_refine:
  assumes "memory_ok s"
  shows "data_len_at s = (Ok (data_len (abs_mbuf s)) :: ('e, usize) outcome)"
    "data_address_at p offset s = (data_address p offset (abs_mbuf s) :: ('e, nat) outcome)"
    "tailroom_at p s = (tailroom p (abs_mbuf s) :: ('e, usize) outcome)"
  using assms
  by (simp_all add: data_len_at_def data_address_at_def tailroom_at_def load_ok data_len_def
      data_address_def tailroom_def Let_def)

lemma copy_refine:
  "copy_at src dst n s
    = and_then (ptr_copy src dst n (abs_mbuf s)) (\<lambda>m. Ok (s\<lparr>region_bytes := buf_mem m\<rparr>))"
  by (auto simp: copy_at_def ptr_copy_def split: option.split)

lemma shift_down_refine:
  assumes "memory_ok s"
  shows "shift_down_at p offset len n s = (and_then (shift_down p offset len n (abs_mbuf s))
    (\<lambda>m. Ok (s\<lparr>region_bytes := buf_mem m\<rparr>)) :: ('e, mbuf_memory) outcome)"
  by (simp add: shift_down_at_def shift_down_def reads_refine [OF assms] copy_refine and_then_assoc)

lemma shift_up_refine:
  assumes "memory_ok s"
  shows "shift_up_at p offset len n s = (and_then (shift_up p offset len n (abs_mbuf s))
    (\<lambda>m. Ok (s\<lparr>region_bytes := buf_mem m\<rparr>)) :: ('e, mbuf_memory) outcome)"
  by (simp add: shift_up_at_def shift_up_def reads_refine [OF assms] copy_refine and_then_assoc)

lemma ptr_copy_only_memory:
  "ptr_copy src dst n m = Ok m' \<Longrightarrow> m' = m\<lparr>buf_mem := buf_mem m'\<rparr> \<and> length (buf_mem m') = length (buf_mem m)"
  by (auto simp: ptr_copy_def dest: mem_move_length split: option.splits)

lemma shift_only_memory:
  "shift_down p offset len n m = Ok m' \<Longrightarrow> m' = m\<lparr>buf_mem := buf_mem m'\<rparr> \<and> length (buf_mem m') = length (buf_mem m)"
  "shift_up p offset len n m = Ok m' \<Longrightarrow> m' = m\<lparr>buf_mem := buf_mem m'\<rparr> \<and> length (buf_mem m') = length (buf_mem m)"
  by (auto simp: shift_down_def shift_up_def and_then_Ok_iff dest: ptr_copy_only_memory split: if_splits)

text \<open>
  The relation between a step on the memory and one on the record: the same outcome, the
  record of the new memory, and nothing but the two lengths and the region changed.
\<close>

definition refines ::
  "mbuf_memory \<Rightarrow> mbuf_memory \<times> (buffer_error, 'r) outcome \<Rightarrow> rte_mbuf \<times> (buffer_error, 'r) outcome \<Rightarrow> bool" where
  "refines s c a \<longleftrightarrow> memory_ok (fst c) \<and> kept s (fst c) \<and> abs_mbuf (fst c) = fst a \<and> snd c = snd a"

lemma refines_done: "memory_ok s' \<Longrightarrow> kept s s' \<Longrightarrow> refines s (s', r) (abs_mbuf s', r)"
  by (simp add: refines_def)

lemma refines_with_ok:
  "memory_ok s' \<Longrightarrow> kept s s' \<Longrightarrow> (\<And>x. r = Ok x \<Longrightarrow> refines s (f x) (g x)) \<Longrightarrow>
   refines s (with_ok s' r f) (with_ok (abs_mbuf s') r g)"
  by (cases r) (auto simp: refines_def)

lemma refines_data_len:
  assumes "memory_ok s'" "kept s s'"
    and "\<And>w s''. memory_ok s'' \<Longrightarrow> kept s s'' \<Longrightarrow> abs_mbuf s'' = abs_mbuf s'\<lparr>raw_data_len := w\<rparr> \<Longrightarrow>
      refines s (f s'') (h w)"
  shows "refines s (update_at ''data_len'' g s' f) (with_ok (abs_mbuf s') (g (raw_data_len (abs_mbuf s'))) h)"
proof -
  note st = store_length [OF assms(1)]
  have "update_at ''data_len'' g s' f
      = with_ok s' (g (raw_data_len (abs_mbuf s'))) (\<lambda>w. f (put ''data_len'' w s'))"
    by (simp add: update_at_def load_ok [OF assms(1)] st(1))
  then show ?thesis
    using assms(3) [OF st(3) kept_trans [OF assms(2) st(7)] st(5)]
    by (simp only: refines_with_ok [OF assms(1,2)])
qed

lemma refines_pkt_len:
  assumes "memory_ok s'" "kept s s'"
    and "\<And>w s''. memory_ok s'' \<Longrightarrow> kept s s'' \<Longrightarrow> abs_mbuf s'' = abs_mbuf s'\<lparr>rte_mbuf.pkt_len := w\<rparr> \<Longrightarrow>
      refines s (f s'') (h w)"
  shows "refines s (update_at ''pkt_len'' g s' f) (with_ok (abs_mbuf s') (g (pkt_len (abs_mbuf s'))) h)"
proof -
  note st = store_length [OF assms(1)]
  have "update_at ''pkt_len'' g s' f
      = with_ok s' (g (pkt_len (abs_mbuf s'))) (\<lambda>w. f (put ''pkt_len'' w s'))"
    by (simp add: update_at_def load_ok [OF assms(1)] st(2))
  then show ?thesis
    using assms(3) [OF st(4) kept_trans [OF assms(2) st(8)] st(6)]
    by (simp only: refines_with_ok [OF assms(1,2)])
qed

text \<open>The two lengths after a move: the same arithmetic on both levels.\<close>

lemma lengths_refine:
  assumes "memory_ok s1" "kept s s1"
  shows "refines s
      (update_at ''data_len'' g s1 (\<lambda>s2. update_at ''pkt_len'' h s2 (\<lambda>s3. (s3, Ok ()))))
      (with_ok (abs_mbuf s1) (g (raw_data_len (abs_mbuf s1))) (\<lambda>dl.
         with_ok (abs_mbuf s1\<lparr>raw_data_len := dl\<rparr>) (h (pkt_len (abs_mbuf s1\<lparr>raw_data_len := dl\<rparr>)))
           (\<lambda>pl. (abs_mbuf s1\<lparr>raw_data_len := dl, pkt_len := pl\<rparr>, Ok ()))))"
proof (rule refines_data_len [OF assms])
  fix w s2
  assume s2: "memory_ok s2" "kept s s2" and a2: "abs_mbuf s2 = abs_mbuf s1\<lparr>raw_data_len := w\<rparr>"
  show "refines s (update_at ''pkt_len'' h s2 (\<lambda>s3. (s3, Ok ())))
      (with_ok (abs_mbuf s1\<lparr>raw_data_len := w\<rparr>) (h (pkt_len (abs_mbuf s1\<lparr>raw_data_len := w\<rparr>)))
        (\<lambda>pl. (abs_mbuf s1\<lparr>raw_data_len := w, pkt_len := pl\<rparr>, Ok ())))"
    unfolding a2 [symmetric] by (rule refines_pkt_len [OF s2]) (simp add: refines_def)
qed

lemma after_shift:
  assumes "memory_ok s" "m = abs_mbuf s\<lparr>buf_mem := buf_mem m\<rparr> \<and> length (buf_mem m) = length (buf_mem (abs_mbuf s))"
  shows "memory_ok (s\<lparr>region_bytes := buf_mem m\<rparr>)" "kept s (s\<lparr>region_bytes := buf_mem m\<rparr>)"
    "abs_mbuf (s\<lparr>region_bytes := buf_mem m\<rparr>) = m"
  using assms by (simp_all add: region_update)

lemma extend_refines:
  assumes "memory_ok s"
  shows "refines s (extend_at p offset len s) (Mbuf.extend p offset len (abs_mbuf s))"
proof -
  note ok = assms kept_refl [of s]
  have tail: "refines s
      (update_at ''data_len'' (\<lambda>w :: u16. word_add p w (of_nat len)) (s\<lparr>region_bytes := buf_mem m\<rparr>) (\<lambda>s2.
         update_at ''pkt_len'' (\<lambda>w :: u32. word_add p w (of_nat len)) s2 (\<lambda>s3. (s3, Ok ()))))
      (with_ok m (word_add p (raw_data_len m) (of_nat len)) (\<lambda>dl.
         with_ok (m\<lparr>raw_data_len := dl\<rparr>) (word_add p (pkt_len m) (of_nat len))
           (\<lambda>pl. (m\<lparr>raw_data_len := dl, pkt_len := pl\<rparr>, Ok ()))))"
    if "shift_down p offset len n (abs_mbuf s) = (Ok m :: (buffer_error, rte_mbuf) outcome)" for n m
  proof -
    note sh = after_shift [OF assms shift_only_memory(1) [OF that]]
    show ?thesis using lengths_refine [OF sh(1,2)] unfolding sh(3) by simp
  qed
  show ?thesis
    unfolding extend_at_def Mbuf.extend_def reads_refine [OF assms] shift_down_refine [OF assms]
      with_ok_and_then with_ok.simps Let_def
    by (auto intro!: refines_with_ok [OF ok] refines_done [OF ok] tail)
qed

lemma shrink_refines:
  assumes "memory_ok s"
  shows "refines s (shrink_at p offset len s) (shrink p offset len (abs_mbuf s))"
proof -
  note ok = assms kept_refl [of s]
  have tail: "refines s
      (update_at ''data_len'' (\<lambda>w :: u16. word_sub p w (of_nat len)) (s\<lparr>region_bytes := buf_mem m\<rparr>) (\<lambda>s2.
         update_at ''pkt_len'' (\<lambda>w :: u32. word_sub p w (of_nat len)) s2 (\<lambda>s3. (s3, Ok ()))))
      (with_ok m (word_sub p (raw_data_len m) (of_nat len)) (\<lambda>dl.
         with_ok (m\<lparr>raw_data_len := dl\<rparr>) (word_sub p (pkt_len m) (of_nat len))
           (\<lambda>pl. (m\<lparr>raw_data_len := dl, pkt_len := pl\<rparr>, Ok ()))))"
    if "shift_up p offset len n (abs_mbuf s) = (Ok m :: (buffer_error, rte_mbuf) outcome)" for n m
  proof -
    note sh = after_shift [OF assms shift_only_memory(2) [OF that]]
    show ?thesis using lengths_refine [OF sh(1,2)] unfolding sh(3) by simp
  qed
  show ?thesis
    unfolding shrink_at_def shrink_def reads_refine [OF assms] shift_up_refine [OF assms]
      with_ok_and_then with_ok.simps Let_def
    by (auto intro!: refines_with_ok [OF ok] refines_done [OF ok] tail)
qed

lemma truncate_refines:
  assumes "memory_ok s"
  shows "refines s (truncate_at to_len s) (Mbuf.truncate to_len (abs_mbuf s))"
proof -
  note st = store_length(1,3,5,7) [OF assms, where w = "of_nat to_len"]
  note st2 = store_length(2,4,6,8) [OF st(2), where v = "of_nat to_len"]
  show ?thesis
    using assms st2(2) kept_trans [OF st(4) st2(4)]
    by (simp add: truncate_at_def Mbuf.truncate_def reads_refine [OF assms] refines_def
        st(1,3) st2(1,3))
qed

text \<open>
  C13: On every memory that holds a struct, \<open>extend\<close>, \<open>shrink\<close> and \<open>truncate\<close>, run as loads and
  stores at the slots of the C layout, do what they do to the record read out of it, errors,
  panics and undefined behaviour included; they change no field of the struct but \<open>data_len\<close>
  and \<open>pkt_len\<close> (and no byte shared with another field), and keep the size of the region.
\<close>

theorem mbuf_memory_refines:
  assumes "memory_ok s"
  shows "map_prod abs_mbuf id (extend_at p offset len s) = Mbuf.extend p offset len (abs_mbuf s)
    \<and> map_prod abs_mbuf id (shrink_at p offset len s) = shrink p offset len (abs_mbuf s)
    \<and> map_prod abs_mbuf id (truncate_at to_len s) = Mbuf.truncate to_len (abs_mbuf s)
    \<and> (\<forall>s' \<in> {fst (extend_at p offset len s), fst (shrink_at p offset len s), fst (truncate_at to_len s)}.
      memory_ok s' \<and> length (region_bytes s') = length (region_bytes s)
      \<and> (\<forall>q. slots_apart ty_rte_mbuf [''data_len''] q \<and> slots_apart ty_rte_mbuf [''pkt_len''] q \<longrightarrow>
           load_field ty_rte_mbuf q (struct_bytes s') = load_field ty_rte_mbuf q (struct_bytes s)))"
  using extend_refines [OF assms, of p offset len] shrink_refines [OF assms, of p offset len]
    truncate_refines [OF assms, of to_len]
  by (auto simp: refines_def kept_def prod_eq_iff)

text \<open>A buffer of 64 bytes with a packet of six at offset four.\<close>

definition sample_memory :: mbuf_memory where
  "sample_memory =
     \<lparr>struct_bytes = replicate 16 0 @ [4, 0] @ replicate 18 0 @ [6, 0, 0, 0, 6, 0]
        @ replicate 12 0 @ [64, 0] @ replicate 72 0,
      region_bytes = replicate 64 7\<rparr>"

lemma sample_memory_ok: "memory_ok sample_memory"
  by (simp add: memory_ok_def sample_memory_def layout_simps)

lemma sample_memory_fields:
  "abs_mbuf sample_memory = \<lparr>buf_mem = replicate 64 7, buf_len = 64, data_off = 4, raw_data_len = 6,
     pkt_len = 6, mbuf_pool = 0\<rparr>"
  by (simp add: abs_mbuf_def sample_memory_def field_word_def load_field_def mbuf_slots mem_read_def
      le_word_zeros del: slot_at.simps)

theorem mbuf_memory_refines_witness:
  "map_prod abs_mbuf id (extend_at Dev 2 8 sample_memory) = Mbuf.extend Dev 2 8 (abs_mbuf sample_memory)
    \<and> snd (truncate_at 5 sample_memory) = Ok ()
    \<and> field_word ''data_len'' (fst (truncate_at 5 sample_memory)) = (5 :: u16)"
proof -
  note ref = mbuf_memory_refines [OF sample_memory_ok]
  have "map_prod abs_mbuf id (truncate_at 5 sample_memory)
      = (abs_mbuf sample_memory\<lparr>raw_data_len := 5, pkt_len := 5\<rparr>, Ok ())"
    unfolding ref [THEN conjunct2, THEN conjunct2, THEN conjunct1] by (simp add: Mbuf.truncate_def data_len_def sample_memory_fields)
  then have "abs_mbuf (fst (truncate_at 5 sample_memory)) = abs_mbuf sample_memory\<lparr>raw_data_len := 5, pkt_len := 5\<rparr>"
    "snd (truncate_at 5 sample_memory) = Ok ()"
    by (simp_all add: prod_eq_iff)
  then show ?thesis using conjunct1 [OF ref] abs_mbuf_simps(4) [of "fst (truncate_at 5 sample_memory)"] by simp
qed

end
