(* ===== verification/Memzone.thy ===== *)
theory Memzone
  imports Dpdk
begin

text \<open>
  Reserved memory, \<open>engine/src/dpdk/memzone.rs\<close> (a file \<open>dpdk/mod.rs\<close> does not declare):
  creation, name and release of a zone. \<open>rte_memzone_reserve\<close> and \<open>rte_memzone_free\<close> are
  arguments that act on the state of the memory.
\<close>

text \<open>The fields of \<open>rte_memzone\<close> the code reads.\<close>

record rte_memzone =
  zone_name :: string
  zone_len :: u64
  zone_hugepage_sz :: u64
  zone_flags :: u32
  zone_socket_id :: c_int

definition NO_ZONE_FLAGS :: u32 where
  "NO_ZONE_FLAGS = 0"

text \<open>\<open>Memzone::new\<close> gives the pointer to the zone; a pointer to \<open>const\<close> is null or not.\<close>

definition memzone_new ::
  "(string \<Rightarrow> u64 \<Rightarrow> c_int \<Rightarrow> u32 \<Rightarrow> 's \<Rightarrow> ptr \<times> 's) \<Rightarrow> dpdk_errno \<Rightarrow> string \<Rightarrow> usize \<Rightarrow> socket_id \<Rightarrow> 's \<Rightarrow>
   's \<times> (failure, ptr) outcome" where
  "memzone_new reserve err name capacity sid s =
     with_ok s (to_cstring name) (\<lambda>cname.
       case reserve cname (of_nat capacity) (socket_raw sid) NO_ZONE_FLAGS s of
         (r, s') \<Rightarrow> (s', to_result_const r (\<lambda>_. DpdkFailure (dpdk_error_new err))))"

text \<open>\<open>Memzone::name\<close>: the C string in the \<open>name\<close> array.\<close>

definition memzone_name :: "rte_memzone \<Rightarrow> ('e, string) outcome" where
  "memzone_name zone = as_str (zone_name zone)"

definition memzone_drop :: "(ptr \<Rightarrow> 's \<Rightarrow> 's) \<Rightarrow> ptr \<Rightarrow> 's \<Rightarrow> 's" where
  "memzone_drop free zone s = free zone s"

text \<open>
  A zone is reserved once and released once: if \<open>new\<close> succeeds, the pointer is the non-null one
  the library gave, and if it fails with an error nothing is held, whatever the library does.
\<close>

lemma memzone_new_spec:
  assumes "NUL \<notin> set name"
  shows "memzone_new reserve err name capacity sid s =
    (let (r, s') = reserve (name @ [NUL]) (of_nat capacity) (socket_raw sid) 0 s in
     (s', if r = 0 then Err (DpdkFailure (dpdk_error_new err)) else Ok r))"
  using assms by (auto simp: memzone_new_def to_cstring_def to_result_const_def NO_ZONE_FLAGS_def split_beta)

end
