(* ===== verification/Core_Map.thy ===== *)
theory Core_Map
  imports Mempool Mbuf "HOL-Library.Multiset"
begin

text \<open>
  The work-stealing core map of \<open>engine/src/runtime/coremap_old.rs\<close>, which \<open>runtime/mod.rs\<close>
  does not declare: the choice of a batch of packets to transmit, the start of an executor
  and the builder of the map. The queues are those of the package \<open>crossbeam_deque\<close>; their
  operations are a record of functions on a state that holds all queues, and the locale
  \<open>work_stealing\<close> states what the package documents of them.
\<close>

section \<open>The queues\<close>

text \<open>
  \<open>dq_len\<close>, \<open>dq_push\<close> and \<open>dq_pop\<close> work on the local worker. \<open>steal_batch\<close> moves tasks of the
  global injector to it, \<open>steal\<close> takes one task through a stealer; \<open>None\<close> stands for
  \<open>Empty\<close> and \<open>Retry\<close>.
\<close>

record ('p, 'st, 's) deque_ops =
  dq_len :: "'s \<Rightarrow> nat"
  dq_push :: "'p \<Rightarrow> 's \<Rightarrow> 's"
  dq_pop :: "'s \<Rightarrow> 'p option \<times> 's"
  steal_batch :: "'s \<Rightarrow> 's"
  steal :: "'st \<Rightarrow> 's \<Rightarrow> 'p option \<times> 's"

section \<open>A batch to transmit\<close>

fun steal_each :: "('p, 'st, 's) deque_ops \<Rightarrow> 'st list \<Rightarrow> 's \<Rightarrow> 's" where
  "steal_each ops [] s = s"
| "steal_each ops (st # sts) s =
     (case steal ops st s of
        (Some p, s') \<Rightarrow> steal_each ops sts (dq_push ops p s')
      | (None, s') \<Rightarrow> steal_each ops sts s')"

fun pop_batch :: "('p, 'st, 's) deque_ops \<Rightarrow> nat \<Rightarrow> 'p list \<Rightarrow> 's \<Rightarrow> 'p list \<times> 's" where
  "pop_batch ops 0 pkts s = (pkts, s)"
| "pop_batch ops (Suc n) pkts s =
     (case dq_pop ops s of
        (Some p, s') \<Rightarrow> pop_batch ops n (pkts @ [p]) s'
      | (None, s') \<Rightarrow> (pkts, s'))"

definition find_packets_batch_to_transmit ::
  "('p, 'st, 's) deque_ops \<Rightarrow> 'st list \<Rightarrow> 's \<Rightarrow> 'p list \<times> 's" where
  "find_packets_batch_to_transmit ops stealers s =
     (let s1 = (if dq_len ops s < 32 then steal_batch ops s else s);
          empty = (dq_len ops s1 = 0);
          batch_size = (if \<not> empty \<and> 32 < dq_len ops s1 then dq_len ops s1 else 32);
          s2 = (if dq_len ops s1 < 32 then steal_each ops stealers s1 else s1)
      in pop_batch ops batch_size [] s2)"

text \<open>
  The documented behaviour: \<open>locals\<close> are the tasks of the local worker, first in first out, and
  \<open>others\<close> those of the injector and the other workers together. A stealer may belong to
  the local worker itself.
\<close>

locale work_stealing =
  fixes ops :: "('p, 'st, 's) deque_ops" and locals :: "'s \<Rightarrow> 'p list" and others :: "'s \<Rightarrow> 'p multiset"
  assumes len: "dq_len ops s = length (locals s)"
    and push: "locals (dq_push ops p s) = locals s @ [p]" "others (dq_push ops p s) = others s"
    and pop: "dq_pop ops s = (r, s') \<Longrightarrow>
      others s' = others s \<and>
      (case locals s of [] \<Rightarrow> r = None \<and> locals s' = [] | x # xs \<Rightarrow> r = Some x \<and> locals s' = xs)"
    and batch: "\<exists>xs. locals (steal_batch ops s) = locals s @ xs \<and> others s = mset xs + others (steal_batch ops s)"
    and steal_Some: "steal ops st s = (Some p, s') \<Longrightarrow>
      (locals s' = locals s \<and> others s = {#p#} + others s') \<or> (locals s = p # locals s' \<and> others s' = others s)"
    and steal_None: "steal ops st s = (None, s') \<Longrightarrow> locals s' = locals s \<and> others s' = others s"
begin

lemma batch_conserves:
  "mset (locals (steal_batch ops s)) + others (steal_batch ops s) = mset (locals s) + others s"
  using batch [of s] by auto

lemma steal_each_conserves:
  "mset (locals (steal_each ops sts s)) + others (steal_each ops sts s) = mset (locals s) + others s"
proof (induction sts arbitrary: s)
  case (Cons st sts)
  show ?case
  proof (cases "steal ops st s")
    case (Pair r s')
    show ?thesis
    proof (cases r)
      case None
      then show ?thesis using Cons Pair steal_None by simp
    next
      case (Some p)
      with Pair have "mset (locals (dq_push ops p s')) + others (dq_push ops p s') = mset (locals s) + others s"
        using steal_Some [of st s p s'] by (auto simp: push)
      then show ?thesis using Cons [of "dq_push ops p s'"] Pair Some by simp
    qed
  qed
qed simp

lemma pop_batch_takes:
  "\<exists>s'. pop_batch ops n pkts s = (pkts @ take n (locals s), s') \<and> locals s' = drop n (locals s) \<and> others s' = others s"
proof (induction n arbitrary: pkts s)
  case (Suc n)
  obtain r s' where rs: "dq_pop ops s = (r, s')" by (cases "dq_pop ops s")
  note p = pop [OF rs]
  show ?case
  proof (cases "locals s")
    case Nil
    then show ?thesis using p rs by simp
  next
    case (Cons x xs)
    then have "r = Some x" "locals s' = xs" "others s' = others s" using p by auto
    then show ?thesis using Suc.IH [of "pkts @ [x]" s'] Cons rs by simp
  qed
qed simp

end

text \<open>A model of the queues as lists: the injector moves its first half, at most 32 tasks.\<close>

record 'p list_deques =
  worker_queue :: "'p list"
  injector_queue :: "'p list"
  worker_queues :: "'p list list"

definition list_deques :: "('p, nat, 'p list_deques) deque_ops" where
  "list_deques =
     \<lparr>dq_len = (\<lambda>s. length (worker_queue s)),
      dq_push = (\<lambda>p s. s\<lparr>worker_queue := worker_queue s @ [p]\<rparr>),
      dq_pop = (\<lambda>s. case worker_queue s of [] \<Rightarrow> (None, s) | x # xs \<Rightarrow> (Some x, s\<lparr>worker_queue := xs\<rparr>)),
      steal_batch = (\<lambda>s. let n = min 32 ((length (injector_queue s) + 1) div 2) in
        s\<lparr>worker_queue := worker_queue s @ take n (injector_queue s), injector_queue := drop n (injector_queue s)\<rparr>),
      steal = (\<lambda>i s. if i < length (worker_queues s)
        then case worker_queues s ! i of
               [] \<Rightarrow> (None, s)
             | x # xs \<Rightarrow> (Some x, s\<lparr>worker_queues := (worker_queues s)[i := xs]\<rparr>)
        else (None, s))\<rparr>"

lemma mset_concat_update:
  "i < length qs \<Longrightarrow> qs ! i = x # xs \<Longrightarrow> mset (concat qs) = {#x#} + mset (concat (qs[i := xs]))"
proof (induction qs arbitrary: i)
  case (Cons q qs)
  then show ?case by (cases i) auto
qed simp

interpretation list_deques: work_stealing list_deques worker_queue
  "\<lambda>s. mset (injector_queue s) + mset (concat (worker_queues s))"
proof (unfold_locales, goal_cases)
  case (5 s)
  let ?n = "min 32 ((length (injector_queue s) + 1) div 2)"
  have "mset (injector_queue s) = mset (take ?n (injector_queue s)) + mset (drop ?n (injector_queue s))"
    by (metis append_take_drop_id mset_append)
  then show ?case by (auto simp: list_deques_def Let_def intro!: exI [of _ "take ?n (injector_queue s)"])
next
  case (6 st s p s')
  then show ?case using mset_concat_update [of st "worker_queues s"]
    by (auto simp: list_deques_def split: if_splits list.splits)
qed (auto simp: list_deques_def split: if_splits list.splits)

section \<open>Creating queues\<close>

text \<open>
  The constructors of the queues change the state of the allocator. The stealer of a new
  worker goes to the end of the global \<open>STEALERS\<close>.
\<close>

definition create_global_tx_q :: "('s \<Rightarrow> 'q \<times> 's) \<Rightarrow> 's \<Rightarrow> 'q \<times> 's" where
  "create_global_tx_q injector_new s = injector_new s"

definition create_and_add_stealer ::
  "('s \<Rightarrow> 'w \<times> 's) \<Rightarrow> ('w \<Rightarrow> 'st) \<Rightarrow> 'st list \<Rightarrow> 's \<Rightarrow> 'w \<times> 'st list \<times> 's" where
  "create_and_add_stealer new_fifo stealer_of stealers s =
     (let (worker, s') = new_fifo s; st = stealer_of worker
      in (worker, stealers @ [st], s'))"

section \<open>Executors\<close>

datatype worker_type = RX_Worker | TX_Worker

datatype executor_type = Master | Worker worker_type

text \<open>
  An executor names its thread by number and its task pool by the thread-local static that
  holds it: the key is the same in every thread, one for masters and one for workers.
\<close>

datatype task_pool_key = Master_Pool | Worker_Pool

record executor =
  ex_builder :: nat
  ex_core :: core_id
  ex_worker :: task_pool_key
  ex_type :: executor_type

text \<open>The errors of the map: they are declared, but nothing constructs them.\<close>

datatype core_error = CoreNotFound core_id | CoreNotAssigned core_id

text \<open>
  What a spawned thread does, in order; it ends after the last of these events. The process
  keeps the events of every thread it has spawned, and the environment of the C functions.
\<close>

datatype thread_event = Bound_To core_id | Set_Mempool ptr | Sent executor

record 's process =
  threads :: "thread_event list list"
  proc_env :: 's

text \<open>
  \<open>init_core\<close>: the new thread binds itself to the core (\<open>unwrap\<close>), a master before and a worker
  after it has set its pool, and sends the executor back. If it panics, the sender is dropped
  and the \<open>unwrap\<close> of \<open>recv\<close> panics in the caller. \<open>affinity\<close> is \<open>set_thread_affinity\<close> run on the
  new thread.
\<close>

definition init_core ::
  "(core_id \<Rightarrow> 's \<Rightarrow> 's \<times> (dpdk_error, unit) outcome) \<Rightarrow> core_id \<Rightarrow> ptr \<Rightarrow> executor_type \<Rightarrow> 's process \<Rightarrow>
   's process \<times> (failure, executor) outcome" where
  "init_core affinity core mempool ex s =
     (let (env, bound) = affinity core (proc_env s);
          t = length (threads s);
          exec = \<lparr>ex_builder = t, ex_core = core,
                  ex_worker = (case ex of Master \<Rightarrow> Master_Pool | Worker T \<Rightarrow> Worker_Pool), ex_type = ex\<rparr>;
          before = (case ex of Master \<Rightarrow> [] | Worker T \<Rightarrow> [Set_Mempool mempool]);
          after = (case ex of Master \<Rightarrow> [Set_Mempool mempool] | Worker T \<Rightarrow> [])
      in case bound of
           Ok _ \<Rightarrow> (s\<lparr>threads := threads s @ [before @ [Bound_To core] @ after @ [Sent exec]], proc_env := env\<rparr>,
                    Ok exec)
         | UB \<Rightarrow> (s\<lparr>threads := threads s @ [before], proc_env := env\<rparr>, UB)
         | _ \<Rightarrow> (s\<lparr>threads := threads s @ [before], proc_env := env\<rparr>, Panic UnwrapFailed))"

text \<open>
  The caller gets an executor exactly if the new thread could bind itself, and then it is the
  last thing the thread has sent. A worker whose binding fails has set its pool all the same.
\<close>

lemma init_core_spec:
  assumes "init_core affinity core mempool ex s = (s', r)"
  shows "\<exists>events. threads s' = threads s @ [events] \<and>
    (case r of
       Ok exec \<Rightarrow> ex_core exec = core \<and> ex_type exec = ex \<and> ex_builder exec = length (threads s)
         \<and> last events = Sent exec \<and> set events = {Bound_To core, Set_Mempool mempool, Sent exec}
     | Err _ \<Rightarrow> False
     | _ \<Rightarrow> set events = (case ex of Master \<Rightarrow> {} | Worker T \<Rightarrow> {Set_Mempool mempool}))"
  using assms
  by (cases "affinity core (proc_env s)"; cases "snd (affinity core (proc_env s))"; cases ex)
    (auto simp: init_core_def Let_def)

text \<open>The start of the program's main loop prints a line.\<close>

definition main_loop :: "string list" where
  "main_loop = [''Main loop placeholder'']"

section \<open>The builder\<close>

record core_map =
  cm_cores :: "core_id \<rightharpoonup> executor"

text \<open>The set of cores is the list of its elements in the order in which it is iterated.\<close>

record core_map_builder =
  cmb_cores :: "core_id list"
  cmb_master :: core_id
  cmb_mempools :: mempool_map

definition cmb_set_cores :: "core_id list \<Rightarrow> core_map_builder \<Rightarrow> core_map_builder" where
  "cmb_set_cores cores b = b\<lparr>cmb_cores := remdups cores\<rparr>"

definition cmb_set_master :: "core_id \<Rightarrow> core_map_builder \<Rightarrow> core_map_builder" where
  "cmb_set_master core b = b\<lparr>cmb_master := core\<rparr>"

definition cmb_set_mempools :: "mempool list \<Rightarrow> core_map_builder \<Rightarrow> core_map_builder" where
  "cmb_set_mempools pools b = b\<lparr>cmb_mempools := mempool_map_new pools\<rparr>"

text \<open>The loop over the other cores only looks their pool up; the call that would start an
  executor on them is commented out.\<close>

fun find_pools ::
  "(c_int \<Rightarrow> c_int) \<Rightarrow> mempool_map \<Rightarrow> core_id list \<Rightarrow> (failure, unit) outcome" where
  "find_pools numa_node mempools [] = Ok ()"
| "find_pools numa_node mempools (core # cores) =
     and_then (get_raw mempools (core_socket_id numa_node core)) (\<lambda>_. find_pools numa_node mempools cores)"

definition core_map_finish ::
  "(c_int \<Rightarrow> c_int) \<Rightarrow> (core_id \<Rightarrow> 's \<Rightarrow> 's \<times> (dpdk_error, unit) outcome) \<Rightarrow> core_map_builder \<Rightarrow>
   's process \<Rightarrow> (core_map_builder \<times> 's process) \<times> (failure, core_map) outcome" where
  "core_map_finish numa_node affinity b s =
     with_ok (b, s) (get_raw (cmb_mempools b) (core_socket_id numa_node (cmb_master b))) (\<lambda>mempool.
       case init_core affinity (cmb_master b) mempool Master s of
         (s1, Ok ex) \<Rightarrow>
           (let map0 = Map.empty(cmb_master b \<mapsto> ex);
                b1 = b\<lparr>cmb_cores := removeAll (cmb_master b) (cmb_cores b)\<rparr>
            in with_ok (b1, s1) (find_pools numa_node (cmb_mempools b1) (cmb_cores b1)) (\<lambda>_.
                 ((b1, s1), Ok \<lparr>cm_cores = map0\<rparr>)))
       | (s1, Err _) \<Rightarrow> ((b, s1), Panic UnwrapFailed)
       | (s1, Panic k) \<Rightarrow> ((b, s1), Panic k)
       | (s1, UB) \<Rightarrow> ((b, s1), UB))"

text \<open>
  \<open>finish\<close> succeeds exactly if the pool of every core is known and the master thread could be
  bound, and then the map holds the master core alone: the other cores get no executor.
\<close>

lemma core_map_finish_master_only:
  assumes "core_map_finish numa_node affinity b s = ((b', s'), Ok m)"
  shows "\<exists>events exec. threads s' = threads s @ [events] \<and> last events = Sent exec
      \<and> ex_core exec = cmb_master b \<and> ex_type exec = Master \<and> cm_cores m = [cmb_master b \<mapsto> exec]"
    and "find_pools numa_node (cmb_mempools b) (removeAll (cmb_master b) (cmb_cores b)) = Ok ()"
proof -
  obtain pool where pool: "get_raw (cmb_mempools b) (core_socket_id numa_node (cmb_master b)) = Ok pool"
    using assms
    by (cases "get_raw (cmb_mempools b) (core_socket_id numa_node (cmb_master b))")
      (simp_all add: core_map_finish_def)
  obtain s1 r where init: "init_core affinity (cmb_master b) pool Master s = (s1, r)"
    by (cases "init_core affinity (cmb_master b) pool Master s")
  then obtain exec where "r = Ok exec" "s1 = s'"
    and fin: "cm_cores m = [cmb_master b \<mapsto> exec]"
      "find_pools numa_node (cmb_mempools b) (removeAll (cmb_master b) (cmb_cores b)) = Ok ()"
    using assms pool
    by (cases r; cases "find_pools numa_node (cmb_mempools b) (removeAll (cmb_master b) (cmb_cores b))")
      (auto simp: core_map_finish_def Let_def)
  with init_core_spec [OF init] fin
  show "\<exists>events exec. threads s' = threads s @ [events] \<and> last events = Sent exec
      \<and> ex_core exec = cmb_master b \<and> ex_type exec = Master \<and> cm_cores m = [cmb_master b \<mapsto> exec]"
    and "find_pools numa_node (cmb_mempools b) (removeAll (cmb_master b) (cmb_cores b)) = Ok ()"
    by auto
qed

section \<open>Properties\<close>

text \<open>
  C35: A batch loses and invents no packet: together, batch, local queue and the queues of the
  others hold what they held before. If more than 32 packets are in the local queue (after
  the attempt to fill it from the injector), the batch is the whole queue, however long;
  otherwise it has at most 32 packets, and less than 32 only if the local queue is empty
  afterwards.
\<close>

theorem find_packets_batch:
  assumes "work_stealing ops locals others"
  shows "case find_packets_batch_to_transmit ops stealers s of (pkts, s') \<Rightarrow>
    mset pkts + mset (locals s') + others s' = mset (locals s) + others s
    \<and> (let queued = locals (if dq_len ops s < 32 then steal_batch ops s else s) in
        if 32 < length queued then pkts = queued \<and> locals s' = []
        else length pkts \<le> 32 \<and> (length pkts < 32 \<longrightarrow> locals s' = []))"
proof -
  note len = work_stealing.len [OF assms]
  define s1 where "s1 = (if dq_len ops s < 32 then steal_batch ops s else s)"
  define s2 where "s2 = (if dq_len ops s1 < 32 then steal_each ops stealers s1 else s1)"
  define n where "n = (if 32 < dq_len ops s1 then dq_len ops s1 else 32)"
  have c1: "mset (locals s1) + others s1 = mset (locals s) + others s"
    using work_stealing.batch_conserves [OF assms, of s] by (simp add: s1_def)
  have c2: "mset (locals s2) + others s2 = mset (locals s1) + others s1"
    using work_stealing.steal_each_conserves [OF assms, of stealers s1] by (simp add: s2_def)
  obtain s' where s': "pop_batch ops n [] s2 = (take n (locals s2), s')"
    "locals s' = drop n (locals s2)" "others s' = others s2"
    using work_stealing.pop_batch_takes [OF assms, of n "[]" s2] by auto
  have find: "find_packets_batch_to_transmit ops stealers s = (take n (locals s2), s')"
    using s'(1) by (auto simp: find_packets_batch_to_transmit_def s1_def s2_def n_def Let_def)
  have "mset (take n (locals s2)) + mset (locals s') + others s' = mset (locals s) + others s"
    using c1 c2 s'(2,3) by (metis append_take_drop_id mset_append)
  moreover have "s2 = s1" "n = length (locals s1)" if "32 < length (locals s1)"
    using that by (simp_all add: s2_def n_def len)
  moreover have "n = 32" if "\<not> 32 < length (locals s1)" using that by (simp add: n_def len)
  ultimately show ?thesis unfolding find s1_def [symmetric] using s'(2) by (auto simp: Let_def)
qed

theorem find_packets_batch_witness:
  "case find_packets_batch_to_transmit list_deques [0]
      \<lparr>worker_queue = [1, 2 :: nat], injector_queue = [3], worker_queues = [[4, 5]]\<rparr> of (pkts, s') \<Rightarrow>
    mset pkts + mset (worker_queue s') + (mset (injector_queue s') + mset (concat (worker_queues s')))
      = {#1, 2, 3, 4, 5#}"
  using find_packets_batch [OF list_deques.work_stealing_axioms, where stealers = "[0]"
      and s = "\<lparr>worker_queue = [1, 2 :: nat], injector_queue = [3], worker_queues = [[4, 5]]\<rparr>"]
  by (auto simp: add.commute add.left_commute)

end
