(* ===== verification/Debug_Text.thy ===== *)
theory Debug_Text
  imports Config Mempool Mbuf Mem_Ring Port Memzone
begin

text \<open>
  The \<open>Debug\<close> output of the engine's types, in the one-line format \<open>{:?}\<close>: identifiers
  (\<open>dpdk/mod.rs\<close>, \<open>port.rs\<close>), buffers, pools, rings, zones and ports, and the settings of
  \<open>config.rs\<close>. The formatting helpers are those of the standard library. Strings are read as
  ASCII; a byte of a longer character is printed as it is.
\<close>

section \<open>Formatting\<close>

text \<open>\<open>{:?}\<close> of a \<open>str\<close>: quotes around it, the escapes of \<open>char::escape_debug\<close>.\<close>

definition debug_char :: "char \<Rightarrow> string" where
  "debug_char c =
     (let n = of_char c :: nat in
      if n = 0 then [CHR 0x5C, CHR ''0'']
      else if n = 9 then [CHR 0x5C, CHR ''t'']
      else if n = 10 then [CHR 0x5C, CHR ''n'']
      else if n = 13 then [CHR 0x5C, CHR ''r'']
      else if n = 34 \<or> n = 92 then [CHR 0x5C, c]
      else if n < 32 \<or> n = 127
      then [CHR 0x5C, CHR ''u'', CHR ''{''] @ map digit_char (digits_of 16 n) @ ''}''
      else [c])"

definition debug_str :: "string \<Rightarrow> string" where
  "debug_str s = CHR 0x22 # concat (map debug_char s) @ [CHR 0x22]"

definition debug_bool :: "bool \<Rightarrow> string" where
  "debug_bool b = (if b then ''true'' else ''false'')"

definition debug_int :: "c_int \<Rightarrow> string" where
  "debug_int i = (if sint i < 0 then CHR ''-'' # dec_string (nat (- sint i)) else dec_string (nat (sint i)))"

text \<open>\<open>{:#x}\<close>.\<close>

definition debug_hex :: "nat \<Rightarrow> string" where
  "debug_hex n = ''0x'' @ map digit_char (digits_of 16 n)"

definition debug_list :: "('a \<Rightarrow> string) \<Rightarrow> 'a list \<Rightarrow> string" where
  "debug_list show xs = ''['' @ join '', '' (map show xs) @ '']''"

text \<open>\<open>debug_struct(name)\<close> with its fields, up to \<open>finish\<close>.\<close>

definition debug_struct :: "string \<Rightarrow> (string \<times> string) list \<Rightarrow> string" where
  "debug_struct name fs =
     (if fs = [] then name
      else name @ '' { '' @ join '', '' (map (\<lambda>(f, v). f @ '': '' @ v) fs) @ '' }'')"

section \<open>Identifiers\<close>

definition debug_socket_id :: "socket_id \<Rightarrow> string" where
  "debug_socket_id s = ''socket'' @ debug_int (socket_raw s)"

definition debug_core_id :: "core_id \<Rightarrow> string" where
  "debug_core_id c = ''core'' @ dec_string (core_raw c)"

definition debug_port_id :: "port_id \<Rightarrow> string" where
  "debug_port_id p = ''port'' @ dec_string (unat (port_raw p))"

section \<open>DPDK objects\<close>

text \<open>\<open>buf_addr\<close> is the address of the buffer's memory, printed by \<open>{:p}\<close>.\<close>

definition debug_mbuf :: "ptr \<Rightarrow> rte_mbuf \<Rightarrow> string" where
  "debug_mbuf buf_addr m =
     debug_struct (''mbuf@'' @ debug_hex buf_addr)
       [(''buf_len'', dec_string (unat (buf_len m))), (''pkt_len'', dec_string (unat (pkt_len m))),
        (''data_len'', dec_string (unat (raw_data_len m))), (''data_off'', dec_string (unat (data_off m)))]"

definition debug_mempool :: "mempool \<Rightarrow> ('e, string) outcome" where
  "debug_mempool pool =
     (let raw = mempool_raw pool in
      and_then (mempool_name pool) (\<lambda>name.
        Ok (debug_struct name
          [(''capacity'', dec_string (unat (pool_size raw))),
           (''cache size'', dec_string (unat (pool_cache_size raw))),
           (''flags'', debug_hex (unat (pool_flags raw))),
           (''socket'', debug_int (pool_socket_id raw))])))"

text \<open>Capacity and flags come from the struct behind the ring's pointer.\<close>

definition debug_ring :: "u32 \<Rightarrow> u32 \<Rightarrow> ring \<Rightarrow> string" where
  "debug_ring capacity flags r =
     debug_struct (ring_name r)
       [(''capacity'', dec_string (unat capacity)), (''flags'', debug_hex (unat flags))]"

definition debug_memzone :: "rte_memzone \<Rightarrow> ('e, string) outcome" where
  "debug_memzone zone =
     and_then (memzone_name zone) (\<lambda>name.
       Ok (debug_struct name
         [(''capacity'', dec_string (unat (zone_len zone))),
          (''hugepage_size'', dec_string (unat (zone_hugepage_sz zone))),
          (''flags'', debug_hex (unat (zone_flags zone))),
          (''socket'', debug_int (zone_socket_id zone))]))"

definition debug_port ::
  "(u16 \<Rightarrow> octets6 option) \<Rightarrow> (u16 \<Rightarrow> c_int) \<Rightarrow> socket_id list \<Rightarrow> port \<Rightarrow> ('e, string) outcome" where
  "debug_port macaddr_get dev_socket_id sockets p =
     (let info = port_dev_info p in
      and_then (as_str (driver_name info)) (\<lambda>driver.
        Ok (debug_struct (port_name p)
          [(''device'', debug_str (port_device p)),
           (''port'', dec_string (unat (port_raw (port_self p)))),
           (''mac'', [CHR 0x22] @ mac_to_string (port_mac_addr macaddr_get p) @ [CHR 0x22]),
           (''driver'', debug_str driver),
           (''rx_offload'', debug_hex (unat (rx_offload_capa info))),
           (''tx_offload'', debug_hex (unat (tx_offload_capa info))),
           (''max_rxq'', dec_string (unat (max_rx_queues info))),
           (''max_txq'', dec_string (unat (max_tx_queues info))),
           (''socket'', debug_int (case port_socket_id dev_socket_id sockets (port_self p) of
              None \<Rightarrow> - 1 | Some s \<Rightarrow> socket_raw s))])))"

section \<open>Settings\<close>

definition debug_mempool_config :: "mempool_config \<Rightarrow> string" where
  "debug_mempool_config c =
     debug_struct ''mempool''
       [(''capacity'', dec_string (mp_capacity c)), (''cache_size'', dec_string (mp_cache_size c))]"

definition optional_field :: "string \<Rightarrow> ('a \<Rightarrow> string) \<Rightarrow> 'a option \<Rightarrow> (string \<times> string) list" where
  "optional_field f show v = (case v of None \<Rightarrow> [] | Some x \<Rightarrow> [(f, show x)])"

definition debug_port_config :: "port_config \<Rightarrow> string" where
  "debug_port_config c =
     debug_struct ''port''
       ([(''name'', debug_str (pc_name c)), (''device'', debug_str (pc_device c))]
        @ optional_field ''args'' debug_str (pc_args c)
        @ [(''cores'', debug_list debug_core_id (pc_cores c)), (''rxd'', dec_string (pc_rxd c)),
           (''txd'', dec_string (pc_txd c)), (''promiscuous'', debug_bool (pc_promiscuous c)),
           (''multicast'', debug_bool (pc_multicast c)), (''kni'', debug_bool (pc_kni c))])"

text \<open>A \<open>Duration\<close> of whole seconds prints as their number and \<open>s\<close>.\<close>

definition debug_runtime_config :: "runtime_config \<Rightarrow> string" where
  "debug_runtime_config c =
     debug_struct ''runtime''
       ([(''app_name'', debug_str (app_name c)), (''secondary'', debug_bool (secondary c)),
         (''app_group'', debug_str (case app_group c of Some g \<Rightarrow> g | None \<Rightarrow> app_name c)),
         (''master_core'', debug_core_id (master_core c)),
         (''cores'', debug_list debug_core_id (rc_cores c)),
         (''mempool'', debug_mempool_config (rc_mempool c)),
         (''ports'', debug_list debug_port_config (rc_ports c))]
        @ optional_field ''dpdk_args'' debug_str (dpdk_args c)
        @ optional_field ''duration'' (\<lambda>d. dec_string (unat d) @ ''s'') (duration c))"

section \<open>Lemmas\<close>

text \<open>Identifiers print apart.\<close>

lemma dec_string_inject: "dec_string a = dec_string b \<longleftrightarrow> a = b"
proof
  assume eq: "dec_string a = dec_string b"
  have "from_str_radix 10 (Suc (a + b)) (dec_string a) = Some a"
    "from_str_radix 10 (Suc (a + b)) (dec_string b) = Some b"
    by (rule from_str_radix_dec_string, simp)+
  then show "a = b" unfolding eq by (simp only: option.inject)
qed simp

lemma debug_core_id_inject: "debug_core_id a = debug_core_id b \<longleftrightarrow> a = b"
  by (cases a; cases b) (simp add: debug_core_id_def dec_string_inject)

lemma debug_port_id_inject: "debug_port_id a = debug_port_id b \<longleftrightarrow> port_raw a = port_raw b"
  by (simp add: debug_port_id_def dec_string_inject word_unat_eq_iff)

end
