(* ===== verification/Ownership.thy ===== *)
theory Ownership
  imports Port Mem_Ring "HOL-Library.Multiset"
begin

text \<open>
  The message buffers of the whole program: who owns which one. The operations of \<open>dpdk/mbuf.rs\<close>,
  \<open>dpdk/port.rs\<close> and \<open>dpdk/memring.rs\<close> pass them between the pool, the device, the rings and the
  \<open>Mbuf\<close> values of the Rust code. \<open>packet_reach\<close> runs these operations in any order; its states carry the
  \<open>Mbuf\<close> values that exist and, as a record of the past, the buffers no one can reach any more.
\<close>

section \<open>State\<close>

record 's packet_ffi =
  pf_ring :: "'s ring_ffi"
  pf_errno :: dpdk_errno
  pf_free :: "ptr \<Rightarrow> 's \<Rightarrow> 's"
  pf_alloc :: "ptr \<Rightarrow> 's \<Rightarrow> ptr \<times> 's"
  pf_alloc_bulk :: "ptr \<Rightarrow> u32 \<Rightarrow> 's \<Rightarrow> c_int \<times> ptr list \<times> 's"
  pf_rx :: "u16 \<Rightarrow> u16 \<Rightarrow> u16 \<Rightarrow> 's \<Rightarrow> u16 \<times> ptr list \<times> 's"
  pf_tx :: "u16 \<Rightarrow> u16 \<Rightarrow> ptr list \<Rightarrow> u16 \<Rightarrow> 's \<Rightarrow> u16 \<times> 's"
  pf_pool_of :: "ptr \<Rightarrow> ptr"
  pf_put :: "ptr \<Rightarrow> ptr list \<Rightarrow> u32 \<Rightarrow> 's \<Rightarrow> 's"

record 's packets =
  held :: "mbuf list"
  lost :: "ptr list"
  env :: 's

section \<open>The contract of DPDK\<close>

text \<open>
  \<open>live\<close> are the buffers that are neither in a pool nor with the device: allocation and reception
  give fresh ones, \<open>free\<close>, \<open>put_bulk\<close> and a successful transmission take them away. \<open>given\<close> and
  \<open>returned\<close> are ghost logs of the calls that were made: every buffer DPDK has handed out, and every
  buffer that was handed back by a free or a transmission, with repetitions. The rings are changed by
  ring operations only, which hand out nothing.
\<close>

locale packet_io = rings_and_buffers "pf_ring ffi" rings "pf_free ffi" live
  for ffi :: "'s packet_ffi" and rings :: "'s \<Rightarrow> ptr \<rightharpoonup> nat \<times> ptr list" and live :: "'s \<Rightarrow> ptr set" +
  fixes given :: "'s \<Rightarrow> ptr multiset" and returned :: "'s \<Rightarrow> ptr multiset"
  assumes dequeue_live: "rte_ring_dequeue (pf_ring ffi) r s = (code, stored, s') \<Longrightarrow> live s' = live s"
    and create_live: "rte_ring_create (pf_ring ffi) name slots sid flags s = (r, s') \<Longrightarrow> live s' = live s"
    and ring_free_live: "live (rte_ring_free (pf_ring ffi) r s) = live s"
    and alloc_null: "pf_alloc ffi pool s = (0, s') \<Longrightarrow> live s' = live s \<and> rings s' = rings s"
    and alloc_fresh: "pf_alloc ffi pool s = (r, s') \<Longrightarrow> r \<noteq> 0 \<Longrightarrow>
      r \<notin> live s \<and> live s' = insert r (live s) \<and> rings s' = rings s"
    and alloc_bulk_none: "pf_alloc_bulk ffi pool num s = (code, ptrs, s') \<Longrightarrow> sint code < 0 \<Longrightarrow>
      live s' = live s \<and> rings s' = rings s"
    and alloc_bulk_fresh: "pf_alloc_bulk ffi pool num s = (code, ptrs, s') \<Longrightarrow> 0 \<le> sint code \<Longrightarrow>
      length ptrs = unat num \<and> 0 \<notin> set ptrs \<and> distinct ptrs \<and> set ptrs \<inter> live s = {} \<and>
      live s' = live s \<union> set ptrs \<and> rings s' = rings s"
    and rx_fresh: "pf_rx ffi port queue n s = (len, ptrs, s') \<Longrightarrow>
      len \<le> n \<and> length ptrs = unat len \<and> 0 \<notin> set ptrs \<and> distinct ptrs \<and> set ptrs \<inter> live s = {} \<and>
      live s' = live s \<union> set ptrs \<and> rings s' = rings s"
    and tx_takes: "pf_tx ffi port queue ptrs n s = (k, s') \<Longrightarrow>
      k \<le> n \<and> live s' = live s - set (take (unat k) ptrs) \<and> rings s' = rings s"
    and put_live: "live (pf_put ffi pool objs m s) = live s - set (take (unat m) objs)"
    and put_rings: "rings (pf_put ffi pool objs m s) = rings s"
    and enqueue_log: "rte_ring_enqueue (pf_ring ffi) r x s = (code, s') \<Longrightarrow> given s' = given s \<and> returned s' = returned s"
    and dequeue_log: "rte_ring_dequeue (pf_ring ffi) r s = (code, stored, s') \<Longrightarrow>
      given s' = given s \<and> returned s' = returned s"
    and create_log: "rte_ring_create (pf_ring ffi) name slots sid flags s = (r, s') \<Longrightarrow>
      given s' = given s \<and> returned s' = returned s"
    and ring_free_log: "given (rte_ring_free (pf_ring ffi) r s) = given s"
      "returned (rte_ring_free (pf_ring ffi) r s) = returned s"
    and alloc_log: "pf_alloc ffi pool s = (r, s') \<Longrightarrow>
      given s' = given s + (if r = 0 then {#} else {#r#}) \<and> returned s' = returned s"
    and alloc_bulk_log: "pf_alloc_bulk ffi pool num s = (code, ptrs, s') \<Longrightarrow>
      given s' = given s + (if 0 \<le> sint code then mset ptrs else {#}) \<and> returned s' = returned s"
    and rx_log: "pf_rx ffi port queue n s = (len, ptrs, s') \<Longrightarrow>
      given s' = given s + mset ptrs \<and> returned s' = returned s"
    and tx_log: "pf_tx ffi port queue ptrs n s = (k, s') \<Longrightarrow>
      given s' = given s \<and> returned s' = returned s + mset (take (unat k) ptrs)"
    and put_log: "given (pf_put ffi pool objs m s) = given s"
      "returned (pf_put ffi pool objs m s) = returned s + mset (take (unat m) objs)"
    and free_log: "given (pf_free ffi b s) = given s" "returned (pf_free ffi b s) = add_mset b (returned s)"
begin

lemma free_bulk_loop_live:
  assumes "length to_free + length mbufs < 2 ^ 32"
    and "free_bulk_loop pool_of (pf_put ffi) pool to_free mbufs s = (rest, s')"
  shows "length rest < 2 ^ 32 \<and> rings s' = rings s \<and> set rest \<subseteq> set (to_free @ mbufs) \<and>
    live s' - set rest = live s - set (to_free @ mbufs) \<and>
    given s' = given s \<and> returned s' + mset rest = returned s + mset (to_free @ mbufs)"
  using assms
proof (induction mbufs arbitrary: to_free s)
  case (Cons m ms)
  show ?case
  proof (cases "pool = pool_of m")
    case True
    with Cons.IH [of "to_free @ [m]" s] Cons.prems show ?thesis by auto
  next
    case False
    let ?s = "pf_put ffi pool to_free (of_nat (length to_free)) s"
    have l: "length to_free < 2 ^ 32" using Cons.prems(1) by simp
    then have p: "live ?s = live s - set to_free" "rings ?s = rings s" "given ?s = given s"
      "returned ?s = returned s + mset to_free"
      by (simp_all add: put_live put_rings put_log unat_of_nat)
    from False Cons.IH [of "[m]" ?s] Cons.prems p show ?thesis by (auto simp: ac_simps)
  qed
qed auto

lemma free_bulk_live:
  assumes "length mbufs < 2 ^ 32" and "mbuf_free_bulk pool_of (pf_put ffi) mbufs s = (s', r)"
  shows "live s' = live s - set mbufs \<and> rings s' = rings s \<and> given s' = given s \<and>
    returned s' = returned s + mset mbufs"
proof (cases mbufs)
  case Nil
  with assms(2) show ?thesis by (simp add: mbuf_free_bulk_def)
next
  case (Cons m ms)
  obtain rest s1 where l: "free_bulk_loop pool_of (pf_put ffi) (pool_of m) [] mbufs s = (rest, s1)" by fastforce
  from free_bulk_loop_live [OF _ l] assms(1)
  have f: "length rest < 2 ^ 32" "rings s1 = rings s" "live s1 - set rest = live s - set mbufs"
    "given s1 = given s" "returned s1 + mset rest = returned s + mset mbufs" by auto
  have "s' = pf_put ffi (pool_of m) rest (of_nat (length rest)) s1"
    using assms(2) l Cons by (simp add: mbuf_free_bulk_def)
  with f show ?thesis by (simp add: put_live put_rings put_log unat_of_nat)
qed

lemma transmit_loop_live:
  assumes "length ptrs < 65536" and "transmit_loop p (pf_tx ffi) pool_of (pf_put ffi) q ptrs s = (s', r)"
  shows "live s' = live s - set ptrs \<and> rings s' = rings s \<and> given s' = given s \<and>
    returned s' = returned s + mset ptrs"
  using assms
proof (induction "length ptrs" arbitrary: ptrs s rule: less_induct)
  case less
  let ?to_send = "of_nat (length ptrs) :: u16"
  have ts: "unat ?to_send = length ptrs" using less.prems(1) by (simp add: unat_of_nat)
  obtain k s1 where b: "pf_tx ffi (port_raw (queue_port q)) (txq_raw (txq q)) ptrs ?to_send s = (k, s1)" by fastforce
  note tx = tx_takes [OF b] tx_log [OF b]
  have kle: "unat k \<le> length ptrs" using tx ts by (simp add: word_le_nat_alt)
  note step = transmit_loop.simps [of p "pf_tx ffi" _ _ _ ptrs]
  consider (none) "k = 0" | (all) "0 < k" "k = ?to_send" | (some) "0 < k" "k < ?to_send"
    using tx by (metis order_le_less word_gt_0)
  then show ?case
  proof cases
    case none
    with less.prems b have "mbuf_free_bulk pool_of (pf_put ffi) ptrs s1 = (s', r)" by (simp add: step)
    from free_bulk_live [OF _ this] less.prems(1) tx none show ?thesis by simp
  next
    case all
    with less.prems(2) b have "s' = s1" by (simp add: step word_sub_Ok)
    with tx ts all(2) show ?thesis by simp
  next
    case some
    have lt: "unat k < length ptrs" "0 < unat k" using some ts by (simp_all add: word_less_nat_alt)
    have rest: "0 < ?to_send - k" using some by (simp add: word_gt_0)
    have loop: "transmit_loop p (pf_tx ffi) pool_of (pf_put ffi) q (drop (unat k) ptrs) s1 = (s', r)"
      using less.prems(2) b some lt rest by (simp add: step word_sub_Ok)
    have "live s' = live s1 - set (drop (unat k) ptrs) \<and> rings s' = rings s1 \<and> given s' = given s1 \<and>
        returned s' = returned s1 + mset (drop (unat k) ptrs)"
      by (rule less.hyps [OF _ _ loop]) (use lt less.prems(1) in auto)
    moreover have "set ptrs = set (take (unat k) ptrs) \<union> set (drop (unat k) ptrs)"
      by (metis append_take_drop_id set_append)
    moreover have "mset ptrs = mset (take (unat k) ptrs) + mset (drop (unat k) ptrs)"
      by (metis append_take_drop_id mset_append)
    ultimately show ?thesis using tx by auto
  qed
qed

end

section \<open>Reachable states\<close>

text \<open>
  A buffer is lost when a full ring rejects it (\<open>enqueue\<close> has taken it out of its \<open>Mbuf\<close> before), when
  it is dequeued into a temporary, or when a ring is freed with it inside. \<open>transmit\<close> is called with up to
  65535 packets, \<open>free_bulk\<close> with less than 4294967296; a ring is used only while it exists.
\<close>

inductive packet_reach ::
  "'s packet_ffi \<Rightarrow> ('s \<Rightarrow> ptr \<rightharpoonup> nat \<times> ptr list) \<Rightarrow> profile \<Rightarrow> 's \<Rightarrow> 's packets \<Rightarrow> bool"
  for ffi rings p s0
where
  packets_start: "packet_reach ffi rings p s0 \<lparr>held = [], lost = [], env = s0\<rparr>"
| packets_new: "packet_reach ffi rings p s0 st \<Longrightarrow>
    mbuf_new (pf_alloc ffi) pool (env st) = (s', Ok mb) \<Longrightarrow>
    packet_reach ffi rings p s0 (st\<lparr>held := mb # held st, env := s'\<rparr>)"
| packets_exhausted: "packet_reach ffi rings p s0 st \<Longrightarrow>
    mbuf_new (pf_alloc ffi) pool (env st) = (s', Err e) \<Longrightarrow>
    packet_reach ffi rings p s0 (st\<lparr>env := s'\<rparr>)"
| packets_alloc_bulk: "packet_reach ffi rings p s0 st \<Longrightarrow>
    alloc_bulk (pf_alloc_bulk ffi) (pf_errno ffi) pool len (env st) = (s', Ok ms) \<Longrightarrow>
    packet_reach ffi rings p s0 (st\<lparr>held := ms @ held st, env := s'\<rparr>)"
| packets_alloc_bulk_failed: "packet_reach ffi rings p s0 st \<Longrightarrow>
    alloc_bulk (pf_alloc_bulk ffi) (pf_errno ffi) pool len (env st) = (s', Err e) \<Longrightarrow>
    packet_reach ffi rings p s0 (st\<lparr>env := s'\<rparr>)"
| packets_free_bulk: "packet_reach ffi rings p s0 st \<Longrightarrow> mset (held st) = mset ms + mset rest \<Longrightarrow>
    length ms < 2 ^ 32 \<Longrightarrow> free_bulk (pf_pool_of ffi) (pf_put ffi) ms (env st) = (s', r) \<Longrightarrow>
    packet_reach ffi rings p s0 (st\<lparr>held := rest, env := s'\<rparr>)"
| packets_drop: "packet_reach ffi rings p s0 st \<Longrightarrow> mset (held st) = add_mset mb (mset ms) \<Longrightarrow>
    packet_reach ffi rings p s0 (st\<lparr>held := ms, env := mbuf_drop (pf_free ffi) mb (env st)\<rparr>)"
| packets_receive: "packet_reach ffi rings p s0 st \<Longrightarrow>
    receive (pf_rx ffi) q (env st) = (s', Ok ms :: (failure, mbuf list) outcome) \<Longrightarrow>
    packet_reach ffi rings p s0 (st\<lparr>held := ms @ held st, env := s'\<rparr>)"
| packets_transmit: "packet_reach ffi rings p s0 st \<Longrightarrow> mset (held st) = mset ms + mset rest \<Longrightarrow>
    length ms < 65536 \<Longrightarrow>
    transmit p (pf_tx ffi) (pf_pool_of ffi) (pf_put ffi) q ms (env st) = (s', r) \<Longrightarrow>
    packet_reach ffi rings p s0 (st\<lparr>held := rest, env := s'\<rparr>)"
| packets_send: "packet_reach ffi rings p s0 st \<Longrightarrow> mset (held st) = add_mset mb (mset ms) \<Longrightarrow>
    rings (env st) (ring_raw (tx_q ch)) = Some queue \<Longrightarrow>
    channel_send (pf_ring ffi) (pf_errno ffi) ch mb (env st) = (s', Ok ()) \<Longrightarrow>
    packet_reach ffi rings p s0 (st\<lparr>held := ms, env := s'\<rparr>)"
| packets_send_full: "packet_reach ffi rings p s0 st \<Longrightarrow> mset (held st) = add_mset mb (mset ms) \<Longrightarrow>
    rings (env st) (ring_raw (tx_q ch)) = Some queue \<Longrightarrow>
    channel_send (pf_ring ffi) (pf_errno ffi) ch mb (env st) = (s', Err e) \<Longrightarrow>
    packet_reach ffi rings p s0 (st\<lparr>held := ms, lost := into_ptr mb # lost st, env := s'\<rparr>)"
| packets_recv: "packet_reach ffi rings p s0 st \<Longrightarrow> mset (held st) = add_mset mb (mset ms) \<Longrightarrow>
    rings (env st) (ring_raw (rx_q ch)) = Some queue \<Longrightarrow>
    channel_receive (pf_ring ffi) (pf_errno ffi) ch mb (env st) = ((s', mb', temporary), Ok ()) \<Longrightarrow>
    packet_reach ffi rings p s0 (st\<lparr>held := mb' # ms, lost := temporary # lost st, env := s'\<rparr>)"
| packets_recv_empty: "packet_reach ffi rings p s0 st \<Longrightarrow> mset (held st) = add_mset mb (mset ms) \<Longrightarrow>
    rings (env st) (ring_raw (rx_q ch)) = Some queue \<Longrightarrow>
    channel_receive (pf_ring ffi) (pf_errno ffi) ch mb (env st) = ((s', mb', temporary), Err e) \<Longrightarrow>
    packet_reach ffi rings p s0 (st\<lparr>held := mb' # ms, env := s'\<rparr>)"
| packets_ring_new: "packet_reach ffi rings p s0 st \<Longrightarrow> NUL \<notin> set name \<Longrightarrow>
    ring_new (pf_ring ffi) (pf_errno ffi) cid rt name capacity sid (env st) = (s', r) \<Longrightarrow>
    packet_reach ffi rings p s0 (st\<lparr>env := s'\<rparr>)"
| packets_ring_drop: "packet_reach ffi rings p s0 st \<Longrightarrow>
    rings (env st) (ring_raw rg) = Some (cap, xs) \<Longrightarrow>
    packet_reach ffi rings p s0 (st\<lparr>lost := xs @ lost st, env := ring_drop (pf_ring ffi) rg (env st)\<rparr>)"

section \<open>Ownership\<close>

text \<open>The buffers in the rings, and that no two places in the rings hold the same one.\<close>

definition queued :: "(ptr \<rightharpoonup> nat \<times> ptr list) \<Rightarrow> ptr set" where
  "queued rs = {x. \<exists>r cap xs. rs r = Some (cap, xs) \<and> x \<in> set xs}"

definition queues_apart :: "(ptr \<rightharpoonup> nat \<times> ptr list) \<Rightarrow> bool" where
  "queues_apart rs \<longleftrightarrow>
     (\<forall>r cap xs. rs r = Some (cap, xs) \<longrightarrow> distinct xs) \<and>
     (\<forall>r r' cap cap' xs xs'. rs r = Some (cap, xs) \<longrightarrow> rs r' = Some (cap', xs') \<longrightarrow> r \<noteq> r' \<longrightarrow> set xs \<inter> set xs' = {})"

definition reachable_by_code :: "'s packets \<Rightarrow> ptr list" where
  "reachable_by_code st = map into_ptr (held st)"

text \<open>Every live buffer has exactly one place: an \<open>Mbuf\<close>, a ring or the lost ones.\<close>

definition owned_once ::
  "('s \<Rightarrow> ptr \<rightharpoonup> nat \<times> ptr list) \<Rightarrow> ('s \<Rightarrow> ptr set) \<Rightarrow> 's packets \<Rightarrow> bool" where
  "owned_once rings live st \<longleftrightarrow>
     list_all (\<lambda>mb. mb = Mbuf (Original (into_ptr mb))) (held st) \<and>
     distinct (reachable_by_code st @ lost st) \<and>
     queues_apart (rings (env st)) \<and>
     queued (rings (env st)) \<inter> set (reachable_by_code st @ lost st) = {} \<and>
     live (env st) = set (reachable_by_code st @ lost st) \<union> queued (rings (env st))"

text \<open>
  Every buffer was handed out as often as it was handed back, and once more if it is live: a second
  free or transmission of the same buffer breaks it.
\<close>

definition balanced :: "('s \<Rightarrow> ptr multiset) \<Rightarrow> ('s \<Rightarrow> ptr multiset) \<Rightarrow> ('s \<Rightarrow> ptr set) \<Rightarrow> 's \<Rightarrow> bool" where
  "balanced given returned live s \<longleftrightarrow>
     (\<forall>b. count (given s) b = count (returned s) b + (if b \<in> live s then 1 else 0))"

lemma balanced_given:
  assumes "balanced given returned live s" "distinct ptrs" "set ptrs \<inter> live s = {}"
    and "live s' = live s \<union> set ptrs" "given s' = given s + mset ptrs" "returned s' = returned s"
  shows "balanced given returned live s'"
  using assms by (auto simp: balanced_def distinct_count_atmost_1)

lemma balanced_returned:
  assumes "balanced given returned live s" "distinct ptrs" "set ptrs \<subseteq> live s"
    and "live s' = live s - set ptrs" "given s' = given s" "returned s' = returned s + mset ptrs"
  shows "balanced given returned live s'"
  using assms by (auto simp: balanced_def distinct_count_atmost_1)

lemma balanced_same:
  assumes "balanced given returned live s" "live s' = live s" "given s' = given s" "returned s' = returned s"
  shows "balanced given returned live s'"
  using assms by (simp add: balanced_def)

text \<open>One ring against all others.\<close>

lemma queued_split:
  assumes "rs r = Some (cap, xs)"
  shows "queued rs = set xs \<union> queued (rs(r := None))"
proof (rule set_eqI)
  fix y
  have "y \<in> queued rs \<longleftrightarrow> (\<exists>r' cap' xs'. rs r' = Some (cap', xs') \<and> y \<in> set xs')" by (simp add: queued_def)
  also have "\<dots> \<longleftrightarrow> y \<in> set xs \<or> (\<exists>r' cap' xs'. r' \<noteq> r \<and> rs r' = Some (cap', xs') \<and> y \<in> set xs')"
    using assms by (metis option.inject prod.inject)
  finally show "y \<in> queued rs \<longleftrightarrow> y \<in> set xs \<union> queued (rs(r := None))" by (auto simp: queued_def)
qed

lemma apart_split:
  assumes "rs r = Some (cap, xs)"
  shows "queues_apart rs \<longleftrightarrow>
    distinct xs \<and> set xs \<inter> queued (rs(r := None)) = {} \<and> queues_apart (rs(r := None))"
proof
  assume a: "queues_apart rs"
  then have "set xs \<inter> set ys = {}" if "rs r' = Some (c, ys)" "r' \<noteq> r" for r' c ys
    using assms that unfolding queues_apart_def by metis
  then have "set xs \<inter> queued (rs(r := None)) = {}" by (auto simp: queued_def split: if_splits)
  moreover have "distinct xs" "queues_apart (rs(r := None))"
    using a assms unfolding queues_apart_def by (auto split: if_splits)
  ultimately show "distinct xs \<and> set xs \<inter> queued (rs(r := None)) = {} \<and> queues_apart (rs(r := None))" by blast
next
  assume a: "distinct xs \<and> set xs \<inter> queued (rs(r := None)) = {} \<and> queues_apart (rs(r := None))"
  have d: "distinct ys \<and> set xs \<inter> set ys = {}" if "rs r' = Some (c, ys)" "r' \<noteq> r" for r' c ys
  proof -
    have "(rs(r := None)) r' = Some (c, ys)" using that by simp
    moreover from this have "set ys \<subseteq> queued (rs(r := None))" unfolding queued_def by blast
    ultimately show ?thesis using a unfolding queues_apart_def by blast
  qed
  have "set ys \<inter> set zs = {}" if "rs r' = Some (c, ys)" "rs r'' = Some (c', zs)" "r' \<noteq> r" "r'' \<noteq> r" "r' \<noteq> r''"
    for r' r'' c c' ys zs
    using a that unfolding queues_apart_def by (metis fun_upd_other)
  with a assms d show "queues_apart rs" unfolding queues_apart_def by (metis Int_commute option.inject prod.inject)
qed

lemma queued_upd [simp]: "queued (rs(r \<mapsto> (cap, xs))) = set xs \<union> queued (rs(r := None))"
  using queued_split [of "rs(r \<mapsto> (cap, xs))" r cap xs] by simp

lemma apart_upd [simp]:
  "queues_apart (rs(r \<mapsto> (cap, xs))) \<longleftrightarrow>
     distinct xs \<and> set xs \<inter> queued (rs(r := None)) = {} \<and> queues_apart (rs(r := None))"
  using apart_split [of "rs(r \<mapsto> (cap, xs))" r cap xs] by simp

lemma mset_held:
  assumes "mset xs = add_mset mb (mset ms)" "list_all P xs" "distinct (map f xs @ ys)"
  shows "P mb" "list_all P ms" "distinct (f mb # map f ms @ ys)" "set (map f xs) = insert (f mb) (f ` set ms)"
proof -
  have "mset xs = mset (mb # ms)" using assms(1) by simp
  then have s: "set xs = insert mb (set ms)" by (metis list.set(2) mset_eq_setD)
  then show "P mb" "list_all P ms" using assms(2) by (simp_all add: list_all_iff)
  show "set (map f xs) = insert (f mb) (f ` set ms)" using s by simp
  have "mset (map f xs @ ys) = mset (f mb # map f ms @ ys)" using assms(1) by simp
  then show "distinct (f mb # map f ms @ ys)" using assms(3) mset_eq_imp_distinct_iff by blast
qed

lemma drop_original: "mbuf_drop free (Mbuf (Original b)) s = free b s"
  by (simp add: mbuf_drop_def)

context packet_io
begin

lemma owned_start:
  assumes "live s0 = {}" "queued (rings s0) = {}"
  shows "owned_once rings live \<lparr>held = [], lost = [], env = s0\<rparr>"
proof -
  have "set xs \<subseteq> queued (rings s0)" if "rings s0 r = Some (cap, xs)" for r cap xs
    using that unfolding queued_def by blast
  then have "xs = []" if "rings s0 r = Some (cap, xs)" for r cap xs using that assms(2) by (metis set_empty subset_empty)
  then have "queues_apart (rings s0)" unfolding queues_apart_def by (metis distinct.simps(1) empty_set inf_bot_left)
  with assms show ?thesis by (simp add: owned_once_def reachable_by_code_def)
qed

lemma owned_new:
  assumes "owned_once rings live st" "mbuf_new (pf_alloc ffi) pool (env st) = (s', Ok mb)"
  shows "owned_once rings live (st\<lparr>held := mb # held st, env := s'\<rparr>)"
proof -
  obtain r s1 where a: "pf_alloc ffi pool (env st) = (r, s1)" by fastforce
  with assms(2) have "r \<noteq> 0" "s' = s1" "mb = Mbuf (Original r)"
    by (auto simp: mbuf_new_def to_result_mut_eq split: if_splits)
  with alloc_fresh [OF a] assms(1) show ?thesis by (auto simp: owned_once_def reachable_by_code_def into_ptr_def)
qed

lemma owned_exhausted:
  assumes "owned_once rings live st" "mbuf_new (pf_alloc ffi) pool (env st) = (s', Err e)"
  shows "owned_once rings live (st\<lparr>env := s'\<rparr>)"
proof -
  obtain r s1 where a: "pf_alloc ffi pool (env st) = (r, s1)" by fastforce
  with assms(2) have "r = 0" "s' = s1" by (auto simp: mbuf_new_def to_result_mut_eq split: if_splits)
  with alloc_null a assms(1) show ?thesis by (auto simp: owned_once_def reachable_by_code_def)
qed

lemma owned_drop:
  assumes "owned_once rings live st" "mset (held st) = add_mset mb (mset ms)"
  shows "owned_once rings live (st\<lparr>held := ms, env := mbuf_drop (pf_free ffi) mb (env st)\<rparr>)"
proof -
  from assms(1) have "list_all (\<lambda>mb. mb = Mbuf (Original (into_ptr mb))) (held st)"
    "distinct (map into_ptr (held st) @ lost st)" by (simp_all add: owned_once_def reachable_by_code_def)
  note m = mset_held [OF assms(2) this]
  from m(1) have "mbuf_drop (pf_free ffi) mb (env st) = pf_free ffi (into_ptr mb) (env st)"
    by (metis drop_original)
  with assms(1) m show ?thesis
    by (auto simp: owned_once_def reachable_by_code_def free_live free_rings)
qed

lemma owned_fresh:
  assumes "owned_once rings live st" "distinct ptrs" "set ptrs \<inter> live (env st) = {}"
    and "live s' = live (env st) \<union> set ptrs" "rings s' = rings (env st)"
  shows "owned_once rings live (st\<lparr>held := map mbuf_from_ptr ptrs @ held st, env := s'\<rparr>)"
proof -
  have "map (into_ptr \<circ> mbuf_from_ptr) ptrs = ptrs"
    by (simp add: into_ptr_def mbuf_from_ptr_def comp_def)
  with assms show ?thesis
    by (auto simp: owned_once_def reachable_by_code_def list_all_iff mbuf_from_ptr_def into_ptr_def)
qed

lemma receive_env:
  assumes "receive (pf_rx ffi) q s = (s', Ok ms :: (failure, mbuf list) outcome)"
  obtains ptrs where "ms = map mbuf_from_ptr ptrs" "distinct ptrs" "set ptrs \<inter> live s = {}"
    "live s' = live s \<union> set ptrs" "rings s' = rings s" "given s' = given s + mset ptrs" "returned s' = returned s"
proof -
  obtain len ptrs s1 where a: "pf_rx ffi (port_raw (queue_port q)) (rxq_raw (rxq q)) (of_nat RX_BURST_MAX) s
      = (len, ptrs, s1)" by (metis prod.exhaust)
  note rx = rx_fresh [OF a] rx_log [OF a]
  with assms a have "s' = s1" "ms = map mbuf_from_ptr ptrs" by (auto simp: receive_def split: if_splits)
  with rx show ?thesis by (intro that [of ptrs]) auto
qed

lemma alloc_bulk_env:
  assumes "alloc_bulk (pf_alloc_bulk ffi) (pf_errno ffi) pool len s = (s', Ok ms)"
  obtains ptrs where "ms = map mbuf_from_ptr ptrs" "distinct ptrs" "set ptrs \<inter> live s = {}"
    "live s' = live s \<union> set ptrs" "rings s' = rings s" "given s' = given s + mset ptrs" "returned s' = returned s"
proof -
  obtain code ptrs s1 where a: "pf_alloc_bulk ffi pool (of_nat len) s = (code, ptrs, s1)" by (metis prod.exhaust)
  with assms have ok: "0 \<le> sint code" "s' = s1" "len \<le> length ptrs" "ms = map mbuf_from_ptr (take len ptrs)"
    by (auto simp: alloc_bulk_def to_result_int_def split: if_splits)
  note fresh = alloc_bulk_fresh [OF a ok(1)] alloc_bulk_log [OF a]
  have "length ptrs \<le> len" using fresh by (simp add: unat_of_nat)
  with ok fresh show ?thesis by (intro that [of ptrs]) auto
qed

lemma alloc_bulk_failed_env:
  assumes "alloc_bulk (pf_alloc_bulk ffi) (pf_errno ffi) pool len s = (s', Err e)"
  shows "live s' = live s \<and> rings s' = rings s \<and> given s' = given s \<and> returned s' = returned s"
proof -
  obtain code ptrs s1 where a: "pf_alloc_bulk ffi pool (of_nat len) s = (code, ptrs, s1)" by (metis prod.exhaust)
  with assms have ok: "sint code < 0" "s' = s1"
    by (auto simp: alloc_bulk_def to_result_int_def split: if_splits)
  with alloc_bulk_none [OF a] alloc_bulk_log [OF a] show ?thesis by simp
qed

lemma owned_gone:
  assumes "owned_once rings live st" "mset (held st) = mset ms + mset rest"
  shows "distinct (map into_ptr ms)" "set (map into_ptr ms) \<subseteq> live (env st)"
    and "live s' = live (env st) - set (map into_ptr ms) \<Longrightarrow> rings s' = rings (env st) \<Longrightarrow>
      owned_once rings live (st\<lparr>held := rest, env := s'\<rparr>)"
proof -
  have m: "mset (held st) = mset (ms @ rest)" using assms(2) by simp
  then have s: "set (held st) = set ms \<union> set rest" by (metis mset_eq_setD set_append)
  have "mset (map into_ptr (held st) @ lost st) = mset (map into_ptr (ms @ rest) @ lost st)" using assms(2) by simp
  then have d: "distinct (map into_ptr (ms @ rest) @ lost st)"
    using assms(1) mset_eq_imp_distinct_iff unfolding owned_once_def reachable_by_code_def by blast
  then show "distinct (map into_ptr ms)" by simp
  show "set (map into_ptr ms) \<subseteq> live (env st)" using assms(1) s by (auto simp: owned_once_def reachable_by_code_def)
  show "owned_once rings live (st\<lparr>held := rest, env := s'\<rparr>)"
    if "live s' = live (env st) - set (map into_ptr ms)" "rings s' = rings (env st)"
    using assms(1) s d that by (auto simp: owned_once_def reachable_by_code_def list_all_iff)
qed

lemma transmit_env:
  assumes "length ms < 65536" "transmit p (pf_tx ffi) (pf_pool_of ffi) (pf_put ffi) q ms s = (s', r)"
  shows "live s' = live s - set (map into_ptr ms) \<and> rings s' = rings s \<and> given s' = given s \<and>
    returned s' = returned s + mset (map into_ptr ms)"
  by (rule transmit_loop_live [of "map into_ptr ms" p "pf_pool_of ffi" q s s' r])
    (use assms in \<open>simp_all add: transmit_def\<close>)

lemma free_bulk_env:
  assumes "length ms < 2 ^ 32" "free_bulk (pf_pool_of ffi) (pf_put ffi) ms s = (s', r)"
  shows "live s' = live s - set (map into_ptr ms) \<and> rings s' = rings s \<and> given s' = given s \<and>
    returned s' = returned s + mset (map into_ptr ms)"
  by (rule free_bulk_live [of "map into_ptr ms" "pf_pool_of ffi" s s' r])
    (use assms in \<open>simp_all add: free_bulk_def\<close>)

lemma owned_send:
  assumes "owned_once rings live st" "mset (held st) = add_mset mb (mset ms)"
    and "rings (env st) (ring_raw (tx_q ch)) = Some queue"
    and "channel_send (pf_ring ffi) (pf_errno ffi) ch mb (env st) = (s', r)"
  shows "r = Ok () \<Longrightarrow> owned_once rings live (st\<lparr>held := ms, env := s'\<rparr>)"
    and "r = Err e \<Longrightarrow> owned_once rings live (st\<lparr>held := ms, lost := into_ptr mb # lost st, env := s'\<rparr>)"
proof -
  from assms(1) have "list_all (\<lambda>mb. mb = Mbuf (Original (into_ptr mb))) (held st)"
    "distinct (map into_ptr (held st) @ lost st)" by (simp_all add: owned_once_def reachable_by_code_def)
  note m = mset_held [OF assms(2) this]
  obtain cap xs where q: "rings (env st) (ring_raw (tx_q ch)) = Some (cap, xs)" using assms(3) by (cases queue) simp
  have e: "ring_enqueue (pf_ring ffi) (pf_errno ffi) (tx_q ch) mb (env st) = (s', r)"
    using assms(4) by (simp add: channel_send_def)
  note out = enqueue_outcome [OF q e] and keeps = enqueue_keeps_live [OF e]
  note split = queued_split [where rs = "rings (env st)", OF q] apart_split [where rs = "rings (env st)", OF q]
  show "owned_once rings live (st\<lparr>held := ms, env := s'\<rparr>)" if "r = Ok ()"
  proof -
    have "rings s' = (rings (env st))(ring_raw (tx_q ch) \<mapsto> (cap, xs @ [into_ptr mb]))"
      using out that by (simp split: if_splits)
    with assms(1) m keeps split show ?thesis by (auto simp: owned_once_def reachable_by_code_def)
  qed
  show "owned_once rings live (st\<lparr>held := ms, lost := into_ptr mb # lost st, env := s'\<rparr>)" if "r = Err e"
  proof -
    have "rings s' = rings (env st)" using out that by (simp split: if_splits)
    with assms(1) m keeps show ?thesis by (auto simp: owned_once_def reachable_by_code_def)
  qed
qed

lemma owned_recv:
  assumes "owned_once rings live st" "mset (held st) = add_mset mb (mset ms)"
    and "rings (env st) (ring_raw (rx_q ch)) = Some queue"
    and "channel_receive (pf_ring ffi) (pf_errno ffi) ch mb (env st) = ((s', mb', temporary), r)"
  shows "r = Ok () \<Longrightarrow> owned_once rings live (st\<lparr>held := mb' # ms, lost := temporary # lost st, env := s'\<rparr>)"
    and "r = Err e \<Longrightarrow> owned_once rings live (st\<lparr>held := mb' # ms, env := s'\<rparr>)"
proof -
  from assms(1) have "list_all (\<lambda>mb. mb = Mbuf (Original (into_ptr mb))) (held st)"
    "distinct (map into_ptr (held st) @ lost st)" by (simp_all add: owned_once_def reachable_by_code_def)
  note m = mset_held [OF assms(2) this]
  obtain cap xs where q: "rings (env st) (ring_raw (rx_q ch)) = Some (cap, xs)" using assms(3) by (cases queue) simp
  have e: "ring_dequeue (pf_ring ffi) (pf_errno ffi) (rx_q ch) mb (env st) = ((s', mb', temporary), r)"
    using assms(4) by (simp add: channel_receive_def)
  note out = dequeue_outcome [OF q e]
  obtain code stored s1 where d: "rte_ring_dequeue (pf_ring ffi) (ring_raw (rx_q ch)) (env st) = (code, stored, s1)"
    by (metis prod.exhaust)
  then have "s' = s1" using e by (auto simp: ring_dequeue_def to_result_int_def split: if_splits)
  with dequeue_live [OF d] have keeps: "live s' = live (env st)" by simp
  note split = queued_split [where rs = "rings (env st)", OF q] apart_split [where rs = "rings (env st)", OF q]
  show "owned_once rings live (st\<lparr>held := mb' # ms, lost := temporary # lost st, env := s'\<rparr>)" if ok: "r = Ok ()"
  proof -
    obtain ys where "xs = temporary # ys" "mb' = mb" "rings s' = (rings (env st))(ring_raw (rx_q ch) \<mapsto> (cap, ys))"
      using out ok by (cases xs) auto
    with assms(1) m keeps split show ?thesis by (auto simp: owned_once_def reachable_by_code_def)
  qed
  show "owned_once rings live (st\<lparr>held := mb' # ms, env := s'\<rparr>)" if "r = Err e"
  proof -
    have "mb' = mb" "rings s' = rings (env st)" using out that by (auto split: list.splits)
    with assms(1) m keeps show ?thesis by (auto simp: owned_once_def reachable_by_code_def)
  qed
qed

lemma owned_ring_new:
  assumes "owned_once rings live st" "NUL \<notin> set name"
    and "ring_new (pf_ring ffi) (pf_errno ffi) cid rt name capacity sid (env st) = (s', r)"
  shows "owned_once rings live (st\<lparr>env := s'\<rparr>)"
proof -
  obtain rg s1 where c: "rte_ring_create (pf_ring ffi) (name @ [NUL]) (of_nat capacity) (socket_raw sid)
      (ucast NO_FLAGS) (env st) = (rg, s1)" by fastforce
  then have "s' = s1" using assms(2,3) by (auto simp: ring_new_def to_cstring_def to_result_mut_eq split: if_splits)
  with create_live [OF c] have keeps: "live s' = live (env st)" by simp
  from new_outcome [OF assms(2,3)] consider "rings s' = rings (env st)"
    | k cap where "rings (env st) k = None" "rings s' = (rings (env st))(k \<mapsto> (cap, []))"
    by (cases r) auto
  then show ?thesis
  proof cases
    case 2
    then have "(rings (env st))(k := None) = rings (env st)" by (simp add: fun_upd_idem)
    with 2 assms(1) keeps show ?thesis by (simp add: owned_once_def reachable_by_code_def fun_upd_idem)
  qed (use assms(1) keeps in \<open>simp add: owned_once_def reachable_by_code_def\<close>)
qed

lemma owned_ring_drop:
  assumes "owned_once rings live st" "rings (env st) (ring_raw rg) = Some (cap, xs)"
  shows "owned_once rings live (st\<lparr>lost := xs @ lost st, env := ring_drop (pf_ring ffi) rg (env st)\<rparr>)"
  using assms(1) queued_split [where rs = "rings (env st)", OF assms(2)]
    apart_split [where rs = "rings (env st)", OF assms(2)]
  by (auto simp: owned_once_def reachable_by_code_def ring_drop_def free_ring ring_free_live)

text \<open>What one operation does to the logs.\<close>

lemma log_new:
  assumes "mbuf_new (pf_alloc ffi) pool s = (s', r)"
  shows "given s' = given s + (case r of Ok mb \<Rightarrow> {#into_ptr mb#} | _ \<Rightarrow> {#}) \<and> returned s' = returned s \<and>
    (case r of Ok mb \<Rightarrow> into_ptr mb \<notin> live s \<and> live s' = insert (into_ptr mb) (live s) | _ \<Rightarrow> live s' = live s)"
proof -
  obtain b s1 where a: "pf_alloc ffi pool s = (b, s1)" by fastforce
  with assms have "s' = s1" "r = (if b = 0 then Err (MempoolFailure Exhausted) else Ok (Mbuf (Original b)))"
    by (auto simp: mbuf_new_def to_result_mut_eq split: if_splits)
  with alloc_log [OF a] alloc_null [of pool s s1] alloc_fresh [OF a] a show ?thesis
    by (simp add: into_ptr_def)
qed

lemma log_enqueue:
  assumes "channel_send (pf_ring ffi) err ch mb s = (s', r)"
  shows "live s' = live s \<and> given s' = given s \<and> returned s' = returned s"
proof -
  have e: "ring_enqueue (pf_ring ffi) err (tx_q ch) mb s = (s', r)" using assms by (simp add: channel_send_def)
  obtain code s1 where c: "rte_ring_enqueue (pf_ring ffi) (ring_raw (tx_q ch)) (into_ptr mb) s = (code, s1)" by fastforce
  with e have "s' = s1" by (auto simp: ring_enqueue_def to_result_int_def split: if_splits)
  with enqueue_keeps_live [OF e] enqueue_log [OF c] show ?thesis by simp
qed

lemma log_dequeue:
  assumes "channel_receive (pf_ring ffi) err ch mb s = ((s', mb', temporary), r)"
  shows "live s' = live s \<and> given s' = given s \<and> returned s' = returned s"
proof -
  obtain code stored s1 where d: "rte_ring_dequeue (pf_ring ffi) (ring_raw (rx_q ch)) s = (code, stored, s1)"
    by (metis prod.exhaust)
  then have "s' = s1" using assms
    by (auto simp: channel_receive_def ring_dequeue_def to_result_int_def split: if_splits)
  with dequeue_live [OF d] dequeue_log [OF d] show ?thesis by simp
qed

lemma log_ring_new:
  assumes "NUL \<notin> set name" "ring_new (pf_ring ffi) err cid rt name capacity sid s = (s', r)"
  shows "live s' = live s \<and> given s' = given s \<and> returned s' = returned s"
proof -
  obtain rg s1 where c: "rte_ring_create (pf_ring ffi) (name @ [NUL]) (of_nat capacity) (socket_raw sid)
      (ucast NO_FLAGS) s = (rg, s1)" by fastforce
  then have "s' = s1" using assms by (auto simp: ring_new_def to_cstring_def to_result_mut_eq split: if_splits)
  with create_live [OF c] create_log [OF c] show ?thesis by simp
qed

lemma balanced_gone:
  assumes "owned_once rings live st" "mset (held st) = mset ms + mset rest" "balanced given returned live (env st)"
    and "live s' = live (env st) - set (map into_ptr ms) \<and> rings s' = rings (env st) \<and>
      given s' = given (env st) \<and> returned s' = returned (env st) + mset (map into_ptr ms)"
  shows "balanced given returned live s'"
  using assms(4) by (intro balanced_returned [OF assms(3) owned_gone(1,2) [OF assms(1,2)]]) simp_all

lemma packet_reach_owned:
  assumes "packet_reach ffi rings p s0 st" "live s0 = {}" "queued (rings s0) = {}"
  shows "owned_once rings live st"
  using assms(1)
proof induction
  case packets_start
  show ?case using assms(2,3) by (rule owned_start)
next
  case (packets_alloc_bulk st pool len s' ms)
  from alloc_bulk_env [OF packets_alloc_bulk(2)] owned_fresh [OF packets_alloc_bulk(3)] show ?case by metis
next
  case (packets_alloc_bulk_failed st pool len s' e)
  from alloc_bulk_failed_env [OF packets_alloc_bulk_failed(2)] packets_alloc_bulk_failed(3) show ?case
    by (simp add: owned_once_def reachable_by_code_def)
next
  case (packets_free_bulk st ms rest s' r)
  from free_bulk_env [OF packets_free_bulk(3,4)] owned_gone(3) [OF packets_free_bulk(5,2)] show ?case by blast
next
  case (packets_receive st q s' ms)
  from receive_env [OF packets_receive(2)] owned_fresh [OF packets_receive(3)] show ?case by metis
next
  case (packets_transmit st ms rest q s' r)
  from transmit_env [OF packets_transmit(3,4)] owned_gone(3) [OF packets_transmit(5,2)] show ?case by blast
qed (blast intro: owned_new owned_exhausted owned_drop owned_send owned_recv owned_ring_new owned_ring_drop)+

lemma packet_reach_balanced:
  assumes "packet_reach ffi rings p s0 st" "live s0 = {}" "queued (rings s0) = {}" "given s0 = returned s0"
  shows "balanced given returned live (env st)"
  using assms(1)
proof induction
  case packets_start
  show ?case using assms(2,4) by (simp add: balanced_def)
next
  case (packets_new st pool s' mb)
  from log_new [OF packets_new(2)] show ?case
    by (intro balanced_given [OF packets_new(3), of "[into_ptr mb]"]) simp_all
next
  case (packets_exhausted st pool s' e)
  from log_new [OF packets_exhausted(2)] show ?case by (intro balanced_same [OF packets_exhausted(3)]) simp_all
next
  case (packets_alloc_bulk st pool len s' ms)
  from alloc_bulk_env [OF packets_alloc_bulk(2)] balanced_given [OF packets_alloc_bulk(3)] show ?case by (simp, metis)
next
  case (packets_alloc_bulk_failed st pool len s' e)
  from alloc_bulk_failed_env [OF packets_alloc_bulk_failed(2)] show ?case
    by (intro balanced_same [OF packets_alloc_bulk_failed(3)]) simp_all
next
  case (packets_free_bulk st ms rest s' r)
  from balanced_gone [OF packet_reach_owned [OF packets_free_bulk(1) assms(2,3)] packets_free_bulk(2,5)
      free_bulk_env [OF packets_free_bulk(3,4)]] show ?case by simp
next
  case (packets_drop st mb ms)
  note owned = packet_reach_owned [OF packets_drop(1) assms(2,3)]
  have held: "mset (held st) = mset [mb] + mset ms" using packets_drop(2) by simp
  have "mb \<in> set (held st)" using packets_drop(2) by (metis set_mset_mset union_single_eq_member)
  then have "mb = Mbuf (Original (into_ptr mb))" using owned by (auto simp: owned_once_def list_all_iff)
  then have "mbuf_drop (pf_free ffi) mb (env st) = pf_free ffi (into_ptr mb) (env st)"
    by (metis drop_original)
  then have "live (mbuf_drop (pf_free ffi) mb (env st)) = live (env st) - set (map into_ptr [mb]) \<and>
      rings (mbuf_drop (pf_free ffi) mb (env st)) = rings (env st) \<and>
      given (mbuf_drop (pf_free ffi) mb (env st)) = given (env st) \<and>
      returned (mbuf_drop (pf_free ffi) mb (env st)) = returned (env st) + mset (map into_ptr [mb])"
    by (simp add: free_live free_rings free_log)
  from balanced_gone [OF owned held packets_drop(3) this] show ?case by simp
next
  case (packets_receive st q s' ms)
  from receive_env [OF packets_receive(2)] balanced_given [OF packets_receive(3)] show ?case by (simp, metis)
next
  case (packets_transmit st ms rest q s' r)
  from balanced_gone [OF packet_reach_owned [OF packets_transmit(1) assms(2,3)] packets_transmit(2,5)
      transmit_env [OF packets_transmit(3,4)]] show ?case by simp
next
  case (packets_send st mb ms ch queue s')
  from log_enqueue [OF packets_send(4)] show ?case by (intro balanced_same [OF packets_send(5)]) simp_all
next
  case (packets_send_full st mb ms ch queue s' e)
  from log_enqueue [OF packets_send_full(4)] show ?case by (intro balanced_same [OF packets_send_full(5)]) simp_all
next
  case (packets_recv st mb ms ch queue s' mb' temporary)
  from log_dequeue [OF packets_recv(4)] show ?case by (intro balanced_same [OF packets_recv(5)]) simp_all
next
  case (packets_recv_empty st mb ms ch queue s' mb' temporary e)
  from log_dequeue [OF packets_recv_empty(4)] show ?case by (intro balanced_same [OF packets_recv_empty(5)]) simp_all
next
  case (packets_ring_new st name cid rt capacity sid s' r)
  from log_ring_new [OF packets_ring_new(2,3)] show ?case by (intro balanced_same [OF packets_ring_new(4)]) simp_all
next
  case (packets_ring_drop st rg cap xs)
  show ?case
    by (rule balanced_same [OF packets_ring_drop(3)]) (simp_all add: ring_drop_def ring_free_live ring_free_log)
qed

end

section \<open>A reference instance\<close>

text \<open>
  The rings of \<open>ring_store\<close> with a pool of \<open>n\<close> buffers at the pointers \<open>1..n\<close>, a device that
  receives and sends up to two packets at a time, and the two logs.
\<close>

record packet_store = ring_store +
  st_given :: "ptr multiset"
  st_returned :: "ptr multiset"

definition free_buffers :: "nat \<Rightarrow> packet_store \<Rightarrow> ptr list" where
  "free_buffers n s = filter (\<lambda>r. r \<notin> st_live s) [1..<Suc n]"

definition take_out :: "ptr list \<Rightarrow> packet_store \<Rightarrow> packet_store" where
  "take_out ptrs s = s\<lparr>st_live := st_live s \<union> set ptrs, st_given := st_given s + mset ptrs\<rparr>"

definition give_back :: "ptr list \<Rightarrow> packet_store \<Rightarrow> packet_store" where
  "give_back ptrs s = s\<lparr>st_live := st_live s - set ptrs, st_returned := st_returned s + mset ptrs\<rparr>"

definition packet_store_ffi :: "nat \<Rightarrow> packet_store packet_ffi" where
  "packet_store_ffi n =
     \<lparr>pf_ring = store_ffi 4, pf_errno = sample_errno, pf_free = (\<lambda>b. give_back [b]),
      pf_alloc = (\<lambda>pool s. case free_buffers n s of [] \<Rightarrow> (0, s) | b # _ \<Rightarrow> (b, take_out [b] s)),
      pf_alloc_bulk = (\<lambda>pool k s.
        if length (free_buffers n s) < unat k then (- 2, [], s)
        else let ptrs = take (unat k) (free_buffers n s) in (0, ptrs, take_out ptrs s)),
      pf_rx = (\<lambda>port queue k s.
        let ptrs = take (min (unat k) 2) (free_buffers n s) in (of_nat (length ptrs), ptrs, take_out ptrs s)),
      pf_tx = (\<lambda>port queue ptrs k s. let j = min (unat k) 2 in (of_nat j, give_back (take j ptrs) s)),
      pf_pool_of = (\<lambda>_. 1),
      pf_put = (\<lambda>pool objs k. give_back (take (unat k) objs))\<rparr>"

lemma free_buffers:
  "distinct (free_buffers n s)" "r \<in> set (free_buffers n s) \<Longrightarrow> r \<noteq> 0 \<and> r \<notin> st_live s"
  by (auto simp: free_buffers_def)

lemma take_out [simp]:
  "st_live (take_out ptrs s) = st_live s \<union> set ptrs" "store_view (take_out ptrs s) = store_view s"
  "st_given (take_out ptrs s) = st_given s + mset ptrs" "st_returned (take_out ptrs s) = st_returned s"
  by (auto simp: take_out_def store_view_def)

lemma give_back [simp]:
  "st_live (give_back ptrs s) = st_live s - set ptrs" "store_view (give_back ptrs s) = store_view s"
  "st_given (give_back ptrs s) = st_given s" "st_returned (give_back ptrs s) = st_returned s + mset ptrs"
  by (auto simp: give_back_def store_view_def)

lemma packet_store_sel:
  "pf_ring (packet_store_ffi n) = store_ffi 4" "pf_free (packet_store_ffi n) = (\<lambda>b. give_back [b])"
  by (simp_all add: packet_store_ffi_def)

lemma take_short: "k \<le> 2 \<Longrightarrow> unat (of_nat (length (take k xs)) :: u16) = length (take k xs)"
  by (simp add: unat_of_nat)

lemma take_fresh: "set (take k (free_buffers n s)) \<inter> st_live s = {}" "0 \<notin> set (take k (free_buffers n s))"
  "distinct (take k (free_buffers n s))"
  using free_buffers [where n = n and s = s] by (auto dest: in_set_takeD)

lemma store_same:
  "store_enqueue r x s = (code, s') \<Longrightarrow> st_given s' = st_given s \<and> st_returned s' = st_returned s"
  "store_dequeue r s = (code, stored, s') \<Longrightarrow>
     st_live s' = st_live s \<and> st_given s' = st_given s \<and> st_returned s' = st_returned s"
  by (auto simp: store_enqueue_def store_dequeue_def split: option.splits list.splits if_splits)

lemma store_create_same:
  "store_create k name slots sid flags s = (b, s') \<Longrightarrow>
     st_live s' = st_live s \<and> st_given s' = st_given s \<and> st_returned s' = st_returned s"
  by (cases rule: store_create_cases [of k name slots sid flags s]) auto

interpretation logged_store: rings_and_buffers "store_ffi k" store_view "\<lambda>b. give_back [b]" st_live for k
  by unfold_locales (simp_all add: store_enqueue_def split: option.splits prod.splits)

interpretation packet_store: packet_io "packet_store_ffi n" store_view st_live st_given st_returned for n
proof (intro packet_io.intro packet_io_axioms.intro, unfold packet_store_sel)
  show "rings_and_buffers (store_ffi 4) store_view (\<lambda>b. give_back [b]) st_live"
    by (rule logged_store.rings_and_buffers_axioms)
next
  show "st_live s' = st_live s \<and> store_view s' = store_view s" if "pf_alloc (packet_store_ffi n) pool s = (0, s')" for pool s s'
    using that free_buffers(2) [of 0 n s] by (auto simp: packet_store_ffi_def split: list.splits)
next
  show "b \<notin> st_live s \<and> st_live s' = insert b (st_live s) \<and> store_view s' = store_view s"
    if "pf_alloc (packet_store_ffi n) pool s = (b, s')" "b \<noteq> 0" for pool s b s'
    using that free_buffers(2) [of b n s] by (auto simp: packet_store_ffi_def split: list.splits)
next
  show "st_given s' = st_given s + (if b = 0 then {#} else {#b#}) \<and> st_returned s' = st_returned s"
    if "pf_alloc (packet_store_ffi n) pool s = (b, s')" for pool s b s'
    using that free_buffers(2) [of b n s] by (auto simp: packet_store_ffi_def split: list.splits)
next
  fix pool num s code ptrs s'
  assume bulk: "pf_alloc_bulk (packet_store_ffi n) pool num s = (code, ptrs, s')"
  show "st_live s' = st_live s \<and> store_view s' = store_view s" if "sint code < 0"
    using bulk that by (auto simp: packet_store_ffi_def Let_def split: if_splits)
  show "length ptrs = unat num \<and> 0 \<notin> set ptrs \<and> distinct ptrs \<and> set ptrs \<inter> st_live s = {} \<and>
      st_live s' = st_live s \<union> set ptrs \<and> store_view s' = store_view s" if "0 \<le> sint code"
    using bulk that take_fresh [of "unat num" n s] by (auto simp: packet_store_ffi_def Let_def split: if_splits)
  show "st_given s' = st_given s + (if 0 \<le> sint code then mset ptrs else {#}) \<and> st_returned s' = st_returned s"
    using bulk by (auto simp: packet_store_ffi_def Let_def split: if_splits)
next
  fix port queue :: u16 and k len :: u16 and s ptrs s'
  assume rx: "pf_rx (packet_store_ffi n) port queue k s = (len, ptrs, s')"
  let ?k = "min (unat k) 2"
  have p: "ptrs = take ?k (free_buffers n s)" "len = of_nat (length ptrs)" "s' = take_out ptrs s"
    using rx by (auto simp: packet_store_ffi_def Let_def)
  then have l: "unat len = length ptrs" using take_short [of ?k "free_buffers n s"] by simp
  then have "len \<le> k" using p(1) by (simp add: word_le_nat_alt)
  then show "len \<le> k \<and> length ptrs = unat len \<and> 0 \<notin> set ptrs \<and> distinct ptrs \<and> set ptrs \<inter> st_live s = {} \<and>
      st_live s' = st_live s \<union> set ptrs \<and> store_view s' = store_view s"
    using p l take_fresh [of ?k n s] by simp
  show "st_given s' = st_given s + mset ptrs \<and> st_returned s' = st_returned s" using p(3) by simp
next
  fix port queue :: u16 and ptrs k s j s'
  assume tx: "pf_tx (packet_store_ffi n) port queue ptrs k s = (j, s')"
  then show "j \<le> k \<and> st_live s' = st_live s - set (take (unat j) ptrs) \<and> store_view s' = store_view s"
    by (auto simp: packet_store_ffi_def Let_def word_le_nat_alt unat_of_nat)
  from tx show "st_given s' = st_given s \<and> st_returned s' = st_returned s + mset (take (unat j) ptrs)"
    by (auto simp: packet_store_ffi_def Let_def unat_of_nat)
qed (simp_all add: packet_store_ffi_def store_view_upd store_same store_create_same)

section \<open>Properties\<close>

text \<open>
  C26: Every message buffer has exactly one owner. Started with no buffer in use, whatever sequence of
  allocations (single or in bulk), receptions, transmissions, sends, receives, bulk frees and drops the code
  performs, each live buffer is in exactly one \<open>Mbuf\<close>, in exactly one slot of exactly one ring, or lost. Each
  buffer has been handed out by DPDK exactly as often as it was handed back by a free or a
  transmission, and once more if it has an owner: so no buffer is ever freed or sent twice, and the only leaks
  are the three that the definition of the steps names.
\<close>

theorem buffers_owned_once:
  assumes "packet_io ffi rings live given returned"
    and "live s0 = {}" "queued (rings s0) = {}" "given s0 = returned s0"
    and "packet_reach ffi rings p s0 st"
  shows "list_all (\<lambda>mb. mb = Mbuf (Original (into_ptr mb))) (held st) \<and>
    distinct (map into_ptr (held st) @ lost st) \<and>
    queues_apart (rings (env st)) \<and>
    queued (rings (env st)) \<inter> (into_ptr ` set (held st) \<union> set (lost st)) = {} \<and>
    live (env st) = into_ptr ` set (held st) \<union> set (lost st) \<union> queued (rings (env st)) \<and>
    (\<forall>b. count (given (env st)) b = count (returned (env st)) b +
      (if b \<in> into_ptr ` set (held st) \<union> set (lost st) \<union> queued (rings (env st)) then 1 else 0))"
proof -
  have owned: "owned_once rings live st" by (rule packet_io.packet_reach_owned [OF assms(1,5,2,3)])
  then have "live (env st) = into_ptr ` set (held st) \<union> set (lost st) \<union> queued (rings (env st))"
    by (simp add: owned_once_def reachable_by_code_def)
  with owned packet_io.packet_reach_balanced [OF assms(1,5,2-4)] show ?thesis
    by (simp add: owned_once_def reachable_by_code_def balanced_def)
qed

text \<open>
  A ring with room for one packet: the second one sent is lost. A third buffer is allocated and dropped: it
  was handed out once and handed back once.
\<close>

theorem buffers_owned_once_witness:
  "\<exists>s0 st. packet_reach (packet_store_ffi 3) store_view Dev s0 st \<and> held st = [] \<and> lost st = [2] \<and>
     queued (store_view (env st)) = {1} \<and> st_live (env st) = {2, 1} \<and>
     count (st_given (env st)) 3 = 1 \<and> count (st_returned (env st)) 3 = 1"
proof -
  let ?ffi = "packet_store_ffi 3"
    and ?s0 = "\<lparr>st_rings = [1 \<mapsto> (''TX-7'', 1, [])], st_live = {}, st_given = {#}, st_returned = {#}\<rparr>"
  let ?ch = "\<lparr>tx_q = \<lparr>client_id = 7, rtype = TX, ring_raw = 1\<rparr>, rx_q = \<lparr>client_id = 7, rtype = RX, ring_raw = 2\<rparr>\<rparr>"
  note ev = packet_store_ffi_def free_buffers_def mbuf_new_def to_result_mut_eq channel_send_def ring_enqueue_def
    store_enqueue_def into_ptr_def to_result_int_def store_view_def upt_rec take_out_def One_nat_def [symmetric]
  let ?s1 = "?s0\<lparr>st_live := {1}, st_given := {#1#}\<rparr>"
  let ?s2 = "?s1\<lparr>st_rings := [1 \<mapsto> (''TX-7'', 1, [1])]\<rparr>"
  let ?s3 = "?s2\<lparr>st_live := {2, 1}, st_given := {#2, 1#}\<rparr>"
  let ?s4 = "?s3\<lparr>st_live := {3, 2, 1}, st_given := {#3, 2, 1#}\<rparr>"
  let ?s5 = "?s4\<lparr>st_live := {2, 1}, st_returned := {#3#}\<rparr>"
  have r1: "packet_reach ?ffi store_view Dev ?s0 \<lparr>held = [Mbuf (Original 1)], lost = [], env = ?s1\<rparr>"
    using packets_new [OF packets_start, of ?ffi 1 ?s0 ?s1 "Mbuf (Original 1)" store_view Dev]
    by (simp add: ev del: One_nat_def)
  have r2: "packet_reach ?ffi store_view Dev ?s0 \<lparr>held = [], lost = [], env = ?s2\<rparr>"
    using packets_send [OF r1, where mb = "Mbuf (Original 1)" and ms = "[]" and ch = ?ch and s' = ?s2]
    by (simp add: ev del: One_nat_def)
  have r3: "packet_reach ?ffi store_view Dev ?s0 \<lparr>held = [Mbuf (Original 2)], lost = [], env = ?s3\<rparr>"
    using packets_new [OF r2, where pool = 1 and s' = ?s3 and mb = "Mbuf (Original 2)"]
    by (simp add: ev del: One_nat_def)
  have r4: "packet_reach ?ffi store_view Dev ?s0 \<lparr>held = [], lost = [2], env = ?s3\<rparr>"
    using packets_send_full [OF r3, where mb = "Mbuf (Original 2)" and ms = "[]" and ch = ?ch and s' = ?s3]
    by (simp add: ev del: One_nat_def)
  have r5: "packet_reach ?ffi store_view Dev ?s0 \<lparr>held = [Mbuf (Original 3)], lost = [2], env = ?s4\<rparr>"
    using packets_new [OF r4, where pool = 1 and s' = ?s4 and mb = "Mbuf (Original 3)"]
    by (simp add: ev del: One_nat_def)
  have r: "packet_reach ?ffi store_view Dev ?s0 \<lparr>held = [], lost = [2], env = ?s5\<rparr>"
    using packets_drop [OF r5, where mb = "Mbuf (Original 3)" and ms = "[]"]
    by (simp add: packet_store_sel mbuf_drop_def give_back_def del: One_nat_def)
  have start: "queued (store_view ?s0) = {}" by (auto simp: queued_def store_view_def split: if_splits)
  note owned = buffers_owned_once [OF packet_store.packet_io_axioms _ start _ r]
  have "insert 2 {1} = insert 2 (queued (store_view ?s5))" "2 \<notin> queued (store_view ?s5)"
    using owned by simp_all
  then have "queued (store_view ?s5) = {1}" using insert_ident [of 2 "{1}" "queued (store_view ?s5)"] by simp
  with r show ?thesis by (intro exI [of _ ?s0] exI [of _ "\<lparr>held = [], lost = [2], env = ?s5\<rparr>"]) simp
qed

end
