(* ===== verification/Cidr_Tests.thy ===== *)
theory Cidr_Tests
  imports Config
begin

text \<open>
  The unit tests of \<open>engine/src/net/cidr\<close>, run on the model. A test is a truth value: its
  assertions hold and no \<open>unwrap\<close> in it fails. The two property-based tests of each family draw
  their inputs at random in Rust; here they are predicates that hold for every input.
\<close>

section \<open>Running tests\<close>

named_theorems test_simps \<open>evaluation of the unit tests\<close>

fun ok_of :: "'e + 'a \<Rightarrow> 'a option" where
  "ok_of (Inl e) = None"
| "ok_of (Inr x) = Some x"

fun err_of :: "'e + 'a \<Rightarrow> 'e option" where
  "err_of (Inl e) = Some e"
| "err_of (Inr x) = None"

fun returned :: "('e, 'a) outcome \<Rightarrow> 'a option" where
  "returned (Ok x) = Some x"
| "returned _ = None"

text \<open>The results of the first \<open>n\<close> calls of \<open>next\<close>.\<close>

fun next_results :: "('it \<Rightarrow> 'it \<times> ('e, 'a option) outcome) \<Rightarrow> nat \<Rightarrow> 'it \<Rightarrow> ('e, 'a option) outcome list" where
  "next_results nxt 0 it = []"
| "next_results nxt (Suc n) it = (case nxt it of (it', r) \<Rightarrow> r # next_results nxt n it')"

section \<open>IPv4\<close>

definition test_v4_parse_bad_cidr :: bool where
  "test_v4_parse_bad_cidr \<longleftrightarrow> err_of (v4_from_str ''not-a-cidr'') \<noteq> None"

definition test_v4_cidr_parse_error :: bool where
  "test_v4_cidr_parse_error \<longleftrightarrow>
     do {
       a \<leftarrow> ipv4_from_str ''10.0.0.0'';
       e \<leftarrow> err_of (v4_new a 99);
       Some (cidr_error_text e)
     } = Some ''Failed to parse CIDR: Not a valid length''"

definition test_v4_cidr_parse_error_with_netmask :: bool where
  "test_v4_cidr_parse_error_with_netmask \<longleftrightarrow>
     do {
       a \<leftarrow> ipv4_from_str ''127.0.0.1'';
       nm \<leftarrow> ipv4_from_str ''255.0.255.0'';
       e \<leftarrow> err_of (v4_with_netmask a nm);
       Some (cidr_error_text e)
     } = Some ''Invalid prefix length''"

definition test_v4_hostmask :: bool where
  "test_v4_hostmask \<longleftrightarrow>
     do {
       a \<leftarrow> ipv4_from_str ''10.1.0.0'';
       cidr \<leftarrow> ok_of (v4_new a 20);
       expected \<leftarrow> ipv4_from_str ''0.0.15.255'';
       Some (v4_hostmask cidr = expected)
     } = Some True"

definition test_v4_netmask :: bool where
  "test_v4_netmask \<longleftrightarrow>
     do {
       a \<leftarrow> ipv4_from_str ''10.1.0.0'';
       cidr \<leftarrow> ok_of (v4_new a 20);
       expected \<leftarrow> ipv4_from_str ''255.255.240.0'';
       Some (v4_netmask cidr = expected)
     } = Some True"

definition test_v4_cidr_network_address :: bool where
  "test_v4_cidr_network_address \<longleftrightarrow>
     do {
       a \<leftarrow> ipv4_from_str ''10.1.0.10'';
       cidr \<leftarrow> ok_of (v4_new a 20);
       expected \<leftarrow> ipv4_from_str ''10.1.0.0'';
       Some (v4_network cidr = expected)
     } = Some True"

definition test_v4_cidr_broadcast_address :: bool where
  "test_v4_cidr_broadcast_address \<longleftrightarrow>
     do {
       a \<leftarrow> ipv4_from_str ''10.1.0.10'';
       cidr \<leftarrow> ok_of (v4_new a 20);
       expected \<leftarrow> ipv4_from_str ''10.1.15.255'';
       Some (v4_broadcast cidr = expected)
     } = Some True"

definition test_v4_addresses :: "profile \<Rightarrow> bool" where
  "test_v4_addresses p \<longleftrightarrow>
     do {
       a \<leftarrow> ipv4_from_str ''10.1.0.10'';
       cidr \<leftarrow> ok_of (v4_new a 24);
       n \<leftarrow> returned (v4_size p cidr :: (failure, usize) outcome);
       Some (n = 256)
     } = Some True"

definition test_v4_iter_addresses :: "profile \<Rightarrow> bool" where
  "test_v4_iter_addresses p \<longleftrightarrow>
     do {
       a \<leftarrow> ipv4_from_str ''10.1.0.10'';
       cidr \<leftarrow> ok_of (v4_new a 30);
       iter \<leftarrow> returned (v4_iter p cidr :: (failure, ipv4_cidr_iterator) outcome);
       n \<leftarrow> returned (v4_size p cidr :: (failure, usize) outcome);
       a1 \<leftarrow> ipv4_from_str ''10.1.0.8'';
       a2 \<leftarrow> ipv4_from_str ''10.1.0.9'';
       a3 \<leftarrow> ipv4_from_str ''10.1.0.10'';
       a4 \<leftarrow> ipv4_from_str ''10.1.0.11'';
       Some (n = 4 \<and> next_results (v4_next p) 5 iter
         = map Ok [Some a1, Some a2, Some a3, Some a4, None] @ ([] :: (failure, ipv4addr option) outcome list))
     } = Some True"

definition test_v4_cidr_contains_address :: bool where
  "test_v4_cidr_contains_address \<longleftrightarrow>
     do {
       cidr \<leftarrow> ok_of (v4_from_str ''10.0.0.0/25'');
       a1 \<leftarrow> ipv4_from_str ''10.0.0.0'';
       a2 \<leftarrow> ipv4_from_str ''10.0.0.127'';
       a3 \<leftarrow> ipv4_from_str ''10.0.0.128'';
       Some (v4_contains cidr a1 \<and> v4_contains cidr a2 \<and> \<not> v4_contains cidr a3)
     } = Some True"

text \<open>The formatted text \<open>{}.{}.{}.{}/{}\<close> of the property-based tests.\<close>

definition v4_test_text :: "nat \<Rightarrow> nat \<Rightarrow> nat \<Rightarrow> nat \<Rightarrow> string \<Rightarrow> string" where
  "v4_test_text a b c d t =
     dec_string a @ ''.'' @ dec_string b @ ''.'' @ dec_string c @ ''.'' @ dec_string d @ ''/'' @ t"

definition proptest_v4_parse_cidr :: "nat \<Rightarrow> nat \<Rightarrow> nat \<Rightarrow> nat \<Rightarrow> nat \<Rightarrow> bool" where
  "proptest_v4_parse_cidr a b c d len \<longleftrightarrow>
     ok_of (v4_from_str (v4_test_text a b c d (dec_string len))) \<noteq> None"

definition proptest_v4_parse_cidr_with_netmask :: "nat \<Rightarrow> nat \<Rightarrow> nat \<Rightarrow> nat \<Rightarrow> bool" where
  "proptest_v4_parse_cidr_with_netmask a b c d \<longleftrightarrow>
     (let netmask = ipv4_new 255 0 0 0;
          cidr = v4_test_text a b c d (ipv4_to_string netmask)
      in map_option v4_netmask (ok_of (v4_from_str cidr)) = Some netmask)"

section \<open>IPv6\<close>

definition test_v6_parse_bad_cidr :: bool where
  "test_v6_parse_bad_cidr \<longleftrightarrow> err_of (v6_from_str ''not-a-cidr'') \<noteq> None"

definition test_v6_cidr_parse_error :: bool where
  "test_v6_cidr_parse_error \<longleftrightarrow>
     do {
       a \<leftarrow> ipv6_from_str ''acdc::1'';
       e \<leftarrow> err_of (v6_new a 129);
       Some (cidr_error_text e)
     } = Some ''Failed to parse CIDR: Not a valid length''"

definition test_v6_cidr_parse_error_with_netmask :: bool where
  "test_v6_cidr_parse_error_with_netmask \<longleftrightarrow>
     do {
       a \<leftarrow> ipv6_from_str ''ff01:0:0:17::2'';
       nm \<leftarrow> ipv6_from_str ''0:0:ffff:ffff::'';
       e \<leftarrow> err_of (v6_with_netmask a nm);
       Some (cidr_error_text e)
     } = Some ''Invalid prefix length''"

definition test_v6_hostmask :: bool where
  "test_v6_hostmask \<longleftrightarrow>
     do {
       a \<leftarrow> ipv6_from_str ''fd00::'';
       cidr \<leftarrow> ok_of (v6_new a 24);
       expected \<leftarrow> ipv6_from_str ''::ff:ffff:ffff:ffff:ffff:ffff:ffff'';
       Some (v6_hostmask cidr = expected)
     } = Some True"

definition test_v6_netmask :: bool where
  "test_v6_netmask \<longleftrightarrow>
     do {
       a \<leftarrow> ipv6_from_str ''fd00::'';
       cidr \<leftarrow> ok_of (v6_new a 24);
       expected \<leftarrow> ipv6_from_str ''ffff:ff00::'';
       Some (v6_netmask cidr = expected)
     } = Some True"

definition test_v6_netmask_length :: bool where
  "test_v6_netmask_length \<longleftrightarrow>
     do {
       ip1 \<leftarrow> ipv6_from_str ''ffff:ffff:ffff::'';
       n1 \<leftarrow> ok_of (v6_netmask_length ip1);
       cidr \<leftarrow> ok_of (v6_from_str ''5d88:2be8:9cc7:0f86::/64'');
       n2 \<leftarrow> ok_of (v6_netmask_length (v6_netmask cidr));
       Some (n1 = 48 \<and> n2 = 64)
     } = Some True"

definition test_v6_cidr_network_address :: bool where
  "test_v6_cidr_network_address \<longleftrightarrow>
     do {
       a \<leftarrow> ipv6_from_str ''fd00::'';
       cidr \<leftarrow> ok_of (v6_new a 24);
       expected \<leftarrow> ipv6_from_str ''fd00::'';
       Some (v6_network cidr = expected)
     } = Some True"

definition test_v6_cidr_broadcast_address :: bool where
  "test_v6_cidr_broadcast_address \<longleftrightarrow>
     do {
       a \<leftarrow> ipv6_from_str ''fd00::'';
       cidr \<leftarrow> ok_of (v6_new a 24);
       expected \<leftarrow> ipv6_from_str ''fd00:ff:ffff:ffff:ffff:ffff:ffff:ffff'';
       Some (v6_broadcast cidr = expected)
     } = Some True"

definition test_v6_addresses :: "profile \<Rightarrow> bool" where
  "test_v6_addresses p \<longleftrightarrow>
     do {
       a \<leftarrow> ipv6_from_str ''fd00::'';
       cidr \<leftarrow> ok_of (v6_new a 96);
       n \<leftarrow> returned (v6_size p cidr :: (failure, usize) outcome);
       Some (n = 4294967296)
     } = Some True"

definition test_v6_iter_addresses :: "profile \<Rightarrow> bool" where
  "test_v6_iter_addresses p \<longleftrightarrow>
     do {
       a \<leftarrow> ipv6_from_str ''20f6:1b85:cc34::'';
       cidr \<leftarrow> ok_of (v6_new a 126);
       iter \<leftarrow> returned (v6_iter p cidr :: (failure, ipv6_cidr_iterator) outcome);
       n \<leftarrow> returned (v6_size p cidr :: (failure, usize) outcome);
       a1 \<leftarrow> ipv6_from_str ''20f6:1b85:cc34:0:0:0:0:0'';
       a2 \<leftarrow> ipv6_from_str ''20f6:1b85:cc34:0:0:0:0:1'';
       a3 \<leftarrow> ipv6_from_str ''20f6:1b85:cc34:0:0:0:0:2'';
       a4 \<leftarrow> ipv6_from_str ''20f6:1b85:cc34:0:0:0:0:3'';
       Some (n = 4 \<and> next_results (v6_next p) 5 iter
         = map Ok [Some a1, Some a2, Some a3, Some a4, None] @ ([] :: (failure, ipv6addr option) outcome list))
     } = Some True"

definition test_v6_cidr_contains_address :: bool where
  "test_v6_cidr_contains_address \<longleftrightarrow>
     do {
       cidr \<leftarrow> ok_of (v6_from_str ''acdc::0/16'');
       a1 \<leftarrow> ipv6_from_str ''acdc::1'';
       a2 \<leftarrow> ipv6_from_str ''acdb::1'';
       Some (v6_contains cidr a1 \<and> \<not> v6_contains cidr a2)
     } = Some True"

text \<open>
  The formatted text \<open>{}:{}:{}:{}:{}:{}:{}:{}/{}\<close> and the pattern \<open>[0-9a-f]{1,4}\<close> of the
  segments.
\<close>

definition v6_segment :: "string \<Rightarrow> bool" where
  "v6_segment s \<longleftrightarrow> 1 \<le> length s \<and> length s \<le> 4 \<and> list_all (\<lambda>c. c \<in> set ''0123456789abcdef'') s"

definition v6_test_text :: "string list \<Rightarrow> string \<Rightarrow> string" where
  "v6_test_text segments t = join '':'' segments @ ''/'' @ t"

definition proptest_v6_parse_cidr :: "string list \<Rightarrow> nat \<Rightarrow> bool" where
  "proptest_v6_parse_cidr segments len \<longleftrightarrow>
     ok_of (v6_from_str (v6_test_text segments (dec_string len))) \<noteq> None"

definition proptest_v6_parse_cidr_with_netmask :: "string list \<Rightarrow> bool" where
  "proptest_v6_parse_cidr_with_netmask segments \<longleftrightarrow>
     (let netmask = ipv6_of_segments [65535, 65535, 65535, 0, 0, 0, 0, 0];
          cidr = v6_test_text segments (ipv6_to_string netmask)
      in map_option v6_netmask (ok_of (v6_from_str cidr)) = Some netmask)"

section \<open>Evaluation\<close>

lemmas [test_simps] =
  ipv4_from_str_def read_ipv4_addr_def read_number_def read_char_def to_digit_def Let_def
  digits_val_def ipv4_new_def

lemmas text_simps = test_simps

lemma v4_literals [test_simps]:
  "ipv4_from_str ''10.0.0.0'' = Some 0x0A000000"
  "ipv4_from_str ''10.0.0.127'' = Some 0x0A00007F"
  "ipv4_from_str ''10.0.0.128'' = Some 0x0A000080"
  "ipv4_from_str ''127.0.0.1'' = Some 0x7F000001"
  "ipv4_from_str ''255.0.255.0'' = Some 0xFF00FF00"
  "ipv4_from_str ''10.1.0.0'' = Some 0x0A010000"
  "ipv4_from_str ''0.0.15.255'' = Some 0xFFF"
  "ipv4_from_str ''255.255.240.0'' = Some 0xFFFFF000"
  "ipv4_from_str ''10.1.0.8'' = Some 0x0A010008"
  "ipv4_from_str ''10.1.0.9'' = Some 0x0A010009"
  "ipv4_from_str ''10.1.0.10'' = Some 0x0A01000A"
  "ipv4_from_str ''10.1.0.11'' = Some 0x0A01000B"
  "ipv4_from_str ''10.1.15.255'' = Some 0x0A010FFF"
  by (simp_all add: text_simps)

lemma v4_mask_values [test_simps]:
  "prefix_mask 20 = (0xFFFFF000 :: u32)" "prefix_mask 24 = (0xFFFFFF00 :: u32)"
  "prefix_mask 25 = (0xFFFFFF80 :: u32)" "prefix_mask 30 = (0xFFFFFFFC :: u32)"
  by (simp_all add: prefix_mask_def mask_numeral)

lemma v4_query_tests:
  "test_v4_parse_bad_cidr" "test_v4_cidr_parse_error" "test_v4_hostmask" "test_v4_netmask"
  "test_v4_cidr_network_address" "test_v4_cidr_broadcast_address"
  by (simp_all add: test_v4_parse_bad_cidr_def test_v4_cidr_parse_error_def test_v4_hostmask_def
      test_v4_netmask_def test_v4_cidr_network_address_def test_v4_cidr_broadcast_address_def v4_literals
      v4_from_str_def v4_new_cases v4_mask_values v4_query_defs)

lemma prefix_mask_upward:
  "bit (prefix_mask k :: 'w::len word) i \<Longrightarrow> i \<le> j \<Longrightarrow> j < LENGTH('w) \<Longrightarrow> bit (prefix_mask k :: 'w word) j"
  by (auto simp: bit_prefix_mask)

lemma next_results_5:
  "next_results nxt 5 it =
     (case nxt it of (it1, r1) \<Rightarrow> case nxt it1 of (it2, r2) \<Rightarrow> case nxt it2 of (it3, r3) \<Rightarrow>
      case nxt it3 of (it4, r4) \<Rightarrow> case nxt it4 of (it5, r5) \<Rightarrow> [r1, r2, r3, r4, r5])"
  by (simp add: eval_nat_numeral split: prod.splits)

lemma v4_netmask_error_test: "test_v4_cidr_parse_error_with_netmask"
proof -
  have bits: "bit (0xFF00FF00 :: u32) 8" "\<not> bit (0xFF00FF00 :: u32) 16" by simp_all
  have "(0xFF00FF00 :: u32) \<noteq> prefix_mask k" for k
  proof
    assume "(0xFF00FF00 :: u32) = prefix_mask k"
    with prefix_mask_upward [of k 8 16, where 'w = 32] bits show False by simp
  qed
  then have "\<nexists>k. 0 < k \<and> k \<le> LENGTH(32) \<and> (0xFF00FF00 :: u32) = prefix_mask k" by blast
  then have "v4_netmask_length 0xFF00FF00 = Inl InvalidPrefixLength"
    unfolding v4_netmask_length_def netmask_test_iff Let_def by (rule if_not_P)
  then show ?thesis
    by (simp add: test_v4_cidr_parse_error_with_netmask_def v4_literals v4_with_netmask_def)
qed

lemma v4_size_tests: "test_v4_addresses p" "test_v4_iter_addresses p"
proof -
  have c: "v4_new 0x0A01000A 24 = Inr \<lparr>v4_addr = 0x0A01000A, v4_mask = prefix_mask 24\<rparr>"
    "v4_new 0x0A01000A 30 = Inr \<lparr>v4_addr = 0x0A01000A, v4_mask = prefix_mask 30\<rparr>"
    by (simp_all add: v4_new_cases)
  let ?c = "\<lparr>v4_addr = 0x0A01000A, v4_mask = prefix_mask 30\<rparr>"
  have "v4_valid ?c" "v4_length ?c = 30" by (simp_all add: v4_valid_def v4_length_prefix)
  then have "v4_iter p ?c = (Ok \<lparr>v4_it_next = Some 0x0A010008, v4_it_end = 0x0A01000B\<rparr> :: (failure, _) outcome)"
    by (simp add: v4_iter_valid v4_query_defs v4_mask_values)
  then show "test_v4_addresses p" "test_v4_iter_addresses p"
    by (simp_all add: test_v4_addresses_def test_v4_iter_addresses_def v4_literals c v4_size_valid
        v4_length_prefix v4_next_def word_add_Ok next_results_5)
qed

lemma v4_contains_test: "test_v4_cidr_contains_address"
  by (simp add: test_v4_cidr_contains_address_def v4_from_str_def v4_literals v4_new_cases
      v4_mask_values v4_query_defs from_str_radix_def text_simps usize_limit_def)

text \<open>The property-based tests for IPv4, on the text of any address.\<close>

lemma ipv4_octets_new:
  assumes "a < 256" "b < 256" "c < 256" "d < 256"
  shows "ipv4_octets (ipv4_new a b c d) = [a, b, c, d]"
proof -
  define x where "x = a * 256 + b"
  define y where "y = x * 256 + c"
  define z where "z = y * 256 + d"
  have "z < 2 ^ 32" using assms by (simp add: x_def y_def z_def)
  then have u: "unat (ipv4_new a b c d) = z"
    unfolding ipv4_new_def x_def [symmetric] y_def [symmetric] z_def [symmetric] by (subst unat_of_nat) simp
  have dm: "(k * 256 + r) div 256 = k" "(k * 256 + r) mod 256 = r" if "r < 256" for k r :: nat
    using that by simp_all
  have "z div 256 = y" "z mod 256 = d" "y div 256 = x" "y mod 256 = c" "x div 256 = a" "x mod 256 = b"
    unfolding x_def y_def z_def using assms by (simp_all only: dm)
  moreover have "n div 2 ^ 24 = n div 256 div 256 div 256" "n div 2 ^ 16 = n div 256 div 256"
    "n div 2 ^ 8 = n div 256" for n :: nat
    by (simp_all add: div_mult2_eq [symmetric])
  ultimately show ?thesis by (simp only: ipv4_octets_def u)
qed

lemma v4_test_text_address:
  assumes "a < 256" "b < 256" "c < 256" "d < 256"
  shows "v4_test_text a b c d t = ipv4_to_string (ipv4_new a b c d) @ CHR ''/'' # t"
  using assms by (simp add: v4_test_text_def ipv4_to_string_def ipv4_octets_new)

lemma v4_parse_length:
  assumes "a < 256" "b < 256" "c < 256" "d < 256" "len \<le> 32"
  shows "map_option v4_length (ok_of (v4_from_str (v4_test_text a b c d (dec_string len))))
    = Some (if len = 0 then 32 else len)"
proof -
  have "len < usize_limit" using assms(5) by (simp add: usize_limit_def)
  then have "v4_from_str (v4_test_text a b c d (dec_string len)) = v4_new (ipv4_new a b c d) len"
    using assms by (simp add: v4_test_text_address v4_from_str_slash dec_string_no_slash from_str_radix_dec_string)
  with assms(5) show ?thesis by (simp add: v4_new_cases v4_length_prefix)
qed

text \<open>A netmask in place of the length, whatever the netmask.\<close>

lemma v4_parse_netmask:
  assumes "a < 256" "b < 256" "c < 256" "d < 256"
  shows "map_option v4_netmask (ok_of (v4_from_str (v4_test_text a b c d (ipv4_to_string nm))))
    = (if \<exists>k. 0 < k \<and> k \<le> 32 \<and> nm = prefix_mask k then Some nm else None)"
proof -
  have "v4_from_str (v4_test_text a b c d (ipv4_to_string nm)) = v4_with_netmask (ipv4_new a b c d) nm"
    using assms by (simp add: v4_test_text_address v4_from_str_slash ipv4_to_string_no_slash
        from_str_radix_ipv4 ipv4_from_to_string)
  then show ?thesis
    using v4_netmask_length_prefix v4_netmask_length_Inr [of nm]
    by (cases "v4_netmask_length nm") (auto simp: v4_with_netmask_def v4_new_cases v4_netmask_def)
qed

lemma v4_proptests:
  assumes "a < 256" "b < 256" "c < 256" "d < 256"
  shows "len \<le> 32 \<Longrightarrow> proptest_v4_parse_cidr a b c d len" "proptest_v4_parse_cidr_with_netmask a b c d"
proof -
  show "proptest_v4_parse_cidr a b c d len" if "len \<le> 32"
    using v4_parse_length [OF assms that] by (auto simp: proptest_v4_parse_cidr_def)
  have "ipv4_new 255 0 0 0 = prefix_mask 8" by (simp add: ipv4_new_def prefix_mask_def mask_numeral)
  moreover have "\<exists>k. 0 < k \<and> k \<le> 32 \<and> (prefix_mask 8 :: u32) = prefix_mask k" by (intro exI [of _ 8]) simp
  ultimately show "proptest_v4_parse_cidr_with_netmask a b c d"
    by (simp only: proptest_v4_parse_cidr_with_netmask_def Let_def v4_parse_netmask [OF assms] if_True)
qed

lemma replicate_zeros [test_simps]:
  "replicate 2 (0 :: nat) = [0, 0]" "replicate 3 (0 :: nat) = [0, 0, 0]"
  "replicate 4 (0 :: nat) = [0, 0, 0, 0]" "replicate 5 (0 :: nat) = [0, 0, 0, 0, 0]"
  "replicate 6 (0 :: nat) = [0, 0, 0, 0, 0, 0]" "replicate 7 (0 :: nat) = [0, 0, 0, 0, 0, 0, 0]"
  by (simp_all add: eval_nat_numeral)

lemmas v6_text_simps = text_simps replicate_zeros ipv6_from_str_def read_ipv6_addr_def
  read_groups.simps read_separator_def ipv6_of_segments_def

lemma v6_literals [test_simps]:
  "ipv6_from_str ''acdc::1'' = Some 0xacdc0000000000000000000000000001"
  "ipv6_from_str ''acdb::1'' = Some 0xacdb0000000000000000000000000001"
  "ipv6_from_str ''acdc::0'' = Some 0xacdc0000000000000000000000000000"
  "ipv6_from_str ''fd00::'' = Some 0xfd000000000000000000000000000000"
  "ipv6_from_str ''ffff:ff00::'' = Some 0xffffff00000000000000000000000000"
  "ipv6_from_str ''ffff:ffff:ffff::'' = Some 0xffffffffffff00000000000000000000"
  "ipv6_from_str ''20f6:1b85:cc34::'' = Some 0x20f61b85cc3400000000000000000000"
  "ipv6_from_str ''ff01:0:0:17::2'' = Some 0xff010000000000170000000000000002"
  "ipv6_from_str ''0:0:ffff:ffff::'' = Some 0x00000000ffffffff0000000000000000"
  "ipv6_from_str ''5d88:2be8:9cc7:0f86::'' = Some 0x5d882be89cc70f860000000000000000"
  by (simp_all add: v6_text_simps)

lemma v6_long_literals [test_simps]:
  "ipv6_from_str ''::ff:ffff:ffff:ffff:ffff:ffff:ffff'' = Some 0xffffffffffffffffffffffffff"
  "ipv6_from_str ''fd00:ff:ffff:ffff:ffff:ffff:ffff:ffff'' = Some 0xfd0000ffffffffffffffffffffffffff"
  "ipv6_from_str ''20f6:1b85:cc34:0:0:0:0:0'' = Some 0x20f61b85cc3400000000000000000000"
  "ipv6_from_str ''20f6:1b85:cc34:0:0:0:0:1'' = Some 0x20f61b85cc3400000000000000000001"
  "ipv6_from_str ''20f6:1b85:cc34:0:0:0:0:2'' = Some 0x20f61b85cc3400000000000000000002"
  "ipv6_from_str ''20f6:1b85:cc34:0:0:0:0:3'' = Some 0x20f61b85cc3400000000000000000003"
  by (simp_all add: v6_text_simps)

lemma v6_mask_values [test_simps]:
  "prefix_mask 16 = (0xffff0000000000000000000000000000 :: u128)"
  "prefix_mask 24 = (0xffffff00000000000000000000000000 :: u128)"
  "prefix_mask 48 = (0xffffffffffff00000000000000000000 :: u128)"
  "prefix_mask 126 = (0xfffffffffffffffffffffffffffffffc :: u128)"
  by (simp_all add: prefix_mask_def mask_numeral)

lemma v6_query_tests:
  "test_v6_parse_bad_cidr" "test_v6_cidr_parse_error" "test_v6_hostmask" "test_v6_netmask"
  "test_v6_cidr_network_address" "test_v6_cidr_broadcast_address"
  by (simp_all add: test_v6_parse_bad_cidr_def test_v6_cidr_parse_error_def test_v6_hostmask_def
      test_v6_netmask_def test_v6_cidr_network_address_def test_v6_cidr_broadcast_address_def v6_literals
      v6_long_literals v6_from_str_def v6_new_cases v6_mask_values v6_query_defs)

lemma v6_netmask_error_test: "test_v6_cidr_parse_error_with_netmask"
proof -
  have bits: "bit (0xffffffff0000000000000000 :: u128) 64" "\<not> bit (0xffffffff0000000000000000 :: u128) 127" by simp_all
  have "(0xffffffff0000000000000000 :: u128) \<noteq> prefix_mask k" for k
  proof
    assume "(0xffffffff0000000000000000 :: u128) = prefix_mask k"
    with prefix_mask_upward [of k 64 127, where 'w = 128] bits show False by simp
  qed
  then have "\<nexists>k. 0 < k \<and> k \<le> LENGTH(128) \<and> (0xffffffff0000000000000000 :: u128) = prefix_mask k" by blast
  then have "v6_netmask_length 0xffffffff0000000000000000 = Inl InvalidPrefixLength"
    unfolding v6_netmask_length_def netmask_test_iff Let_def by (rule if_not_P)
  then show ?thesis
    by (simp add: test_v6_cidr_parse_error_with_netmask_def v6_literals v6_with_netmask_def)
qed

lemma v6_netmask_length_test: "test_v6_netmask_length"
proof -
  have nl: "v6_netmask_length (prefix_mask 48) = Inr 48" "v6_netmask_length (prefix_mask 64) = Inr 64"
    by (rule v6_netmask_length_prefix; simp)+
  have "from_str_radix 10 usize_limit ''64'' = Some 64"
    by (simp add: from_str_radix_def text_simps usize_limit_def)
  then show ?thesis
    by (simp add: test_v6_netmask_length_def v6_from_str_def v6_literals v6_new_cases v6_netmask_def nl
        flip: v6_mask_values(3))
qed

lemma v6_size_tests: "test_v6_addresses p" "test_v6_iter_addresses p"
proof -
  let ?c = "\<lparr>v6_addr = 0x20f61b85cc3400000000000000000000, v6_mask = prefix_mask 126\<rparr>"
  have "v6_valid ?c" "v6_length ?c = 126" by (simp_all add: v6_valid_def v6_length_prefix)
  then have "v6_iter p ?c = (Ok \<lparr>v6_it_next = Some 0x20f61b85cc3400000000000000000000,
      v6_it_end = 0x20f61b85cc3400000000000000000003\<rparr> :: (failure, _) outcome)"
    by (simp add: v6_iter_valid v6_query_defs v6_mask_values)
  then show "test_v6_addresses p" "test_v6_iter_addresses p"
    by (simp_all add: test_v6_addresses_def test_v6_iter_addresses_def v6_literals v6_long_literals
        v6_new_cases v6_size_fits v6_length_prefix v6_next_def word_add_Ok next_results_5)
qed

lemma v6_contains_test: "test_v6_cidr_contains_address"
  by (simp add: test_v6_cidr_contains_address_def v6_from_str_def v6_literals v6_new_cases
      v6_mask_values v6_query_defs from_str_radix_def text_simps usize_limit_def)

text \<open>The property-based tests for IPv6: any eight segments parse.\<close>

lemma digits_val_less: "2 \<le> r \<Longrightarrow> list_all (\<lambda>d. d < r) ds \<Longrightarrow> digits_val r ds < r ^ length ds"
proof (induction ds rule: rev_induct)
  case (snoc d ds)
  then have "digits_val r ds + 1 \<le> r ^ length ds" "d < r" by auto
  then have "(digits_val r ds + 1) * r \<le> r ^ length ds * r" by (intro mult_right_mono) auto
  with \<open>d < r\<close> show ?case by (simp add: algebra_simps)
qed (simp add: digits_val_def)

lemma read_number_segment:
  assumes "list_all (\<lambda>d. d < 16) ds" "ds \<noteq> []" "length ds \<le> 4" "rest = [] \<or> to_digit 16 (hd rest) = None"
  shows "read_number 16 65536 4 True (map digit_char ds @ rest) = Some (digits_val 16 ds, rest)"
proof -
  have tw: "takeWhile (\<lambda>c. to_digit 16 c \<noteq> None) (map digit_char ds @ rest) = map digit_char ds"
    using assms by (intro takeWhile_digits) simp_all
  have "digits_val 16 ds < 16 ^ length ds" using assms(1) by (intro digits_val_less) simp_all
  moreover have "(16 :: nat) ^ length ds \<le> 16 ^ 4" using assms(3) by (intro power_increasing) simp_all
  ultimately have "digits_val 16 ds < 65536" by simp
  moreover have "map (the \<circ> to_digit 16) (map digit_char ds) = ds"
    using assms(1) by (intro map_the_to_digit) simp_all
  ultimately show ?thesis
    using assms by (simp only: read_number_def tw Let_def) simp
qed

lemma v6_segment_digits:
  assumes "v6_segment s"
  obtains ds where "s = map digit_char ds" "list_all (\<lambda>d. d < 16) ds" "ds \<noteq> []" "length ds \<le> 4"
proof -
  have "\<exists>d < 16. c = digit_char d" if "c \<in> set s" for c
  proof -
    have "c \<in> set ''0123456789abcdef''" using assms that by (auto simp: v6_segment_def list_all_iff)
    moreover have "list_all (\<lambda>c. the (to_digit 16 c) < 16 \<and> c = digit_char (the (to_digit 16 c))) ''0123456789abcdef''"
      by (simp add: to_digit_def digit_char_def char_of_def bit_0 Let_def)
    ultimately show ?thesis unfolding list_all_iff by blast
  qed
  then have "\<exists>ds. s = map digit_char ds \<and> list_all (\<lambda>d. d < 16) ds"
  proof (induction s)
    case (Cons c s)
    obtain d where "d < 16" "c = digit_char d" using Cons.prems [of c] by auto
    moreover obtain ds where "s = map digit_char ds" "list_all (\<lambda>d. d < 16) ds"
      using Cons.IH Cons.prems by (metis list.set_intros(2))
    ultimately show ?case by (intro exI [of _ "d # ds"]) simp
  qed simp
  then obtain ds where ds: "s = map digit_char ds" "list_all (\<lambda>d. d < 16) ds" by blast
  moreover have "1 \<le> length s" "length s \<le> 4" using assms by (simp_all add: v6_segment_def)
  then have "ds \<noteq> []" "length ds \<le> 4" using ds(1) by auto
  ultimately show ?thesis by (rule that)
qed

text \<open>The segments as they stand from slot \<open>i\<close> on.\<close>

fun segments_text :: "nat \<Rightarrow> string list \<Rightarrow> string" where
  "segments_text i [] = []"
| "segments_text i (s # ss) = (if 0 < i then '':'' else []) @ s @ segments_text (Suc i) ss"

lemma join_segments: "join '':'' ss = segments_text 0 ss"
proof -
  have "segments_text (Suc i) (s # ss) = '':'' @ join '':'' (s # ss)" for i s ss
    by (induction ss arbitrary: i s) auto
  then show ?thesis by (cases ss; cases "tl ss") auto
qed

lemma v6_segment_chars:
  assumes "v6_segment s"
  shows "CHR ''.'' \<notin> set s" "CHR ''/'' \<notin> set s"
proof -
  have "CHR ''.'' \<notin> set ''0123456789abcdef''" "CHR ''/'' \<notin> set ''0123456789abcdef''" by simp_all
  then show "CHR ''.'' \<notin> set s" "CHR ''/'' \<notin> set s"
    using assms unfolding v6_segment_def list_all_iff by blast+
qed

lemma segments_text_chars:
  assumes "list_all v6_segment ss"
  shows "CHR ''.'' \<notin> set (segments_text i ss)" "CHR ''/'' \<notin> set (segments_text i ss)"
  using assms by (induction ss arbitrary: i) (auto simp: v6_segment_chars)

lemma read_groups_segments:
  assumes "list_all v6_segment ss" "i + length ss \<le> limit"
  shows "\<exists>gs. read_groups limit i (segments_text i ss) = (gs, False, []) \<and> length gs = length ss"
  using assms
proof (induction ss arbitrary: i)
  case Nil
  then show ?case using read_groups_stop [of "[]"] by (simp add: stops_def)
next
  case (Cons s ss)
  obtain ds where ds: "s = map digit_char ds" "list_all (\<lambda>d. d < 16) ds" "ds \<noteq> []" "length ds \<le> 4"
    using Cons.prems(1) v6_segment_digits by auto
  let ?t = "segments_text (Suc i) ss"
  have sep: "read_separator CHR '':'' i (segments_text i (s # ss)) = Some (s @ ?t)"
    by (simp add: read_separator_def read_char_def)
  have v4: "read_ipv4_addr (s @ ?t) = None"
    using Cons.prems(1) by (intro read_ipv4_no_dot) (simp add: v6_segment_chars segments_text_chars)
  have "?t = [] \<or> to_digit 16 (hd ?t) = None" by (cases ss) auto
  then have num: "read_number 16 65536 4 True (s @ ?t) = Some (digits_val 16 ds, ?t)"
    unfolding ds(1) using ds by (intro read_number_segment)
  obtain gs where "read_groups limit (Suc i) ?t = (gs, False, [])" "length gs = length ss"
    using Cons.IH [of "Suc i"] Cons.prems by auto
  then show ?case using Cons.prems(2)
    by (subst read_groups.simps) (simp only: sep bind.bind_lunit v4 num if_cancel, simp)
qed

lemma v6_from_str_segments:
  assumes "list_all v6_segment ss" "length ss = 8" "list_all (\<lambda>c. c \<noteq> CHR ''/'') t"
  shows "\<exists>a. v6_from_str (v6_test_text ss t) =
    (case from_str_radix 10 usize_limit t of
       Some len \<Rightarrow> v6_new a len
     | None \<Rightarrow> (case ipv6_from_str t of
                  None \<Rightarrow> Inl (Malformed ipv6_parse_error)
                | Some nm \<Rightarrow> v6_with_netmask a nm))"
proof -
  let ?s = "segments_text 0 ss"
  obtain gs where "read_groups 8 0 ?s = (gs, False, [])" "length gs = 8"
    using read_groups_segments [OF assms(1), of 0 8] assms(2) by auto
  then have "ipv6_from_str ?s = Some (ipv6_of_segments gs)"
    by (simp add: ipv6_from_str_def read_ipv6_addr_def)
  moreover have "list_all (\<lambda>c. c \<noteq> CHR ''/'') ?s"
    using segments_text_chars(2) [OF assms(1), of 0] by (auto simp: list_all_iff)
  then have "split_on (\<lambda>c. c = CHR ''/'') (?s @ CHR ''/'' # t) = [?s, t]"
    using split_on_append [of "\<lambda>c. c = CHR ''/''" ?s "CHR ''/''" t]
      split_on_none [of "\<lambda>c. c = CHR ''/''" t] assms(3) by simp
  ultimately show ?thesis
    by (intro exI [of _ "ipv6_of_segments gs"]) (simp add: v6_from_str_def v6_test_text_def join_segments)
qed

lemma v6_parse_length:
  assumes "list_all v6_segment ss" "length ss = 8" "len \<le> 128"
  shows "map_option v6_length (ok_of (v6_from_str (v6_test_text ss (dec_string len))))
    = Some (if len = 0 then 128 else len)"
proof -
  have "len < usize_limit" using assms(3) by (simp add: usize_limit_def)
  with v6_from_str_segments [OF assms(1,2) dec_string_no_slash, of len]
  obtain a where "v6_from_str (v6_test_text ss (dec_string len)) = v6_new a len"
    by (auto simp: from_str_radix_dec_string)
  with assms(3) show ?thesis by (simp add: v6_new_cases v6_length_prefix)
qed

lemma v6_parse_netmask:
  assumes "list_all v6_segment ss" "length ss = 8"
  shows "map_option v6_netmask (ok_of (v6_from_str (v6_test_text ss (ipv6_to_string nm))))
    = (if \<exists>k. 0 < k \<and> k \<le> 128 \<and> nm = prefix_mask k then Some nm else None)"
proof -
  from v6_from_str_segments [OF assms ipv6_to_string_no_slash, of nm]
  obtain a where "v6_from_str (v6_test_text ss (ipv6_to_string nm)) = v6_with_netmask a nm"
    by (auto simp: from_str_radix_ipv6 ipv6_from_to_string)
  then show ?thesis
    using v6_netmask_length_prefix v6_netmask_length_Inr [of nm]
    by (cases "v6_netmask_length nm") (auto simp: v6_with_netmask_def v6_new_cases v6_netmask_def)
qed

lemma v6_proptests:
  assumes "list_all v6_segment ss" "length ss = 8"
  shows "len \<le> 128 \<Longrightarrow> proptest_v6_parse_cidr ss len" "proptest_v6_parse_cidr_with_netmask ss"
proof -
  show "proptest_v6_parse_cidr ss len" if "len \<le> 128"
    using v6_parse_length [OF assms that] by (auto simp: proptest_v6_parse_cidr_def)
  have "ipv6_of_segments [65535, 65535, 65535, 0, 0, 0, 0, 0] = prefix_mask 48"
    by (simp add: ipv6_of_segments_def v6_mask_values)
  moreover have "\<exists>k. 0 < k \<and> k \<le> 128 \<and> (prefix_mask 48 :: u128) = prefix_mask k"
    by (intro exI [of _ 48]) simp
  ultimately show "proptest_v6_parse_cidr_with_netmask ss"
    by (simp only: proptest_v6_parse_cidr_with_netmask_def Let_def v6_parse_netmask [OF assms] if_True)
qed

section \<open>Properties\<close>

text \<open>Every unit test of the two CIDR modules passes, in either build profile.\<close>

lemma cidr_tests_pass:
  "(test_v4_parse_bad_cidr \<and> test_v4_cidr_parse_error \<and> test_v4_cidr_parse_error_with_netmask
     \<and> test_v4_hostmask \<and> test_v4_netmask \<and> test_v4_cidr_network_address
     \<and> test_v4_cidr_broadcast_address \<and> test_v4_addresses p \<and> test_v4_iter_addresses p
     \<and> test_v4_cidr_contains_address)
   \<and> (test_v6_parse_bad_cidr \<and> test_v6_cidr_parse_error \<and> test_v6_cidr_parse_error_with_netmask
     \<and> test_v6_hostmask \<and> test_v6_netmask \<and> test_v6_netmask_length \<and> test_v6_cidr_network_address
     \<and> test_v6_cidr_broadcast_address \<and> test_v6_addresses p \<and> test_v6_iter_addresses p
     \<and> test_v6_cidr_contains_address)"
  by (simp add: v4_query_tests v4_netmask_error_test v4_size_tests v4_contains_test
      v6_query_tests v6_netmask_error_test v6_netmask_length_test v6_size_tests v6_contains_test)

text \<open>
  C40: The property-based tests hold for every input and not only for the sampled ones: with every
  dotted address, or every eight segments of one to four hexadecimal digits, and every prefix
  length up to 32 or 128, the text parses, and so it does with the one netmask that each test
  fixes. Beyond the tests: the parsed range has the given length (32 or 128 for 0), and of all
  netmasks exactly the prefixes of ones of length at least 1 parse, to a range with that netmask.
\<close>

theorem cidr_proptests_hold:
  assumes "list_all (\<lambda>x. x < 256) [a, b, c, d]" "len4 \<le> 32"
    and "list_all v6_segment segments" "length segments = 8" "len6 \<le> 128"
  shows "proptest_v4_parse_cidr a b c d len4 \<and> proptest_v4_parse_cidr_with_netmask a b c d
    \<and> map_option v4_length (ok_of (v4_from_str (v4_test_text a b c d (dec_string len4))))
        = Some (if len4 = 0 then 32 else len4)
    \<and> map_option v4_netmask (ok_of (v4_from_str (v4_test_text a b c d (ipv4_to_string nm4))))
        = (if \<exists>k. 0 < k \<and> k \<le> 32 \<and> nm4 = prefix_mask k then Some nm4 else None)
    \<and> proptest_v6_parse_cidr segments len6 \<and> proptest_v6_parse_cidr_with_netmask segments
    \<and> map_option v6_length (ok_of (v6_from_str (v6_test_text segments (dec_string len6))))
        = Some (if len6 = 0 then 128 else len6)
    \<and> map_option v6_netmask (ok_of (v6_from_str (v6_test_text segments (ipv6_to_string nm6))))
        = (if \<exists>k. 0 < k \<and> k \<le> 128 \<and> nm6 = prefix_mask k then Some nm6 else None)"
  using assms by (simp add: v4_proptests v4_parse_length v4_parse_netmask v6_proptests v6_parse_length
      v6_parse_netmask)

theorem cidr_proptests_hold_witness:
  "ok_of (v4_from_str (v4_test_text 10 1 0 10 (dec_string 20))) \<noteq> None
   \<and> ok_of (v4_from_str (v4_test_text 10 1 0 10 (ipv4_to_string (prefix_mask 20)))) \<noteq> None
   \<and> ok_of (v6_from_str (v6_test_text (replicate 8 ''0f86'') (dec_string 64))) \<noteq> None"
proof -
  have "v6_segment ''0f86''" by (simp add: v6_segment_def)
  then have "list_all v6_segment (replicate 8 ''0f86'')" by (simp add: list_all_iff)
  note test = cidr_proptests_hold [OF _ _ this, of 10 1 0 10 20 64 "prefix_mask 20" 0]
  have "\<exists>k. 0 < k \<and> k \<le> 32 \<and> (prefix_mask 20 :: u32) = prefix_mask k" by (intro exI [of _ 20]) simp
  with test show ?thesis
    by (auto simp: proptest_v4_parse_cidr_def proptest_v6_parse_cidr_def)
qed

end
