(* ===== verification/Unit_Tests.thy ===== *)
theory Unit_Tests
  imports Cidr_Tests
begin

text \<open>
  The unit tests of \<open>engine/src/net/mac.rs\<close> and \<open>engine/src/config.rs\<close>, run on the model. The two
  configuration tests parse a TOML text, which another package does: here they start from the table the
  text denotes. A device name is matched against the PCIe pattern by an argument.
\<close>

section \<open>MAC addresses\<close>

definition test_mac_addr_to_string :: bool where
  "test_mac_addr_to_string \<longleftrightarrow>
     mac_to_string (mac_new 0 0 0 0 0 0) = ''00:00:00:00:00:00''
     \<and> mac_to_string (mac_new 255 255 255 255 255 255) = ''ff:ff:ff:ff:ff:ff''
     \<and> mac_to_string (mac_new 0x12 0x34 0x56 0xAB 0xCD 0xEF) = ''12:34:56:ab:cd:ef''"

definition test_string_to_mac_addr :: bool where
  "test_string_to_mac_addr \<longleftrightarrow>
     ok_of (mac_from_str ''00:00:00:00:00:00'') = Some (mac_new 0 0 0 0 0 0)
     \<and> ok_of (mac_from_str ''ff:ff:ff:ff:ff:ff'') = Some (mac_new 255 255 255 255 255 255)
     \<and> ok_of (mac_from_str ''12:34:56:ab:cd:ef'') = Some (mac_new 0x12 0x34 0x56 0xAB 0xCD 0xEF)"

lemma mac_tests: "test_mac_addr_to_string" "test_string_to_mac_addr"
proof -
  show "test_mac_addr_to_string"
    by (simp add: test_mac_addr_to_string_def mac_new_def hex02_def digit_char_def char_of_def bit_0)
  then have t: "''00:00:00:00:00:00'' = mac_to_string (mac_new 0 0 0 0 0 0)"
    "''ff:ff:ff:ff:ff:ff'' = mac_to_string (mac_new 255 255 255 255 255 255)"
    "''12:34:56:ab:cd:ef'' = mac_to_string (mac_new 0x12 0x34 0x56 0xAB 0xCD 0xEF)"
    by (simp_all only: test_mac_addr_to_string_def)
  have rt: "mac_from_str (mac_to_string (mac_new a b c d e f)) = Inr (mac_new a b c d e f)" for a b c d e f
    unfolding mac_new_def mac_from_str_Inr_iff by (rule mac_pieces_to_string)
  show "test_string_to_mac_addr"
    unfolding test_string_to_mac_addr_def t by (simp only: rt ok_of.simps simp_thms)
qed

section \<open>Configuration\<close>

definition raw_port_none :: raw_port where
  "raw_port_none =
     \<lparr>raw_name = None, raw_device = None, raw_args = None, raw_port_cores = None, raw_rxd = None,
      raw_txd = None, raw_promiscuous = None, raw_multicast = None, raw_kni = None\<rparr>"

definition raw_runtime_none :: raw_runtime where
  "raw_runtime_none =
     \<lparr>raw_unknown = [], raw_app_name = None, raw_secondary = None, raw_app_group = None,
      raw_master_core = None, raw_cores = None, raw_mempool_table = None, raw_ports = None,
      raw_dpdk_args = None, raw_duration = None\<rparr>"

text \<open>The constant \<open>CONFIG\<close> of the first test, as a table.\<close>

definition defaults_table :: raw_runtime where
  "defaults_table = raw_runtime_none
     \<lparr>raw_app_name := Some ''myapp'', raw_master_core := Some 0,
      raw_ports := Some [raw_port_none
        \<lparr>raw_name := Some ''eth0'', raw_device := Some ''0000:00:01.0'', raw_port_cores := Some [2, 3]\<rparr>]\<rparr>"

definition test_config_defaults :: bool where
  "test_config_defaults \<longleftrightarrow>
     (case runtime_config_of defaults_table of
        Inl _ \<Rightarrow> False
      | Inr config \<Rightarrow>
          secondary config = False \<and> app_group config = None \<and> rc_cores config = []
          \<and> dpdk_args config = None
          \<and> mp_capacity (rc_mempool config) = default_capacity
          \<and> mp_cache_size (rc_mempool config) = default_cache_size
          \<and> rc_ports config \<noteq> []
          \<and> (let port = hd (rc_ports config)
             in pc_args port = None \<and> pc_rxd port = default_port_rxd \<and> pc_txd port = default_port_txd
                \<and> pc_promiscuous port = False \<and> pc_multicast port = default_multicast_mode
                \<and> pc_kni port = False))"

text \<open>The constant \<open>CONFIG\<close> of the second test.\<close>

definition eal_args_table :: raw_runtime where
  "eal_args_table = raw_runtime_none
     \<lparr>raw_app_name := Some ''myapp'', raw_secondary := Some False, raw_app_group := Some ''mygroup'',
      raw_master_core := Some 0, raw_cores := Some [1], raw_dpdk_args := Some ''-v --log-level eal:8'',
      raw_mempool_table := Some \<lparr>raw_capacity = Some 255, raw_cache_size = Some 16\<rparr>,
      raw_ports := Some
        [raw_port_none
           \<lparr>raw_name := Some ''eth0'', raw_device := Some ''0000:00:01.0'', raw_port_cores := Some [2, 3],
            raw_rxd := Some 32, raw_txd := Some 32\<rparr>,
         raw_port_none
           \<lparr>raw_name := Some ''eth1'', raw_device := Some ''net_pcap0'', raw_args := Some ''rx=lo,tx=lo'',
            raw_port_cores := Some [0, 4], raw_rxd := Some 32, raw_txd := Some 32\<rparr>]\<rparr>"

definition test_config_to_eal_args :: "(string \<Rightarrow> string \<Rightarrow> bool) \<Rightarrow> bool" where
  "test_config_to_eal_args is_match \<longleftrightarrow>
     (case runtime_config_of eal_args_table of
        Inl _ \<Rightarrow> False
      | Inr config \<Rightarrow>
          to_eal_args is_match config =
            [''myapp'', ''--proc-type'', ''primary'', ''--file-prefix'', ''mygroup'',
             ''--pci-whitelist'', ''0000:00:01.0'', ''--vdev'', ''net_pcap0,rx=lo,tx=lo'',
             ''--master-lcore'', ''0'', ''-l'', ''0'', ''-v'', ''--log-level'', ''eal:8''])"

lemma defaults_test: "test_config_defaults"
  by (simp add: test_config_defaults_def defaults_table_def raw_runtime_none_def raw_port_none_def
      runtime_config_of_def port_config_of_def mempool_config_of_def mempool_config_default_def or_default_def Let_def)

text \<open>What \<open>to_eal_args\<close> gives for the second test: the cores of the ports, not the master core.\<close>

lemma eal_args_of_table:
  assumes "is_match PCIE ''0000:00:01.0''" "\<not> is_match PCIE ''net_pcap0''"
  shows "\<exists>config. runtime_config_of eal_args_table = Inr config \<and> to_eal_args is_match config =
    [''myapp'', ''--proc-type'', ''primary'', ''--file-prefix'', ''mygroup'', ''--pci-whitelist'', ''0000:00:01.0'',
     ''--vdev'', ''net_pcap0,rx=lo,tx=lo'', ''--master-lcore'', ''0'', ''-l'', ''2, 3, 0, 4'', ''-v'', ''--log-level'',
     ''eal:8'']"
proof -
  have "dec_string 0 = ''0''" "dec_string 2 = ''2''" "dec_string 3 = ''3''" "dec_string 4 = ''4''" by code_simp+
  moreover have "split_ascii_whitespace ''-v --log-level eal:8'' = [''-v'', ''--log-level'', ''eal:8'']"
    by code_simp
  ultimately show ?thesis
    using assms
    by (simp add: eal_args_table_def raw_runtime_none_def raw_port_none_def runtime_config_of_def or_default_def
        port_config_of_def core_id_deserialize_def core_new_def to_eal_args_def port_eal_args_def core_list_def Let_def)
qed

section \<open>Properties\<close>

text \<open>
  C39: The unit tests of the repository, run on the model. All of the CIDR modules (in either build
  profile) and of the MAC addresses pass, and so does that of the configuration defaults. The test of
  \<open>to_eal_args\<close> fails for every matcher that tells the PCIe address from the virtual device: it expects
  the master core after \<open>-l\<close>, and the code gives the cores of the ports.
\<close>

theorem unit_tests:
  assumes "is_match PCIE ''0000:00:01.0''" "\<not> is_match PCIE ''net_pcap0''"
  shows "(test_v4_parse_bad_cidr \<and> test_v4_cidr_parse_error \<and> test_v4_cidr_parse_error_with_netmask
      \<and> test_v4_hostmask \<and> test_v4_netmask \<and> test_v4_cidr_network_address
      \<and> test_v4_cidr_broadcast_address \<and> test_v4_addresses p \<and> test_v4_iter_addresses p
      \<and> test_v4_cidr_contains_address)
    \<and> (test_v6_parse_bad_cidr \<and> test_v6_cidr_parse_error \<and> test_v6_cidr_parse_error_with_netmask
      \<and> test_v6_hostmask \<and> test_v6_netmask \<and> test_v6_netmask_length \<and> test_v6_cidr_network_address
      \<and> test_v6_cidr_broadcast_address \<and> test_v6_addresses p \<and> test_v6_iter_addresses p
      \<and> test_v6_cidr_contains_address)
    \<and> test_mac_addr_to_string \<and> test_string_to_mac_addr
    \<and> test_config_defaults \<and> \<not> test_config_to_eal_args is_match"
  using cidr_tests_pass [of p] eal_args_of_table [of is_match, OF assms]
  by (auto simp: mac_tests defaults_test test_config_to_eal_args_def)

theorem unit_tests_witness:
  "test_v4_iter_addresses Dev \<and> test_config_defaults \<and> \<not> test_config_to_eal_args (\<lambda>_ s. s = ''0000:00:01.0'')"
  using unit_tests [of "\<lambda>_ s. s = ''0000:00:01.0''" Dev] by simp

end
