(* ===== verification/Metrics.thy ===== *)
theory Metrics
  imports Prelude
begin

text \<open>
  The metrics store of \<open>engine/src/metrics.rs\<close>, a file that \<open>lib.rs\<close> comments out: the global
  receiver, which is set once, the lazy root sink and the registration of port and pool
  statistics. The cell is \<open>OnceCell\<close> of the package \<open>once_cell\<close>, whose documented behaviour is
  the locale \<open>once_cell\<close>; the receiver and its sinks are those of \<open>metrics_runtime\<close>, a record of
  functions. \<open>Port::stats\<close>, \<open>Mempool::stats\<close> and what they collect are arguments: the repository
  calls them but does not have them.
\<close>

section \<open>The cell and the sinks\<close>

record ('r, 'c) once_ops =
  oc_new :: 'c
  oc_get :: "'c \<Rightarrow> 'r option"
  oc_set :: "'r \<Rightarrow> 'c \<Rightarrow> 'c \<times> ('r, unit) outcome"

locale once_cell =
  fixes ops :: "('r, 'c) once_ops"
  assumes new: "oc_get ops (oc_new ops) = None"
    and set_empty: "oc_get ops c = None \<Longrightarrow> \<exists>c'. oc_set ops r c = (c', Ok ()) \<and> oc_get ops c' = Some r"
    and set_full: "oc_get ops c = Some q \<Longrightarrow> oc_set ops r c = (c, Err r)"
begin

lemma set_keeps: "oc_get ops c = Some q \<Longrightarrow> oc_get ops (fst (oc_set ops r c)) = Some q"
  by (simp add: set_full)

lemma get_after_set: "oc_get ops (fst (oc_set ops r c)) = Some (case oc_get ops c of None \<Rightarrow> r | Some q \<Rightarrow> q)"
  using set_empty [of c r] by (cases "oc_get ops c") (auto simp: set_full)

end

text \<open>A cell as an option.\<close>

definition option_cell :: "('r, 'r option) once_ops" where
  "option_cell =
     \<lparr>oc_new = None, oc_get = (\<lambda>c. c),
      oc_set = (\<lambda>r c. case c of None \<Rightarrow> (Some r, Ok ()) | Some q \<Rightarrow> (c, Err r))\<rparr>"

lemma option_cell_simps [simp]:
  "oc_new option_cell = None" "oc_get option_cell c = c"
  "oc_set option_cell r None = (Some r, Ok ())" "oc_set option_cell r (Some q) = (Some q, Err r)"
  by (simp_all add: option_cell_def)

interpretation option_cell: once_cell option_cell
  by unfold_locales auto

text \<open>
  \<open>'r\<close> is a receiver, \<open>'k\<close> a sink, \<open>'m\<close> a measurement with its key. A proxy is a closure that
  gives the measurements of the moment at which the store is read.
\<close>

record ('r, 'k, 'm, 'e) sink_ops =
  sk_sink :: "'r \<Rightarrow> 'k"
  sk_scoped :: "'k \<Rightarrow> string \<Rightarrow> 'k"
  sk_proxy :: "'k \<Rightarrow> string \<Rightarrow> ('e \<Rightarrow> 'm list) \<Rightarrow> 'e \<Rightarrow> 'e"

section \<open>The metrics store\<close>

text \<open>The two statics, \<open>RECEIVER\<close> and \<open>SINK\<close> (\<open>None\<close> until it is used), and the environment.\<close>

record ('c, 'k, 'e) metrics_state =
  receiver :: 'c
  root_sink :: "'k option"
  metrics_env :: 'e

datatype 'b metrics_error = BuildFailed 'b | AlreadyInitialized

definition metrics_init ::
  "('r, 'c) once_ops \<Rightarrow> ('e \<Rightarrow> 'e \<times> ('b, 'r) outcome) \<Rightarrow> ('c, 'k, 'e) metrics_state \<Rightarrow>
   ('c, 'k, 'e) metrics_state \<times> ('b metrics_error, unit) outcome" where
  "metrics_init ops build s =
     (let (e', built) = build (metrics_env s);
          s1 = s\<lparr>metrics_env := e'\<rparr>
      in with_ok s1 (map_err BuildFailed built) (\<lambda>r.
           let (c', set) = oc_set ops r (receiver s1)
           in (s1\<lparr>receiver := c'\<rparr>, map_err (\<lambda>_. AlreadyInitialized) set)))"

text \<open>\<open>get_unchecked\<close> does not test the cell: on an empty one the behaviour is undefined.\<close>

definition global_receiver :: "('r, 'c) once_ops \<Rightarrow> ('c, 'k, 'e) metrics_state \<Rightarrow> (unit, 'r) outcome" where
  "global_receiver ops s = (case oc_get ops (receiver s) of Some r \<Rightarrow> Ok r | None \<Rightarrow> UB)"

text \<open>The first use of \<open>SINK\<close> runs its closure and keeps the result.\<close>

definition SINK ::
  "('r, 'c) once_ops \<Rightarrow> ('r, 'k, 'm, 'e) sink_ops \<Rightarrow> ('c, 'k, 'e) metrics_state \<Rightarrow>
   ('c, 'k, 'e) metrics_state \<times> (unit, 'k) outcome" where
  "SINK ops sk s =
     (case root_sink s of
        Some k \<Rightarrow> (s, Ok k)
      | None \<Rightarrow> with_ok s (global_receiver ops s) (\<lambda>r.
          let k = sk_scoped sk (sk_sink sk r) ''capsule''
          in (s\<lparr>root_sink := Some k\<rparr>, Ok k)))"

section \<open>Registration of statistics\<close>

text \<open>Both functions hand a closure to a clone of the sink.\<close>

definition register_proxy ::
  "('r, 'c) once_ops \<Rightarrow> ('r, 'k, 'm, 'e) sink_ops \<Rightarrow> string \<Rightarrow> ('e \<Rightarrow> 'm list) \<Rightarrow>
   ('c, 'k, 'e) metrics_state \<Rightarrow> ('c, 'k, 'e) metrics_state \<times> (unit, unit) outcome" where
  "register_proxy ops sk name f s =
     (let (s1, sink) = SINK ops sk s
      in with_ok s1 sink (\<lambda>k. (s1\<lparr>metrics_env := sk_proxy sk k name f (metrics_env s1)\<rparr>, Ok ())))"

text \<open>Collecting the statistics of a port may fail (\<open>Inl\<close>); then it reports nothing.\<close>

definition port_proxy :: "('t \<Rightarrow> 'e \<Rightarrow> 'f + 'm list) \<Rightarrow> 't list \<Rightarrow> 'e \<Rightarrow> 'm list" where
  "port_proxy collect stats e =
     concat (map (\<lambda>s. case collect s e of Inr ms \<Rightarrow> ms | Inl err \<Rightarrow> []) stats)"

definition register_port_stats ::
  "('r, 'c) once_ops \<Rightarrow> ('r, 'k, 'm, 'e) sink_ops \<Rightarrow> ('p \<Rightarrow> 't) \<Rightarrow> ('t \<Rightarrow> 'e \<Rightarrow> 'f + 'm list) \<Rightarrow> 'p list \<Rightarrow>
   ('c, 'k, 'e) metrics_state \<Rightarrow> ('c, 'k, 'e) metrics_state \<times> (unit, unit) outcome" where
  "register_port_stats ops sk stats_of collect ports s =
     (let stats = map stats_of ports in register_proxy ops sk ''port'' (port_proxy collect stats) s)"

definition mempool_proxy :: "('t \<Rightarrow> 'e \<Rightarrow> 'm list) \<Rightarrow> 't list \<Rightarrow> 'e \<Rightarrow> 'm list" where
  "mempool_proxy collect stats e = concat (map (\<lambda>s. collect s e) stats)"

definition register_mempool_stats ::
  "('r, 'c) once_ops \<Rightarrow> ('r, 'k, 'm, 'e) sink_ops \<Rightarrow> ('q \<Rightarrow> 't) \<Rightarrow> ('t \<Rightarrow> 'e \<Rightarrow> 'm list) \<Rightarrow> 'q list \<Rightarrow>
   ('c, 'k, 'e) metrics_state \<Rightarrow> ('c, 'k, 'e) metrics_state \<times> (unit, unit) outcome" where
  "register_mempool_stats ops sk stats_of collect mempools s =
     (let stats = map stats_of mempools in register_proxy ops sk ''mempool'' (mempool_proxy collect stats) s)"

text \<open>A port whose statistics cannot be collected hides those of no other port.\<close>

lemma port_proxy_skips_failed:
  "collect t e = Inl err \<Longrightarrow> port_proxy collect (ts @ t # us) e = port_proxy collect (ts @ us) e"
  by (simp add: port_proxy_def)

lemma port_proxy_reports:
  "m \<in> set (port_proxy collect ts e) \<longleftrightarrow> (\<exists>t \<in> set ts. \<exists>ms. collect t e = Inr ms \<and> m \<in> set ms)"
  by (force simp: port_proxy_def split: sum.splits)

section \<open>Reachable states\<close>

text \<open>
  The program starts with both statics empty. A step is one call, whatever its outcome unless
  that is undefined behaviour, or any change of the environment.
\<close>

inductive metrics_reach ::
  "('r, 'c) once_ops \<Rightarrow> ('r, 'k, 'm, 'e) sink_ops \<Rightarrow> ('e \<Rightarrow> 'e \<times> ('b, 'r) outcome) \<Rightarrow>
   ('c, 'k, 'e) metrics_state \<Rightarrow> bool"
  for ops sk build where
  start: "metrics_reach ops sk build \<lparr>receiver = oc_new ops, root_sink = None, metrics_env = e\<rparr>"
| world: "metrics_reach ops sk build s \<Longrightarrow> metrics_reach ops sk build (s\<lparr>metrics_env := e\<rparr>)"
| init: "metrics_reach ops sk build s \<Longrightarrow> metrics_init ops build s = (s', r) \<Longrightarrow> metrics_reach ops sk build s'"
| register: "metrics_reach ops sk build s \<Longrightarrow>
    register_proxy ops sk name f s = (s', Ok ()) \<Longrightarrow> metrics_reach ops sk build s'"

text \<open>The invariant: a root sink belongs to the receiver.\<close>

definition sink_of_receiver :: "('r, 'c) once_ops \<Rightarrow> ('r, 'k, 'm, 'e) sink_ops \<Rightarrow> ('c, 'k, 'e) metrics_state \<Rightarrow> bool" where
  "sink_of_receiver ops sk s \<longleftrightarrow>
     (\<forall>k. root_sink s = Some k \<longrightarrow>
        (\<exists>r. oc_get ops (receiver s) = Some r \<and> k = sk_scoped sk (sk_sink sk r) ''capsule''))"

lemma SINK_spec:
  assumes "sink_of_receiver ops sk s"
  shows "case oc_get ops (receiver s) of
      None \<Rightarrow> SINK ops sk s = (s, UB)
    | Some r \<Rightarrow> (let k = sk_scoped sk (sk_sink sk r) ''capsule'' in
        SINK ops sk s = (s\<lparr>root_sink := Some k\<rparr>, Ok k))"
  using assms
  by (cases s) (auto simp: SINK_def global_receiver_def sink_of_receiver_def Let_def split: option.splits)

context once_cell
begin

lemma init_receiver:
  assumes "metrics_init ops build s = (s', r)"
  shows "(\<exists>q. oc_get ops (receiver s) = Some q \<and> oc_get ops (receiver s') = Some q) \<or> oc_get ops (receiver s) = None"
    and "root_sink s' = root_sink s"
proof -
  obtain e' built where b: "build (metrics_env s) = (e', built)" by (cases "build (metrics_env s)")
  show "(\<exists>q. oc_get ops (receiver s) = Some q \<and> oc_get ops (receiver s') = Some q) \<or> oc_get ops (receiver s) = None"
    using assms b set_full
    by (cases built; cases "oc_get ops (receiver s)")
      (auto simp: metrics_init_def Let_def split: prod.splits)
  show "root_sink s' = root_sink s"
    using assms b by (cases built) (auto simp: metrics_init_def Let_def split: prod.splits)
qed

lemma reach_sink_of_receiver: "metrics_reach ops sk build s \<Longrightarrow> sink_of_receiver ops sk s"
proof (induction rule: metrics_reach.induct)
  case (init s s' r)
  then show ?case using init_receiver [OF init.hyps(2)] by (auto simp: sink_of_receiver_def)
next
  case (register s name f s')
  then show ?case using SINK_spec [OF register.IH]
    by (auto simp: register_proxy_def sink_of_receiver_def Let_def split: option.splits)
qed (auto simp: sink_of_receiver_def)

end

section \<open>Properties\<close>

text \<open>
  C37: In every reachable state the store is either empty or belongs to one receiver for good.
  While it is empty, a use of the store is undefined behaviour and \<open>init\<close> installs the
  receiver it builds. Once a receiver is installed, \<open>init\<close> fails, whatever it builds, and
  keeps it; statistics of ports and pools then go to the sink of exactly this receiver with
  the prefix \<open>capsule\<close>, under the names \<open>port\<close> and \<open>mempool\<close>.
\<close>

theorem metrics_store_set_once:
  assumes "once_cell ops" "metrics_reach ops sk build s" "build (metrics_env s) = (e', built)"
  shows "case oc_get ops (receiver s) of
      None \<Rightarrow>
        snd (register_port_stats ops sk stats_of collect ports s) = UB
        \<and> snd (register_mempool_stats ops sk pool_stats pool_collect mempools s) = UB
        \<and> (\<forall>r. built = Ok r \<longrightarrow> (\<exists>s'. metrics_init ops build s = (s', Ok ()) \<and> oc_get ops (receiver s') = Some r))
    | Some r \<Rightarrow> (let k = sk_scoped sk (sk_sink sk r) ''capsule'' in
        receiver (fst (metrics_init ops build s)) = receiver s
        \<and> snd (metrics_init ops build s) = and_then (map_err BuildFailed built) (\<lambda>_. Err AlreadyInitialized)
        \<and> register_port_stats ops sk stats_of collect ports s
          = (s\<lparr>root_sink := Some k,
               metrics_env := sk_proxy sk k ''port'' (port_proxy collect (map stats_of ports)) (metrics_env s)\<rparr>, Ok ())
        \<and> register_mempool_stats ops sk pool_stats pool_collect mempools s
          = (s\<lparr>root_sink := Some k,
               metrics_env := sk_proxy sk k ''mempool'' (mempool_proxy pool_collect (map pool_stats mempools)) (metrics_env s)\<rparr>,
             Ok ()))"
proof (cases "oc_get ops (receiver s)")
  case None
  note sink = SINK_spec [OF once_cell.reach_sink_of_receiver [OF assms(1,2)]]
  show ?thesis
  proof (simp add: None, intro conjI allI impI)
    show "snd (register_port_stats ops sk stats_of collect ports s) = UB"
      "snd (register_mempool_stats ops sk pool_stats pool_collect mempools s) = UB"
      using sink None by (simp_all add: register_port_stats_def register_mempool_stats_def register_proxy_def)
    fix r assume "built = Ok r"
    then show "\<exists>s'. metrics_init ops build s = (s', Ok ()) \<and> oc_get ops (receiver s') = Some r"
      using once_cell.set_empty [OF assms(1) None, of r] assms(3)
      by (force simp: metrics_init_def)
  qed
next
  case (Some r)
  note sink = SINK_spec [OF once_cell.reach_sink_of_receiver [OF assms(1,2)]]
  have "receiver (fst (metrics_init ops build s)) = receiver s"
    "snd (metrics_init ops build s) = and_then (map_err BuildFailed built) (\<lambda>_. Err AlreadyInitialized)"
    using assms(3) once_cell.set_full [OF assms(1) Some]
    by (cases built; simp add: metrics_init_def)+
  then show ?thesis using sink Some
    by (simp add: Let_def register_port_stats_def register_mempool_stats_def register_proxy_def)
qed

text \<open>
  Sinks as their path of names, an environment that records the proxies with their present
  values, and a builder that names its receiver: after the first \<open>init\<close> a second one fails.
\<close>

type_synonym proxies = "(string list \<times> nat list) list"

definition path_sinks :: "(string, string list, nat, proxies) sink_ops" where
  "path_sinks = \<lparr>sk_sink = (\<lambda>r. [r]), sk_scoped = (\<lambda>k n. k @ [n]), sk_proxy = (\<lambda>k n f e. e @ [(k @ [n], f e)])\<rparr>"

lemma path_sinks_simps [simp]:
  "sk_sink path_sinks r = [r]" "sk_scoped path_sinks k n = k @ [n]" "sk_proxy path_sinks k n f e = e @ [(k @ [n], f e)]"
  by (simp_all add: path_sinks_def)

definition named_receiver :: "proxies \<Rightarrow> proxies \<times> (unit, string) outcome" where
  "named_receiver e = (e, Ok ''metrics'')"

definition started :: "(string option, string list, proxies) metrics_state" where
  "started = \<lparr>receiver = Some ''metrics'', root_sink = None, metrics_env = []\<rparr>"

lemma started_reach: "metrics_reach option_cell path_sinks named_receiver started"
  by (rule metrics_reach.init [OF metrics_reach.start])
    (simp add: metrics_init_def named_receiver_def started_def)

definition odd_collect :: "nat \<Rightarrow> proxies \<Rightarrow> unit + nat list" where
  "odd_collect p e = (if p = 1 then Inl () else Inr [p])"

theorem metrics_store_set_once_witness:
  "snd (metrics_init option_cell named_receiver started) = Err AlreadyInitialized
   \<and> register_port_stats option_cell path_sinks id odd_collect [0, 1, 2] started
     = (started\<lparr>root_sink := Some [''metrics'', ''capsule''],
          metrics_env := [([''metrics'', ''capsule'', ''port''], [0, 2])]\<rparr>, Ok ())"
proof -
  have "named_receiver (metrics_env started) = ([], Ok ''metrics'')"
    by (simp add: named_receiver_def started_def)
  from metrics_store_set_once [OF option_cell.once_cell_axioms started_reach this,
      where stats_of = id and collect = odd_collect and ports = "[0, 1, 2]"
      and pool_stats = id and pool_collect = "\<lambda>q e. [q]" and mempools = "[]"]
  show ?thesis
    by (simp add: port_proxy_def odd_collect_def started_def Let_def)
qed

end
