(* ===== verification/Build_Script.thy ===== *)
theory Build_Script
  imports Prelude
begin

text \<open>
  The build script of the bindings, \<open>ffi/build.rs\<close>: compile the shim, generate the bindings, and
  print the libraries to link, one line per library, for Cargo. The C compiler and the
  generator (packages \<open>cc\<close> and \<open>bindgen\<close>) are a record of functions on the file system.
\<close>

section \<open>The libraries\<close>

definition RTE_CORE_LIBS :: "string list" where
  "RTE_CORE_LIBS = [''rte_acl'', ''rte_bbdev'', ''rte_bitratestats'', ''rte_bpf'',
     ''rte_bus_dpaa'', ''rte_bus_fslmc'', ''rte_bus_ifpga'', ''rte_bus_pci'', ''rte_bus_vdev'',
     ''rte_bus_vmbus'', ''rte_cfgfile'', ''rte_cmdline'', ''rte_common_cpt'',
     ''rte_common_dpaax'', ''rte_common_octeontx'', ''rte_common_octeontx2'',
     ''rte_compressdev'', ''rte_cryptodev'', ''rte_distributor'', ''rte_eal'', ''rte_efd'',
     ''rte_ethdev'', ''rte_eventdev'', ''rte_fib'', ''rte_flow_classify'', ''rte_gro'',
     ''rte_gso'', ''rte_hash'', ''rte_ip_frag'', ''rte_ipsec'', ''rte_jobstats'', ''rte_kni'',
     ''rte_kvargs'', ''rte_latencystats'', ''rte_lpm'', ''rte_mbuf'', ''rte_member'',
     ''rte_mempool'', ''rte_mempool_bucket'', ''rte_mempool_dpaa'', ''rte_mempool_dpaa2'',
     ''rte_mempool_octeontx'', ''rte_mempool_octeontx2'', ''rte_mempool_ring'',
     ''rte_mempool_stack'', ''rte_meter'', ''rte_metrics'', ''rte_net'', ''rte_pci'',
     ''rte_pdump'', ''rte_pipeline'', ''rte_port'', ''rte_power'', ''rte_rawdev'',
     ''rte_rawdev_dpaa2_cmdif'', ''rte_rawdev_dpaa2_qdma'', ''rte_rawdev_ioat'',
     ''rte_rawdev_ntb'', ''rte_rawdev_octeontx2_dma'', ''rte_rawdev_skeleton'', ''rte_rcu'',
     ''rte_reorder'', ''rte_rib'', ''rte_ring'', ''rte_sched'', ''rte_security'', ''rte_stack'',
     ''rte_table'', ''rte_timer'', ''rte_vhost'']"

definition RTE_PMD_LIBS :: "string list" where
  "RTE_PMD_LIBS = [''rte_pmd_af_packet'', ''rte_pmd_ark'', ''rte_pmd_atlantic'', ''rte_pmd_avp'',
     ''rte_pmd_axgbe'', ''rte_pmd_bbdev_fpga_lte_fec'', ''rte_pmd_bbdev_null'',
     ''rte_pmd_bbdev_turbo_sw'', ''rte_pmd_bnxt'', ''rte_pmd_bond'', ''rte_pmd_caam_jr'',
     ''rte_pmd_crypto_scheduler'', ''rte_pmd_cxgbe'', ''rte_pmd_dpaa'', ''rte_pmd_dpaa2'',
     ''rte_pmd_dpaa2_event'', ''rte_pmd_dpaa2_sec'', ''rte_pmd_dpaa_event'',
     ''rte_pmd_dpaa_sec'', ''rte_pmd_dsw_event'', ''rte_pmd_e1000'', ''rte_pmd_ena'',
     ''rte_pmd_enetc'', ''rte_pmd_enic'', ''rte_pmd_failsafe'', ''rte_pmd_fm10k'',
     ''rte_pmd_hinic'', ''rte_pmd_hns3'', ''rte_pmd_i40e'', ''rte_pmd_iavf'', ''rte_pmd_ice'',
     ''rte_pmd_ifc'', ''rte_pmd_ixgbe'', ''rte_pmd_kni'', ''rte_pmd_liquidio'',
     ''rte_pmd_memif'', ''rte_pmd_netvsc'', ''rte_pmd_nfp'', ''rte_pmd_nitrox'',
     ''rte_pmd_null'', ''rte_pmd_null_crypto'', ''rte_pmd_octeontx'', ''rte_pmd_octeontx2'',
     ''rte_pmd_octeontx2_crypto'', ''rte_pmd_octeontx2_event'', ''rte_pmd_octeontx_compress'',
     ''rte_pmd_octeontx_crypto'', ''rte_pmd_octeontx_event'', ''rte_pmd_opdl_event'',
     ''rte_pmd_pcap'', ''rte_pmd_pfe'', ''rte_pmd_qat'', ''rte_pmd_qede'', ''rte_pmd_ring'',
     ''rte_pmd_sfc'', ''rte_pmd_skeleton_event'', ''rte_pmd_softnic'', ''rte_pmd_sw_event'',
     ''rte_pmd_tap'', ''rte_pmd_thunderx'', ''rte_pmd_vdev_netvsc'', ''rte_pmd_vhost'',
     ''rte_pmd_virtio'', ''rte_pmd_virtio_crypto'', ''rte_pmd_vmxnet3'']"

definition RTE_DEPS_LIBS :: "string list" where
  "RTE_DEPS_LIBS = [''numa'', ''pcap'']"

section \<open>Compiling and generating\<close>

text \<open>What \<open>bind\<close> asks of the generator, in the order of its calls; the patterns are texts.\<close>

datatype bindgen_call =
    BG_header string
  | BG_layout_tests bool
  | BG_generate_inline_functions bool
  | BG_opaque_type string
  | BG_whitelist_type string
  | BG_whitelist_function string
  | BG_whitelist_var string
  | BG_derive_copy bool
  | BG_derive_debug bool
  | BG_derive_default bool
  | BG_derive_partialeq bool
  | BG_default_enum_style_module_consts
  | BG_clang_arg string
  | BG_rustfmt_bindings bool

text \<open>
  \<open>compile\<close> takes the file, the flags and the name of the output and panics when the compiler
  fails. \<open>generate\<close> and \<open>write_to_file\<close> give an error, of which only the fact matters.
\<close>

record ('b, 'e) build_tools =
  cc_compile :: "string \<Rightarrow> string list \<Rightarrow> string \<Rightarrow> 'e \<Rightarrow> 'e \<times> bool"
  bg_generate :: "bindgen_call list \<Rightarrow> 'e \<Rightarrow> 'e \<times> 'b option"
  bg_write_to_file :: "'b \<Rightarrow> string \<Rightarrow> 'e \<Rightarrow> 'e \<times> bool"

definition bindgen_calls :: "bindgen_call list" where
  "bindgen_calls =
     [BG_header ''src/bindings.h'',
      BG_layout_tests False,
      BG_generate_inline_functions True,
      BG_opaque_type ''rte_arp_ipv4|rte_arp_hdr'',
      BG_whitelist_type ''(rte|eth|pcap)_.*'',
      BG_whitelist_function ''(_rte|rte|_pkt|eth|numa|pcap)_.*'',
      BG_whitelist_var ''(RTE|DEV|ETH|MEMPOOL|PKT|rte)_.*'',
      BG_derive_copy True,
      BG_derive_debug True,
      BG_derive_default True,
      BG_derive_partialeq True,
      BG_default_enum_style_module_consts,
      BG_clang_arg ''-finline-functions'',
      BG_clang_arg ''-march=corei7'',
      BG_rustfmt_bindings True]"

text \<open>\<open>Path::join\<close> with a relative file name.\<close>

definition path_join :: "string \<Rightarrow> string \<Rightarrow> string" where
  "path_join dir name = (if dir = [] \<or> last dir = CHR ''/'' then dir @ name else dir @ CHR ''/'' # name)"

definition bind_ffi :: "('b, 'e) build_tools \<Rightarrow> string \<Rightarrow> 'e \<Rightarrow> 'e \<times> (unit, unit) outcome" where
  "bind_ffi tools path e =
     (case cc_compile tools ''src/shim.c'' [''-march=corei7'', ''-mavx''] ''rte_shim'' e of
        (e1, False) \<Rightarrow> (e1, Panic UnwrapFailed)
      | (e1, True) \<Rightarrow>
          (case bg_generate tools bindgen_calls e1 of
             (e2, None) \<Rightarrow> (e2, Panic UnwrapFailed)
           | (e2, Some b) \<Rightarrow>
               (case bg_write_to_file tools b (path_join path ''bindings.rs'') e2 of
                  (e3, False) \<Rightarrow> (e3, Panic UnwrapFailed)
                | (e3, True) \<Rightarrow> (e3, Ok ()))))"

section \<open>The script\<close>

text \<open>The lines printed, the file system after the run and its outcome.\<close>

definition link_line :: "string \<Rightarrow> string" where
  "link_line lib = ''cargo:rustc-link-lib=dylib='' @ lib"

definition build_main ::
  "('b, 'e) build_tools \<Rightarrow> string option \<Rightarrow> 'e \<Rightarrow> string list \<times> 'e \<times> (unit, unit) outcome" where
  "build_main tools out_dir e =
     (case out_dir of
        None \<Rightarrow> ([], e, Panic UnwrapFailed)
      | Some out_path \<Rightarrow>
          (case bind_ffi tools out_path e of
             (e', Ok _) \<Rightarrow>
               (map link_line (RTE_CORE_LIBS @ RTE_PMD_LIBS @ RTE_DEPS_LIBS)
                  @ [''cargo:rerun-if-changed=build.rs'', ''cargo:rerun-if-changed=src/''], e', Ok ())
           | (e', r) \<Rightarrow> ([], e', r)))"

text \<open>With the feature \<open>rustdoc\<close> the script does nothing.\<close>

definition build_main_rustdoc :: "'e \<Rightarrow> string list \<times> 'e \<times> (unit, unit) outcome" where
  "build_main_rustdoc e = ([], e, Ok ())"

section \<open>Properties\<close>

text \<open>The drivers are told from the core libraries by their prefix.\<close>

lemma libs_distinct: "distinct RTE_CORE_LIBS" "distinct RTE_PMD_LIBS" "distinct RTE_DEPS_LIBS"
  by (simp_all add: RTE_CORE_LIBS_def RTE_PMD_LIBS_def RTE_DEPS_LIBS_def)

lemma libs_prefix:
  "l \<in> set RTE_PMD_LIBS \<Longrightarrow> take 8 l = ''rte_pmd_''"
  "l \<in> set RTE_CORE_LIBS \<Longrightarrow> take 4 l = ''rte_'' \<and> take 8 l \<noteq> ''rte_pmd_''"
  "l \<in> set RTE_DEPS_LIBS \<Longrightarrow> take 4 l \<noteq> ''rte_''"
  by (auto simp: RTE_CORE_LIBS_def RTE_PMD_LIBS_def RTE_DEPS_LIBS_def)

lemma all_libs_distinct: "distinct (RTE_CORE_LIBS @ RTE_PMD_LIBS @ RTE_DEPS_LIBS)"
proof -
  have "take 4 l = ''rte_''" if "take 8 l = ''rte_pmd_''" for l :: string
    using arg_cong [OF that, of "take 4"] by simp
  then show ?thesis using libs_distinct libs_prefix by (auto simp: disjoint_iff)
qed

lemma link_line_inject [simp]: "link_line a = link_line b \<longleftrightarrow> a = b"
  by (simp add: link_line_def)

text \<open>
  The script prints either nothing, and then it has panicked, or one line for every library,
  no library twice, and the two lines that tell Cargo when to run it again. It prints exactly
  if the output directory is known and the shim and the bindings could be made; then the
  bindings have been written to that directory.
\<close>

lemma build_main_links_each_once:
  assumes "build_main tools out_dir e = (out, e', r)"
  shows "if r = Ok ()
    then (\<exists>libs path. out_dir = Some path \<and> bind_ffi tools path e = (e', Ok ())
          \<and> out = map link_line libs @ [''cargo:rerun-if-changed=build.rs'', ''cargo:rerun-if-changed=src/'']
          \<and> distinct libs \<and> set libs = set RTE_CORE_LIBS \<union> set RTE_PMD_LIBS \<union> set RTE_DEPS_LIBS)
    else out = [] \<and> r = Panic UnwrapFailed"
proof (cases out_dir)
  case (Some path)
  define libs where "libs = RTE_CORE_LIBS @ RTE_PMD_LIBS @ RTE_DEPS_LIBS"
  have libs: "distinct libs" "set libs = set RTE_CORE_LIBS \<union> set RTE_PMD_LIBS \<union> set RTE_DEPS_LIBS"
    using all_libs_distinct by (auto simp: libs_def)
  obtain e1 b where b: "bind_ffi tools path e = (e1, b)" by (cases "bind_ffi tools path e")
  then have "b = Ok () \<or> b = Panic UnwrapFailed"
    by (auto simp: bind_ffi_def split: prod.splits bool.splits option.splits)
  then show ?thesis
  proof
    assume "b = Ok ()"
    then show ?thesis using assms Some b libs by (auto simp: build_main_def libs_def [symmetric])
  next
    assume "b = Panic UnwrapFailed"
    then show ?thesis using assms Some b by (auto simp: build_main_def)
  qed
next
  case None
  then show ?thesis using assms by (auto simp: build_main_def)
qed

end
