(* ===== verification/Bound_Eal.thy ===== *)
theory Bound_Eal
  imports Bound_Types
begin

text \<open>
  The types of the environment layer: time and C library types that reach the interface,
  logging, devices and buses, interrupts, locks and atomics, memory segments, vector
  registers, message pools.
  They are translated as in \<open>Bound_Types\<close>.
\<close>

section \<open>C library\<close>

text \<open>Types of the C library that the headers of DPDK mention.\<close>

definition ty_timespec :: c_type where
  "ty_timespec = Struct 1 False [(''tv_sec'', U64), (''tv_nsec'', U64)]"

definition test_timespec :: layout_test where
  "test_timespec = \<lparr>asserted_size = 16, asserted_align = 8,
     asserted_offsets = [(''tv_sec'', 0), (''tv_nsec'', 8)]\<rparr>"

definition ty_cpu_set_t :: c_type where
  "ty_cpu_set_t = Struct 1 False [(''__bits'', Arr U64 16)]"

definition test_cpu_set_t :: layout_test where
  "test_cpu_set_t = \<lparr>asserted_size = 128, asserted_align = 8,
     asserted_offsets = [(''__bits'', 0)]\<rparr>"

definition ty_pthread_attr_t :: c_type where
  "ty_pthread_attr_t = Union 1 [(''__size'', Arr U8 56), (''__align'', U64),
      (''_bindgen_union_align'', Arr U64 7)]"

definition test_pthread_attr_t :: layout_test where
  "test_pthread_attr_t = \<lparr>asserted_size = 56, asserted_align = 8,
     asserted_offsets = [(''__size'', 0), (''__align'', 0)]\<rparr>"

definition ty__IO_FILE :: c_type where
  "ty__IO_FILE = Struct 1 False [(''_flags'', U32), (''_IO_read_ptr'', Pointer),
      (''_IO_read_end'', Pointer), (''_IO_read_base'', Pointer), (''_IO_write_base'', Pointer),
      (''_IO_write_ptr'', Pointer), (''_IO_write_end'', Pointer), (''_IO_buf_base'', Pointer),
      (''_IO_buf_end'', Pointer), (''_IO_save_base'', Pointer), (''_IO_backup_base'', Pointer),
      (''_IO_save_end'', Pointer), (''_markers'', Pointer), (''_chain'', Pointer),
      (''_fileno'', U32), (''_flags2'', U32), (''_old_offset'', U64), (''_cur_column'', U16),
      (''_vtable_offset'', U8), (''_shortbuf'', Arr U8 1), (''_lock'', Pointer),
      (''_offset'', U64), (''_codecvt'', Pointer), (''_wide_data'', Pointer),
      (''_freeres_list'', Pointer), (''_freeres_buf'', Pointer), (''__pad5'', U64),
      (''_mode'', U32), (''_unused2'', Arr U8 20)]"

definition test__IO_FILE :: layout_test where
  "test__IO_FILE = \<lparr>asserted_size = 216, asserted_align = 8,
     asserted_offsets = [(''_flags'', 0), (''_IO_read_ptr'', 8), (''_IO_read_end'', 16),
      (''_IO_read_base'', 24), (''_IO_write_base'', 32), (''_IO_write_ptr'', 40),
      (''_IO_write_end'', 48), (''_IO_buf_base'', 56), (''_IO_buf_end'', 64),
      (''_IO_save_base'', 72), (''_IO_backup_base'', 80), (''_IO_save_end'', 88),
      (''_markers'', 96), (''_chain'', 104), (''_fileno'', 112), (''_flags2'', 116),
      (''_old_offset'', 120), (''_cur_column'', 128), (''_vtable_offset'', 130),
      (''_shortbuf'', 131), (''_lock'', 136), (''_offset'', 144), (''_codecvt'', 152),
      (''_wide_data'', 160), (''_freeres_list'', 168), (''_freeres_buf'', 176),
      (''__pad5'', 184), (''_mode'', 192), (''_unused2'', 196)]\<rparr>"

definition ty_timeval :: c_type where
  "ty_timeval = Struct 1 False [(''tv_sec'', U64), (''tv_usec'', U64)]"

definition test_timeval :: layout_test where
  "test_timeval = \<lparr>asserted_size = 16, asserted_align = 8,
     asserted_offsets = [(''tv_sec'', 0), (''tv_usec'', 8)]\<rparr>"

definition ty_sockaddr :: c_type where
  "ty_sockaddr = Struct 1 False [(''sa_family'', U16), (''sa_data'', Arr U8 14)]"

definition test_sockaddr :: layout_test where
  "test_sockaddr = \<lparr>asserted_size = 16, asserted_align = 2,
     asserted_offsets = [(''sa_family'', 0), (''sa_data'', 2)]\<rparr>"

definition ty___va_list_tag :: c_type where
  "ty___va_list_tag = Struct 1 False [(''gp_offset'', U32), (''fp_offset'', U32),
      (''overflow_arg_area'', Pointer), (''reg_save_area'', Pointer)]"

definition test___va_list_tag :: layout_test where
  "test___va_list_tag = \<lparr>asserted_size = 24, asserted_align = 8,
     asserted_offsets = [(''gp_offset'', 0), (''fp_offset'', 4), (''overflow_arg_area'', 8),
      (''reg_save_area'', 16)]\<rparr>"

lemma layout_timespec [layout_simps]:
  "c_size ty_timespec = 16" "c_align ty_timespec = 8" "wf_type ty_timespec"
  "layout_test_passes ty_timespec test_timespec"
  by (simp_all add: ty_timespec_def test_timespec_def layout_simps layout_eval)

lemma layout_cpu_set_t [layout_simps]:
  "c_size ty_cpu_set_t = 128" "c_align ty_cpu_set_t = 8" "wf_type ty_cpu_set_t"
  "layout_test_passes ty_cpu_set_t test_cpu_set_t"
  by (simp_all add: ty_cpu_set_t_def test_cpu_set_t_def layout_simps layout_eval)

lemma layout_pthread_attr_t [layout_simps]:
  "c_size ty_pthread_attr_t = 56" "c_align ty_pthread_attr_t = 8" "wf_type ty_pthread_attr_t"
  "layout_test_passes ty_pthread_attr_t test_pthread_attr_t"
  by (simp_all add: ty_pthread_attr_t_def test_pthread_attr_t_def layout_simps layout_eval)

lemma layout__IO_FILE [layout_simps]:
  "c_size ty__IO_FILE = 216" "c_align ty__IO_FILE = 8" "wf_type ty__IO_FILE"
  "layout_test_passes ty__IO_FILE test__IO_FILE"
  by (simp_all add: ty__IO_FILE_def test__IO_FILE_def layout_simps layout_eval)

lemma layout_timeval [layout_simps]:
  "c_size ty_timeval = 16" "c_align ty_timeval = 8" "wf_type ty_timeval"
  "layout_test_passes ty_timeval test_timeval"
  by (simp_all add: ty_timeval_def test_timeval_def layout_simps layout_eval)

lemma layout_sockaddr [layout_simps]:
  "c_size ty_sockaddr = 16" "c_align ty_sockaddr = 2" "wf_type ty_sockaddr"
  "layout_test_passes ty_sockaddr test_sockaddr"
  by (simp_all add: ty_sockaddr_def test_sockaddr_def layout_simps layout_eval)

lemma layout___va_list_tag [layout_simps]:
  "c_size ty___va_list_tag = 24" "c_align ty___va_list_tag = 8" "wf_type ty___va_list_tag"
  "layout_test_passes ty___va_list_tag test___va_list_tag"
  by (simp_all add: ty___va_list_tag_def test___va_list_tag_def layout_simps layout_eval)

section \<open>Processes, logs and devices\<close>

text \<open>Logging, devices, drivers, buses and messages between processes.\<close>

definition ty_rte_logs :: c_type where
  "ty_rte_logs = Struct 1 False [(''type_'', U32), (''level'', U32), (''file'', Pointer),
      (''dynamic_types_len'', U64), (''dynamic_types'', Pointer)]"

definition test_rte_logs :: layout_test where
  "test_rte_logs = \<lparr>asserted_size = 32, asserted_align = 8,
     asserted_offsets = [(''type_'', 0), (''level'', 4), (''file'', 8),
      (''dynamic_types_len'', 16), (''dynamic_types'', 24)]\<rparr>"

definition ty_rte_dev_event :: c_type where
  "ty_rte_dev_event = Struct 1 False [(''type_'', U32), (''subsystem'', U32),
      (''devname'', Pointer)]"

definition test_rte_dev_event :: layout_test where
  "test_rte_dev_event = \<lparr>asserted_size = 16, asserted_align = 8,
     asserted_offsets = [(''type_'', 0), (''subsystem'', 4), (''devname'', 8)]\<rparr>"

definition ty_rte_mem_resource :: c_type where
  "ty_rte_mem_resource = Struct 1 False [(''phys_addr'', U64), (''len'', U64),
      (''addr'', Pointer)]"

definition test_rte_mem_resource :: layout_test where
  "test_rte_mem_resource = \<lparr>asserted_size = 24, asserted_align = 8,
     asserted_offsets = [(''phys_addr'', 0), (''len'', 8), (''addr'', 16)]\<rparr>"

definition ty_rte_driver__bindgen_ty_1 :: c_type where
  "ty_rte_driver__bindgen_ty_1 = Struct 1 False [(''tqe_next'', Pointer),
      (''tqe_prev'', Pointer)]"

definition test_rte_driver__bindgen_ty_1 :: layout_test where
  "test_rte_driver__bindgen_ty_1 = \<lparr>asserted_size = 16, asserted_align = 8,
     asserted_offsets = [(''tqe_next'', 0), (''tqe_prev'', 8)]\<rparr>"

definition ty_rte_driver :: c_type where
  "ty_rte_driver = Struct 1 False [(''next'', ty_rte_driver__bindgen_ty_1), (''name'', Pointer),
      (''alias'', Pointer)]"

definition test_rte_driver :: layout_test where
  "test_rte_driver = \<lparr>asserted_size = 32, asserted_align = 8,
     asserted_offsets = [(''next'', 0), (''name'', 16), (''alias'', 24)]\<rparr>"

definition ty_rte_device__bindgen_ty_1 :: c_type where
  "ty_rte_device__bindgen_ty_1 = Struct 1 False [(''tqe_next'', Pointer),
      (''tqe_prev'', Pointer)]"

definition test_rte_device__bindgen_ty_1 :: layout_test where
  "test_rte_device__bindgen_ty_1 = \<lparr>asserted_size = 16, asserted_align = 8,
     asserted_offsets = [(''tqe_next'', 0), (''tqe_prev'', 8)]\<rparr>"

definition ty_rte_device :: c_type where
  "ty_rte_device = Struct 1 False [(''next'', ty_rte_device__bindgen_ty_1), (''name'', Pointer),
      (''driver'', Pointer), (''bus'', Pointer), (''numa_node'', U32), (''devargs'', Pointer)]"

definition test_rte_device :: layout_test where
  "test_rte_device = \<lparr>asserted_size = 56, asserted_align = 8,
     asserted_offsets = [(''next'', 0), (''name'', 16), (''driver'', 24), (''bus'', 32),
      (''numa_node'', 40), (''devargs'', 48)]\<rparr>"

definition ty_rte_dev_iterator :: c_type where
  "ty_rte_dev_iterator = Struct 1 False [(''dev_str'', Pointer), (''bus_str'', Pointer),
      (''cls_str'', Pointer), (''bus'', Pointer), (''cls'', Pointer), (''device'', Pointer),
      (''class_device'', Pointer)]"

definition test_rte_dev_iterator :: layout_test where
  "test_rte_dev_iterator = \<lparr>asserted_size = 56, asserted_align = 8,
     asserted_offsets = [(''dev_str'', 0), (''bus_str'', 8), (''cls_str'', 16), (''bus'', 24),
      (''cls'', 32), (''device'', 40), (''class_device'', 48)]\<rparr>"

definition ty_rte_bus_list :: c_type where
  "ty_rte_bus_list = Struct 1 False [(''tqh_first'', Pointer), (''tqh_last'', Pointer)]"

definition test_rte_bus_list :: layout_test where
  "test_rte_bus_list = \<lparr>asserted_size = 16, asserted_align = 8,
     asserted_offsets = [(''tqh_first'', 0), (''tqh_last'', 8)]\<rparr>"

definition ty_rte_bus_conf :: c_type where
  "ty_rte_bus_conf = Struct 1 False [(''scan_mode'', U32)]"

definition test_rte_bus_conf :: layout_test where
  "test_rte_bus_conf = \<lparr>asserted_size = 4, asserted_align = 4,
     asserted_offsets = [(''scan_mode'', 0)]\<rparr>"

definition ty_rte_bus__bindgen_ty_1 :: c_type where
  "ty_rte_bus__bindgen_ty_1 = Struct 1 False [(''tqe_next'', Pointer), (''tqe_prev'', Pointer)]"

definition test_rte_bus__bindgen_ty_1 :: layout_test where
  "test_rte_bus__bindgen_ty_1 = \<lparr>asserted_size = 16, asserted_align = 8,
     asserted_offsets = [(''tqe_next'', 0), (''tqe_prev'', 8)]\<rparr>"

definition ty_rte_bus :: c_type where
  "ty_rte_bus = Struct 1 False [(''next'', ty_rte_bus__bindgen_ty_1), (''name'', Pointer),
      (''scan'', Pointer), (''probe'', Pointer), (''find_device'', Pointer), (''plug'', Pointer),
      (''unplug'', Pointer), (''parse'', Pointer), (''dma_map'', Pointer),
      (''dma_unmap'', Pointer), (''conf'', ty_rte_bus_conf), (''get_iommu_class'', Pointer),
      (''dev_iterate'', Pointer), (''hot_unplug_handler'', Pointer),
      (''sigbus_handler'', Pointer)]"

definition test_rte_bus :: layout_test where
  "test_rte_bus = \<lparr>asserted_size = 128, asserted_align = 8,
     asserted_offsets = [(''next'', 0), (''name'', 16), (''scan'', 24), (''probe'', 32),
      (''find_device'', 40), (''plug'', 48), (''unplug'', 56), (''parse'', 64),
      (''dma_map'', 72), (''dma_unmap'', 80), (''conf'', 88), (''get_iommu_class'', 96),
      (''dev_iterate'', 104), (''hot_unplug_handler'', 112), (''sigbus_handler'', 120)]\<rparr>"

definition ty_rte_mp_msg :: c_type where
  "ty_rte_mp_msg = Struct 1 False [(''name'', Arr U8 64), (''len_param'', U32),
      (''num_fds'', U32), (''param'', Arr U8 256), (''fds'', Arr U32 8)]"

definition test_rte_mp_msg :: layout_test where
  "test_rte_mp_msg = \<lparr>asserted_size = 360, asserted_align = 4,
     asserted_offsets = [(''name'', 0), (''len_param'', 64), (''num_fds'', 68), (''param'', 72),
      (''fds'', 328)]\<rparr>"

definition ty_rte_mp_reply :: c_type where
  "ty_rte_mp_reply = Struct 1 False [(''nb_sent'', U32), (''nb_received'', U32),
      (''msgs'', Pointer)]"

definition test_rte_mp_reply :: layout_test where
  "test_rte_mp_reply = \<lparr>asserted_size = 16, asserted_align = 8,
     asserted_offsets = [(''nb_sent'', 0), (''nb_received'', 4), (''msgs'', 8)]\<rparr>"

definition ty_rte_devargs__bindgen_ty_1 :: c_type where
  "ty_rte_devargs__bindgen_ty_1 = Struct 1 False [(''tqe_next'', Pointer),
      (''tqe_prev'', Pointer)]"

definition test_rte_devargs__bindgen_ty_1 :: layout_test where
  "test_rte_devargs__bindgen_ty_1 = \<lparr>asserted_size = 16, asserted_align = 8,
     asserted_offsets = [(''tqe_next'', 0), (''tqe_prev'', 8)]\<rparr>"

definition ty_rte_devargs__bindgen_ty_2 :: c_type where
  "ty_rte_devargs__bindgen_ty_2 = Union 1 [(''args'', Pointer), (''drv_str'', Pointer),
      (''_bindgen_union_align'', U64)]"

definition test_rte_devargs__bindgen_ty_2 :: layout_test where
  "test_rte_devargs__bindgen_ty_2 = \<lparr>asserted_size = 8, asserted_align = 8,
     asserted_offsets = [(''args'', 0), (''drv_str'', 0)]\<rparr>"

definition ty_rte_devargs :: c_type where
  "ty_rte_devargs = Struct 1 False [(''next'', ty_rte_devargs__bindgen_ty_1), (''type_'', U32),
      (''policy'', U32), (''name'', Arr U8 64),
      (''__bindgen_anon_1'', ty_rte_devargs__bindgen_ty_2), (''bus'', Pointer),
      (''cls'', Pointer), (''bus_str'', Pointer), (''cls_str'', Pointer), (''data'', Pointer)]"

definition test_rte_devargs :: layout_test where
  "test_rte_devargs = \<lparr>asserted_size = 136, asserted_align = 8,
     asserted_offsets = [(''next'', 0), (''type_'', 16), (''policy'', 20), (''name'', 24),
      (''bus'', 96), (''cls'', 104), (''bus_str'', 112), (''cls_str'', 120),
      (''data'', 128)]\<rparr>"

definition ty_rte_dev_reg_info :: c_type where
  "ty_rte_dev_reg_info = Struct 1 False [(''data'', Pointer), (''offset'', U32),
      (''length'', U32), (''width'', U32), (''version'', U32)]"

definition test_rte_dev_reg_info :: layout_test where
  "test_rte_dev_reg_info = \<lparr>asserted_size = 24, asserted_align = 8,
     asserted_offsets = [(''data'', 0), (''offset'', 8), (''length'', 12), (''width'', 16),
      (''version'', 20)]\<rparr>"

definition ty_rte_dev_eeprom_info :: c_type where
  "ty_rte_dev_eeprom_info = Struct 1 False [(''data'', Pointer), (''offset'', U32),
      (''length'', U32), (''magic'', U32)]"

definition test_rte_dev_eeprom_info :: layout_test where
  "test_rte_dev_eeprom_info = \<lparr>asserted_size = 24, asserted_align = 8,
     asserted_offsets = [(''data'', 0), (''offset'', 8), (''length'', 12),
      (''magic'', 16)]\<rparr>"

lemma layout_rte_logs [layout_simps]:
  "c_size ty_rte_logs = 32" "c_align ty_rte_logs = 8" "wf_type ty_rte_logs"
  "layout_test_passes ty_rte_logs test_rte_logs"
  by (simp_all add: ty_rte_logs_def test_rte_logs_def layout_simps layout_eval)

lemma layout_rte_dev_event [layout_simps]:
  "c_size ty_rte_dev_event = 16" "c_align ty_rte_dev_event = 8" "wf_type ty_rte_dev_event"
  "layout_test_passes ty_rte_dev_event test_rte_dev_event"
  by (simp_all add: ty_rte_dev_event_def test_rte_dev_event_def layout_simps layout_eval)

lemma layout_rte_mem_resource [layout_simps]:
  "c_size ty_rte_mem_resource = 24" "c_align ty_rte_mem_resource = 8" "wf_type ty_rte_mem_resource"
  "layout_test_passes ty_rte_mem_resource test_rte_mem_resource"
  by (simp_all add: ty_rte_mem_resource_def test_rte_mem_resource_def layout_simps layout_eval)

lemma layout_rte_driver__bindgen_ty_1 [layout_simps]:
  "c_size ty_rte_driver__bindgen_ty_1 = 16" "c_align ty_rte_driver__bindgen_ty_1 = 8" "wf_type ty_rte_driver__bindgen_ty_1"
  "layout_test_passes ty_rte_driver__bindgen_ty_1 test_rte_driver__bindgen_ty_1"
  by (simp_all add: ty_rte_driver__bindgen_ty_1_def test_rte_driver__bindgen_ty_1_def layout_simps layout_eval)

lemma layout_rte_driver [layout_simps]:
  "c_size ty_rte_driver = 32" "c_align ty_rte_driver = 8" "wf_type ty_rte_driver"
  "layout_test_passes ty_rte_driver test_rte_driver"
  by (simp_all add: ty_rte_driver_def test_rte_driver_def layout_simps layout_eval)

lemma layout_rte_device__bindgen_ty_1 [layout_simps]:
  "c_size ty_rte_device__bindgen_ty_1 = 16" "c_align ty_rte_device__bindgen_ty_1 = 8" "wf_type ty_rte_device__bindgen_ty_1"
  "layout_test_passes ty_rte_device__bindgen_ty_1 test_rte_device__bindgen_ty_1"
  by (simp_all add: ty_rte_device__bindgen_ty_1_def test_rte_device__bindgen_ty_1_def layout_simps layout_eval)

lemma layout_rte_device [layout_simps]:
  "c_size ty_rte_device = 56" "c_align ty_rte_device = 8" "wf_type ty_rte_device"
  "layout_test_passes ty_rte_device test_rte_device"
  by (simp_all add: ty_rte_device_def test_rte_device_def layout_simps layout_eval)

lemma layout_rte_dev_iterator [layout_simps]:
  "c_size ty_rte_dev_iterator = 56" "c_align ty_rte_dev_iterator = 8" "wf_type ty_rte_dev_iterator"
  "layout_test_passes ty_rte_dev_iterator test_rte_dev_iterator"
  by (simp_all add: ty_rte_dev_iterator_def test_rte_dev_iterator_def layout_simps layout_eval)

lemma layout_rte_bus_list [layout_simps]:
  "c_size ty_rte_bus_list = 16" "c_align ty_rte_bus_list = 8" "wf_type ty_rte_bus_list"
  "layout_test_passes ty_rte_bus_list test_rte_bus_list"
  by (simp_all add: ty_rte_bus_list_def test_rte_bus_list_def layout_simps layout_eval)

lemma layout_rte_bus_conf [layout_simps]:
  "c_size ty_rte_bus_conf = 4" "c_align ty_rte_bus_conf = 4" "wf_type ty_rte_bus_conf"
  "layout_test_passes ty_rte_bus_conf test_rte_bus_conf"
  by (simp_all add: ty_rte_bus_conf_def test_rte_bus_conf_def layout_simps layout_eval)

lemma layout_rte_bus__bindgen_ty_1 [layout_simps]:
  "c_size ty_rte_bus__bindgen_ty_1 = 16" "c_align ty_rte_bus__bindgen_ty_1 = 8" "wf_type ty_rte_bus__bindgen_ty_1"
  "layout_test_passes ty_rte_bus__bindgen_ty_1 test_rte_bus__bindgen_ty_1"
  by (simp_all add: ty_rte_bus__bindgen_ty_1_def test_rte_bus__bindgen_ty_1_def layout_simps layout_eval)

lemma layout_rte_bus [layout_simps]:
  "c_size ty_rte_bus = 128" "c_align ty_rte_bus = 8" "wf_type ty_rte_bus"
  "layout_test_passes ty_rte_bus test_rte_bus"
  by (simp_all add: ty_rte_bus_def test_rte_bus_def layout_simps layout_eval)

lemma layout_rte_mp_msg [layout_simps]:
  "c_size ty_rte_mp_msg = 360" "c_align ty_rte_mp_msg = 4" "wf_type ty_rte_mp_msg"
  "layout_test_passes ty_rte_mp_msg test_rte_mp_msg"
  by (simp_all add: ty_rte_mp_msg_def test_rte_mp_msg_def layout_simps layout_eval)

lemma layout_rte_mp_reply [layout_simps]:
  "c_size ty_rte_mp_reply = 16" "c_align ty_rte_mp_reply = 8" "wf_type ty_rte_mp_reply"
  "layout_test_passes ty_rte_mp_reply test_rte_mp_reply"
  by (simp_all add: ty_rte_mp_reply_def test_rte_mp_reply_def layout_simps layout_eval)

lemma layout_rte_devargs__bindgen_ty_1 [layout_simps]:
  "c_size ty_rte_devargs__bindgen_ty_1 = 16" "c_align ty_rte_devargs__bindgen_ty_1 = 8" "wf_type ty_rte_devargs__bindgen_ty_1"
  "layout_test_passes ty_rte_devargs__bindgen_ty_1 test_rte_devargs__bindgen_ty_1"
  by (simp_all add: ty_rte_devargs__bindgen_ty_1_def test_rte_devargs__bindgen_ty_1_def layout_simps layout_eval)

lemma layout_rte_devargs__bindgen_ty_2 [layout_simps]:
  "c_size ty_rte_devargs__bindgen_ty_2 = 8" "c_align ty_rte_devargs__bindgen_ty_2 = 8" "wf_type ty_rte_devargs__bindgen_ty_2"
  "layout_test_passes ty_rte_devargs__bindgen_ty_2 test_rte_devargs__bindgen_ty_2"
  by (simp_all add: ty_rte_devargs__bindgen_ty_2_def test_rte_devargs__bindgen_ty_2_def layout_simps layout_eval)

lemma layout_rte_devargs [layout_simps]:
  "c_size ty_rte_devargs = 136" "c_align ty_rte_devargs = 8" "wf_type ty_rte_devargs"
  "layout_test_passes ty_rte_devargs test_rte_devargs"
  by (simp_all add: ty_rte_devargs_def test_rte_devargs_def layout_simps layout_eval)

lemma layout_rte_dev_reg_info [layout_simps]:
  "c_size ty_rte_dev_reg_info = 24" "c_align ty_rte_dev_reg_info = 8" "wf_type ty_rte_dev_reg_info"
  "layout_test_passes ty_rte_dev_reg_info test_rte_dev_reg_info"
  by (simp_all add: ty_rte_dev_reg_info_def test_rte_dev_reg_info_def layout_simps layout_eval)

lemma layout_rte_dev_eeprom_info [layout_simps]:
  "c_size ty_rte_dev_eeprom_info = 24" "c_align ty_rte_dev_eeprom_info = 8" "wf_type ty_rte_dev_eeprom_info"
  "layout_test_passes ty_rte_dev_eeprom_info test_rte_dev_eeprom_info"
  by (simp_all add: ty_rte_dev_eeprom_info_def test_rte_dev_eeprom_info_def layout_simps layout_eval)

section \<open>Interrupts\<close>

text \<open>Interrupt handles and the events of \<open>epoll\<close>.\<close>

definition ty_rte_epoll_data :: c_type where
  "ty_rte_epoll_data = Struct 1 False [(''event'', U32), (''data'', Pointer),
      (''cb_fun'', Pointer), (''cb_arg'', Pointer)]"

definition test_rte_epoll_data :: layout_test where
  "test_rte_epoll_data = \<lparr>asserted_size = 32, asserted_align = 8,
     asserted_offsets = [(''event'', 0), (''data'', 8), (''cb_fun'', 16),
      (''cb_arg'', 24)]\<rparr>"

definition ty_rte_epoll_event :: c_type where
  "ty_rte_epoll_event = Struct 1 False [(''status'', U32), (''fd'', U32), (''epfd'', U32),
      (''epdata'', ty_rte_epoll_data)]"

definition test_rte_epoll_event :: layout_test where
  "test_rte_epoll_event = \<lparr>asserted_size = 48, asserted_align = 8,
     asserted_offsets = [(''status'', 0), (''fd'', 4), (''epfd'', 8), (''epdata'', 16)]\<rparr>"

definition ty_rte_intr_handle__bindgen_ty_1 :: c_type where
  "ty_rte_intr_handle__bindgen_ty_1 = Union 1 [(''vfio_dev_fd'', U32), (''uio_cfg_fd'', U32),
      (''_bindgen_union_align'', U32)]"

definition test_rte_intr_handle__bindgen_ty_1 :: layout_test where
  "test_rte_intr_handle__bindgen_ty_1 = \<lparr>asserted_size = 4, asserted_align = 4,
     asserted_offsets = [(''vfio_dev_fd'', 0), (''uio_cfg_fd'', 0)]\<rparr>"

definition ty_rte_intr_handle :: c_type where
  "ty_rte_intr_handle = Struct 1 False [(''__bindgen_anon_1'', ty_rte_intr_handle__bindgen_ty_1),
      (''fd'', U32), (''type_'', U32), (''max_intr'', U32), (''nb_efd'', U32),
      (''efd_counter_size'', U8), (''efds'', Arr U32 512),
      (''elist'', Arr ty_rte_epoll_event 512), (''intr_vec'', Pointer)]"

definition test_rte_intr_handle :: layout_test where
  "test_rte_intr_handle = \<lparr>asserted_size = 26656, asserted_align = 8,
     asserted_offsets = [(''fd'', 4), (''type_'', 8), (''max_intr'', 12), (''nb_efd'', 16),
      (''efd_counter_size'', 20), (''efds'', 24), (''elist'', 2072),
      (''intr_vec'', 26648)]\<rparr>"

lemma layout_rte_epoll_data [layout_simps]:
  "c_size ty_rte_epoll_data = 32" "c_align ty_rte_epoll_data = 8" "wf_type ty_rte_epoll_data"
  "layout_test_passes ty_rte_epoll_data test_rte_epoll_data"
  by (simp_all add: ty_rte_epoll_data_def test_rte_epoll_data_def layout_simps layout_eval)

lemma layout_rte_epoll_event [layout_simps]:
  "c_size ty_rte_epoll_event = 48" "c_align ty_rte_epoll_event = 8" "wf_type ty_rte_epoll_event"
  "layout_test_passes ty_rte_epoll_event test_rte_epoll_event"
  by (simp_all add: ty_rte_epoll_event_def test_rte_epoll_event_def layout_simps layout_eval)

lemma layout_rte_intr_handle__bindgen_ty_1 [layout_simps]:
  "c_size ty_rte_intr_handle__bindgen_ty_1 = 4" "c_align ty_rte_intr_handle__bindgen_ty_1 = 4" "wf_type ty_rte_intr_handle__bindgen_ty_1"
  "layout_test_passes ty_rte_intr_handle__bindgen_ty_1 test_rte_intr_handle__bindgen_ty_1"
  by (simp_all add: ty_rte_intr_handle__bindgen_ty_1_def test_rte_intr_handle__bindgen_ty_1_def layout_simps layout_eval)

lemma layout_rte_intr_handle [layout_simps]:
  "c_size ty_rte_intr_handle = 26656" "c_align ty_rte_intr_handle = 8" "wf_type ty_rte_intr_handle"
  "layout_test_passes ty_rte_intr_handle test_rte_intr_handle"
  by (simp_all add: ty_rte_intr_handle_def test_rte_intr_handle_def layout_simps layout_eval)

section \<open>Locks and atomics\<close>

text \<open>Spin locks, reader-writer locks and atomic integers.\<close>

definition ty_rte_spinlock_t :: c_type where
  "ty_rte_spinlock_t = Struct 1 False [(''locked'', U32)]"

definition test_rte_spinlock_t :: layout_test where
  "test_rte_spinlock_t = \<lparr>asserted_size = 4, asserted_align = 4,
     asserted_offsets = [(''locked'', 0)]\<rparr>"

definition ty_rte_spinlock_recursive_t :: c_type where
  "ty_rte_spinlock_recursive_t = Struct 1 False [(''sl'', ty_rte_spinlock_t), (''user'', U32),
      (''count'', U32)]"

definition test_rte_spinlock_recursive_t :: layout_test where
  "test_rte_spinlock_recursive_t = \<lparr>asserted_size = 12, asserted_align = 4,
     asserted_offsets = [(''sl'', 0), (''user'', 4), (''count'', 8)]\<rparr>"

definition ty_rte_atomic32_t :: c_type where
  "ty_rte_atomic32_t = Struct 1 False [(''cnt'', U32)]"

definition test_rte_atomic32_t :: layout_test where
  "test_rte_atomic32_t = \<lparr>asserted_size = 4, asserted_align = 4,
     asserted_offsets = [(''cnt'', 0)]\<rparr>"

definition ty_rte_atomic64_t :: c_type where
  "ty_rte_atomic64_t = Struct 1 False [(''cnt'', U64)]"

definition test_rte_atomic64_t :: layout_test where
  "test_rte_atomic64_t = \<lparr>asserted_size = 8, asserted_align = 8,
     asserted_offsets = [(''cnt'', 0)]\<rparr>"

definition ty_rte_int128_t__bindgen_ty_1 :: c_type where
  "ty_rte_int128_t__bindgen_ty_1 = Union 16 [(''val'', Arr U64 2), (''int128'', Scalar 16),
      (''_bindgen_union_align'', Scalar 16)]"

definition test_rte_int128_t__bindgen_ty_1 :: layout_test where
  "test_rte_int128_t__bindgen_ty_1 = \<lparr>asserted_size = 16, asserted_align = 16,
     asserted_offsets = [(''val'', 0), (''int128'', 0)]\<rparr>"

definition ty_rte_int128_t :: c_type where
  "ty_rte_int128_t = Struct 16 False [(''__bindgen_anon_1'', ty_rte_int128_t__bindgen_ty_1)]"

definition test_rte_int128_t :: layout_test where
  "test_rte_int128_t = \<lparr>asserted_size = 16, asserted_align = 16,
     asserted_offsets = []\<rparr>"

definition ty_rte_rwlock_t :: c_type where
  "ty_rte_rwlock_t = Struct 1 False [(''cnt'', U32)]"

definition test_rte_rwlock_t :: layout_test where
  "test_rte_rwlock_t = \<lparr>asserted_size = 4, asserted_align = 4,
     asserted_offsets = [(''cnt'', 0)]\<rparr>"

lemma layout_rte_spinlock_t [layout_simps]:
  "c_size ty_rte_spinlock_t = 4" "c_align ty_rte_spinlock_t = 4" "wf_type ty_rte_spinlock_t"
  "layout_test_passes ty_rte_spinlock_t test_rte_spinlock_t"
  by (simp_all add: ty_rte_spinlock_t_def test_rte_spinlock_t_def layout_simps layout_eval)

lemma layout_rte_spinlock_recursive_t [layout_simps]:
  "c_size ty_rte_spinlock_recursive_t = 12" "c_align ty_rte_spinlock_recursive_t = 4" "wf_type ty_rte_spinlock_recursive_t"
  "layout_test_passes ty_rte_spinlock_recursive_t test_rte_spinlock_recursive_t"
  by (simp_all add: ty_rte_spinlock_recursive_t_def test_rte_spinlock_recursive_t_def layout_simps layout_eval)

lemma layout_rte_atomic32_t [layout_simps]:
  "c_size ty_rte_atomic32_t = 4" "c_align ty_rte_atomic32_t = 4" "wf_type ty_rte_atomic32_t"
  "layout_test_passes ty_rte_atomic32_t test_rte_atomic32_t"
  by (simp_all add: ty_rte_atomic32_t_def test_rte_atomic32_t_def layout_simps layout_eval)

lemma layout_rte_atomic64_t [layout_simps]:
  "c_size ty_rte_atomic64_t = 8" "c_align ty_rte_atomic64_t = 8" "wf_type ty_rte_atomic64_t"
  "layout_test_passes ty_rte_atomic64_t test_rte_atomic64_t"
  by (simp_all add: ty_rte_atomic64_t_def test_rte_atomic64_t_def layout_simps layout_eval)

lemma layout_rte_int128_t__bindgen_ty_1 [layout_simps]:
  "c_size ty_rte_int128_t__bindgen_ty_1 = 16" "c_align ty_rte_int128_t__bindgen_ty_1 = 16" "wf_type ty_rte_int128_t__bindgen_ty_1"
  "layout_test_passes ty_rte_int128_t__bindgen_ty_1 test_rte_int128_t__bindgen_ty_1"
  by (simp_all add: ty_rte_int128_t__bindgen_ty_1_def test_rte_int128_t__bindgen_ty_1_def layout_simps layout_eval)

lemma layout_rte_int128_t [layout_simps]:
  "c_size ty_rte_int128_t = 16" "c_align ty_rte_int128_t = 16" "wf_type ty_rte_int128_t"
  "layout_test_passes ty_rte_int128_t test_rte_int128_t"
  by (simp_all add: ty_rte_int128_t_def test_rte_int128_t_def layout_simps layout_eval)

lemma layout_rte_rwlock_t [layout_simps]:
  "c_size ty_rte_rwlock_t = 4" "c_align ty_rte_rwlock_t = 4" "wf_type ty_rte_rwlock_t"
  "layout_test_passes ty_rte_rwlock_t test_rte_rwlock_t"
  by (simp_all add: ty_rte_rwlock_t_def test_rte_rwlock_t_def layout_simps layout_eval)

section \<open>Memory\<close>

text \<open>Memory segments and the vector registers of \<open>rte_memcpy\<close>.\<close>

definition ty_rte_xmm :: c_type where
  "ty_rte_xmm = Union 16 [(''x'', Arr U64 2), (''u8'', Arr U8 16), (''u16'', Arr U16 8),
      (''u32'', Arr U32 4), (''u64'', Arr U64 2), (''pd'', Arr U64 2),
      (''_bindgen_union_align'', Scalar 16)]"

definition test_rte_xmm :: layout_test where
  "test_rte_xmm = \<lparr>asserted_size = 16, asserted_align = 16,
     asserted_offsets = [(''x'', 0), (''u8'', 0), (''u16'', 0), (''u32'', 0), (''u64'', 0),
      (''pd'', 0)]\<rparr>"

definition ty_rte_ymm :: c_type where
  "ty_rte_ymm = Union 32 [(''y'', Arr U64 4), (''x'', Arr (Arr U64 2) 2), (''u8'', Arr U8 32),
      (''u16'', Arr U16 16), (''u32'', Arr U32 8), (''u64'', Arr U64 4), (''pd'', Arr U64 4),
      (''_bindgen_union_align'', Arr U8 32)]"

definition test_rte_ymm :: layout_test where
  "test_rte_ymm = \<lparr>asserted_size = 32, asserted_align = 32,
     asserted_offsets = [(''y'', 0), (''x'', 0), (''u8'', 0), (''u16'', 0), (''u32'', 0),
      (''u64'', 0), (''pd'', 0)]\<rparr>"

definition ty_rte_fbarray :: c_type where
  "ty_rte_fbarray = Struct 1 False [(''name'', Arr U8 64), (''count'', U32), (''len'', U32),
      (''elt_sz'', U32), (''data'', Pointer), (''rwlock'', ty_rte_rwlock_t)]"

definition test_rte_fbarray :: layout_test where
  "test_rte_fbarray = \<lparr>asserted_size = 96, asserted_align = 8,
     asserted_offsets = [(''name'', 0), (''count'', 64), (''len'', 68), (''elt_sz'', 72),
      (''data'', 80), (''rwlock'', 88)]\<rparr>"

definition ty_rte_memseg__bindgen_ty_1 :: c_type where
  "ty_rte_memseg__bindgen_ty_1 = Union 1 [(''phys_addr'', U64), (''iova'', U64),
      (''_bindgen_union_align'', U64)]"

definition test_rte_memseg__bindgen_ty_1 :: layout_test where
  "test_rte_memseg__bindgen_ty_1 = \<lparr>asserted_size = 8, asserted_align = 8,
     asserted_offsets = [(''phys_addr'', 0), (''iova'', 0)]\<rparr>"

definition ty_rte_memseg__bindgen_ty_2 :: c_type where
  "ty_rte_memseg__bindgen_ty_2 = Union 1 [(''addr'', Pointer), (''addr_64'', U64),
      (''_bindgen_union_align'', U64)]"

definition test_rte_memseg__bindgen_ty_2 :: layout_test where
  "test_rte_memseg__bindgen_ty_2 = \<lparr>asserted_size = 8, asserted_align = 8,
     asserted_offsets = [(''addr'', 0), (''addr_64'', 0)]\<rparr>"

definition ty_rte_memseg :: c_type where
  "ty_rte_memseg = Struct 1 True [(''__bindgen_anon_1'', ty_rte_memseg__bindgen_ty_1),
      (''__bindgen_anon_2'', ty_rte_memseg__bindgen_ty_2), (''len'', U64),
      (''hugepage_sz'', U64), (''socket_id'', U32), (''nchannel'', U32), (''nrank'', U32),
      (''flags'', U32)]"

definition test_rte_memseg :: layout_test where
  "test_rte_memseg = \<lparr>asserted_size = 48, asserted_align = 1,
     asserted_offsets = [(''len'', 16), (''hugepage_sz'', 24), (''socket_id'', 32),
      (''nchannel'', 36), (''nrank'', 40), (''flags'', 44)]\<rparr>"

definition ty_rte_memseg_list__bindgen_ty_1 :: c_type where
  "ty_rte_memseg_list__bindgen_ty_1 = Union 1 [(''base_va'', Pointer), (''addr_64'', U64),
      (''_bindgen_union_align'', U64)]"

definition test_rte_memseg_list__bindgen_ty_1 :: layout_test where
  "test_rte_memseg_list__bindgen_ty_1 = \<lparr>asserted_size = 8, asserted_align = 8,
     asserted_offsets = [(''base_va'', 0), (''addr_64'', 0)]\<rparr>"

definition ty_rte_memseg_list :: c_type where
  "ty_rte_memseg_list = Struct 1 False [(''__bindgen_anon_1'', ty_rte_memseg_list__bindgen_ty_1),
      (''page_sz'', U64), (''socket_id'', U32), (''version'', U32), (''len'', U64),
      (''external'', U32), (''heap'', U32), (''memseg_arr'', ty_rte_fbarray)]"

definition test_rte_memseg_list :: layout_test where
  "test_rte_memseg_list = \<lparr>asserted_size = 136, asserted_align = 8,
     asserted_offsets = [(''page_sz'', 8), (''socket_id'', 16), (''version'', 20), (''len'', 24),
      (''external'', 32), (''heap'', 36), (''memseg_arr'', 40)]\<rparr>"

lemma layout_rte_xmm [layout_simps]:
  "c_size ty_rte_xmm = 16" "c_align ty_rte_xmm = 16" "wf_type ty_rte_xmm"
  "layout_test_passes ty_rte_xmm test_rte_xmm"
  by (simp_all add: ty_rte_xmm_def test_rte_xmm_def layout_simps layout_eval)

lemma layout_rte_ymm [layout_simps]:
  "c_size ty_rte_ymm = 32" "c_align ty_rte_ymm = 32" "wf_type ty_rte_ymm"
  "layout_test_passes ty_rte_ymm test_rte_ymm"
  by (simp_all add: ty_rte_ymm_def test_rte_ymm_def layout_simps layout_eval)

lemma layout_rte_fbarray [layout_simps]:
  "c_size ty_rte_fbarray = 96" "c_align ty_rte_fbarray = 8" "wf_type ty_rte_fbarray"
  "layout_test_passes ty_rte_fbarray test_rte_fbarray"
  by (simp_all add: ty_rte_fbarray_def test_rte_fbarray_def layout_simps layout_eval)

lemma layout_rte_memseg__bindgen_ty_1 [layout_simps]:
  "c_size ty_rte_memseg__bindgen_ty_1 = 8" "c_align ty_rte_memseg__bindgen_ty_1 = 8" "wf_type ty_rte_memseg__bindgen_ty_1"
  "layout_test_passes ty_rte_memseg__bindgen_ty_1 test_rte_memseg__bindgen_ty_1"
  by (simp_all add: ty_rte_memseg__bindgen_ty_1_def test_rte_memseg__bindgen_ty_1_def layout_simps layout_eval)

lemma layout_rte_memseg__bindgen_ty_2 [layout_simps]:
  "c_size ty_rte_memseg__bindgen_ty_2 = 8" "c_align ty_rte_memseg__bindgen_ty_2 = 8" "wf_type ty_rte_memseg__bindgen_ty_2"
  "layout_test_passes ty_rte_memseg__bindgen_ty_2 test_rte_memseg__bindgen_ty_2"
  by (simp_all add: ty_rte_memseg__bindgen_ty_2_def test_rte_memseg__bindgen_ty_2_def layout_simps layout_eval)

lemma layout_rte_memseg [layout_simps]:
  "c_size ty_rte_memseg = 48" "c_align ty_rte_memseg = 1" "wf_type ty_rte_memseg"
  "layout_test_passes ty_rte_memseg test_rte_memseg"
  by (simp_all add: ty_rte_memseg_def test_rte_memseg_def layout_simps layout_eval)

lemma layout_rte_memseg_list__bindgen_ty_1 [layout_simps]:
  "c_size ty_rte_memseg_list__bindgen_ty_1 = 8" "c_align ty_rte_memseg_list__bindgen_ty_1 = 8" "wf_type ty_rte_memseg_list__bindgen_ty_1"
  "layout_test_passes ty_rte_memseg_list__bindgen_ty_1 test_rte_memseg_list__bindgen_ty_1"
  by (simp_all add: ty_rte_memseg_list__bindgen_ty_1_def test_rte_memseg_list__bindgen_ty_1_def layout_simps layout_eval)

lemma layout_rte_memseg_list [layout_simps]:
  "c_size ty_rte_memseg_list = 136" "c_align ty_rte_memseg_list = 8" "wf_type ty_rte_memseg_list"
  "layout_test_passes ty_rte_memseg_list test_rte_memseg_list"
  by (simp_all add: ty_rte_memseg_list_def test_rte_memseg_list_def layout_simps layout_eval)

section \<open>Pools and buffers\<close>

text \<open>Pool headers, caches and operations, private data of buffer pools and dynamic fields.\<close>

definition ty_rte_mempool_cache :: c_type where
  "ty_rte_mempool_cache = Struct 64 False [(''size'', U32), (''flushthresh'', U32),
      (''len'', U32), (''objs'', Arr Pointer 1536)]"

definition test_rte_mempool_cache :: layout_test where
  "test_rte_mempool_cache = \<lparr>asserted_size = 12352, asserted_align = 64,
     asserted_offsets = [(''size'', 0), (''flushthresh'', 4), (''len'', 8),
      (''objs'', 16)]\<rparr>"

definition ty_rte_mempool_objsz :: c_type where
  "ty_rte_mempool_objsz = Struct 1 False [(''elt_size'', U32), (''header_size'', U32),
      (''trailer_size'', U32), (''total_size'', U32)]"

definition test_rte_mempool_objsz :: layout_test where
  "test_rte_mempool_objsz = \<lparr>asserted_size = 16, asserted_align = 4,
     asserted_offsets = [(''elt_size'', 0), (''header_size'', 4), (''trailer_size'', 8),
      (''total_size'', 12)]\<rparr>"

definition ty_rte_mempool_objhdr__bindgen_ty_1 :: c_type where
  "ty_rte_mempool_objhdr__bindgen_ty_1 = Struct 1 False [(''stqe_next'', Pointer)]"

definition test_rte_mempool_objhdr__bindgen_ty_1 :: layout_test where
  "test_rte_mempool_objhdr__bindgen_ty_1 = \<lparr>asserted_size = 8, asserted_align = 8,
     asserted_offsets = [(''stqe_next'', 0)]\<rparr>"

definition ty_rte_mempool_objhdr__bindgen_ty_2 :: c_type where
  "ty_rte_mempool_objhdr__bindgen_ty_2 = Union 1 [(''iova'', U64), (''physaddr'', U64),
      (''_bindgen_union_align'', U64)]"

definition test_rte_mempool_objhdr__bindgen_ty_2 :: layout_test where
  "test_rte_mempool_objhdr__bindgen_ty_2 = \<lparr>asserted_size = 8, asserted_align = 8,
     asserted_offsets = [(''iova'', 0), (''physaddr'', 0)]\<rparr>"

definition ty_rte_mempool_objhdr :: c_type where
  "ty_rte_mempool_objhdr = Struct 1 False [(''next'', ty_rte_mempool_objhdr__bindgen_ty_1),
      (''mp'', Pointer), (''__bindgen_anon_1'', ty_rte_mempool_objhdr__bindgen_ty_2)]"

definition test_rte_mempool_objhdr :: layout_test where
  "test_rte_mempool_objhdr = \<lparr>asserted_size = 24, asserted_align = 8,
     asserted_offsets = [(''next'', 0), (''mp'', 8)]\<rparr>"

definition ty_rte_mempool_memhdr__bindgen_ty_1 :: c_type where
  "ty_rte_mempool_memhdr__bindgen_ty_1 = Struct 1 False [(''stqe_next'', Pointer)]"

definition test_rte_mempool_memhdr__bindgen_ty_1 :: layout_test where
  "test_rte_mempool_memhdr__bindgen_ty_1 = \<lparr>asserted_size = 8, asserted_align = 8,
     asserted_offsets = [(''stqe_next'', 0)]\<rparr>"

definition ty_rte_mempool_memhdr__bindgen_ty_2 :: c_type where
  "ty_rte_mempool_memhdr__bindgen_ty_2 = Union 1 [(''iova'', U64), (''phys_addr'', U64),
      (''_bindgen_union_align'', U64)]"

definition test_rte_mempool_memhdr__bindgen_ty_2 :: layout_test where
  "test_rte_mempool_memhdr__bindgen_ty_2 = \<lparr>asserted_size = 8, asserted_align = 8,
     asserted_offsets = [(''iova'', 0), (''phys_addr'', 0)]\<rparr>"

definition ty_rte_mempool_memhdr :: c_type where
  "ty_rte_mempool_memhdr = Struct 1 False [(''next'', ty_rte_mempool_memhdr__bindgen_ty_1),
      (''mp'', Pointer), (''addr'', Pointer),
      (''__bindgen_anon_1'', ty_rte_mempool_memhdr__bindgen_ty_2), (''len'', U64),
      (''free_cb'', Pointer), (''opaque'', Pointer)]"

definition test_rte_mempool_memhdr :: layout_test where
  "test_rte_mempool_memhdr = \<lparr>asserted_size = 56, asserted_align = 8,
     asserted_offsets = [(''next'', 0), (''mp'', 8), (''addr'', 16), (''len'', 32),
      (''free_cb'', 40), (''opaque'', 48)]\<rparr>"

definition ty_rte_mempool_info :: c_type where
  "ty_rte_mempool_info = Struct 64 False [(''contig_block_size'', U32)]"

definition test_rte_mempool_info :: layout_test where
  "test_rte_mempool_info = \<lparr>asserted_size = 64, asserted_align = 64,
     asserted_offsets = [(''contig_block_size'', 0)]\<rparr>"

definition ty_rte_mempool_ops :: c_type where
  "ty_rte_mempool_ops = Struct 64 False [(''name'', Arr U8 32), (''alloc'', Pointer),
      (''free'', Pointer), (''enqueue'', Pointer), (''dequeue'', Pointer),
      (''get_count'', Pointer), (''calc_mem_size'', Pointer), (''populate'', Pointer),
      (''get_info'', Pointer), (''dequeue_contig_blocks'', Pointer)]"

definition test_rte_mempool_ops :: layout_test where
  "test_rte_mempool_ops = \<lparr>asserted_size = 128, asserted_align = 64,
     asserted_offsets = [(''name'', 0), (''alloc'', 32), (''free'', 40), (''enqueue'', 48),
      (''dequeue'', 56), (''get_count'', 64), (''calc_mem_size'', 72), (''populate'', 80),
      (''get_info'', 88), (''dequeue_contig_blocks'', 96)]\<rparr>"

definition ty_rte_mempool_ops_table :: c_type where
  "ty_rte_mempool_ops_table = Struct 64 False [(''sl'', ty_rte_spinlock_t), (''num_ops'', U32),
      (''__bindgen_padding_0'', Arr U64 7), (''ops'', Arr ty_rte_mempool_ops 16)]"

definition test_rte_mempool_ops_table :: layout_test where
  "test_rte_mempool_ops_table = \<lparr>asserted_size = 2112, asserted_align = 64,
     asserted_offsets = [(''sl'', 0), (''num_ops'', 4), (''ops'', 64)]\<rparr>"

definition ty_rte_mbuf_ext_shared_info :: c_type where
  "ty_rte_mbuf_ext_shared_info = Struct 1 False [(''free_cb'', Pointer),
      (''fcb_opaque'', Pointer), (''refcnt_atomic'', ty_rte_atomic16_t)]"

definition test_rte_mbuf_ext_shared_info :: layout_test where
  "test_rte_mbuf_ext_shared_info = \<lparr>asserted_size = 24, asserted_align = 8,
     asserted_offsets = [(''free_cb'', 0), (''fcb_opaque'', 8), (''refcnt_atomic'', 16)]\<rparr>"

definition ty_rte_pktmbuf_pool_private :: c_type where
  "ty_rte_pktmbuf_pool_private = Struct 1 False [(''mbuf_data_room_size'', U16),
      (''mbuf_priv_size'', U16), (''flags'', U32)]"

definition test_rte_pktmbuf_pool_private :: layout_test where
  "test_rte_pktmbuf_pool_private = \<lparr>asserted_size = 8, asserted_align = 4,
     asserted_offsets = [(''mbuf_data_room_size'', 0), (''mbuf_priv_size'', 2),
      (''flags'', 4)]\<rparr>"

definition ty_rte_mbuf_dynfield :: c_type where
  "ty_rte_mbuf_dynfield = Struct 1 False [(''name'', Arr U8 64), (''size'', U64),
      (''align'', U64), (''flags'', U32)]"

definition test_rte_mbuf_dynfield :: layout_test where
  "test_rte_mbuf_dynfield = \<lparr>asserted_size = 88, asserted_align = 8,
     asserted_offsets = [(''name'', 0), (''size'', 64), (''align'', 72),
      (''flags'', 80)]\<rparr>"

definition ty_rte_mbuf_dynflag :: c_type where
  "ty_rte_mbuf_dynflag = Struct 1 False [(''name'', Arr U8 64), (''flags'', U32)]"

definition test_rte_mbuf_dynflag :: layout_test where
  "test_rte_mbuf_dynflag = \<lparr>asserted_size = 68, asserted_align = 4,
     asserted_offsets = [(''name'', 0), (''flags'', 64)]\<rparr>"

lemma layout_rte_mempool_cache [layout_simps]:
  "c_size ty_rte_mempool_cache = 12352" "c_align ty_rte_mempool_cache = 64" "wf_type ty_rte_mempool_cache"
  "layout_test_passes ty_rte_mempool_cache test_rte_mempool_cache"
  by (simp_all add: ty_rte_mempool_cache_def test_rte_mempool_cache_def layout_simps layout_eval)

lemma layout_rte_mempool_objsz [layout_simps]:
  "c_size ty_rte_mempool_objsz = 16" "c_align ty_rte_mempool_objsz = 4" "wf_type ty_rte_mempool_objsz"
  "layout_test_passes ty_rte_mempool_objsz test_rte_mempool_objsz"
  by (simp_all add: ty_rte_mempool_objsz_def test_rte_mempool_objsz_def layout_simps layout_eval)

lemma layout_rte_mempool_objhdr__bindgen_ty_1 [layout_simps]:
  "c_size ty_rte_mempool_objhdr__bindgen_ty_1 = 8" "c_align ty_rte_mempool_objhdr__bindgen_ty_1 = 8" "wf_type ty_rte_mempool_objhdr__bindgen_ty_1"
  "layout_test_passes ty_rte_mempool_objhdr__bindgen_ty_1 test_rte_mempool_objhdr__bindgen_ty_1"
  by (simp_all add: ty_rte_mempool_objhdr__bindgen_ty_1_def test_rte_mempool_objhdr__bindgen_ty_1_def layout_simps layout_eval)

lemma layout_rte_mempool_objhdr__bindgen_ty_2 [layout_simps]:
  "c_size ty_rte_mempool_objhdr__bindgen_ty_2 = 8" "c_align ty_rte_mempool_objhdr__bindgen_ty_2 = 8" "wf_type ty_rte_mempool_objhdr__bindgen_ty_2"
  "layout_test_passes ty_rte_mempool_objhdr__bindgen_ty_2 test_rte_mempool_objhdr__bindgen_ty_2"
  by (simp_all add: ty_rte_mempool_objhdr__bindgen_ty_2_def test_rte_mempool_objhdr__bindgen_ty_2_def layout_simps layout_eval)

lemma layout_rte_mempool_objhdr [layout_simps]:
  "c_size ty_rte_mempool_objhdr = 24" "c_align ty_rte_mempool_objhdr = 8" "wf_type ty_rte_mempool_objhdr"
  "layout_test_passes ty_rte_mempool_objhdr test_rte_mempool_objhdr"
  by (simp_all add: ty_rte_mempool_objhdr_def test_rte_mempool_objhdr_def layout_simps layout_eval)

lemma layout_rte_mempool_memhdr__bindgen_ty_1 [layout_simps]:
  "c_size ty_rte_mempool_memhdr__bindgen_ty_1 = 8" "c_align ty_rte_mempool_memhdr__bindgen_ty_1 = 8" "wf_type ty_rte_mempool_memhdr__bindgen_ty_1"
  "layout_test_passes ty_rte_mempool_memhdr__bindgen_ty_1 test_rte_mempool_memhdr__bindgen_ty_1"
  by (simp_all add: ty_rte_mempool_memhdr__bindgen_ty_1_def test_rte_mempool_memhdr__bindgen_ty_1_def layout_simps layout_eval)

lemma layout_rte_mempool_memhdr__bindgen_ty_2 [layout_simps]:
  "c_size ty_rte_mempool_memhdr__bindgen_ty_2 = 8" "c_align ty_rte_mempool_memhdr__bindgen_ty_2 = 8" "wf_type ty_rte_mempool_memhdr__bindgen_ty_2"
  "layout_test_passes ty_rte_mempool_memhdr__bindgen_ty_2 test_rte_mempool_memhdr__bindgen_ty_2"
  by (simp_all add: ty_rte_mempool_memhdr__bindgen_ty_2_def test_rte_mempool_memhdr__bindgen_ty_2_def layout_simps layout_eval)

lemma layout_rte_mempool_memhdr [layout_simps]:
  "c_size ty_rte_mempool_memhdr = 56" "c_align ty_rte_mempool_memhdr = 8" "wf_type ty_rte_mempool_memhdr"
  "layout_test_passes ty_rte_mempool_memhdr test_rte_mempool_memhdr"
  by (simp_all add: ty_rte_mempool_memhdr_def test_rte_mempool_memhdr_def layout_simps layout_eval)

lemma layout_rte_mempool_info [layout_simps]:
  "c_size ty_rte_mempool_info = 64" "c_align ty_rte_mempool_info = 64" "wf_type ty_rte_mempool_info"
  "layout_test_passes ty_rte_mempool_info test_rte_mempool_info"
  by (simp_all add: ty_rte_mempool_info_def test_rte_mempool_info_def layout_simps layout_eval)

lemma layout_rte_mempool_ops [layout_simps]:
  "c_size ty_rte_mempool_ops = 128" "c_align ty_rte_mempool_ops = 64" "wf_type ty_rte_mempool_ops"
  "layout_test_passes ty_rte_mempool_ops test_rte_mempool_ops"
  by (simp_all add: ty_rte_mempool_ops_def test_rte_mempool_ops_def layout_simps layout_eval)

lemma layout_rte_mempool_ops_table [layout_simps]:
  "c_size ty_rte_mempool_ops_table = 2112" "c_align ty_rte_mempool_ops_table = 64" "wf_type ty_rte_mempool_ops_table"
  "layout_test_passes ty_rte_mempool_ops_table test_rte_mempool_ops_table"
  by (simp_all add: ty_rte_mempool_ops_table_def test_rte_mempool_ops_table_def layout_simps layout_eval)

lemma layout_rte_mbuf_ext_shared_info [layout_simps]:
  "c_size ty_rte_mbuf_ext_shared_info = 24" "c_align ty_rte_mbuf_ext_shared_info = 8" "wf_type ty_rte_mbuf_ext_shared_info"
  "layout_test_passes ty_rte_mbuf_ext_shared_info test_rte_mbuf_ext_shared_info"
  by (simp_all add: ty_rte_mbuf_ext_shared_info_def test_rte_mbuf_ext_shared_info_def layout_simps layout_eval)

lemma layout_rte_pktmbuf_pool_private [layout_simps]:
  "c_size ty_rte_pktmbuf_pool_private = 8" "c_align ty_rte_pktmbuf_pool_private = 4" "wf_type ty_rte_pktmbuf_pool_private"
  "layout_test_passes ty_rte_pktmbuf_pool_private test_rte_pktmbuf_pool_private"
  by (simp_all add: ty_rte_pktmbuf_pool_private_def test_rte_pktmbuf_pool_private_def layout_simps layout_eval)

lemma layout_rte_mbuf_dynfield [layout_simps]:
  "c_size ty_rte_mbuf_dynfield = 88" "c_align ty_rte_mbuf_dynfield = 8" "wf_type ty_rte_mbuf_dynfield"
  "layout_test_passes ty_rte_mbuf_dynfield test_rte_mbuf_dynfield"
  by (simp_all add: ty_rte_mbuf_dynfield_def test_rte_mbuf_dynfield_def layout_simps layout_eval)

lemma layout_rte_mbuf_dynflag [layout_simps]:
  "c_size ty_rte_mbuf_dynflag = 68" "c_align ty_rte_mbuf_dynflag = 4" "wf_type ty_rte_mbuf_dynflag"
  "layout_test_passes ty_rte_mbuf_dynflag test_rte_mbuf_dynflag"
  by (simp_all add: ty_rte_mbuf_dynflag_def test_rte_mbuf_dynflag_def layout_simps layout_eval)

section \<open>The tests\<close>

definition eal_layouts :: "(c_type \<times> layout_test) list" where
  "eal_layouts = [(ty_timespec, test_timespec), (ty_cpu_set_t, test_cpu_set_t),
      (ty_pthread_attr_t, test_pthread_attr_t), (ty__IO_FILE, test__IO_FILE),
      (ty_timeval, test_timeval), (ty_sockaddr, test_sockaddr),
      (ty___va_list_tag, test___va_list_tag), (ty_rte_logs, test_rte_logs),
      (ty_rte_dev_event, test_rte_dev_event), (ty_rte_mem_resource, test_rte_mem_resource),
      (ty_rte_driver__bindgen_ty_1, test_rte_driver__bindgen_ty_1),
      (ty_rte_driver, test_rte_driver),
      (ty_rte_device__bindgen_ty_1, test_rte_device__bindgen_ty_1),
      (ty_rte_device, test_rte_device), (ty_rte_dev_iterator, test_rte_dev_iterator),
      (ty_rte_bus_list, test_rte_bus_list), (ty_rte_bus_conf, test_rte_bus_conf),
      (ty_rte_bus__bindgen_ty_1, test_rte_bus__bindgen_ty_1), (ty_rte_bus, test_rte_bus),
      (ty_rte_mp_msg, test_rte_mp_msg), (ty_rte_mp_reply, test_rte_mp_reply),
      (ty_rte_devargs__bindgen_ty_1, test_rte_devargs__bindgen_ty_1),
      (ty_rte_devargs__bindgen_ty_2, test_rte_devargs__bindgen_ty_2),
      (ty_rte_devargs, test_rte_devargs), (ty_rte_dev_reg_info, test_rte_dev_reg_info),
      (ty_rte_dev_eeprom_info, test_rte_dev_eeprom_info),
      (ty_rte_epoll_data, test_rte_epoll_data), (ty_rte_epoll_event, test_rte_epoll_event),
      (ty_rte_intr_handle__bindgen_ty_1, test_rte_intr_handle__bindgen_ty_1),
      (ty_rte_intr_handle, test_rte_intr_handle), (ty_rte_spinlock_t, test_rte_spinlock_t),
      (ty_rte_spinlock_recursive_t, test_rte_spinlock_recursive_t),
      (ty_rte_atomic32_t, test_rte_atomic32_t), (ty_rte_atomic64_t, test_rte_atomic64_t),
      (ty_rte_int128_t__bindgen_ty_1, test_rte_int128_t__bindgen_ty_1),
      (ty_rte_int128_t, test_rte_int128_t), (ty_rte_rwlock_t, test_rte_rwlock_t),
      (ty_rte_xmm, test_rte_xmm), (ty_rte_ymm, test_rte_ymm), (ty_rte_fbarray, test_rte_fbarray),
      (ty_rte_memseg__bindgen_ty_1, test_rte_memseg__bindgen_ty_1),
      (ty_rte_memseg__bindgen_ty_2, test_rte_memseg__bindgen_ty_2),
      (ty_rte_memseg, test_rte_memseg),
      (ty_rte_memseg_list__bindgen_ty_1, test_rte_memseg_list__bindgen_ty_1),
      (ty_rte_memseg_list, test_rte_memseg_list), (ty_rte_mempool_cache, test_rte_mempool_cache),
      (ty_rte_mempool_objsz, test_rte_mempool_objsz),
      (ty_rte_mempool_objhdr__bindgen_ty_1, test_rte_mempool_objhdr__bindgen_ty_1),
      (ty_rte_mempool_objhdr__bindgen_ty_2, test_rte_mempool_objhdr__bindgen_ty_2),
      (ty_rte_mempool_objhdr, test_rte_mempool_objhdr),
      (ty_rte_mempool_memhdr__bindgen_ty_1, test_rte_mempool_memhdr__bindgen_ty_1),
      (ty_rte_mempool_memhdr__bindgen_ty_2, test_rte_mempool_memhdr__bindgen_ty_2),
      (ty_rte_mempool_memhdr, test_rte_mempool_memhdr),
      (ty_rte_mempool_info, test_rte_mempool_info), (ty_rte_mempool_ops, test_rte_mempool_ops),
      (ty_rte_mempool_ops_table, test_rte_mempool_ops_table),
      (ty_rte_mbuf_ext_shared_info, test_rte_mbuf_ext_shared_info),
      (ty_rte_pktmbuf_pool_private, test_rte_pktmbuf_pool_private),
      (ty_rte_mbuf_dynfield, test_rte_mbuf_dynfield),
      (ty_rte_mbuf_dynflag, test_rte_mbuf_dynflag)]"

lemma eal_layouts_pass: "list_all (\<lambda>(t, w). layout_test_passes t w \<and> wf_type t) eal_layouts"
  by (simp add: eal_layouts_def layout_simps)

end
