(* ===== verification/Bound_Packets.thy ===== *)
theory Bound_Packets
  imports Bound_Eal Bound_Types
begin

text \<open>
  The packet headers the bindings declare, besides Ethernet and IPv4, and the PCI, kernel
  interface, NUMA and capture types.
  They are translated as in \<open>Bound_Types\<close>.
\<close>

section \<open>Packet headers\<close>

text \<open>VLAN, ARP, ICMP, IPv6, SCTP, TCP, UDP, ESP and HiGig2.\<close>

definition ty_rte_vlan_hdr :: c_type where
  "ty_rte_vlan_hdr = Struct 1 True [(''vlan_tci'', U16), (''eth_proto'', U16)]"

definition test_rte_vlan_hdr :: layout_test where
  "test_rte_vlan_hdr = \<lparr>asserted_size = 4, asserted_align = 1,
     asserted_offsets = [(''vlan_tci'', 0), (''eth_proto'', 2)]\<rparr>"

definition ty_rte_arp_ipv4 :: c_type where
  "ty_rte_arp_ipv4 = Struct 2 False [(''_bindgen_opaque_blob'', Arr U16 10)]"

definition test_rte_arp_ipv4 :: layout_test where
  "test_rte_arp_ipv4 = \<lparr>asserted_size = 20, asserted_align = 2,
     asserted_offsets = []\<rparr>"

definition ty_rte_arp_hdr :: c_type where
  "ty_rte_arp_hdr = Struct 2 False [(''_bindgen_opaque_blob'', Arr U16 14)]"

definition test_rte_arp_hdr :: layout_test where
  "test_rte_arp_hdr = \<lparr>asserted_size = 28, asserted_align = 2,
     asserted_offsets = []\<rparr>"

definition ty_rte_icmp_hdr :: c_type where
  "ty_rte_icmp_hdr = Struct 1 True [(''icmp_type'', U8), (''icmp_code'', U8),
      (''icmp_cksum'', U16), (''icmp_ident'', U16), (''icmp_seq_nb'', U16)]"

definition test_rte_icmp_hdr :: layout_test where
  "test_rte_icmp_hdr = \<lparr>asserted_size = 8, asserted_align = 1,
     asserted_offsets = [(''icmp_type'', 0), (''icmp_code'', 1), (''icmp_cksum'', 2),
      (''icmp_ident'', 4), (''icmp_seq_nb'', 6)]\<rparr>"

definition ty_rte_ipv6_hdr :: c_type where
  "ty_rte_ipv6_hdr = Struct 1 True [(''vtc_flow'', U32), (''payload_len'', U16), (''proto'', U8),
      (''hop_limits'', U8), (''src_addr'', Arr U8 16), (''dst_addr'', Arr U8 16)]"

definition test_rte_ipv6_hdr :: layout_test where
  "test_rte_ipv6_hdr = \<lparr>asserted_size = 40, asserted_align = 1,
     asserted_offsets = [(''vtc_flow'', 0), (''payload_len'', 4), (''proto'', 6),
      (''hop_limits'', 7), (''src_addr'', 8), (''dst_addr'', 24)]\<rparr>"

definition ty_rte_sctp_hdr :: c_type where
  "ty_rte_sctp_hdr = Struct 1 True [(''src_port'', U16), (''dst_port'', U16), (''tag'', U32),
      (''cksum'', U32)]"

definition test_rte_sctp_hdr :: layout_test where
  "test_rte_sctp_hdr = \<lparr>asserted_size = 12, asserted_align = 1,
     asserted_offsets = [(''src_port'', 0), (''dst_port'', 2), (''tag'', 4),
      (''cksum'', 8)]\<rparr>"

definition ty_rte_tcp_hdr :: c_type where
  "ty_rte_tcp_hdr = Struct 1 True [(''src_port'', U16), (''dst_port'', U16), (''sent_seq'', U32),
      (''recv_ack'', U32), (''data_off'', U8), (''tcp_flags'', U8), (''rx_win'', U16),
      (''cksum'', U16), (''tcp_urp'', U16)]"

definition test_rte_tcp_hdr :: layout_test where
  "test_rte_tcp_hdr = \<lparr>asserted_size = 20, asserted_align = 1,
     asserted_offsets = [(''src_port'', 0), (''dst_port'', 2), (''sent_seq'', 4),
      (''recv_ack'', 8), (''data_off'', 12), (''tcp_flags'', 13), (''rx_win'', 14),
      (''cksum'', 16), (''tcp_urp'', 18)]\<rparr>"

definition ty_rte_udp_hdr :: c_type where
  "ty_rte_udp_hdr = Struct 1 True [(''src_port'', U16), (''dst_port'', U16),
      (''dgram_len'', U16), (''dgram_cksum'', U16)]"

definition test_rte_udp_hdr :: layout_test where
  "test_rte_udp_hdr = \<lparr>asserted_size = 8, asserted_align = 1,
     asserted_offsets = [(''src_port'', 0), (''dst_port'', 2), (''dgram_len'', 4),
      (''dgram_cksum'', 6)]\<rparr>"

definition ty_rte_esp_hdr :: c_type where
  "ty_rte_esp_hdr = Struct 1 True [(''spi'', U32), (''seq'', U32)]"

definition test_rte_esp_hdr :: layout_test where
  "test_rte_esp_hdr = \<lparr>asserted_size = 8, asserted_align = 1,
     asserted_offsets = [(''spi'', 0), (''seq'', 4)]\<rparr>"

definition ty_rte_esp_tail :: c_type where
  "ty_rte_esp_tail = Struct 1 True [(''pad_len'', U8), (''next_proto'', U8)]"

definition test_rte_esp_tail :: layout_test where
  "test_rte_esp_tail = \<lparr>asserted_size = 2, asserted_align = 1,
     asserted_offsets = [(''pad_len'', 0), (''next_proto'', 1)]\<rparr>"

definition ty_rte_higig2_frc :: c_type where
  "ty_rte_higig2_frc = Struct 4 False [(''_bitfield_1'', bitfield_unit 8 U8)]"

definition test_rte_higig2_frc :: layout_test where
  "test_rte_higig2_frc = \<lparr>asserted_size = 8, asserted_align = 4,
     asserted_offsets = []\<rparr>"

definition ty_rte_higig2_ppt_type0 :: c_type where
  "ty_rte_higig2_ppt_type0 = Struct 4 False [(''_bitfield_1'', bitfield_unit 8 U8)]"

definition test_rte_higig2_ppt_type0 :: layout_test where
  "test_rte_higig2_ppt_type0 = \<lparr>asserted_size = 8, asserted_align = 4,
     asserted_offsets = []\<rparr>"

definition ty_rte_higig2_ppt_type1 :: c_type where
  "ty_rte_higig2_ppt_type1 = Struct 1 False [(''classification'', U16), (''resv'', U16),
      (''vid'', U16), (''_bitfield_1'', bitfield_unit 2 U8)]"

definition test_rte_higig2_ppt_type1 :: layout_test where
  "test_rte_higig2_ppt_type1 = \<lparr>asserted_size = 8, asserted_align = 2,
     asserted_offsets = [(''classification'', 0), (''resv'', 2), (''vid'', 4)]\<rparr>"

definition ty_rte_higig2_hdr__bindgen_ty_1 :: c_type where
  "ty_rte_higig2_hdr__bindgen_ty_1 = Union 1 [(''ppt0'', ty_rte_higig2_ppt_type0),
      (''ppt1'', ty_rte_higig2_ppt_type1), (''_bindgen_union_align'', Arr U32 2)]"

definition test_rte_higig2_hdr__bindgen_ty_1 :: layout_test where
  "test_rte_higig2_hdr__bindgen_ty_1 = \<lparr>asserted_size = 8, asserted_align = 4,
     asserted_offsets = [(''ppt0'', 0), (''ppt1'', 0)]\<rparr>"

definition ty_rte_higig2_hdr :: c_type where
  "ty_rte_higig2_hdr = Struct 1 False [(''fcr'', ty_rte_higig2_frc),
      (''__bindgen_anon_1'', ty_rte_higig2_hdr__bindgen_ty_1)]"

definition test_rte_higig2_hdr :: layout_test where
  "test_rte_higig2_hdr = \<lparr>asserted_size = 16, asserted_align = 4,
     asserted_offsets = [(''fcr'', 0)]\<rparr>"

lemma layout_rte_vlan_hdr [layout_simps]:
  "c_size ty_rte_vlan_hdr = 4" "c_align ty_rte_vlan_hdr = 1" "wf_type ty_rte_vlan_hdr"
  "layout_test_passes ty_rte_vlan_hdr test_rte_vlan_hdr"
  by (simp_all add: ty_rte_vlan_hdr_def test_rte_vlan_hdr_def layout_simps layout_eval)

lemma layout_rte_arp_ipv4 [layout_simps]:
  "c_size ty_rte_arp_ipv4 = 20" "c_align ty_rte_arp_ipv4 = 2" "wf_type ty_rte_arp_ipv4"
  "layout_test_passes ty_rte_arp_ipv4 test_rte_arp_ipv4"
  by (simp_all add: ty_rte_arp_ipv4_def test_rte_arp_ipv4_def layout_simps layout_eval)

lemma layout_rte_arp_hdr [layout_simps]:
  "c_size ty_rte_arp_hdr = 28" "c_align ty_rte_arp_hdr = 2" "wf_type ty_rte_arp_hdr"
  "layout_test_passes ty_rte_arp_hdr test_rte_arp_hdr"
  by (simp_all add: ty_rte_arp_hdr_def test_rte_arp_hdr_def layout_simps layout_eval)

lemma layout_rte_icmp_hdr [layout_simps]:
  "c_size ty_rte_icmp_hdr = 8" "c_align ty_rte_icmp_hdr = 1" "wf_type ty_rte_icmp_hdr"
  "layout_test_passes ty_rte_icmp_hdr test_rte_icmp_hdr"
  by (simp_all add: ty_rte_icmp_hdr_def test_rte_icmp_hdr_def layout_simps layout_eval)

lemma layout_rte_ipv6_hdr [layout_simps]:
  "c_size ty_rte_ipv6_hdr = 40" "c_align ty_rte_ipv6_hdr = 1" "wf_type ty_rte_ipv6_hdr"
  "layout_test_passes ty_rte_ipv6_hdr test_rte_ipv6_hdr"
  by (simp_all add: ty_rte_ipv6_hdr_def test_rte_ipv6_hdr_def layout_simps layout_eval)

lemma layout_rte_sctp_hdr [layout_simps]:
  "c_size ty_rte_sctp_hdr = 12" "c_align ty_rte_sctp_hdr = 1" "wf_type ty_rte_sctp_hdr"
  "layout_test_passes ty_rte_sctp_hdr test_rte_sctp_hdr"
  by (simp_all add: ty_rte_sctp_hdr_def test_rte_sctp_hdr_def layout_simps layout_eval)

lemma layout_rte_tcp_hdr [layout_simps]:
  "c_size ty_rte_tcp_hdr = 20" "c_align ty_rte_tcp_hdr = 1" "wf_type ty_rte_tcp_hdr"
  "layout_test_passes ty_rte_tcp_hdr test_rte_tcp_hdr"
  by (simp_all add: ty_rte_tcp_hdr_def test_rte_tcp_hdr_def layout_simps layout_eval)

lemma layout_rte_udp_hdr [layout_simps]:
  "c_size ty_rte_udp_hdr = 8" "c_align ty_rte_udp_hdr = 1" "wf_type ty_rte_udp_hdr"
  "layout_test_passes ty_rte_udp_hdr test_rte_udp_hdr"
  by (simp_all add: ty_rte_udp_hdr_def test_rte_udp_hdr_def layout_simps layout_eval)

lemma layout_rte_esp_hdr [layout_simps]:
  "c_size ty_rte_esp_hdr = 8" "c_align ty_rte_esp_hdr = 1" "wf_type ty_rte_esp_hdr"
  "layout_test_passes ty_rte_esp_hdr test_rte_esp_hdr"
  by (simp_all add: ty_rte_esp_hdr_def test_rte_esp_hdr_def layout_simps layout_eval)

lemma layout_rte_esp_tail [layout_simps]:
  "c_size ty_rte_esp_tail = 2" "c_align ty_rte_esp_tail = 1" "wf_type ty_rte_esp_tail"
  "layout_test_passes ty_rte_esp_tail test_rte_esp_tail"
  by (simp_all add: ty_rte_esp_tail_def test_rte_esp_tail_def layout_simps layout_eval)

lemma layout_rte_higig2_frc [layout_simps]:
  "c_size ty_rte_higig2_frc = 8" "c_align ty_rte_higig2_frc = 4" "wf_type ty_rte_higig2_frc"
  "layout_test_passes ty_rte_higig2_frc test_rte_higig2_frc"
  by (simp_all add: ty_rte_higig2_frc_def test_rte_higig2_frc_def layout_simps layout_eval)

lemma layout_rte_higig2_ppt_type0 [layout_simps]:
  "c_size ty_rte_higig2_ppt_type0 = 8" "c_align ty_rte_higig2_ppt_type0 = 4" "wf_type ty_rte_higig2_ppt_type0"
  "layout_test_passes ty_rte_higig2_ppt_type0 test_rte_higig2_ppt_type0"
  by (simp_all add: ty_rte_higig2_ppt_type0_def test_rte_higig2_ppt_type0_def layout_simps layout_eval)

lemma layout_rte_higig2_ppt_type1 [layout_simps]:
  "c_size ty_rte_higig2_ppt_type1 = 8" "c_align ty_rte_higig2_ppt_type1 = 2" "wf_type ty_rte_higig2_ppt_type1"
  "layout_test_passes ty_rte_higig2_ppt_type1 test_rte_higig2_ppt_type1"
  by (simp_all add: ty_rte_higig2_ppt_type1_def test_rte_higig2_ppt_type1_def layout_simps layout_eval)

lemma layout_rte_higig2_hdr__bindgen_ty_1 [layout_simps]:
  "c_size ty_rte_higig2_hdr__bindgen_ty_1 = 8" "c_align ty_rte_higig2_hdr__bindgen_ty_1 = 4" "wf_type ty_rte_higig2_hdr__bindgen_ty_1"
  "layout_test_passes ty_rte_higig2_hdr__bindgen_ty_1 test_rte_higig2_hdr__bindgen_ty_1"
  by (simp_all add: ty_rte_higig2_hdr__bindgen_ty_1_def test_rte_higig2_hdr__bindgen_ty_1_def layout_simps layout_eval)

lemma layout_rte_higig2_hdr [layout_simps]:
  "c_size ty_rte_higig2_hdr = 16" "c_align ty_rte_higig2_hdr = 4" "wf_type ty_rte_higig2_hdr"
  "layout_test_passes ty_rte_higig2_hdr test_rte_higig2_hdr"
  by (simp_all add: ty_rte_higig2_hdr_def test_rte_higig2_hdr_def layout_simps layout_eval)

section \<open>PCI and kernel interface\<close>

text \<open>PCI identifiers and the kernel network interface.\<close>

definition ty_rte_pci_id :: c_type where
  "ty_rte_pci_id = Struct 1 False [(''class_id'', U32), (''vendor_id'', U16),
      (''device_id'', U16), (''subsystem_vendor_id'', U16), (''subsystem_device_id'', U16)]"

definition test_rte_pci_id :: layout_test where
  "test_rte_pci_id = \<lparr>asserted_size = 12, asserted_align = 4,
     asserted_offsets = [(''class_id'', 0), (''vendor_id'', 4), (''device_id'', 6),
      (''subsystem_vendor_id'', 8), (''subsystem_device_id'', 10)]\<rparr>"

definition ty_rte_pci_addr :: c_type where
  "ty_rte_pci_addr = Struct 1 False [(''domain'', U32), (''bus'', U8), (''devid'', U8),
      (''function'', U8)]"

definition test_rte_pci_addr :: layout_test where
  "test_rte_pci_addr = \<lparr>asserted_size = 8, asserted_align = 4,
     asserted_offsets = [(''domain'', 0), (''bus'', 4), (''devid'', 5),
      (''function'', 6)]\<rparr>"

definition ty_rte_kni_request__bindgen_ty_1 :: c_type where
  "ty_rte_kni_request__bindgen_ty_1 = Union 1 [(''new_mtu'', U32), (''if_up'', U8),
      (''mac_addr'', Arr U8 6), (''promiscusity'', U8), (''allmulti'', U8),
      (''_bindgen_union_align'', Arr U32 2)]"

definition test_rte_kni_request__bindgen_ty_1 :: layout_test where
  "test_rte_kni_request__bindgen_ty_1 = \<lparr>asserted_size = 8, asserted_align = 4,
     asserted_offsets = [(''new_mtu'', 0), (''if_up'', 0), (''mac_addr'', 0),
      (''promiscusity'', 0), (''allmulti'', 0)]\<rparr>"

definition ty_rte_kni_request :: c_type where
  "ty_rte_kni_request = Struct 1 True [(''req_id'', U32),
      (''__bindgen_anon_1'', ty_rte_kni_request__bindgen_ty_1), (''result'', U32)]"

definition test_rte_kni_request :: layout_test where
  "test_rte_kni_request = \<lparr>asserted_size = 16, asserted_align = 1,
     asserted_offsets = [(''req_id'', 0), (''result'', 12)]\<rparr>"

definition ty_rte_kni_fifo :: c_type where
  "ty_rte_kni_fifo = Struct 1 False [(''write'', U32), (''read'', U32), (''len'', U32),
      (''elem_size'', U32), (''buffer'', Arr Pointer 0)]"

definition test_rte_kni_fifo :: layout_test where
  "test_rte_kni_fifo = \<lparr>asserted_size = 16, asserted_align = 8,
     asserted_offsets = []\<rparr>"

definition ty_rte_kni_mbuf :: c_type where
  "ty_rte_kni_mbuf = Struct 64 False [(''buf_addr'', Pointer), (''buf_physaddr'', U64),
      (''data_off'', U16), (''pad1'', Arr U8 2), (''nb_segs'', U16), (''pad4'', Arr U8 2),
      (''ol_flags'', U64), (''pad2'', Arr U8 4), (''pkt_len'', U32), (''data_len'', U16),
      (''__bindgen_padding_0'', Arr U8 22), (''pad3'', Arr U8 8), (''pool'', Pointer),
      (''next'', Pointer)]"

definition test_rte_kni_mbuf :: layout_test where
  "test_rte_kni_mbuf = \<lparr>asserted_size = 128, asserted_align = 64,
     asserted_offsets = [(''buf_addr'', 0), (''buf_physaddr'', 8), (''data_off'', 16),
      (''pad1'', 18), (''nb_segs'', 20), (''pad4'', 22), (''ol_flags'', 24), (''pad2'', 32),
      (''pkt_len'', 36), (''data_len'', 40), (''pad3'', 64), (''pool'', 72),
      (''next'', 80)]\<rparr>"

definition ty_rte_kni_device_info :: c_type where
  "ty_rte_kni_device_info = Struct 1 False [(''name'', Arr U8 16), (''tx_phys'', U64),
      (''rx_phys'', U64), (''alloc_phys'', U64), (''free_phys'', U64), (''req_phys'', U64),
      (''resp_phys'', U64), (''sync_phys'', U64), (''sync_va'', Pointer), (''mbuf_va'', Pointer),
      (''mbuf_phys'', U64), (''group_id'', U16), (''core_id'', U32),
      (''_bitfield_1'', bitfield_unit 1 U8), (''mbuf_size'', U32), (''mtu'', U32),
      (''min_mtu'', U32), (''max_mtu'', U32), (''mac_addr'', Arr U8 6), (''iova_mode'', U8)]"

definition test_rte_kni_device_info :: layout_test where
  "test_rte_kni_device_info = \<lparr>asserted_size = 136, asserted_align = 8,
     asserted_offsets = [(''name'', 0), (''tx_phys'', 16), (''rx_phys'', 24),
      (''alloc_phys'', 32), (''free_phys'', 40), (''req_phys'', 48), (''resp_phys'', 56),
      (''sync_phys'', 64), (''sync_va'', 72), (''mbuf_va'', 80), (''mbuf_phys'', 88),
      (''group_id'', 96), (''core_id'', 100), (''mbuf_size'', 108), (''mtu'', 112),
      (''min_mtu'', 116), (''max_mtu'', 120), (''mac_addr'', 124), (''iova_mode'', 130)]\<rparr>"

definition ty_rte_kni_ops :: c_type where
  "ty_rte_kni_ops = Struct 1 False [(''port_id'', U16), (''change_mtu'', Pointer),
      (''config_network_if'', Pointer), (''config_mac_address'', Pointer),
      (''config_promiscusity'', Pointer), (''config_allmulticast'', Pointer)]"

definition test_rte_kni_ops :: layout_test where
  "test_rte_kni_ops = \<lparr>asserted_size = 48, asserted_align = 8,
     asserted_offsets = [(''port_id'', 0), (''change_mtu'', 8), (''config_network_if'', 16),
      (''config_mac_address'', 24), (''config_promiscusity'', 32),
      (''config_allmulticast'', 40)]\<rparr>"

definition ty_rte_kni_conf :: c_type where
  "ty_rte_kni_conf = Struct 1 False [(''name'', Arr U8 16), (''core_id'', U32),
      (''group_id'', U16), (''mbuf_size'', U32), (''addr'', ty_rte_pci_addr),
      (''id'', ty_rte_pci_id), (''_bitfield_1'', bitfield_unit 1 U8), (''mac_addr'', Arr U8 6),
      (''mtu'', U16), (''min_mtu'', U16), (''max_mtu'', U16)]"

definition test_rte_kni_conf :: layout_test where
  "test_rte_kni_conf = \<lparr>asserted_size = 64, asserted_align = 4,
     asserted_offsets = [(''name'', 0), (''core_id'', 16), (''group_id'', 20),
      (''mbuf_size'', 24), (''addr'', 28), (''id'', 36), (''mac_addr'', 49), (''mtu'', 56),
      (''min_mtu'', 58), (''max_mtu'', 60)]\<rparr>"

lemma layout_rte_pci_id [layout_simps]:
  "c_size ty_rte_pci_id = 12" "c_align ty_rte_pci_id = 4" "wf_type ty_rte_pci_id"
  "layout_test_passes ty_rte_pci_id test_rte_pci_id"
  by (simp_all add: ty_rte_pci_id_def test_rte_pci_id_def layout_simps layout_eval)

lemma layout_rte_pci_addr [layout_simps]:
  "c_size ty_rte_pci_addr = 8" "c_align ty_rte_pci_addr = 4" "wf_type ty_rte_pci_addr"
  "layout_test_passes ty_rte_pci_addr test_rte_pci_addr"
  by (simp_all add: ty_rte_pci_addr_def test_rte_pci_addr_def layout_simps layout_eval)

lemma layout_rte_kni_request__bindgen_ty_1 [layout_simps]:
  "c_size ty_rte_kni_request__bindgen_ty_1 = 8" "c_align ty_rte_kni_request__bindgen_ty_1 = 4" "wf_type ty_rte_kni_request__bindgen_ty_1"
  "layout_test_passes ty_rte_kni_request__bindgen_ty_1 test_rte_kni_request__bindgen_ty_1"
  by (simp_all add: ty_rte_kni_request__bindgen_ty_1_def test_rte_kni_request__bindgen_ty_1_def layout_simps layout_eval)

lemma layout_rte_kni_request [layout_simps]:
  "c_size ty_rte_kni_request = 16" "c_align ty_rte_kni_request = 1" "wf_type ty_rte_kni_request"
  "layout_test_passes ty_rte_kni_request test_rte_kni_request"
  by (simp_all add: ty_rte_kni_request_def test_rte_kni_request_def layout_simps layout_eval)

lemma layout_rte_kni_fifo [layout_simps]:
  "c_size ty_rte_kni_fifo = 16" "c_align ty_rte_kni_fifo = 8" "wf_type ty_rte_kni_fifo"
  "layout_test_passes ty_rte_kni_fifo test_rte_kni_fifo"
  by (simp_all add: ty_rte_kni_fifo_def test_rte_kni_fifo_def layout_simps layout_eval)

lemma layout_rte_kni_mbuf [layout_simps]:
  "c_size ty_rte_kni_mbuf = 128" "c_align ty_rte_kni_mbuf = 64" "wf_type ty_rte_kni_mbuf"
  "layout_test_passes ty_rte_kni_mbuf test_rte_kni_mbuf"
  by (simp_all add: ty_rte_kni_mbuf_def test_rte_kni_mbuf_def layout_simps layout_eval)

lemma layout_rte_kni_device_info [layout_simps]:
  "c_size ty_rte_kni_device_info = 136" "c_align ty_rte_kni_device_info = 8" "wf_type ty_rte_kni_device_info"
  "layout_test_passes ty_rte_kni_device_info test_rte_kni_device_info"
  by (simp_all add: ty_rte_kni_device_info_def test_rte_kni_device_info_def layout_simps layout_eval)

lemma layout_rte_kni_ops [layout_simps]:
  "c_size ty_rte_kni_ops = 48" "c_align ty_rte_kni_ops = 8" "wf_type ty_rte_kni_ops"
  "layout_test_passes ty_rte_kni_ops test_rte_kni_ops"
  by (simp_all add: ty_rte_kni_ops_def test_rte_kni_ops_def layout_simps layout_eval)

lemma layout_rte_kni_conf [layout_simps]:
  "c_size ty_rte_kni_conf = 64" "c_align ty_rte_kni_conf = 4" "wf_type ty_rte_kni_conf"
  "layout_test_passes ty_rte_kni_conf test_rte_kni_conf"
  by (simp_all add: ty_rte_kni_conf_def test_rte_kni_conf_def layout_simps layout_eval)

section \<open>NUMA and packet capture\<close>

text \<open>Types of \<open>libnuma\<close> and \<open>libpcap\<close>.\<close>

definition ty_nodemask_t :: c_type where
  "ty_nodemask_t = Struct 1 False [(''n'', Arr U64 2)]"

definition test_nodemask_t :: layout_test where
  "test_nodemask_t = \<lparr>asserted_size = 16, asserted_align = 8,
     asserted_offsets = [(''n'', 0)]\<rparr>"

definition ty_bitmask :: c_type where
  "ty_bitmask = Struct 1 False [(''size'', U64), (''maskp'', Pointer)]"

definition test_bitmask :: layout_test where
  "test_bitmask = \<lparr>asserted_size = 16, asserted_align = 8,
     asserted_offsets = [(''size'', 0), (''maskp'', 8)]\<rparr>"

definition ty_bpf_program :: c_type where
  "ty_bpf_program = Struct 1 False [(''bf_len'', U32), (''bf_insns'', Pointer)]"

definition test_bpf_program :: layout_test where
  "test_bpf_program = \<lparr>asserted_size = 16, asserted_align = 8,
     asserted_offsets = [(''bf_len'', 0), (''bf_insns'', 8)]\<rparr>"

definition ty_bpf_insn :: c_type where
  "ty_bpf_insn = Struct 1 False [(''code'', U16), (''jt'', U8), (''jf'', U8), (''k'', U32)]"

definition test_bpf_insn :: layout_test where
  "test_bpf_insn = \<lparr>asserted_size = 8, asserted_align = 4,
     asserted_offsets = [(''code'', 0), (''jt'', 2), (''jf'', 3), (''k'', 4)]\<rparr>"

definition ty_pcap_file_header :: c_type where
  "ty_pcap_file_header = Struct 1 False [(''magic'', U32), (''version_major'', U16),
      (''version_minor'', U16), (''thiszone'', U32), (''sigfigs'', U32), (''snaplen'', U32),
      (''linktype'', U32)]"

definition test_pcap_file_header :: layout_test where
  "test_pcap_file_header = \<lparr>asserted_size = 24, asserted_align = 4,
     asserted_offsets = [(''magic'', 0), (''version_major'', 4), (''version_minor'', 6),
      (''thiszone'', 8), (''sigfigs'', 12), (''snaplen'', 16), (''linktype'', 20)]\<rparr>"

definition ty_pcap_pkthdr :: c_type where
  "ty_pcap_pkthdr = Struct 1 False [(''ts'', ty_timeval), (''caplen'', U32), (''len'', U32)]"

definition test_pcap_pkthdr :: layout_test where
  "test_pcap_pkthdr = \<lparr>asserted_size = 24, asserted_align = 8,
     asserted_offsets = [(''ts'', 0), (''caplen'', 16), (''len'', 20)]\<rparr>"

definition ty_pcap_stat :: c_type where
  "ty_pcap_stat = Struct 1 False [(''ps_recv'', U32), (''ps_drop'', U32), (''ps_ifdrop'', U32)]"

definition test_pcap_stat :: layout_test where
  "test_pcap_stat = \<lparr>asserted_size = 12, asserted_align = 4,
     asserted_offsets = [(''ps_recv'', 0), (''ps_drop'', 4), (''ps_ifdrop'', 8)]\<rparr>"

definition ty_pcap_if :: c_type where
  "ty_pcap_if = Struct 1 False [(''next'', Pointer), (''name'', Pointer),
      (''description'', Pointer), (''addresses'', Pointer), (''flags'', U32)]"

definition test_pcap_if :: layout_test where
  "test_pcap_if = \<lparr>asserted_size = 40, asserted_align = 8,
     asserted_offsets = [(''next'', 0), (''name'', 8), (''description'', 16),
      (''addresses'', 24), (''flags'', 32)]\<rparr>"

definition ty_pcap_addr :: c_type where
  "ty_pcap_addr = Struct 1 False [(''next'', Pointer), (''addr'', Pointer),
      (''netmask'', Pointer), (''broadaddr'', Pointer), (''dstaddr'', Pointer)]"

definition test_pcap_addr :: layout_test where
  "test_pcap_addr = \<lparr>asserted_size = 40, asserted_align = 8,
     asserted_offsets = [(''next'', 0), (''addr'', 8), (''netmask'', 16), (''broadaddr'', 24),
      (''dstaddr'', 32)]\<rparr>"

lemma layout_nodemask_t [layout_simps]:
  "c_size ty_nodemask_t = 16" "c_align ty_nodemask_t = 8" "wf_type ty_nodemask_t"
  "layout_test_passes ty_nodemask_t test_nodemask_t"
  by (simp_all add: ty_nodemask_t_def test_nodemask_t_def layout_simps layout_eval)

lemma layout_bitmask [layout_simps]:
  "c_size ty_bitmask = 16" "c_align ty_bitmask = 8" "wf_type ty_bitmask"
  "layout_test_passes ty_bitmask test_bitmask"
  by (simp_all add: ty_bitmask_def test_bitmask_def layout_simps layout_eval)

lemma layout_bpf_program [layout_simps]:
  "c_size ty_bpf_program = 16" "c_align ty_bpf_program = 8" "wf_type ty_bpf_program"
  "layout_test_passes ty_bpf_program test_bpf_program"
  by (simp_all add: ty_bpf_program_def test_bpf_program_def layout_simps layout_eval)

lemma layout_bpf_insn [layout_simps]:
  "c_size ty_bpf_insn = 8" "c_align ty_bpf_insn = 4" "wf_type ty_bpf_insn"
  "layout_test_passes ty_bpf_insn test_bpf_insn"
  by (simp_all add: ty_bpf_insn_def test_bpf_insn_def layout_simps layout_eval)

lemma layout_pcap_file_header [layout_simps]:
  "c_size ty_pcap_file_header = 24" "c_align ty_pcap_file_header = 4" "wf_type ty_pcap_file_header"
  "layout_test_passes ty_pcap_file_header test_pcap_file_header"
  by (simp_all add: ty_pcap_file_header_def test_pcap_file_header_def layout_simps layout_eval)

lemma layout_pcap_pkthdr [layout_simps]:
  "c_size ty_pcap_pkthdr = 24" "c_align ty_pcap_pkthdr = 8" "wf_type ty_pcap_pkthdr"
  "layout_test_passes ty_pcap_pkthdr test_pcap_pkthdr"
  by (simp_all add: ty_pcap_pkthdr_def test_pcap_pkthdr_def layout_simps layout_eval)

lemma layout_pcap_stat [layout_simps]:
  "c_size ty_pcap_stat = 12" "c_align ty_pcap_stat = 4" "wf_type ty_pcap_stat"
  "layout_test_passes ty_pcap_stat test_pcap_stat"
  by (simp_all add: ty_pcap_stat_def test_pcap_stat_def layout_simps layout_eval)

lemma layout_pcap_if [layout_simps]:
  "c_size ty_pcap_if = 40" "c_align ty_pcap_if = 8" "wf_type ty_pcap_if"
  "layout_test_passes ty_pcap_if test_pcap_if"
  by (simp_all add: ty_pcap_if_def test_pcap_if_def layout_simps layout_eval)

lemma layout_pcap_addr [layout_simps]:
  "c_size ty_pcap_addr = 40" "c_align ty_pcap_addr = 8" "wf_type ty_pcap_addr"
  "layout_test_passes ty_pcap_addr test_pcap_addr"
  by (simp_all add: ty_pcap_addr_def test_pcap_addr_def layout_simps layout_eval)

section \<open>The tests\<close>

definition packet_layouts :: "(c_type \<times> layout_test) list" where
  "packet_layouts = [(ty_rte_vlan_hdr, test_rte_vlan_hdr), (ty_rte_arp_ipv4, test_rte_arp_ipv4),
      (ty_rte_arp_hdr, test_rte_arp_hdr), (ty_rte_icmp_hdr, test_rte_icmp_hdr),
      (ty_rte_ipv6_hdr, test_rte_ipv6_hdr), (ty_rte_sctp_hdr, test_rte_sctp_hdr),
      (ty_rte_tcp_hdr, test_rte_tcp_hdr), (ty_rte_udp_hdr, test_rte_udp_hdr),
      (ty_rte_esp_hdr, test_rte_esp_hdr), (ty_rte_esp_tail, test_rte_esp_tail),
      (ty_rte_higig2_frc, test_rte_higig2_frc),
      (ty_rte_higig2_ppt_type0, test_rte_higig2_ppt_type0),
      (ty_rte_higig2_ppt_type1, test_rte_higig2_ppt_type1),
      (ty_rte_higig2_hdr__bindgen_ty_1, test_rte_higig2_hdr__bindgen_ty_1),
      (ty_rte_higig2_hdr, test_rte_higig2_hdr), (ty_rte_pci_id, test_rte_pci_id),
      (ty_rte_pci_addr, test_rte_pci_addr),
      (ty_rte_kni_request__bindgen_ty_1, test_rte_kni_request__bindgen_ty_1),
      (ty_rte_kni_request, test_rte_kni_request), (ty_rte_kni_fifo, test_rte_kni_fifo),
      (ty_rte_kni_mbuf, test_rte_kni_mbuf), (ty_rte_kni_device_info, test_rte_kni_device_info),
      (ty_rte_kni_ops, test_rte_kni_ops), (ty_rte_kni_conf, test_rte_kni_conf),
      (ty_nodemask_t, test_nodemask_t), (ty_bitmask, test_bitmask),
      (ty_bpf_program, test_bpf_program), (ty_bpf_insn, test_bpf_insn),
      (ty_pcap_file_header, test_pcap_file_header), (ty_pcap_pkthdr, test_pcap_pkthdr),
      (ty_pcap_stat, test_pcap_stat), (ty_pcap_if, test_pcap_if),
      (ty_pcap_addr, test_pcap_addr)]"

lemma packet_layouts_pass: "list_all (\<lambda>(t, w). layout_test_passes t w \<and> wf_type t) packet_layouts"
  by (simp add: packet_layouts_def layout_simps)

end
