(* ===== verification/Bound_Flow.thy ===== *)
theory Bound_Flow
  imports Bound_Packets Bound_Types
begin

text \<open>
  The flow rules: attributes, the items a pattern matches and the actions.
  They are translated as in \<open>Bound_Types\<close>.
\<close>

section \<open>Items\<close>

text \<open>Attributes and pattern items.\<close>

definition ty_rte_flow_attr :: c_type where
  "ty_rte_flow_attr = Struct 1 False [(''group'', U32), (''priority'', U32),
      (''_bitfield_1'', bitfield_unit 4 U32)]"

definition test_rte_flow_attr :: layout_test where
  "test_rte_flow_attr = \<lparr>asserted_size = 12, asserted_align = 4,
     asserted_offsets = [(''group'', 0), (''priority'', 4)]\<rparr>"

definition ty_rte_flow_item_higig2_hdr :: c_type where
  "ty_rte_flow_item_higig2_hdr = Struct 1 False [(''hdr'', ty_rte_higig2_hdr)]"

definition test_rte_flow_item_higig2_hdr :: layout_test where
  "test_rte_flow_item_higig2_hdr = \<lparr>asserted_size = 16, asserted_align = 4,
     asserted_offsets = [(''hdr'', 0)]\<rparr>"

definition ty_rte_flow_item_any :: c_type where
  "ty_rte_flow_item_any = Struct 1 False [(''num'', U32)]"

definition test_rte_flow_item_any :: layout_test where
  "test_rte_flow_item_any = \<lparr>asserted_size = 4, asserted_align = 4,
     asserted_offsets = [(''num'', 0)]\<rparr>"

definition ty_rte_flow_item_vf :: c_type where
  "ty_rte_flow_item_vf = Struct 1 False [(''id'', U32)]"

definition test_rte_flow_item_vf :: layout_test where
  "test_rte_flow_item_vf = \<lparr>asserted_size = 4, asserted_align = 4,
     asserted_offsets = [(''id'', 0)]\<rparr>"

definition ty_rte_flow_item_phy_port :: c_type where
  "ty_rte_flow_item_phy_port = Struct 1 False [(''index'', U32)]"

definition test_rte_flow_item_phy_port :: layout_test where
  "test_rte_flow_item_phy_port = \<lparr>asserted_size = 4, asserted_align = 4,
     asserted_offsets = [(''index'', 0)]\<rparr>"

definition ty_rte_flow_item_port_id :: c_type where
  "ty_rte_flow_item_port_id = Struct 1 False [(''id'', U32)]"

definition test_rte_flow_item_port_id :: layout_test where
  "test_rte_flow_item_port_id = \<lparr>asserted_size = 4, asserted_align = 4,
     asserted_offsets = [(''id'', 0)]\<rparr>"

definition ty_rte_flow_item_raw :: c_type where
  "ty_rte_flow_item_raw = Struct 1 False [(''_bitfield_1'', bitfield_unit 4 U32),
      (''offset'', U32), (''limit'', U16), (''length'', U16), (''pattern'', Pointer)]"

definition test_rte_flow_item_raw :: layout_test where
  "test_rte_flow_item_raw = \<lparr>asserted_size = 24, asserted_align = 8,
     asserted_offsets = [(''offset'', 4), (''limit'', 8), (''length'', 10),
      (''pattern'', 16)]\<rparr>"

definition ty_rte_flow_item_eth :: c_type where
  "ty_rte_flow_item_eth = Struct 1 False [(''dst'', ty_rte_ether_addr),
      (''src'', ty_rte_ether_addr), (''type_'', U16)]"

definition test_rte_flow_item_eth :: layout_test where
  "test_rte_flow_item_eth = \<lparr>asserted_size = 14, asserted_align = 2,
     asserted_offsets = [(''dst'', 0), (''src'', 6), (''type_'', 12)]\<rparr>"

definition ty_rte_flow_item_vlan :: c_type where
  "ty_rte_flow_item_vlan = Struct 1 False [(''tci'', U16), (''inner_type'', U16)]"

definition test_rte_flow_item_vlan :: layout_test where
  "test_rte_flow_item_vlan = \<lparr>asserted_size = 4, asserted_align = 2,
     asserted_offsets = [(''tci'', 0), (''inner_type'', 2)]\<rparr>"

definition ty_rte_flow_item_ipv4 :: c_type where
  "ty_rte_flow_item_ipv4 = Struct 1 False [(''hdr'', ty_rte_ipv4_hdr)]"

definition test_rte_flow_item_ipv4 :: layout_test where
  "test_rte_flow_item_ipv4 = \<lparr>asserted_size = 20, asserted_align = 1,
     asserted_offsets = [(''hdr'', 0)]\<rparr>"

definition ty_rte_flow_item_ipv6 :: c_type where
  "ty_rte_flow_item_ipv6 = Struct 1 False [(''hdr'', ty_rte_ipv6_hdr)]"

definition test_rte_flow_item_ipv6 :: layout_test where
  "test_rte_flow_item_ipv6 = \<lparr>asserted_size = 40, asserted_align = 1,
     asserted_offsets = [(''hdr'', 0)]\<rparr>"

definition ty_rte_flow_item_icmp :: c_type where
  "ty_rte_flow_item_icmp = Struct 1 False [(''hdr'', ty_rte_icmp_hdr)]"

definition test_rte_flow_item_icmp :: layout_test where
  "test_rte_flow_item_icmp = \<lparr>asserted_size = 8, asserted_align = 1,
     asserted_offsets = [(''hdr'', 0)]\<rparr>"

definition ty_rte_flow_item_udp :: c_type where
  "ty_rte_flow_item_udp = Struct 1 False [(''hdr'', ty_rte_udp_hdr)]"

definition test_rte_flow_item_udp :: layout_test where
  "test_rte_flow_item_udp = \<lparr>asserted_size = 8, asserted_align = 1,
     asserted_offsets = [(''hdr'', 0)]\<rparr>"

definition ty_rte_flow_item_tcp :: c_type where
  "ty_rte_flow_item_tcp = Struct 1 False [(''hdr'', ty_rte_tcp_hdr)]"

definition test_rte_flow_item_tcp :: layout_test where
  "test_rte_flow_item_tcp = \<lparr>asserted_size = 20, asserted_align = 1,
     asserted_offsets = [(''hdr'', 0)]\<rparr>"

definition ty_rte_flow_item_sctp :: c_type where
  "ty_rte_flow_item_sctp = Struct 1 False [(''hdr'', ty_rte_sctp_hdr)]"

definition test_rte_flow_item_sctp :: layout_test where
  "test_rte_flow_item_sctp = \<lparr>asserted_size = 12, asserted_align = 1,
     asserted_offsets = [(''hdr'', 0)]\<rparr>"

definition ty_rte_flow_item_vxlan :: c_type where
  "ty_rte_flow_item_vxlan = Struct 1 False [(''flags'', U8), (''rsvd0'', Arr U8 3),
      (''vni'', Arr U8 3), (''rsvd1'', U8)]"

definition test_rte_flow_item_vxlan :: layout_test where
  "test_rte_flow_item_vxlan = \<lparr>asserted_size = 8, asserted_align = 1,
     asserted_offsets = [(''flags'', 0), (''rsvd0'', 1), (''vni'', 4), (''rsvd1'', 7)]\<rparr>"

definition ty_rte_flow_item_e_tag :: c_type where
  "ty_rte_flow_item_e_tag = Struct 1 False [(''epcp_edei_in_ecid_b'', U16),
      (''rsvd_grp_ecid_b'', U16), (''in_ecid_e'', U8), (''ecid_e'', U8), (''inner_type'', U16)]"

definition test_rte_flow_item_e_tag :: layout_test where
  "test_rte_flow_item_e_tag = \<lparr>asserted_size = 8, asserted_align = 2,
     asserted_offsets = [(''epcp_edei_in_ecid_b'', 0), (''rsvd_grp_ecid_b'', 2),
      (''in_ecid_e'', 4), (''ecid_e'', 5), (''inner_type'', 6)]\<rparr>"

definition ty_rte_flow_item_nvgre :: c_type where
  "ty_rte_flow_item_nvgre = Struct 1 False [(''c_k_s_rsvd0_ver'', U16), (''protocol'', U16),
      (''tni'', Arr U8 3), (''flow_id'', U8)]"

definition test_rte_flow_item_nvgre :: layout_test where
  "test_rte_flow_item_nvgre = \<lparr>asserted_size = 8, asserted_align = 2,
     asserted_offsets = [(''c_k_s_rsvd0_ver'', 0), (''protocol'', 2), (''tni'', 4),
      (''flow_id'', 7)]\<rparr>"

definition ty_rte_flow_item_mpls :: c_type where
  "ty_rte_flow_item_mpls = Struct 1 False [(''label_tc_s'', Arr U8 3), (''ttl'', U8)]"

definition test_rte_flow_item_mpls :: layout_test where
  "test_rte_flow_item_mpls = \<lparr>asserted_size = 4, asserted_align = 1,
     asserted_offsets = [(''label_tc_s'', 0), (''ttl'', 3)]\<rparr>"

definition ty_rte_flow_item_gre :: c_type where
  "ty_rte_flow_item_gre = Struct 1 False [(''c_rsvd0_ver'', U16), (''protocol'', U16)]"

definition test_rte_flow_item_gre :: layout_test where
  "test_rte_flow_item_gre = \<lparr>asserted_size = 4, asserted_align = 2,
     asserted_offsets = [(''c_rsvd0_ver'', 0), (''protocol'', 2)]\<rparr>"

definition ty_rte_flow_item_fuzzy :: c_type where
  "ty_rte_flow_item_fuzzy = Struct 1 False [(''thresh'', U32)]"

definition test_rte_flow_item_fuzzy :: layout_test where
  "test_rte_flow_item_fuzzy = \<lparr>asserted_size = 4, asserted_align = 4,
     asserted_offsets = [(''thresh'', 0)]\<rparr>"

definition ty_rte_flow_item_gtp :: c_type where
  "ty_rte_flow_item_gtp = Struct 1 False [(''v_pt_rsv_flags'', U8), (''msg_type'', U8),
      (''msg_len'', U16), (''teid'', U32)]"

definition test_rte_flow_item_gtp :: layout_test where
  "test_rte_flow_item_gtp = \<lparr>asserted_size = 8, asserted_align = 4,
     asserted_offsets = [(''v_pt_rsv_flags'', 0), (''msg_type'', 1), (''msg_len'', 2),
      (''teid'', 4)]\<rparr>"

definition ty_rte_flow_item_esp :: c_type where
  "ty_rte_flow_item_esp = Struct 1 False [(''hdr'', ty_rte_esp_hdr)]"

definition test_rte_flow_item_esp :: layout_test where
  "test_rte_flow_item_esp = \<lparr>asserted_size = 8, asserted_align = 1,
     asserted_offsets = [(''hdr'', 0)]\<rparr>"

definition ty_rte_flow_item_geneve :: c_type where
  "ty_rte_flow_item_geneve = Struct 1 False [(''ver_opt_len_o_c_rsvd0'', U16),
      (''protocol'', U16), (''vni'', Arr U8 3), (''rsvd1'', U8)]"

definition test_rte_flow_item_geneve :: layout_test where
  "test_rte_flow_item_geneve = \<lparr>asserted_size = 8, asserted_align = 2,
     asserted_offsets = [(''ver_opt_len_o_c_rsvd0'', 0), (''protocol'', 2), (''vni'', 4),
      (''rsvd1'', 7)]\<rparr>"

definition ty_rte_flow_item_vxlan_gpe :: c_type where
  "ty_rte_flow_item_vxlan_gpe = Struct 1 False [(''flags'', U8), (''rsvd0'', Arr U8 2),
      (''protocol'', U8), (''vni'', Arr U8 3), (''rsvd1'', U8)]"

definition test_rte_flow_item_vxlan_gpe :: layout_test where
  "test_rte_flow_item_vxlan_gpe = \<lparr>asserted_size = 8, asserted_align = 1,
     asserted_offsets = [(''flags'', 0), (''rsvd0'', 1), (''protocol'', 3), (''vni'', 4),
      (''rsvd1'', 7)]\<rparr>"

definition ty_rte_flow_item_arp_eth_ipv4 :: c_type where
  "ty_rte_flow_item_arp_eth_ipv4 = Struct 1 False [(''hrd'', U16), (''pro'', U16), (''hln'', U8),
      (''pln'', U8), (''op'', U16), (''sha'', ty_rte_ether_addr), (''spa'', U32),
      (''tha'', ty_rte_ether_addr), (''tpa'', U32)]"

definition test_rte_flow_item_arp_eth_ipv4 :: layout_test where
  "test_rte_flow_item_arp_eth_ipv4 = \<lparr>asserted_size = 32, asserted_align = 4,
     asserted_offsets = [(''hrd'', 0), (''pro'', 2), (''hln'', 4), (''pln'', 5), (''op'', 6),
      (''sha'', 8), (''spa'', 16), (''tha'', 20), (''tpa'', 28)]\<rparr>"

definition ty_rte_flow_item_ipv6_ext :: c_type where
  "ty_rte_flow_item_ipv6_ext = Struct 1 False [(''next_hdr'', U8)]"

definition test_rte_flow_item_ipv6_ext :: layout_test where
  "test_rte_flow_item_ipv6_ext = \<lparr>asserted_size = 1, asserted_align = 1,
     asserted_offsets = [(''next_hdr'', 0)]\<rparr>"

definition ty_rte_flow_item_icmp6 :: c_type where
  "ty_rte_flow_item_icmp6 = Struct 1 False [(''type_'', U8), (''code'', U8),
      (''checksum'', U16)]"

definition test_rte_flow_item_icmp6 :: layout_test where
  "test_rte_flow_item_icmp6 = \<lparr>asserted_size = 4, asserted_align = 2,
     asserted_offsets = [(''type_'', 0), (''code'', 1), (''checksum'', 2)]\<rparr>"

definition ty_rte_flow_item_icmp6_nd_ns :: c_type where
  "ty_rte_flow_item_icmp6_nd_ns = Struct 1 False [(''type_'', U8), (''code'', U8),
      (''checksum'', U16), (''reserved'', U32), (''target_addr'', Arr U8 16)]"

definition test_rte_flow_item_icmp6_nd_ns :: layout_test where
  "test_rte_flow_item_icmp6_nd_ns = \<lparr>asserted_size = 24, asserted_align = 4,
     asserted_offsets = [(''type_'', 0), (''code'', 1), (''checksum'', 2), (''reserved'', 4),
      (''target_addr'', 8)]\<rparr>"

definition ty_rte_flow_item_icmp6_nd_na :: c_type where
  "ty_rte_flow_item_icmp6_nd_na = Struct 1 False [(''type_'', U8), (''code'', U8),
      (''checksum'', U16), (''rso_reserved'', U32), (''target_addr'', Arr U8 16)]"

definition test_rte_flow_item_icmp6_nd_na :: layout_test where
  "test_rte_flow_item_icmp6_nd_na = \<lparr>asserted_size = 24, asserted_align = 4,
     asserted_offsets = [(''type_'', 0), (''code'', 1), (''checksum'', 2), (''rso_reserved'', 4),
      (''target_addr'', 8)]\<rparr>"

definition ty_rte_flow_item_icmp6_nd_opt :: c_type where
  "ty_rte_flow_item_icmp6_nd_opt = Struct 1 False [(''type_'', U8), (''length'', U8)]"

definition test_rte_flow_item_icmp6_nd_opt :: layout_test where
  "test_rte_flow_item_icmp6_nd_opt = \<lparr>asserted_size = 2, asserted_align = 1,
     asserted_offsets = [(''type_'', 0), (''length'', 1)]\<rparr>"

definition ty_rte_flow_item_icmp6_nd_opt_sla_eth :: c_type where
  "ty_rte_flow_item_icmp6_nd_opt_sla_eth = Struct 1 False [(''type_'', U8), (''length'', U8),
      (''sla'', ty_rte_ether_addr)]"

definition test_rte_flow_item_icmp6_nd_opt_sla_eth :: layout_test where
  "test_rte_flow_item_icmp6_nd_opt_sla_eth = \<lparr>asserted_size = 8, asserted_align = 2,
     asserted_offsets = [(''type_'', 0), (''length'', 1), (''sla'', 2)]\<rparr>"

definition ty_rte_flow_item_icmp6_nd_opt_tla_eth :: c_type where
  "ty_rte_flow_item_icmp6_nd_opt_tla_eth = Struct 1 False [(''type_'', U8), (''length'', U8),
      (''tla'', ty_rte_ether_addr)]"

definition test_rte_flow_item_icmp6_nd_opt_tla_eth :: layout_test where
  "test_rte_flow_item_icmp6_nd_opt_tla_eth = \<lparr>asserted_size = 8, asserted_align = 2,
     asserted_offsets = [(''type_'', 0), (''length'', 1), (''tla'', 2)]\<rparr>"

definition ty_rte_flow_item_meta :: c_type where
  "ty_rte_flow_item_meta = Struct 1 False [(''data'', U32)]"

definition test_rte_flow_item_meta :: layout_test where
  "test_rte_flow_item_meta = \<lparr>asserted_size = 4, asserted_align = 4,
     asserted_offsets = [(''data'', 0)]\<rparr>"

definition ty_rte_flow_item_gtp_psc :: c_type where
  "ty_rte_flow_item_gtp_psc = Struct 1 False [(''pdu_type'', U8), (''qfi'', U8)]"

definition test_rte_flow_item_gtp_psc :: layout_test where
  "test_rte_flow_item_gtp_psc = \<lparr>asserted_size = 2, asserted_align = 1,
     asserted_offsets = [(''pdu_type'', 0), (''qfi'', 1)]\<rparr>"

definition ty_rte_flow_item_pppoe :: c_type where
  "ty_rte_flow_item_pppoe = Struct 1 False [(''version_type'', U8), (''code'', U8),
      (''session_id'', U16), (''length'', U16)]"

definition test_rte_flow_item_pppoe :: layout_test where
  "test_rte_flow_item_pppoe = \<lparr>asserted_size = 6, asserted_align = 2,
     asserted_offsets = [(''version_type'', 0), (''code'', 1), (''session_id'', 2),
      (''length'', 4)]\<rparr>"

definition ty_rte_flow_item_pppoe_proto_id :: c_type where
  "ty_rte_flow_item_pppoe_proto_id = Struct 1 False [(''proto_id'', U16)]"

definition test_rte_flow_item_pppoe_proto_id :: layout_test where
  "test_rte_flow_item_pppoe_proto_id = \<lparr>asserted_size = 2, asserted_align = 2,
     asserted_offsets = [(''proto_id'', 0)]\<rparr>"

definition ty_rte_flow_item_tag :: c_type where
  "ty_rte_flow_item_tag = Struct 1 False [(''data'', U32), (''index'', U8)]"

definition test_rte_flow_item_tag :: layout_test where
  "test_rte_flow_item_tag = \<lparr>asserted_size = 8, asserted_align = 4,
     asserted_offsets = [(''data'', 0), (''index'', 4)]\<rparr>"

definition ty_rte_flow_item_mark :: c_type where
  "ty_rte_flow_item_mark = Struct 1 False [(''id'', U32)]"

definition test_rte_flow_item_mark :: layout_test where
  "test_rte_flow_item_mark = \<lparr>asserted_size = 4, asserted_align = 4,
     asserted_offsets = [(''id'', 0)]\<rparr>"

definition ty_rte_flow_item_nsh :: c_type where
  "ty_rte_flow_item_nsh = Struct 4 False [(''_bitfield_1'', bitfield_unit 8 U32)]"

definition test_rte_flow_item_nsh :: layout_test where
  "test_rte_flow_item_nsh = \<lparr>asserted_size = 8, asserted_align = 4,
     asserted_offsets = []\<rparr>"

definition ty_rte_flow_item_igmp :: c_type where
  "ty_rte_flow_item_igmp = Struct 1 False [(''_bitfield_1'', bitfield_unit 4 U16),
      (''group_addr'', U32)]"

definition test_rte_flow_item_igmp :: layout_test where
  "test_rte_flow_item_igmp = \<lparr>asserted_size = 8, asserted_align = 4,
     asserted_offsets = [(''group_addr'', 4)]\<rparr>"

definition ty_rte_flow_item_ah :: c_type where
  "ty_rte_flow_item_ah = Struct 1 False [(''_bitfield_1'', bitfield_unit 4 U16), (''spi'', U32),
      (''seq_num'', U32)]"

definition test_rte_flow_item_ah :: layout_test where
  "test_rte_flow_item_ah = \<lparr>asserted_size = 12, asserted_align = 4,
     asserted_offsets = [(''spi'', 4), (''seq_num'', 8)]\<rparr>"

definition ty_rte_flow_item :: c_type where
  "ty_rte_flow_item = Struct 1 False [(''type_'', U32), (''spec'', Pointer), (''last'', Pointer),
      (''mask'', Pointer)]"

definition test_rte_flow_item :: layout_test where
  "test_rte_flow_item = \<lparr>asserted_size = 32, asserted_align = 8,
     asserted_offsets = [(''type_'', 0), (''spec'', 8), (''last'', 16), (''mask'', 24)]\<rparr>"

lemma layout_rte_flow_attr [layout_simps]:
  "c_size ty_rte_flow_attr = 12" "c_align ty_rte_flow_attr = 4" "wf_type ty_rte_flow_attr"
  "layout_test_passes ty_rte_flow_attr test_rte_flow_attr"
  by (simp_all add: ty_rte_flow_attr_def test_rte_flow_attr_def layout_simps layout_eval)

lemma layout_rte_flow_item_higig2_hdr [layout_simps]:
  "c_size ty_rte_flow_item_higig2_hdr = 16" "c_align ty_rte_flow_item_higig2_hdr = 4" "wf_type ty_rte_flow_item_higig2_hdr"
  "layout_test_passes ty_rte_flow_item_higig2_hdr test_rte_flow_item_higig2_hdr"
  by (simp_all add: ty_rte_flow_item_higig2_hdr_def test_rte_flow_item_higig2_hdr_def layout_simps layout_eval)

lemma layout_rte_flow_item_any [layout_simps]:
  "c_size ty_rte_flow_item_any = 4" "c_align ty_rte_flow_item_any = 4" "wf_type ty_rte_flow_item_any"
  "layout_test_passes ty_rte_flow_item_any test_rte_flow_item_any"
  by (simp_all add: ty_rte_flow_item_any_def test_rte_flow_item_any_def layout_simps layout_eval)

lemma layout_rte_flow_item_vf [layout_simps]:
  "c_size ty_rte_flow_item_vf = 4" "c_align ty_rte_flow_item_vf = 4" "wf_type ty_rte_flow_item_vf"
  "layout_test_passes ty_rte_flow_item_vf test_rte_flow_item_vf"
  by (simp_all add: ty_rte_flow_item_vf_def test_rte_flow_item_vf_def layout_simps layout_eval)

lemma layout_rte_flow_item_phy_port [layout_simps]:
  "c_size ty_rte_flow_item_phy_port = 4" "c_align ty_rte_flow_item_phy_port = 4" "wf_type ty_rte_flow_item_phy_port"
  "layout_test_passes ty_rte_flow_item_phy_port test_rte_flow_item_phy_port"
  by (simp_all add: ty_rte_flow_item_phy_port_def test_rte_flow_item_phy_port_def layout_simps layout_eval)

lemma layout_rte_flow_item_port_id [layout_simps]:
  "c_size ty_rte_flow_item_port_id = 4" "c_align ty_rte_flow_item_port_id = 4" "wf_type ty_rte_flow_item_port_id"
  "layout_test_passes ty_rte_flow_item_port_id test_rte_flow_item_port_id"
  by (simp_all add: ty_rte_flow_item_port_id_def test_rte_flow_item_port_id_def layout_simps layout_eval)

lemma layout_rte_flow_item_raw [layout_simps]:
  "c_size ty_rte_flow_item_raw = 24" "c_align ty_rte_flow_item_raw = 8" "wf_type ty_rte_flow_item_raw"
  "layout_test_passes ty_rte_flow_item_raw test_rte_flow_item_raw"
  by (simp_all add: ty_rte_flow_item_raw_def test_rte_flow_item_raw_def layout_simps layout_eval)

lemma layout_rte_flow_item_eth [layout_simps]:
  "c_size ty_rte_flow_item_eth = 14" "c_align ty_rte_flow_item_eth = 2" "wf_type ty_rte_flow_item_eth"
  "layout_test_passes ty_rte_flow_item_eth test_rte_flow_item_eth"
  by (simp_all add: ty_rte_flow_item_eth_def test_rte_flow_item_eth_def layout_simps layout_eval)

lemma layout_rte_flow_item_vlan [layout_simps]:
  "c_size ty_rte_flow_item_vlan = 4" "c_align ty_rte_flow_item_vlan = 2" "wf_type ty_rte_flow_item_vlan"
  "layout_test_passes ty_rte_flow_item_vlan test_rte_flow_item_vlan"
  by (simp_all add: ty_rte_flow_item_vlan_def test_rte_flow_item_vlan_def layout_simps layout_eval)

lemma layout_rte_flow_item_ipv4 [layout_simps]:
  "c_size ty_rte_flow_item_ipv4 = 20" "c_align ty_rte_flow_item_ipv4 = 1" "wf_type ty_rte_flow_item_ipv4"
  "layout_test_passes ty_rte_flow_item_ipv4 test_rte_flow_item_ipv4"
  by (simp_all add: ty_rte_flow_item_ipv4_def test_rte_flow_item_ipv4_def layout_simps layout_eval)

lemma layout_rte_flow_item_ipv6 [layout_simps]:
  "c_size ty_rte_flow_item_ipv6 = 40" "c_align ty_rte_flow_item_ipv6 = 1" "wf_type ty_rte_flow_item_ipv6"
  "layout_test_passes ty_rte_flow_item_ipv6 test_rte_flow_item_ipv6"
  by (simp_all add: ty_rte_flow_item_ipv6_def test_rte_flow_item_ipv6_def layout_simps layout_eval)

lemma layout_rte_flow_item_icmp [layout_simps]:
  "c_size ty_rte_flow_item_icmp = 8" "c_align ty_rte_flow_item_icmp = 1" "wf_type ty_rte_flow_item_icmp"
  "layout_test_passes ty_rte_flow_item_icmp test_rte_flow_item_icmp"
  by (simp_all add: ty_rte_flow_item_icmp_def test_rte_flow_item_icmp_def layout_simps layout_eval)

lemma layout_rte_flow_item_udp [layout_simps]:
  "c_size ty_rte_flow_item_udp = 8" "c_align ty_rte_flow_item_udp = 1" "wf_type ty_rte_flow_item_udp"
  "layout_test_passes ty_rte_flow_item_udp test_rte_flow_item_udp"
  by (simp_all add: ty_rte_flow_item_udp_def test_rte_flow_item_udp_def layout_simps layout_eval)

lemma layout_rte_flow_item_tcp [layout_simps]:
  "c_size ty_rte_flow_item_tcp = 20" "c_align ty_rte_flow_item_tcp = 1" "wf_type ty_rte_flow_item_tcp"
  "layout_test_passes ty_rte_flow_item_tcp test_rte_flow_item_tcp"
  by (simp_all add: ty_rte_flow_item_tcp_def test_rte_flow_item_tcp_def layout_simps layout_eval)

lemma layout_rte_flow_item_sctp [layout_simps]:
  "c_size ty_rte_flow_item_sctp = 12" "c_align ty_rte_flow_item_sctp = 1" "wf_type ty_rte_flow_item_sctp"
  "layout_test_passes ty_rte_flow_item_sctp test_rte_flow_item_sctp"
  by (simp_all add: ty_rte_flow_item_sctp_def test_rte_flow_item_sctp_def layout_simps layout_eval)

lemma layout_rte_flow_item_vxlan [layout_simps]:
  "c_size ty_rte_flow_item_vxlan = 8" "c_align ty_rte_flow_item_vxlan = 1" "wf_type ty_rte_flow_item_vxlan"
  "layout_test_passes ty_rte_flow_item_vxlan test_rte_flow_item_vxlan"
  by (simp_all add: ty_rte_flow_item_vxlan_def test_rte_flow_item_vxlan_def layout_simps layout_eval)

lemma layout_rte_flow_item_e_tag [layout_simps]:
  "c_size ty_rte_flow_item_e_tag = 8" "c_align ty_rte_flow_item_e_tag = 2" "wf_type ty_rte_flow_item_e_tag"
  "layout_test_passes ty_rte_flow_item_e_tag test_rte_flow_item_e_tag"
  by (simp_all add: ty_rte_flow_item_e_tag_def test_rte_flow_item_e_tag_def layout_simps layout_eval)

lemma layout_rte_flow_item_nvgre [layout_simps]:
  "c_size ty_rte_flow_item_nvgre = 8" "c_align ty_rte_flow_item_nvgre = 2" "wf_type ty_rte_flow_item_nvgre"
  "layout_test_passes ty_rte_flow_item_nvgre test_rte_flow_item_nvgre"
  by (simp_all add: ty_rte_flow_item_nvgre_def test_rte_flow_item_nvgre_def layout_simps layout_eval)

lemma layout_rte_flow_item_mpls [layout_simps]:
  "c_size ty_rte_flow_item_mpls = 4" "c_align ty_rte_flow_item_mpls = 1" "wf_type ty_rte_flow_item_mpls"
  "layout_test_passes ty_rte_flow_item_mpls test_rte_flow_item_mpls"
  by (simp_all add: ty_rte_flow_item_mpls_def test_rte_flow_item_mpls_def layout_simps layout_eval)

lemma layout_rte_flow_item_gre [layout_simps]:
  "c_size ty_rte_flow_item_gre = 4" "c_align ty_rte_flow_item_gre = 2" "wf_type ty_rte_flow_item_gre"
  "layout_test_passes ty_rte_flow_item_gre test_rte_flow_item_gre"
  by (simp_all add: ty_rte_flow_item_gre_def test_rte_flow_item_gre_def layout_simps layout_eval)

lemma layout_rte_flow_item_fuzzy [layout_simps]:
  "c_size ty_rte_flow_item_fuzzy = 4" "c_align ty_rte_flow_item_fuzzy = 4" "wf_type ty_rte_flow_item_fuzzy"
  "layout_test_passes ty_rte_flow_item_fuzzy test_rte_flow_item_fuzzy"
  by (simp_all add: ty_rte_flow_item_fuzzy_def test_rte_flow_item_fuzzy_def layout_simps layout_eval)

lemma layout_rte_flow_item_gtp [layout_simps]:
  "c_size ty_rte_flow_item_gtp = 8" "c_align ty_rte_flow_item_gtp = 4" "wf_type ty_rte_flow_item_gtp"
  "layout_test_passes ty_rte_flow_item_gtp test_rte_flow_item_gtp"
  by (simp_all add: ty_rte_flow_item_gtp_def test_rte_flow_item_gtp_def layout_simps layout_eval)

lemma layout_rte_flow_item_esp [layout_simps]:
  "c_size ty_rte_flow_item_esp = 8" "c_align ty_rte_flow_item_esp = 1" "wf_type ty_rte_flow_item_esp"
  "layout_test_passes ty_rte_flow_item_esp test_rte_flow_item_esp"
  by (simp_all add: ty_rte_flow_item_esp_def test_rte_flow_item_esp_def layout_simps layout_eval)

lemma layout_rte_flow_item_geneve [layout_simps]:
  "c_size ty_rte_flow_item_geneve = 8" "c_align ty_rte_flow_item_geneve = 2" "wf_type ty_rte_flow_item_geneve"
  "layout_test_passes ty_rte_flow_item_geneve test_rte_flow_item_geneve"
  by (simp_all add: ty_rte_flow_item_geneve_def test_rte_flow_item_geneve_def layout_simps layout_eval)

lemma layout_rte_flow_item_vxlan_gpe [layout_simps]:
  "c_size ty_rte_flow_item_vxlan_gpe = 8" "c_align ty_rte_flow_item_vxlan_gpe = 1" "wf_type ty_rte_flow_item_vxlan_gpe"
  "layout_test_passes ty_rte_flow_item_vxlan_gpe test_rte_flow_item_vxlan_gpe"
  by (simp_all add: ty_rte_flow_item_vxlan_gpe_def test_rte_flow_item_vxlan_gpe_def layout_simps layout_eval)

lemma layout_rte_flow_item_arp_eth_ipv4 [layout_simps]:
  "c_size ty_rte_flow_item_arp_eth_ipv4 = 32" "c_align ty_rte_flow_item_arp_eth_ipv4 = 4" "wf_type ty_rte_flow_item_arp_eth_ipv4"
  "layout_test_passes ty_rte_flow_item_arp_eth_ipv4 test_rte_flow_item_arp_eth_ipv4"
  by (simp_all add: ty_rte_flow_item_arp_eth_ipv4_def test_rte_flow_item_arp_eth_ipv4_def layout_simps layout_eval)

lemma layout_rte_flow_item_ipv6_ext [layout_simps]:
  "c_size ty_rte_flow_item_ipv6_ext = 1" "c_align ty_rte_flow_item_ipv6_ext = 1" "wf_type ty_rte_flow_item_ipv6_ext"
  "layout_test_passes ty_rte_flow_item_ipv6_ext test_rte_flow_item_ipv6_ext"
  by (simp_all add: ty_rte_flow_item_ipv6_ext_def test_rte_flow_item_ipv6_ext_def layout_simps layout_eval)

lemma layout_rte_flow_item_icmp6 [layout_simps]:
  "c_size ty_rte_flow_item_icmp6 = 4" "c_align ty_rte_flow_item_icmp6 = 2" "wf_type ty_rte_flow_item_icmp6"
  "layout_test_passes ty_rte_flow_item_icmp6 test_rte_flow_item_icmp6"
  by (simp_all add: ty_rte_flow_item_icmp6_def test_rte_flow_item_icmp6_def layout_simps layout_eval)

lemma layout_rte_flow_item_icmp6_nd_ns [layout_simps]:
  "c_size ty_rte_flow_item_icmp6_nd_ns = 24" "c_align ty_rte_flow_item_icmp6_nd_ns = 4" "wf_type ty_rte_flow_item_icmp6_nd_ns"
  "layout_test_passes ty_rte_flow_item_icmp6_nd_ns test_rte_flow_item_icmp6_nd_ns"
  by (simp_all add: ty_rte_flow_item_icmp6_nd_ns_def test_rte_flow_item_icmp6_nd_ns_def layout_simps layout_eval)

lemma layout_rte_flow_item_icmp6_nd_na [layout_simps]:
  "c_size ty_rte_flow_item_icmp6_nd_na = 24" "c_align ty_rte_flow_item_icmp6_nd_na = 4" "wf_type ty_rte_flow_item_icmp6_nd_na"
  "layout_test_passes ty_rte_flow_item_icmp6_nd_na test_rte_flow_item_icmp6_nd_na"
  by (simp_all add: ty_rte_flow_item_icmp6_nd_na_def test_rte_flow_item_icmp6_nd_na_def layout_simps layout_eval)

lemma layout_rte_flow_item_icmp6_nd_opt [layout_simps]:
  "c_size ty_rte_flow_item_icmp6_nd_opt = 2" "c_align ty_rte_flow_item_icmp6_nd_opt = 1" "wf_type ty_rte_flow_item_icmp6_nd_opt"
  "layout_test_passes ty_rte_flow_item_icmp6_nd_opt test_rte_flow_item_icmp6_nd_opt"
  by (simp_all add: ty_rte_flow_item_icmp6_nd_opt_def test_rte_flow_item_icmp6_nd_opt_def layout_simps layout_eval)

lemma layout_rte_flow_item_icmp6_nd_opt_sla_eth [layout_simps]:
  "c_size ty_rte_flow_item_icmp6_nd_opt_sla_eth = 8" "c_align ty_rte_flow_item_icmp6_nd_opt_sla_eth = 2" "wf_type ty_rte_flow_item_icmp6_nd_opt_sla_eth"
  "layout_test_passes ty_rte_flow_item_icmp6_nd_opt_sla_eth test_rte_flow_item_icmp6_nd_opt_sla_eth"
  by (simp_all add: ty_rte_flow_item_icmp6_nd_opt_sla_eth_def test_rte_flow_item_icmp6_nd_opt_sla_eth_def layout_simps layout_eval)

lemma layout_rte_flow_item_icmp6_nd_opt_tla_eth [layout_simps]:
  "c_size ty_rte_flow_item_icmp6_nd_opt_tla_eth = 8" "c_align ty_rte_flow_item_icmp6_nd_opt_tla_eth = 2" "wf_type ty_rte_flow_item_icmp6_nd_opt_tla_eth"
  "layout_test_passes ty_rte_flow_item_icmp6_nd_opt_tla_eth test_rte_flow_item_icmp6_nd_opt_tla_eth"
  by (simp_all add: ty_rte_flow_item_icmp6_nd_opt_tla_eth_def test_rte_flow_item_icmp6_nd_opt_tla_eth_def layout_simps layout_eval)

lemma layout_rte_flow_item_meta [layout_simps]:
  "c_size ty_rte_flow_item_meta = 4" "c_align ty_rte_flow_item_meta = 4" "wf_type ty_rte_flow_item_meta"
  "layout_test_passes ty_rte_flow_item_meta test_rte_flow_item_meta"
  by (simp_all add: ty_rte_flow_item_meta_def test_rte_flow_item_meta_def layout_simps layout_eval)

lemma layout_rte_flow_item_gtp_psc [layout_simps]:
  "c_size ty_rte_flow_item_gtp_psc = 2" "c_align ty_rte_flow_item_gtp_psc = 1" "wf_type ty_rte_flow_item_gtp_psc"
  "layout_test_passes ty_rte_flow_item_gtp_psc test_rte_flow_item_gtp_psc"
  by (simp_all add: ty_rte_flow_item_gtp_psc_def test_rte_flow_item_gtp_psc_def layout_simps layout_eval)

lemma layout_rte_flow_item_pppoe [layout_simps]:
  "c_size ty_rte_flow_item_pppoe = 6" "c_align ty_rte_flow_item_pppoe = 2" "wf_type ty_rte_flow_item_pppoe"
  "layout_test_passes ty_rte_flow_item_pppoe test_rte_flow_item_pppoe"
  by (simp_all add: ty_rte_flow_item_pppoe_def test_rte_flow_item_pppoe_def layout_simps layout_eval)

lemma layout_rte_flow_item_pppoe_proto_id [layout_simps]:
  "c_size ty_rte_flow_item_pppoe_proto_id = 2" "c_align ty_rte_flow_item_pppoe_proto_id = 2" "wf_type ty_rte_flow_item_pppoe_proto_id"
  "layout_test_passes ty_rte_flow_item_pppoe_proto_id test_rte_flow_item_pppoe_proto_id"
  by (simp_all add: ty_rte_flow_item_pppoe_proto_id_def test_rte_flow_item_pppoe_proto_id_def layout_simps layout_eval)

lemma layout_rte_flow_item_tag [layout_simps]:
  "c_size ty_rte_flow_item_tag = 8" "c_align ty_rte_flow_item_tag = 4" "wf_type ty_rte_flow_item_tag"
  "layout_test_passes ty_rte_flow_item_tag test_rte_flow_item_tag"
  by (simp_all add: ty_rte_flow_item_tag_def test_rte_flow_item_tag_def layout_simps layout_eval)

lemma layout_rte_flow_item_mark [layout_simps]:
  "c_size ty_rte_flow_item_mark = 4" "c_align ty_rte_flow_item_mark = 4" "wf_type ty_rte_flow_item_mark"
  "layout_test_passes ty_rte_flow_item_mark test_rte_flow_item_mark"
  by (simp_all add: ty_rte_flow_item_mark_def test_rte_flow_item_mark_def layout_simps layout_eval)

lemma layout_rte_flow_item_nsh [layout_simps]:
  "c_size ty_rte_flow_item_nsh = 8" "c_align ty_rte_flow_item_nsh = 4" "wf_type ty_rte_flow_item_nsh"
  "layout_test_passes ty_rte_flow_item_nsh test_rte_flow_item_nsh"
  by (simp_all add: ty_rte_flow_item_nsh_def test_rte_flow_item_nsh_def layout_simps layout_eval)

lemma layout_rte_flow_item_igmp [layout_simps]:
  "c_size ty_rte_flow_item_igmp = 8" "c_align ty_rte_flow_item_igmp = 4" "wf_type ty_rte_flow_item_igmp"
  "layout_test_passes ty_rte_flow_item_igmp test_rte_flow_item_igmp"
  by (simp_all add: ty_rte_flow_item_igmp_def test_rte_flow_item_igmp_def layout_simps layout_eval)

lemma layout_rte_flow_item_ah [layout_simps]:
  "c_size ty_rte_flow_item_ah = 12" "c_align ty_rte_flow_item_ah = 4" "wf_type ty_rte_flow_item_ah"
  "layout_test_passes ty_rte_flow_item_ah test_rte_flow_item_ah"
  by (simp_all add: ty_rte_flow_item_ah_def test_rte_flow_item_ah_def layout_simps layout_eval)

lemma layout_rte_flow_item [layout_simps]:
  "c_size ty_rte_flow_item = 32" "c_align ty_rte_flow_item = 8" "wf_type ty_rte_flow_item"
  "layout_test_passes ty_rte_flow_item test_rte_flow_item"
  by (simp_all add: ty_rte_flow_item_def test_rte_flow_item_def layout_simps layout_eval)

section \<open>Actions\<close>

text \<open>Actions.\<close>

definition ty_rte_flow_action_mark :: c_type where
  "ty_rte_flow_action_mark = Struct 1 False [(''id'', U32)]"

definition test_rte_flow_action_mark :: layout_test where
  "test_rte_flow_action_mark = \<lparr>asserted_size = 4, asserted_align = 4,
     asserted_offsets = [(''id'', 0)]\<rparr>"

definition ty_rte_flow_action_jump :: c_type where
  "ty_rte_flow_action_jump = Struct 1 False [(''group'', U32)]"

definition test_rte_flow_action_jump :: layout_test where
  "test_rte_flow_action_jump = \<lparr>asserted_size = 4, asserted_align = 4,
     asserted_offsets = [(''group'', 0)]\<rparr>"

definition ty_rte_flow_action_queue :: c_type where
  "ty_rte_flow_action_queue = Struct 1 False [(''index'', U16)]"

definition test_rte_flow_action_queue :: layout_test where
  "test_rte_flow_action_queue = \<lparr>asserted_size = 2, asserted_align = 2,
     asserted_offsets = [(''index'', 0)]\<rparr>"

definition ty_rte_flow_action_count :: c_type where
  "ty_rte_flow_action_count = Struct 1 False [(''_bitfield_1'', bitfield_unit 4 U32),
      (''id'', U32)]"

definition test_rte_flow_action_count :: layout_test where
  "test_rte_flow_action_count = \<lparr>asserted_size = 8, asserted_align = 4,
     asserted_offsets = [(''id'', 4)]\<rparr>"

definition ty_rte_flow_action_rss :: c_type where
  "ty_rte_flow_action_rss = Struct 1 False [(''func'', U32), (''level'', U32), (''types'', U64),
      (''key_len'', U32), (''queue_num'', U32), (''key'', Pointer), (''queue'', Pointer)]"

definition test_rte_flow_action_rss :: layout_test where
  "test_rte_flow_action_rss = \<lparr>asserted_size = 40, asserted_align = 8,
     asserted_offsets = [(''func'', 0), (''level'', 4), (''types'', 8), (''key_len'', 16),
      (''queue_num'', 20), (''key'', 24), (''queue'', 32)]\<rparr>"

definition ty_rte_flow_action_vf :: c_type where
  "ty_rte_flow_action_vf = Struct 1 False [(''_bitfield_1'', bitfield_unit 4 U32),
      (''id'', U32)]"

definition test_rte_flow_action_vf :: layout_test where
  "test_rte_flow_action_vf = \<lparr>asserted_size = 8, asserted_align = 4,
     asserted_offsets = [(''id'', 4)]\<rparr>"

definition ty_rte_flow_action_phy_port :: c_type where
  "ty_rte_flow_action_phy_port = Struct 1 False [(''_bitfield_1'', bitfield_unit 4 U32),
      (''index'', U32)]"

definition test_rte_flow_action_phy_port :: layout_test where
  "test_rte_flow_action_phy_port = \<lparr>asserted_size = 8, asserted_align = 4,
     asserted_offsets = [(''index'', 4)]\<rparr>"

definition ty_rte_flow_action_port_id :: c_type where
  "ty_rte_flow_action_port_id = Struct 1 False [(''_bitfield_1'', bitfield_unit 4 U32),
      (''id'', U32)]"

definition test_rte_flow_action_port_id :: layout_test where
  "test_rte_flow_action_port_id = \<lparr>asserted_size = 8, asserted_align = 4,
     asserted_offsets = [(''id'', 4)]\<rparr>"

definition ty_rte_flow_action_meter :: c_type where
  "ty_rte_flow_action_meter = Struct 1 False [(''mtr_id'', U32)]"

definition test_rte_flow_action_meter :: layout_test where
  "test_rte_flow_action_meter = \<lparr>asserted_size = 4, asserted_align = 4,
     asserted_offsets = [(''mtr_id'', 0)]\<rparr>"

definition ty_rte_flow_action_security :: c_type where
  "ty_rte_flow_action_security = Struct 1 False [(''security_session'', Pointer)]"

definition test_rte_flow_action_security :: layout_test where
  "test_rte_flow_action_security = \<lparr>asserted_size = 8, asserted_align = 8,
     asserted_offsets = [(''security_session'', 0)]\<rparr>"

definition ty_rte_flow_action_of_set_mpls_ttl :: c_type where
  "ty_rte_flow_action_of_set_mpls_ttl = Struct 1 False [(''mpls_ttl'', U8)]"

definition test_rte_flow_action_of_set_mpls_ttl :: layout_test where
  "test_rte_flow_action_of_set_mpls_ttl = \<lparr>asserted_size = 1, asserted_align = 1,
     asserted_offsets = [(''mpls_ttl'', 0)]\<rparr>"

definition ty_rte_flow_action_of_set_nw_ttl :: c_type where
  "ty_rte_flow_action_of_set_nw_ttl = Struct 1 False [(''nw_ttl'', U8)]"

definition test_rte_flow_action_of_set_nw_ttl :: layout_test where
  "test_rte_flow_action_of_set_nw_ttl = \<lparr>asserted_size = 1, asserted_align = 1,
     asserted_offsets = [(''nw_ttl'', 0)]\<rparr>"

definition ty_rte_flow_action_of_push_vlan :: c_type where
  "ty_rte_flow_action_of_push_vlan = Struct 1 False [(''ethertype'', U16)]"

definition test_rte_flow_action_of_push_vlan :: layout_test where
  "test_rte_flow_action_of_push_vlan = \<lparr>asserted_size = 2, asserted_align = 2,
     asserted_offsets = [(''ethertype'', 0)]\<rparr>"

definition ty_rte_flow_action_of_set_vlan_vid :: c_type where
  "ty_rte_flow_action_of_set_vlan_vid = Struct 1 False [(''vlan_vid'', U16)]"

definition test_rte_flow_action_of_set_vlan_vid :: layout_test where
  "test_rte_flow_action_of_set_vlan_vid = \<lparr>asserted_size = 2, asserted_align = 2,
     asserted_offsets = [(''vlan_vid'', 0)]\<rparr>"

definition ty_rte_flow_action_of_set_vlan_pcp :: c_type where
  "ty_rte_flow_action_of_set_vlan_pcp = Struct 1 False [(''vlan_pcp'', U8)]"

definition test_rte_flow_action_of_set_vlan_pcp :: layout_test where
  "test_rte_flow_action_of_set_vlan_pcp = \<lparr>asserted_size = 1, asserted_align = 1,
     asserted_offsets = [(''vlan_pcp'', 0)]\<rparr>"

definition ty_rte_flow_action_of_pop_mpls :: c_type where
  "ty_rte_flow_action_of_pop_mpls = Struct 1 False [(''ethertype'', U16)]"

definition test_rte_flow_action_of_pop_mpls :: layout_test where
  "test_rte_flow_action_of_pop_mpls = \<lparr>asserted_size = 2, asserted_align = 2,
     asserted_offsets = [(''ethertype'', 0)]\<rparr>"

definition ty_rte_flow_action_of_push_mpls :: c_type where
  "ty_rte_flow_action_of_push_mpls = Struct 1 False [(''ethertype'', U16)]"

definition test_rte_flow_action_of_push_mpls :: layout_test where
  "test_rte_flow_action_of_push_mpls = \<lparr>asserted_size = 2, asserted_align = 2,
     asserted_offsets = [(''ethertype'', 0)]\<rparr>"

definition ty_rte_flow_action_vxlan_encap :: c_type where
  "ty_rte_flow_action_vxlan_encap = Struct 1 False [(''definition'', Pointer)]"

definition test_rte_flow_action_vxlan_encap :: layout_test where
  "test_rte_flow_action_vxlan_encap = \<lparr>asserted_size = 8, asserted_align = 8,
     asserted_offsets = [(''definition'', 0)]\<rparr>"

definition ty_rte_flow_action_nvgre_encap :: c_type where
  "ty_rte_flow_action_nvgre_encap = Struct 1 False [(''definition'', Pointer)]"

definition test_rte_flow_action_nvgre_encap :: layout_test where
  "test_rte_flow_action_nvgre_encap = \<lparr>asserted_size = 8, asserted_align = 8,
     asserted_offsets = [(''definition'', 0)]\<rparr>"

definition ty_rte_flow_action_raw_encap :: c_type where
  "ty_rte_flow_action_raw_encap = Struct 1 False [(''data'', Pointer), (''preserve'', Pointer),
      (''size'', U64)]"

definition test_rte_flow_action_raw_encap :: layout_test where
  "test_rte_flow_action_raw_encap = \<lparr>asserted_size = 24, asserted_align = 8,
     asserted_offsets = [(''data'', 0), (''preserve'', 8), (''size'', 16)]\<rparr>"

definition ty_rte_flow_action_raw_decap :: c_type where
  "ty_rte_flow_action_raw_decap = Struct 1 False [(''data'', Pointer), (''size'', U64)]"

definition test_rte_flow_action_raw_decap :: layout_test where
  "test_rte_flow_action_raw_decap = \<lparr>asserted_size = 16, asserted_align = 8,
     asserted_offsets = [(''data'', 0), (''size'', 8)]\<rparr>"

definition ty_rte_flow_action_set_ipv4 :: c_type where
  "ty_rte_flow_action_set_ipv4 = Struct 1 False [(''ipv4_addr'', U32)]"

definition test_rte_flow_action_set_ipv4 :: layout_test where
  "test_rte_flow_action_set_ipv4 = \<lparr>asserted_size = 4, asserted_align = 4,
     asserted_offsets = [(''ipv4_addr'', 0)]\<rparr>"

definition ty_rte_flow_action_set_ipv6 :: c_type where
  "ty_rte_flow_action_set_ipv6 = Struct 1 False [(''ipv6_addr'', Arr U8 16)]"

definition test_rte_flow_action_set_ipv6 :: layout_test where
  "test_rte_flow_action_set_ipv6 = \<lparr>asserted_size = 16, asserted_align = 1,
     asserted_offsets = [(''ipv6_addr'', 0)]\<rparr>"

definition ty_rte_flow_action_set_tp :: c_type where
  "ty_rte_flow_action_set_tp = Struct 1 False [(''port'', U16)]"

definition test_rte_flow_action_set_tp :: layout_test where
  "test_rte_flow_action_set_tp = \<lparr>asserted_size = 2, asserted_align = 2,
     asserted_offsets = [(''port'', 0)]\<rparr>"

definition ty_rte_flow_action_set_ttl :: c_type where
  "ty_rte_flow_action_set_ttl = Struct 1 False [(''ttl_value'', U8)]"

definition test_rte_flow_action_set_ttl :: layout_test where
  "test_rte_flow_action_set_ttl = \<lparr>asserted_size = 1, asserted_align = 1,
     asserted_offsets = [(''ttl_value'', 0)]\<rparr>"

definition ty_rte_flow_action_set_mac :: c_type where
  "ty_rte_flow_action_set_mac = Struct 1 False [(''mac_addr'', Arr U8 6)]"

definition test_rte_flow_action_set_mac :: layout_test where
  "test_rte_flow_action_set_mac = \<lparr>asserted_size = 6, asserted_align = 1,
     asserted_offsets = [(''mac_addr'', 0)]\<rparr>"

definition ty_rte_flow_action_set_tag :: c_type where
  "ty_rte_flow_action_set_tag = Struct 1 False [(''data'', U32), (''mask'', U32),
      (''index'', U8)]"

definition test_rte_flow_action_set_tag :: layout_test where
  "test_rte_flow_action_set_tag = \<lparr>asserted_size = 12, asserted_align = 4,
     asserted_offsets = [(''data'', 0), (''mask'', 4), (''index'', 8)]\<rparr>"

definition ty_rte_flow_action_set_meta :: c_type where
  "ty_rte_flow_action_set_meta = Struct 1 False [(''data'', U32), (''mask'', U32)]"

definition test_rte_flow_action_set_meta :: layout_test where
  "test_rte_flow_action_set_meta = \<lparr>asserted_size = 8, asserted_align = 4,
     asserted_offsets = [(''data'', 0), (''mask'', 4)]\<rparr>"

definition ty_rte_flow_action :: c_type where
  "ty_rte_flow_action = Struct 1 False [(''type_'', U32), (''conf'', Pointer)]"

definition test_rte_flow_action :: layout_test where
  "test_rte_flow_action = \<lparr>asserted_size = 16, asserted_align = 8,
     asserted_offsets = [(''type_'', 0), (''conf'', 8)]\<rparr>"

lemma layout_rte_flow_action_mark [layout_simps]:
  "c_size ty_rte_flow_action_mark = 4" "c_align ty_rte_flow_action_mark = 4" "wf_type ty_rte_flow_action_mark"
  "layout_test_passes ty_rte_flow_action_mark test_rte_flow_action_mark"
  by (simp_all add: ty_rte_flow_action_mark_def test_rte_flow_action_mark_def layout_simps layout_eval)

lemma layout_rte_flow_action_jump [layout_simps]:
  "c_size ty_rte_flow_action_jump = 4" "c_align ty_rte_flow_action_jump = 4" "wf_type ty_rte_flow_action_jump"
  "layout_test_passes ty_rte_flow_action_jump test_rte_flow_action_jump"
  by (simp_all add: ty_rte_flow_action_jump_def test_rte_flow_action_jump_def layout_simps layout_eval)

lemma layout_rte_flow_action_queue [layout_simps]:
  "c_size ty_rte_flow_action_queue = 2" "c_align ty_rte_flow_action_queue = 2" "wf_type ty_rte_flow_action_queue"
  "layout_test_passes ty_rte_flow_action_queue test_rte_flow_action_queue"
  by (simp_all add: ty_rte_flow_action_queue_def test_rte_flow_action_queue_def layout_simps layout_eval)

lemma layout_rte_flow_action_count [layout_simps]:
  "c_size ty_rte_flow_action_count = 8" "c_align ty_rte_flow_action_count = 4" "wf_type ty_rte_flow_action_count"
  "layout_test_passes ty_rte_flow_action_count test_rte_flow_action_count"
  by (simp_all add: ty_rte_flow_action_count_def test_rte_flow_action_count_def layout_simps layout_eval)

lemma layout_rte_flow_action_rss [layout_simps]:
  "c_size ty_rte_flow_action_rss = 40" "c_align ty_rte_flow_action_rss = 8" "wf_type ty_rte_flow_action_rss"
  "layout_test_passes ty_rte_flow_action_rss test_rte_flow_action_rss"
  by (simp_all add: ty_rte_flow_action_rss_def test_rte_flow_action_rss_def layout_simps layout_eval)

lemma layout_rte_flow_action_vf [layout_simps]:
  "c_size ty_rte_flow_action_vf = 8" "c_align ty_rte_flow_action_vf = 4" "wf_type ty_rte_flow_action_vf"
  "layout_test_passes ty_rte_flow_action_vf test_rte_flow_action_vf"
  by (simp_all add: ty_rte_flow_action_vf_def test_rte_flow_action_vf_def layout_simps layout_eval)

lemma layout_rte_flow_action_phy_port [layout_simps]:
  "c_size ty_rte_flow_action_phy_port = 8" "c_align ty_rte_flow_action_phy_port = 4" "wf_type ty_rte_flow_action_phy_port"
  "layout_test_passes ty_rte_flow_action_phy_port test_rte_flow_action_phy_port"
  by (simp_all add: ty_rte_flow_action_phy_port_def test_rte_flow_action_phy_port_def layout_simps layout_eval)

lemma layout_rte_flow_action_port_id [layout_simps]:
  "c_size ty_rte_flow_action_port_id = 8" "c_align ty_rte_flow_action_port_id = 4" "wf_type ty_rte_flow_action_port_id"
  "layout_test_passes ty_rte_flow_action_port_id test_rte_flow_action_port_id"
  by (simp_all add: ty_rte_flow_action_port_id_def test_rte_flow_action_port_id_def layout_simps layout_eval)

lemma layout_rte_flow_action_meter [layout_simps]:
  "c_size ty_rte_flow_action_meter = 4" "c_align ty_rte_flow_action_meter = 4" "wf_type ty_rte_flow_action_meter"
  "layout_test_passes ty_rte_flow_action_meter test_rte_flow_action_meter"
  by (simp_all add: ty_rte_flow_action_meter_def test_rte_flow_action_meter_def layout_simps layout_eval)

lemma layout_rte_flow_action_security [layout_simps]:
  "c_size ty_rte_flow_action_security = 8" "c_align ty_rte_flow_action_security = 8" "wf_type ty_rte_flow_action_security"
  "layout_test_passes ty_rte_flow_action_security test_rte_flow_action_security"
  by (simp_all add: ty_rte_flow_action_security_def test_rte_flow_action_security_def layout_simps layout_eval)

lemma layout_rte_flow_action_of_set_mpls_ttl [layout_simps]:
  "c_size ty_rte_flow_action_of_set_mpls_ttl = 1" "c_align ty_rte_flow_action_of_set_mpls_ttl = 1" "wf_type ty_rte_flow_action_of_set_mpls_ttl"
  "layout_test_passes ty_rte_flow_action_of_set_mpls_ttl test_rte_flow_action_of_set_mpls_ttl"
  by (simp_all add: ty_rte_flow_action_of_set_mpls_ttl_def test_rte_flow_action_of_set_mpls_ttl_def layout_simps layout_eval)

lemma layout_rte_flow_action_of_set_nw_ttl [layout_simps]:
  "c_size ty_rte_flow_action_of_set_nw_ttl = 1" "c_align ty_rte_flow_action_of_set_nw_ttl = 1" "wf_type ty_rte_flow_action_of_set_nw_ttl"
  "layout_test_passes ty_rte_flow_action_of_set_nw_ttl test_rte_flow_action_of_set_nw_ttl"
  by (simp_all add: ty_rte_flow_action_of_set_nw_ttl_def test_rte_flow_action_of_set_nw_ttl_def layout_simps layout_eval)

lemma layout_rte_flow_action_of_push_vlan [layout_simps]:
  "c_size ty_rte_flow_action_of_push_vlan = 2" "c_align ty_rte_flow_action_of_push_vlan = 2" "wf_type ty_rte_flow_action_of_push_vlan"
  "layout_test_passes ty_rte_flow_action_of_push_vlan test_rte_flow_action_of_push_vlan"
  by (simp_all add: ty_rte_flow_action_of_push_vlan_def test_rte_flow_action_of_push_vlan_def layout_simps layout_eval)

lemma layout_rte_flow_action_of_set_vlan_vid [layout_simps]:
  "c_size ty_rte_flow_action_of_set_vlan_vid = 2" "c_align ty_rte_flow_action_of_set_vlan_vid = 2" "wf_type ty_rte_flow_action_of_set_vlan_vid"
  "layout_test_passes ty_rte_flow_action_of_set_vlan_vid test_rte_flow_action_of_set_vlan_vid"
  by (simp_all add: ty_rte_flow_action_of_set_vlan_vid_def test_rte_flow_action_of_set_vlan_vid_def layout_simps layout_eval)

lemma layout_rte_flow_action_of_set_vlan_pcp [layout_simps]:
  "c_size ty_rte_flow_action_of_set_vlan_pcp = 1" "c_align ty_rte_flow_action_of_set_vlan_pcp = 1" "wf_type ty_rte_flow_action_of_set_vlan_pcp"
  "layout_test_passes ty_rte_flow_action_of_set_vlan_pcp test_rte_flow_action_of_set_vlan_pcp"
  by (simp_all add: ty_rte_flow_action_of_set_vlan_pcp_def test_rte_flow_action_of_set_vlan_pcp_def layout_simps layout_eval)

lemma layout_rte_flow_action_of_pop_mpls [layout_simps]:
  "c_size ty_rte_flow_action_of_pop_mpls = 2" "c_align ty_rte_flow_action_of_pop_mpls = 2" "wf_type ty_rte_flow_action_of_pop_mpls"
  "layout_test_passes ty_rte_flow_action_of_pop_mpls test_rte_flow_action_of_pop_mpls"
  by (simp_all add: ty_rte_flow_action_of_pop_mpls_def test_rte_flow_action_of_pop_mpls_def layout_simps layout_eval)

lemma layout_rte_flow_action_of_push_mpls [layout_simps]:
  "c_size ty_rte_flow_action_of_push_mpls = 2" "c_align ty_rte_flow_action_of_push_mpls = 2" "wf_type ty_rte_flow_action_of_push_mpls"
  "layout_test_passes ty_rte_flow_action_of_push_mpls test_rte_flow_action_of_push_mpls"
  by (simp_all add: ty_rte_flow_action_of_push_mpls_def test_rte_flow_action_of_push_mpls_def layout_simps layout_eval)

lemma layout_rte_flow_action_vxlan_encap [layout_simps]:
  "c_size ty_rte_flow_action_vxlan_encap = 8" "c_align ty_rte_flow_action_vxlan_encap = 8" "wf_type ty_rte_flow_action_vxlan_encap"
  "layout_test_passes ty_rte_flow_action_vxlan_encap test_rte_flow_action_vxlan_encap"
  by (simp_all add: ty_rte_flow_action_vxlan_encap_def test_rte_flow_action_vxlan_encap_def layout_simps layout_eval)

lemma layout_rte_flow_action_nvgre_encap [layout_simps]:
  "c_size ty_rte_flow_action_nvgre_encap = 8" "c_align ty_rte_flow_action_nvgre_encap = 8" "wf_type ty_rte_flow_action_nvgre_encap"
  "layout_test_passes ty_rte_flow_action_nvgre_encap test_rte_flow_action_nvgre_encap"
  by (simp_all add: ty_rte_flow_action_nvgre_encap_def test_rte_flow_action_nvgre_encap_def layout_simps layout_eval)

lemma layout_rte_flow_action_raw_encap [layout_simps]:
  "c_size ty_rte_flow_action_raw_encap = 24" "c_align ty_rte_flow_action_raw_encap = 8" "wf_type ty_rte_flow_action_raw_encap"
  "layout_test_passes ty_rte_flow_action_raw_encap test_rte_flow_action_raw_encap"
  by (simp_all add: ty_rte_flow_action_raw_encap_def test_rte_flow_action_raw_encap_def layout_simps layout_eval)

lemma layout_rte_flow_action_raw_decap [layout_simps]:
  "c_size ty_rte_flow_action_raw_decap = 16" "c_align ty_rte_flow_action_raw_decap = 8" "wf_type ty_rte_flow_action_raw_decap"
  "layout_test_passes ty_rte_flow_action_raw_decap test_rte_flow_action_raw_decap"
  by (simp_all add: ty_rte_flow_action_raw_decap_def test_rte_flow_action_raw_decap_def layout_simps layout_eval)

lemma layout_rte_flow_action_set_ipv4 [layout_simps]:
  "c_size ty_rte_flow_action_set_ipv4 = 4" "c_align ty_rte_flow_action_set_ipv4 = 4" "wf_type ty_rte_flow_action_set_ipv4"
  "layout_test_passes ty_rte_flow_action_set_ipv4 test_rte_flow_action_set_ipv4"
  by (simp_all add: ty_rte_flow_action_set_ipv4_def test_rte_flow_action_set_ipv4_def layout_simps layout_eval)

lemma layout_rte_flow_action_set_ipv6 [layout_simps]:
  "c_size ty_rte_flow_action_set_ipv6 = 16" "c_align ty_rte_flow_action_set_ipv6 = 1" "wf_type ty_rte_flow_action_set_ipv6"
  "layout_test_passes ty_rte_flow_action_set_ipv6 test_rte_flow_action_set_ipv6"
  by (simp_all add: ty_rte_flow_action_set_ipv6_def test_rte_flow_action_set_ipv6_def layout_simps layout_eval)

lemma layout_rte_flow_action_set_tp [layout_simps]:
  "c_size ty_rte_flow_action_set_tp = 2" "c_align ty_rte_flow_action_set_tp = 2" "wf_type ty_rte_flow_action_set_tp"
  "layout_test_passes ty_rte_flow_action_set_tp test_rte_flow_action_set_tp"
  by (simp_all add: ty_rte_flow_action_set_tp_def test_rte_flow_action_set_tp_def layout_simps layout_eval)

lemma layout_rte_flow_action_set_ttl [layout_simps]:
  "c_size ty_rte_flow_action_set_ttl = 1" "c_align ty_rte_flow_action_set_ttl = 1" "wf_type ty_rte_flow_action_set_ttl"
  "layout_test_passes ty_rte_flow_action_set_ttl test_rte_flow_action_set_ttl"
  by (simp_all add: ty_rte_flow_action_set_ttl_def test_rte_flow_action_set_ttl_def layout_simps layout_eval)

lemma layout_rte_flow_action_set_mac [layout_simps]:
  "c_size ty_rte_flow_action_set_mac = 6" "c_align ty_rte_flow_action_set_mac = 1" "wf_type ty_rte_flow_action_set_mac"
  "layout_test_passes ty_rte_flow_action_set_mac test_rte_flow_action_set_mac"
  by (simp_all add: ty_rte_flow_action_set_mac_def test_rte_flow_action_set_mac_def layout_simps layout_eval)

lemma layout_rte_flow_action_set_tag [layout_simps]:
  "c_size ty_rte_flow_action_set_tag = 12" "c_align ty_rte_flow_action_set_tag = 4" "wf_type ty_rte_flow_action_set_tag"
  "layout_test_passes ty_rte_flow_action_set_tag test_rte_flow_action_set_tag"
  by (simp_all add: ty_rte_flow_action_set_tag_def test_rte_flow_action_set_tag_def layout_simps layout_eval)

lemma layout_rte_flow_action_set_meta [layout_simps]:
  "c_size ty_rte_flow_action_set_meta = 8" "c_align ty_rte_flow_action_set_meta = 4" "wf_type ty_rte_flow_action_set_meta"
  "layout_test_passes ty_rte_flow_action_set_meta test_rte_flow_action_set_meta"
  by (simp_all add: ty_rte_flow_action_set_meta_def test_rte_flow_action_set_meta_def layout_simps layout_eval)

lemma layout_rte_flow_action [layout_simps]:
  "c_size ty_rte_flow_action = 16" "c_align ty_rte_flow_action = 8" "wf_type ty_rte_flow_action"
  "layout_test_passes ty_rte_flow_action test_rte_flow_action"
  by (simp_all add: ty_rte_flow_action_def test_rte_flow_action_def layout_simps layout_eval)

section \<open>Rules\<close>

text \<open>Queries, errors, conversion and descriptions of rules.\<close>

definition ty_rte_flow_query_count :: c_type where
  "ty_rte_flow_query_count = Struct 1 False [(''_bitfield_1'', bitfield_unit 4 U32),
      (''hits'', U64), (''bytes'', U64)]"

definition test_rte_flow_query_count :: layout_test where
  "test_rte_flow_query_count = \<lparr>asserted_size = 24, asserted_align = 8,
     asserted_offsets = [(''hits'', 8), (''bytes'', 16)]\<rparr>"

definition ty_rte_flow_error :: c_type where
  "ty_rte_flow_error = Struct 1 False [(''type_'', U32), (''cause'', Pointer),
      (''message'', Pointer)]"

definition test_rte_flow_error :: layout_test where
  "test_rte_flow_error = \<lparr>asserted_size = 24, asserted_align = 8,
     asserted_offsets = [(''type_'', 0), (''cause'', 8), (''message'', 16)]\<rparr>"

definition ty_rte_flow_conv_rule__bindgen_ty_1 :: c_type where
  "ty_rte_flow_conv_rule__bindgen_ty_1 = Union 1 [(''attr_ro'', Pointer), (''attr'', Pointer),
      (''_bindgen_union_align'', U64)]"

definition test_rte_flow_conv_rule__bindgen_ty_1 :: layout_test where
  "test_rte_flow_conv_rule__bindgen_ty_1 = \<lparr>asserted_size = 8, asserted_align = 8,
     asserted_offsets = [(''attr_ro'', 0), (''attr'', 0)]\<rparr>"

definition ty_rte_flow_conv_rule__bindgen_ty_2 :: c_type where
  "ty_rte_flow_conv_rule__bindgen_ty_2 = Union 1 [(''pattern_ro'', Pointer),
      (''pattern'', Pointer), (''_bindgen_union_align'', U64)]"

definition test_rte_flow_conv_rule__bindgen_ty_2 :: layout_test where
  "test_rte_flow_conv_rule__bindgen_ty_2 = \<lparr>asserted_size = 8, asserted_align = 8,
     asserted_offsets = [(''pattern_ro'', 0), (''pattern'', 0)]\<rparr>"

definition ty_rte_flow_conv_rule__bindgen_ty_3 :: c_type where
  "ty_rte_flow_conv_rule__bindgen_ty_3 = Union 1 [(''actions_ro'', Pointer),
      (''actions'', Pointer), (''_bindgen_union_align'', U64)]"

definition test_rte_flow_conv_rule__bindgen_ty_3 :: layout_test where
  "test_rte_flow_conv_rule__bindgen_ty_3 = \<lparr>asserted_size = 8, asserted_align = 8,
     asserted_offsets = [(''actions_ro'', 0), (''actions'', 0)]\<rparr>"

definition ty_rte_flow_conv_rule :: c_type where
  "ty_rte_flow_conv_rule = Struct 1 False [
      (''__bindgen_anon_1'', ty_rte_flow_conv_rule__bindgen_ty_1),
      (''__bindgen_anon_2'', ty_rte_flow_conv_rule__bindgen_ty_2),
      (''__bindgen_anon_3'', ty_rte_flow_conv_rule__bindgen_ty_3)]"

definition test_rte_flow_conv_rule :: layout_test where
  "test_rte_flow_conv_rule = \<lparr>asserted_size = 24, asserted_align = 8,
     asserted_offsets = []\<rparr>"

definition ty_rte_flow_desc :: c_type where
  "ty_rte_flow_desc = Struct 1 False [(''size'', U64), (''attr'', ty_rte_flow_attr),
      (''items'', Pointer), (''actions'', Pointer), (''data'', Arr U8 0)]"

definition test_rte_flow_desc :: layout_test where
  "test_rte_flow_desc = \<lparr>asserted_size = 40, asserted_align = 8,
     asserted_offsets = []\<rparr>"

lemma layout_rte_flow_query_count [layout_simps]:
  "c_size ty_rte_flow_query_count = 24" "c_align ty_rte_flow_query_count = 8" "wf_type ty_rte_flow_query_count"
  "layout_test_passes ty_rte_flow_query_count test_rte_flow_query_count"
  by (simp_all add: ty_rte_flow_query_count_def test_rte_flow_query_count_def layout_simps layout_eval)

lemma layout_rte_flow_error [layout_simps]:
  "c_size ty_rte_flow_error = 24" "c_align ty_rte_flow_error = 8" "wf_type ty_rte_flow_error"
  "layout_test_passes ty_rte_flow_error test_rte_flow_error"
  by (simp_all add: ty_rte_flow_error_def test_rte_flow_error_def layout_simps layout_eval)

lemma layout_rte_flow_conv_rule__bindgen_ty_1 [layout_simps]:
  "c_size ty_rte_flow_conv_rule__bindgen_ty_1 = 8" "c_align ty_rte_flow_conv_rule__bindgen_ty_1 = 8" "wf_type ty_rte_flow_conv_rule__bindgen_ty_1"
  "layout_test_passes ty_rte_flow_conv_rule__bindgen_ty_1 test_rte_flow_conv_rule__bindgen_ty_1"
  by (simp_all add: ty_rte_flow_conv_rule__bindgen_ty_1_def test_rte_flow_conv_rule__bindgen_ty_1_def layout_simps layout_eval)

lemma layout_rte_flow_conv_rule__bindgen_ty_2 [layout_simps]:
  "c_size ty_rte_flow_conv_rule__bindgen_ty_2 = 8" "c_align ty_rte_flow_conv_rule__bindgen_ty_2 = 8" "wf_type ty_rte_flow_conv_rule__bindgen_ty_2"
  "layout_test_passes ty_rte_flow_conv_rule__bindgen_ty_2 test_rte_flow_conv_rule__bindgen_ty_2"
  by (simp_all add: ty_rte_flow_conv_rule__bindgen_ty_2_def test_rte_flow_conv_rule__bindgen_ty_2_def layout_simps layout_eval)

lemma layout_rte_flow_conv_rule__bindgen_ty_3 [layout_simps]:
  "c_size ty_rte_flow_conv_rule__bindgen_ty_3 = 8" "c_align ty_rte_flow_conv_rule__bindgen_ty_3 = 8" "wf_type ty_rte_flow_conv_rule__bindgen_ty_3"
  "layout_test_passes ty_rte_flow_conv_rule__bindgen_ty_3 test_rte_flow_conv_rule__bindgen_ty_3"
  by (simp_all add: ty_rte_flow_conv_rule__bindgen_ty_3_def test_rte_flow_conv_rule__bindgen_ty_3_def layout_simps layout_eval)

lemma layout_rte_flow_conv_rule [layout_simps]:
  "c_size ty_rte_flow_conv_rule = 24" "c_align ty_rte_flow_conv_rule = 8" "wf_type ty_rte_flow_conv_rule"
  "layout_test_passes ty_rte_flow_conv_rule test_rte_flow_conv_rule"
  by (simp_all add: ty_rte_flow_conv_rule_def test_rte_flow_conv_rule_def layout_simps layout_eval)

lemma layout_rte_flow_desc [layout_simps]:
  "c_size ty_rte_flow_desc = 40" "c_align ty_rte_flow_desc = 8" "wf_type ty_rte_flow_desc"
  "layout_test_passes ty_rte_flow_desc test_rte_flow_desc"
  by (simp_all add: ty_rte_flow_desc_def test_rte_flow_desc_def layout_simps layout_eval)

section \<open>The tests\<close>

definition flow_layouts :: "(c_type \<times> layout_test) list" where
  "flow_layouts = [(ty_rte_flow_attr, test_rte_flow_attr),
      (ty_rte_flow_item_higig2_hdr, test_rte_flow_item_higig2_hdr),
      (ty_rte_flow_item_any, test_rte_flow_item_any),
      (ty_rte_flow_item_vf, test_rte_flow_item_vf),
      (ty_rte_flow_item_phy_port, test_rte_flow_item_phy_port),
      (ty_rte_flow_item_port_id, test_rte_flow_item_port_id),
      (ty_rte_flow_item_raw, test_rte_flow_item_raw),
      (ty_rte_flow_item_eth, test_rte_flow_item_eth),
      (ty_rte_flow_item_vlan, test_rte_flow_item_vlan),
      (ty_rte_flow_item_ipv4, test_rte_flow_item_ipv4),
      (ty_rte_flow_item_ipv6, test_rte_flow_item_ipv6),
      (ty_rte_flow_item_icmp, test_rte_flow_item_icmp),
      (ty_rte_flow_item_udp, test_rte_flow_item_udp),
      (ty_rte_flow_item_tcp, test_rte_flow_item_tcp),
      (ty_rte_flow_item_sctp, test_rte_flow_item_sctp),
      (ty_rte_flow_item_vxlan, test_rte_flow_item_vxlan),
      (ty_rte_flow_item_e_tag, test_rte_flow_item_e_tag),
      (ty_rte_flow_item_nvgre, test_rte_flow_item_nvgre),
      (ty_rte_flow_item_mpls, test_rte_flow_item_mpls),
      (ty_rte_flow_item_gre, test_rte_flow_item_gre),
      (ty_rte_flow_item_fuzzy, test_rte_flow_item_fuzzy),
      (ty_rte_flow_item_gtp, test_rte_flow_item_gtp),
      (ty_rte_flow_item_esp, test_rte_flow_item_esp),
      (ty_rte_flow_item_geneve, test_rte_flow_item_geneve),
      (ty_rte_flow_item_vxlan_gpe, test_rte_flow_item_vxlan_gpe),
      (ty_rte_flow_item_arp_eth_ipv4, test_rte_flow_item_arp_eth_ipv4),
      (ty_rte_flow_item_ipv6_ext, test_rte_flow_item_ipv6_ext),
      (ty_rte_flow_item_icmp6, test_rte_flow_item_icmp6),
      (ty_rte_flow_item_icmp6_nd_ns, test_rte_flow_item_icmp6_nd_ns),
      (ty_rte_flow_item_icmp6_nd_na, test_rte_flow_item_icmp6_nd_na),
      (ty_rte_flow_item_icmp6_nd_opt, test_rte_flow_item_icmp6_nd_opt),
      (ty_rte_flow_item_icmp6_nd_opt_sla_eth, test_rte_flow_item_icmp6_nd_opt_sla_eth),
      (ty_rte_flow_item_icmp6_nd_opt_tla_eth, test_rte_flow_item_icmp6_nd_opt_tla_eth),
      (ty_rte_flow_item_meta, test_rte_flow_item_meta),
      (ty_rte_flow_item_gtp_psc, test_rte_flow_item_gtp_psc),
      (ty_rte_flow_item_pppoe, test_rte_flow_item_pppoe),
      (ty_rte_flow_item_pppoe_proto_id, test_rte_flow_item_pppoe_proto_id),
      (ty_rte_flow_item_tag, test_rte_flow_item_tag),
      (ty_rte_flow_item_mark, test_rte_flow_item_mark),
      (ty_rte_flow_item_nsh, test_rte_flow_item_nsh),
      (ty_rte_flow_item_igmp, test_rte_flow_item_igmp),
      (ty_rte_flow_item_ah, test_rte_flow_item_ah), (ty_rte_flow_item, test_rte_flow_item),
      (ty_rte_flow_action_mark, test_rte_flow_action_mark),
      (ty_rte_flow_action_jump, test_rte_flow_action_jump),
      (ty_rte_flow_action_queue, test_rte_flow_action_queue),
      (ty_rte_flow_action_count, test_rte_flow_action_count),
      (ty_rte_flow_action_rss, test_rte_flow_action_rss),
      (ty_rte_flow_action_vf, test_rte_flow_action_vf),
      (ty_rte_flow_action_phy_port, test_rte_flow_action_phy_port),
      (ty_rte_flow_action_port_id, test_rte_flow_action_port_id),
      (ty_rte_flow_action_meter, test_rte_flow_action_meter),
      (ty_rte_flow_action_security, test_rte_flow_action_security),
      (ty_rte_flow_action_of_set_mpls_ttl, test_rte_flow_action_of_set_mpls_ttl),
      (ty_rte_flow_action_of_set_nw_ttl, test_rte_flow_action_of_set_nw_ttl),
      (ty_rte_flow_action_of_push_vlan, test_rte_flow_action_of_push_vlan),
      (ty_rte_flow_action_of_set_vlan_vid, test_rte_flow_action_of_set_vlan_vid),
      (ty_rte_flow_action_of_set_vlan_pcp, test_rte_flow_action_of_set_vlan_pcp),
      (ty_rte_flow_action_of_pop_mpls, test_rte_flow_action_of_pop_mpls),
      (ty_rte_flow_action_of_push_mpls, test_rte_flow_action_of_push_mpls),
      (ty_rte_flow_action_vxlan_encap, test_rte_flow_action_vxlan_encap),
      (ty_rte_flow_action_nvgre_encap, test_rte_flow_action_nvgre_encap),
      (ty_rte_flow_action_raw_encap, test_rte_flow_action_raw_encap),
      (ty_rte_flow_action_raw_decap, test_rte_flow_action_raw_decap),
      (ty_rte_flow_action_set_ipv4, test_rte_flow_action_set_ipv4),
      (ty_rte_flow_action_set_ipv6, test_rte_flow_action_set_ipv6),
      (ty_rte_flow_action_set_tp, test_rte_flow_action_set_tp),
      (ty_rte_flow_action_set_ttl, test_rte_flow_action_set_ttl),
      (ty_rte_flow_action_set_mac, test_rte_flow_action_set_mac),
      (ty_rte_flow_action_set_tag, test_rte_flow_action_set_tag),
      (ty_rte_flow_action_set_meta, test_rte_flow_action_set_meta),
      (ty_rte_flow_action, test_rte_flow_action),
      (ty_rte_flow_query_count, test_rte_flow_query_count),
      (ty_rte_flow_error, test_rte_flow_error),
      (ty_rte_flow_conv_rule__bindgen_ty_1, test_rte_flow_conv_rule__bindgen_ty_1),
      (ty_rte_flow_conv_rule__bindgen_ty_2, test_rte_flow_conv_rule__bindgen_ty_2),
      (ty_rte_flow_conv_rule__bindgen_ty_3, test_rte_flow_conv_rule__bindgen_ty_3),
      (ty_rte_flow_conv_rule, test_rte_flow_conv_rule), (ty_rte_flow_desc, test_rte_flow_desc)]"

lemma flow_layouts_pass: "list_all (\<lambda>(t, w). layout_test_passes t w \<and> wf_type t) flow_layouts"
  by (simp add: flow_layouts_def layout_simps)

end
