(* ===== verification/Bound_Filters.thy ===== *)
theory Bound_Filters
  imports Bound_Types
begin

text \<open>
  The filters of Ethernet devices: link and mirror settings, packet filters, flow director
  and hash filters.
  They are translated as in \<open>Bound_Types\<close>.
\<close>

section \<open>Links and traffic classes\<close>

text \<open>Statistics, link state, mirroring, flow control and traffic classes.\<close>

definition ty_rte_eth_stats :: c_type where
  "ty_rte_eth_stats = Struct 1 False [(''ipackets'', U64), (''opackets'', U64),
      (''ibytes'', U64), (''obytes'', U64), (''imissed'', U64), (''ierrors'', U64),
      (''oerrors'', U64), (''rx_nombuf'', U64), (''q_ipackets'', Arr U64 16),
      (''q_opackets'', Arr U64 16), (''q_ibytes'', Arr U64 16), (''q_obytes'', Arr U64 16),
      (''q_errors'', Arr U64 16)]"

definition test_rte_eth_stats :: layout_test where
  "test_rte_eth_stats = \<lparr>asserted_size = 704, asserted_align = 8,
     asserted_offsets = [(''ipackets'', 0), (''opackets'', 8), (''ibytes'', 16),
      (''obytes'', 24), (''imissed'', 32), (''ierrors'', 40), (''oerrors'', 48),
      (''rx_nombuf'', 56), (''q_ipackets'', 64), (''q_opackets'', 192), (''q_ibytes'', 320),
      (''q_obytes'', 448), (''q_errors'', 576)]\<rparr>"

definition ty_rte_eth_link :: c_type where
  "ty_rte_eth_link = Struct 8 False [(''link_speed'', U32),
      (''_bitfield_1'', bitfield_unit 1 U8), (''__bindgen_padding_0'', Arr U8 3)]"

definition test_rte_eth_link :: layout_test where
  "test_rte_eth_link = \<lparr>asserted_size = 8, asserted_align = 8,
     asserted_offsets = [(''link_speed'', 0)]\<rparr>"

definition ty_rte_vlan_filter_conf :: c_type where
  "ty_rte_vlan_filter_conf = Struct 1 False [(''ids'', Arr U64 64)]"

definition test_rte_vlan_filter_conf :: layout_test where
  "test_rte_vlan_filter_conf = \<lparr>asserted_size = 512, asserted_align = 8,
     asserted_offsets = [(''ids'', 0)]\<rparr>"

definition ty_rte_eth_vlan_mirror :: c_type where
  "ty_rte_eth_vlan_mirror = Struct 1 False [(''vlan_mask'', U64), (''vlan_id'', Arr U16 64)]"

definition test_rte_eth_vlan_mirror :: layout_test where
  "test_rte_eth_vlan_mirror = \<lparr>asserted_size = 136, asserted_align = 8,
     asserted_offsets = [(''vlan_mask'', 0), (''vlan_id'', 8)]\<rparr>"

definition ty_rte_eth_mirror_conf :: c_type where
  "ty_rte_eth_mirror_conf = Struct 1 False [(''rule_type'', U8), (''dst_pool'', U8),
      (''pool_mask'', U64), (''vlan'', ty_rte_eth_vlan_mirror)]"

definition test_rte_eth_mirror_conf :: layout_test where
  "test_rte_eth_mirror_conf = \<lparr>asserted_size = 152, asserted_align = 8,
     asserted_offsets = [(''rule_type'', 0), (''dst_pool'', 1), (''pool_mask'', 8),
      (''vlan'', 16)]\<rparr>"

definition ty_rte_eth_rss_reta_entry64 :: c_type where
  "ty_rte_eth_rss_reta_entry64 = Struct 1 False [(''mask'', U64), (''reta'', Arr U16 64)]"

definition test_rte_eth_rss_reta_entry64 :: layout_test where
  "test_rte_eth_rss_reta_entry64 = \<lparr>asserted_size = 136, asserted_align = 8,
     asserted_offsets = [(''mask'', 0), (''reta'', 8)]\<rparr>"

definition ty_rte_eth_hairpin_cap :: c_type where
  "ty_rte_eth_hairpin_cap = Struct 1 False [(''max_nb_queues'', U16), (''max_rx_2_tx'', U16),
      (''max_tx_2_rx'', U16), (''max_nb_desc'', U16)]"

definition test_rte_eth_hairpin_cap :: layout_test where
  "test_rte_eth_hairpin_cap = \<lparr>asserted_size = 8, asserted_align = 2,
     asserted_offsets = [(''max_nb_queues'', 0), (''max_rx_2_tx'', 2), (''max_tx_2_rx'', 4),
      (''max_nb_desc'', 6)]\<rparr>"

definition ty_rte_eth_hairpin_peer :: c_type where
  "ty_rte_eth_hairpin_peer = Struct 1 False [(''port'', U16), (''queue'', U16)]"

definition test_rte_eth_hairpin_peer :: layout_test where
  "test_rte_eth_hairpin_peer = \<lparr>asserted_size = 4, asserted_align = 2,
     asserted_offsets = [(''port'', 0), (''queue'', 2)]\<rparr>"

definition ty_rte_eth_hairpin_conf :: c_type where
  "ty_rte_eth_hairpin_conf = Struct 1 False [(''peer_count'', U16),
      (''peers'', Arr ty_rte_eth_hairpin_peer 32)]"

definition test_rte_eth_hairpin_conf :: layout_test where
  "test_rte_eth_hairpin_conf = \<lparr>asserted_size = 130, asserted_align = 2,
     asserted_offsets = [(''peer_count'', 0), (''peers'', 2)]\<rparr>"

definition ty_rte_eth_fc_conf :: c_type where
  "ty_rte_eth_fc_conf = Struct 1 False [(''high_water'', U32), (''low_water'', U32),
      (''pause_time'', U16), (''send_xon'', U16), (''mode'', U32), (''mac_ctrl_frame_fwd'', U8),
      (''autoneg'', U8)]"

definition test_rte_eth_fc_conf :: layout_test where
  "test_rte_eth_fc_conf = \<lparr>asserted_size = 20, asserted_align = 4,
     asserted_offsets = [(''high_water'', 0), (''low_water'', 4), (''pause_time'', 8),
      (''send_xon'', 10), (''mode'', 12), (''mac_ctrl_frame_fwd'', 16),
      (''autoneg'', 17)]\<rparr>"

definition ty_rte_eth_pfc_conf :: c_type where
  "ty_rte_eth_pfc_conf = Struct 1 False [(''fc'', ty_rte_eth_fc_conf), (''priority'', U8)]"

definition test_rte_eth_pfc_conf :: layout_test where
  "test_rte_eth_pfc_conf = \<lparr>asserted_size = 24, asserted_align = 4,
     asserted_offsets = [(''fc'', 0), (''priority'', 20)]\<rparr>"

definition ty_rte_eth_l2_tunnel_conf :: c_type where
  "ty_rte_eth_l2_tunnel_conf = Struct 1 False [(''l2_tunnel_type'', U32), (''ether_type'', U16),
      (''tunnel_id'', U32), (''vf_id'', U16), (''pool'', U32)]"

definition test_rte_eth_l2_tunnel_conf :: layout_test where
  "test_rte_eth_l2_tunnel_conf = \<lparr>asserted_size = 20, asserted_align = 4,
     asserted_offsets = [(''l2_tunnel_type'', 0), (''ether_type'', 4), (''tunnel_id'', 8),
      (''vf_id'', 12), (''pool'', 16)]\<rparr>"

definition ty_rte_eth_udp_tunnel :: c_type where
  "ty_rte_eth_udp_tunnel = Struct 1 False [(''udp_port'', U16), (''prot_type'', U8)]"

definition test_rte_eth_udp_tunnel :: layout_test where
  "test_rte_eth_udp_tunnel = \<lparr>asserted_size = 4, asserted_align = 2,
     asserted_offsets = [(''udp_port'', 0), (''prot_type'', 2)]\<rparr>"

definition ty_rte_eth_xstat :: c_type where
  "ty_rte_eth_xstat = Struct 1 False [(''id'', U64), (''value'', U64)]"

definition test_rte_eth_xstat :: layout_test where
  "test_rte_eth_xstat = \<lparr>asserted_size = 16, asserted_align = 8,
     asserted_offsets = [(''id'', 0), (''value'', 8)]\<rparr>"

definition ty_rte_eth_xstat_name :: c_type where
  "ty_rte_eth_xstat_name = Struct 1 False [(''name'', Arr U8 64)]"

definition test_rte_eth_xstat_name :: layout_test where
  "test_rte_eth_xstat_name = \<lparr>asserted_size = 64, asserted_align = 1,
     asserted_offsets = [(''name'', 0)]\<rparr>"

definition ty_rte_eth_dcb_tc_queue_mapping__bindgen_ty_1 :: c_type where
  "ty_rte_eth_dcb_tc_queue_mapping__bindgen_ty_1 = Struct 1 False [(''base'', U8),
      (''nb_queue'', U8)]"

definition test_rte_eth_dcb_tc_queue_mapping__bindgen_ty_1 :: layout_test where
  "test_rte_eth_dcb_tc_queue_mapping__bindgen_ty_1 = \<lparr>asserted_size = 2, asserted_align = 1,
     asserted_offsets = [(''base'', 0), (''nb_queue'', 1)]\<rparr>"

definition ty_rte_eth_dcb_tc_queue_mapping__bindgen_ty_2 :: c_type where
  "ty_rte_eth_dcb_tc_queue_mapping__bindgen_ty_2 = Struct 1 False [(''base'', U8),
      (''nb_queue'', U8)]"

definition test_rte_eth_dcb_tc_queue_mapping__bindgen_ty_2 :: layout_test where
  "test_rte_eth_dcb_tc_queue_mapping__bindgen_ty_2 = \<lparr>asserted_size = 2, asserted_align = 1,
     asserted_offsets = [(''base'', 0), (''nb_queue'', 1)]\<rparr>"

definition ty_rte_eth_dcb_tc_queue_mapping :: c_type where
  "ty_rte_eth_dcb_tc_queue_mapping = Struct 1 False [
      (''tc_rxq'', Arr (Arr ty_rte_eth_dcb_tc_queue_mapping__bindgen_ty_1 8) 64),
      (''tc_txq'', Arr (Arr ty_rte_eth_dcb_tc_queue_mapping__bindgen_ty_2 8) 64)]"

definition test_rte_eth_dcb_tc_queue_mapping :: layout_test where
  "test_rte_eth_dcb_tc_queue_mapping = \<lparr>asserted_size = 2048, asserted_align = 1,
     asserted_offsets = [(''tc_rxq'', 0), (''tc_txq'', 1024)]\<rparr>"

definition ty_rte_eth_dcb_info :: c_type where
  "ty_rte_eth_dcb_info = Struct 1 False [(''nb_tcs'', U8), (''prio_tc'', Arr U8 8),
      (''tc_bws'', Arr U8 8), (''tc_queue'', ty_rte_eth_dcb_tc_queue_mapping)]"

definition test_rte_eth_dcb_info :: layout_test where
  "test_rte_eth_dcb_info = \<lparr>asserted_size = 2065, asserted_align = 1,
     asserted_offsets = [(''nb_tcs'', 0), (''prio_tc'', 1), (''tc_bws'', 9),
      (''tc_queue'', 17)]\<rparr>"

lemma layout_rte_eth_stats [layout_simps]:
  "c_size ty_rte_eth_stats = 704" "c_align ty_rte_eth_stats = 8" "wf_type ty_rte_eth_stats"
  "layout_test_passes ty_rte_eth_stats test_rte_eth_stats"
  by (simp_all add: ty_rte_eth_stats_def test_rte_eth_stats_def layout_simps layout_eval)

lemma layout_rte_eth_link [layout_simps]:
  "c_size ty_rte_eth_link = 8" "c_align ty_rte_eth_link = 8" "wf_type ty_rte_eth_link"
  "layout_test_passes ty_rte_eth_link test_rte_eth_link"
  by (simp_all add: ty_rte_eth_link_def test_rte_eth_link_def layout_simps layout_eval)

lemma layout_rte_vlan_filter_conf [layout_simps]:
  "c_size ty_rte_vlan_filter_conf = 512" "c_align ty_rte_vlan_filter_conf = 8" "wf_type ty_rte_vlan_filter_conf"
  "layout_test_passes ty_rte_vlan_filter_conf test_rte_vlan_filter_conf"
  by (simp_all add: ty_rte_vlan_filter_conf_def test_rte_vlan_filter_conf_def layout_simps layout_eval)

lemma layout_rte_eth_vlan_mirror [layout_simps]:
  "c_size ty_rte_eth_vlan_mirror = 136" "c_align ty_rte_eth_vlan_mirror = 8" "wf_type ty_rte_eth_vlan_mirror"
  "layout_test_passes ty_rte_eth_vlan_mirror test_rte_eth_vlan_mirror"
  by (simp_all add: ty_rte_eth_vlan_mirror_def test_rte_eth_vlan_mirror_def layout_simps layout_eval)

lemma layout_rte_eth_mirror_conf [layout_simps]:
  "c_size ty_rte_eth_mirror_conf = 152" "c_align ty_rte_eth_mirror_conf = 8" "wf_type ty_rte_eth_mirror_conf"
  "layout_test_passes ty_rte_eth_mirror_conf test_rte_eth_mirror_conf"
  by (simp_all add: ty_rte_eth_mirror_conf_def test_rte_eth_mirror_conf_def layout_simps layout_eval)

lemma layout_rte_eth_rss_reta_entry64 [layout_simps]:
  "c_size ty_rte_eth_rss_reta_entry64 = 136" "c_align ty_rte_eth_rss_reta_entry64 = 8" "wf_type ty_rte_eth_rss_reta_entry64"
  "layout_test_passes ty_rte_eth_rss_reta_entry64 test_rte_eth_rss_reta_entry64"
  by (simp_all add: ty_rte_eth_rss_reta_entry64_def test_rte_eth_rss_reta_entry64_def layout_simps layout_eval)

lemma layout_rte_eth_hairpin_cap [layout_simps]:
  "c_size ty_rte_eth_hairpin_cap = 8" "c_align ty_rte_eth_hairpin_cap = 2" "wf_type ty_rte_eth_hairpin_cap"
  "layout_test_passes ty_rte_eth_hairpin_cap test_rte_eth_hairpin_cap"
  by (simp_all add: ty_rte_eth_hairpin_cap_def test_rte_eth_hairpin_cap_def layout_simps layout_eval)

lemma layout_rte_eth_hairpin_peer [layout_simps]:
  "c_size ty_rte_eth_hairpin_peer = 4" "c_align ty_rte_eth_hairpin_peer = 2" "wf_type ty_rte_eth_hairpin_peer"
  "layout_test_passes ty_rte_eth_hairpin_peer test_rte_eth_hairpin_peer"
  by (simp_all add: ty_rte_eth_hairpin_peer_def test_rte_eth_hairpin_peer_def layout_simps layout_eval)

lemma layout_rte_eth_hairpin_conf [layout_simps]:
  "c_size ty_rte_eth_hairpin_conf = 130" "c_align ty_rte_eth_hairpin_conf = 2" "wf_type ty_rte_eth_hairpin_conf"
  "layout_test_passes ty_rte_eth_hairpin_conf test_rte_eth_hairpin_conf"
  by (simp_all add: ty_rte_eth_hairpin_conf_def test_rte_eth_hairpin_conf_def layout_simps layout_eval)

lemma layout_rte_eth_fc_conf [layout_simps]:
  "c_size ty_rte_eth_fc_conf = 20" "c_align ty_rte_eth_fc_conf = 4" "wf_type ty_rte_eth_fc_conf"
  "layout_test_passes ty_rte_eth_fc_conf test_rte_eth_fc_conf"
  by (simp_all add: ty_rte_eth_fc_conf_def test_rte_eth_fc_conf_def layout_simps layout_eval)

lemma layout_rte_eth_pfc_conf [layout_simps]:
  "c_size ty_rte_eth_pfc_conf = 24" "c_align ty_rte_eth_pfc_conf = 4" "wf_type ty_rte_eth_pfc_conf"
  "layout_test_passes ty_rte_eth_pfc_conf test_rte_eth_pfc_conf"
  by (simp_all add: ty_rte_eth_pfc_conf_def test_rte_eth_pfc_conf_def layout_simps layout_eval)

lemma layout_rte_eth_l2_tunnel_conf [layout_simps]:
  "c_size ty_rte_eth_l2_tunnel_conf = 20" "c_align ty_rte_eth_l2_tunnel_conf = 4" "wf_type ty_rte_eth_l2_tunnel_conf"
  "layout_test_passes ty_rte_eth_l2_tunnel_conf test_rte_eth_l2_tunnel_conf"
  by (simp_all add: ty_rte_eth_l2_tunnel_conf_def test_rte_eth_l2_tunnel_conf_def layout_simps layout_eval)

lemma layout_rte_eth_udp_tunnel [layout_simps]:
  "c_size ty_rte_eth_udp_tunnel = 4" "c_align ty_rte_eth_udp_tunnel = 2" "wf_type ty_rte_eth_udp_tunnel"
  "layout_test_passes ty_rte_eth_udp_tunnel test_rte_eth_udp_tunnel"
  by (simp_all add: ty_rte_eth_udp_tunnel_def test_rte_eth_udp_tunnel_def layout_simps layout_eval)

lemma layout_rte_eth_xstat [layout_simps]:
  "c_size ty_rte_eth_xstat = 16" "c_align ty_rte_eth_xstat = 8" "wf_type ty_rte_eth_xstat"
  "layout_test_passes ty_rte_eth_xstat test_rte_eth_xstat"
  by (simp_all add: ty_rte_eth_xstat_def test_rte_eth_xstat_def layout_simps layout_eval)

lemma layout_rte_eth_xstat_name [layout_simps]:
  "c_size ty_rte_eth_xstat_name = 64" "c_align ty_rte_eth_xstat_name = 1" "wf_type ty_rte_eth_xstat_name"
  "layout_test_passes ty_rte_eth_xstat_name test_rte_eth_xstat_name"
  by (simp_all add: ty_rte_eth_xstat_name_def test_rte_eth_xstat_name_def layout_simps layout_eval)

lemma layout_rte_eth_dcb_tc_queue_mapping__bindgen_ty_1 [layout_simps]:
  "c_size ty_rte_eth_dcb_tc_queue_mapping__bindgen_ty_1 = 2" "c_align ty_rte_eth_dcb_tc_queue_mapping__bindgen_ty_1 = 1" "wf_type ty_rte_eth_dcb_tc_queue_mapping__bindgen_ty_1"
  "layout_test_passes ty_rte_eth_dcb_tc_queue_mapping__bindgen_ty_1 test_rte_eth_dcb_tc_queue_mapping__bindgen_ty_1"
  by (simp_all add: ty_rte_eth_dcb_tc_queue_mapping__bindgen_ty_1_def test_rte_eth_dcb_tc_queue_mapping__bindgen_ty_1_def layout_simps layout_eval)

lemma layout_rte_eth_dcb_tc_queue_mapping__bindgen_ty_2 [layout_simps]:
  "c_size ty_rte_eth_dcb_tc_queue_mapping__bindgen_ty_2 = 2" "c_align ty_rte_eth_dcb_tc_queue_mapping__bindgen_ty_2 = 1" "wf_type ty_rte_eth_dcb_tc_queue_mapping__bindgen_ty_2"
  "layout_test_passes ty_rte_eth_dcb_tc_queue_mapping__bindgen_ty_2 test_rte_eth_dcb_tc_queue_mapping__bindgen_ty_2"
  by (simp_all add: ty_rte_eth_dcb_tc_queue_mapping__bindgen_ty_2_def test_rte_eth_dcb_tc_queue_mapping__bindgen_ty_2_def layout_simps layout_eval)

lemma layout_rte_eth_dcb_tc_queue_mapping [layout_simps]:
  "c_size ty_rte_eth_dcb_tc_queue_mapping = 2048" "c_align ty_rte_eth_dcb_tc_queue_mapping = 1" "wf_type ty_rte_eth_dcb_tc_queue_mapping"
  "layout_test_passes ty_rte_eth_dcb_tc_queue_mapping test_rte_eth_dcb_tc_queue_mapping"
  by (simp_all add: ty_rte_eth_dcb_tc_queue_mapping_def test_rte_eth_dcb_tc_queue_mapping_def layout_simps layout_eval)

lemma layout_rte_eth_dcb_info [layout_simps]:
  "c_size ty_rte_eth_dcb_info = 2065" "c_align ty_rte_eth_dcb_info = 1" "wf_type ty_rte_eth_dcb_info"
  "layout_test_passes ty_rte_eth_dcb_info test_rte_eth_dcb_info"
  by (simp_all add: ty_rte_eth_dcb_info_def test_rte_eth_dcb_info_def layout_simps layout_eval)

section \<open>Packet filters\<close>

text \<open>MAC, Ethertype, flexible, SYN, tuple and tunnel filters.\<close>

definition ty_rte_eth_mac_filter :: c_type where
  "ty_rte_eth_mac_filter = Struct 1 False [(''is_vf'', U8), (''dst_id'', U16),
      (''filter_type'', U32), (''mac_addr'', ty_rte_ether_addr)]"

definition test_rte_eth_mac_filter :: layout_test where
  "test_rte_eth_mac_filter = \<lparr>asserted_size = 16, asserted_align = 4,
     asserted_offsets = [(''is_vf'', 0), (''dst_id'', 2), (''filter_type'', 4),
      (''mac_addr'', 8)]\<rparr>"

definition ty_rte_eth_ethertype_filter :: c_type where
  "ty_rte_eth_ethertype_filter = Struct 1 False [(''mac_addr'', ty_rte_ether_addr),
      (''ether_type'', U16), (''flags'', U16), (''queue'', U16)]"

definition test_rte_eth_ethertype_filter :: layout_test where
  "test_rte_eth_ethertype_filter = \<lparr>asserted_size = 12, asserted_align = 2,
     asserted_offsets = [(''mac_addr'', 0), (''ether_type'', 6), (''flags'', 8),
      (''queue'', 10)]\<rparr>"

definition ty_rte_eth_flex_filter :: c_type where
  "ty_rte_eth_flex_filter = Struct 1 False [(''len'', U16), (''bytes'', Arr U8 128),
      (''mask'', Arr U8 16), (''priority'', U8), (''queue'', U16)]"

definition test_rte_eth_flex_filter :: layout_test where
  "test_rte_eth_flex_filter = \<lparr>asserted_size = 150, asserted_align = 2,
     asserted_offsets = [(''len'', 0), (''bytes'', 2), (''mask'', 130), (''priority'', 146),
      (''queue'', 148)]\<rparr>"

definition ty_rte_eth_syn_filter :: c_type where
  "ty_rte_eth_syn_filter = Struct 1 False [(''hig_pri'', U8), (''queue'', U16)]"

definition test_rte_eth_syn_filter :: layout_test where
  "test_rte_eth_syn_filter = \<lparr>asserted_size = 4, asserted_align = 2,
     asserted_offsets = [(''hig_pri'', 0), (''queue'', 2)]\<rparr>"

definition ty_rte_eth_ntuple_filter :: c_type where
  "ty_rte_eth_ntuple_filter = Struct 1 False [(''flags'', U16), (''dst_ip'', U32),
      (''dst_ip_mask'', U32), (''src_ip'', U32), (''src_ip_mask'', U32), (''dst_port'', U16),
      (''dst_port_mask'', U16), (''src_port'', U16), (''src_port_mask'', U16), (''proto'', U8),
      (''proto_mask'', U8), (''tcp_flags'', U8), (''priority'', U16), (''queue'', U16)]"

definition test_rte_eth_ntuple_filter :: layout_test where
  "test_rte_eth_ntuple_filter = \<lparr>asserted_size = 36, asserted_align = 4,
     asserted_offsets = [(''flags'', 0), (''dst_ip'', 4), (''dst_ip_mask'', 8), (''src_ip'', 12),
      (''src_ip_mask'', 16), (''dst_port'', 20), (''dst_port_mask'', 22), (''src_port'', 24),
      (''src_port_mask'', 26), (''proto'', 28), (''proto_mask'', 29), (''tcp_flags'', 30),
      (''priority'', 32), (''queue'', 34)]\<rparr>"

definition ty_rte_eth_tunnel_filter_conf__bindgen_ty_1 :: c_type where
  "ty_rte_eth_tunnel_filter_conf__bindgen_ty_1 = Union 1 [(''ipv4_addr'', U32),
      (''ipv6_addr'', Arr U32 4), (''_bindgen_union_align'', Arr U32 4)]"

definition test_rte_eth_tunnel_filter_conf__bindgen_ty_1 :: layout_test where
  "test_rte_eth_tunnel_filter_conf__bindgen_ty_1 = \<lparr>asserted_size = 16, asserted_align = 4,
     asserted_offsets = [(''ipv4_addr'', 0), (''ipv6_addr'', 0)]\<rparr>"

definition ty_rte_eth_tunnel_filter_conf :: c_type where
  "ty_rte_eth_tunnel_filter_conf = Struct 1 False [(''outer_mac'', ty_rte_ether_addr),
      (''inner_mac'', ty_rte_ether_addr), (''inner_vlan'', U16), (''ip_type'', U32),
      (''ip_addr'', ty_rte_eth_tunnel_filter_conf__bindgen_ty_1), (''filter_type'', U16),
      (''tunnel_type'', U32), (''tenant_id'', U32), (''queue_id'', U16)]"

definition test_rte_eth_tunnel_filter_conf :: layout_test where
  "test_rte_eth_tunnel_filter_conf = \<lparr>asserted_size = 52, asserted_align = 4,
     asserted_offsets = [(''outer_mac'', 0), (''inner_mac'', 6), (''inner_vlan'', 12),
      (''ip_type'', 16), (''ip_addr'', 20), (''filter_type'', 36), (''tunnel_type'', 40),
      (''tenant_id'', 44), (''queue_id'', 48)]\<rparr>"

definition ty_rte_eth_global_cfg__bindgen_ty_1 :: c_type where
  "ty_rte_eth_global_cfg__bindgen_ty_1 = Union 1 [(''gre_key_len'', U8), (''reserved'', U64),
      (''_bindgen_union_align'', U64)]"

definition test_rte_eth_global_cfg__bindgen_ty_1 :: layout_test where
  "test_rte_eth_global_cfg__bindgen_ty_1 = \<lparr>asserted_size = 8, asserted_align = 8,
     asserted_offsets = [(''gre_key_len'', 0), (''reserved'', 0)]\<rparr>"

definition ty_rte_eth_global_cfg :: c_type where
  "ty_rte_eth_global_cfg = Struct 1 False [(''cfg_type'', U32),
      (''cfg'', ty_rte_eth_global_cfg__bindgen_ty_1)]"

definition test_rte_eth_global_cfg :: layout_test where
  "test_rte_eth_global_cfg = \<lparr>asserted_size = 16, asserted_align = 8,
     asserted_offsets = [(''cfg_type'', 0), (''cfg'', 8)]\<rparr>"

definition ty_rte_eth_input_set_conf :: c_type where
  "ty_rte_eth_input_set_conf = Struct 1 False [(''flow_type'', U16), (''inset_size'', U16),
      (''field'', Arr U32 128), (''op'', U32)]"

definition test_rte_eth_input_set_conf :: layout_test where
  "test_rte_eth_input_set_conf = \<lparr>asserted_size = 520, asserted_align = 4,
     asserted_offsets = [(''flow_type'', 0), (''inset_size'', 2), (''field'', 4),
      (''op'', 516)]\<rparr>"

lemma layout_rte_eth_mac_filter [layout_simps]:
  "c_size ty_rte_eth_mac_filter = 16" "c_align ty_rte_eth_mac_filter = 4" "wf_type ty_rte_eth_mac_filter"
  "layout_test_passes ty_rte_eth_mac_filter test_rte_eth_mac_filter"
  by (simp_all add: ty_rte_eth_mac_filter_def test_rte_eth_mac_filter_def layout_simps layout_eval)

lemma layout_rte_eth_ethertype_filter [layout_simps]:
  "c_size ty_rte_eth_ethertype_filter = 12" "c_align ty_rte_eth_ethertype_filter = 2" "wf_type ty_rte_eth_ethertype_filter"
  "layout_test_passes ty_rte_eth_ethertype_filter test_rte_eth_ethertype_filter"
  by (simp_all add: ty_rte_eth_ethertype_filter_def test_rte_eth_ethertype_filter_def layout_simps layout_eval)

lemma layout_rte_eth_flex_filter [layout_simps]:
  "c_size ty_rte_eth_flex_filter = 150" "c_align ty_rte_eth_flex_filter = 2" "wf_type ty_rte_eth_flex_filter"
  "layout_test_passes ty_rte_eth_flex_filter test_rte_eth_flex_filter"
  by (simp_all add: ty_rte_eth_flex_filter_def test_rte_eth_flex_filter_def layout_simps layout_eval)

lemma layout_rte_eth_syn_filter [layout_simps]:
  "c_size ty_rte_eth_syn_filter = 4" "c_align ty_rte_eth_syn_filter = 2" "wf_type ty_rte_eth_syn_filter"
  "layout_test_passes ty_rte_eth_syn_filter test_rte_eth_syn_filter"
  by (simp_all add: ty_rte_eth_syn_filter_def test_rte_eth_syn_filter_def layout_simps layout_eval)

lemma layout_rte_eth_ntuple_filter [layout_simps]:
  "c_size ty_rte_eth_ntuple_filter = 36" "c_align ty_rte_eth_ntuple_filter = 4" "wf_type ty_rte_eth_ntuple_filter"
  "layout_test_passes ty_rte_eth_ntuple_filter test_rte_eth_ntuple_filter"
  by (simp_all add: ty_rte_eth_ntuple_filter_def test_rte_eth_ntuple_filter_def layout_simps layout_eval)

lemma layout_rte_eth_tunnel_filter_conf__bindgen_ty_1 [layout_simps]:
  "c_size ty_rte_eth_tunnel_filter_conf__bindgen_ty_1 = 16" "c_align ty_rte_eth_tunnel_filter_conf__bindgen_ty_1 = 4" "wf_type ty_rte_eth_tunnel_filter_conf__bindgen_ty_1"
  "layout_test_passes ty_rte_eth_tunnel_filter_conf__bindgen_ty_1 test_rte_eth_tunnel_filter_conf__bindgen_ty_1"
  by (simp_all add: ty_rte_eth_tunnel_filter_conf__bindgen_ty_1_def test_rte_eth_tunnel_filter_conf__bindgen_ty_1_def layout_simps layout_eval)

lemma layout_rte_eth_tunnel_filter_conf [layout_simps]:
  "c_size ty_rte_eth_tunnel_filter_conf = 52" "c_align ty_rte_eth_tunnel_filter_conf = 4" "wf_type ty_rte_eth_tunnel_filter_conf"
  "layout_test_passes ty_rte_eth_tunnel_filter_conf test_rte_eth_tunnel_filter_conf"
  by (simp_all add: ty_rte_eth_tunnel_filter_conf_def test_rte_eth_tunnel_filter_conf_def layout_simps layout_eval)

lemma layout_rte_eth_global_cfg__bindgen_ty_1 [layout_simps]:
  "c_size ty_rte_eth_global_cfg__bindgen_ty_1 = 8" "c_align ty_rte_eth_global_cfg__bindgen_ty_1 = 8" "wf_type ty_rte_eth_global_cfg__bindgen_ty_1"
  "layout_test_passes ty_rte_eth_global_cfg__bindgen_ty_1 test_rte_eth_global_cfg__bindgen_ty_1"
  by (simp_all add: ty_rte_eth_global_cfg__bindgen_ty_1_def test_rte_eth_global_cfg__bindgen_ty_1_def layout_simps layout_eval)

lemma layout_rte_eth_global_cfg [layout_simps]:
  "c_size ty_rte_eth_global_cfg = 16" "c_align ty_rte_eth_global_cfg = 8" "wf_type ty_rte_eth_global_cfg"
  "layout_test_passes ty_rte_eth_global_cfg test_rte_eth_global_cfg"
  by (simp_all add: ty_rte_eth_global_cfg_def test_rte_eth_global_cfg_def layout_simps layout_eval)

lemma layout_rte_eth_input_set_conf [layout_simps]:
  "c_size ty_rte_eth_input_set_conf = 520" "c_align ty_rte_eth_input_set_conf = 4" "wf_type ty_rte_eth_input_set_conf"
  "layout_test_passes ty_rte_eth_input_set_conf test_rte_eth_input_set_conf"
  by (simp_all add: ty_rte_eth_input_set_conf_def test_rte_eth_input_set_conf_def layout_simps layout_eval)

section \<open>Flow director and hash filters\<close>

text \<open>Flow director and hash filters.\<close>

definition ty_rte_eth_l2_flow :: c_type where
  "ty_rte_eth_l2_flow = Struct 1 False [(''ether_type'', U16)]"

definition test_rte_eth_l2_flow :: layout_test where
  "test_rte_eth_l2_flow = \<lparr>asserted_size = 2, asserted_align = 2,
     asserted_offsets = [(''ether_type'', 0)]\<rparr>"

definition ty_rte_eth_udpv4_flow :: c_type where
  "ty_rte_eth_udpv4_flow = Struct 1 False [(''ip'', ty_rte_eth_ipv4_flow), (''src_port'', U16),
      (''dst_port'', U16)]"

definition test_rte_eth_udpv4_flow :: layout_test where
  "test_rte_eth_udpv4_flow = \<lparr>asserted_size = 16, asserted_align = 4,
     asserted_offsets = [(''ip'', 0), (''src_port'', 12), (''dst_port'', 14)]\<rparr>"

definition ty_rte_eth_tcpv4_flow :: c_type where
  "ty_rte_eth_tcpv4_flow = Struct 1 False [(''ip'', ty_rte_eth_ipv4_flow), (''src_port'', U16),
      (''dst_port'', U16)]"

definition test_rte_eth_tcpv4_flow :: layout_test where
  "test_rte_eth_tcpv4_flow = \<lparr>asserted_size = 16, asserted_align = 4,
     asserted_offsets = [(''ip'', 0), (''src_port'', 12), (''dst_port'', 14)]\<rparr>"

definition ty_rte_eth_sctpv4_flow :: c_type where
  "ty_rte_eth_sctpv4_flow = Struct 1 False [(''ip'', ty_rte_eth_ipv4_flow), (''src_port'', U16),
      (''dst_port'', U16), (''verify_tag'', U32)]"

definition test_rte_eth_sctpv4_flow :: layout_test where
  "test_rte_eth_sctpv4_flow = \<lparr>asserted_size = 20, asserted_align = 4,
     asserted_offsets = [(''ip'', 0), (''src_port'', 12), (''dst_port'', 14),
      (''verify_tag'', 16)]\<rparr>"

definition ty_rte_eth_udpv6_flow :: c_type where
  "ty_rte_eth_udpv6_flow = Struct 1 False [(''ip'', ty_rte_eth_ipv6_flow), (''src_port'', U16),
      (''dst_port'', U16)]"

definition test_rte_eth_udpv6_flow :: layout_test where
  "test_rte_eth_udpv6_flow = \<lparr>asserted_size = 40, asserted_align = 4,
     asserted_offsets = [(''ip'', 0), (''src_port'', 36), (''dst_port'', 38)]\<rparr>"

definition ty_rte_eth_tcpv6_flow :: c_type where
  "ty_rte_eth_tcpv6_flow = Struct 1 False [(''ip'', ty_rte_eth_ipv6_flow), (''src_port'', U16),
      (''dst_port'', U16)]"

definition test_rte_eth_tcpv6_flow :: layout_test where
  "test_rte_eth_tcpv6_flow = \<lparr>asserted_size = 40, asserted_align = 4,
     asserted_offsets = [(''ip'', 0), (''src_port'', 36), (''dst_port'', 38)]\<rparr>"

definition ty_rte_eth_sctpv6_flow :: c_type where
  "ty_rte_eth_sctpv6_flow = Struct 1 False [(''ip'', ty_rte_eth_ipv6_flow), (''src_port'', U16),
      (''dst_port'', U16), (''verify_tag'', U32)]"

definition test_rte_eth_sctpv6_flow :: layout_test where
  "test_rte_eth_sctpv6_flow = \<lparr>asserted_size = 44, asserted_align = 4,
     asserted_offsets = [(''ip'', 0), (''src_port'', 36), (''dst_port'', 38),
      (''verify_tag'', 40)]\<rparr>"

definition ty_rte_eth_mac_vlan_flow :: c_type where
  "ty_rte_eth_mac_vlan_flow = Struct 1 False [(''mac_addr'', ty_rte_ether_addr)]"

definition test_rte_eth_mac_vlan_flow :: layout_test where
  "test_rte_eth_mac_vlan_flow = \<lparr>asserted_size = 6, asserted_align = 2,
     asserted_offsets = [(''mac_addr'', 0)]\<rparr>"

definition ty_rte_eth_tunnel_flow :: c_type where
  "ty_rte_eth_tunnel_flow = Struct 1 False [(''tunnel_type'', U32), (''tunnel_id'', U32),
      (''mac_addr'', ty_rte_ether_addr)]"

definition test_rte_eth_tunnel_flow :: layout_test where
  "test_rte_eth_tunnel_flow = \<lparr>asserted_size = 16, asserted_align = 4,
     asserted_offsets = [(''tunnel_type'', 0), (''tunnel_id'', 4), (''mac_addr'', 8)]\<rparr>"

definition ty_rte_eth_fdir_flow :: c_type where
  "ty_rte_eth_fdir_flow = Union 1 [(''l2_flow'', ty_rte_eth_l2_flow),
      (''udp4_flow'', ty_rte_eth_udpv4_flow), (''tcp4_flow'', ty_rte_eth_tcpv4_flow),
      (''sctp4_flow'', ty_rte_eth_sctpv4_flow), (''ip4_flow'', ty_rte_eth_ipv4_flow),
      (''udp6_flow'', ty_rte_eth_udpv6_flow), (''tcp6_flow'', ty_rte_eth_tcpv6_flow),
      (''sctp6_flow'', ty_rte_eth_sctpv6_flow), (''ipv6_flow'', ty_rte_eth_ipv6_flow),
      (''mac_vlan_flow'', ty_rte_eth_mac_vlan_flow), (''tunnel_flow'', ty_rte_eth_tunnel_flow),
      (''_bindgen_union_align'', Arr U32 11)]"

definition test_rte_eth_fdir_flow :: layout_test where
  "test_rte_eth_fdir_flow = \<lparr>asserted_size = 44, asserted_align = 4,
     asserted_offsets = [(''l2_flow'', 0), (''udp4_flow'', 0), (''tcp4_flow'', 0),
      (''sctp4_flow'', 0), (''ip4_flow'', 0), (''udp6_flow'', 0), (''tcp6_flow'', 0),
      (''sctp6_flow'', 0), (''ipv6_flow'', 0), (''mac_vlan_flow'', 0),
      (''tunnel_flow'', 0)]\<rparr>"

definition ty_rte_eth_fdir_flow_ext :: c_type where
  "ty_rte_eth_fdir_flow_ext = Struct 1 False [(''vlan_tci'', U16), (''flexbytes'', Arr U8 16),
      (''is_vf'', U8), (''dst_id'', U16)]"

definition test_rte_eth_fdir_flow_ext :: layout_test where
  "test_rte_eth_fdir_flow_ext = \<lparr>asserted_size = 22, asserted_align = 2,
     asserted_offsets = [(''vlan_tci'', 0), (''flexbytes'', 2), (''is_vf'', 18),
      (''dst_id'', 20)]\<rparr>"

definition ty_rte_eth_fdir_input :: c_type where
  "ty_rte_eth_fdir_input = Struct 1 False [(''flow_type'', U16),
      (''flow'', ty_rte_eth_fdir_flow), (''flow_ext'', ty_rte_eth_fdir_flow_ext)]"

definition test_rte_eth_fdir_input :: layout_test where
  "test_rte_eth_fdir_input = \<lparr>asserted_size = 72, asserted_align = 4,
     asserted_offsets = [(''flow_type'', 0), (''flow'', 4), (''flow_ext'', 48)]\<rparr>"

definition ty_rte_eth_fdir_action :: c_type where
  "ty_rte_eth_fdir_action = Struct 1 False [(''rx_queue'', U16), (''behavior'', U32),
      (''report_status'', U32), (''flex_off'', U8)]"

definition test_rte_eth_fdir_action :: layout_test where
  "test_rte_eth_fdir_action = \<lparr>asserted_size = 16, asserted_align = 4,
     asserted_offsets = [(''rx_queue'', 0), (''behavior'', 4), (''report_status'', 8),
      (''flex_off'', 12)]\<rparr>"

definition ty_rte_eth_fdir_filter :: c_type where
  "ty_rte_eth_fdir_filter = Struct 1 False [(''soft_id'', U32),
      (''input'', ty_rte_eth_fdir_input), (''action'', ty_rte_eth_fdir_action)]"

definition test_rte_eth_fdir_filter :: layout_test where
  "test_rte_eth_fdir_filter = \<lparr>asserted_size = 92, asserted_align = 4,
     asserted_offsets = [(''soft_id'', 0), (''input'', 4), (''action'', 76)]\<rparr>"

definition ty_rte_eth_fdir_info :: c_type where
  "ty_rte_eth_fdir_info = Struct 1 False [(''mode'', U32), (''mask'', ty_rte_eth_fdir_masks),
      (''flex_conf'', ty_rte_eth_fdir_flex_conf), (''guarant_spc'', U32), (''best_spc'', U32),
      (''flow_types_mask'', Arr U64 1), (''max_flexpayload'', U32), (''flex_payload_unit'', U32),
      (''max_flex_payload_segment_num'', U32), (''flex_payload_limit'', U16),
      (''flex_bitmask_unit'', U32), (''max_flex_bitmask_num'', U32)]"

definition test_rte_eth_fdir_info :: layout_test where
  "test_rte_eth_fdir_info = \<lparr>asserted_size = 840, asserted_align = 8,
     asserted_offsets = [(''mode'', 0), (''mask'', 4), (''flex_conf'', 72),
      (''guarant_spc'', 796), (''best_spc'', 800), (''flow_types_mask'', 808),
      (''max_flexpayload'', 816), (''flex_payload_unit'', 820),
      (''max_flex_payload_segment_num'', 824), (''flex_payload_limit'', 828),
      (''flex_bitmask_unit'', 832), (''max_flex_bitmask_num'', 836)]\<rparr>"

definition ty_rte_eth_fdir_stats :: c_type where
  "ty_rte_eth_fdir_stats = Struct 1 False [(''collision'', U32), (''free'', U32),
      (''maxhash'', U32), (''maxlen'', U32), (''add'', U64), (''remove'', U64), (''f_add'', U64),
      (''f_remove'', U64), (''guarant_cnt'', U32), (''best_cnt'', U32)]"

definition test_rte_eth_fdir_stats :: layout_test where
  "test_rte_eth_fdir_stats = \<lparr>asserted_size = 56, asserted_align = 8,
     asserted_offsets = [(''collision'', 0), (''free'', 4), (''maxhash'', 8), (''maxlen'', 12),
      (''add'', 16), (''remove'', 24), (''f_add'', 32), (''f_remove'', 40),
      (''guarant_cnt'', 48), (''best_cnt'', 52)]\<rparr>"

definition ty_rte_eth_fdir_filter_info__bindgen_ty_1 :: c_type where
  "ty_rte_eth_fdir_filter_info__bindgen_ty_1 = Union 1 [
      (''input_set_conf'', ty_rte_eth_input_set_conf), (''_bindgen_union_align'', Arr U32 130)]"

definition test_rte_eth_fdir_filter_info__bindgen_ty_1 :: layout_test where
  "test_rte_eth_fdir_filter_info__bindgen_ty_1 = \<lparr>asserted_size = 520, asserted_align = 4,
     asserted_offsets = [(''input_set_conf'', 0)]\<rparr>"

definition ty_rte_eth_fdir_filter_info :: c_type where
  "ty_rte_eth_fdir_filter_info = Struct 1 False [(''info_type'', U32),
      (''info'', ty_rte_eth_fdir_filter_info__bindgen_ty_1)]"

definition test_rte_eth_fdir_filter_info :: layout_test where
  "test_rte_eth_fdir_filter_info = \<lparr>asserted_size = 524, asserted_align = 4,
     asserted_offsets = [(''info_type'', 0), (''info'', 4)]\<rparr>"

definition ty_rte_eth_hash_global_conf :: c_type where
  "ty_rte_eth_hash_global_conf = Struct 1 False [(''hash_func'', U32),
      (''sym_hash_enable_mask'', Arr U64 1), (''valid_bit_mask'', Arr U64 1)]"

definition test_rte_eth_hash_global_conf :: layout_test where
  "test_rte_eth_hash_global_conf = \<lparr>asserted_size = 24, asserted_align = 8,
     asserted_offsets = [(''hash_func'', 0), (''sym_hash_enable_mask'', 8),
      (''valid_bit_mask'', 16)]\<rparr>"

definition ty_rte_eth_hash_filter_info__bindgen_ty_1 :: c_type where
  "ty_rte_eth_hash_filter_info__bindgen_ty_1 = Union 1 [(''enable'', U8),
      (''global_conf'', ty_rte_eth_hash_global_conf),
      (''input_set_conf'', ty_rte_eth_input_set_conf), (''_bindgen_union_align'', Arr U64 65)]"

definition test_rte_eth_hash_filter_info__bindgen_ty_1 :: layout_test where
  "test_rte_eth_hash_filter_info__bindgen_ty_1 = \<lparr>asserted_size = 520, asserted_align = 8,
     asserted_offsets = [(''enable'', 0), (''global_conf'', 0), (''input_set_conf'', 0)]\<rparr>"

definition ty_rte_eth_hash_filter_info :: c_type where
  "ty_rte_eth_hash_filter_info = Struct 1 False [(''info_type'', U32),
      (''info'', ty_rte_eth_hash_filter_info__bindgen_ty_1)]"

definition test_rte_eth_hash_filter_info :: layout_test where
  "test_rte_eth_hash_filter_info = \<lparr>asserted_size = 528, asserted_align = 8,
     asserted_offsets = [(''info_type'', 0), (''info'', 8)]\<rparr>"

lemma layout_rte_eth_l2_flow [layout_simps]:
  "c_size ty_rte_eth_l2_flow = 2" "c_align ty_rte_eth_l2_flow = 2" "wf_type ty_rte_eth_l2_flow"
  "layout_test_passes ty_rte_eth_l2_flow test_rte_eth_l2_flow"
  by (simp_all add: ty_rte_eth_l2_flow_def test_rte_eth_l2_flow_def layout_simps layout_eval)

lemma layout_rte_eth_udpv4_flow [layout_simps]:
  "c_size ty_rte_eth_udpv4_flow = 16" "c_align ty_rte_eth_udpv4_flow = 4" "wf_type ty_rte_eth_udpv4_flow"
  "layout_test_passes ty_rte_eth_udpv4_flow test_rte_eth_udpv4_flow"
  by (simp_all add: ty_rte_eth_udpv4_flow_def test_rte_eth_udpv4_flow_def layout_simps layout_eval)

lemma layout_rte_eth_tcpv4_flow [layout_simps]:
  "c_size ty_rte_eth_tcpv4_flow = 16" "c_align ty_rte_eth_tcpv4_flow = 4" "wf_type ty_rte_eth_tcpv4_flow"
  "layout_test_passes ty_rte_eth_tcpv4_flow test_rte_eth_tcpv4_flow"
  by (simp_all add: ty_rte_eth_tcpv4_flow_def test_rte_eth_tcpv4_flow_def layout_simps layout_eval)

lemma layout_rte_eth_sctpv4_flow [layout_simps]:
  "c_size ty_rte_eth_sctpv4_flow = 20" "c_align ty_rte_eth_sctpv4_flow = 4" "wf_type ty_rte_eth_sctpv4_flow"
  "layout_test_passes ty_rte_eth_sctpv4_flow test_rte_eth_sctpv4_flow"
  by (simp_all add: ty_rte_eth_sctpv4_flow_def test_rte_eth_sctpv4_flow_def layout_simps layout_eval)

lemma layout_rte_eth_udpv6_flow [layout_simps]:
  "c_size ty_rte_eth_udpv6_flow = 40" "c_align ty_rte_eth_udpv6_flow = 4" "wf_type ty_rte_eth_udpv6_flow"
  "layout_test_passes ty_rte_eth_udpv6_flow test_rte_eth_udpv6_flow"
  by (simp_all add: ty_rte_eth_udpv6_flow_def test_rte_eth_udpv6_flow_def layout_simps layout_eval)

lemma layout_rte_eth_tcpv6_flow [layout_simps]:
  "c_size ty_rte_eth_tcpv6_flow = 40" "c_align ty_rte_eth_tcpv6_flow = 4" "wf_type ty_rte_eth_tcpv6_flow"
  "layout_test_passes ty_rte_eth_tcpv6_flow test_rte_eth_tcpv6_flow"
  by (simp_all add: ty_rte_eth_tcpv6_flow_def test_rte_eth_tcpv6_flow_def layout_simps layout_eval)

lemma layout_rte_eth_sctpv6_flow [layout_simps]:
  "c_size ty_rte_eth_sctpv6_flow = 44" "c_align ty_rte_eth_sctpv6_flow = 4" "wf_type ty_rte_eth_sctpv6_flow"
  "layout_test_passes ty_rte_eth_sctpv6_flow test_rte_eth_sctpv6_flow"
  by (simp_all add: ty_rte_eth_sctpv6_flow_def test_rte_eth_sctpv6_flow_def layout_simps layout_eval)

lemma layout_rte_eth_mac_vlan_flow [layout_simps]:
  "c_size ty_rte_eth_mac_vlan_flow = 6" "c_align ty_rte_eth_mac_vlan_flow = 2" "wf_type ty_rte_eth_mac_vlan_flow"
  "layout_test_passes ty_rte_eth_mac_vlan_flow test_rte_eth_mac_vlan_flow"
  by (simp_all add: ty_rte_eth_mac_vlan_flow_def test_rte_eth_mac_vlan_flow_def layout_simps layout_eval)

lemma layout_rte_eth_tunnel_flow [layout_simps]:
  "c_size ty_rte_eth_tunnel_flow = 16" "c_align ty_rte_eth_tunnel_flow = 4" "wf_type ty_rte_eth_tunnel_flow"
  "layout_test_passes ty_rte_eth_tunnel_flow test_rte_eth_tunnel_flow"
  by (simp_all add: ty_rte_eth_tunnel_flow_def test_rte_eth_tunnel_flow_def layout_simps layout_eval)

lemma layout_rte_eth_fdir_flow [layout_simps]:
  "c_size ty_rte_eth_fdir_flow = 44" "c_align ty_rte_eth_fdir_flow = 4" "wf_type ty_rte_eth_fdir_flow"
  "layout_test_passes ty_rte_eth_fdir_flow test_rte_eth_fdir_flow"
  by (simp_all add: ty_rte_eth_fdir_flow_def test_rte_eth_fdir_flow_def layout_simps layout_eval)

lemma layout_rte_eth_fdir_flow_ext [layout_simps]:
  "c_size ty_rte_eth_fdir_flow_ext = 22" "c_align ty_rte_eth_fdir_flow_ext = 2" "wf_type ty_rte_eth_fdir_flow_ext"
  "layout_test_passes ty_rte_eth_fdir_flow_ext test_rte_eth_fdir_flow_ext"
  by (simp_all add: ty_rte_eth_fdir_flow_ext_def test_rte_eth_fdir_flow_ext_def layout_simps layout_eval)

lemma layout_rte_eth_fdir_input [layout_simps]:
  "c_size ty_rte_eth_fdir_input = 72" "c_align ty_rte_eth_fdir_input = 4" "wf_type ty_rte_eth_fdir_input"
  "layout_test_passes ty_rte_eth_fdir_input test_rte_eth_fdir_input"
  by (simp_all add: ty_rte_eth_fdir_input_def test_rte_eth_fdir_input_def layout_simps layout_eval)

lemma layout_rte_eth_fdir_action [layout_simps]:
  "c_size ty_rte_eth_fdir_action = 16" "c_align ty_rte_eth_fdir_action = 4" "wf_type ty_rte_eth_fdir_action"
  "layout_test_passes ty_rte_eth_fdir_action test_rte_eth_fdir_action"
  by (simp_all add: ty_rte_eth_fdir_action_def test_rte_eth_fdir_action_def layout_simps layout_eval)

lemma layout_rte_eth_fdir_filter [layout_simps]:
  "c_size ty_rte_eth_fdir_filter = 92" "c_align ty_rte_eth_fdir_filter = 4" "wf_type ty_rte_eth_fdir_filter"
  "layout_test_passes ty_rte_eth_fdir_filter test_rte_eth_fdir_filter"
  by (simp_all add: ty_rte_eth_fdir_filter_def test_rte_eth_fdir_filter_def layout_simps layout_eval)

lemma layout_rte_eth_fdir_info [layout_simps]:
  "c_size ty_rte_eth_fdir_info = 840" "c_align ty_rte_eth_fdir_info = 8" "wf_type ty_rte_eth_fdir_info"
  "layout_test_passes ty_rte_eth_fdir_info test_rte_eth_fdir_info"
  by (simp_all add: ty_rte_eth_fdir_info_def test_rte_eth_fdir_info_def layout_simps layout_eval)

lemma layout_rte_eth_fdir_stats [layout_simps]:
  "c_size ty_rte_eth_fdir_stats = 56" "c_align ty_rte_eth_fdir_stats = 8" "wf_type ty_rte_eth_fdir_stats"
  "layout_test_passes ty_rte_eth_fdir_stats test_rte_eth_fdir_stats"
  by (simp_all add: ty_rte_eth_fdir_stats_def test_rte_eth_fdir_stats_def layout_simps layout_eval)

lemma layout_rte_eth_fdir_filter_info__bindgen_ty_1 [layout_simps]:
  "c_size ty_rte_eth_fdir_filter_info__bindgen_ty_1 = 520" "c_align ty_rte_eth_fdir_filter_info__bindgen_ty_1 = 4" "wf_type ty_rte_eth_fdir_filter_info__bindgen_ty_1"
  "layout_test_passes ty_rte_eth_fdir_filter_info__bindgen_ty_1 test_rte_eth_fdir_filter_info__bindgen_ty_1"
  by (simp_all add: ty_rte_eth_fdir_filter_info__bindgen_ty_1_def test_rte_eth_fdir_filter_info__bindgen_ty_1_def layout_simps layout_eval)

lemma layout_rte_eth_fdir_filter_info [layout_simps]:
  "c_size ty_rte_eth_fdir_filter_info = 524" "c_align ty_rte_eth_fdir_filter_info = 4" "wf_type ty_rte_eth_fdir_filter_info"
  "layout_test_passes ty_rte_eth_fdir_filter_info test_rte_eth_fdir_filter_info"
  by (simp_all add: ty_rte_eth_fdir_filter_info_def test_rte_eth_fdir_filter_info_def layout_simps layout_eval)

lemma layout_rte_eth_hash_global_conf [layout_simps]:
  "c_size ty_rte_eth_hash_global_conf = 24" "c_align ty_rte_eth_hash_global_conf = 8" "wf_type ty_rte_eth_hash_global_conf"
  "layout_test_passes ty_rte_eth_hash_global_conf test_rte_eth_hash_global_conf"
  by (simp_all add: ty_rte_eth_hash_global_conf_def test_rte_eth_hash_global_conf_def layout_simps layout_eval)

lemma layout_rte_eth_hash_filter_info__bindgen_ty_1 [layout_simps]:
  "c_size ty_rte_eth_hash_filter_info__bindgen_ty_1 = 520" "c_align ty_rte_eth_hash_filter_info__bindgen_ty_1 = 8" "wf_type ty_rte_eth_hash_filter_info__bindgen_ty_1"
  "layout_test_passes ty_rte_eth_hash_filter_info__bindgen_ty_1 test_rte_eth_hash_filter_info__bindgen_ty_1"
  by (simp_all add: ty_rte_eth_hash_filter_info__bindgen_ty_1_def test_rte_eth_hash_filter_info__bindgen_ty_1_def layout_simps layout_eval)

lemma layout_rte_eth_hash_filter_info [layout_simps]:
  "c_size ty_rte_eth_hash_filter_info = 528" "c_align ty_rte_eth_hash_filter_info = 8" "wf_type ty_rte_eth_hash_filter_info"
  "layout_test_passes ty_rte_eth_hash_filter_info test_rte_eth_hash_filter_info"
  by (simp_all add: ty_rte_eth_hash_filter_info_def test_rte_eth_hash_filter_info_def layout_simps layout_eval)

section \<open>The tests\<close>

definition filter_layouts :: "(c_type \<times> layout_test) list" where
  "filter_layouts = [(ty_rte_eth_stats, test_rte_eth_stats),
      (ty_rte_eth_link, test_rte_eth_link), (ty_rte_vlan_filter_conf, test_rte_vlan_filter_conf),
      (ty_rte_eth_vlan_mirror, test_rte_eth_vlan_mirror),
      (ty_rte_eth_mirror_conf, test_rte_eth_mirror_conf),
      (ty_rte_eth_rss_reta_entry64, test_rte_eth_rss_reta_entry64),
      (ty_rte_eth_hairpin_cap, test_rte_eth_hairpin_cap),
      (ty_rte_eth_hairpin_peer, test_rte_eth_hairpin_peer),
      (ty_rte_eth_hairpin_conf, test_rte_eth_hairpin_conf),
      (ty_rte_eth_fc_conf, test_rte_eth_fc_conf), (ty_rte_eth_pfc_conf, test_rte_eth_pfc_conf),
      (ty_rte_eth_l2_tunnel_conf, test_rte_eth_l2_tunnel_conf),
      (ty_rte_eth_udp_tunnel, test_rte_eth_udp_tunnel), (ty_rte_eth_xstat, test_rte_eth_xstat),
      (ty_rte_eth_xstat_name, test_rte_eth_xstat_name),
      (ty_rte_eth_dcb_tc_queue_mapping__bindgen_ty_1, test_rte_eth_dcb_tc_queue_mapping__bindgen_ty_1),
      (ty_rte_eth_dcb_tc_queue_mapping__bindgen_ty_2, test_rte_eth_dcb_tc_queue_mapping__bindgen_ty_2),
      (ty_rte_eth_dcb_tc_queue_mapping, test_rte_eth_dcb_tc_queue_mapping),
      (ty_rte_eth_dcb_info, test_rte_eth_dcb_info),
      (ty_rte_eth_mac_filter, test_rte_eth_mac_filter),
      (ty_rte_eth_ethertype_filter, test_rte_eth_ethertype_filter),
      (ty_rte_eth_flex_filter, test_rte_eth_flex_filter),
      (ty_rte_eth_syn_filter, test_rte_eth_syn_filter),
      (ty_rte_eth_ntuple_filter, test_rte_eth_ntuple_filter),
      (ty_rte_eth_tunnel_filter_conf__bindgen_ty_1, test_rte_eth_tunnel_filter_conf__bindgen_ty_1),
      (ty_rte_eth_tunnel_filter_conf, test_rte_eth_tunnel_filter_conf),
      (ty_rte_eth_global_cfg__bindgen_ty_1, test_rte_eth_global_cfg__bindgen_ty_1),
      (ty_rte_eth_global_cfg, test_rte_eth_global_cfg),
      (ty_rte_eth_input_set_conf, test_rte_eth_input_set_conf),
      (ty_rte_eth_l2_flow, test_rte_eth_l2_flow),
      (ty_rte_eth_udpv4_flow, test_rte_eth_udpv4_flow),
      (ty_rte_eth_tcpv4_flow, test_rte_eth_tcpv4_flow),
      (ty_rte_eth_sctpv4_flow, test_rte_eth_sctpv4_flow),
      (ty_rte_eth_udpv6_flow, test_rte_eth_udpv6_flow),
      (ty_rte_eth_tcpv6_flow, test_rte_eth_tcpv6_flow),
      (ty_rte_eth_sctpv6_flow, test_rte_eth_sctpv6_flow),
      (ty_rte_eth_mac_vlan_flow, test_rte_eth_mac_vlan_flow),
      (ty_rte_eth_tunnel_flow, test_rte_eth_tunnel_flow),
      (ty_rte_eth_fdir_flow, test_rte_eth_fdir_flow),
      (ty_rte_eth_fdir_flow_ext, test_rte_eth_fdir_flow_ext),
      (ty_rte_eth_fdir_input, test_rte_eth_fdir_input),
      (ty_rte_eth_fdir_action, test_rte_eth_fdir_action),
      (ty_rte_eth_fdir_filter, test_rte_eth_fdir_filter),
      (ty_rte_eth_fdir_info, test_rte_eth_fdir_info),
      (ty_rte_eth_fdir_stats, test_rte_eth_fdir_stats),
      (ty_rte_eth_fdir_filter_info__bindgen_ty_1, test_rte_eth_fdir_filter_info__bindgen_ty_1),
      (ty_rte_eth_fdir_filter_info, test_rte_eth_fdir_filter_info),
      (ty_rte_eth_hash_global_conf, test_rte_eth_hash_global_conf),
      (ty_rte_eth_hash_filter_info__bindgen_ty_1, test_rte_eth_hash_filter_info__bindgen_ty_1),
      (ty_rte_eth_hash_filter_info, test_rte_eth_hash_filter_info)]"

lemma filter_layouts_pass: "list_all (\<lambda>(t, w). layout_test_passes t w \<and> wf_type t) filter_layouts"
  by (simp add: filter_layouts_def layout_simps)

end
