(* ===== verification/Bound_Ethdev.thy ===== *)
theory Bound_Ethdev
  imports Bound_Filters Bound_Types
begin

text \<open>
  The Ethernet devices themselves: their data, queues, callbacks and driver operations.
  They are translated as in \<open>Bound_Types\<close>.
\<close>

section \<open>Devices\<close>

text \<open>Devices, their data, callbacks and operations.\<close>

definition ty_rte_eth_dev_module_info :: c_type where
  "ty_rte_eth_dev_module_info = Struct 1 False [(''type_'', U32), (''eeprom_len'', U32)]"

definition test_rte_eth_dev_module_info :: layout_test where
  "test_rte_eth_dev_module_info = \<lparr>asserted_size = 8, asserted_align = 4,
     asserted_offsets = [(''type_'', 0), (''eeprom_len'', 4)]\<rparr>"

definition ty_rte_eth_rxq_info :: c_type where
  "ty_rte_eth_rxq_info = Struct 64 False [(''mp'', Pointer), (''conf'', ty_rte_eth_rxconf),
      (''scattered_rx'', U8), (''nb_desc'', U16)]"

definition test_rte_eth_rxq_info :: layout_test where
  "test_rte_eth_rxq_info = \<lparr>asserted_size = 64, asserted_align = 64,
     asserted_offsets = [(''mp'', 0), (''conf'', 8), (''scattered_rx'', 56),
      (''nb_desc'', 58)]\<rparr>"

definition ty_rte_eth_txq_info :: c_type where
  "ty_rte_eth_txq_info = Struct 64 False [(''conf'', ty_rte_eth_txconf), (''nb_desc'', U16)]"

definition test_rte_eth_txq_info :: layout_test where
  "test_rte_eth_txq_info = \<lparr>asserted_size = 64, asserted_align = 64,
     asserted_offsets = [(''conf'', 0), (''nb_desc'', 56)]\<rparr>"

definition ty_rte_eth_burst_mode :: c_type where
  "ty_rte_eth_burst_mode = Struct 1 False [(''flags'', U64), (''info'', Arr U8 1024)]"

definition test_rte_eth_burst_mode :: layout_test where
  "test_rte_eth_burst_mode = \<lparr>asserted_size = 1032, asserted_align = 8,
     asserted_offsets = [(''flags'', 0), (''info'', 8)]\<rparr>"

definition ty_rte_eth_dev_sriov :: c_type where
  "ty_rte_eth_dev_sriov = Struct 1 False [(''active'', U8), (''nb_q_per_pool'', U8),
      (''def_vmdq_idx'', U16), (''def_pool_q_idx'', U16)]"

definition test_rte_eth_dev_sriov :: layout_test where
  "test_rte_eth_dev_sriov = \<lparr>asserted_size = 6, asserted_align = 2,
     asserted_offsets = [(''active'', 0), (''nb_q_per_pool'', 1), (''def_vmdq_idx'', 2),
      (''def_pool_q_idx'', 4)]\<rparr>"

definition ty_rte_eth_dev_owner :: c_type where
  "ty_rte_eth_dev_owner = Struct 1 False [(''id'', U64), (''name'', Arr U8 64)]"

definition test_rte_eth_dev_owner :: layout_test where
  "test_rte_eth_dev_owner = \<lparr>asserted_size = 72, asserted_align = 8,
     asserted_offsets = [(''id'', 0), (''name'', 8)]\<rparr>"

definition ty_rte_eth_dev_tx_buffer :: c_type where
  "ty_rte_eth_dev_tx_buffer = Struct 1 False [(''error_callback'', Pointer),
      (''error_userdata'', Pointer), (''size'', U16), (''length'', U16),
      (''pkts'', Arr Pointer 0)]"

definition test_rte_eth_dev_tx_buffer :: layout_test where
  "test_rte_eth_dev_tx_buffer = \<lparr>asserted_size = 24, asserted_align = 8,
     asserted_offsets = []\<rparr>"

definition ty_rte_eth_event_ipsec_desc :: c_type where
  "ty_rte_eth_event_ipsec_desc = Struct 1 False [(''subtype'', U32), (''metadata'', U64)]"

definition test_rte_eth_event_ipsec_desc :: layout_test where
  "test_rte_eth_event_ipsec_desc = \<lparr>asserted_size = 16, asserted_align = 8,
     asserted_offsets = [(''subtype'', 0), (''metadata'', 8)]\<rparr>"

definition ty_rte_eth_dev_cb_list :: c_type where
  "ty_rte_eth_dev_cb_list = Struct 1 False [(''tqh_first'', Pointer), (''tqh_last'', Pointer)]"

definition test_rte_eth_dev_cb_list :: layout_test where
  "test_rte_eth_dev_cb_list = \<lparr>asserted_size = 16, asserted_align = 8,
     asserted_offsets = [(''tqh_first'', 0), (''tqh_last'', 8)]\<rparr>"

definition ty_eth_dev_ops :: c_type where
  "ty_eth_dev_ops = Struct 1 False [(''dev_configure'', Pointer), (''dev_start'', Pointer),
      (''dev_stop'', Pointer), (''dev_set_link_up'', Pointer), (''dev_set_link_down'', Pointer),
      (''dev_close'', Pointer), (''dev_reset'', Pointer), (''link_update'', Pointer),
      (''is_removed'', Pointer), (''promiscuous_enable'', Pointer),
      (''promiscuous_disable'', Pointer), (''allmulticast_enable'', Pointer),
      (''allmulticast_disable'', Pointer), (''mac_addr_remove'', Pointer),
      (''mac_addr_add'', Pointer), (''mac_addr_set'', Pointer), (''set_mc_addr_list'', Pointer),
      (''mtu_set'', Pointer), (''stats_get'', Pointer), (''stats_reset'', Pointer),
      (''xstats_get'', Pointer), (''xstats_reset'', Pointer), (''xstats_get_names'', Pointer),
      (''queue_stats_mapping_set'', Pointer), (''dev_infos_get'', Pointer),
      (''rxq_info_get'', Pointer), (''txq_info_get'', Pointer), (''rx_burst_mode_get'', Pointer),
      (''tx_burst_mode_get'', Pointer), (''fw_version_get'', Pointer),
      (''dev_supported_ptypes_get'', Pointer), (''dev_ptypes_set'', Pointer),
      (''vlan_filter_set'', Pointer), (''vlan_tpid_set'', Pointer),
      (''vlan_strip_queue_set'', Pointer), (''vlan_offload_set'', Pointer),
      (''vlan_pvid_set'', Pointer), (''rx_queue_start'', Pointer), (''rx_queue_stop'', Pointer),
      (''tx_queue_start'', Pointer), (''tx_queue_stop'', Pointer), (''rx_queue_setup'', Pointer),
      (''rx_queue_release'', Pointer), (''rx_queue_count'', Pointer),
      (''rx_descriptor_done'', Pointer), (''rx_descriptor_status'', Pointer),
      (''tx_descriptor_status'', Pointer), (''rx_queue_intr_enable'', Pointer),
      (''rx_queue_intr_disable'', Pointer), (''tx_queue_setup'', Pointer),
      (''tx_queue_release'', Pointer), (''tx_done_cleanup'', Pointer), (''dev_led_on'', Pointer),
      (''dev_led_off'', Pointer), (''flow_ctrl_get'', Pointer), (''flow_ctrl_set'', Pointer),
      (''priority_flow_ctrl_set'', Pointer), (''uc_hash_table_set'', Pointer),
      (''uc_all_hash_table_set'', Pointer), (''mirror_rule_set'', Pointer),
      (''mirror_rule_reset'', Pointer), (''udp_tunnel_port_add'', Pointer),
      (''udp_tunnel_port_del'', Pointer), (''l2_tunnel_eth_type_conf'', Pointer),
      (''l2_tunnel_offload_set'', Pointer), (''set_queue_rate_limit'', Pointer),
      (''rss_hash_update'', Pointer), (''rss_hash_conf_get'', Pointer),
      (''reta_update'', Pointer), (''reta_query'', Pointer), (''get_reg'', Pointer),
      (''get_eeprom_length'', Pointer), (''get_eeprom'', Pointer), (''set_eeprom'', Pointer),
      (''get_module_info'', Pointer), (''get_module_eeprom'', Pointer),
      (''filter_ctrl'', Pointer), (''get_dcb_info'', Pointer), (''timesync_enable'', Pointer),
      (''timesync_disable'', Pointer), (''timesync_read_rx_timestamp'', Pointer),
      (''timesync_read_tx_timestamp'', Pointer), (''timesync_adjust_time'', Pointer),
      (''timesync_read_time'', Pointer), (''timesync_write_time'', Pointer),
      (''read_clock'', Pointer), (''xstats_get_by_id'', Pointer),
      (''xstats_get_names_by_id'', Pointer), (''tm_ops_get'', Pointer),
      (''mtr_ops_get'', Pointer), (''pool_ops_supported'', Pointer),
      (''hairpin_cap_get'', Pointer), (''rx_hairpin_queue_setup'', Pointer),
      (''tx_hairpin_queue_setup'', Pointer)]"

definition test_eth_dev_ops :: layout_test where
  "test_eth_dev_ops = \<lparr>asserted_size = 752, asserted_align = 8,
     asserted_offsets = [(''dev_configure'', 0), (''dev_start'', 8), (''dev_stop'', 16),
      (''dev_set_link_up'', 24), (''dev_set_link_down'', 32), (''dev_close'', 40),
      (''dev_reset'', 48), (''link_update'', 56), (''is_removed'', 64),
      (''promiscuous_enable'', 72), (''promiscuous_disable'', 80), (''allmulticast_enable'', 88),
      (''allmulticast_disable'', 96), (''mac_addr_remove'', 104), (''mac_addr_add'', 112),
      (''mac_addr_set'', 120), (''set_mc_addr_list'', 128), (''mtu_set'', 136),
      (''stats_get'', 144), (''stats_reset'', 152), (''xstats_get'', 160),
      (''xstats_reset'', 168), (''xstats_get_names'', 176), (''queue_stats_mapping_set'', 184),
      (''dev_infos_get'', 192), (''rxq_info_get'', 200), (''txq_info_get'', 208),
      (''rx_burst_mode_get'', 216), (''tx_burst_mode_get'', 224), (''fw_version_get'', 232),
      (''dev_supported_ptypes_get'', 240), (''dev_ptypes_set'', 248), (''vlan_filter_set'', 256),
      (''vlan_tpid_set'', 264), (''vlan_strip_queue_set'', 272), (''vlan_offload_set'', 280),
      (''vlan_pvid_set'', 288), (''rx_queue_start'', 296), (''rx_queue_stop'', 304),
      (''tx_queue_start'', 312), (''tx_queue_stop'', 320), (''rx_queue_setup'', 328),
      (''rx_queue_release'', 336), (''rx_queue_count'', 344), (''rx_descriptor_done'', 352),
      (''rx_descriptor_status'', 360), (''tx_descriptor_status'', 368),
      (''rx_queue_intr_enable'', 376), (''rx_queue_intr_disable'', 384),
      (''tx_queue_setup'', 392), (''tx_queue_release'', 400), (''tx_done_cleanup'', 408),
      (''dev_led_on'', 416), (''dev_led_off'', 424), (''flow_ctrl_get'', 432),
      (''flow_ctrl_set'', 440), (''priority_flow_ctrl_set'', 448), (''uc_hash_table_set'', 456),
      (''uc_all_hash_table_set'', 464), (''mirror_rule_set'', 472), (''mirror_rule_reset'', 480),
      (''udp_tunnel_port_add'', 488), (''udp_tunnel_port_del'', 496),
      (''l2_tunnel_eth_type_conf'', 504), (''l2_tunnel_offload_set'', 512),
      (''set_queue_rate_limit'', 520), (''rss_hash_update'', 528), (''rss_hash_conf_get'', 536),
      (''reta_update'', 544), (''reta_query'', 552), (''get_reg'', 560),
      (''get_eeprom_length'', 568), (''get_eeprom'', 576), (''set_eeprom'', 584),
      (''get_module_info'', 592), (''get_module_eeprom'', 600), (''filter_ctrl'', 608),
      (''get_dcb_info'', 616), (''timesync_enable'', 624), (''timesync_disable'', 632),
      (''timesync_read_rx_timestamp'', 640), (''timesync_read_tx_timestamp'', 648),
      (''timesync_adjust_time'', 656), (''timesync_read_time'', 664),
      (''timesync_write_time'', 672), (''read_clock'', 680), (''xstats_get_by_id'', 688),
      (''xstats_get_names_by_id'', 696), (''tm_ops_get'', 704), (''mtr_ops_get'', 712),
      (''pool_ops_supported'', 720), (''hairpin_cap_get'', 728),
      (''rx_hairpin_queue_setup'', 736), (''tx_hairpin_queue_setup'', 744)]\<rparr>"

definition ty_rte_eth_rxtx_callback__bindgen_ty_1 :: c_type where
  "ty_rte_eth_rxtx_callback__bindgen_ty_1 = Union 1 [(''rx'', Pointer), (''tx'', Pointer),
      (''_bindgen_union_align'', U64)]"

definition test_rte_eth_rxtx_callback__bindgen_ty_1 :: layout_test where
  "test_rte_eth_rxtx_callback__bindgen_ty_1 = \<lparr>asserted_size = 8, asserted_align = 8,
     asserted_offsets = [(''rx'', 0), (''tx'', 0)]\<rparr>"

definition ty_rte_eth_rxtx_callback :: c_type where
  "ty_rte_eth_rxtx_callback = Struct 1 False [(''next'', Pointer),
      (''fn_'', ty_rte_eth_rxtx_callback__bindgen_ty_1), (''param'', Pointer)]"

definition test_rte_eth_rxtx_callback :: layout_test where
  "test_rte_eth_rxtx_callback = \<lparr>asserted_size = 24, asserted_align = 8,
     asserted_offsets = [(''next'', 0), (''fn_'', 8), (''param'', 16)]\<rparr>"

definition ty_rte_eth_dev :: c_type where
  "ty_rte_eth_dev = Struct 64 False [(''rx_pkt_burst'', Pointer), (''tx_pkt_burst'', Pointer),
      (''tx_pkt_prepare'', Pointer), (''data'', Pointer), (''process_private'', Pointer),
      (''dev_ops'', Pointer), (''device'', Pointer), (''intr_handle'', Pointer),
      (''link_intr_cbs'', ty_rte_eth_dev_cb_list), (''post_rx_burst_cbs'', Arr Pointer 1024),
      (''pre_tx_burst_cbs'', Arr Pointer 1024), (''state'', U32), (''security_ctx'', Pointer),
      (''reserved_64s'', Arr U64 4), (''reserved_ptrs'', Arr Pointer 4)]"

definition test_rte_eth_dev :: layout_test where
  "test_rte_eth_dev = \<lparr>asserted_size = 16576, asserted_align = 64,
     asserted_offsets = [(''rx_pkt_burst'', 0), (''tx_pkt_burst'', 8), (''tx_pkt_prepare'', 16),
      (''data'', 24), (''process_private'', 32), (''dev_ops'', 40), (''device'', 48),
      (''intr_handle'', 56), (''link_intr_cbs'', 64), (''post_rx_burst_cbs'', 80),
      (''pre_tx_burst_cbs'', 8272), (''state'', 16464), (''security_ctx'', 16472),
      (''reserved_64s'', 16480), (''reserved_ptrs'', 16512)]\<rparr>"

definition ty_rte_eth_dev_data :: c_type where
  "ty_rte_eth_dev_data = Struct 64 False [(''name'', Arr U8 64), (''rx_queues'', Pointer),
      (''tx_queues'', Pointer), (''nb_rx_queues'', U16), (''nb_tx_queues'', U16),
      (''sriov'', ty_rte_eth_dev_sriov), (''dev_private'', Pointer),
      (''dev_link'', ty_rte_eth_link), (''dev_conf'', ty_rte_eth_conf), (''mtu'', U16),
      (''min_rx_buf_size'', U32), (''rx_mbuf_alloc_failed'', U64), (''mac_addrs'', Pointer),
      (''mac_pool_sel'', Arr U64 128), (''hash_mac_addrs'', Pointer), (''port_id'', U16),
      (''_bitfield_1'', bitfield_unit 1 U8), (''rx_queue_state'', Arr U8 1024),
      (''tx_queue_state'', Arr U8 1024), (''dev_flags'', U32), (''kdrv'', U32),
      (''numa_node'', U32), (''vlan_filter_conf'', ty_rte_vlan_filter_conf),
      (''owner'', ty_rte_eth_dev_owner), (''representor_id'', U16),
      (''reserved_64s'', Arr U64 4), (''reserved_ptrs'', Arr Pointer 4)]"

definition test_rte_eth_dev_data :: layout_test where
  "test_rte_eth_dev_data = \<lparr>asserted_size = 6976, asserted_align = 64,
     asserted_offsets = [(''name'', 0), (''rx_queues'', 64), (''tx_queues'', 72),
      (''nb_rx_queues'', 80), (''nb_tx_queues'', 82), (''sriov'', 84), (''dev_private'', 96),
      (''dev_link'', 104), (''dev_conf'', 112), (''mtu'', 3192), (''min_rx_buf_size'', 3196),
      (''rx_mbuf_alloc_failed'', 3200), (''mac_addrs'', 3208), (''mac_pool_sel'', 3216),
      (''hash_mac_addrs'', 4240), (''port_id'', 4248), (''rx_queue_state'', 4251),
      (''tx_queue_state'', 5275), (''dev_flags'', 6300), (''kdrv'', 6304), (''numa_node'', 6308),
      (''vlan_filter_conf'', 6312), (''owner'', 6824), (''representor_id'', 6896),
      (''reserved_64s'', 6904), (''reserved_ptrs'', 6936)]\<rparr>"

lemma layout_rte_eth_dev_module_info [layout_simps]:
  "c_size ty_rte_eth_dev_module_info = 8" "c_align ty_rte_eth_dev_module_info = 4" "wf_type ty_rte_eth_dev_module_info"
  "layout_test_passes ty_rte_eth_dev_module_info test_rte_eth_dev_module_info"
  by (simp_all add: ty_rte_eth_dev_module_info_def test_rte_eth_dev_module_info_def layout_simps layout_eval)

lemma layout_rte_eth_rxq_info [layout_simps]:
  "c_size ty_rte_eth_rxq_info = 64" "c_align ty_rte_eth_rxq_info = 64" "wf_type ty_rte_eth_rxq_info"
  "layout_test_passes ty_rte_eth_rxq_info test_rte_eth_rxq_info"
  by (simp_all add: ty_rte_eth_rxq_info_def test_rte_eth_rxq_info_def layout_simps layout_eval)

lemma layout_rte_eth_txq_info [layout_simps]:
  "c_size ty_rte_eth_txq_info = 64" "c_align ty_rte_eth_txq_info = 64" "wf_type ty_rte_eth_txq_info"
  "layout_test_passes ty_rte_eth_txq_info test_rte_eth_txq_info"
  by (simp_all add: ty_rte_eth_txq_info_def test_rte_eth_txq_info_def layout_simps layout_eval)

lemma layout_rte_eth_burst_mode [layout_simps]:
  "c_size ty_rte_eth_burst_mode = 1032" "c_align ty_rte_eth_burst_mode = 8" "wf_type ty_rte_eth_burst_mode"
  "layout_test_passes ty_rte_eth_burst_mode test_rte_eth_burst_mode"
  by (simp_all add: ty_rte_eth_burst_mode_def test_rte_eth_burst_mode_def layout_simps layout_eval)

lemma layout_rte_eth_dev_sriov [layout_simps]:
  "c_size ty_rte_eth_dev_sriov = 6" "c_align ty_rte_eth_dev_sriov = 2" "wf_type ty_rte_eth_dev_sriov"
  "layout_test_passes ty_rte_eth_dev_sriov test_rte_eth_dev_sriov"
  by (simp_all add: ty_rte_eth_dev_sriov_def test_rte_eth_dev_sriov_def layout_simps layout_eval)

lemma layout_rte_eth_dev_owner [layout_simps]:
  "c_size ty_rte_eth_dev_owner = 72" "c_align ty_rte_eth_dev_owner = 8" "wf_type ty_rte_eth_dev_owner"
  "layout_test_passes ty_rte_eth_dev_owner test_rte_eth_dev_owner"
  by (simp_all add: ty_rte_eth_dev_owner_def test_rte_eth_dev_owner_def layout_simps layout_eval)

lemma layout_rte_eth_dev_tx_buffer [layout_simps]:
  "c_size ty_rte_eth_dev_tx_buffer = 24" "c_align ty_rte_eth_dev_tx_buffer = 8" "wf_type ty_rte_eth_dev_tx_buffer"
  "layout_test_passes ty_rte_eth_dev_tx_buffer test_rte_eth_dev_tx_buffer"
  by (simp_all add: ty_rte_eth_dev_tx_buffer_def test_rte_eth_dev_tx_buffer_def layout_simps layout_eval)

lemma layout_rte_eth_event_ipsec_desc [layout_simps]:
  "c_size ty_rte_eth_event_ipsec_desc = 16" "c_align ty_rte_eth_event_ipsec_desc = 8" "wf_type ty_rte_eth_event_ipsec_desc"
  "layout_test_passes ty_rte_eth_event_ipsec_desc test_rte_eth_event_ipsec_desc"
  by (simp_all add: ty_rte_eth_event_ipsec_desc_def test_rte_eth_event_ipsec_desc_def layout_simps layout_eval)

lemma layout_rte_eth_dev_cb_list [layout_simps]:
  "c_size ty_rte_eth_dev_cb_list = 16" "c_align ty_rte_eth_dev_cb_list = 8" "wf_type ty_rte_eth_dev_cb_list"
  "layout_test_passes ty_rte_eth_dev_cb_list test_rte_eth_dev_cb_list"
  by (simp_all add: ty_rte_eth_dev_cb_list_def test_rte_eth_dev_cb_list_def layout_simps layout_eval)

lemma size_eth_dev_ops [layout_simps]: "c_size ty_eth_dev_ops = 752" "c_align ty_eth_dev_ops = 8" "wf_type ty_eth_dev_ops"
  by (simp_all add: ty_eth_dev_ops_def layout_simps layout_eval)

lemma slots_eth_dev_ops: "map (\<lambda>(f, off, _). (f, off)) (field_slots ty_eth_dev_ops) = asserted_offsets test_eth_dev_ops"
  by (simp add: ty_eth_dev_ops_def test_eth_dev_ops_def layout_simps layout_eval)

lemma names_eth_dev_ops: "distinct (map fst (asserted_offsets test_eth_dev_ops))"
  by (simp add: test_eth_dev_ops_def)

lemma layout_eth_dev_ops [layout_simps]: "layout_test_passes ty_eth_dev_ops test_eth_dev_ops"
  by (rule layout_test_passes_all_slots [OF _ _ slots_eth_dev_ops names_eth_dev_ops])
    (simp_all add: layout_simps test_eth_dev_ops_def)

lemma layout_rte_eth_rxtx_callback__bindgen_ty_1 [layout_simps]:
  "c_size ty_rte_eth_rxtx_callback__bindgen_ty_1 = 8" "c_align ty_rte_eth_rxtx_callback__bindgen_ty_1 = 8" "wf_type ty_rte_eth_rxtx_callback__bindgen_ty_1"
  "layout_test_passes ty_rte_eth_rxtx_callback__bindgen_ty_1 test_rte_eth_rxtx_callback__bindgen_ty_1"
  by (simp_all add: ty_rte_eth_rxtx_callback__bindgen_ty_1_def test_rte_eth_rxtx_callback__bindgen_ty_1_def layout_simps layout_eval)

lemma layout_rte_eth_rxtx_callback [layout_simps]:
  "c_size ty_rte_eth_rxtx_callback = 24" "c_align ty_rte_eth_rxtx_callback = 8" "wf_type ty_rte_eth_rxtx_callback"
  "layout_test_passes ty_rte_eth_rxtx_callback test_rte_eth_rxtx_callback"
  by (simp_all add: ty_rte_eth_rxtx_callback_def test_rte_eth_rxtx_callback_def layout_simps layout_eval)

lemma layout_rte_eth_dev [layout_simps]:
  "c_size ty_rte_eth_dev = 16576" "c_align ty_rte_eth_dev = 64" "wf_type ty_rte_eth_dev"
  "layout_test_passes ty_rte_eth_dev test_rte_eth_dev"
  by (simp_all add: ty_rte_eth_dev_def test_rte_eth_dev_def layout_simps layout_eval)

lemma layout_rte_eth_dev_data [layout_simps]:
  "c_size ty_rte_eth_dev_data = 6976" "c_align ty_rte_eth_dev_data = 64" "wf_type ty_rte_eth_dev_data"
  "layout_test_passes ty_rte_eth_dev_data test_rte_eth_dev_data"
  by (simp_all add: ty_rte_eth_dev_data_def test_rte_eth_dev_data_def layout_simps layout_eval)

section \<open>The tests\<close>

definition ethdev_layouts :: "(c_type \<times> layout_test) list" where
  "ethdev_layouts = [(ty_rte_eth_dev_module_info, test_rte_eth_dev_module_info),
      (ty_rte_eth_rxq_info, test_rte_eth_rxq_info), (ty_rte_eth_txq_info, test_rte_eth_txq_info),
      (ty_rte_eth_burst_mode, test_rte_eth_burst_mode),
      (ty_rte_eth_dev_sriov, test_rte_eth_dev_sriov),
      (ty_rte_eth_dev_owner, test_rte_eth_dev_owner),
      (ty_rte_eth_dev_tx_buffer, test_rte_eth_dev_tx_buffer),
      (ty_rte_eth_event_ipsec_desc, test_rte_eth_event_ipsec_desc),
      (ty_rte_eth_dev_cb_list, test_rte_eth_dev_cb_list), (ty_eth_dev_ops, test_eth_dev_ops),
      (ty_rte_eth_rxtx_callback__bindgen_ty_1, test_rte_eth_rxtx_callback__bindgen_ty_1),
      (ty_rte_eth_rxtx_callback, test_rte_eth_rxtx_callback), (ty_rte_eth_dev, test_rte_eth_dev),
      (ty_rte_eth_dev_data, test_rte_eth_dev_data)]"

lemma ethdev_layouts_pass: "list_all (\<lambda>(t, w). layout_test_passes t w \<and> wf_type t) ethdev_layouts"
  by (simp add: ethdev_layouts_def layout_simps)

end
