(* ===== verification/Bound_All.thy ===== *)
theory Bound_All
  imports Bound_Types Bound_Eal Bound_Packets Bound_Flow Bound_Filters Bound_Ethdev
begin

text \<open>All layout tests of \<open>ffi/src/bindings_rustdoc.rs\<close> together.\<close>

definition all_layouts :: "(c_type \<times> layout_test) list" where
  "all_layouts =
     bound_layouts @ eal_layouts @ packet_layouts @ flow_layouts @ filter_layouts @ ethdev_layouts"

lemma layouts_pass_append:
  "list_all P xs \<Longrightarrow> list_all P ys \<Longrightarrow> list_all P (xs @ ys)"
  by simp

text \<open>
  C14: All 295 layout tests of the bindings pass: the layout \<open>repr(C)\<close> gives the declared
  struct or union has the size, the alignment and the field offsets that C has. The
  declarations are well-formed, so that the offsets are aligned and the fields separate.
\<close>

theorem all_layouts_pass:
  "list_all (\<lambda>(t, w). layout_test_passes t w \<and> wf_type t) all_layouts \<and> length all_layouts = 295"
proof
  show "list_all (\<lambda>(t, w). layout_test_passes t w \<and> wf_type t) all_layouts"
    unfolding all_layouts_def
    by (intro layouts_pass_append bound_layouts_pass eal_layouts_pass packet_layouts_pass
        flow_layouts_pass filter_layouts_pass ethdev_layouts_pass)
  show "length all_layouts = 295"
    by (simp add: all_layouts_def bound_layouts_def eal_layouts_def packet_layouts_def
        flow_layouts_def filter_layouts_def ethdev_layouts_def)
qed

end
