(* ===== verification/Bit_Tables.thy ===== *)
theory Bit_Tables
  imports Mbuf_Bits Bound_All
begin

text \<open>
  The bit fields of the bound types other than \<open>rte_mbuf\<close>, in \<open>ffi/src/bindings_rustdoc.rs\<close>. Each
  of the 19 \<open>impl\<close> blocks has, for every field, a getter and a setter, and a function
  \<open>new_bitfield_1\<close> that sets all fields in a unit of zeros. They differ in names, types, offsets and
  widths only: a block is the table of these, and the three kinds of function are defined once.
\<close>

section \<open>The generated functions\<close>

text \<open>A field: its name, the bits of the Rust type of its value, its offset and its width.\<close>

datatype bit_field = Bits (bf_name: string) (bf_type: nat) (bf_off: nat) (bf_width: nat)

definition bits_get :: "profile \<Rightarrow> bit_field \<Rightarrow> u8 list \<Rightarrow> ('e, u64) outcome" where
  "bits_get p f u =
     and_then (unit_get p u (bf_off f) (of_nat (bf_width f))) (\<lambda>v. Ok (take_bit (bf_type f) v))"

definition bits_set :: "profile \<Rightarrow> bit_field \<Rightarrow> u64 \<Rightarrow> u8 list \<Rightarrow> u8 list \<times> ('e, unit) outcome" where
  "bits_set p f val u = unit_set p (bf_off f) (of_nat (bf_width f)) (take_bit (bf_type f) val) u"

text \<open>\<open>new_bitfield_1\<close> for a unit of \<open>n\<close> bytes; its arguments come in the order of the fields.\<close>

definition field_range :: "bit_field \<Rightarrow> u64 \<Rightarrow> usize \<times> u8 \<times> u64" where
  "field_range f v = (bf_off f, of_nat (bf_width f), take_bit (bf_type f) v)"

definition bits_new :: "profile \<Rightarrow> nat \<Rightarrow> bit_field list \<Rightarrow> u64 list \<Rightarrow> u8 list \<times> ('e, unit) outcome" where
  "bits_new p n fs vals = set_all p (map2 field_range fs vals) (replicate n 0)"

section \<open>The tables\<close>

definition bits_rte_eth_link :: "bit_field list" where
  "bits_rte_eth_link = [Bits ''link_duplex'' 16 0 1, Bits ''link_autoneg'' 16 1 1,
      Bits ''link_status'' 16 2 1]"

definition bits_rte_eth_txmode :: "bit_field list" where
  "bits_rte_eth_txmode = [Bits ''hw_vlan_reject_tagged'' 8 0 1,
      Bits ''hw_vlan_reject_untagged'' 8 1 1, Bits ''hw_vlan_insert_pvid'' 8 2 1]"

definition bits_rte_higig2_frc :: "bit_field list" where
  "bits_rte_higig2_frc = [Bits ''ksop'' 32 0 8, Bits ''tc'' 32 8 4, Bits ''mcst'' 32 12 1,
      Bits ''resv'' 32 13 3, Bits ''dst_modid'' 32 16 8, Bits ''dst_pid'' 32 24 8,
      Bits ''src_modid'' 32 32 8, Bits ''src_pid'' 32 40 8, Bits ''lbid'' 32 48 8,
      Bits ''ppd_type'' 32 56 3, Bits ''resv1'' 32 59 3, Bits ''dp'' 32 62 2]"

definition bits_rte_higig2_ppt_type0 :: "bit_field list" where
  "bits_rte_higig2_ppt_type0 = [Bits ''mirror'' 32 0 1, Bits ''mirror_done'' 32 1 1,
      Bits ''mirror_only'' 32 2 1, Bits ''ingress_tagged'' 32 3 1, Bits ''dst_tgid'' 32 4 3,
      Bits ''dst_t'' 32 7 1, Bits ''vc_label2'' 32 8 4, Bits ''label_present'' 32 12 1,
      Bits ''l3'' 32 13 1, Bits ''res'' 32 14 2, Bits ''vc_label1'' 32 16 8,
      Bits ''vc_label0'' 32 24 8, Bits ''vid_high'' 32 32 8, Bits ''vid_low'' 32 40 8,
      Bits ''opc'' 32 48 3, Bits ''res1'' 32 51 2, Bits ''srce_t'' 32 53 1, Bits ''pf'' 32 54 2,
      Bits ''res2'' 32 56 5, Bits ''hdr_ext_length'' 32 61 3]"

definition bits_rte_higig2_ppt_type1 :: "bit_field list" where
  "bits_rte_higig2_ppt_type1 = [Bits ''opcode'' 16 0 3, Bits ''resv1'' 16 3 2,
      Bits ''src_t'' 16 5 1, Bits ''pfm'' 16 6 2, Bits ''resv2'' 16 8 5,
      Bits ''hdr_ext_len'' 16 13 3]"

definition bits_rte_flow_attr :: "bit_field list" where
  "bits_rte_flow_attr = [Bits ''ingress'' 32 0 1, Bits ''egress'' 32 1 1,
      Bits ''transfer'' 32 2 1, Bits ''reserved'' 32 3 29]"

definition bits_rte_flow_item_raw :: "bit_field list" where
  "bits_rte_flow_item_raw = [Bits ''relative'' 32 0 1, Bits ''search'' 32 1 1,
      Bits ''reserved'' 32 2 30]"

definition bits_rte_flow_item_nsh :: "bit_field list" where
  "bits_rte_flow_item_nsh = [Bits ''version'' 32 0 2, Bits ''oam_pkt'' 32 2 1,
      Bits ''reserved'' 32 3 1, Bits ''ttl'' 32 4 6, Bits ''length'' 32 10 6,
      Bits ''reserved1'' 32 16 4, Bits ''mdtype'' 32 20 4, Bits ''next_proto'' 32 24 8,
      Bits ''spi'' 32 32 24, Bits ''sindex'' 32 56 8]"

definition bits_rte_flow_item_igmp :: "bit_field list" where
  "bits_rte_flow_item_igmp = [Bits ''type_'' 32 0 8, Bits ''max_resp_time'' 32 8 8,
      Bits ''checksum'' 32 16 16]"

definition bits_rte_flow_item_ah :: "bit_field list" where
  "bits_rte_flow_item_ah = [Bits ''next_hdr'' 32 0 8, Bits ''payload_len'' 32 8 8,
      Bits ''reserved'' 32 16 16]"

definition bits_rte_flow_action_count :: "bit_field list" where
  "bits_rte_flow_action_count = [Bits ''shared'' 32 0 1, Bits ''reserved'' 32 1 31]"

definition bits_rte_flow_query_count :: "bit_field list" where
  "bits_rte_flow_query_count = [Bits ''reset'' 32 0 1, Bits ''hits_set'' 32 1 1,
      Bits ''bytes_set'' 32 2 1, Bits ''reserved'' 32 3 29]"

definition bits_rte_flow_action_vf :: "bit_field list" where
  "bits_rte_flow_action_vf = [Bits ''original'' 32 0 1, Bits ''reserved'' 32 1 31]"

definition bits_rte_flow_action_phy_port :: "bit_field list" where
  "bits_rte_flow_action_phy_port = [Bits ''original'' 32 0 1, Bits ''reserved'' 32 1 31]"

definition bits_rte_flow_action_port_id :: "bit_field list" where
  "bits_rte_flow_action_port_id = [Bits ''original'' 32 0 1, Bits ''reserved'' 32 1 31]"

definition bits_rte_intr_conf :: "bit_field list" where
  "bits_rte_intr_conf = [Bits ''lsc'' 32 0 1, Bits ''rxq'' 32 1 1, Bits ''rmv'' 32 2 1]"

definition bits_rte_eth_dev_data :: "bit_field list" where
  "bits_rte_eth_dev_data = [Bits ''promiscuous'' 8 0 1, Bits ''scattered_rx'' 8 1 1,
      Bits ''all_multicast'' 8 2 1, Bits ''dev_started'' 8 3 1, Bits ''lro'' 8 4 1]"

definition bits_rte_kni_device_info :: "bit_field list" where
  "bits_rte_kni_device_info = [Bits ''force_bind'' 8 0 1]"

definition bits_rte_kni_conf :: "bit_field list" where
  "bits_rte_kni_conf = [Bits ''force_bind'' 8 0 1]"

text \<open>Each table with the struct it belongs to and the bytes of its unit.\<close>

definition bit_tables :: "(c_type \<times> nat \<times> bit_field list) list" where
  "bit_tables = [(ty_rte_eth_link, 1, bits_rte_eth_link),
      (ty_rte_eth_txmode, 1, bits_rte_eth_txmode), (ty_rte_higig2_frc, 8, bits_rte_higig2_frc),
      (ty_rte_higig2_ppt_type0, 8, bits_rte_higig2_ppt_type0),
      (ty_rte_higig2_ppt_type1, 2, bits_rte_higig2_ppt_type1),
      (ty_rte_flow_attr, 4, bits_rte_flow_attr),
      (ty_rte_flow_item_raw, 4, bits_rte_flow_item_raw),
      (ty_rte_flow_item_nsh, 8, bits_rte_flow_item_nsh),
      (ty_rte_flow_item_igmp, 4, bits_rte_flow_item_igmp),
      (ty_rte_flow_item_ah, 4, bits_rte_flow_item_ah),
      (ty_rte_flow_action_count, 4, bits_rte_flow_action_count),
      (ty_rte_flow_query_count, 4, bits_rte_flow_query_count),
      (ty_rte_flow_action_vf, 4, bits_rte_flow_action_vf),
      (ty_rte_flow_action_phy_port, 4, bits_rte_flow_action_phy_port),
      (ty_rte_flow_action_port_id, 4, bits_rte_flow_action_port_id),
      (ty_rte_intr_conf, 1, bits_rte_intr_conf), (ty_rte_eth_dev_data, 1, bits_rte_eth_dev_data),
      (ty_rte_kni_device_info, 1, bits_rte_kni_device_info),
      (ty_rte_kni_conf, 1, bits_rte_kni_conf)]"

lemmas bit_table_defs =
  bits_rte_eth_link_def bits_rte_eth_txmode_def bits_rte_higig2_frc_def
  bits_rte_higig2_ppt_type0_def bits_rte_higig2_ppt_type1_def bits_rte_flow_attr_def
  bits_rte_flow_item_raw_def bits_rte_flow_item_nsh_def bits_rte_flow_item_igmp_def
  bits_rte_flow_item_ah_def bits_rte_flow_action_count_def bits_rte_flow_query_count_def
  bits_rte_flow_action_vf_def bits_rte_flow_action_phy_port_def bits_rte_flow_action_port_id_def
  bits_rte_intr_conf_def bits_rte_eth_dev_data_def bits_rte_kni_device_info_def
  bits_rte_kni_conf_def

section \<open>Tables that fit\<close>

fun fields_ok :: "nat \<Rightarrow> nat \<Rightarrow> bit_field list \<Rightarrow> bool" where
  "fields_ok n from [] \<longleftrightarrow> True"
| "fields_ok n from (Bits name ty off w # fs) \<longleftrightarrow>
     from \<le> off \<and> 0 < w \<and> w \<le> ty \<and> ty \<le> 64 \<and> off + w \<le> 8 * n \<and> fields_ok n (off + w) fs"

lemma fields_ok_member:
  "fields_ok n from fs \<Longrightarrow> f \<in> set fs \<Longrightarrow>
     from \<le> bf_off f \<and> 0 < bf_width f \<and> bf_width f \<le> bf_type f \<and> bf_type f \<le> 64
     \<and> bf_off f + bf_width f \<le> 8 * n"
proof (induction n "from" fs rule: fields_ok.induct)
  case (2 n "from" name ty off w fs)
  then show ?case by fastforce
qed simp

lemma fields_ok_apart:
  "fields_ok n from fs \<Longrightarrow> i < j \<Longrightarrow> j < length fs \<Longrightarrow> bf_off (fs ! i) + bf_width (fs ! i) \<le> bf_off (fs ! j)"
proof (induction n "from" fs arbitrary: i j rule: fields_ok.induct)
  case (2 n "from" name ty off w fs)
  then obtain j' where j: "j = Suc j'" by (cases j) auto
  show ?case
  proof (cases i)
    case 0
    have "fs ! j' \<in> set fs" using "2.prems"(3) j by simp
    moreover have "fields_ok n (off + w) fs" using "2.prems"(1) by simp
    ultimately show ?thesis using 0 j fields_ok_member by force
  next
    case (Suc i')
    then show ?thesis using "2.IH" [of i' j'] "2.prems" j by simp
  qed
qed simp

lemma unat_width [simp]: "w \<le> 64 \<Longrightarrow> unat (of_nat w :: u8) = w"
  by (simp add: unat_of_nat)

lemma fields_ranges:
  "fields_ok n from fs \<Longrightarrow> length vals = length fs \<Longrightarrow> ranges_ok n from (map2 field_range fs vals)"
proof (induction n "from" fs arbitrary: vals rule: fields_ok.induct)
  case (2 n "from" name ty off w fs)
  then obtain v vs where "vals = v # vs" by (cases vals) auto
  with 2 show ?case by (simp add: field_range_def)
qed simp

lemma ranges_ok_member: "ranges_ok n from rs \<Longrightarrow> (off, w, v) \<in> set rs \<Longrightarrow> from \<le> off"
proof (induction n "from" rs rule: ranges_ok.induct)
  case (2 n "from" off' w' v' rest)
  then show ?case by fastforce
qed simp

lemma packed_bit_member:
  "ranges_ok n from rs \<Longrightarrow> (off, w, v) \<in> set rs \<Longrightarrow> j < unat w \<Longrightarrow>
     in_ranges rs (off + j) \<and> packed_bit rs (off + j) = bit v j"
proof (induction n "from" rs rule: ranges_ok.induct)
  case (2 n "from" off' w' v' rest)
  show ?case
  proof (cases "(off, w, v) \<in> set rest")
    case True
    then have "off' + unat w' \<le> off" using "2.prems"(1) ranges_ok_member by simp blast
    then show ?thesis using 2 True by simp
  next
    case False
    then show ?thesis using "2.prems" by simp
  qed
qed simp

text \<open>After a sequence of stores in separate ranges, each range reads as what was stored there.\<close>

lemma set_all_get:
  assumes "ranges_ok (length u) from rs" "storage_ok u"
  shows "\<exists>u'. set_all p rs u = (u', (Ok () :: ('e, unit) outcome)) \<and> length u' = length u
    \<and> (\<forall>(off, w, v) \<in> set rs. 0 < unat w \<and> unat w \<le> 64 \<and> off + unat w \<le> 8 * length u \<longrightarrow>
         unit_get p u' off w = (Ok (take_bit (unat w) v) :: ('e, u64) outcome))"
proof -
  obtain u' where u': "set_all p rs u = (u', (Ok () :: ('e, unit) outcome))" "length u' = length u"
    "\<forall>k < 8 * length u. storage_bit u' k \<longleftrightarrow> (if in_ranges rs k then packed_bit rs k else storage_bit u k)"
    using set_all_spec [OF assms] by metis
  have ok: "storage_ok u'" using assms(2) u'(2) by (simp add: storage_ok_def)
  have "unit_get p u' off w = (Ok (take_bit (unat w) v) :: ('e, u64) outcome)"
    if m: "(off, w, v) \<in> set rs" "0 < unat w" "unat w \<le> 64" "off + unat w \<le> 8 * length u" for off w v
  proof (rule unit_get_eq [OF ok m(3,2)])
    show "off + unat w \<le> 8 * length u'" using m(4) u'(2) by simp
    show "bit (take_bit (unat w) v) j \<longleftrightarrow> j < unat w \<and> storage_bit u' (off + j)" for j
      using packed_bit_member [OF assms(1) m(1), of j] u'(3) [rule_format, of "off + j"] m(4)
      by (auto simp: bit_take_bit_iff)
  qed
  then show ?thesis using u'(1,2) by (intro exI [of _ u']) auto
qed

lemma take_width: "w \<le> ty \<Longrightarrow> take_bit ty (take_bit w v) = take_bit w v" "w \<le> ty \<Longrightarrow> take_bit w (take_bit ty v) = take_bit w v"
  for v :: u64
  by (simp_all add: min_def)

section \<open>Round trips\<close>

lemma bits_new_get:
  assumes "fields_ok n 0 fs" "n \<le> 8" "length vals = length fs"
  shows "\<exists>u. bits_new p n fs vals = (u, (Ok () :: ('e, unit) outcome)) \<and> length u = n
    \<and> (\<forall>i < length fs. bits_get p (fs ! i) u = (Ok (take_bit (bf_width (fs ! i)) (vals ! i)) :: ('e, u64) outcome))"
proof -
  have st: "storage_ok (replicate n 0)" using assms(2) by (simp add: storage_ok_def usize_limit_def)
  have len: "length (replicate n (0 :: u8)) = n" by simp
  let ?rs = "map2 field_range fs vals"
  have ranges: "ranges_ok (length (replicate n (0 :: u8))) 0 ?rs"
    unfolding len by (rule fields_ranges [OF assms(1,3)])
  obtain u where u: "set_all p ?rs (replicate n 0) = (u, (Ok () :: ('e, unit) outcome))" "length u = n"
    "\<forall>(off, w, v) \<in> set ?rs. 0 < unat w \<and> unat w \<le> 64 \<and> off + unat w \<le> 8 * n \<longrightarrow>
       unit_get p u off w = (Ok (take_bit (unat w) v) :: ('e, u64) outcome)"
    using set_all_get [OF ranges st, of p, where 'e = 'e] unfolding len by blast
  have get: "bits_get p (fs ! i) u = (Ok (take_bit (bf_width (fs ! i)) (vals ! i)) :: ('e, u64) outcome)"
    if i: "i < length fs" for i
  proof -
    let ?f = "fs ! i"
    have f: "0 < bf_width ?f" "bf_width ?f \<le> bf_type ?f" "bf_type ?f \<le> 64" "bf_off ?f + bf_width ?f \<le> 8 * n"
      using fields_ok_member [OF assms(1) nth_mem [OF i]] by auto
    have "?rs ! i = field_range ?f (vals ! i)" "i < length ?rs" using i assms(3) by simp_all
    then have "field_range ?f (vals ! i) \<in> set ?rs" by (metis nth_mem)
    from bspec [OF u(3) this] f
    have "unit_get p u (bf_off ?f) (of_nat (bf_width ?f))
        = (Ok (take_bit (bf_width ?f) (take_bit (bf_type ?f) (vals ! i))) :: ('e, u64) outcome)"
      by (simp add: field_range_def)
    then show ?thesis using f by (simp add: bits_get_def take_width)
  qed
  have "bits_new p n fs vals = (u, (Ok () :: ('e, unit) outcome))" using u(1) by (simp add: bits_new_def)
  then show ?thesis using u(2) get by blast
qed

lemma bits_set_get:
  assumes "fields_ok n 0 fs" "n \<le> 8" "length u = n" "i < length fs"
  shows "\<exists>u'. bits_set p (fs ! i) val u = (u', (Ok () :: ('e, unit) outcome)) \<and> length u' = n
    \<and> bits_get p (fs ! i) u' = (Ok (take_bit (bf_width (fs ! i)) val) :: ('e, u64) outcome)
    \<and> (\<forall>j < length fs. j \<noteq> i \<longrightarrow> bits_get p (fs ! j) u' = (bits_get p (fs ! j) u :: ('e, u64) outcome))"
proof -
  let ?f = "fs ! i"
  have st: "storage_ok u" using assms(2,3) by (simp add: storage_ok_def usize_limit_def)
  note f = fields_ok_member [OF assms(1) nth_mem [OF assms(4)]]
  obtain u' where u': "bits_set p ?f val u = (u', (Ok () :: ('e, unit) outcome))" "length u' = length u"
    "unit_get p u' (bf_off ?f) (of_nat (bf_width ?f))
       = (Ok (take_bit (bf_width ?f) (take_bit (bf_type ?f) val)) :: ('e, u64) outcome)"
    "\<And>off' w'. unat w' \<le> 64 \<Longrightarrow> 0 < unat w' \<Longrightarrow> off' + unat w' \<le> 8 * length u \<Longrightarrow>
       off' + unat w' \<le> bf_off ?f \<or> bf_off ?f + bf_width ?f \<le> off' \<Longrightarrow>
       unit_get p u' off' w' = (unit_get p u off' w' :: ('e, u64) outcome)"
    using unit_set_get [OF st, of "of_nat (bf_width ?f)" "bf_off ?f" p "take_bit (bf_type ?f) val", where 'e = 'e]
      f assms(3) unfolding bits_set_def by auto
  have "bits_get p (fs ! j) u' = (bits_get p (fs ! j) u :: ('e, u64) outcome)" if j: "j < length fs" "j \<noteq> i" for j
  proof -
    note g = fields_ok_member [OF assms(1) nth_mem [OF j(1)]]
    have "bf_off (fs ! j) + bf_width (fs ! j) \<le> bf_off ?f \<or> bf_off ?f + bf_width ?f \<le> bf_off (fs ! j)"
      using fields_ok_apart [OF assms(1)] j assms(4) by (metis linorder_neqE_nat)
    then show ?thesis using u'(4) [of "of_nat (bf_width (fs ! j))" "bf_off (fs ! j)"] g assms(3)
      by (simp add: bits_get_def)
  qed
  then show ?thesis using u'(1-3) f assms(3) by (intro exI [of _ u']) (auto simp: bits_get_def take_width)
qed

lemma bit_tables_ok: "list_all (\<lambda>(t, n, fs). n \<le> 8 \<and> fields_ok n 0 fs) bit_tables"
  by (simp add: bit_tables_def bit_table_defs)

text \<open>The bytes of the unit in which a struct keeps its bit fields.\<close>

definition unit_bytes :: "c_type \<Rightarrow> nat option" where
  "unit_bytes t =
     (case slot_at t [''_bitfield_1'', ''storage''] of
        Some (_, Arr e n) \<Rightarrow> if e = U8 then Some n else None
      | _ \<Rightarrow> None)"

lemma bit_tables_units: "list_all (\<lambda>(t, n, fs). unit_bytes t = Some n) bit_tables"
  by (simp add: bit_tables_def unit_bytes_def layout_simps layout_eval
      ty_rte_eth_link_def ty_rte_eth_txmode_def ty_rte_higig2_frc_def
      ty_rte_higig2_ppt_type0_def ty_rte_higig2_ppt_type1_def ty_rte_flow_attr_def
      ty_rte_flow_item_raw_def ty_rte_flow_item_nsh_def ty_rte_flow_item_igmp_def
      ty_rte_flow_item_ah_def ty_rte_flow_action_count_def ty_rte_flow_query_count_def
      ty_rte_flow_action_vf_def ty_rte_flow_action_phy_port_def
      ty_rte_flow_action_port_id_def ty_rte_intr_conf_def ty_rte_eth_dev_data_def
      ty_rte_kni_device_info_def ty_rte_kni_conf_def)

section \<open>Properties\<close>

text \<open>
  C15: The bit fields of the 19 structs behave as separate variables, in both profiles. The
  unit the struct holds has the bytes its table counts on; a unit built from values gives every
  value back, cut to the width of its field; a value that is set reads back, cut to the width,
  and every other field reads as before. No call panics.
\<close>

theorem bit_tables_roundtrip:
  assumes "(t, n, fs) \<in> set bit_tables" "length vals = length fs" "i < length fs" "length u = n"
  shows "unit_bytes t = Some n
    \<and> (\<exists>u0. bits_new p n fs vals = (u0, (Ok () :: ('e, unit) outcome)) \<and> length u0 = n
        \<and> (\<forall>k < length fs. bits_get p (fs ! k) u0
             = (Ok (take_bit (bf_width (fs ! k)) (vals ! k)) :: ('e, u64) outcome)))
    \<and> (\<exists>u'. bits_set p (fs ! i) val u = (u', (Ok () :: ('e, unit) outcome)) \<and> length u' = n
        \<and> bits_get p (fs ! i) u' = (Ok (take_bit (bf_width (fs ! i)) val) :: ('e, u64) outcome)
        \<and> (\<forall>j < length fs. j \<noteq> i \<longrightarrow> bits_get p (fs ! j) u' = (bits_get p (fs ! j) u :: ('e, u64) outcome)))"
proof -
  have ok: "fields_ok n 0 fs" "n \<le> 8" and unit: "unit_bytes t = Some n"
    using assms(1) bit_tables_ok bit_tables_units by (auto simp: list_all_iff)
  show ?thesis
    using unit bits_new_get [OF ok assms(2), of p, where 'e = 'e]
      bits_set_get [OF ok assms(4,3), of p val, where 'e = 'e] by blast
qed

text \<open>A link that is up in full duplex: negotiation is switched off, the other bits stay.\<close>

theorem bit_tables_roundtrip_witness:
  "\<exists>u'. bits_set Dev (Bits ''link_autoneg'' 16 1 1) 0 [7] = (u', (Ok () :: (unit, unit) outcome))
    \<and> bits_get Dev (Bits ''link_autoneg'' 16 1 1) u' = (Ok 0 :: (unit, u64) outcome)
    \<and> bits_get Dev (Bits ''link_status'' 16 2 1) u'
      = (bits_get Dev (Bits ''link_status'' 16 2 1) [7] :: (unit, u64) outcome)"
proof -
  have "(ty_rte_eth_link, 1, bits_rte_eth_link) \<in> set bit_tables" by (simp add: bit_tables_def)
  from bit_tables_roundtrip [OF this, of "[1, 1, 1]" 1 "[7]" Dev 0, where 'e = unit]
  show ?thesis by (auto simp: bits_rte_eth_link_def nth_Cons' All_less_Suc numeral_3_eq_3)
qed

end
