(* ===== verification/Core_List.thy ===== *)
theory Core_List
  imports Config "HOL-Library.Sublist"
begin

text \<open>
  The core list of \<open>RuntimeConfig::to_eal_args\<close> (\<open>engine/src/config.rs\<close>). The code builds it in a
  text and asks that text whether a core is in it already; \<open>named_cores\<close> is the reference: the cores
  that the list names, in order. The two agree because a number cannot reach over a separator.
\<close>

section \<open>Substrings\<close>

lemma take_is_prefix: "take (length xs) ys = xs \<longleftrightarrow> prefix xs ys"
  by (metis append_eq_conv_conj append_take_drop_id prefix_def)

lemma str_contains_sublist: "str_contains s pat \<longleftrightarrow> sublist pat s"
proof (induction s)
  case (Cons c cs)
  then show ?case by (simp add: take_is_prefix sublist_Cons_right del: length_Cons)
qed simp

text \<open>A text without characters of the separator lies inside one of the joined pieces.\<close>

lemma sublist_across:
  assumes "set pat \<inter> set sep = {}" "pat \<noteq> []" "sep \<noteq> []"
  shows "sublist pat (x @ sep @ y) \<longleftrightarrow> sublist pat x \<or> sublist pat y"
proof
  have no_sep: False if "sublist q sep" "q \<noteq> []" "set q \<subseteq> set pat" for q
    using that assms(1) set_mono_sublist [OF that(1)] by (cases q) auto
  assume "sublist pat (x @ sep @ y)"
  then consider "sublist pat x" | "sublist pat (sep @ y)"
    | xs1 xs2 where "pat = xs1 @ xs2" "suffix xs1 x" "prefix xs2 (sep @ y)"
    by (auto simp: sublist_append [of pat x])
  then show "sublist pat x \<or> sublist pat y"
  proof cases
    case 2
    then consider "sublist pat sep" | "sublist pat y"
      | ys1 ys2 where "pat = ys1 @ ys2" "suffix ys1 sep" "prefix ys2 y"
      by (auto simp: sublist_append [of pat sep])
    then show ?thesis
    proof cases
      case 1
      then show ?thesis using no_sep assms(2) by blast
    next
      case 3
      then have "ys1 = []" using no_sep [of ys1] suffix_imp_sublist by auto
      then show ?thesis using 3 prefix_imp_sublist by auto
    qed simp
  next
    case 3
    have "xs2 = []"
    proof (cases xs2)
      case (Cons c cs)
      then have "c \<in> set sep" using 3(3) assms(3) by (cases sep) (auto simp: prefix_def)
      then show ?thesis using Cons 3(1) assms(1) by auto
    qed simp
    then show ?thesis using 3 suffix_imp_sublist by auto
  qed simp
next
  assume "sublist pat x \<or> sublist pat y"
  then show "sublist pat (x @ sep @ y)"
    by (auto simp: sublist_append)
qed

lemma sublist_join:
  assumes "set pat \<inter> set sep = {}" "pat \<noteq> []" "sep \<noteq> []"
  shows "sublist pat (join sep xs) \<longleftrightarrow> (\<exists>x \<in> set xs. sublist pat x)"
proof (induction xs rule: rev_induct)
  case Nil
  then show ?case using assms(2) by simp
next
  case (snoc x xs)
  then show ?case by (auto simp: join_snoc sublist_across [OF assms])
qed

section \<open>The reference\<close>

abbreviation core_text :: "core_id \<Rightarrow> string" where
  "core_text c \<equiv> dec_string (core_raw c)"

text \<open>A core is named unless its number occurs inside the number of a core named before.\<close>

definition inside :: "core_id \<Rightarrow> core_id \<Rightarrow> bool" where
  "inside c d \<longleftrightarrow> sublist (core_text c) (core_text d)"

definition name_core :: "core_id \<Rightarrow> core_id list \<Rightarrow> core_id list" where
  "name_core c named = (if \<exists>d \<in> set named. inside c d then named else named @ [c])"

definition named_cores :: "core_id list \<Rightarrow> core_id list" where
  "named_cores cs = fold name_core cs []"

lemma inside_refl [simp]: "inside c c"
  by (simp add: inside_def)

lemma inside_trans: "inside a b \<Longrightarrow> inside b c \<Longrightarrow> inside a c"
  unfolding inside_def by (metis append_assoc sublist_def)

lemma named_cores_simps [simp]:
  "named_cores [] = []"
  "named_cores (cs @ [c]) = name_core c (named_cores cs)"
  by (simp_all add: named_cores_def)

lemma named_subset: "set (named_cores cs) \<subseteq> set cs"
  by (induction cs rule: rev_induct) (auto simp: name_core_def)

lemma named_distinct: "distinct (named_cores cs)"
  by (induction cs rule: rev_induct) (auto simp: name_core_def)

lemma named_covers: "c \<in> set cs \<Longrightarrow> \<exists>d \<in> set (named_cores cs). inside c d"
  by (induction cs rule: rev_induct) (auto simp: name_core_def)

lemma inside_named: "(\<exists>d \<in> set (named_cores cs). inside c d) \<longleftrightarrow> (\<exists>d \<in> set cs. inside c d)"
  using named_covers named_subset inside_trans by blast

text \<open>All cores are named exactly if no number occurs inside a different one before it.\<close>

lemma named_all_iff: "named_cores cs = firsts cs \<longleftrightarrow> sorted_wrt (\<lambda>d c. \<not> inside c d) (firsts cs)"
proof (induction cs rule: rev_induct)
  case (snoc c cs)
  show ?case
  proof (cases "c \<in> set cs")
    case True
    then have "\<exists>d \<in> set (named_cores cs). inside c d" by (rule named_covers)
    then show ?thesis using snoc True by (simp add: name_core_def)
  next
    case False
    then have "c \<notin> set (named_cores cs)" using named_subset by blast
    then show ?thesis using snoc False
      by (auto simp: name_core_def inside_named sorted_wrt_append)
  qed
qed (simp add: firsts_def)

section \<open>The code's list\<close>

lemma dec_string_no_sep: "set (dec_string n) \<inter> set '', '' = {}"
proof -
  have "to_digit 10 CHR '','' = None" "to_digit 10 CHR '' '' = None" by (simp_all add: to_digit_def Let_def)
  then have "digit_char d \<noteq> CHR '',''" "digit_char d \<noteq> CHR '' ''" if "d < 10" for d
    using to_digit_digit_char [of d 10] that by auto
  then show ?thesis using dec_string_chars [of _ n] by fastforce
qed

lemma dec_string_not_Nil [simp]: "dec_string n \<noteq> []"
  by (simp add: dec_string_def)

lemma add_core_names:
  "add_core c (join '', '' (map core_text named)) = join '', '' (map core_text (name_core c named))"
proof (cases c)
  case (CoreId n)
  have "str_contains (join '', '' (map core_text named)) (dec_string n) \<longleftrightarrow> (\<exists>d \<in> set named. inside c d)"
    using CoreId by (simp add: str_contains_sublist sublist_join [OF dec_string_no_sep] inside_def)
  moreover have "join '', '' (map core_text named) = [] \<longleftrightarrow> named = []"
    by (cases named rule: rev_cases) (simp_all add: join_snoc)
  ultimately show ?thesis using CoreId by (simp add: name_core_def join_snoc Let_def)
qed

lemma fold_add_core: "fold add_core cs [] = join '', '' (map core_text (named_cores cs))"
  by (induction cs rule: rev_induct) (simp_all add: add_core_names del: add_core.simps)

section \<open>Properties\<close>

text \<open>
  C38: The core list handed to DPDK names, separated by commas, each core of the ports once, in the order of
  their first occurrence, except those whose decimal number occurs inside the number of a core
  named before. So it names all cores of the ports exactly if no number occurs inside a different
  one before it: one-digit cores are all named, core 1 after core 10 is not.
\<close>

theorem core_list_names:
  "let cs = concat (map pc_cores ports); named = named_cores cs in
     core_list ports = join '', '' (map core_text named)
     \<and> distinct named \<and> set named \<subseteq> set cs
     \<and> list_all (\<lambda>c. list_ex (inside c) named) cs
     \<and> (named = firsts cs \<longleftrightarrow> sorted_wrt (\<lambda>d c. \<not> inside c d) (firsts cs))"
  using named_covers named_subset
  by (auto simp: core_list_fold fold_add_core named_distinct named_all_iff list_all_iff list_ex_iff Let_def)

text \<open>The two cases the text names, and an argument list in which a core is missing.\<close>

lemma one_digit_apart: "m < 10 \<Longrightarrow> n < 10 \<Longrightarrow> inside (CoreId m) (CoreId n) \<longleftrightarrow> m = n"
proof
  assume d: "m < 10" "n < 10" "inside (CoreId m) (CoreId n)"
  then have "digit_char m = digit_char n"
    by (simp add: inside_def dec_string_digit sublist_Cons_right)
  then show "m = n" by (rule digit_char_inj [OF d(1,2)])
qed simp

lemma core_1_after_10: "core_list [sample_port ''net_pcap0'' None [10], sample_port ''net_pcap1'' None [1]] = ''10''"
proof -
  have d: "dec_string 10 = ''10''" "dec_string (Suc 0) = ''1''" by code_simp+
  show ?thesis by (simp add: core_list_def sample_port_def d Let_def)
qed

end
