(* ===== verification/Macros.thy ===== *)
theory Macros
  imports Prelude
begin

text \<open>
  The logging macros of \<open>engine/src/macros.rs\<close>. Each has two rules: arguments that begin with
  \<open>cond:\<close> and an expression expand to an \<open>if\<close> around the macro on the other arguments, which may
  begin with \<open>cond:\<close> again; all others go to the macro of the package tracing, here the
  parameter \<open>emit\<close> on a state of any kind. (\<open>ensure!\<close> is in theory \<open>Prelude\<close>.)
\<close>

datatype log_level = Error_Level | Warn_Level | Info_Level | Debug_Level | Trace_Level

datatype 'a log_args = Cond_Args bool "'a log_args" | Plain_Args 'a

type_synonym ('a, 's) tracing = "log_level \<Rightarrow> 'a \<Rightarrow> 's \<Rightarrow> 's"

fun error_macro :: "('a, 's) tracing \<Rightarrow> 'a log_args \<Rightarrow> 's \<Rightarrow> 's" where
  "error_macro emit (Cond_Args c args) s = (if c then error_macro emit args s else s)"
| "error_macro emit (Plain_Args a) s = emit Error_Level a s"

fun warn_macro :: "('a, 's) tracing \<Rightarrow> 'a log_args \<Rightarrow> 's \<Rightarrow> 's" where
  "warn_macro emit (Cond_Args c args) s = (if c then warn_macro emit args s else s)"
| "warn_macro emit (Plain_Args a) s = emit Warn_Level a s"

fun info_macro :: "('a, 's) tracing \<Rightarrow> 'a log_args \<Rightarrow> 's \<Rightarrow> 's" where
  "info_macro emit (Cond_Args c args) s = (if c then info_macro emit args s else s)"
| "info_macro emit (Plain_Args a) s = emit Info_Level a s"

fun debug_macro :: "('a, 's) tracing \<Rightarrow> 'a log_args \<Rightarrow> 's \<Rightarrow> 's" where
  "debug_macro emit (Cond_Args c args) s = (if c then debug_macro emit args s else s)"
| "debug_macro emit (Plain_Args a) s = emit Debug_Level a s"

fun trace_macro :: "('a, 's) tracing \<Rightarrow> 'a log_args \<Rightarrow> 's \<Rightarrow> 's" where
  "trace_macro emit (Cond_Args c args) s = (if c then trace_macro emit args s else s)"
| "trace_macro emit (Plain_Args a) s = emit Trace_Level a s"

section \<open>What they log\<close>

fun conditions :: "'a log_args \<Rightarrow> bool list" where
  "conditions (Cond_Args c args) = c # conditions args"
| "conditions (Plain_Args a) = []"

fun message_of :: "'a log_args \<Rightarrow> 'a" where
  "message_of (Cond_Args c args) = message_of args"
| "message_of (Plain_Args a) = a"

text \<open>
  A macro emits its message once, at its own level, if all its conditions hold, and otherwise
  does nothing.
\<close>

lemma log_macros:
  "error_macro emit args s = (if list_all id (conditions args) then emit Error_Level (message_of args) s else s)"
  "warn_macro emit args s = (if list_all id (conditions args) then emit Warn_Level (message_of args) s else s)"
  "info_macro emit args s = (if list_all id (conditions args) then emit Info_Level (message_of args) s else s)"
  "debug_macro emit args s = (if list_all id (conditions args) then emit Debug_Level (message_of args) s else s)"
  "trace_macro emit args s = (if list_all id (conditions args) then emit Trace_Level (message_of args) s else s)"
  by (induction args) auto

end
