(* ===== verification/Bound_Default.thy ===== *)
theory Bound_Default
  imports Bound_All Memory_Image
begin

text \<open>
  The \<open>Default\<close> impls of \<open>ffi/src/bindings_rustdoc.rs\<close>: each gives \<open>mem::zeroed()\<close>, as many zero
  bytes as the type has. \<open>default_X\<close> is the impl for \<open>X\<close>. Zero is a valid value of every field, as
  enumerations are integers and function pointers are \<open>Option\<close>s.
\<close>

section \<open>The types the engine works on\<close>

definition default_rte_memzone__bindgen_ty_1 :: "u8 list" where
  "default_rte_memzone__bindgen_ty_1 = zeroed ty_rte_memzone__bindgen_ty_1"
definition default_rte_memzone__bindgen_ty_2 :: "u8 list" where
  "default_rte_memzone__bindgen_ty_2 = zeroed ty_rte_memzone__bindgen_ty_2"
definition default_rte_memzone :: "u8 list" where "default_rte_memzone = zeroed ty_rte_memzone"
definition default_rte_ring :: "u8 list" where "default_rte_ring = zeroed ty_rte_ring"
definition default_rte_mempool_objhdr_list :: "u8 list" where
  "default_rte_mempool_objhdr_list = zeroed ty_rte_mempool_objhdr_list"
definition default_rte_mempool_memhdr_list :: "u8 list" where
  "default_rte_mempool_memhdr_list = zeroed ty_rte_mempool_memhdr_list"
definition default_rte_mempool__bindgen_ty_1 :: "u8 list" where
  "default_rte_mempool__bindgen_ty_1 = zeroed ty_rte_mempool__bindgen_ty_1"
definition default_rte_mempool :: "u8 list" where "default_rte_mempool = zeroed ty_rte_mempool"
definition default_rte_mbuf__bindgen_ty_1 :: "u8 list" where
  "default_rte_mbuf__bindgen_ty_1 = zeroed ty_rte_mbuf__bindgen_ty_1"
definition default_rte_mbuf__bindgen_ty_2 :: "u8 list" where
  "default_rte_mbuf__bindgen_ty_2 = zeroed ty_rte_mbuf__bindgen_ty_2"
definition default_rte_mbuf__bindgen_ty_3__bindgen_ty_1__bindgen_ty_1 :: "u8 list" where
  "default_rte_mbuf__bindgen_ty_3__bindgen_ty_1__bindgen_ty_1 = zeroed ty_rte_mbuf__bindgen_ty_3__bindgen_ty_1__bindgen_ty_1"
definition default_rte_mbuf__bindgen_ty_3__bindgen_ty_1 :: "u8 list" where
  "default_rte_mbuf__bindgen_ty_3__bindgen_ty_1 = zeroed ty_rte_mbuf__bindgen_ty_3__bindgen_ty_1"
definition default_rte_mbuf__bindgen_ty_3 :: "u8 list" where
  "default_rte_mbuf__bindgen_ty_3 = zeroed ty_rte_mbuf__bindgen_ty_3"
definition default_rte_mbuf__bindgen_ty_4__bindgen_ty_1__bindgen_ty_1__bindgen_ty_1 :: "u8 list" where
  "default_rte_mbuf__bindgen_ty_4__bindgen_ty_1__bindgen_ty_1__bindgen_ty_1 = zeroed ty_rte_mbuf__bindgen_ty_4__bindgen_ty_1__bindgen_ty_1__bindgen_ty_1"
definition default_rte_mbuf__bindgen_ty_4__bindgen_ty_1__bindgen_ty_1 :: "u8 list" where
  "default_rte_mbuf__bindgen_ty_4__bindgen_ty_1__bindgen_ty_1 = zeroed ty_rte_mbuf__bindgen_ty_4__bindgen_ty_1__bindgen_ty_1"
definition default_rte_mbuf__bindgen_ty_4__bindgen_ty_1 :: "u8 list" where
  "default_rte_mbuf__bindgen_ty_4__bindgen_ty_1 = zeroed ty_rte_mbuf__bindgen_ty_4__bindgen_ty_1"
definition default_rte_mbuf__bindgen_ty_4 :: "u8 list" where
  "default_rte_mbuf__bindgen_ty_4 = zeroed ty_rte_mbuf__bindgen_ty_4"
definition default_rte_mbuf__bindgen_ty_5 :: "u8 list" where
  "default_rte_mbuf__bindgen_ty_5 = zeroed ty_rte_mbuf__bindgen_ty_5"
definition default_rte_mbuf__bindgen_ty_6 :: "u8 list" where
  "default_rte_mbuf__bindgen_ty_6 = zeroed ty_rte_mbuf__bindgen_ty_6"
definition default_rte_mbuf :: "u8 list" where "default_rte_mbuf = zeroed ty_rte_mbuf"
definition default_rte_eth_rxmode :: "u8 list" where
  "default_rte_eth_rxmode = zeroed ty_rte_eth_rxmode"
definition default_rte_eth_rss_conf :: "u8 list" where
  "default_rte_eth_rss_conf = zeroed ty_rte_eth_rss_conf"
definition default_rte_eth_dcb_rx_conf :: "u8 list" where
  "default_rte_eth_dcb_rx_conf = zeroed ty_rte_eth_dcb_rx_conf"
definition default_rte_eth_vmdq_dcb_tx_conf :: "u8 list" where
  "default_rte_eth_vmdq_dcb_tx_conf = zeroed ty_rte_eth_vmdq_dcb_tx_conf"
definition default_rte_eth_dcb_tx_conf :: "u8 list" where
  "default_rte_eth_dcb_tx_conf = zeroed ty_rte_eth_dcb_tx_conf"
definition default_rte_eth_vmdq_tx_conf :: "u8 list" where
  "default_rte_eth_vmdq_tx_conf = zeroed ty_rte_eth_vmdq_tx_conf"
definition default_rte_eth_vmdq_dcb_conf :: "u8 list" where
  "default_rte_eth_vmdq_dcb_conf = zeroed ty_rte_eth_vmdq_dcb_conf"
definition default_rte_eth_vmdq_rx_conf :: "u8 list" where
  "default_rte_eth_vmdq_rx_conf = zeroed ty_rte_eth_vmdq_rx_conf"
definition default_rte_eth_txmode :: "u8 list" where
  "default_rte_eth_txmode = zeroed ty_rte_eth_txmode"
definition default_rte_eth_rxconf :: "u8 list" where
  "default_rte_eth_rxconf = zeroed ty_rte_eth_rxconf"
definition default_rte_eth_txconf :: "u8 list" where
  "default_rte_eth_txconf = zeroed ty_rte_eth_txconf"
definition default_rte_eth_flex_payload_cfg :: "u8 list" where
  "default_rte_eth_flex_payload_cfg = zeroed ty_rte_eth_flex_payload_cfg"
definition default_rte_eth_fdir_flex_conf :: "u8 list" where
  "default_rte_eth_fdir_flex_conf = zeroed ty_rte_eth_fdir_flex_conf"
definition default_rte_fdir_conf :: "u8 list" where
  "default_rte_fdir_conf = zeroed ty_rte_fdir_conf"
definition default_rte_eth_conf__bindgen_ty_1 :: "u8 list" where
  "default_rte_eth_conf__bindgen_ty_1 = zeroed ty_rte_eth_conf__bindgen_ty_1"
definition default_rte_eth_conf__bindgen_ty_2 :: "u8 list" where
  "default_rte_eth_conf__bindgen_ty_2 = zeroed ty_rte_eth_conf__bindgen_ty_2"
definition default_rte_eth_conf :: "u8 list" where "default_rte_eth_conf = zeroed ty_rte_eth_conf"
definition default_rte_eth_switch_info :: "u8 list" where
  "default_rte_eth_switch_info = zeroed ty_rte_eth_switch_info"
definition default_rte_eth_dev_info :: "u8 list" where
  "default_rte_eth_dev_info = zeroed ty_rte_eth_dev_info"

definition types_defaults :: "(c_type \<times> u8 list) list" where
  "types_defaults = [(ty_rte_memzone__bindgen_ty_1, default_rte_memzone__bindgen_ty_1),
      (ty_rte_memzone__bindgen_ty_2, default_rte_memzone__bindgen_ty_2),
      (ty_rte_memzone, default_rte_memzone), (ty_rte_ring, default_rte_ring),
      (ty_rte_mempool_objhdr_list, default_rte_mempool_objhdr_list),
      (ty_rte_mempool_memhdr_list, default_rte_mempool_memhdr_list),
      (ty_rte_mempool__bindgen_ty_1, default_rte_mempool__bindgen_ty_1),
      (ty_rte_mempool, default_rte_mempool),
      (ty_rte_mbuf__bindgen_ty_1, default_rte_mbuf__bindgen_ty_1),
      (ty_rte_mbuf__bindgen_ty_2, default_rte_mbuf__bindgen_ty_2),
      (ty_rte_mbuf__bindgen_ty_3__bindgen_ty_1__bindgen_ty_1, default_rte_mbuf__bindgen_ty_3__bindgen_ty_1__bindgen_ty_1),
      (ty_rte_mbuf__bindgen_ty_3__bindgen_ty_1, default_rte_mbuf__bindgen_ty_3__bindgen_ty_1),
      (ty_rte_mbuf__bindgen_ty_3, default_rte_mbuf__bindgen_ty_3),
      (ty_rte_mbuf__bindgen_ty_4__bindgen_ty_1__bindgen_ty_1__bindgen_ty_1, default_rte_mbuf__bindgen_ty_4__bindgen_ty_1__bindgen_ty_1__bindgen_ty_1),
      (ty_rte_mbuf__bindgen_ty_4__bindgen_ty_1__bindgen_ty_1, default_rte_mbuf__bindgen_ty_4__bindgen_ty_1__bindgen_ty_1),
      (ty_rte_mbuf__bindgen_ty_4__bindgen_ty_1, default_rte_mbuf__bindgen_ty_4__bindgen_ty_1),
      (ty_rte_mbuf__bindgen_ty_4, default_rte_mbuf__bindgen_ty_4),
      (ty_rte_mbuf__bindgen_ty_5, default_rte_mbuf__bindgen_ty_5),
      (ty_rte_mbuf__bindgen_ty_6, default_rte_mbuf__bindgen_ty_6),
      (ty_rte_mbuf, default_rte_mbuf), (ty_rte_eth_rxmode, default_rte_eth_rxmode),
      (ty_rte_eth_rss_conf, default_rte_eth_rss_conf),
      (ty_rte_eth_dcb_rx_conf, default_rte_eth_dcb_rx_conf),
      (ty_rte_eth_vmdq_dcb_tx_conf, default_rte_eth_vmdq_dcb_tx_conf),
      (ty_rte_eth_dcb_tx_conf, default_rte_eth_dcb_tx_conf),
      (ty_rte_eth_vmdq_tx_conf, default_rte_eth_vmdq_tx_conf),
      (ty_rte_eth_vmdq_dcb_conf, default_rte_eth_vmdq_dcb_conf),
      (ty_rte_eth_vmdq_rx_conf, default_rte_eth_vmdq_rx_conf),
      (ty_rte_eth_txmode, default_rte_eth_txmode), (ty_rte_eth_rxconf, default_rte_eth_rxconf),
      (ty_rte_eth_txconf, default_rte_eth_txconf),
      (ty_rte_eth_flex_payload_cfg, default_rte_eth_flex_payload_cfg),
      (ty_rte_eth_fdir_flex_conf, default_rte_eth_fdir_flex_conf),
      (ty_rte_fdir_conf, default_rte_fdir_conf),
      (ty_rte_eth_conf__bindgen_ty_1, default_rte_eth_conf__bindgen_ty_1),
      (ty_rte_eth_conf__bindgen_ty_2, default_rte_eth_conf__bindgen_ty_2),
      (ty_rte_eth_conf, default_rte_eth_conf),
      (ty_rte_eth_switch_info, default_rte_eth_switch_info),
      (ty_rte_eth_dev_info, default_rte_eth_dev_info)]"

lemma types_defaults_zeroed: "list_all (\<lambda>(t, img). wf_type t \<and> img = zeroed t) types_defaults"
  by (simp add: types_defaults_def layout_simps
      default_rte_memzone__bindgen_ty_1_def default_rte_memzone__bindgen_ty_2_def
      default_rte_memzone_def default_rte_ring_def default_rte_mempool_objhdr_list_def
      default_rte_mempool_memhdr_list_def default_rte_mempool__bindgen_ty_1_def
      default_rte_mempool_def default_rte_mbuf__bindgen_ty_1_def
      default_rte_mbuf__bindgen_ty_2_def
      default_rte_mbuf__bindgen_ty_3__bindgen_ty_1__bindgen_ty_1_def
      default_rte_mbuf__bindgen_ty_3__bindgen_ty_1_def default_rte_mbuf__bindgen_ty_3_def
      default_rte_mbuf__bindgen_ty_4__bindgen_ty_1__bindgen_ty_1__bindgen_ty_1_def
      default_rte_mbuf__bindgen_ty_4__bindgen_ty_1__bindgen_ty_1_def
      default_rte_mbuf__bindgen_ty_4__bindgen_ty_1_def default_rte_mbuf__bindgen_ty_4_def
      default_rte_mbuf__bindgen_ty_5_def default_rte_mbuf__bindgen_ty_6_def
      default_rte_mbuf_def default_rte_eth_rxmode_def default_rte_eth_rss_conf_def
      default_rte_eth_dcb_rx_conf_def default_rte_eth_vmdq_dcb_tx_conf_def
      default_rte_eth_dcb_tx_conf_def default_rte_eth_vmdq_tx_conf_def
      default_rte_eth_vmdq_dcb_conf_def default_rte_eth_vmdq_rx_conf_def
      default_rte_eth_txmode_def default_rte_eth_rxconf_def default_rte_eth_txconf_def
      default_rte_eth_flex_payload_cfg_def default_rte_eth_fdir_flex_conf_def
      default_rte_fdir_conf_def default_rte_eth_conf__bindgen_ty_1_def
      default_rte_eth_conf__bindgen_ty_2_def default_rte_eth_conf_def
      default_rte_eth_switch_info_def default_rte_eth_dev_info_def)

section \<open>Environment\<close>

definition default_pthread_attr_t :: "u8 list" where
  "default_pthread_attr_t = zeroed ty_pthread_attr_t"
definition default__IO_FILE :: "u8 list" where "default__IO_FILE = zeroed ty__IO_FILE"
definition default_rte_logs :: "u8 list" where "default_rte_logs = zeroed ty_rte_logs"
definition default_rte_dev_event :: "u8 list" where
  "default_rte_dev_event = zeroed ty_rte_dev_event"
definition default_rte_mem_resource :: "u8 list" where
  "default_rte_mem_resource = zeroed ty_rte_mem_resource"
definition default_rte_driver__bindgen_ty_1 :: "u8 list" where
  "default_rte_driver__bindgen_ty_1 = zeroed ty_rte_driver__bindgen_ty_1"
definition default_rte_driver :: "u8 list" where "default_rte_driver = zeroed ty_rte_driver"
definition default_rte_device__bindgen_ty_1 :: "u8 list" where
  "default_rte_device__bindgen_ty_1 = zeroed ty_rte_device__bindgen_ty_1"
definition default_rte_device :: "u8 list" where "default_rte_device = zeroed ty_rte_device"
definition default_rte_dev_iterator :: "u8 list" where
  "default_rte_dev_iterator = zeroed ty_rte_dev_iterator"
definition default_rte_bus_list :: "u8 list" where "default_rte_bus_list = zeroed ty_rte_bus_list"
definition default_rte_bus_conf :: "u8 list" where "default_rte_bus_conf = zeroed ty_rte_bus_conf"
definition default_rte_bus__bindgen_ty_1 :: "u8 list" where
  "default_rte_bus__bindgen_ty_1 = zeroed ty_rte_bus__bindgen_ty_1"
definition default_rte_bus :: "u8 list" where "default_rte_bus = zeroed ty_rte_bus"
definition default_rte_mp_msg :: "u8 list" where "default_rte_mp_msg = zeroed ty_rte_mp_msg"
definition default_rte_mp_reply :: "u8 list" where "default_rte_mp_reply = zeroed ty_rte_mp_reply"
definition default_rte_epoll_data :: "u8 list" where
  "default_rte_epoll_data = zeroed ty_rte_epoll_data"
definition default_rte_epoll_event :: "u8 list" where
  "default_rte_epoll_event = zeroed ty_rte_epoll_event"
definition default_rte_intr_handle__bindgen_ty_1 :: "u8 list" where
  "default_rte_intr_handle__bindgen_ty_1 = zeroed ty_rte_intr_handle__bindgen_ty_1"
definition default_rte_intr_handle :: "u8 list" where
  "default_rte_intr_handle = zeroed ty_rte_intr_handle"
definition default_rte_devargs__bindgen_ty_1 :: "u8 list" where
  "default_rte_devargs__bindgen_ty_1 = zeroed ty_rte_devargs__bindgen_ty_1"
definition default_rte_devargs__bindgen_ty_2 :: "u8 list" where
  "default_rte_devargs__bindgen_ty_2 = zeroed ty_rte_devargs__bindgen_ty_2"
definition default_rte_devargs :: "u8 list" where "default_rte_devargs = zeroed ty_rte_devargs"
definition default_rte_xmm :: "u8 list" where "default_rte_xmm = zeroed ty_rte_xmm"
definition default_rte_ymm :: "u8 list" where "default_rte_ymm = zeroed ty_rte_ymm"
definition default_rte_int128_t__bindgen_ty_1 :: "u8 list" where
  "default_rte_int128_t__bindgen_ty_1 = zeroed ty_rte_int128_t__bindgen_ty_1"
definition default_rte_int128_t :: "u8 list" where "default_rte_int128_t = zeroed ty_rte_int128_t"
definition default_rte_fbarray :: "u8 list" where "default_rte_fbarray = zeroed ty_rte_fbarray"
definition default_rte_memseg__bindgen_ty_1 :: "u8 list" where
  "default_rte_memseg__bindgen_ty_1 = zeroed ty_rte_memseg__bindgen_ty_1"
definition default_rte_memseg__bindgen_ty_2 :: "u8 list" where
  "default_rte_memseg__bindgen_ty_2 = zeroed ty_rte_memseg__bindgen_ty_2"
definition default_rte_memseg :: "u8 list" where "default_rte_memseg = zeroed ty_rte_memseg"
definition default_rte_memseg_list__bindgen_ty_1 :: "u8 list" where
  "default_rte_memseg_list__bindgen_ty_1 = zeroed ty_rte_memseg_list__bindgen_ty_1"
definition default_rte_memseg_list :: "u8 list" where
  "default_rte_memseg_list = zeroed ty_rte_memseg_list"
definition default_rte_mempool_cache :: "u8 list" where
  "default_rte_mempool_cache = zeroed ty_rte_mempool_cache"
definition default_rte_mempool_objhdr__bindgen_ty_1 :: "u8 list" where
  "default_rte_mempool_objhdr__bindgen_ty_1 = zeroed ty_rte_mempool_objhdr__bindgen_ty_1"
definition default_rte_mempool_objhdr__bindgen_ty_2 :: "u8 list" where
  "default_rte_mempool_objhdr__bindgen_ty_2 = zeroed ty_rte_mempool_objhdr__bindgen_ty_2"
definition default_rte_mempool_objhdr :: "u8 list" where
  "default_rte_mempool_objhdr = zeroed ty_rte_mempool_objhdr"
definition default_rte_mempool_memhdr__bindgen_ty_1 :: "u8 list" where
  "default_rte_mempool_memhdr__bindgen_ty_1 = zeroed ty_rte_mempool_memhdr__bindgen_ty_1"
definition default_rte_mempool_memhdr__bindgen_ty_2 :: "u8 list" where
  "default_rte_mempool_memhdr__bindgen_ty_2 = zeroed ty_rte_mempool_memhdr__bindgen_ty_2"
definition default_rte_mempool_memhdr :: "u8 list" where
  "default_rte_mempool_memhdr = zeroed ty_rte_mempool_memhdr"
definition default_rte_mempool_info :: "u8 list" where
  "default_rte_mempool_info = zeroed ty_rte_mempool_info"
definition default_rte_mempool_ops :: "u8 list" where
  "default_rte_mempool_ops = zeroed ty_rte_mempool_ops"
definition default_rte_mempool_ops_table :: "u8 list" where
  "default_rte_mempool_ops_table = zeroed ty_rte_mempool_ops_table"
definition default_rte_mbuf_ext_shared_info :: "u8 list" where
  "default_rte_mbuf_ext_shared_info = zeroed ty_rte_mbuf_ext_shared_info"
definition default_rte_dev_reg_info :: "u8 list" where
  "default_rte_dev_reg_info = zeroed ty_rte_dev_reg_info"
definition default_rte_dev_eeprom_info :: "u8 list" where
  "default_rte_dev_eeprom_info = zeroed ty_rte_dev_eeprom_info"
definition default_rte_mbuf_dynfield :: "u8 list" where
  "default_rte_mbuf_dynfield = zeroed ty_rte_mbuf_dynfield"
definition default_rte_mbuf_dynflag :: "u8 list" where
  "default_rte_mbuf_dynflag = zeroed ty_rte_mbuf_dynflag"
definition default___va_list_tag :: "u8 list" where
  "default___va_list_tag = zeroed ty___va_list_tag"

definition eal_defaults :: "(c_type \<times> u8 list) list" where
  "eal_defaults = [(ty_pthread_attr_t, default_pthread_attr_t), (ty__IO_FILE, default__IO_FILE),
      (ty_rte_logs, default_rte_logs), (ty_rte_dev_event, default_rte_dev_event),
      (ty_rte_mem_resource, default_rte_mem_resource),
      (ty_rte_driver__bindgen_ty_1, default_rte_driver__bindgen_ty_1),
      (ty_rte_driver, default_rte_driver),
      (ty_rte_device__bindgen_ty_1, default_rte_device__bindgen_ty_1),
      (ty_rte_device, default_rte_device), (ty_rte_dev_iterator, default_rte_dev_iterator),
      (ty_rte_bus_list, default_rte_bus_list), (ty_rte_bus_conf, default_rte_bus_conf),
      (ty_rte_bus__bindgen_ty_1, default_rte_bus__bindgen_ty_1), (ty_rte_bus, default_rte_bus),
      (ty_rte_mp_msg, default_rte_mp_msg), (ty_rte_mp_reply, default_rte_mp_reply),
      (ty_rte_epoll_data, default_rte_epoll_data), (ty_rte_epoll_event, default_rte_epoll_event),
      (ty_rte_intr_handle__bindgen_ty_1, default_rte_intr_handle__bindgen_ty_1),
      (ty_rte_intr_handle, default_rte_intr_handle),
      (ty_rte_devargs__bindgen_ty_1, default_rte_devargs__bindgen_ty_1),
      (ty_rte_devargs__bindgen_ty_2, default_rte_devargs__bindgen_ty_2),
      (ty_rte_devargs, default_rte_devargs), (ty_rte_xmm, default_rte_xmm),
      (ty_rte_ymm, default_rte_ymm),
      (ty_rte_int128_t__bindgen_ty_1, default_rte_int128_t__bindgen_ty_1),
      (ty_rte_int128_t, default_rte_int128_t), (ty_rte_fbarray, default_rte_fbarray),
      (ty_rte_memseg__bindgen_ty_1, default_rte_memseg__bindgen_ty_1),
      (ty_rte_memseg__bindgen_ty_2, default_rte_memseg__bindgen_ty_2),
      (ty_rte_memseg, default_rte_memseg),
      (ty_rte_memseg_list__bindgen_ty_1, default_rte_memseg_list__bindgen_ty_1),
      (ty_rte_memseg_list, default_rte_memseg_list),
      (ty_rte_mempool_cache, default_rte_mempool_cache),
      (ty_rte_mempool_objhdr__bindgen_ty_1, default_rte_mempool_objhdr__bindgen_ty_1),
      (ty_rte_mempool_objhdr__bindgen_ty_2, default_rte_mempool_objhdr__bindgen_ty_2),
      (ty_rte_mempool_objhdr, default_rte_mempool_objhdr),
      (ty_rte_mempool_memhdr__bindgen_ty_1, default_rte_mempool_memhdr__bindgen_ty_1),
      (ty_rte_mempool_memhdr__bindgen_ty_2, default_rte_mempool_memhdr__bindgen_ty_2),
      (ty_rte_mempool_memhdr, default_rte_mempool_memhdr),
      (ty_rte_mempool_info, default_rte_mempool_info),
      (ty_rte_mempool_ops, default_rte_mempool_ops),
      (ty_rte_mempool_ops_table, default_rte_mempool_ops_table),
      (ty_rte_mbuf_ext_shared_info, default_rte_mbuf_ext_shared_info),
      (ty_rte_dev_reg_info, default_rte_dev_reg_info),
      (ty_rte_dev_eeprom_info, default_rte_dev_eeprom_info),
      (ty_rte_mbuf_dynfield, default_rte_mbuf_dynfield),
      (ty_rte_mbuf_dynflag, default_rte_mbuf_dynflag),
      (ty___va_list_tag, default___va_list_tag)]"

lemma eal_defaults_zeroed: "list_all (\<lambda>(t, img). wf_type t \<and> img = zeroed t) eal_defaults"
  by (simp add: eal_defaults_def layout_simps
      default_pthread_attr_t_def default__IO_FILE_def default_rte_logs_def
      default_rte_dev_event_def default_rte_mem_resource_def
      default_rte_driver__bindgen_ty_1_def default_rte_driver_def
      default_rte_device__bindgen_ty_1_def default_rte_device_def default_rte_dev_iterator_def
      default_rte_bus_list_def default_rte_bus_conf_def default_rte_bus__bindgen_ty_1_def
      default_rte_bus_def default_rte_mp_msg_def default_rte_mp_reply_def
      default_rte_epoll_data_def default_rte_epoll_event_def
      default_rte_intr_handle__bindgen_ty_1_def default_rte_intr_handle_def
      default_rte_devargs__bindgen_ty_1_def default_rte_devargs__bindgen_ty_2_def
      default_rte_devargs_def default_rte_xmm_def default_rte_ymm_def
      default_rte_int128_t__bindgen_ty_1_def default_rte_int128_t_def default_rte_fbarray_def
      default_rte_memseg__bindgen_ty_1_def default_rte_memseg__bindgen_ty_2_def
      default_rte_memseg_def default_rte_memseg_list__bindgen_ty_1_def
      default_rte_memseg_list_def default_rte_mempool_cache_def
      default_rte_mempool_objhdr__bindgen_ty_1_def default_rte_mempool_objhdr__bindgen_ty_2_def
      default_rte_mempool_objhdr_def default_rte_mempool_memhdr__bindgen_ty_1_def
      default_rte_mempool_memhdr__bindgen_ty_2_def default_rte_mempool_memhdr_def
      default_rte_mempool_info_def default_rte_mempool_ops_def
      default_rte_mempool_ops_table_def default_rte_mbuf_ext_shared_info_def
      default_rte_dev_reg_info_def default_rte_dev_eeprom_info_def
      default_rte_mbuf_dynfield_def default_rte_mbuf_dynflag_def default___va_list_tag_def)

section \<open>Packets\<close>

definition default_rte_higig2_hdr__bindgen_ty_1 :: "u8 list" where
  "default_rte_higig2_hdr__bindgen_ty_1 = zeroed ty_rte_higig2_hdr__bindgen_ty_1"
definition default_rte_higig2_hdr :: "u8 list" where
  "default_rte_higig2_hdr = zeroed ty_rte_higig2_hdr"
definition default_rte_kni_request__bindgen_ty_1 :: "u8 list" where
  "default_rte_kni_request__bindgen_ty_1 = zeroed ty_rte_kni_request__bindgen_ty_1"
definition default_rte_kni_request :: "u8 list" where
  "default_rte_kni_request = zeroed ty_rte_kni_request"
definition default_rte_kni_fifo :: "u8 list" where "default_rte_kni_fifo = zeroed ty_rte_kni_fifo"
definition default_rte_kni_mbuf :: "u8 list" where "default_rte_kni_mbuf = zeroed ty_rte_kni_mbuf"
definition default_rte_kni_device_info :: "u8 list" where
  "default_rte_kni_device_info = zeroed ty_rte_kni_device_info"
definition default_bitmask :: "u8 list" where "default_bitmask = zeroed ty_bitmask"
definition default_bpf_program :: "u8 list" where "default_bpf_program = zeroed ty_bpf_program"
definition default_pcap_if :: "u8 list" where "default_pcap_if = zeroed ty_pcap_if"
definition default_pcap_addr :: "u8 list" where "default_pcap_addr = zeroed ty_pcap_addr"

definition packets_defaults :: "(c_type \<times> u8 list) list" where
  "packets_defaults = [(ty_rte_higig2_hdr__bindgen_ty_1, default_rte_higig2_hdr__bindgen_ty_1),
      (ty_rte_higig2_hdr, default_rte_higig2_hdr),
      (ty_rte_kni_request__bindgen_ty_1, default_rte_kni_request__bindgen_ty_1),
      (ty_rte_kni_request, default_rte_kni_request), (ty_rte_kni_fifo, default_rte_kni_fifo),
      (ty_rte_kni_mbuf, default_rte_kni_mbuf),
      (ty_rte_kni_device_info, default_rte_kni_device_info), (ty_bitmask, default_bitmask),
      (ty_bpf_program, default_bpf_program), (ty_pcap_if, default_pcap_if),
      (ty_pcap_addr, default_pcap_addr)]"

lemma packets_defaults_zeroed: "list_all (\<lambda>(t, img). wf_type t \<and> img = zeroed t) packets_defaults"
  by (simp add: packets_defaults_def layout_simps
      default_rte_higig2_hdr__bindgen_ty_1_def default_rte_higig2_hdr_def
      default_rte_kni_request__bindgen_ty_1_def default_rte_kni_request_def
      default_rte_kni_fifo_def default_rte_kni_mbuf_def default_rte_kni_device_info_def
      default_bitmask_def default_bpf_program_def default_pcap_if_def default_pcap_addr_def)

section \<open>Flow rules\<close>

definition default_rte_flow_item_higig2_hdr :: "u8 list" where
  "default_rte_flow_item_higig2_hdr = zeroed ty_rte_flow_item_higig2_hdr"
definition default_rte_flow_item_raw :: "u8 list" where
  "default_rte_flow_item_raw = zeroed ty_rte_flow_item_raw"
definition default_rte_flow_item :: "u8 list" where
  "default_rte_flow_item = zeroed ty_rte_flow_item"
definition default_rte_flow_action_rss :: "u8 list" where
  "default_rte_flow_action_rss = zeroed ty_rte_flow_action_rss"
definition default_rte_flow_action_security :: "u8 list" where
  "default_rte_flow_action_security = zeroed ty_rte_flow_action_security"
definition default_rte_flow_action_vxlan_encap :: "u8 list" where
  "default_rte_flow_action_vxlan_encap = zeroed ty_rte_flow_action_vxlan_encap"
definition default_rte_flow_action_nvgre_encap :: "u8 list" where
  "default_rte_flow_action_nvgre_encap = zeroed ty_rte_flow_action_nvgre_encap"
definition default_rte_flow_action_raw_encap :: "u8 list" where
  "default_rte_flow_action_raw_encap = zeroed ty_rte_flow_action_raw_encap"
definition default_rte_flow_action_raw_decap :: "u8 list" where
  "default_rte_flow_action_raw_decap = zeroed ty_rte_flow_action_raw_decap"
definition default_rte_flow_action :: "u8 list" where
  "default_rte_flow_action = zeroed ty_rte_flow_action"
definition default_rte_flow_error :: "u8 list" where
  "default_rte_flow_error = zeroed ty_rte_flow_error"
definition default_rte_flow_conv_rule__bindgen_ty_1 :: "u8 list" where
  "default_rte_flow_conv_rule__bindgen_ty_1 = zeroed ty_rte_flow_conv_rule__bindgen_ty_1"
definition default_rte_flow_conv_rule__bindgen_ty_2 :: "u8 list" where
  "default_rte_flow_conv_rule__bindgen_ty_2 = zeroed ty_rte_flow_conv_rule__bindgen_ty_2"
definition default_rte_flow_conv_rule__bindgen_ty_3 :: "u8 list" where
  "default_rte_flow_conv_rule__bindgen_ty_3 = zeroed ty_rte_flow_conv_rule__bindgen_ty_3"
definition default_rte_flow_conv_rule :: "u8 list" where
  "default_rte_flow_conv_rule = zeroed ty_rte_flow_conv_rule"
definition default_rte_flow_desc :: "u8 list" where
  "default_rte_flow_desc = zeroed ty_rte_flow_desc"

definition flow_defaults :: "(c_type \<times> u8 list) list" where
  "flow_defaults = [(ty_rte_flow_item_higig2_hdr, default_rte_flow_item_higig2_hdr),
      (ty_rte_flow_item_raw, default_rte_flow_item_raw),
      (ty_rte_flow_item, default_rte_flow_item),
      (ty_rte_flow_action_rss, default_rte_flow_action_rss),
      (ty_rte_flow_action_security, default_rte_flow_action_security),
      (ty_rte_flow_action_vxlan_encap, default_rte_flow_action_vxlan_encap),
      (ty_rte_flow_action_nvgre_encap, default_rte_flow_action_nvgre_encap),
      (ty_rte_flow_action_raw_encap, default_rte_flow_action_raw_encap),
      (ty_rte_flow_action_raw_decap, default_rte_flow_action_raw_decap),
      (ty_rte_flow_action, default_rte_flow_action), (ty_rte_flow_error, default_rte_flow_error),
      (ty_rte_flow_conv_rule__bindgen_ty_1, default_rte_flow_conv_rule__bindgen_ty_1),
      (ty_rte_flow_conv_rule__bindgen_ty_2, default_rte_flow_conv_rule__bindgen_ty_2),
      (ty_rte_flow_conv_rule__bindgen_ty_3, default_rte_flow_conv_rule__bindgen_ty_3),
      (ty_rte_flow_conv_rule, default_rte_flow_conv_rule),
      (ty_rte_flow_desc, default_rte_flow_desc)]"

lemma flow_defaults_zeroed: "list_all (\<lambda>(t, img). wf_type t \<and> img = zeroed t) flow_defaults"
  by (simp add: flow_defaults_def layout_simps
      default_rte_flow_item_higig2_hdr_def default_rte_flow_item_raw_def
      default_rte_flow_item_def default_rte_flow_action_rss_def
      default_rte_flow_action_security_def default_rte_flow_action_vxlan_encap_def
      default_rte_flow_action_nvgre_encap_def default_rte_flow_action_raw_encap_def
      default_rte_flow_action_raw_decap_def default_rte_flow_action_def
      default_rte_flow_error_def default_rte_flow_conv_rule__bindgen_ty_1_def
      default_rte_flow_conv_rule__bindgen_ty_2_def default_rte_flow_conv_rule__bindgen_ty_3_def
      default_rte_flow_conv_rule_def default_rte_flow_desc_def)

section \<open>Filters\<close>

definition default_rte_vlan_filter_conf :: "u8 list" where
  "default_rte_vlan_filter_conf = zeroed ty_rte_vlan_filter_conf"
definition default_rte_eth_vlan_mirror :: "u8 list" where
  "default_rte_eth_vlan_mirror = zeroed ty_rte_eth_vlan_mirror"
definition default_rte_eth_mirror_conf :: "u8 list" where
  "default_rte_eth_mirror_conf = zeroed ty_rte_eth_mirror_conf"
definition default_rte_eth_rss_reta_entry64 :: "u8 list" where
  "default_rte_eth_rss_reta_entry64 = zeroed ty_rte_eth_rss_reta_entry64"
definition default_rte_eth_fc_conf :: "u8 list" where
  "default_rte_eth_fc_conf = zeroed ty_rte_eth_fc_conf"
definition default_rte_eth_pfc_conf :: "u8 list" where
  "default_rte_eth_pfc_conf = zeroed ty_rte_eth_pfc_conf"
definition default_rte_eth_mac_filter :: "u8 list" where
  "default_rte_eth_mac_filter = zeroed ty_rte_eth_mac_filter"
definition default_rte_eth_flex_filter :: "u8 list" where
  "default_rte_eth_flex_filter = zeroed ty_rte_eth_flex_filter"
definition default_rte_eth_tunnel_filter_conf__bindgen_ty_1 :: "u8 list" where
  "default_rte_eth_tunnel_filter_conf__bindgen_ty_1 = zeroed ty_rte_eth_tunnel_filter_conf__bindgen_ty_1"
definition default_rte_eth_tunnel_filter_conf :: "u8 list" where
  "default_rte_eth_tunnel_filter_conf = zeroed ty_rte_eth_tunnel_filter_conf"
definition default_rte_eth_global_cfg__bindgen_ty_1 :: "u8 list" where
  "default_rte_eth_global_cfg__bindgen_ty_1 = zeroed ty_rte_eth_global_cfg__bindgen_ty_1"
definition default_rte_eth_global_cfg :: "u8 list" where
  "default_rte_eth_global_cfg = zeroed ty_rte_eth_global_cfg"
definition default_rte_eth_input_set_conf :: "u8 list" where
  "default_rte_eth_input_set_conf = zeroed ty_rte_eth_input_set_conf"
definition default_rte_eth_tunnel_flow :: "u8 list" where
  "default_rte_eth_tunnel_flow = zeroed ty_rte_eth_tunnel_flow"
definition default_rte_eth_fdir_flow :: "u8 list" where
  "default_rte_eth_fdir_flow = zeroed ty_rte_eth_fdir_flow"
definition default_rte_eth_fdir_input :: "u8 list" where
  "default_rte_eth_fdir_input = zeroed ty_rte_eth_fdir_input"
definition default_rte_eth_fdir_action :: "u8 list" where
  "default_rte_eth_fdir_action = zeroed ty_rte_eth_fdir_action"
definition default_rte_eth_fdir_filter :: "u8 list" where
  "default_rte_eth_fdir_filter = zeroed ty_rte_eth_fdir_filter"
definition default_rte_eth_fdir_info :: "u8 list" where
  "default_rte_eth_fdir_info = zeroed ty_rte_eth_fdir_info"
definition default_rte_eth_fdir_filter_info__bindgen_ty_1 :: "u8 list" where
  "default_rte_eth_fdir_filter_info__bindgen_ty_1 = zeroed ty_rte_eth_fdir_filter_info__bindgen_ty_1"
definition default_rte_eth_fdir_filter_info :: "u8 list" where
  "default_rte_eth_fdir_filter_info = zeroed ty_rte_eth_fdir_filter_info"
definition default_rte_eth_hash_global_conf :: "u8 list" where
  "default_rte_eth_hash_global_conf = zeroed ty_rte_eth_hash_global_conf"
definition default_rte_eth_hash_filter_info__bindgen_ty_1 :: "u8 list" where
  "default_rte_eth_hash_filter_info__bindgen_ty_1 = zeroed ty_rte_eth_hash_filter_info__bindgen_ty_1"
definition default_rte_eth_hash_filter_info :: "u8 list" where
  "default_rte_eth_hash_filter_info = zeroed ty_rte_eth_hash_filter_info"
definition default_rte_eth_l2_tunnel_conf :: "u8 list" where
  "default_rte_eth_l2_tunnel_conf = zeroed ty_rte_eth_l2_tunnel_conf"
definition default_rte_eth_xstat_name :: "u8 list" where
  "default_rte_eth_xstat_name = zeroed ty_rte_eth_xstat_name"
definition default_rte_eth_dcb_tc_queue_mapping :: "u8 list" where
  "default_rte_eth_dcb_tc_queue_mapping = zeroed ty_rte_eth_dcb_tc_queue_mapping"
definition default_rte_eth_dcb_info :: "u8 list" where
  "default_rte_eth_dcb_info = zeroed ty_rte_eth_dcb_info"

definition filters_defaults :: "(c_type \<times> u8 list) list" where
  "filters_defaults = [(ty_rte_vlan_filter_conf, default_rte_vlan_filter_conf),
      (ty_rte_eth_vlan_mirror, default_rte_eth_vlan_mirror),
      (ty_rte_eth_mirror_conf, default_rte_eth_mirror_conf),
      (ty_rte_eth_rss_reta_entry64, default_rte_eth_rss_reta_entry64),
      (ty_rte_eth_fc_conf, default_rte_eth_fc_conf),
      (ty_rte_eth_pfc_conf, default_rte_eth_pfc_conf),
      (ty_rte_eth_mac_filter, default_rte_eth_mac_filter),
      (ty_rte_eth_flex_filter, default_rte_eth_flex_filter),
      (ty_rte_eth_tunnel_filter_conf__bindgen_ty_1, default_rte_eth_tunnel_filter_conf__bindgen_ty_1),
      (ty_rte_eth_tunnel_filter_conf, default_rte_eth_tunnel_filter_conf),
      (ty_rte_eth_global_cfg__bindgen_ty_1, default_rte_eth_global_cfg__bindgen_ty_1),
      (ty_rte_eth_global_cfg, default_rte_eth_global_cfg),
      (ty_rte_eth_input_set_conf, default_rte_eth_input_set_conf),
      (ty_rte_eth_tunnel_flow, default_rte_eth_tunnel_flow),
      (ty_rte_eth_fdir_flow, default_rte_eth_fdir_flow),
      (ty_rte_eth_fdir_input, default_rte_eth_fdir_input),
      (ty_rte_eth_fdir_action, default_rte_eth_fdir_action),
      (ty_rte_eth_fdir_filter, default_rte_eth_fdir_filter),
      (ty_rte_eth_fdir_info, default_rte_eth_fdir_info),
      (ty_rte_eth_fdir_filter_info__bindgen_ty_1, default_rte_eth_fdir_filter_info__bindgen_ty_1),
      (ty_rte_eth_fdir_filter_info, default_rte_eth_fdir_filter_info),
      (ty_rte_eth_hash_global_conf, default_rte_eth_hash_global_conf),
      (ty_rte_eth_hash_filter_info__bindgen_ty_1, default_rte_eth_hash_filter_info__bindgen_ty_1),
      (ty_rte_eth_hash_filter_info, default_rte_eth_hash_filter_info),
      (ty_rte_eth_l2_tunnel_conf, default_rte_eth_l2_tunnel_conf),
      (ty_rte_eth_xstat_name, default_rte_eth_xstat_name),
      (ty_rte_eth_dcb_tc_queue_mapping, default_rte_eth_dcb_tc_queue_mapping),
      (ty_rte_eth_dcb_info, default_rte_eth_dcb_info)]"

lemma filters_defaults_zeroed: "list_all (\<lambda>(t, img). wf_type t \<and> img = zeroed t) filters_defaults"
  by (simp add: filters_defaults_def layout_simps
      default_rte_vlan_filter_conf_def default_rte_eth_vlan_mirror_def
      default_rte_eth_mirror_conf_def default_rte_eth_rss_reta_entry64_def
      default_rte_eth_fc_conf_def default_rte_eth_pfc_conf_def default_rte_eth_mac_filter_def
      default_rte_eth_flex_filter_def default_rte_eth_tunnel_filter_conf__bindgen_ty_1_def
      default_rte_eth_tunnel_filter_conf_def default_rte_eth_global_cfg__bindgen_ty_1_def
      default_rte_eth_global_cfg_def default_rte_eth_input_set_conf_def
      default_rte_eth_tunnel_flow_def default_rte_eth_fdir_flow_def
      default_rte_eth_fdir_input_def default_rte_eth_fdir_action_def
      default_rte_eth_fdir_filter_def default_rte_eth_fdir_info_def
      default_rte_eth_fdir_filter_info__bindgen_ty_1_def default_rte_eth_fdir_filter_info_def
      default_rte_eth_hash_global_conf_def default_rte_eth_hash_filter_info__bindgen_ty_1_def
      default_rte_eth_hash_filter_info_def default_rte_eth_l2_tunnel_conf_def
      default_rte_eth_xstat_name_def default_rte_eth_dcb_tc_queue_mapping_def
      default_rte_eth_dcb_info_def)

section \<open>Ethernet devices\<close>

definition default_rte_eth_rxq_info :: "u8 list" where
  "default_rte_eth_rxq_info = zeroed ty_rte_eth_rxq_info"
definition default_rte_eth_txq_info :: "u8 list" where
  "default_rte_eth_txq_info = zeroed ty_rte_eth_txq_info"
definition default_rte_eth_burst_mode :: "u8 list" where
  "default_rte_eth_burst_mode = zeroed ty_rte_eth_burst_mode"
definition default_rte_eth_dev_owner :: "u8 list" where
  "default_rte_eth_dev_owner = zeroed ty_rte_eth_dev_owner"
definition default_rte_eth_dev_tx_buffer :: "u8 list" where
  "default_rte_eth_dev_tx_buffer = zeroed ty_rte_eth_dev_tx_buffer"
definition default_rte_eth_event_ipsec_desc :: "u8 list" where
  "default_rte_eth_event_ipsec_desc = zeroed ty_rte_eth_event_ipsec_desc"
definition default_rte_eth_dev_cb_list :: "u8 list" where
  "default_rte_eth_dev_cb_list = zeroed ty_rte_eth_dev_cb_list"
definition default_rte_eth_rxtx_callback__bindgen_ty_1 :: "u8 list" where
  "default_rte_eth_rxtx_callback__bindgen_ty_1 = zeroed ty_rte_eth_rxtx_callback__bindgen_ty_1"
definition default_rte_eth_rxtx_callback :: "u8 list" where
  "default_rte_eth_rxtx_callback = zeroed ty_rte_eth_rxtx_callback"
definition default_rte_eth_dev :: "u8 list" where "default_rte_eth_dev = zeroed ty_rte_eth_dev"
definition default_rte_eth_dev_data :: "u8 list" where
  "default_rte_eth_dev_data = zeroed ty_rte_eth_dev_data"

definition ethdev_defaults :: "(c_type \<times> u8 list) list" where
  "ethdev_defaults = [(ty_rte_eth_rxq_info, default_rte_eth_rxq_info),
      (ty_rte_eth_txq_info, default_rte_eth_txq_info),
      (ty_rte_eth_burst_mode, default_rte_eth_burst_mode),
      (ty_rte_eth_dev_owner, default_rte_eth_dev_owner),
      (ty_rte_eth_dev_tx_buffer, default_rte_eth_dev_tx_buffer),
      (ty_rte_eth_event_ipsec_desc, default_rte_eth_event_ipsec_desc),
      (ty_rte_eth_dev_cb_list, default_rte_eth_dev_cb_list),
      (ty_rte_eth_rxtx_callback__bindgen_ty_1, default_rte_eth_rxtx_callback__bindgen_ty_1),
      (ty_rte_eth_rxtx_callback, default_rte_eth_rxtx_callback),
      (ty_rte_eth_dev, default_rte_eth_dev), (ty_rte_eth_dev_data, default_rte_eth_dev_data)]"

lemma ethdev_defaults_zeroed: "list_all (\<lambda>(t, img). wf_type t \<and> img = zeroed t) ethdev_defaults"
  by (simp add: ethdev_defaults_def layout_simps
      default_rte_eth_rxq_info_def default_rte_eth_txq_info_def default_rte_eth_burst_mode_def
      default_rte_eth_dev_owner_def default_rte_eth_dev_tx_buffer_def
      default_rte_eth_event_ipsec_desc_def default_rte_eth_dev_cb_list_def
      default_rte_eth_rxtx_callback__bindgen_ty_1_def default_rte_eth_rxtx_callback_def
      default_rte_eth_dev_def default_rte_eth_dev_data_def)

section \<open>Fields of default values\<close>

definition bound_defaults :: "(c_type \<times> u8 list) list" where
  "bound_defaults = types_defaults @ eal_defaults @ packets_defaults @ flow_defaults @
      filters_defaults @ ethdev_defaults"

text \<open>Every field of every default value, however deep, is zero.\<close>

lemma default_fields_zero:
  assumes "(t, img) \<in> set bound_defaults" "slot_at t path = Some (off, u)"
  shows "load_field t path img = Some (zeroed u)"
proof -
  have "list_all (\<lambda>(t, img). wf_type t \<and> img = zeroed t) bound_defaults"
    unfolding bound_defaults_def
    by (intro layouts_pass_append types_defaults_zeroed
        eal_defaults_zeroed
        packets_defaults_zeroed
        flow_defaults_zeroed
        filters_defaults_zeroed
        ethdev_defaults_zeroed)
  then have "wf_type t" "img = zeroed t" using assms(1) by (auto simp: list_all_iff)
  then show ?thesis using load_zeroed assms(2) by blast
qed

end
