(* ===== verification/Bound_Consts.thy ===== *)
theory Bound_Consts
  imports Bound_All Port Mbuf_Bits Mempool
begin

text \<open>
  The constants of \<open>ffi/src/bindings_rustdoc.rs\<close>: each with its name, its declared type and its
  value, in the order of the file. The lemmas relate them to each other, to the bound types
  and to the constants the other theories use.
\<close>

datatype const_type = Ty_u32 | Ty_u64 | Ty_i32 | Ty_i64

datatype c_constant =
    Int_Const string const_type int
  | Bytes_Const string nat string

fun type_range :: "const_type \<Rightarrow> int \<times> int" where
  "type_range Ty_u32 = (0, 2 ^ 32)"
| "type_range Ty_u64 = (0, 2 ^ 64)"
| "type_range Ty_i32 = (- (2 ^ 31), 2 ^ 31)"
| "type_range Ty_i64 = (- (2 ^ 63), 2 ^ 63)"

text \<open>A literal has to be in the range of its type; a byte string has its declared length.\<close>

fun well_typed :: "c_constant \<Rightarrow> bool" where
  "well_typed (Int_Const _ t v) \<longleftrightarrow> fst (type_range t) \<le> v \<and> v < snd (type_range t)"
| "well_typed (Bytes_Const _ n bs) \<longleftrightarrow> length bs = n"

fun const_name :: "c_constant \<Rightarrow> string" where
  "const_name (Int_Const n _ _) = n"
| "const_name (Bytes_Const n _ _) = n"

fun const_int :: "c_constant \<Rightarrow> int option" where
  "const_int (Int_Const _ _ v) = Some v"
| "const_int (Bytes_Const _ _ _) = None"

text \<open>The integer value of a constant in a table.\<close>

definition value_in :: "c_constant list \<Rightarrow> string \<Rightarrow> int option" where
  "value_in cs n = Option.bind (List.find (\<lambda>c. const_name c = n) cs) const_int"

section \<open>Libraries and drivers\<close>

text \<open>The parts of DPDK the build has.\<close>

definition library_constants :: "c_constant list" where
  "library_constants = [Int_Const ''RTE_ARCH_X86'' Ty_u32 1,
      Int_Const ''RTE_ARCH_X86_64'' Ty_u32 1, Int_Const ''RTE_CACHE_LINE_SIZE'' Ty_u32 64,
      Int_Const ''RTE_DRIVER_MEMPOOL_BUCKET_SIZE_KB'' Ty_u32 64,
      Int_Const ''RTE_EAL_NUMA_AWARE_HUGEPAGES'' Ty_u32 1,
      Bytes_Const ''RTE_EAL_PMD_PATH'' 47 (''/usr/local/lib/x86_64-linux-gnu/dpdk/pmds-20.0'' @ [CHR 0x00]),
      Int_Const ''RTE_EXEC_ENV_LINUX'' Ty_u32 1, Int_Const ''RTE_HAS_LIBNUMA'' Ty_u32 1,
      Int_Const ''RTE_IXGBE_INC_VECTOR'' Ty_u32 1, Int_Const ''RTE_LIBRTE_ACL'' Ty_u32 1,
      Int_Const ''RTE_LIBRTE_AF_PACKET_PMD'' Ty_u32 1, Int_Const ''RTE_LIBRTE_ARK_PMD'' Ty_u32 1,
      Int_Const ''RTE_LIBRTE_ATLANTIC_PMD'' Ty_u32 1, Int_Const ''RTE_LIBRTE_AVP_PMD'' Ty_u32 1,
      Int_Const ''RTE_LIBRTE_AXGBE_PMD'' Ty_u32 1, Int_Const ''RTE_LIBRTE_BBDEV'' Ty_u32 1,
      Int_Const ''RTE_LIBRTE_BITRATESTATS'' Ty_u32 1, Int_Const ''RTE_LIBRTE_BNXT_PMD'' Ty_u32 1,
      Int_Const ''RTE_LIBRTE_BOND_PMD'' Ty_u32 1, Int_Const ''RTE_LIBRTE_BPF'' Ty_u32 1,
      Int_Const ''RTE_LIBRTE_BUCKET_MEMPOOL'' Ty_u32 1,
      Int_Const ''RTE_LIBRTE_CAAM_JR_PMD'' Ty_u32 1, Int_Const ''RTE_LIBRTE_CFGFILE'' Ty_u32 1,
      Int_Const ''RTE_LIBRTE_CMDLINE'' Ty_u32 1, Int_Const ''RTE_LIBRTE_COMPRESSDEV'' Ty_u32 1,
      Int_Const ''RTE_LIBRTE_CPT_COMMON'' Ty_u32 1, Int_Const ''RTE_LIBRTE_CRYPTODEV'' Ty_u32 1,
      Int_Const ''RTE_LIBRTE_CRYPTO_SCHEDULER_PMD'' Ty_u32 1,
      Int_Const ''RTE_LIBRTE_CXGBE_PMD'' Ty_u32 1, Int_Const ''RTE_LIBRTE_DISTRIBUTOR'' Ty_u32 1,
      Int_Const ''RTE_LIBRTE_DPAA2_EVENTDEV_PMD'' Ty_u32 1,
      Int_Const ''RTE_LIBRTE_DPAA2_MEMPOOL'' Ty_u32 1,
      Int_Const ''RTE_LIBRTE_DPAA2_PMD'' Ty_u32 1,
      Int_Const ''RTE_LIBRTE_DPAA2_SEC_PMD'' Ty_u32 1,
      Int_Const ''RTE_LIBRTE_DPAAX_COMMON'' Ty_u32 1, Int_Const ''RTE_LIBRTE_DPAA_BUS'' Ty_u32 1,
      Int_Const ''RTE_LIBRTE_DPAA_EVENTDEV_PMD'' Ty_u32 1,
      Int_Const ''RTE_LIBRTE_DPAA_MEMPOOL'' Ty_u32 1, Int_Const ''RTE_LIBRTE_DPAA_PMD'' Ty_u32 1,
      Int_Const ''RTE_LIBRTE_DPAA_SEC_PMD'' Ty_u32 1,
      Int_Const ''RTE_LIBRTE_DSW_EVENTDEV_PMD'' Ty_u32 1,
      Int_Const ''RTE_LIBRTE_E1000_PMD'' Ty_u32 1, Int_Const ''RTE_LIBRTE_EAL'' Ty_u32 1,
      Int_Const ''RTE_LIBRTE_EFD'' Ty_u32 1, Int_Const ''RTE_LIBRTE_ENA_PMD'' Ty_u32 1,
      Int_Const ''RTE_LIBRTE_ENETC_PMD'' Ty_u32 1, Int_Const ''RTE_LIBRTE_ENIC_PMD'' Ty_u32 1,
      Int_Const ''RTE_LIBRTE_ETHDEV'' Ty_u32 1, Int_Const ''RTE_LIBRTE_EVENTDEV'' Ty_u32 1,
      Int_Const ''RTE_LIBRTE_FAILSAFE_PMD'' Ty_u32 1, Int_Const ''RTE_LIBRTE_FIB'' Ty_u32 1,
      Int_Const ''RTE_LIBRTE_FLOW_CLASSIFY'' Ty_u32 1,
      Int_Const ''RTE_LIBRTE_FM10K_INC_VECTOR'' Ty_u32 1,
      Int_Const ''RTE_LIBRTE_FM10K_PMD'' Ty_u32 1, Int_Const ''RTE_LIBRTE_FSLMC_BUS'' Ty_u32 1,
      Int_Const ''RTE_LIBRTE_GRO'' Ty_u32 1, Int_Const ''RTE_LIBRTE_GSO'' Ty_u32 1,
      Int_Const ''RTE_LIBRTE_HASH'' Ty_u32 1, Int_Const ''RTE_LIBRTE_HINIC_PMD'' Ty_u32 1,
      Int_Const ''RTE_LIBRTE_HNS3_PMD'' Ty_u32 1,
      Int_Const ''RTE_LIBRTE_I40E_INC_VECTOR'' Ty_u32 1,
      Int_Const ''RTE_LIBRTE_I40E_PMD'' Ty_u32 1, Int_Const ''RTE_LIBRTE_IAVF_PMD'' Ty_u32 1,
      Int_Const ''RTE_LIBRTE_ICE_PMD'' Ty_u32 1, Int_Const ''RTE_LIBRTE_IFC_PMD'' Ty_u32 1,
      Int_Const ''RTE_LIBRTE_IFPGA_BUS'' Ty_u32 1, Int_Const ''RTE_LIBRTE_IPSEC'' Ty_u32 1,
      Int_Const ''RTE_LIBRTE_IP_FRAG'' Ty_u32 1, Int_Const ''RTE_LIBRTE_IXGBE_PMD'' Ty_u32 1,
      Int_Const ''RTE_LIBRTE_JOBSTATS'' Ty_u32 1, Int_Const ''RTE_LIBRTE_KNI'' Ty_u32 1,
      Int_Const ''RTE_LIBRTE_KNI_PMD'' Ty_u32 1, Int_Const ''RTE_LIBRTE_KVARGS'' Ty_u32 1,
      Int_Const ''RTE_LIBRTE_LATENCYSTATS'' Ty_u32 1,
      Int_Const ''RTE_LIBRTE_LIQUIDIO_PMD'' Ty_u32 1, Int_Const ''RTE_LIBRTE_LPM'' Ty_u32 1,
      Int_Const ''RTE_LIBRTE_MBUF'' Ty_u32 1, Int_Const ''RTE_LIBRTE_MEMBER'' Ty_u32 1,
      Int_Const ''RTE_LIBRTE_MEMIF_PMD'' Ty_u32 1, Int_Const ''RTE_LIBRTE_MEMPOOL'' Ty_u32 1,
      Int_Const ''RTE_LIBRTE_METER'' Ty_u32 1, Int_Const ''RTE_LIBRTE_METRICS'' Ty_u32 1,
      Int_Const ''RTE_LIBRTE_NET'' Ty_u32 1, Int_Const ''RTE_LIBRTE_NETVSC_PMD'' Ty_u32 1,
      Int_Const ''RTE_LIBRTE_NFP_PMD'' Ty_u32 1, Int_Const ''RTE_LIBRTE_NITROX_PMD'' Ty_u32 1,
      Int_Const ''RTE_LIBRTE_NULL_CRYPTO_PMD'' Ty_u32 1,
      Int_Const ''RTE_LIBRTE_NULL_PMD'' Ty_u32 1,
      Int_Const ''RTE_LIBRTE_OCTEONTX2_COMMON'' Ty_u32 1,
      Int_Const ''RTE_LIBRTE_OCTEONTX2_CRYPTO_PMD'' Ty_u32 1,
      Int_Const ''RTE_LIBRTE_OCTEONTX2_EVENTDEV_PMD'' Ty_u32 1,
      Int_Const ''RTE_LIBRTE_OCTEONTX2_MEMPOOL'' Ty_u32 1,
      Int_Const ''RTE_LIBRTE_OCTEONTX2_PMD'' Ty_u32 1,
      Int_Const ''RTE_LIBRTE_OCTEONTX_COMMON'' Ty_u32 1,
      Int_Const ''RTE_LIBRTE_OCTEONTX_COMPRESS_PMD'' Ty_u32 1,
      Int_Const ''RTE_LIBRTE_OCTEONTX_CRYPTO_PMD'' Ty_u32 1,
      Int_Const ''RTE_LIBRTE_OCTEONTX_EVENTDEV_PMD'' Ty_u32 1,
      Int_Const ''RTE_LIBRTE_OCTEONTX_MEMPOOL'' Ty_u32 1,
      Int_Const ''RTE_LIBRTE_OCTEONTX_PMD'' Ty_u32 1,
      Int_Const ''RTE_LIBRTE_OPDL_EVENTDEV_PMD'' Ty_u32 1,
      Int_Const ''RTE_LIBRTE_PCAP_PMD'' Ty_u32 1, Int_Const ''RTE_LIBRTE_PCI'' Ty_u32 1,
      Int_Const ''RTE_LIBRTE_PCI_BUS'' Ty_u32 1, Int_Const ''RTE_LIBRTE_PDUMP'' Ty_u32 1,
      Int_Const ''RTE_LIBRTE_PFE_PMD'' Ty_u32 1, Int_Const ''RTE_LIBRTE_PIPELINE'' Ty_u32 1,
      Int_Const ''RTE_LIBRTE_PMD_BBDEV_FPGA_LTE_FEC'' Ty_u32 1,
      Int_Const ''RTE_LIBRTE_PMD_BBDEV_NULL'' Ty_u32 1,
      Int_Const ''RTE_LIBRTE_PMD_BBDEV_TURBO_SW'' Ty_u32 1,
      Int_Const ''RTE_LIBRTE_PMD_DPAA2_CMDIF_RAWDEV'' Ty_u32 1,
      Int_Const ''RTE_LIBRTE_PMD_DPAA2_QDMA_RAWDEV'' Ty_u32 1,
      Int_Const ''RTE_LIBRTE_PMD_IOAT_RAWDEV'' Ty_u32 1,
      Int_Const ''RTE_LIBRTE_PMD_NTB_RAWDEV'' Ty_u32 1,
      Int_Const ''RTE_LIBRTE_PMD_OCTEONTX2_DMA_RAWDEV'' Ty_u32 1,
      Int_Const ''RTE_LIBRTE_PMD_SKELETON_RAWDEV'' Ty_u32 1,
      Int_Const ''RTE_LIBRTE_PORT'' Ty_u32 1, Int_Const ''RTE_LIBRTE_POWER'' Ty_u32 1,
      Int_Const ''RTE_LIBRTE_QAT_PMD'' Ty_u32 1, Int_Const ''RTE_LIBRTE_QEDE_PMD'' Ty_u32 1,
      Int_Const ''RTE_LIBRTE_RAWDEV'' Ty_u32 1, Int_Const ''RTE_LIBRTE_RCU'' Ty_u32 1,
      Int_Const ''RTE_LIBRTE_REORDER'' Ty_u32 1, Int_Const ''RTE_LIBRTE_RIB'' Ty_u32 1,
      Int_Const ''RTE_LIBRTE_RING'' Ty_u32 1, Int_Const ''RTE_LIBRTE_RING_MEMPOOL'' Ty_u32 1,
      Int_Const ''RTE_LIBRTE_RING_PMD'' Ty_u32 1, Int_Const ''RTE_LIBRTE_SCHED'' Ty_u32 1,
      Int_Const ''RTE_LIBRTE_SECURITY'' Ty_u32 1, Int_Const ''RTE_LIBRTE_SFC_PMD'' Ty_u32 1,
      Int_Const ''RTE_LIBRTE_SKELETON_EVENTDEV_PMD'' Ty_u32 1,
      Int_Const ''RTE_LIBRTE_SOFTNIC_PMD'' Ty_u32 1, Int_Const ''RTE_LIBRTE_STACK'' Ty_u32 1,
      Int_Const ''RTE_LIBRTE_STACK_MEMPOOL'' Ty_u32 1,
      Int_Const ''RTE_LIBRTE_SW_EVENTDEV_PMD'' Ty_u32 1, Int_Const ''RTE_LIBRTE_TABLE'' Ty_u32 1,
      Int_Const ''RTE_LIBRTE_TAP_PMD'' Ty_u32 1, Int_Const ''RTE_LIBRTE_THUNDERX_PMD'' Ty_u32 1,
      Int_Const ''RTE_LIBRTE_TIMER'' Ty_u32 1, Int_Const ''RTE_LIBRTE_VDEV_BUS'' Ty_u32 1,
      Int_Const ''RTE_LIBRTE_VDEV_NETVSC_PMD'' Ty_u32 1, Int_Const ''RTE_LIBRTE_VHOST'' Ty_u32 1,
      Int_Const ''RTE_LIBRTE_VHOST_NUMA'' Ty_u32 1, Int_Const ''RTE_LIBRTE_VHOST_PMD'' Ty_u32 1,
      Int_Const ''RTE_LIBRTE_VIRTIO_CRYPTO_PMD'' Ty_u32 1,
      Int_Const ''RTE_LIBRTE_VIRTIO_PMD'' Ty_u32 1, Int_Const ''RTE_LIBRTE_VMBUS_BUS'' Ty_u32 1]"

section \<open>Limits\<close>

text \<open>The processor, the release, and the limits of the environment.\<close>

definition limit_constants :: "c_constant list" where
  "limit_constants = [Int_Const ''RTE_LIBRTE_VMXNET3_PMD'' Ty_u32 1,
      Int_Const ''RTE_MACHINE_CPUFLAG_AES'' Ty_u32 1,
      Int_Const ''RTE_MACHINE_CPUFLAG_AVX'' Ty_u32 1,
      Int_Const ''RTE_MACHINE_CPUFLAG_AVX2'' Ty_u32 1,
      Int_Const ''RTE_MACHINE_CPUFLAG_PCLMULQDQ'' Ty_u32 1,
      Int_Const ''RTE_MACHINE_CPUFLAG_RDRAND'' Ty_u32 1,
      Int_Const ''RTE_MACHINE_CPUFLAG_RDSEED'' Ty_u32 1,
      Int_Const ''RTE_MACHINE_CPUFLAG_SSE'' Ty_u32 1,
      Int_Const ''RTE_MACHINE_CPUFLAG_SSE2'' Ty_u32 1,
      Int_Const ''RTE_MACHINE_CPUFLAG_SSE3'' Ty_u32 1,
      Int_Const ''RTE_MACHINE_CPUFLAG_SSE4_1'' Ty_u32 1,
      Int_Const ''RTE_MACHINE_CPUFLAG_SSE4_2'' Ty_u32 1,
      Int_Const ''RTE_MACHINE_CPUFLAG_SSSE3'' Ty_u32 1, Int_Const ''RTE_MAX_ETHPORTS'' Ty_u32 32,
      Int_Const ''RTE_MAX_LCORE'' Ty_u32 128, Int_Const ''RTE_MAX_NUMA_NODES'' Ty_u32 4,
      Int_Const ''RTE_MAX_VFIO_GROUPS'' Ty_u32 64, Int_Const ''RTE_PORT_PCAP'' Ty_u32 1,
      Bytes_Const ''RTE_TOOLCHAIN'' 4 (''gcc'' @ [CHR 0x00]),
      Int_Const ''RTE_TOOLCHAIN_GCC'' Ty_u32 1, Int_Const ''RTE_VER_MINOR'' Ty_u32 1,
      Int_Const ''RTE_VER_MONTH'' Ty_u32 11, Int_Const ''RTE_VER_RELEASE'' Ty_u32 99,
      Bytes_Const ''RTE_VER_SUFFIX'' 1 [CHR 0x00], Int_Const ''RTE_VER_YEAR'' Ty_u32 19,
      Int_Const ''RTE_VIRTIO_USER'' Ty_u32 1, Int_Const ''RTE_EXEC_ENV_LINUXAPP'' Ty_u32 1,
      Bytes_Const ''RTE_VER_PREFIX'' 5 (''DPDK'' @ [CHR 0x00]),
      Int_Const ''RTE_MAX_HEAPS'' Ty_u32 32, Int_Const ''RTE_MAX_MEMSEG_LISTS'' Ty_u32 128,
      Int_Const ''RTE_MAX_MEMSEG_PER_LIST'' Ty_u32 8192,
      Int_Const ''RTE_MAX_MEM_MB_PER_LIST'' Ty_u32 32768,
      Int_Const ''RTE_MAX_MEMSEG_PER_TYPE'' Ty_u32 32768,
      Int_Const ''RTE_MAX_MEM_MB_PER_TYPE'' Ty_u32 65536,
      Int_Const ''RTE_MAX_MEM_MB'' Ty_u32 524288, Int_Const ''RTE_MAX_MEMZONE'' Ty_u32 2560,
      Int_Const ''RTE_MAX_TAILQ'' Ty_u32 32, Int_Const ''RTE_BACKTRACE'' Ty_u32 1,
      Int_Const ''RTE_MAX_VFIO_CONTAINERS'' Ty_u32 64,
      Int_Const ''RTE_CONTIGMEM_MAX_NUM_BUFS'' Ty_u32 64,
      Int_Const ''RTE_CONTIGMEM_DEFAULT_NUM_BUFS'' Ty_u32 1,
      Int_Const ''RTE_CONTIGMEM_DEFAULT_BUF_SIZE'' Ty_u32 536870912,
      Int_Const ''RTE_MEMPOOL_CACHE_MAX_SIZE'' Ty_u32 512,
      Bytes_Const ''RTE_MBUF_DEFAULT_MEMPOOL_OPS'' 11 (''ring_mp_mc'' @ [CHR 0x00]),
      Int_Const ''RTE_MBUF_REFCNT_ATOMIC'' Ty_u32 1,
      Int_Const ''RTE_PKTMBUF_HEADROOM'' Ty_u32 128,
      Int_Const ''RTE_MAX_QUEUES_PER_PORT'' Ty_u32 1024,
      Int_Const ''RTE_ETHDEV_QUEUE_STAT_CNTRS'' Ty_u32 16,
      Int_Const ''RTE_ETHDEV_RXTX_CALLBACKS'' Ty_u32 1,
      Int_Const ''RTE_CRYPTO_MAX_DEVS'' Ty_u32 64,
      Int_Const ''RTE_CRYPTODEV_NAME_LEN'' Ty_u32 64,
      Int_Const ''RTE_COMPRESS_MAX_DEVS'' Ty_u32 64, Int_Const ''RTE_EVENT_MAX_DEVS'' Ty_u32 16,
      Int_Const ''RTE_EVENT_MAX_QUEUES_PER_DEV'' Ty_u32 64,
      Int_Const ''RTE_EVENT_TIMER_ADAPTER_NUM_MAX'' Ty_u32 32,
      Int_Const ''RTE_EVENT_ETH_INTR_RING_SIZE'' Ty_u32 1024,
      Int_Const ''RTE_EVENT_CRYPTO_ADAPTER_MAX_INSTANCE'' Ty_u32 32,
      Int_Const ''RTE_EVENT_ETH_TX_ADAPTER_MAX_INSTANCE'' Ty_u32 32,
      Int_Const ''RTE_RAWDEV_MAX_DEVS'' Ty_u32 64,
      Int_Const ''RTE_LIBRTE_IP_FRAG_MAX_FRAG'' Ty_u32 4,
      Int_Const ''RTE_MAX_LCORE_FREQS'' Ty_u32 64,
      Int_Const ''RTE_SCHED_PORT_N_GRINDERS'' Ty_u32 8,
      Int_Const ''RTE_KNI_PREEMPT_DEFAULT'' Ty_u32 1,
      Int_Const ''RTE_PMD_QAT_MAX_PCI_DEVICES'' Ty_u32 48,
      Int_Const ''RTE_PMD_QAT_COMP_SGL_MAX_SEGMENTS'' Ty_u32 16,
      Int_Const ''RTE_PMD_QAT_COMP_IM_BUFFER_SIZE'' Ty_u32 65536,
      Int_Const ''RTE_MAX_VIRTIO_CRYPTO'' Ty_u32 32,
      Int_Const ''RTE_LIBRTE_DPAA_MAX_CRYPTODEV'' Ty_u32 4,
      Int_Const ''RTE_LIBRTE_FM10K_RX_OLFLAGS_ENABLE'' Ty_u32 1,
      Int_Const ''RTE_LIBRTE_I40E_RX_ALLOW_BULK_ALLOC'' Ty_u32 1,
      Int_Const ''RTE_LIBRTE_I40E_QUEUE_NUM_PER_PF'' Ty_u32 64,
      Int_Const ''RTE_LIBRTE_I40E_QUEUE_NUM_PER_VF'' Ty_u32 4,
      Int_Const ''RTE_LIBRTE_I40E_QUEUE_NUM_PER_VM'' Ty_u32 4,
      Int_Const ''RTE_PMD_RING_MAX_RX_RINGS'' Ty_u32 16,
      Int_Const ''RTE_PMD_RING_MAX_TX_RINGS'' Ty_u32 16,
      Bytes_Const ''RTE_LIBRTE_QEDE_FW'' 1 [CHR 0x00], Int_Const ''RTE_PRIORITY_LOG'' Ty_u32 101,
      Int_Const ''RTE_PRIORITY_BUS'' Ty_u32 110, Int_Const ''RTE_PRIORITY_CLASS'' Ty_u32 120,
      Int_Const ''RTE_PRIORITY_LAST'' Ty_u32 65535, Int_Const ''RTE_CACHE_LINE_MASK'' Ty_u32 63,
      Int_Const ''RTE_CACHE_LINE_SIZE_LOG2'' Ty_u32 6,
      Int_Const ''RTE_CACHE_LINE_MIN_SIZE'' Ty_u32 64]"

section \<open>Environment\<close>

text \<open>Log types and levels, interrupts, transactions, memory zones, rings and pools.\<close>

definition eal_constants :: "c_constant list" where
  "eal_constants = [Int_Const ''RTE_LOGTYPE_EAL'' Ty_u32 0,
      Int_Const ''RTE_LOGTYPE_MALLOC'' Ty_u32 1, Int_Const ''RTE_LOGTYPE_RING'' Ty_u32 2,
      Int_Const ''RTE_LOGTYPE_MEMPOOL'' Ty_u32 3, Int_Const ''RTE_LOGTYPE_TIMER'' Ty_u32 4,
      Int_Const ''RTE_LOGTYPE_PMD'' Ty_u32 5, Int_Const ''RTE_LOGTYPE_HASH'' Ty_u32 6,
      Int_Const ''RTE_LOGTYPE_LPM'' Ty_u32 7, Int_Const ''RTE_LOGTYPE_KNI'' Ty_u32 8,
      Int_Const ''RTE_LOGTYPE_ACL'' Ty_u32 9, Int_Const ''RTE_LOGTYPE_POWER'' Ty_u32 10,
      Int_Const ''RTE_LOGTYPE_METER'' Ty_u32 11, Int_Const ''RTE_LOGTYPE_SCHED'' Ty_u32 12,
      Int_Const ''RTE_LOGTYPE_PORT'' Ty_u32 13, Int_Const ''RTE_LOGTYPE_TABLE'' Ty_u32 14,
      Int_Const ''RTE_LOGTYPE_PIPELINE'' Ty_u32 15, Int_Const ''RTE_LOGTYPE_MBUF'' Ty_u32 16,
      Int_Const ''RTE_LOGTYPE_CRYPTODEV'' Ty_u32 17, Int_Const ''RTE_LOGTYPE_EFD'' Ty_u32 18,
      Int_Const ''RTE_LOGTYPE_EVENTDEV'' Ty_u32 19, Int_Const ''RTE_LOGTYPE_GSO'' Ty_u32 20,
      Int_Const ''RTE_LOGTYPE_USER1'' Ty_u32 24, Int_Const ''RTE_LOGTYPE_USER2'' Ty_u32 25,
      Int_Const ''RTE_LOGTYPE_USER3'' Ty_u32 26, Int_Const ''RTE_LOGTYPE_USER4'' Ty_u32 27,
      Int_Const ''RTE_LOGTYPE_USER5'' Ty_u32 28, Int_Const ''RTE_LOGTYPE_USER6'' Ty_u32 29,
      Int_Const ''RTE_LOGTYPE_USER7'' Ty_u32 30, Int_Const ''RTE_LOGTYPE_USER8'' Ty_u32 31,
      Int_Const ''RTE_LOGTYPE_FIRST_EXT_ID'' Ty_u32 32, Int_Const ''RTE_LOG_EMERG'' Ty_u32 1,
      Int_Const ''RTE_LOG_ALERT'' Ty_u32 2, Int_Const ''RTE_LOG_CRIT'' Ty_u32 3,
      Int_Const ''RTE_LOG_ERR'' Ty_u32 4, Int_Const ''RTE_LOG_WARNING'' Ty_u32 5,
      Int_Const ''RTE_LOG_NOTICE'' Ty_u32 6, Int_Const ''RTE_LOG_INFO'' Ty_u32 7,
      Int_Const ''RTE_LOG_DEBUG'' Ty_u32 8, Int_Const ''RTE_DEV_NAME_MAX_LEN'' Ty_u32 64,
      Int_Const ''RTE_MAGIC'' Ty_u32 19820526, Int_Const ''RTE_MAX_THREAD_NAME_LEN'' Ty_u32 16,
      Int_Const ''RTE_MP_MAX_FD_NUM'' Ty_u32 8, Int_Const ''RTE_MP_MAX_NAME_LEN'' Ty_u32 64,
      Int_Const ''RTE_MP_MAX_PARAM_LEN'' Ty_u32 256,
      Int_Const ''RTE_MAX_RXTX_INTR_VEC_ID'' Ty_u32 512,
      Int_Const ''RTE_INTR_VEC_ZERO_OFFSET'' Ty_u32 0,
      Int_Const ''RTE_INTR_VEC_RXTX_OFFSET'' Ty_u32 1, Int_Const ''RTE_INTR_EVENT_ADD'' Ty_u32 1,
      Int_Const ''RTE_INTR_EVENT_DEL'' Ty_u32 2, Int_Const ''RTE_EPOLL_PER_THREAD'' Ty_i32 (-1),
      Int_Const ''RTE_XBEGIN_STARTED'' Ty_i32 (-1), Int_Const ''RTE_XABORT_EXPLICIT'' Ty_u32 1,
      Int_Const ''RTE_XABORT_RETRY'' Ty_u32 2, Int_Const ''RTE_XABORT_CONFLICT'' Ty_u32 4,
      Int_Const ''RTE_XABORT_CAPACITY'' Ty_u32 8, Int_Const ''RTE_XABORT_DEBUG'' Ty_u32 16,
      Int_Const ''RTE_XABORT_NESTED'' Ty_u32 32, Int_Const ''RTE_RTM_MAX_RETRIES'' Ty_u32 20,
      Int_Const ''RTE_XABORT_LOCK_BUSY'' Ty_u32 255,
      Int_Const ''RTE_FBARRAY_NAME_LEN'' Ty_u32 64,
      Int_Const ''RTE_MEMSEG_FLAG_DO_NOT_FREE'' Ty_u32 1,
      Int_Const ''RTE_MEM_EVENT_CALLBACK_NAME_LEN'' Ty_u32 64,
      Int_Const ''RTE_MEM_ALLOC_VALIDATOR_NAME_LEN'' Ty_u32 64,
      Int_Const ''RTE_MEMZONE_2MB'' Ty_u32 1, Int_Const ''RTE_MEMZONE_1GB'' Ty_u32 2,
      Int_Const ''RTE_MEMZONE_16MB'' Ty_u32 256, Int_Const ''RTE_MEMZONE_16GB'' Ty_u32 512,
      Int_Const ''RTE_MEMZONE_256KB'' Ty_u32 65536,
      Int_Const ''RTE_MEMZONE_256MB'' Ty_u32 131072,
      Int_Const ''RTE_MEMZONE_512MB'' Ty_u32 262144, Int_Const ''RTE_MEMZONE_4GB'' Ty_u32 524288,
      Int_Const ''RTE_MEMZONE_SIZE_HINT_ONLY'' Ty_u32 4,
      Int_Const ''RTE_MEMZONE_IOVA_CONTIG'' Ty_u32 1048576,
      Int_Const ''RTE_MEMZONE_NAMESIZE'' Ty_u32 32,
      Bytes_Const ''RTE_TAILQ_RING_NAME'' 9 (''RTE_RING'' @ [CHR 0x00]),
      Bytes_Const ''RTE_RING_MZ_PREFIX'' 4 (''RG_'' @ [CHR 0x00]),
      Int_Const ''RTE_RING_SZ_MASK'' Ty_u32 2147483647,
      Int_Const ''RTE_MEMPOOL_HEADER_COOKIE1'' Ty_i64 (-4982197544707871147),
      Int_Const ''RTE_MEMPOOL_HEADER_COOKIE2'' Ty_i64 (-941548164385788331),
      Int_Const ''RTE_MEMPOOL_TRAILER_COOKIE'' Ty_i64 (-5921418378119291987),
      Bytes_Const ''RTE_MEMPOOL_MZ_PREFIX'' 4 (''MP_'' @ [CHR 0x00]),
      Bytes_Const ''RTE_MEMPOOL_MZ_FORMAT'' 6 (''MP_%s'' @ [CHR 0x00]),
      Int_Const ''MEMPOOL_PG_NUM_DEFAULT'' Ty_u32 1, Int_Const ''RTE_MEMPOOL_ALIGN'' Ty_u32 64,
      Int_Const ''RTE_MEMPOOL_ALIGN_MASK'' Ty_u32 63, Int_Const ''MEMPOOL_F_NO_SPREAD'' Ty_u32 1,
      Int_Const ''MEMPOOL_F_NO_CACHE_ALIGN'' Ty_u32 2, Int_Const ''MEMPOOL_F_SP_PUT'' Ty_u32 4,
      Int_Const ''MEMPOOL_F_SC_GET'' Ty_u32 8, Int_Const ''MEMPOOL_F_POOL_CREATED'' Ty_u32 16,
      Int_Const ''MEMPOOL_F_NO_IOVA_CONTIG'' Ty_u32 32,
      Int_Const ''MEMPOOL_F_NO_PHYS_CONTIG'' Ty_u32 32,
      Int_Const ''RTE_MEMPOOL_OPS_NAMESIZE'' Ty_u32 32,
      Int_Const ''RTE_MEMPOOL_POPULATE_F_ALIGN_OBJ'' Ty_u32 1,
      Int_Const ''RTE_MEMPOOL_MAX_OPS_IDX'' Ty_u32 16, Int_Const ''RTE_BIG_ENDIAN'' Ty_u32 1,
      Int_Const ''RTE_LITTLE_ENDIAN'' Ty_u32 2, Int_Const ''RTE_BYTE_ORDER'' Ty_u32 2]"

section \<open>Packet types\<close>

text \<open>The packet types of each layer, and the masks of the layers.\<close>

definition ptype_constants :: "c_constant list" where
  "ptype_constants = [Int_Const ''RTE_PTYPE_UNKNOWN'' Ty_u32 0,
      Int_Const ''RTE_PTYPE_L2_ETHER'' Ty_u32 1,
      Int_Const ''RTE_PTYPE_L2_ETHER_TIMESYNC'' Ty_u32 2,
      Int_Const ''RTE_PTYPE_L2_ETHER_ARP'' Ty_u32 3,
      Int_Const ''RTE_PTYPE_L2_ETHER_LLDP'' Ty_u32 4,
      Int_Const ''RTE_PTYPE_L2_ETHER_NSH'' Ty_u32 5,
      Int_Const ''RTE_PTYPE_L2_ETHER_VLAN'' Ty_u32 6,
      Int_Const ''RTE_PTYPE_L2_ETHER_QINQ'' Ty_u32 7,
      Int_Const ''RTE_PTYPE_L2_ETHER_PPPOE'' Ty_u32 8,
      Int_Const ''RTE_PTYPE_L2_ETHER_FCOE'' Ty_u32 9,
      Int_Const ''RTE_PTYPE_L2_ETHER_MPLS'' Ty_u32 10, Int_Const ''RTE_PTYPE_L2_MASK'' Ty_u32 15,
      Int_Const ''RTE_PTYPE_L3_IPV4'' Ty_u32 16, Int_Const ''RTE_PTYPE_L3_IPV4_EXT'' Ty_u32 48,
      Int_Const ''RTE_PTYPE_L3_IPV6'' Ty_u32 64,
      Int_Const ''RTE_PTYPE_L3_IPV4_EXT_UNKNOWN'' Ty_u32 144,
      Int_Const ''RTE_PTYPE_L3_IPV6_EXT'' Ty_u32 192,
      Int_Const ''RTE_PTYPE_L3_IPV6_EXT_UNKNOWN'' Ty_u32 224,
      Int_Const ''RTE_PTYPE_L3_MASK'' Ty_u32 240, Int_Const ''RTE_PTYPE_L4_TCP'' Ty_u32 256,
      Int_Const ''RTE_PTYPE_L4_UDP'' Ty_u32 512, Int_Const ''RTE_PTYPE_L4_FRAG'' Ty_u32 768,
      Int_Const ''RTE_PTYPE_L4_SCTP'' Ty_u32 1024, Int_Const ''RTE_PTYPE_L4_ICMP'' Ty_u32 1280,
      Int_Const ''RTE_PTYPE_L4_NONFRAG'' Ty_u32 1536,
      Int_Const ''RTE_PTYPE_L4_IGMP'' Ty_u32 1792, Int_Const ''RTE_PTYPE_L4_MASK'' Ty_u32 3840,
      Int_Const ''RTE_PTYPE_TUNNEL_IP'' Ty_u32 4096,
      Int_Const ''RTE_PTYPE_TUNNEL_GRE'' Ty_u32 8192,
      Int_Const ''RTE_PTYPE_TUNNEL_VXLAN'' Ty_u32 12288,
      Int_Const ''RTE_PTYPE_TUNNEL_NVGRE'' Ty_u32 16384,
      Int_Const ''RTE_PTYPE_TUNNEL_GENEVE'' Ty_u32 20480,
      Int_Const ''RTE_PTYPE_TUNNEL_GRENAT'' Ty_u32 24576,
      Int_Const ''RTE_PTYPE_TUNNEL_GTPC'' Ty_u32 28672,
      Int_Const ''RTE_PTYPE_TUNNEL_GTPU'' Ty_u32 32768,
      Int_Const ''RTE_PTYPE_TUNNEL_ESP'' Ty_u32 36864,
      Int_Const ''RTE_PTYPE_TUNNEL_L2TP'' Ty_u32 40960,
      Int_Const ''RTE_PTYPE_TUNNEL_VXLAN_GPE'' Ty_u32 45056,
      Int_Const ''RTE_PTYPE_TUNNEL_MPLS_IN_GRE'' Ty_u32 49152,
      Int_Const ''RTE_PTYPE_TUNNEL_MPLS_IN_UDP'' Ty_u32 53248,
      Int_Const ''RTE_PTYPE_TUNNEL_MASK'' Ty_u32 61440,
      Int_Const ''RTE_PTYPE_INNER_L2_ETHER'' Ty_u32 65536,
      Int_Const ''RTE_PTYPE_INNER_L2_ETHER_VLAN'' Ty_u32 131072,
      Int_Const ''RTE_PTYPE_INNER_L2_ETHER_QINQ'' Ty_u32 196608,
      Int_Const ''RTE_PTYPE_INNER_L2_MASK'' Ty_u32 983040,
      Int_Const ''RTE_PTYPE_INNER_L3_IPV4'' Ty_u32 1048576,
      Int_Const ''RTE_PTYPE_INNER_L3_IPV4_EXT'' Ty_u32 2097152,
      Int_Const ''RTE_PTYPE_INNER_L3_IPV6'' Ty_u32 3145728,
      Int_Const ''RTE_PTYPE_INNER_L3_IPV4_EXT_UNKNOWN'' Ty_u32 4194304,
      Int_Const ''RTE_PTYPE_INNER_L3_IPV6_EXT'' Ty_u32 5242880,
      Int_Const ''RTE_PTYPE_INNER_L3_IPV6_EXT_UNKNOWN'' Ty_u32 6291456,
      Int_Const ''RTE_PTYPE_INNER_L3_MASK'' Ty_u32 15728640,
      Int_Const ''RTE_PTYPE_INNER_L4_TCP'' Ty_u32 16777216,
      Int_Const ''RTE_PTYPE_INNER_L4_UDP'' Ty_u32 33554432,
      Int_Const ''RTE_PTYPE_INNER_L4_FRAG'' Ty_u32 50331648,
      Int_Const ''RTE_PTYPE_INNER_L4_SCTP'' Ty_u32 67108864,
      Int_Const ''RTE_PTYPE_INNER_L4_ICMP'' Ty_u32 83886080,
      Int_Const ''RTE_PTYPE_INNER_L4_NONFRAG'' Ty_u32 100663296,
      Int_Const ''RTE_PTYPE_INNER_L4_MASK'' Ty_u32 251658240,
      Int_Const ''RTE_PTYPE_ALL_MASK'' Ty_u32 268435455]"

section \<open>Packet flags\<close>

text \<open>The flags of received and sent packets.\<close>

definition packet_flags :: "c_constant list" where
  "packet_flags = [Int_Const ''PKT_RX_VLAN'' Ty_u32 1, Int_Const ''PKT_RX_RSS_HASH'' Ty_u32 2,
      Int_Const ''PKT_RX_FDIR'' Ty_u32 4, Int_Const ''PKT_RX_L4_CKSUM_BAD'' Ty_u32 8,
      Int_Const ''PKT_RX_IP_CKSUM_BAD'' Ty_u32 16, Int_Const ''PKT_RX_EIP_CKSUM_BAD'' Ty_u32 32,
      Int_Const ''PKT_RX_VLAN_STRIPPED'' Ty_u32 64,
      Int_Const ''PKT_RX_IP_CKSUM_MASK'' Ty_u32 144,
      Int_Const ''PKT_RX_IP_CKSUM_UNKNOWN'' Ty_u32 0,
      Int_Const ''PKT_RX_IP_CKSUM_GOOD'' Ty_u32 128,
      Int_Const ''PKT_RX_IP_CKSUM_NONE'' Ty_u32 144,
      Int_Const ''PKT_RX_L4_CKSUM_MASK'' Ty_u32 264,
      Int_Const ''PKT_RX_L4_CKSUM_UNKNOWN'' Ty_u32 0,
      Int_Const ''PKT_RX_L4_CKSUM_GOOD'' Ty_u32 256,
      Int_Const ''PKT_RX_L4_CKSUM_NONE'' Ty_u32 264,
      Int_Const ''PKT_RX_IEEE1588_PTP'' Ty_u32 512,
      Int_Const ''PKT_RX_IEEE1588_TMST'' Ty_u32 1024, Int_Const ''PKT_RX_FDIR_ID'' Ty_u32 8192,
      Int_Const ''PKT_RX_FDIR_FLX'' Ty_u32 16384,
      Int_Const ''PKT_RX_QINQ_STRIPPED'' Ty_u32 32768, Int_Const ''PKT_RX_LRO'' Ty_u32 65536,
      Int_Const ''PKT_RX_TIMESTAMP'' Ty_u32 131072,
      Int_Const ''PKT_RX_SEC_OFFLOAD'' Ty_u32 262144,
      Int_Const ''PKT_RX_SEC_OFFLOAD_FAILED'' Ty_u32 524288,
      Int_Const ''PKT_RX_QINQ'' Ty_u32 1048576,
      Int_Const ''PKT_RX_OUTER_L4_CKSUM_MASK'' Ty_u32 6291456,
      Int_Const ''PKT_RX_OUTER_L4_CKSUM_UNKNOWN'' Ty_u32 0,
      Int_Const ''PKT_RX_OUTER_L4_CKSUM_BAD'' Ty_u32 2097152,
      Int_Const ''PKT_RX_OUTER_L4_CKSUM_GOOD'' Ty_u32 4194304,
      Int_Const ''PKT_RX_OUTER_L4_CKSUM_INVALID'' Ty_u32 6291456,
      Int_Const ''PKT_FIRST_FREE'' Ty_u32 8388608,
      Int_Const ''PKT_LAST_FREE'' Ty_u64 1099511627776,
      Int_Const ''PKT_TX_OUTER_UDP_CKSUM'' Ty_u64 2199023255552,
      Int_Const ''PKT_TX_UDP_SEG'' Ty_u64 4398046511104,
      Int_Const ''PKT_TX_SEC_OFFLOAD'' Ty_u64 8796093022208,
      Int_Const ''PKT_TX_MACSEC'' Ty_u64 17592186044416,
      Int_Const ''PKT_TX_TUNNEL_VXLAN'' Ty_u64 35184372088832,
      Int_Const ''PKT_TX_TUNNEL_GRE'' Ty_u64 70368744177664,
      Int_Const ''PKT_TX_TUNNEL_IPIP'' Ty_u64 105553116266496,
      Int_Const ''PKT_TX_TUNNEL_GENEVE'' Ty_u64 140737488355328,
      Int_Const ''PKT_TX_TUNNEL_MPLSINUDP'' Ty_u64 175921860444160,
      Int_Const ''PKT_TX_TUNNEL_VXLAN_GPE'' Ty_u64 211106232532992,
      Int_Const ''PKT_TX_TUNNEL_GTP'' Ty_u64 246290604621824,
      Int_Const ''PKT_TX_TUNNEL_IP'' Ty_u64 457396837154816,
      Int_Const ''PKT_TX_TUNNEL_UDP'' Ty_u64 492581209243648,
      Int_Const ''PKT_TX_TUNNEL_MASK'' Ty_u64 527765581332480,
      Int_Const ''PKT_TX_QINQ'' Ty_u64 562949953421312,
      Int_Const ''PKT_TX_QINQ_PKT'' Ty_u64 562949953421312,
      Int_Const ''PKT_TX_TCP_SEG'' Ty_u64 1125899906842624,
      Int_Const ''PKT_TX_IEEE1588_TMST'' Ty_u64 2251799813685248,
      Int_Const ''PKT_TX_L4_NO_CKSUM'' Ty_u32 0,
      Int_Const ''PKT_TX_TCP_CKSUM'' Ty_u64 4503599627370496,
      Int_Const ''PKT_TX_SCTP_CKSUM'' Ty_u64 9007199254740992,
      Int_Const ''PKT_TX_UDP_CKSUM'' Ty_u64 13510798882111488,
      Int_Const ''PKT_TX_L4_MASK'' Ty_u64 13510798882111488,
      Int_Const ''PKT_TX_IP_CKSUM'' Ty_u64 18014398509481984,
      Int_Const ''PKT_TX_IPV4'' Ty_u64 36028797018963968,
      Int_Const ''PKT_TX_IPV6'' Ty_u64 72057594037927936,
      Int_Const ''PKT_TX_VLAN'' Ty_u64 144115188075855872,
      Int_Const ''PKT_TX_VLAN_PKT'' Ty_u64 144115188075855872,
      Int_Const ''PKT_TX_OUTER_IP_CKSUM'' Ty_u64 288230376151711744,
      Int_Const ''PKT_TX_OUTER_IPV4'' Ty_u64 576460752303423488,
      Int_Const ''PKT_TX_OUTER_IPV6'' Ty_u64 1152921504606846976,
      Int_Const ''PKT_TX_OFFLOAD_MASK'' Ty_u64 2305840810190438400]"

section \<open>Ethernet\<close>

text \<open>Buffer sizes, the Ethernet header, and Ethertypes.\<close>

definition ether_constants :: "c_constant list" where
  "ether_constants = [Int_Const ''RTE_MBUF_PRIV_ALIGN'' Ty_u32 8,
      Int_Const ''RTE_MBUF_DEFAULT_DATAROOM'' Ty_u32 2048,
      Int_Const ''RTE_MBUF_DEFAULT_BUF_SIZE'' Ty_u32 2176,
      Int_Const ''RTE_MBUF_MAX_NB_SEGS'' Ty_u32 65535, Int_Const ''RTE_ETHER_ADDR_LEN'' Ty_u32 6,
      Int_Const ''RTE_ETHER_TYPE_LEN'' Ty_u32 2, Int_Const ''RTE_ETHER_CRC_LEN'' Ty_u32 4,
      Int_Const ''RTE_ETHER_HDR_LEN'' Ty_u32 14, Int_Const ''RTE_ETHER_MIN_LEN'' Ty_u32 64,
      Int_Const ''RTE_ETHER_MAX_LEN'' Ty_u32 1518, Int_Const ''RTE_ETHER_MTU'' Ty_u32 1500,
      Int_Const ''RTE_ETHER_MAX_VLAN_FRAME_LEN'' Ty_u32 1522,
      Int_Const ''RTE_ETHER_MAX_JUMBO_FRAME_LEN'' Ty_u32 16128,
      Int_Const ''RTE_ETHER_MAX_VLAN_ID'' Ty_u32 4095, Int_Const ''RTE_ETHER_MIN_MTU'' Ty_u32 68,
      Int_Const ''RTE_ETHER_LOCAL_ADMIN_ADDR'' Ty_u32 2,
      Int_Const ''RTE_ETHER_GROUP_ADDR'' Ty_u32 1,
      Int_Const ''RTE_ETHER_ADDR_FMT_SIZE'' Ty_u32 18,
      Int_Const ''RTE_ETHER_TYPE_IPV4'' Ty_u32 2048,
      Int_Const ''RTE_ETHER_TYPE_IPV6'' Ty_u32 34525,
      Int_Const ''RTE_ETHER_TYPE_ARP'' Ty_u32 2054,
      Int_Const ''RTE_ETHER_TYPE_RARP'' Ty_u32 32821,
      Int_Const ''RTE_ETHER_TYPE_VLAN'' Ty_u32 33024,
      Int_Const ''RTE_ETHER_TYPE_QINQ'' Ty_u32 34984,
      Int_Const ''RTE_ETHER_TYPE_PPPOE_DISCOVERY'' Ty_u32 34915,
      Int_Const ''RTE_ETHER_TYPE_PPPOE_SESSION'' Ty_u32 34916,
      Int_Const ''RTE_ETHER_TYPE_ETAG'' Ty_u32 35135,
      Int_Const ''RTE_ETHER_TYPE_1588'' Ty_u32 35063,
      Int_Const ''RTE_ETHER_TYPE_SLOW'' Ty_u32 34825,
      Int_Const ''RTE_ETHER_TYPE_TEB'' Ty_u32 25944,
      Int_Const ''RTE_ETHER_TYPE_LLDP'' Ty_u32 35020,
      Int_Const ''RTE_ETHER_TYPE_MPLS'' Ty_u32 34887,
      Int_Const ''RTE_ETHER_TYPE_MPLSM'' Ty_u32 34888,
      Int_Const ''RTE_ETH_MODULE_SFF_8079'' Ty_u32 1,
      Int_Const ''RTE_ETH_MODULE_SFF_8079_LEN'' Ty_u32 256,
      Int_Const ''RTE_ETH_MODULE_SFF_8472'' Ty_u32 2,
      Int_Const ''RTE_ETH_MODULE_SFF_8472_LEN'' Ty_u32 512,
      Int_Const ''RTE_ETH_MODULE_SFF_8636'' Ty_u32 3,
      Int_Const ''RTE_ETH_MODULE_SFF_8636_LEN'' Ty_u32 256,
      Int_Const ''RTE_ETH_MODULE_SFF_8636_MAX_LEN'' Ty_u32 640,
      Int_Const ''RTE_ETH_MODULE_SFF_8436'' Ty_u32 4,
      Int_Const ''RTE_ETH_MODULE_SFF_8436_LEN'' Ty_u32 256,
      Int_Const ''RTE_ETH_MODULE_SFF_8436_MAX_LEN'' Ty_u32 640]"

section \<open>Links\<close>

text \<open>Link speeds and modes.\<close>

definition link_constants :: "c_constant list" where
  "link_constants = [Int_Const ''ETH_LINK_SPEED_AUTONEG'' Ty_u32 0,
      Int_Const ''ETH_LINK_SPEED_FIXED'' Ty_u32 1, Int_Const ''ETH_LINK_SPEED_10M_HD'' Ty_u32 2,
      Int_Const ''ETH_LINK_SPEED_10M'' Ty_u32 4, Int_Const ''ETH_LINK_SPEED_100M_HD'' Ty_u32 8,
      Int_Const ''ETH_LINK_SPEED_100M'' Ty_u32 16, Int_Const ''ETH_LINK_SPEED_1G'' Ty_u32 32,
      Int_Const ''ETH_LINK_SPEED_2_5G'' Ty_u32 64, Int_Const ''ETH_LINK_SPEED_5G'' Ty_u32 128,
      Int_Const ''ETH_LINK_SPEED_10G'' Ty_u32 256, Int_Const ''ETH_LINK_SPEED_20G'' Ty_u32 512,
      Int_Const ''ETH_LINK_SPEED_25G'' Ty_u32 1024, Int_Const ''ETH_LINK_SPEED_40G'' Ty_u32 2048,
      Int_Const ''ETH_LINK_SPEED_50G'' Ty_u32 4096, Int_Const ''ETH_LINK_SPEED_56G'' Ty_u32 8192,
      Int_Const ''ETH_LINK_SPEED_100G'' Ty_u32 16384, Int_Const ''ETH_SPEED_NUM_NONE'' Ty_u32 0,
      Int_Const ''ETH_SPEED_NUM_10M'' Ty_u32 10, Int_Const ''ETH_SPEED_NUM_100M'' Ty_u32 100,
      Int_Const ''ETH_SPEED_NUM_1G'' Ty_u32 1000, Int_Const ''ETH_SPEED_NUM_2_5G'' Ty_u32 2500,
      Int_Const ''ETH_SPEED_NUM_5G'' Ty_u32 5000, Int_Const ''ETH_SPEED_NUM_10G'' Ty_u32 10000,
      Int_Const ''ETH_SPEED_NUM_20G'' Ty_u32 20000, Int_Const ''ETH_SPEED_NUM_25G'' Ty_u32 25000,
      Int_Const ''ETH_SPEED_NUM_40G'' Ty_u32 40000, Int_Const ''ETH_SPEED_NUM_50G'' Ty_u32 50000,
      Int_Const ''ETH_SPEED_NUM_56G'' Ty_u32 56000,
      Int_Const ''ETH_SPEED_NUM_100G'' Ty_u32 100000,
      Int_Const ''ETH_LINK_HALF_DUPLEX'' Ty_u32 0, Int_Const ''ETH_LINK_FULL_DUPLEX'' Ty_u32 1,
      Int_Const ''ETH_LINK_DOWN'' Ty_u32 0, Int_Const ''ETH_LINK_UP'' Ty_u32 1,
      Int_Const ''ETH_LINK_FIXED'' Ty_u32 0, Int_Const ''ETH_LINK_AUTONEG'' Ty_u32 1,
      Int_Const ''ETH_MQ_RX_RSS_FLAG'' Ty_u32 1, Int_Const ''ETH_MQ_RX_DCB_FLAG'' Ty_u32 2,
      Int_Const ''ETH_MQ_RX_VMDQ_FLAG'' Ty_u32 4]"

section \<open>Flow types\<close>

text \<open>The flow types.\<close>

definition flow_constants :: "c_constant list" where
  "flow_constants = [Int_Const ''RTE_ETH_FLOW_UNKNOWN'' Ty_u32 0,
      Int_Const ''RTE_ETH_FLOW_RAW'' Ty_u32 1, Int_Const ''RTE_ETH_FLOW_IPV4'' Ty_u32 2,
      Int_Const ''RTE_ETH_FLOW_FRAG_IPV4'' Ty_u32 3,
      Int_Const ''RTE_ETH_FLOW_NONFRAG_IPV4_TCP'' Ty_u32 4,
      Int_Const ''RTE_ETH_FLOW_NONFRAG_IPV4_UDP'' Ty_u32 5,
      Int_Const ''RTE_ETH_FLOW_NONFRAG_IPV4_SCTP'' Ty_u32 6,
      Int_Const ''RTE_ETH_FLOW_NONFRAG_IPV4_OTHER'' Ty_u32 7,
      Int_Const ''RTE_ETH_FLOW_IPV6'' Ty_u32 8, Int_Const ''RTE_ETH_FLOW_FRAG_IPV6'' Ty_u32 9,
      Int_Const ''RTE_ETH_FLOW_NONFRAG_IPV6_TCP'' Ty_u32 10,
      Int_Const ''RTE_ETH_FLOW_NONFRAG_IPV6_UDP'' Ty_u32 11,
      Int_Const ''RTE_ETH_FLOW_NONFRAG_IPV6_SCTP'' Ty_u32 12,
      Int_Const ''RTE_ETH_FLOW_NONFRAG_IPV6_OTHER'' Ty_u32 13,
      Int_Const ''RTE_ETH_FLOW_L2_PAYLOAD'' Ty_u32 14,
      Int_Const ''RTE_ETH_FLOW_IPV6_EX'' Ty_u32 15,
      Int_Const ''RTE_ETH_FLOW_IPV6_TCP_EX'' Ty_u32 16,
      Int_Const ''RTE_ETH_FLOW_IPV6_UDP_EX'' Ty_u32 17,
      Int_Const ''RTE_ETH_FLOW_PORT'' Ty_u32 18, Int_Const ''RTE_ETH_FLOW_VXLAN'' Ty_u32 19,
      Int_Const ''RTE_ETH_FLOW_GENEVE'' Ty_u32 20, Int_Const ''RTE_ETH_FLOW_NVGRE'' Ty_u32 21,
      Int_Const ''RTE_ETH_FLOW_VXLAN_GPE'' Ty_u32 22, Int_Const ''RTE_ETH_FLOW_GTPU'' Ty_u32 23,
      Int_Const ''RTE_ETH_FLOW_MAX'' Ty_u32 24]"

section \<open>Receive-side scaling\<close>

text \<open>The hash functions of receive-side scaling.\<close>

definition rss_constants :: "c_constant list" where
  "rss_constants = [Int_Const ''ETH_RSS_IPV4'' Ty_u32 4,
      Int_Const ''ETH_RSS_FRAG_IPV4'' Ty_u32 8, Int_Const ''ETH_RSS_NONFRAG_IPV4_TCP'' Ty_u32 16,
      Int_Const ''ETH_RSS_NONFRAG_IPV4_UDP'' Ty_u32 32,
      Int_Const ''ETH_RSS_NONFRAG_IPV4_SCTP'' Ty_u32 64,
      Int_Const ''ETH_RSS_NONFRAG_IPV4_OTHER'' Ty_u32 128, Int_Const ''ETH_RSS_IPV6'' Ty_u32 256,
      Int_Const ''ETH_RSS_FRAG_IPV6'' Ty_u32 512,
      Int_Const ''ETH_RSS_NONFRAG_IPV6_TCP'' Ty_u32 1024,
      Int_Const ''ETH_RSS_NONFRAG_IPV6_UDP'' Ty_u32 2048,
      Int_Const ''ETH_RSS_NONFRAG_IPV6_SCTP'' Ty_u32 4096,
      Int_Const ''ETH_RSS_NONFRAG_IPV6_OTHER'' Ty_u32 8192,
      Int_Const ''ETH_RSS_L2_PAYLOAD'' Ty_u32 16384, Int_Const ''ETH_RSS_IPV6_EX'' Ty_u32 32768,
      Int_Const ''ETH_RSS_IPV6_TCP_EX'' Ty_u32 65536,
      Int_Const ''ETH_RSS_IPV6_UDP_EX'' Ty_u32 131072, Int_Const ''ETH_RSS_PORT'' Ty_u32 262144,
      Int_Const ''ETH_RSS_VXLAN'' Ty_u32 524288, Int_Const ''ETH_RSS_GENEVE'' Ty_u32 1048576,
      Int_Const ''ETH_RSS_NVGRE'' Ty_u32 2097152, Int_Const ''ETH_RSS_GTPU'' Ty_u32 8388608,
      Int_Const ''ETH_RSS_L3_SRC_ONLY'' Ty_i64 (-9223372036854775808),
      Int_Const ''ETH_RSS_L3_DST_ONLY'' Ty_u64 4611686018427387904,
      Int_Const ''ETH_RSS_L4_SRC_ONLY'' Ty_u64 2305843009213693952,
      Int_Const ''ETH_RSS_L4_DST_ONLY'' Ty_u64 1152921504606846976,
      Int_Const ''ETH_RSS_IP'' Ty_u32 41868, Int_Const ''ETH_RSS_UDP'' Ty_u32 133152,
      Int_Const ''ETH_RSS_TCP'' Ty_u32 66576, Int_Const ''ETH_RSS_SCTP'' Ty_u32 4160,
      Int_Const ''ETH_RSS_TUNNEL'' Ty_u32 3670016,
      Int_Const ''ETH_RSS_PROTO_MASK'' Ty_u32 4194300]"

section \<open>Queues\<close>

text \<open>Redirection tables, traffic classes, VLANs and mirroring.\<close>

definition queue_constants :: "c_constant list" where
  "queue_constants = [Int_Const ''ETH_RSS_RETA_SIZE_64'' Ty_u32 64,
      Int_Const ''ETH_RSS_RETA_SIZE_128'' Ty_u32 128,
      Int_Const ''ETH_RSS_RETA_SIZE_256'' Ty_u32 256,
      Int_Const ''ETH_RSS_RETA_SIZE_512'' Ty_u32 512,
      Int_Const ''RTE_RETA_GROUP_SIZE'' Ty_u32 64,
      Int_Const ''ETH_VMDQ_MAX_VLAN_FILTERS'' Ty_u32 64,
      Int_Const ''ETH_DCB_NUM_USER_PRIORITIES'' Ty_u32 8,
      Int_Const ''ETH_VMDQ_DCB_NUM_QUEUES'' Ty_u32 128,
      Int_Const ''ETH_DCB_NUM_QUEUES'' Ty_u32 128, Int_Const ''ETH_DCB_PG_SUPPORT'' Ty_u32 1,
      Int_Const ''ETH_DCB_PFC_SUPPORT'' Ty_u32 2, Int_Const ''ETH_VLAN_STRIP_OFFLOAD'' Ty_u32 1,
      Int_Const ''ETH_VLAN_FILTER_OFFLOAD'' Ty_u32 2,
      Int_Const ''ETH_VLAN_EXTEND_OFFLOAD'' Ty_u32 4,
      Int_Const ''ETH_QINQ_STRIP_OFFLOAD'' Ty_u32 8, Int_Const ''ETH_VLAN_STRIP_MASK'' Ty_u32 1,
      Int_Const ''ETH_VLAN_FILTER_MASK'' Ty_u32 2, Int_Const ''ETH_VLAN_EXTEND_MASK'' Ty_u32 4,
      Int_Const ''ETH_QINQ_STRIP_MASK'' Ty_u32 8, Int_Const ''ETH_VLAN_ID_MAX'' Ty_u32 4095,
      Int_Const ''ETH_NUM_RECEIVE_MAC_ADDR'' Ty_u32 128,
      Int_Const ''ETH_VMDQ_NUM_UC_HASH_ARRAY'' Ty_u32 128,
      Int_Const ''ETH_VMDQ_ACCEPT_UNTAG'' Ty_u32 1,
      Int_Const ''ETH_VMDQ_ACCEPT_HASH_MC'' Ty_u32 2,
      Int_Const ''ETH_VMDQ_ACCEPT_HASH_UC'' Ty_u32 4,
      Int_Const ''ETH_VMDQ_ACCEPT_BROADCAST'' Ty_u32 8,
      Int_Const ''ETH_VMDQ_ACCEPT_MULTICAST'' Ty_u32 16,
      Int_Const ''ETH_MIRROR_MAX_VLANS'' Ty_u32 64,
      Int_Const ''ETH_MIRROR_VIRTUAL_POOL_UP'' Ty_u32 1,
      Int_Const ''ETH_MIRROR_UPLINK_PORT'' Ty_u32 2,
      Int_Const ''ETH_MIRROR_DOWNLINK_PORT'' Ty_u32 4, Int_Const ''ETH_MIRROR_VLAN'' Ty_u32 8,
      Int_Const ''ETH_MIRROR_VIRTUAL_POOL_DOWN'' Ty_u32 16,
      Int_Const ''RTE_ETH_MAX_HAIRPIN_PEERS'' Ty_u32 32]"

section \<open>Headers\<close>

text \<open>ARP, ICMP, IP and TCP headers.\<close>

definition header_constants :: "c_constant list" where
  "header_constants = [Int_Const ''RTE_ARP_HRD_ETHER'' Ty_u32 1,
      Int_Const ''RTE_ARP_OP_REQUEST'' Ty_u32 1, Int_Const ''RTE_ARP_OP_REPLY'' Ty_u32 2,
      Int_Const ''RTE_ARP_OP_REVREQUEST'' Ty_u32 3, Int_Const ''RTE_ARP_OP_REVREPLY'' Ty_u32 4,
      Int_Const ''RTE_ARP_OP_INVREQUEST'' Ty_u32 8, Int_Const ''RTE_ARP_OP_INVREPLY'' Ty_u32 9,
      Int_Const ''RTE_IP_ICMP_ECHO_REPLY'' Ty_u32 0,
      Int_Const ''RTE_IP_ICMP_ECHO_REQUEST'' Ty_u32 8,
      Int_Const ''RTE_IPV4_MAX_PKT_LEN'' Ty_u32 65535,
      Int_Const ''RTE_IPV4_HDR_IHL_MASK'' Ty_u32 15,
      Int_Const ''RTE_IPV4_IHL_MULTIPLIER'' Ty_u32 4,
      Int_Const ''RTE_IPV4_HDR_DSCP_MASK'' Ty_u32 252,
      Int_Const ''RTE_IPV4_HDR_ECN_MASK'' Ty_u32 3, Int_Const ''RTE_IPV4_HDR_ECN_CE'' Ty_u32 3,
      Int_Const ''RTE_IPV4_HDR_DF_SHIFT'' Ty_u32 14,
      Int_Const ''RTE_IPV4_HDR_MF_SHIFT'' Ty_u32 13,
      Int_Const ''RTE_IPV4_HDR_FO_SHIFT'' Ty_u32 3,
      Int_Const ''RTE_IPV4_HDR_DF_FLAG'' Ty_u32 16384,
      Int_Const ''RTE_IPV4_HDR_MF_FLAG'' Ty_u32 8192,
      Int_Const ''RTE_IPV4_HDR_OFFSET_MASK'' Ty_u32 8191,
      Int_Const ''RTE_IPV4_HDR_OFFSET_UNITS'' Ty_u32 8, Int_Const ''RTE_IPV4_MIN_IHL'' Ty_u32 5,
      Int_Const ''RTE_IPV4_VHL_DEF'' Ty_u32 69, Int_Const ''RTE_IPV6_HDR_FL_SHIFT'' Ty_u32 0,
      Int_Const ''RTE_IPV6_HDR_TC_SHIFT'' Ty_u32 20,
      Int_Const ''RTE_IPV6_HDR_FL_MASK'' Ty_u32 1048575,
      Int_Const ''RTE_IPV6_HDR_TC_MASK'' Ty_u32 267386880,
      Int_Const ''RTE_IPV6_HDR_DSCP_MASK'' Ty_u32 264241152,
      Int_Const ''RTE_IPV6_HDR_ECN_MASK'' Ty_u32 3145728,
      Int_Const ''RTE_IPV6_HDR_ECN_CE'' Ty_u32 3145728,
      Int_Const ''RTE_IPV6_FRAG_HDR_SIZE'' Ty_u32 8, Int_Const ''RTE_TCP_CWR_FLAG'' Ty_u32 128,
      Int_Const ''RTE_TCP_ECE_FLAG'' Ty_u32 64, Int_Const ''RTE_TCP_URG_FLAG'' Ty_u32 32,
      Int_Const ''RTE_TCP_ACK_FLAG'' Ty_u32 16, Int_Const ''RTE_TCP_PSH_FLAG'' Ty_u32 8,
      Int_Const ''RTE_TCP_RST_FLAG'' Ty_u32 4, Int_Const ''RTE_TCP_SYN_FLAG'' Ty_u32 2,
      Int_Const ''RTE_TCP_FIN_FLAG'' Ty_u32 1]"

section \<open>Filters\<close>

text \<open>Dynamic fields and packet filters.\<close>

definition filter_constants :: "c_constant list" where
  "filter_constants = [Int_Const ''RTE_MBUF_DYN_NAMESIZE'' Ty_u32 64,
      Bytes_Const ''RTE_MBUF_DYNFIELD_METADATA_NAME'' 27 (''rte_flow_dynfield_metadata'' @ [CHR 0x00]),
      Bytes_Const ''RTE_MBUF_DYNFLAG_METADATA_NAME'' 26 (''rte_flow_dynflag_metadata'' @ [CHR 0x00]),
      Int_Const ''RTE_ETHTYPE_FLAGS_MAC'' Ty_u32 1,
      Int_Const ''RTE_ETHTYPE_FLAGS_DROP'' Ty_u32 2,
      Int_Const ''RTE_FLEX_FILTER_MAXLEN'' Ty_u32 128,
      Int_Const ''RTE_NTUPLE_FLAGS_DST_IP'' Ty_u32 1,
      Int_Const ''RTE_NTUPLE_FLAGS_SRC_IP'' Ty_u32 2,
      Int_Const ''RTE_NTUPLE_FLAGS_DST_PORT'' Ty_u32 4,
      Int_Const ''RTE_NTUPLE_FLAGS_SRC_PORT'' Ty_u32 8,
      Int_Const ''RTE_NTUPLE_FLAGS_PROTO'' Ty_u32 16,
      Int_Const ''RTE_NTUPLE_FLAGS_TCP_FLAG'' Ty_u32 32,
      Int_Const ''RTE_5TUPLE_FLAGS'' Ty_u32 31, Int_Const ''RTE_2TUPLE_FLAGS'' Ty_u32 20,
      Int_Const ''RTE_NTUPLE_TCP_FLAGS_MASK'' Ty_u32 63,
      Int_Const ''ETH_TUNNEL_FILTER_OMAC'' Ty_u32 1,
      Int_Const ''ETH_TUNNEL_FILTER_OIP'' Ty_u32 2,
      Int_Const ''ETH_TUNNEL_FILTER_TENID'' Ty_u32 4,
      Int_Const ''ETH_TUNNEL_FILTER_IMAC'' Ty_u32 8,
      Int_Const ''ETH_TUNNEL_FILTER_IVLAN'' Ty_u32 16,
      Int_Const ''ETH_TUNNEL_FILTER_IIP'' Ty_u32 32,
      Int_Const ''RTE_TUNNEL_FILTER_IMAC_IVLAN'' Ty_u32 24,
      Int_Const ''RTE_TUNNEL_FILTER_IMAC_IVLAN_TENID'' Ty_u32 28,
      Int_Const ''RTE_TUNNEL_FILTER_IMAC_TENID'' Ty_u32 12,
      Int_Const ''RTE_TUNNEL_FILTER_OMAC_TENID_IMAC'' Ty_u32 13,
      Int_Const ''RTE_ETH_FDIR_MAX_FLEXLEN'' Ty_u32 16,
      Int_Const ''RTE_ETH_INSET_SIZE_MAX'' Ty_u32 128]"

section \<open>Offloads\<close>

text \<open>What a device can do while it receives and sends.\<close>

definition offload_constants :: "c_constant list" where
  "offload_constants = [Int_Const ''DEV_RX_OFFLOAD_VLAN_STRIP'' Ty_u32 1,
      Int_Const ''DEV_RX_OFFLOAD_IPV4_CKSUM'' Ty_u32 2,
      Int_Const ''DEV_RX_OFFLOAD_UDP_CKSUM'' Ty_u32 4,
      Int_Const ''DEV_RX_OFFLOAD_TCP_CKSUM'' Ty_u32 8,
      Int_Const ''DEV_RX_OFFLOAD_TCP_LRO'' Ty_u32 16,
      Int_Const ''DEV_RX_OFFLOAD_QINQ_STRIP'' Ty_u32 32,
      Int_Const ''DEV_RX_OFFLOAD_OUTER_IPV4_CKSUM'' Ty_u32 64,
      Int_Const ''DEV_RX_OFFLOAD_MACSEC_STRIP'' Ty_u32 128,
      Int_Const ''DEV_RX_OFFLOAD_HEADER_SPLIT'' Ty_u32 256,
      Int_Const ''DEV_RX_OFFLOAD_VLAN_FILTER'' Ty_u32 512,
      Int_Const ''DEV_RX_OFFLOAD_VLAN_EXTEND'' Ty_u32 1024,
      Int_Const ''DEV_RX_OFFLOAD_JUMBO_FRAME'' Ty_u32 2048,
      Int_Const ''DEV_RX_OFFLOAD_SCATTER'' Ty_u32 8192,
      Int_Const ''DEV_RX_OFFLOAD_TIMESTAMP'' Ty_u32 16384,
      Int_Const ''DEV_RX_OFFLOAD_SECURITY'' Ty_u32 32768,
      Int_Const ''DEV_RX_OFFLOAD_KEEP_CRC'' Ty_u32 65536,
      Int_Const ''DEV_RX_OFFLOAD_SCTP_CKSUM'' Ty_u32 131072,
      Int_Const ''DEV_RX_OFFLOAD_OUTER_UDP_CKSUM'' Ty_u32 262144,
      Int_Const ''DEV_RX_OFFLOAD_RSS_HASH'' Ty_u32 524288,
      Int_Const ''DEV_RX_OFFLOAD_CHECKSUM'' Ty_u32 14,
      Int_Const ''DEV_RX_OFFLOAD_VLAN'' Ty_u32 1569,
      Int_Const ''DEV_TX_OFFLOAD_VLAN_INSERT'' Ty_u32 1,
      Int_Const ''DEV_TX_OFFLOAD_IPV4_CKSUM'' Ty_u32 2,
      Int_Const ''DEV_TX_OFFLOAD_UDP_CKSUM'' Ty_u32 4,
      Int_Const ''DEV_TX_OFFLOAD_TCP_CKSUM'' Ty_u32 8,
      Int_Const ''DEV_TX_OFFLOAD_SCTP_CKSUM'' Ty_u32 16,
      Int_Const ''DEV_TX_OFFLOAD_TCP_TSO'' Ty_u32 32,
      Int_Const ''DEV_TX_OFFLOAD_UDP_TSO'' Ty_u32 64,
      Int_Const ''DEV_TX_OFFLOAD_OUTER_IPV4_CKSUM'' Ty_u32 128,
      Int_Const ''DEV_TX_OFFLOAD_QINQ_INSERT'' Ty_u32 256,
      Int_Const ''DEV_TX_OFFLOAD_VXLAN_TNL_TSO'' Ty_u32 512,
      Int_Const ''DEV_TX_OFFLOAD_GRE_TNL_TSO'' Ty_u32 1024,
      Int_Const ''DEV_TX_OFFLOAD_IPIP_TNL_TSO'' Ty_u32 2048,
      Int_Const ''DEV_TX_OFFLOAD_GENEVE_TNL_TSO'' Ty_u32 4096,
      Int_Const ''DEV_TX_OFFLOAD_MACSEC_INSERT'' Ty_u32 8192,
      Int_Const ''DEV_TX_OFFLOAD_MT_LOCKFREE'' Ty_u32 16384,
      Int_Const ''DEV_TX_OFFLOAD_MULTI_SEGS'' Ty_u32 32768,
      Int_Const ''DEV_TX_OFFLOAD_MBUF_FAST_FREE'' Ty_u32 65536,
      Int_Const ''DEV_TX_OFFLOAD_SECURITY'' Ty_u32 131072,
      Int_Const ''DEV_TX_OFFLOAD_UDP_TNL_TSO'' Ty_u32 262144,
      Int_Const ''DEV_TX_OFFLOAD_IP_TNL_TSO'' Ty_u32 524288,
      Int_Const ''DEV_TX_OFFLOAD_OUTER_UDP_CKSUM'' Ty_u32 1048576]"

section \<open>Devices\<close>

text \<open>Devices, their owners and descriptors.\<close>

definition device_constants :: "c_constant list" where
  "device_constants = [Int_Const ''RTE_ETH_DEV_CAPA_RUNTIME_RX_QUEUE_SETUP'' Ty_u32 1,
      Int_Const ''RTE_ETH_DEV_CAPA_RUNTIME_TX_QUEUE_SETUP'' Ty_u32 2,
      Int_Const ''RTE_ETH_DEV_FALLBACK_RX_RINGSIZE'' Ty_u32 512,
      Int_Const ''RTE_ETH_DEV_FALLBACK_TX_RINGSIZE'' Ty_u32 512,
      Int_Const ''RTE_ETH_DEV_FALLBACK_RX_NBQUEUES'' Ty_u32 1,
      Int_Const ''RTE_ETH_DEV_FALLBACK_TX_NBQUEUES'' Ty_u32 1,
      Int_Const ''RTE_ETH_DEV_SWITCH_DOMAIN_ID_INVALID'' Ty_u32 65535,
      Int_Const ''RTE_ETH_BURST_FLAG_PER_QUEUE'' Ty_u32 1,
      Int_Const ''RTE_ETH_BURST_MODE_INFO_SIZE'' Ty_u32 1024,
      Int_Const ''RTE_ETH_XSTATS_NAME_SIZE'' Ty_u32 64, Int_Const ''ETH_DCB_NUM_TCS'' Ty_u32 8,
      Int_Const ''ETH_MAX_VMDQ_POOL'' Ty_u32 64, Int_Const ''RTE_ETH_ALL'' Ty_u32 32,
      Int_Const ''ETH_L2_TUNNEL_ENABLE_MASK'' Ty_u32 1,
      Int_Const ''ETH_L2_TUNNEL_INSERTION_MASK'' Ty_u32 2,
      Int_Const ''ETH_L2_TUNNEL_STRIPPING_MASK'' Ty_u32 4,
      Int_Const ''ETH_L2_TUNNEL_FORWARDING_MASK'' Ty_u32 8,
      Int_Const ''RTE_ETH_NAME_MAX_LEN'' Ty_u32 64, Int_Const ''RTE_ETH_DEV_NO_OWNER'' Ty_u32 0,
      Int_Const ''RTE_ETH_MAX_OWNER_NAME_LEN'' Ty_u32 64,
      Int_Const ''RTE_ETH_DEV_CLOSE_REMOVE'' Ty_u32 1,
      Int_Const ''RTE_ETH_DEV_INTR_LSC'' Ty_u32 2,
      Int_Const ''RTE_ETH_DEV_BONDED_SLAVE'' Ty_u32 4,
      Int_Const ''RTE_ETH_DEV_INTR_RMV'' Ty_u32 8,
      Int_Const ''RTE_ETH_DEV_REPRESENTOR'' Ty_u32 16,
      Int_Const ''RTE_ETH_DEV_NOLIVE_MAC_ADDR'' Ty_u32 32,
      Int_Const ''RTE_ETH_RX_DESC_AVAIL'' Ty_u32 0, Int_Const ''RTE_ETH_RX_DESC_DONE'' Ty_u32 1,
      Int_Const ''RTE_ETH_RX_DESC_UNAVAIL'' Ty_u32 2,
      Int_Const ''RTE_ETH_TX_DESC_FULL'' Ty_u32 0, Int_Const ''RTE_ETH_TX_DESC_DONE'' Ty_u32 1,
      Int_Const ''RTE_ETH_TX_DESC_UNAVAIL'' Ty_u32 2,
      Int_Const ''RTE_CLASS_ANY_ID'' Ty_u32 16777215, Int_Const ''RTE_KNI_NAMESIZE'' Ty_u32 16]"

section \<open>Types of the constants\<close>

definition all_constants :: "c_constant list" where
  "all_constants = library_constants @ limit_constants @ eal_constants @ ptype_constants @
     packet_flags @ ether_constants @ link_constants @ flow_constants @ rss_constants @
     queue_constants @ header_constants @ filter_constants @ offload_constants @
     device_constants"

lemma tables_typed:
  "list_all well_typed library_constants" "list_all well_typed limit_constants"
  "list_all well_typed eal_constants" "list_all well_typed ptype_constants"
  "list_all well_typed packet_flags" "list_all well_typed ether_constants"
  "list_all well_typed link_constants" "list_all well_typed flow_constants"
  "list_all well_typed rss_constants" "list_all well_typed queue_constants"
  "list_all well_typed header_constants" "list_all well_typed filter_constants"
  "list_all well_typed offload_constants" "list_all well_typed device_constants"
  by (simp_all add: library_constants_def limit_constants_def eal_constants_def
      ptype_constants_def packet_flags_def ether_constants_def link_constants_def
      flow_constants_def rss_constants_def queue_constants_def header_constants_def
      filter_constants_def offload_constants_def device_constants_def)

text \<open>Every constant of the bindings is a value of its declared type.\<close>

lemma constants_well_typed: "list_all well_typed all_constants"
  unfolding all_constants_def by (intro layouts_pass_append tables_typed)

section \<open>Relations between constants\<close>

text \<open>The mask of each layer keeps every packet type that is named after the layer.\<close>

definition ptype_layers :: "(string \<times> int) list" where
  "ptype_layers = [(''RTE_PTYPE_L2_'', uint RTE_PTYPE_L2_MASK),
     (''RTE_PTYPE_L3_'', uint RTE_PTYPE_L3_MASK), (''RTE_PTYPE_L4_'', uint RTE_PTYPE_L4_MASK),
     (''RTE_PTYPE_TUNNEL_'', uint RTE_PTYPE_TUNNEL_MASK),
     (''RTE_PTYPE_INNER_L2_'', uint RTE_PTYPE_INNER_L2_MASK),
     (''RTE_PTYPE_INNER_L3_'', uint RTE_PTYPE_INNER_L3_MASK),
     (''RTE_PTYPE_INNER_L4_'', uint RTE_PTYPE_INNER_L4_MASK)]"

definition names_start :: "string \<Rightarrow> c_constant \<Rightarrow> bool" where
  "names_start p c \<longleftrightarrow> take (length p) (const_name c) = p"

definition in_layer :: "c_constant \<Rightarrow> string \<times> int \<Rightarrow> bool" where
  "in_layer c l \<longleftrightarrow> (names_start (fst l) c \<longrightarrow>
     map_option (\<lambda>v. v AND snd l) (const_int c) = const_int c)"

lemma ptype_masks_uint:
  "uint RTE_PTYPE_L2_MASK = 15" "uint RTE_PTYPE_L3_MASK = 240" "uint RTE_PTYPE_L4_MASK = 3840"
  "uint RTE_PTYPE_TUNNEL_MASK = 61440" "uint RTE_PTYPE_INNER_L2_MASK = 983040"
  "uint RTE_PTYPE_INNER_L3_MASK = 15728640" "uint RTE_PTYPE_INNER_L4_MASK = 251658240"
  by (simp_all add: RTE_PTYPE_L2_MASK_def RTE_PTYPE_L3_MASK_def RTE_PTYPE_L4_MASK_def
      RTE_PTYPE_TUNNEL_MASK_def RTE_PTYPE_INNER_L2_MASK_def RTE_PTYPE_INNER_L3_MASK_def
      RTE_PTYPE_INNER_L4_MASK_def)

lemma ptypes_in_layers: "list_all (\<lambda>c. list_all (in_layer c) ptype_layers) ptype_constants"
  by (simp add: ptype_constants_def ptype_layers_def in_layer_def names_start_def
      ptype_masks_uint)

lemma ptype_layers_cover:
  "foldr (\<lambda>l m. snd l OR m) ptype_layers 0 = (268435455 :: int)"
  "value_in ptype_constants ''RTE_PTYPE_ALL_MASK'' = Some 268435455"
  by (simp_all add: ptype_layers_def ptype_masks_uint value_in_def ptype_constants_def)

text \<open>A hash function of receive-side scaling is the bit with the number of its flow type.\<close>

lemma rss_is_flow_bit:
  "list_all (\<lambda>c. case (const_int c, value_in rss_constants (''ETH_RSS_'' @ drop 13 (const_name c)))
     of (Some n, Some r) \<Rightarrow> r = 2 ^ nat n | _ \<Rightarrow> True) flow_constants"
  by (simp add: flow_constants_def rss_constants_def value_in_def)

text \<open>The constants the other theories use are those of the tables.\<close>

lemma used_constants:
  "value_in rss_constants ''ETH_RSS_IP'' = Some (uint ETH_RSS_IP)"
  "value_in rss_constants ''ETH_RSS_UDP'' = Some (uint ETH_RSS_UDP)"
  "value_in rss_constants ''ETH_RSS_TCP'' = Some (uint ETH_RSS_TCP)"
  "value_in rss_constants ''ETH_RSS_SCTP'' = Some (uint ETH_RSS_SCTP)"
  "value_in offload_constants ''DEV_TX_OFFLOAD_MBUF_FAST_FREE'' =
     Some (uint DEV_TX_OFFLOAD_MBUF_FAST_FREE)"
  "value_in ether_constants ''RTE_MBUF_DEFAULT_BUF_SIZE'' = Some (int RTE_MBUF_DEFAULT_BUF_SIZE)"
  by (simp_all add: rss_constants_def offload_constants_def ether_constants_def value_in_def
      ETH_RSS_IP_def ETH_RSS_UDP_def ETH_RSS_TCP_def ETH_RSS_SCTP_def
      DEV_TX_OFFLOAD_MBUF_FAST_FREE_def RTE_MBUF_DEFAULT_BUF_SIZE_def)

text \<open>
  The hash functions the port builder asks for are all ones DPDK knows, and each of
  \<open>ETH_RSS_IP\<close>, \<open>ETH_RSS_UDP\<close>, \<open>ETH_RSS_TCP\<close> and \<open>ETH_RSS_SCTP\<close> is the union of its functions for
  IPv4 and IPv6.
\<close>

definition rss_union :: "string list \<Rightarrow> int option" where
  "rss_union names = fold (\<lambda>n acc. Option.bind acc (\<lambda>a.
     map_option (\<lambda>v. a OR v) (value_in rss_constants (''ETH_RSS_'' @ n)))) names (Some 0)"

lemma rss_unions:
  "rss_union [''IPV4'', ''FRAG_IPV4'', ''NONFRAG_IPV4_OTHER'', ''IPV6'', ''FRAG_IPV6'',
     ''NONFRAG_IPV6_OTHER'', ''IPV6_EX''] = Some (uint ETH_RSS_IP)"
  "rss_union [''NONFRAG_IPV4_UDP'', ''NONFRAG_IPV6_UDP'', ''IPV6_UDP_EX''] = Some (uint ETH_RSS_UDP)"
  "rss_union [''NONFRAG_IPV4_TCP'', ''NONFRAG_IPV6_TCP'', ''IPV6_TCP_EX''] = Some (uint ETH_RSS_TCP)"
  "rss_union [''NONFRAG_IPV4_SCTP'', ''NONFRAG_IPV6_SCTP''] = Some (uint ETH_RSS_SCTP)"
  by (simp_all add: rss_union_def rss_constants_def value_in_def
      ETH_RSS_IP_def ETH_RSS_UDP_def ETH_RSS_TCP_def ETH_RSS_SCTP_def)

lemma default_rss_known:
  "value_in rss_constants ''ETH_RSS_PROTO_MASK'' = Some 4194300"
  "DEFAULT_RSS_HF AND NOT 4194300 = 0"
  by (simp_all add: rss_constants_def value_in_def DEFAULT_RSS_HF_def ETH_RSS_IP_def
      ETH_RSS_UDP_def ETH_RSS_TCP_def ETH_RSS_SCTP_def)

text \<open>
  The sizes of the headers are those of their bound types, and a default buffer holds
  the head room and the data room.
\<close>

lemma sizes_of_types:
  "value_in ether_constants ''RTE_ETHER_ADDR_LEN'' = Some (int (c_size ty_rte_ether_addr))"
  "value_in ether_constants ''RTE_ETHER_HDR_LEN'' = Some (int (c_size ty_rte_ether_hdr))"
  "value_in header_constants ''RTE_IPV4_MIN_IHL'' = Some 5"
  "value_in header_constants ''RTE_IPV4_IHL_MULTIPLIER'' = Some 4"
  "5 * 4 = c_size ty_rte_ipv4_hdr"
  "value_in ether_constants ''RTE_MBUF_DEFAULT_BUF_SIZE'' = Some (2048 + 128)"
  "value_in ether_constants ''RTE_MBUF_DEFAULT_DATAROOM'' = Some 2048"
  "value_in limit_constants ''RTE_PKTMBUF_HEADROOM'' = Some 128"
  by (simp_all add: ether_constants_def header_constants_def limit_constants_def value_in_def
      layout_simps)

text \<open>
  Received flags lie below \<open>PKT_FIRST_FREE\<close> and sent ones above \<open>PKT_LAST_FREE\<close>, so that the
  two kinds never meet in \<open>ol_flags\<close>.
\<close>

lemma packet_flags_apart:
  "list_all (\<lambda>c. names_start ''PKT_RX_'' c \<longrightarrow> (\<forall>v \<in> set_option (const_int c). v < 8388608))
     packet_flags"
  "list_all (\<lambda>c. names_start ''PKT_TX_'' c \<longrightarrow>
     (\<forall>v \<in> set_option (const_int c). v = 0 \<or> v AND 1099511627775 = 0)) packet_flags"
  "value_in packet_flags ''PKT_FIRST_FREE'' = Some 8388608"
  "value_in packet_flags ''PKT_LAST_FREE'' = Some (1099511627775 + 1)"
  by (simp_all add: packet_flags_def names_start_def value_in_def)

end
