(* ===== verification/Bound_Enums.thy ===== *)
theory Bound_Enums
  imports Bound_Consts
begin

text \<open>
  The enumerations of \<open>ffi/src/bindings_rustdoc.rs\<close>. The generator makes each a module with an
  integer type and a constant for every enumerator, so that a value of the type need not be an
  enumerator; \<open>enum_X\<close> is the module \<open>X\<close>.
\<close>

datatype c_enum = Enum const_type "(string \<times> int) list"

fun enum_type :: "c_enum \<Rightarrow> const_type" where
  "enum_type (Enum t cs) = t"

fun enumerators :: "c_enum \<Rightarrow> (string \<times> int) list" where
  "enumerators (Enum t cs) = cs"

section \<open>Environment\<close>

definition enum_rte_dev_event_type :: c_enum where
  "enum_rte_dev_event_type = Enum Ty_u32 [(''RTE_DEV_EVENT_ADD'', 0),
      (''RTE_DEV_EVENT_REMOVE'', 1), (''RTE_DEV_EVENT_MAX'', 2)]"

definition enum_rte_kernel_driver :: c_enum where
  "enum_rte_kernel_driver = Enum Ty_u32 [(''RTE_KDRV_UNKNOWN'', 0), (''RTE_KDRV_IGB_UIO'', 1),
      (''RTE_KDRV_VFIO'', 2), (''RTE_KDRV_UIO_GENERIC'', 3), (''RTE_KDRV_NIC_UIO'', 4),
      (''RTE_KDRV_NONE'', 5)]"

definition enum_rte_dev_policy :: c_enum where
  "enum_rte_dev_policy = Enum Ty_u32 [(''RTE_DEV_WHITELISTED'', 0),
      (''RTE_DEV_BLACKLISTED'', 1)]"

definition enum_rte_iova_mode :: c_enum where
  "enum_rte_iova_mode = Enum Ty_u32 [(''RTE_IOVA_DC'', 0), (''RTE_IOVA_PA'', 1),
      (''RTE_IOVA_VA'', 2)]"

definition enum_rte_bus_scan_mode :: c_enum where
  "enum_rte_bus_scan_mode = Enum Ty_u32 [(''RTE_BUS_SCAN_UNDEFINED'', 0),
      (''RTE_BUS_SCAN_WHITELIST'', 1), (''RTE_BUS_SCAN_BLACKLIST'', 2)]"

definition enum_rte_intr_mode :: c_enum where
  "enum_rte_intr_mode = Enum Ty_u32 [(''RTE_INTR_MODE_NONE'', 0), (''RTE_INTR_MODE_LEGACY'', 1),
      (''RTE_INTR_MODE_MSI'', 2), (''RTE_INTR_MODE_MSIX'', 3)]"

definition enum_rte_lcore_role_t :: c_enum where
  "enum_rte_lcore_role_t = Enum Ty_u32 [(''ROLE_RTE'', 0), (''ROLE_OFF'', 1),
      (''ROLE_SERVICE'', 2)]"

definition enum_rte_proc_type_t :: c_enum where
  "enum_rte_proc_type_t = Enum Ty_i32 [(''RTE_PROC_AUTO'', -1), (''RTE_PROC_PRIMARY'', 0),
      (''RTE_PROC_SECONDARY'', 1), (''RTE_PROC_INVALID'', 2)]"

definition enum_bindgen_ty_12 :: c_enum where
  "enum_bindgen_ty_12 = Enum Ty_u32 [(''RTE_MIN_ERRNO'', 1000), (''E_RTE_SECONDARY'', 1001),
      (''E_RTE_NO_CONFIG'', 1002), (''RTE_MAX_ERRNO'', 1003)]"

definition enum_rte_intr_handle_type :: c_enum where
  "enum_rte_intr_handle_type = Enum Ty_u32 [(''RTE_INTR_HANDLE_UNKNOWN'', 0),
      (''RTE_INTR_HANDLE_UIO'', 1), (''RTE_INTR_HANDLE_UIO_INTX'', 2),
      (''RTE_INTR_HANDLE_VFIO_LEGACY'', 3), (''RTE_INTR_HANDLE_VFIO_MSI'', 4),
      (''RTE_INTR_HANDLE_VFIO_MSIX'', 5), (''RTE_INTR_HANDLE_ALARM'', 6),
      (''RTE_INTR_HANDLE_EXT'', 7), (''RTE_INTR_HANDLE_VDEV'', 8),
      (''RTE_INTR_HANDLE_DEV_EVENT'', 9), (''RTE_INTR_HANDLE_VFIO_REQ'', 10),
      (''RTE_INTR_HANDLE_MAX'', 11)]"

definition enum_bindgen_ty_13 :: c_enum where
  "enum_bindgen_ty_13 = Enum Ty_u32 [(''RTE_EPOLL_INVALID'', 0), (''RTE_EPOLL_VALID'', 1),
      (''RTE_EPOLL_EXEC'', 2)]"

definition enum_rte_devtype :: c_enum where
  "enum_rte_devtype = Enum Ty_u32 [(''RTE_DEVTYPE_WHITELISTED_PCI'', 0),
      (''RTE_DEVTYPE_BLACKLISTED_PCI'', 1), (''RTE_DEVTYPE_VIRTUAL'', 2)]"

definition enum_rte_lcore_state_t :: c_enum where
  "enum_rte_lcore_state_t = Enum Ty_u32 [(''WAIT'', 0), (''RUNNING'', 1), (''FINISHED'', 2)]"

definition enum_rte_rmt_call_master_t :: c_enum where
  "enum_rte_rmt_call_master_t = Enum Ty_u32 [(''SKIP_MASTER'', 0), (''CALL_MASTER'', 1)]"

definition enum_rte_cpu_flag_t :: c_enum where
  "enum_rte_cpu_flag_t = Enum Ty_u32 [(''RTE_CPUFLAG_SSE3'', 0), (''RTE_CPUFLAG_PCLMULQDQ'', 1),
      (''RTE_CPUFLAG_DTES64'', 2), (''RTE_CPUFLAG_MONITOR'', 3), (''RTE_CPUFLAG_DS_CPL'', 4),
      (''RTE_CPUFLAG_VMX'', 5), (''RTE_CPUFLAG_SMX'', 6), (''RTE_CPUFLAG_EIST'', 7),
      (''RTE_CPUFLAG_TM2'', 8), (''RTE_CPUFLAG_SSSE3'', 9), (''RTE_CPUFLAG_CNXT_ID'', 10),
      (''RTE_CPUFLAG_FMA'', 11), (''RTE_CPUFLAG_CMPXCHG16B'', 12), (''RTE_CPUFLAG_XTPR'', 13),
      (''RTE_CPUFLAG_PDCM'', 14), (''RTE_CPUFLAG_PCID'', 15), (''RTE_CPUFLAG_DCA'', 16),
      (''RTE_CPUFLAG_SSE4_1'', 17), (''RTE_CPUFLAG_SSE4_2'', 18), (''RTE_CPUFLAG_X2APIC'', 19),
      (''RTE_CPUFLAG_MOVBE'', 20), (''RTE_CPUFLAG_POPCNT'', 21),
      (''RTE_CPUFLAG_TSC_DEADLINE'', 22), (''RTE_CPUFLAG_AES'', 23), (''RTE_CPUFLAG_XSAVE'', 24),
      (''RTE_CPUFLAG_OSXSAVE'', 25), (''RTE_CPUFLAG_AVX'', 26), (''RTE_CPUFLAG_F16C'', 27),
      (''RTE_CPUFLAG_RDRAND'', 28), (''RTE_CPUFLAG_HYPERVISOR'', 29), (''RTE_CPUFLAG_FPU'', 30),
      (''RTE_CPUFLAG_VME'', 31), (''RTE_CPUFLAG_DE'', 32), (''RTE_CPUFLAG_PSE'', 33),
      (''RTE_CPUFLAG_TSC'', 34), (''RTE_CPUFLAG_MSR'', 35), (''RTE_CPUFLAG_PAE'', 36),
      (''RTE_CPUFLAG_MCE'', 37), (''RTE_CPUFLAG_CX8'', 38), (''RTE_CPUFLAG_APIC'', 39),
      (''RTE_CPUFLAG_SEP'', 40), (''RTE_CPUFLAG_MTRR'', 41), (''RTE_CPUFLAG_PGE'', 42),
      (''RTE_CPUFLAG_MCA'', 43), (''RTE_CPUFLAG_CMOV'', 44), (''RTE_CPUFLAG_PAT'', 45),
      (''RTE_CPUFLAG_PSE36'', 46), (''RTE_CPUFLAG_PSN'', 47), (''RTE_CPUFLAG_CLFSH'', 48),
      (''RTE_CPUFLAG_DS'', 49), (''RTE_CPUFLAG_ACPI'', 50), (''RTE_CPUFLAG_MMX'', 51),
      (''RTE_CPUFLAG_FXSR'', 52), (''RTE_CPUFLAG_SSE'', 53), (''RTE_CPUFLAG_SSE2'', 54),
      (''RTE_CPUFLAG_SS'', 55), (''RTE_CPUFLAG_HTT'', 56), (''RTE_CPUFLAG_TM'', 57),
      (''RTE_CPUFLAG_PBE'', 58), (''RTE_CPUFLAG_DIGTEMP'', 59), (''RTE_CPUFLAG_TRBOBST'', 60),
      (''RTE_CPUFLAG_ARAT'', 61), (''RTE_CPUFLAG_PLN'', 62), (''RTE_CPUFLAG_ECMD'', 63),
      (''RTE_CPUFLAG_PTM'', 64), (''RTE_CPUFLAG_MPERF_APERF_MSR'', 65),
      (''RTE_CPUFLAG_ACNT2'', 66), (''RTE_CPUFLAG_ENERGY_EFF'', 67),
      (''RTE_CPUFLAG_FSGSBASE'', 68), (''RTE_CPUFLAG_BMI1'', 69), (''RTE_CPUFLAG_HLE'', 70),
      (''RTE_CPUFLAG_AVX2'', 71), (''RTE_CPUFLAG_SMEP'', 72), (''RTE_CPUFLAG_BMI2'', 73),
      (''RTE_CPUFLAG_ERMS'', 74), (''RTE_CPUFLAG_INVPCID'', 75), (''RTE_CPUFLAG_RTM'', 76),
      (''RTE_CPUFLAG_AVX512F'', 77), (''RTE_CPUFLAG_RDSEED'', 78),
      (''RTE_CPUFLAG_LAHF_SAHF'', 79), (''RTE_CPUFLAG_LZCNT'', 80),
      (''RTE_CPUFLAG_SYSCALL'', 81), (''RTE_CPUFLAG_XD'', 82), (''RTE_CPUFLAG_1GB_PG'', 83),
      (''RTE_CPUFLAG_RDTSCP'', 84), (''RTE_CPUFLAG_EM64T'', 85), (''RTE_CPUFLAG_INVTSC'', 86),
      (''RTE_CPUFLAG_NUMFLAGS'', 87)]"

definition enum_rte_page_sizes :: c_enum where
  "enum_rte_page_sizes = Enum Ty_u64 [(''RTE_PGSIZE_4K'', 4096), (''RTE_PGSIZE_64K'', 65536),
      (''RTE_PGSIZE_256K'', 262144), (''RTE_PGSIZE_2M'', 2097152),
      (''RTE_PGSIZE_16M'', 16777216), (''RTE_PGSIZE_256M'', 268435456),
      (''RTE_PGSIZE_512M'', 536870912), (''RTE_PGSIZE_1G'', 1073741824),
      (''RTE_PGSIZE_4G'', 4294967296), (''RTE_PGSIZE_16G'', 17179869184)]"

definition enum_rte_mem_event :: c_enum where
  "enum_rte_mem_event = Enum Ty_u32 [(''RTE_MEM_EVENT_ALLOC'', 0), (''RTE_MEM_EVENT_FREE'', 1)]"

definition enum_rte_ring_queue_behavior :: c_enum where
  "enum_rte_ring_queue_behavior = Enum Ty_u32 [(''RTE_RING_QUEUE_FIXED'', 0),
      (''RTE_RING_QUEUE_VARIABLE'', 1)]"

section \<open>Packets and devices\<close>

definition enum_bindgen_ty_14 :: c_enum where
  "enum_bindgen_ty_14 = Enum Ty_u32 [(''RTE_MBUF_L2_LEN_BITS'', 7),
      (''RTE_MBUF_L3_LEN_BITS'', 9), (''RTE_MBUF_L4_LEN_BITS'', 8),
      (''RTE_MBUF_TSO_SEGSZ_BITS'', 16), (''RTE_MBUF_OUTL3_LEN_BITS'', 9),
      (''RTE_MBUF_OUTL2_LEN_BITS'', 7), (''RTE_MBUF_TXOFLD_UNUSED_BITS'', 8),
      (''RTE_MBUF_L2_LEN_OFS'', 0), (''RTE_MBUF_L3_LEN_OFS'', 7), (''RTE_MBUF_L4_LEN_OFS'', 16),
      (''RTE_MBUF_TSO_SEGSZ_OFS'', 24), (''RTE_MBUF_OUTL3_LEN_OFS'', 40),
      (''RTE_MBUF_OUTL2_LEN_OFS'', 49), (''RTE_MBUF_TXOFLD_UNUSED_OFS'', 56)]"

definition enum_rte_eth_rx_mq_mode :: c_enum where
  "enum_rte_eth_rx_mq_mode = Enum Ty_u32 [(''ETH_MQ_RX_NONE'', 0), (''ETH_MQ_RX_RSS'', 1),
      (''ETH_MQ_RX_DCB'', 2), (''ETH_MQ_RX_DCB_RSS'', 3), (''ETH_MQ_RX_VMDQ_ONLY'', 4),
      (''ETH_MQ_RX_VMDQ_RSS'', 5), (''ETH_MQ_RX_VMDQ_DCB'', 6), (''ETH_MQ_RX_VMDQ_DCB_RSS'', 7)]"

definition enum_rte_eth_tx_mq_mode :: c_enum where
  "enum_rte_eth_tx_mq_mode = Enum Ty_u32 [(''ETH_MQ_TX_NONE'', 0), (''ETH_MQ_TX_DCB'', 1),
      (''ETH_MQ_TX_VMDQ_DCB'', 2), (''ETH_MQ_TX_VMDQ_ONLY'', 3)]"

definition enum_rte_vlan_type :: c_enum where
  "enum_rte_vlan_type = Enum Ty_u32 [(''ETH_VLAN_TYPE_UNKNOWN'', 0),
      (''ETH_VLAN_TYPE_INNER'', 1), (''ETH_VLAN_TYPE_OUTER'', 2), (''ETH_VLAN_TYPE_MAX'', 3)]"

definition enum_rte_eth_nb_tcs :: c_enum where
  "enum_rte_eth_nb_tcs = Enum Ty_u32 [(''ETH_4_TCS'', 4), (''ETH_8_TCS'', 8)]"

definition enum_rte_eth_nb_pools :: c_enum where
  "enum_rte_eth_nb_pools = Enum Ty_u32 [(''ETH_8_POOLS'', 8), (''ETH_16_POOLS'', 16),
      (''ETH_32_POOLS'', 32), (''ETH_64_POOLS'', 64)]"

definition enum_rte_eth_fc_mode :: c_enum where
  "enum_rte_eth_fc_mode = Enum Ty_u32 [(''RTE_FC_NONE'', 0), (''RTE_FC_RX_PAUSE'', 1),
      (''RTE_FC_TX_PAUSE'', 2), (''RTE_FC_FULL'', 3)]"

definition enum_rte_eth_tunnel_type :: c_enum where
  "enum_rte_eth_tunnel_type = Enum Ty_u32 [(''RTE_TUNNEL_TYPE_NONE'', 0),
      (''RTE_TUNNEL_TYPE_VXLAN'', 1), (''RTE_TUNNEL_TYPE_GENEVE'', 2),
      (''RTE_TUNNEL_TYPE_TEREDO'', 3), (''RTE_TUNNEL_TYPE_NVGRE'', 4),
      (''RTE_TUNNEL_TYPE_IP_IN_GRE'', 5), (''RTE_L2_TUNNEL_TYPE_E_TAG'', 6),
      (''RTE_TUNNEL_TYPE_VXLAN_GPE'', 7), (''RTE_TUNNEL_TYPE_MAX'', 8)]"

section \<open>Flow rules\<close>

definition enum_rte_flow_item_type :: c_enum where
  "enum_rte_flow_item_type = Enum Ty_u32 [(''RTE_FLOW_ITEM_TYPE_END'', 0),
      (''RTE_FLOW_ITEM_TYPE_VOID'', 1), (''RTE_FLOW_ITEM_TYPE_INVERT'', 2),
      (''RTE_FLOW_ITEM_TYPE_ANY'', 3), (''RTE_FLOW_ITEM_TYPE_PF'', 4),
      (''RTE_FLOW_ITEM_TYPE_VF'', 5), (''RTE_FLOW_ITEM_TYPE_PHY_PORT'', 6),
      (''RTE_FLOW_ITEM_TYPE_PORT_ID'', 7), (''RTE_FLOW_ITEM_TYPE_RAW'', 8),
      (''RTE_FLOW_ITEM_TYPE_ETH'', 9), (''RTE_FLOW_ITEM_TYPE_VLAN'', 10),
      (''RTE_FLOW_ITEM_TYPE_IPV4'', 11), (''RTE_FLOW_ITEM_TYPE_IPV6'', 12),
      (''RTE_FLOW_ITEM_TYPE_ICMP'', 13), (''RTE_FLOW_ITEM_TYPE_UDP'', 14),
      (''RTE_FLOW_ITEM_TYPE_TCP'', 15), (''RTE_FLOW_ITEM_TYPE_SCTP'', 16),
      (''RTE_FLOW_ITEM_TYPE_VXLAN'', 17), (''RTE_FLOW_ITEM_TYPE_E_TAG'', 18),
      (''RTE_FLOW_ITEM_TYPE_NVGRE'', 19), (''RTE_FLOW_ITEM_TYPE_MPLS'', 20),
      (''RTE_FLOW_ITEM_TYPE_GRE'', 21), (''RTE_FLOW_ITEM_TYPE_FUZZY'', 22),
      (''RTE_FLOW_ITEM_TYPE_GTP'', 23), (''RTE_FLOW_ITEM_TYPE_GTPC'', 24),
      (''RTE_FLOW_ITEM_TYPE_GTPU'', 25), (''RTE_FLOW_ITEM_TYPE_ESP'', 26),
      (''RTE_FLOW_ITEM_TYPE_GENEVE'', 27), (''RTE_FLOW_ITEM_TYPE_VXLAN_GPE'', 28),
      (''RTE_FLOW_ITEM_TYPE_ARP_ETH_IPV4'', 29), (''RTE_FLOW_ITEM_TYPE_IPV6_EXT'', 30),
      (''RTE_FLOW_ITEM_TYPE_ICMP6'', 31), (''RTE_FLOW_ITEM_TYPE_ICMP6_ND_NS'', 32),
      (''RTE_FLOW_ITEM_TYPE_ICMP6_ND_NA'', 33), (''RTE_FLOW_ITEM_TYPE_ICMP6_ND_OPT'', 34),
      (''RTE_FLOW_ITEM_TYPE_ICMP6_ND_OPT_SLA_ETH'', 35),
      (''RTE_FLOW_ITEM_TYPE_ICMP6_ND_OPT_TLA_ETH'', 36), (''RTE_FLOW_ITEM_TYPE_MARK'', 37),
      (''RTE_FLOW_ITEM_TYPE_META'', 38), (''RTE_FLOW_ITEM_TYPE_GRE_KEY'', 39),
      (''RTE_FLOW_ITEM_TYPE_GTP_PSC'', 40), (''RTE_FLOW_ITEM_TYPE_PPPOES'', 41),
      (''RTE_FLOW_ITEM_TYPE_PPPOED'', 42), (''RTE_FLOW_ITEM_TYPE_PPPOE_PROTO_ID'', 43),
      (''RTE_FLOW_ITEM_TYPE_NSH'', 44), (''RTE_FLOW_ITEM_TYPE_IGMP'', 45),
      (''RTE_FLOW_ITEM_TYPE_AH'', 46), (''RTE_FLOW_ITEM_TYPE_HIGIG2'', 47),
      (''RTE_FLOW_ITEM_TYPE_TAG'', 48)]"

definition enum_rte_flow_action_type :: c_enum where
  "enum_rte_flow_action_type = Enum Ty_u32 [(''RTE_FLOW_ACTION_TYPE_END'', 0),
      (''RTE_FLOW_ACTION_TYPE_VOID'', 1), (''RTE_FLOW_ACTION_TYPE_PASSTHRU'', 2),
      (''RTE_FLOW_ACTION_TYPE_JUMP'', 3), (''RTE_FLOW_ACTION_TYPE_MARK'', 4),
      (''RTE_FLOW_ACTION_TYPE_FLAG'', 5), (''RTE_FLOW_ACTION_TYPE_QUEUE'', 6),
      (''RTE_FLOW_ACTION_TYPE_DROP'', 7), (''RTE_FLOW_ACTION_TYPE_COUNT'', 8),
      (''RTE_FLOW_ACTION_TYPE_RSS'', 9), (''RTE_FLOW_ACTION_TYPE_PF'', 10),
      (''RTE_FLOW_ACTION_TYPE_VF'', 11), (''RTE_FLOW_ACTION_TYPE_PHY_PORT'', 12),
      (''RTE_FLOW_ACTION_TYPE_PORT_ID'', 13), (''RTE_FLOW_ACTION_TYPE_METER'', 14),
      (''RTE_FLOW_ACTION_TYPE_SECURITY'', 15), (''RTE_FLOW_ACTION_TYPE_OF_SET_MPLS_TTL'', 16),
      (''RTE_FLOW_ACTION_TYPE_OF_DEC_MPLS_TTL'', 17),
      (''RTE_FLOW_ACTION_TYPE_OF_SET_NW_TTL'', 18), (''RTE_FLOW_ACTION_TYPE_OF_DEC_NW_TTL'', 19),
      (''RTE_FLOW_ACTION_TYPE_OF_COPY_TTL_OUT'', 20),
      (''RTE_FLOW_ACTION_TYPE_OF_COPY_TTL_IN'', 21), (''RTE_FLOW_ACTION_TYPE_OF_POP_VLAN'', 22),
      (''RTE_FLOW_ACTION_TYPE_OF_PUSH_VLAN'', 23),
      (''RTE_FLOW_ACTION_TYPE_OF_SET_VLAN_VID'', 24),
      (''RTE_FLOW_ACTION_TYPE_OF_SET_VLAN_PCP'', 25), (''RTE_FLOW_ACTION_TYPE_OF_POP_MPLS'', 26),
      (''RTE_FLOW_ACTION_TYPE_OF_PUSH_MPLS'', 27), (''RTE_FLOW_ACTION_TYPE_VXLAN_ENCAP'', 28),
      (''RTE_FLOW_ACTION_TYPE_VXLAN_DECAP'', 29), (''RTE_FLOW_ACTION_TYPE_NVGRE_ENCAP'', 30),
      (''RTE_FLOW_ACTION_TYPE_NVGRE_DECAP'', 31), (''RTE_FLOW_ACTION_TYPE_RAW_ENCAP'', 32),
      (''RTE_FLOW_ACTION_TYPE_RAW_DECAP'', 33), (''RTE_FLOW_ACTION_TYPE_SET_IPV4_SRC'', 34),
      (''RTE_FLOW_ACTION_TYPE_SET_IPV4_DST'', 35), (''RTE_FLOW_ACTION_TYPE_SET_IPV6_SRC'', 36),
      (''RTE_FLOW_ACTION_TYPE_SET_IPV6_DST'', 37), (''RTE_FLOW_ACTION_TYPE_SET_TP_SRC'', 38),
      (''RTE_FLOW_ACTION_TYPE_SET_TP_DST'', 39), (''RTE_FLOW_ACTION_TYPE_MAC_SWAP'', 40),
      (''RTE_FLOW_ACTION_TYPE_DEC_TTL'', 41), (''RTE_FLOW_ACTION_TYPE_SET_TTL'', 42),
      (''RTE_FLOW_ACTION_TYPE_SET_MAC_SRC'', 43), (''RTE_FLOW_ACTION_TYPE_SET_MAC_DST'', 44),
      (''RTE_FLOW_ACTION_TYPE_INC_TCP_SEQ'', 45), (''RTE_FLOW_ACTION_TYPE_DEC_TCP_SEQ'', 46),
      (''RTE_FLOW_ACTION_TYPE_INC_TCP_ACK'', 47), (''RTE_FLOW_ACTION_TYPE_DEC_TCP_ACK'', 48),
      (''RTE_FLOW_ACTION_TYPE_SET_TAG'', 49), (''RTE_FLOW_ACTION_TYPE_SET_META'', 50)]"

definition enum_rte_eth_hash_function :: c_enum where
  "enum_rte_eth_hash_function = Enum Ty_u32 [(''RTE_ETH_HASH_FUNCTION_DEFAULT'', 0),
      (''RTE_ETH_HASH_FUNCTION_TOEPLITZ'', 1), (''RTE_ETH_HASH_FUNCTION_SIMPLE_XOR'', 2),
      (''RTE_ETH_HASH_FUNCTION_SYMMETRIC_TOEPLITZ'', 3), (''RTE_ETH_HASH_FUNCTION_MAX'', 4)]"

definition enum_rte_flow_error_type :: c_enum where
  "enum_rte_flow_error_type = Enum Ty_u32 [(''RTE_FLOW_ERROR_TYPE_NONE'', 0),
      (''RTE_FLOW_ERROR_TYPE_UNSPECIFIED'', 1), (''RTE_FLOW_ERROR_TYPE_HANDLE'', 2),
      (''RTE_FLOW_ERROR_TYPE_ATTR_GROUP'', 3), (''RTE_FLOW_ERROR_TYPE_ATTR_PRIORITY'', 4),
      (''RTE_FLOW_ERROR_TYPE_ATTR_INGRESS'', 5), (''RTE_FLOW_ERROR_TYPE_ATTR_EGRESS'', 6),
      (''RTE_FLOW_ERROR_TYPE_ATTR_TRANSFER'', 7), (''RTE_FLOW_ERROR_TYPE_ATTR'', 8),
      (''RTE_FLOW_ERROR_TYPE_ITEM_NUM'', 9), (''RTE_FLOW_ERROR_TYPE_ITEM_SPEC'', 10),
      (''RTE_FLOW_ERROR_TYPE_ITEM_LAST'', 11), (''RTE_FLOW_ERROR_TYPE_ITEM_MASK'', 12),
      (''RTE_FLOW_ERROR_TYPE_ITEM'', 13), (''RTE_FLOW_ERROR_TYPE_ACTION_NUM'', 14),
      (''RTE_FLOW_ERROR_TYPE_ACTION_CONF'', 15), (''RTE_FLOW_ERROR_TYPE_ACTION'', 16)]"

definition enum_rte_flow_conv_op :: c_enum where
  "enum_rte_flow_conv_op = Enum Ty_u32 [(''RTE_FLOW_CONV_OP_NONE'', 0),
      (''RTE_FLOW_CONV_OP_ATTR'', 1), (''RTE_FLOW_CONV_OP_ITEM'', 2),
      (''RTE_FLOW_CONV_OP_ACTION'', 3), (''RTE_FLOW_CONV_OP_PATTERN'', 4),
      (''RTE_FLOW_CONV_OP_ACTIONS'', 5), (''RTE_FLOW_CONV_OP_RULE'', 6),
      (''RTE_FLOW_CONV_OP_ITEM_NAME'', 7), (''RTE_FLOW_CONV_OP_ACTION_NAME'', 8),
      (''RTE_FLOW_CONV_OP_ITEM_NAME_PTR'', 9), (''RTE_FLOW_CONV_OP_ACTION_NAME_PTR'', 10)]"

section \<open>Filters\<close>

definition enum_rte_filter_type :: c_enum where
  "enum_rte_filter_type = Enum Ty_u32 [(''RTE_ETH_FILTER_NONE'', 0),
      (''RTE_ETH_FILTER_MACVLAN'', 1), (''RTE_ETH_FILTER_ETHERTYPE'', 2),
      (''RTE_ETH_FILTER_FLEXIBLE'', 3), (''RTE_ETH_FILTER_SYN'', 4),
      (''RTE_ETH_FILTER_NTUPLE'', 5), (''RTE_ETH_FILTER_TUNNEL'', 6),
      (''RTE_ETH_FILTER_FDIR'', 7), (''RTE_ETH_FILTER_HASH'', 8),
      (''RTE_ETH_FILTER_L2_TUNNEL'', 9), (''RTE_ETH_FILTER_GENERIC'', 10),
      (''RTE_ETH_FILTER_MAX'', 11)]"

definition enum_rte_filter_op :: c_enum where
  "enum_rte_filter_op = Enum Ty_u32 [(''RTE_ETH_FILTER_NOP'', 0), (''RTE_ETH_FILTER_ADD'', 1),
      (''RTE_ETH_FILTER_UPDATE'', 2), (''RTE_ETH_FILTER_DELETE'', 3),
      (''RTE_ETH_FILTER_FLUSH'', 4), (''RTE_ETH_FILTER_GET'', 5), (''RTE_ETH_FILTER_SET'', 6),
      (''RTE_ETH_FILTER_INFO'', 7), (''RTE_ETH_FILTER_STATS'', 8),
      (''RTE_ETH_FILTER_OP_MAX'', 9)]"

definition enum_rte_mac_filter_type :: c_enum where
  "enum_rte_mac_filter_type = Enum Ty_u32 [(''RTE_MAC_PERFECT_MATCH'', 1),
      (''RTE_MACVLAN_PERFECT_MATCH'', 2), (''RTE_MAC_HASH_MATCH'', 3),
      (''RTE_MACVLAN_HASH_MATCH'', 4)]"

definition enum_rte_tunnel_iptype :: c_enum where
  "enum_rte_tunnel_iptype = Enum Ty_u32 [(''RTE_TUNNEL_IPTYPE_IPV4'', 0),
      (''RTE_TUNNEL_IPTYPE_IPV6'', 1)]"

definition enum_rte_eth_global_cfg_type :: c_enum where
  "enum_rte_eth_global_cfg_type = Enum Ty_u32 [(''RTE_ETH_GLOBAL_CFG_TYPE_UNKNOWN'', 0),
      (''RTE_ETH_GLOBAL_CFG_TYPE_GRE_KEY_LEN'', 1), (''RTE_ETH_GLOBAL_CFG_TYPE_MAX'', 2)]"

definition enum_rte_eth_input_set_field :: c_enum where
  "enum_rte_eth_input_set_field = Enum Ty_u32 [(''RTE_ETH_INPUT_SET_UNKNOWN'', 0),
      (''RTE_ETH_INPUT_SET_L2_SRC_MAC'', 1), (''RTE_ETH_INPUT_SET_L2_DST_MAC'', 2),
      (''RTE_ETH_INPUT_SET_L2_OUTER_VLAN'', 3), (''RTE_ETH_INPUT_SET_L2_INNER_VLAN'', 4),
      (''RTE_ETH_INPUT_SET_L2_ETHERTYPE'', 5), (''RTE_ETH_INPUT_SET_L3_SRC_IP4'', 129),
      (''RTE_ETH_INPUT_SET_L3_DST_IP4'', 130), (''RTE_ETH_INPUT_SET_L3_SRC_IP6'', 131),
      (''RTE_ETH_INPUT_SET_L3_DST_IP6'', 132), (''RTE_ETH_INPUT_SET_L3_IP4_TOS'', 133),
      (''RTE_ETH_INPUT_SET_L3_IP4_PROTO'', 134), (''RTE_ETH_INPUT_SET_L3_IP6_TC'', 135),
      (''RTE_ETH_INPUT_SET_L3_IP6_NEXT_HEADER'', 136), (''RTE_ETH_INPUT_SET_L3_IP4_TTL'', 137),
      (''RTE_ETH_INPUT_SET_L3_IP6_HOP_LIMITS'', 138),
      (''RTE_ETH_INPUT_SET_L4_UDP_SRC_PORT'', 257), (''RTE_ETH_INPUT_SET_L4_UDP_DST_PORT'', 258),
      (''RTE_ETH_INPUT_SET_L4_TCP_SRC_PORT'', 259), (''RTE_ETH_INPUT_SET_L4_TCP_DST_PORT'', 260),
      (''RTE_ETH_INPUT_SET_L4_SCTP_SRC_PORT'', 261),
      (''RTE_ETH_INPUT_SET_L4_SCTP_DST_PORT'', 262),
      (''RTE_ETH_INPUT_SET_L4_SCTP_VERIFICATION_TAG'', 263),
      (''RTE_ETH_INPUT_SET_TUNNEL_L2_INNER_DST_MAC'', 385),
      (''RTE_ETH_INPUT_SET_TUNNEL_L2_INNER_SRC_MAC'', 386),
      (''RTE_ETH_INPUT_SET_TUNNEL_L2_INNER_VLAN'', 387),
      (''RTE_ETH_INPUT_SET_TUNNEL_L4_UDP_KEY'', 388),
      (''RTE_ETH_INPUT_SET_TUNNEL_GRE_KEY'', 389),
      (''RTE_ETH_INPUT_SET_FLEX_PAYLOAD_1ST_WORD'', 641),
      (''RTE_ETH_INPUT_SET_FLEX_PAYLOAD_2ND_WORD'', 642),
      (''RTE_ETH_INPUT_SET_FLEX_PAYLOAD_3RD_WORD'', 643),
      (''RTE_ETH_INPUT_SET_FLEX_PAYLOAD_4TH_WORD'', 644),
      (''RTE_ETH_INPUT_SET_FLEX_PAYLOAD_5TH_WORD'', 645),
      (''RTE_ETH_INPUT_SET_FLEX_PAYLOAD_6TH_WORD'', 646),
      (''RTE_ETH_INPUT_SET_FLEX_PAYLOAD_7TH_WORD'', 647),
      (''RTE_ETH_INPUT_SET_FLEX_PAYLOAD_8TH_WORD'', 648), (''RTE_ETH_INPUT_SET_DEFAULT'', 65533),
      (''RTE_ETH_INPUT_SET_NONE'', 65534), (''RTE_ETH_INPUT_SET_MAX'', 65535)]"

definition enum_rte_filter_input_set_op :: c_enum where
  "enum_rte_filter_input_set_op = Enum Ty_u32 [(''RTE_ETH_INPUT_SET_OP_UNKNOWN'', 0),
      (''RTE_ETH_INPUT_SET_SELECT'', 1), (''RTE_ETH_INPUT_SET_ADD'', 2),
      (''RTE_ETH_INPUT_SET_OP_MAX'', 3)]"

definition enum_rte_eth_fdir_tunnel_type :: c_enum where
  "enum_rte_eth_fdir_tunnel_type = Enum Ty_u32 [(''RTE_FDIR_TUNNEL_TYPE_UNKNOWN'', 0),
      (''RTE_FDIR_TUNNEL_TYPE_NVGRE'', 1), (''RTE_FDIR_TUNNEL_TYPE_VXLAN'', 2)]"

definition enum_rte_eth_fdir_behavior :: c_enum where
  "enum_rte_eth_fdir_behavior = Enum Ty_u32 [(''RTE_ETH_FDIR_ACCEPT'', 0),
      (''RTE_ETH_FDIR_REJECT'', 1), (''RTE_ETH_FDIR_PASSTHRU'', 2)]"

definition enum_rte_eth_fdir_status :: c_enum where
  "enum_rte_eth_fdir_status = Enum Ty_u32 [(''RTE_ETH_FDIR_NO_REPORT_STATUS'', 0),
      (''RTE_ETH_FDIR_REPORT_ID'', 1), (''RTE_ETH_FDIR_REPORT_ID_FLEX_4'', 2),
      (''RTE_ETH_FDIR_REPORT_FLEX_8'', 3)]"

definition enum_rte_eth_payload_type :: c_enum where
  "enum_rte_eth_payload_type = Enum Ty_u32 [(''RTE_ETH_PAYLOAD_UNKNOWN'', 0),
      (''RTE_ETH_RAW_PAYLOAD'', 1), (''RTE_ETH_L2_PAYLOAD'', 2), (''RTE_ETH_L3_PAYLOAD'', 3),
      (''RTE_ETH_L4_PAYLOAD'', 4), (''RTE_ETH_PAYLOAD_MAX'', 8)]"

definition enum_rte_fdir_mode :: c_enum where
  "enum_rte_fdir_mode = Enum Ty_u32 [(''RTE_FDIR_MODE_NONE'', 0),
      (''RTE_FDIR_MODE_SIGNATURE'', 1), (''RTE_FDIR_MODE_PERFECT'', 2),
      (''RTE_FDIR_MODE_PERFECT_MAC_VLAN'', 3), (''RTE_FDIR_MODE_PERFECT_TUNNEL'', 4)]"

definition enum_rte_eth_fdir_filter_info_type :: c_enum where
  "enum_rte_eth_fdir_filter_info_type = Enum Ty_u32 [
      (''RTE_ETH_FDIR_FILTER_INFO_TYPE_UNKNOWN'', 0),
      (''RTE_ETH_FDIR_FILTER_INPUT_SET_SELECT'', 1), (''RTE_ETH_FDIR_FILTER_INFO_TYPE_MAX'', 2)]"

definition enum_rte_eth_hash_filter_info_type :: c_enum where
  "enum_rte_eth_hash_filter_info_type = Enum Ty_u32 [
      (''RTE_ETH_HASH_FILTER_INFO_TYPE_UNKNOWN'', 0),
      (''RTE_ETH_HASH_FILTER_SYM_HASH_ENA_PER_PORT'', 1),
      (''RTE_ETH_HASH_FILTER_GLOBAL_CONFIG'', 2), (''RTE_ETH_HASH_FILTER_INPUT_SET_SELECT'', 3),
      (''RTE_ETH_HASH_FILTER_INFO_TYPE_MAX'', 4)]"

definition enum_rte_fdir_pballoc_type :: c_enum where
  "enum_rte_fdir_pballoc_type = Enum Ty_u32 [(''RTE_FDIR_PBALLOC_64K'', 0),
      (''RTE_FDIR_PBALLOC_128K'', 1), (''RTE_FDIR_PBALLOC_256K'', 2)]"

definition enum_rte_fdir_status_mode :: c_enum where
  "enum_rte_fdir_status_mode = Enum Ty_u32 [(''RTE_FDIR_NO_REPORT_STATUS'', 0),
      (''RTE_FDIR_REPORT_STATUS'', 1), (''RTE_FDIR_REPORT_STATUS_ALWAYS'', 2)]"

section \<open>Ethernet devices\<close>

definition enum_rte_eth_dev_state :: c_enum where
  "enum_rte_eth_dev_state = Enum Ty_u32 [(''RTE_ETH_DEV_UNUSED'', 0),
      (''RTE_ETH_DEV_ATTACHED'', 1), (''RTE_ETH_DEV_REMOVED'', 2)]"

definition enum_rte_eth_event_ipsec_subtype :: c_enum where
  "enum_rte_eth_event_ipsec_subtype = Enum Ty_u32 [(''RTE_ETH_EVENT_IPSEC_UNKNOWN'', 0),
      (''RTE_ETH_EVENT_IPSEC_ESN_OVERFLOW'', 1), (''RTE_ETH_EVENT_IPSEC_SA_TIME_EXPIRY'', 2),
      (''RTE_ETH_EVENT_IPSEC_SA_BYTE_EXPIRY'', 3), (''RTE_ETH_EVENT_IPSEC_MAX'', 4)]"

definition enum_rte_eth_event_type :: c_enum where
  "enum_rte_eth_event_type = Enum Ty_u32 [(''RTE_ETH_EVENT_UNKNOWN'', 0),
      (''RTE_ETH_EVENT_INTR_LSC'', 1), (''RTE_ETH_EVENT_QUEUE_STATE'', 2),
      (''RTE_ETH_EVENT_INTR_RESET'', 3), (''RTE_ETH_EVENT_VF_MBOX'', 4),
      (''RTE_ETH_EVENT_MACSEC'', 5), (''RTE_ETH_EVENT_INTR_RMV'', 6), (''RTE_ETH_EVENT_NEW'', 7),
      (''RTE_ETH_EVENT_DESTROY'', 8), (''RTE_ETH_EVENT_IPSEC'', 9), (''RTE_ETH_EVENT_MAX'', 10)]"

definition enum_rte_kni_req_id :: c_enum where
  "enum_rte_kni_req_id = Enum Ty_u32 [(''RTE_KNI_REQ_UNKNOWN'', 0),
      (''RTE_KNI_REQ_CHANGE_MTU'', 1), (''RTE_KNI_REQ_CFG_NETWORK_IF'', 2),
      (''RTE_KNI_REQ_CHANGE_MAC_ADDR'', 3), (''RTE_KNI_REQ_CHANGE_PROMISC'', 4),
      (''RTE_KNI_REQ_CHANGE_ALLMULTI'', 5), (''RTE_KNI_REQ_MAX'', 6)]"

definition enum_pcap_direction_t :: c_enum where
  "enum_pcap_direction_t = Enum Ty_u32 [(''PCAP_D_INOUT'', 0), (''PCAP_D_IN'', 1),
      (''PCAP_D_OUT'', 2)]"

section \<open>All enumerations\<close>

definition counting_enums :: "c_enum list" where
  "counting_enums = [enum_rte_dev_event_type, enum_rte_kernel_driver, enum_rte_dev_policy,
      enum_rte_iova_mode, enum_rte_bus_scan_mode, enum_rte_intr_mode, enum_rte_lcore_role_t,
      enum_rte_proc_type_t, enum_bindgen_ty_12, enum_rte_intr_handle_type, enum_bindgen_ty_13,
      enum_rte_devtype, enum_rte_lcore_state_t, enum_rte_rmt_call_master_t, enum_rte_cpu_flag_t,
      enum_rte_mem_event, enum_rte_ring_queue_behavior, enum_rte_eth_rx_mq_mode,
      enum_rte_eth_tx_mq_mode, enum_rte_vlan_type, enum_rte_eth_fc_mode,
      enum_rte_eth_tunnel_type, enum_rte_flow_item_type, enum_rte_flow_action_type,
      enum_rte_eth_hash_function, enum_rte_flow_error_type, enum_rte_flow_conv_op,
      enum_rte_filter_type, enum_rte_filter_op, enum_rte_mac_filter_type, enum_rte_tunnel_iptype,
      enum_rte_eth_global_cfg_type, enum_rte_filter_input_set_op, enum_rte_eth_fdir_tunnel_type,
      enum_rte_eth_fdir_behavior, enum_rte_eth_fdir_status, enum_rte_fdir_mode,
      enum_rte_eth_fdir_filter_info_type, enum_rte_eth_hash_filter_info_type,
      enum_rte_fdir_pballoc_type, enum_rte_fdir_status_mode, enum_rte_eth_dev_state,
      enum_rte_eth_event_ipsec_subtype, enum_rte_eth_event_type, enum_rte_kni_req_id,
      enum_pcap_direction_t]"

definition other_enums :: "c_enum list" where
  "other_enums = [enum_rte_page_sizes, enum_bindgen_ty_14, enum_rte_eth_nb_tcs,
      enum_rte_eth_nb_pools, enum_rte_eth_input_set_field, enum_rte_eth_payload_type]"

text \<open>Most enumerations count up by one from their first enumerator.\<close>

definition counts_up :: "c_enum \<Rightarrow> bool" where
  "counts_up e \<longleftrightarrow>
     (case map snd (enumerators e) of
        [] \<Rightarrow> False
      | v # vs \<Rightarrow> v # vs = map (\<lambda>i. v + int i) [0..<length (v # vs)])"

definition enum_typed :: "c_enum \<Rightarrow> bool" where
  "enum_typed e \<longleftrightarrow> list_all (\<lambda>(n, v). well_typed (Int_Const n (enum_type e) v)) (enumerators e)"

lemma counting_enums_count: "list_all (\<lambda>e. counts_up e \<and> enum_typed e) counting_enums"
  by (simp add: counting_enums_def counts_up_def enum_typed_def upt_rec
      enum_rte_dev_event_type_def enum_rte_kernel_driver_def enum_rte_dev_policy_def
      enum_rte_iova_mode_def enum_rte_bus_scan_mode_def enum_rte_intr_mode_def
      enum_rte_lcore_role_t_def enum_rte_proc_type_t_def enum_bindgen_ty_12_def
      enum_rte_intr_handle_type_def enum_bindgen_ty_13_def enum_rte_devtype_def
      enum_rte_lcore_state_t_def enum_rte_rmt_call_master_t_def enum_rte_cpu_flag_t_def
      enum_rte_mem_event_def enum_rte_ring_queue_behavior_def enum_rte_eth_rx_mq_mode_def
      enum_rte_eth_tx_mq_mode_def enum_rte_vlan_type_def enum_rte_eth_fc_mode_def
      enum_rte_eth_tunnel_type_def enum_rte_flow_item_type_def
      enum_rte_flow_action_type_def enum_rte_eth_hash_function_def
      enum_rte_flow_error_type_def enum_rte_flow_conv_op_def enum_rte_filter_type_def
      enum_rte_filter_op_def enum_rte_mac_filter_type_def enum_rte_tunnel_iptype_def
      enum_rte_eth_global_cfg_type_def enum_rte_filter_input_set_op_def
      enum_rte_eth_fdir_tunnel_type_def enum_rte_eth_fdir_behavior_def
      enum_rte_eth_fdir_status_def enum_rte_fdir_mode_def
      enum_rte_eth_fdir_filter_info_type_def enum_rte_eth_hash_filter_info_type_def
      enum_rte_fdir_pballoc_type_def enum_rte_fdir_status_mode_def
      enum_rte_eth_dev_state_def enum_rte_eth_event_ipsec_subtype_def
      enum_rte_eth_event_type_def enum_rte_kni_req_id_def enum_pcap_direction_t_def)

lemma other_enums_typed: "list_all (\<lambda>e. \<not> counts_up e \<and> enum_typed e) other_enums"
  by (simp add: other_enums_def counts_up_def enum_typed_def upt_rec
      enum_rte_page_sizes_def enum_bindgen_ty_14_def enum_rte_eth_nb_tcs_def
      enum_rte_eth_nb_pools_def enum_rte_eth_input_set_field_def
      enum_rte_eth_payload_type_def)

text \<open>
  An enumerator of a mode is the union of the flags in its name, and the one the port
  builder sets is receive-side scaling alone.
\<close>

lemma rx_mq_modes:
  "map_of (enumerators enum_rte_eth_rx_mq_mode) ''ETH_MQ_RX_NONE'' = Some (uint ETH_MQ_RX_NONE)"
  "map_of (enumerators enum_rte_eth_rx_mq_mode) ''ETH_MQ_RX_RSS'' = Some (uint ETH_MQ_RX_RSS)"
  "map (\<lambda>n. value_in link_constants (''ETH_MQ_RX_'' @ n)) [''RSS_FLAG'', ''DCB_FLAG'', ''VMDQ_FLAG'']
     = map (map_of (enumerators enum_rte_eth_rx_mq_mode))
         [''ETH_MQ_RX_RSS'', ''ETH_MQ_RX_DCB'', ''ETH_MQ_RX_VMDQ_ONLY'']"
  by (simp_all add: enum_rte_eth_rx_mq_mode_def link_constants_def value_in_def
      ETH_MQ_RX_NONE_def ETH_MQ_RX_RSS_def)

end
