(* ===== verification/Port_Image.thy ===== *)
theory Port_Image
  imports Port Bound_Default
begin

text \<open>
  The port configuration one level down: \<open>PortBuilder::finish\<close> of \<open>engine/src/dpdk/port.rs\<close>
  starts from the default \<open>rte_eth_conf\<close>, 3080 zero bytes, and assigns three fields deep
  inside it. These are the bytes \<open>rte_eth_dev_configure\<close> gets to read.
\<close>

definition mq_mode_path :: "string list" where
  "mq_mode_path = [''rxmode'', ''mq_mode'']"

definition rss_hf_path :: "string list" where
  "rss_hf_path = [''rx_adv_conf'', ''rss_conf'', ''rss_hf'']"

definition offloads_path :: "string list" where
  "offloads_path = [''txmode'', ''offloads'']"

abbreviation "conf_paths \<equiv> [mq_mode_path, rss_hf_path, offloads_path]"

definition conf_load :: "string list \<Rightarrow> u8 list \<Rightarrow> 'w::len word option" where
  "conf_load path img = map_option le_word (load_field ty_rte_eth_conf path img)"

definition conf_store :: "string list \<Rightarrow> 'w::len word \<Rightarrow> u8 list \<Rightarrow> u8 list option" where
  "conf_store path w img =
     store_field ty_rte_eth_conf path (le_bytes (LENGTH('w) div 8) w) img"

section \<open>The assignments of finish\<close>

definition conf_rss :: "u16 \<Rightarrow> dev_info \<Rightarrow> u8 list \<Rightarrow> u8 list option" where
  "conf_rss len info img =
     (if 1 < len
      then Option.bind (conf_store mq_mode_path ETH_MQ_RX_RSS img)
             (conf_store rss_hf_path (DEFAULT_RSS_HF AND flow_type_rss_offloads info))
      else Some img)"

definition conf_fast_free :: "dev_info \<Rightarrow> u8 list \<Rightarrow> u8 list option" where
  "conf_fast_free info img =
     (if 0 < (tx_offload_capa info AND ucast DEV_TX_OFFLOAD_MBUF_FAST_FREE)
      then Option.bind (conf_load offloads_path img) (\<lambda>w :: u64.
             conf_store offloads_path (w OR ucast DEV_TX_OFFLOAD_MBUF_FAST_FREE) img)
      else Some img)"

definition conf_bytes_for :: "u16 \<Rightarrow> dev_info \<Rightarrow> u8 list option" where
  "conf_bytes_for len info =
     Option.bind (conf_rss len info default_rte_eth_conf) (conf_fast_free info)"

section \<open>Lemmas\<close>

lemma conf_slots:
  "slot_at ty_rte_eth_conf mq_mode_path = Some (8, U32)"
  "slot_at ty_rte_eth_conf rss_hf_path = Some (144, U64)"
  "slot_at ty_rte_eth_conf offloads_path = Some (72, U64)"
  "slot_at ty_rte_eth_conf [''link_speeds''] = Some (0, U32)"
  by (simp_all add: mq_mode_path_def rss_hf_path_def offloads_path_def ty_rte_eth_conf_def
      ty_rte_eth_rxmode_def ty_rte_eth_txmode_def ty_rte_eth_rss_conf_def
      ty_rte_eth_conf__bindgen_ty_1_def layout_simps layout_eval)

lemma conf_paths_apart:
  "p \<in> set conf_paths \<Longrightarrow> q \<in> set conf_paths \<Longrightarrow> p \<noteq> q \<Longrightarrow> slots_apart ty_rte_eth_conf p q"
  by (auto simp: slots_apart_def conf_slots simp del: slot_at.simps)

lemma conf_paths_distinct:
  "mq_mode_path \<noteq> rss_hf_path" "mq_mode_path \<noteq> offloads_path" "rss_hf_path \<noteq> offloads_path"
  by (simp_all add: mq_mode_path_def rss_hf_path_def offloads_path_def)

text \<open>
  The bytes of a configuration: the three fields hold its values, every place that overlaps
  none of them holds zeros.
\<close>

definition represents :: "eth_conf \<Rightarrow> u8 list \<Rightarrow> bool" where
  "represents c img \<longleftrightarrow>
     length img = c_size ty_rte_eth_conf
     \<and> conf_load mq_mode_path img = Some (rx_mq_mode c)
     \<and> conf_load rss_hf_path img = Some (rss_hf c)
     \<and> conf_load offloads_path img = Some (tx_offloads c)
     \<and> (\<forall>path off u. slot_at ty_rte_eth_conf path = Some (off, u)
          \<and> list_all (\<lambda>p. slots_apart ty_rte_eth_conf p path) conf_paths
          \<longrightarrow> load_field ty_rte_eth_conf path img = Some (zeroed u))"

lemma represents_default:
  "represents \<lparr>rx_mq_mode = ETH_MQ_RX_NONE, rss_hf = 0, tx_offloads = 0\<rparr> default_rte_eth_conf"
proof -
  have wf: "wf_type ty_rte_eth_conf" by (simp add: layout_simps)
  have "length default_rte_eth_conf = c_size ty_rte_eth_conf"
    by (simp add: default_rte_eth_conf_def zeroed_def)
  moreover note load_zeroed [OF wf]
  ultimately show ?thesis
    by (simp add: represents_def conf_load_def default_rte_eth_conf_def conf_slots ETH_MQ_RX_NONE_def)
qed

text \<open>A store to one of the three fields changes that field and nothing apart from it.\<close>

lemma conf_store_ok:
  fixes w :: "'w::len word"
  assumes "length img = c_size ty_rte_eth_conf"
    and "slot_at ty_rte_eth_conf p = Some (off, Scalar (LENGTH('w) div 8))" "LENGTH('w) mod 8 = 0"
  shows "\<exists>img'. conf_store p w img = Some img' \<and> length img' = c_size ty_rte_eth_conf
    \<and> conf_load p img' = Some w
    \<and> (\<forall>q. slots_apart ty_rte_eth_conf p q \<longrightarrow>
         load_field ty_rte_eth_conf q img' = load_field ty_rte_eth_conf q img)"
proof -
  have "off + LENGTH('w) div 8 \<le> c_size ty_rte_eth_conf"
    using slot_in_bounds [OF _ assms(2)] by (simp add: layout_simps)
  then obtain img' where st: "conf_store p w img = Some img'"
    using assms(1,2) by (auto simp: conf_store_def store_field_def mem_write_def)
  have "LENGTH('w) = 8 * (LENGTH('w) div 8)" using assms(3) by presburger
  then have "conf_load p img' = Some w"
    using load_store_same [OF st [unfolded conf_store_def]]
    by (simp add: conf_load_def le_word_le_bytes)
  moreover have "length img' = c_size ty_rte_eth_conf"
    using store_field_length [OF st [unfolded conf_store_def]] assms(1) by simp
  ultimately show ?thesis
    using st load_store_apart [OF st [unfolded conf_store_def]] by blast
qed

lemma represents_store:
  assumes "represents c img"
  shows "\<exists>img'. conf_store mq_mode_path w img = Some img' \<and> represents (c\<lparr>rx_mq_mode := w\<rparr>) img'"
    and "\<exists>img'. conf_store rss_hf_path h img = Some img' \<and> represents (c\<lparr>rss_hf := h\<rparr>) img'"
    and "\<exists>img'. conf_store offloads_path h img = Some img' \<and> represents (c\<lparr>tx_offloads := h\<rparr>) img'"
proof -
  have len: "length img = c_size ty_rte_eth_conf" using assms by (simp add: represents_def)
  note apart = conf_paths_apart conf_paths_distinct conf_paths_distinct [symmetric]
  show "\<exists>img'. conf_store mq_mode_path w img = Some img' \<and> represents (c\<lparr>rx_mq_mode := w\<rparr>) img'"
    using conf_store_ok [OF len, of mq_mode_path 8 w] assms
    by (auto simp: represents_def conf_load_def conf_slots apart)
  show "\<exists>img'. conf_store rss_hf_path h img = Some img' \<and> represents (c\<lparr>rss_hf := h\<rparr>) img'"
    using conf_store_ok [OF len, of rss_hf_path 144 h] assms
    by (auto simp: represents_def conf_load_def conf_slots apart)
  show "\<exists>img'. conf_store offloads_path h img = Some img' \<and> represents (c\<lparr>tx_offloads := h\<rparr>) img'"
    using conf_store_ok [OF len, of offloads_path 72 h] assms
    by (auto simp: represents_def conf_load_def conf_slots apart)
qed

lemma conf_rss_represents:
  assumes "represents c img"
  shows "\<exists>img'. conf_rss len info img = Some img'
    \<and> represents (if 1 < len then c\<lparr>rx_mq_mode := ETH_MQ_RX_RSS,
         rss_hf := DEFAULT_RSS_HF AND flow_type_rss_offloads info\<rparr> else c) img'"
proof (cases "1 < len")
  case True
  obtain i1 where i1: "conf_store mq_mode_path ETH_MQ_RX_RSS img = Some i1"
    "represents (c\<lparr>rx_mq_mode := ETH_MQ_RX_RSS\<rparr>) i1"
    using represents_store(1) [OF assms] by blast
  then show ?thesis using True represents_store(2) [OF i1(2)] by (auto simp: conf_rss_def)
qed (simp add: conf_rss_def assms)

lemma conf_fast_free_represents:
  assumes "represents c img"
  shows "\<exists>img'. conf_fast_free info img = Some img'
    \<and> represents (if 0 < (tx_offload_capa info AND ucast DEV_TX_OFFLOAD_MBUF_FAST_FREE)
         then c\<lparr>tx_offloads := tx_offloads c OR ucast DEV_TX_OFFLOAD_MBUF_FAST_FREE\<rparr> else c) img'"
  using assms represents_store(3) [OF assms]
  by (auto simp: conf_fast_free_def represents_def)

text \<open>The link speeds, for example, which \<open>finish\<close> does not set, are four zero bytes.\<close>

lemma represents_link_speeds:
  assumes "represents c img"
  shows "load_field ty_rte_eth_conf [''link_speeds''] img = Some [0, 0, 0, 0]"
proof -
  have "list_all (\<lambda>p. slots_apart ty_rte_eth_conf p [''link_speeds'']) conf_paths"
    by (simp add: slots_apart_def conf_slots del: slot_at.simps)
  then have "load_field ty_rte_eth_conf [''link_speeds''] img = Some (zeroed U32)"
    using assms conf_slots(4) unfolding represents_def by blast
  then show ?thesis by (simp add: zeroed_def numeral_eq_Suc)
qed

section \<open>The configuration of a port\<close>

text \<open>
  C16: The assignments of \<open>PortBuilder::finish\<close>, run as stores into the zeroed 3080 bytes of
  \<open>rte_eth_conf\<close>, never miss the struct and leave exactly the configuration that \<open>eth_conf_for\<close>
  computes: receive-side scaling and its hash functions for more than one core, the fast
  release of buffers where the device offers it, and zeros in every other field.
\<close>

theorem port_conf_bytes:
  "\<exists>img. conf_bytes_for len info = Some img \<and> represents (eth_conf_for len info) img"
proof -
  let ?c = "\<lparr>rx_mq_mode = ETH_MQ_RX_NONE, rss_hf = 0, tx_offloads = 0\<rparr>"
  obtain i1 where i1: "conf_rss len info default_rte_eth_conf = Some i1"
    "represents (if 1 < len then ?c\<lparr>rx_mq_mode := ETH_MQ_RX_RSS,
       rss_hf := DEFAULT_RSS_HF AND flow_type_rss_offloads info\<rparr> else ?c) i1"
    using conf_rss_represents [OF represents_default] by blast
  then show ?thesis
    using conf_fast_free_represents [OF i1(2), of info]
    by (auto simp: conf_bytes_for_def eth_conf_for_def Let_def split: if_splits)
qed

end
