(* ===== verification/Spec2Isabelle.thy ===== *)
theory Spec2Isabelle
  imports Prelude Ffi Rust_Text Mac Dpdk Mempool Mbuf Cidr Cidr_V4 Cidr_V6 Routing Headers
    Concurrent_Map Mem_Ring Port Engine Engine_Data Work_Horse Client_Comm Config
    Layout Bitfield Bound_Types Memory_Image Mbuf_Bits Mbuf_Image
    Ipv6_Text Memzone Core_Map Debug_Text Ownership Unit_Tests
    Metrics Build_Script Bit_Tables Core_List Macros
    Bound_Default Bound_Consts Bound_Enums Port_Image
begin

text \<open>
  l2switch is a user-space Ethernet switch for containers in Rust on top of DPDK. The crate
  \<open>sw-engine/engine\<close> is the switch, the crate \<open>sw-engine/ffi\<close> its bindings to DPDK. This library
  models both as far as they are the program's own, and proves what its parts do.

  The program. A configuration file names memory, cores and ports (\<open>config.rs\<close>). The engine
  starts DPDK's environment (\<open>dpdk/mod.rs\<close>), creates a pool of message buffers per CPU socket
  (\<open>dpdk/mempool.rs\<close>) and the ports with a queue pair per core (\<open>dpdk/port.rs\<close>). A worker thread
  (\<open>runtime/engine.rs\<close>) runs three tasks: one receives batches of packets (\<open>dpdk/mbuf.rs\<close>) into a
  bounded queue, one takes them out, reads their headers (\<open>net/\<close>) and records them in the
  forwarding table (\<open>net/routing_table.rs\<close>), one applies the messages of container clients. A
  client (\<open>dockerlib/client_comm.rs\<close>) announces itself over a message socket; the engine then
  creates two rings for it (\<open>dpdk/memring.rs\<close>), through which the packets are to flow.
\<close>

section \<open>How the program is modelled\<close>

text \<open>
  A struct is a record, an enum a datatype, an integer a word of its width. Arithmetic that Rust
  checks in the \<open>dev\<close> profile and wraps in \<open>release\<close> takes the profile as an argument. A call
  gives an \<open>outcome\<close>: a value, an error value, a panic or undefined behaviour; a loop that need
  not end is a partial function, and \<open>None\<close> means that it does not. State is passed explicitly:
  the heap of message buffers, a device, a socket, the store of rings.

  Functions of other packages and of DPDK are arguments of the definitions that call them. What
  is relied on of them is the documented behaviour, stated in a locale or, for
  \<open>rte_eth_rx_burst\<close>, in \<open>rx_contract\<close>. Each locale is interpreted: the two of the CIDR ranges on
  the ranges themselves, the others on executable stand-ins of the package's objects, with which
  the witnesses compute. The macro \<open>ensure!\<close> is the function \<open>ensure\<close>: the early return and the rest
  of the function are its arguments.
\<close>

section \<open>The theories\<close>

text \<open>
  Shared: \<open>Prelude\<close> (word types, profiles, outcomes, checked \<open>usize\<close> arithmetic, lists as
  memory); \<open>Rust_Text\<close> and \<open>Ipv6_Text\<close> (splitting, numbers and IP addresses as text, from Rust's
  standard library); \<open>Concurrent_Map\<close> (the interface of the concurrent hash maps);
  \<open>Debug_Text\<close> (\<open>Debug\<close> output of the types).

  Tests: \<open>Cidr_Tests\<close> (the unit tests and property-based tests of \<open>net/cidr/v4.rs\<close> and \<open>v6.rs\<close>, as
  functions to \<open>bool\<close>) and \<open>Unit_Tests\<close> (those of \<open>net/mac.rs\<close> and \<open>config.rs\<close>).

  DPDK layer, \<open>engine/src/\<close>: \<open>Ffi\<close> (\<open>ffi.rs\<close>: C strings, return values), \<open>Dpdk\<close> (\<open>dpdk/mod.rs\<close>: errors,
  sockets, cores, start and stop, bulk release), \<open>Mempool\<close> (\<open>dpdk/mempool.rs\<close>), \<open>Mbuf\<close>
  (\<open>dpdk/mbuf.rs\<close>: the buffer as a byte region with head room, data and tail room), \<open>Mem_Ring\<close>
  (\<open>dpdk/memring.rs\<close>: rings, channels, the engine's map of channels), \<open>Port\<close> (\<open>dpdk/port.rs\<close>: queue
  pairs, transmission, life cycle, builder), \<open>Memzone\<close> (\<open>dpdk/memzone.rs\<close>), \<open>Ownership\<close> (allocation,
  rings, devices and the drop of values together: who owns each message buffer).

  Network: \<open>Mac\<close> (\<open>net/mac.rs\<close>), \<open>Cidr\<close>, \<open>Cidr_V4\<close>, \<open>Cidr_V6\<close> (\<open>net/cidr/\<close>), \<open>Routing\<close>
  (\<open>net/routing_table.rs\<close> with its reader-writer locks), \<open>Headers\<close> (\<open>net/mod.rs\<close>, \<open>net/ether.rs\<close>,
  \<open>net/ipv4.rs\<close> and the accessors of \<open>ffi/src/shim.c\<close>).

  Engine: \<open>Engine\<close>, \<open>Engine_Data\<close> and \<open>Work_Horse\<close> (\<open>runtime/engine.rs\<close>: control plane, data plane,
  worker thread), \<open>Client_Comm\<close> (\<open>dockerlib/client_comm.rs\<close>), \<open>Config\<close> (\<open>config.rs\<close>), \<open>Core_List\<close>
  (the core list of \<open>to_eal_args\<close> against a reference), \<open>Core_Map\<close> (\<open>runtime/coremap_old.rs\<close>),
  \<open>Metrics\<close> (\<open>metrics.rs\<close>), \<open>Macros\<close> (the logging macros of \<open>macros.rs\<close>).

  Bindings, \<open>ffi/src/bindings_rustdoc.rs\<close>: \<open>Layout\<close> (sizes and offsets of \<open>repr(C)\<close> types),
  \<open>Bound_Types\<close> (the types the engine works on, up to the port configuration), \<open>Bound_Eal\<close>,
  \<open>Bound_Packets\<close>, \<open>Bound_Flow\<close>, \<open>Bound_Filters\<close> and \<open>Bound_Ethdev\<close> (all others), each type with the
  expectations of its layout test, \<open>Bound_All\<close> (the tests together), \<open>Bitfield\<close> (the storage unit of
  bit fields), \<open>Mbuf_Bits\<close> (the bit fields of \<open>rte_mbuf\<close>), \<open>Bit_Tables\<close> (those of the other types),
  \<open>Memory_Image\<close> (loads and stores of fields), \<open>Mbuf_Image\<close> (\<open>rte_mbuf\<close> as bytes in memory),
  \<open>Bound_Default\<close> (the \<open>Default\<close> impls), \<open>Bound_Consts\<close> and \<open>Bound_Enums\<close> (all constants and
  enumerations) and \<open>Port_Image\<close> (the port configuration as bytes). \<open>Build_Script\<close> is
  \<open>ffi/build.rs\<close>.
\<close>

section \<open>What is proved\<close>

text \<open>
  Message buffers. The well-formedness of a buffer (\<open>wf_mbuf\<close>) is an invariant of every
  operation; \<open>extend\<close>, \<open>shrink\<close>, the slice accessors and \<open>from_bytes\<close> are specified on every
  branch over the packet's bytes, and \<open>write_data\<close> with its error values (\<open>write_data_spec\<close>). Run as
  loads and stores at the C layout of \<open>rte_mbuf\<close>, the resizing operations refine those
  definitions (\<open>mbuf_memory_refines\<close>). Releasing and transmitting buffers gives each of them up
  exactly once, under the contracts of the pools and of the device. In every reachable state each
  live buffer is in one value, in one slot of one ring, or leaked, and never in two of these
  places; the ghost logs of what DPDK handed out and got back agree, so that nothing is freed or
  sent twice (\<open>buffers_owned_once\<close>). The port builder is specified with every call that can fail.

  Layout. A well-formed \<open>repr(C)\<close> struct has its fields aligned, in order and disjoint, and all
  295 layout tests of the bindings pass on the modelled types; bit fields are set and read
  without touching others, and the packet type's agree with DPDK's masks. Every field of a
  default value is zero, and the port builder's assignments to the default \<open>rte_eth_conf\<close> leave
  exactly the configuration of theory \<open>Port\<close> (\<open>port_conf_bytes\<close>). Every constant and enumerator is
  a value of its declared type; packet types lie in the layer they are named after, hash
  functions are the bits of their flow types, and flags of received and sent packets are apart.

  Addresses. Membership in a range is an interval for both families, iteration
  enumerates it, masks and prefix lengths agree, and texts of ranges and of MAC
  addresses parse back. The range of prefix length 0, which \<open>Default\<close> gives and \<open>new\<close> does not, is the
  exception that the theorems state. The repository's tests of these parts run on the model: all pass
  except the one of \<open>to_eal_args\<close>, and the property-based ones hold for every input. The core
  list of \<open>to_eal_args\<close> names the cores whose number is not hidden inside an earlier one's.

  Engine. In every reachable state the rings that exist are exactly those of the registered
  clients (rule induction over \<open>engine_reach\<close>); each client message has the stated effect on every
  branch. Receiving fills the queue and processing drains it; composed in \<open>work_horse\<close>, a
  worker forwards nothing, whatever the order in which its tasks are polled: it returns without having
  asked a port, or, once the stop sender is gone, fills the queue and spins. A registered client finds the
  very channel the engine stored for it (\<open>client_channel_not_crossed\<close>). A batch of
  \<open>Core_Map\<close> neither loses nor repeats a packet. The metrics store has one receiver for good, and
  registered statistics go to its sink.

  Some properties state behaviour that is certainly not intended, because the code has
  it: \<open>RoutingTable::add\<close> blocks on its own lock, the engine cannot parse a client's messages, a
  received packet is lost, client and engine send into the same ring, error values underflow,
  the bounds checks of \<open>write_data\<close> and \<open>shrink\<close> wrap, the default CIDR range does not parse back and
  cannot be iterated in \<open>dev\<close>, and core 1 is dropped after core 10.
\<close>

section \<open>Bounds and termination\<close>

text \<open>
  No definition needs fuel. \<open>transmit_loop\<close> ends because every round sends a packet or
  gives the rest back, \<open>fill_queue\<close> because every pass of a non-empty list of ports pushes a
  batch, the iterators because the next address grows towards the last. \<open>fill_queue\<close>, \<open>rx_loop\<close> and
  \<open>process_packets\<close> are partial functions; that they return, or do not, is part of their
  properties. \<open>rx_steps\<close> runs the loops of \<open>rx_main\<close> a given number of steps, for runs that never end;
  \<open>rx_main_after_iff\<close> shows that the two agree. The poll order of \<open>work_horse\<close> is a finite list of rounds
  of any length, each poll of \<open>rx_main\<close> with the number of steps after which it is looked at. A thread that
  has not returned by then, or whose executor has nothing more to poll, is \<open>Stuck\<close>, with its state at
  that moment; it never returns if that is so for every number of steps.

  Lists that stand for vectors are bounded where the code counts in a word: transmission
  is specified for up to 65535 packets, bulk release for fewer than 2 to the 32; the bounds
  are premises of the theorems. Integers are stored least significant byte first, as on x86-64.
\<close>

section \<open>Not modelled\<close>

text \<open>
  Of \<open>bindings_rustdoc.rs\<close>: the extern functions, which have no body and are arguments where they
  are called, and the aliases of integer and pointer types, for which the types themselves stand.
  The macros of the package tracing are an argument of the logging macros, whose calls are left
  out of the definitions: they change no state of the program. \<open>Port::stats\<close> and
  \<open>Mempool::stats\<close>, which \<open>metrics.rs\<close> calls and the repository does not have, the C compiler and
  the generator of the bindings, which \<open>ffi/build.rs\<close> runs, and the task pools of
  \<open>coremap_old.rs\<close> are arguments or left out. Parsers of TOML and of the command line, the regular
  expressions of the device names, JSON, the message socket and the hash maps are arguments.
  Concurrency is modelled where the code's behaviour depends on it: the locks of the forwarding
  table, and the order of the tasks of a worker; the weak memory behaviour of the hardware is
  not.
\<close>

end
